(* ===== verification/Prelude.thy ===== *)
theory Prelude
  imports Complex_Main "HOL-Library.Word" "HOL-Library.List_Lexorder"
begin

text \<open>
  Shared vocabulary of the development: JavaScript strings as sequences of 16-bit code
  units, the string operations the sources call, the result type of fallible operations,
  and generic facts on lists and maps.  Every component theory builds on this one.
\<close>

section \<open>Collections of rewrite rules\<close>

named_theorems js_lib \<open>characterisations of the modelled JavaScript library functions\<close>

section \<open>JavaScript strings\<close>

text \<open>
  A JavaScript string is a sequence of UTF-16 code units: \<open>s.length\<close> counts code units and
  \<open>s[i]\<close> is one code unit.  A literal of the source is written \<open>js ''...''\<close>.
\<close>

type_synonym jchar = "16 word"
type_synonym jstring = "jchar list"

definition js :: "string \<Rightarrow> jstring" where
  "js s = map of_char s"

abbreviation slash :: jchar where "slash \<equiv> 47"
abbreviation asterisk :: jchar where "asterisk \<equiv> 42"

lemma of_char_less_256: "(of_char c :: nat) < 256"
proof (cases c)
  case (Char b0 b1 b2 b3 b4 b5 b6 b7)
  have "horner_sum of_bool (2 :: nat) [b0, b1, b2, b3, b4, b5, b6, b7] < 2 ^ 8"
    using horner_sum_of_bool_2_less [of "[b0, b1, b2, b3, b4, b5, b6, b7]"] by simp
  with Char show ?thesis by (simp only: of_char_Char) simp
qed

lemma unat_of_char: "unat (of_char c :: jchar) = of_char c"
proof -
  have "(of_char c :: jchar) = word_of_nat (of_char c)"
    by (simp add: of_nat_of_char)
  then have "unat (of_char c :: jchar) = take_bit 16 (of_char c :: nat)"
    by (simp only: unsigned_of_nat) simp
  then show ?thesis
    using of_char_less_256 [of c] by (simp add: take_bit_nat_eq_self)
qed

lemma of_char_jchar_inj: "(of_char c :: jchar) = of_char d \<longleftrightarrow> c = d"
  by (metis unat_of_char of_char_eq_iff)

lemma js_eq_iff [simp]: "js s = js t \<longleftrightarrow> s = t"
proof
  assume "js s = js t"
  then show "s = t"
    by (auto simp: js_def of_char_jchar_inj inj_on_def intro: map_injective [of of_char])
qed simp

lemma js_append: "js (s @ t) = js s @ js t"
  by (simp add: js_def)

lemma js_Nil [simp]: "js [] = []"
  by (simp add: js_def)

lemma js_eq_Nil [simp]: "js s = [] \<longleftrightarrow> s = []" "[] = js s \<longleftrightarrow> s = []"
  by (auto simp: js_def)

lemma length_js [simp]: "length (js s) = length s"
  by (simp add: js_def)

section \<open>Sets in insertion order\<close>

text \<open>
  A JavaScript \<open>Set\<close> iterates its elements in the order of their first insertion;
  \<open>js_set xs\<close> lists \<open>new Set(xs)\<close> in that order.
\<close>

definition js_set :: "'a list \<Rightarrow> 'a list" where
  "js_set xs = rev (remdups (rev xs))"

lemma set_js_set [simp]: "set (js_set xs) = set xs"
  by (simp add: js_set_def)

lemma distinct_js_set [simp]: "distinct (js_set xs)"
  by (simp add: js_set_def)

lemma js_set_eq_Nil [simp]: "js_set xs = [] \<longleftrightarrow> xs = []"
  by (metis set_js_set set_empty)

section \<open>Values and library functions of the language\<close>

text \<open>
  A value of TypeScript type \<open>unknown\<close>: a string, or anything else, of which the sources
  only ever use \<open>String(value)\<close>.
\<close>

datatype js_unknown = JString jstring | JOther jstring

primrec js_String :: "js_unknown \<Rightarrow> jstring" where
  "js_String (JString s) = s"
| "js_String (JOther s) = s"

text \<open>Numbers that are only carried, never computed with, are rationals.\<close>

type_synonym js_number = rat

definition startsWith :: "jstring \<Rightarrow> jstring \<Rightarrow> bool" where
  "startsWith s p \<longleftrightarrow> take (length p) s = p"

definition endsWith :: "jstring \<Rightarrow> jstring \<Rightarrow> bool" where
  "endsWith s p \<longleftrightarrow> length p \<le> length s \<and> drop (length s - length p) s = p"

fun js_includes :: "jstring \<Rightarrow> jstring \<Rightarrow> bool" where
  "js_includes [] p = (p = [])"
| "js_includes (c # cs) p = (startsWith (c # cs) p \<or> js_includes cs p)"

fun js_join :: "jstring \<Rightarrow> jstring list \<Rightarrow> jstring" where
  "js_join sep [] = []"
| "js_join sep [x] = x"
| "js_join sep (x # y # zs) = x @ sep @ js_join sep (y # zs)"

text \<open>\<open>toLowerCase\<close> on the ASCII letters (logins, repository paths and keywords are ASCII).\<close>

definition lower_char :: "jchar \<Rightarrow> jchar" where
  "lower_char c = (if 65 \<le> c \<and> c \<le> 90 then c + 32 else c)"

definition toLowerCase :: "jstring \<Rightarrow> jstring" where
  "toLowerCase s = map lower_char s"

lemma lower_char_idem: "lower_char (lower_char c) = lower_char c"
proof (cases "65 \<le> c \<and> c \<le> 90")
  case True
  then have "unat (c + 32) = unat c + 32"
    by (intro unat_add_lem [THEN iffD1, THEN trans]) (simp_all add: word_le_nat_alt)
  with True show ?thesis by (auto simp: lower_char_def word_le_nat_alt)
qed (simp add: lower_char_def)

lemma toLowerCase_idem [simp]: "toLowerCase (toLowerCase s) = toLowerCase s"
  by (simp add: toLowerCase_def lower_char_idem)

text \<open>Decimal rendering of an integer in a template literal.\<close>

fun js_nat :: "nat \<Rightarrow> jstring" where
  "js_nat n = (if n < 10 then [48 + of_nat n] else js_nat (n div 10) @ [48 + of_nat (n mod 10)])"

declare js_nat.simps [simp del]

definition js_int :: "int \<Rightarrow> jstring" where
  "js_int i = (if i < 0 then 45 # js_nat (nat (- i)) else js_nat (nat i))"

text \<open>The value of a string of decimal digits.\<close>

definition digits_value :: "jstring \<Rightarrow> nat" where
  "digits_value s = foldl (\<lambda>n c. 10 * n + (unat c - 48)) 0 s"

lemma js_nat_digits: "c \<in> set (js_nat n) \<Longrightarrow> 48 \<le> unat c \<and> unat c < 58"
proof (induction n rule: js_nat.induct)
  case (1 n)
  have digit: "unat (48 + of_nat k :: jchar) = 48 + k" if "k < 10" for k
    using that by (simp add: unat_word_ariths unat_of_nat)
  from 1 show ?case
    by (subst (asm) js_nat.simps) (auto simp: digit split: if_splits)
qed

lemma js_nat_value: "digits_value (js_nat n) = n"
proof (induction n rule: js_nat.induct)
  case (1 n)
  have digit: "unat (48 + of_nat k :: jchar) = 48 + k" if "k < 10" for k
    using that by (simp add: unat_word_ariths unat_of_nat)
  show ?case
  proof (cases "n < 10")
    case True
    then show ?thesis by (subst js_nat.simps) (simp add: digits_value_def digit)
  next
    case False
    with 1 have "foldl (\<lambda>n c. 10 * n + (unat c - 48)) 0 (js_nat (n div 10)) = n div 10"
      by (simp add: digits_value_def)
    with False show ?thesis by (subst js_nat.simps) (simp add: digits_value_def digit)
  qed
qed

lemma startsWith_iff: "startsWith s p \<longleftrightarrow> (\<exists>v. s = p @ v)"
  by (metis startsWith_def append_take_drop_id append_eq_conv_conj)

lemma startsWith_js [simp]: "startsWith (js s) (js p) \<longleftrightarrow> take (length p) s = p"
  by (metis startsWith_def js_def js_eq_iff length_js take_map)

lemma endsWith_iff: "endsWith s p \<longleftrightarrow> (\<exists>u. s = u @ p)"
proof
  assume "endsWith s p"
  then have "s = take (length s - length p) s @ p"
    by (metis endsWith_def append_take_drop_id)
  then show "\<exists>u. s = u @ p" ..
qed (auto simp: endsWith_def)

lemma includes_iff: "js_includes s p \<longleftrightarrow> (\<exists>u v. s = u @ p @ v)"
proof (induction s)
  case (Cons c s)
  then show ?case
    by (auto simp: startsWith_iff Cons_eq_append_conv)
qed simp

end
