(* ===== verification/Worklist.thy ===== *)
theory Worklist
  imports Prelude
begin

text \<open>
  The loop shape shared by the three searches of \<open>packages/kernel/src/path-glob.ts\<close>:
  a stack of pending states, a set of visited states, an early return, and pushes of the
  successors.

  \<^verbatim>\<open>
    while (pending.length > 0) {
      const state = pending.pop()!;
      if (visited.has(key(state))) continue;
      visited.add(key(state));
      ...  // return early, or push successors
    }\<close>

  The stack is a list with its top first; pushing \<open>x\<close> and then \<open>y\<close> puts \<open>y\<close> on top.
  The loop is defined without a termination argument (\<open>None\<close> is "does not return"); the
  locale \<open>worklist_search\<close> proves, for a search space that stays inside a finite set,
  that it returns and what it returns.
\<close>

section \<open>The loop\<close>

partial_function (option) worklist ::
  "('s list \<Rightarrow> 's \<Rightarrow> 'r option) \<Rightarrow> ('s \<Rightarrow> 's list) \<Rightarrow> 's list \<Rightarrow> 's list \<Rightarrow> ('r + 's list) option"
where
  "worklist quit succs pending visited =
     (case pending of
        [] \<Rightarrow> Some (Inr visited)
      | s # rest \<Rightarrow>
          if s \<in> set visited then worklist quit succs rest visited
          else (case quit (s # visited) s of
                  Some r \<Rightarrow> Some (Inl r)
                | None \<Rightarrow> worklist quit succs (rev (succs s) @ rest) (s # visited)))"

declare worklist.simps [code]

lemma worklist_Nil: "worklist quit succs [] visited = Some (Inr visited)"
  by (simp add: worklist.simps)

lemma worklist_visited:
  "s \<in> set visited \<Longrightarrow>
     worklist quit succs (s # rest) visited = worklist quit succs rest visited"
  by (subst worklist.simps) simp

lemma worklist_quit:
  "s \<notin> set visited \<Longrightarrow> quit (s # visited) s = Some r \<Longrightarrow>
     worklist quit succs (s # rest) visited = Some (Inl r)"
  by (subst worklist.simps) simp

lemma worklist_step:
  "s \<notin> set visited \<Longrightarrow> quit (s # visited) s = None \<Longrightarrow>
     worklist quit succs (s # rest) visited =
       worklist quit succs (rev (succs s) @ rest) (s # visited)"
  by (subst worklist.simps) simp

lemmas worklist_unfolds = worklist_Nil worklist_visited worklist_quit worklist_step

section \<open>States reachable through the successor function\<close>

inductive wl_reach :: "('s \<Rightarrow> 's list) \<Rightarrow> 's set \<Rightarrow> 's \<Rightarrow> bool" for succs init where
  wl_init: "s \<in> init \<Longrightarrow> wl_reach succs init s"
| wl_succ: "wl_reach succs init s \<Longrightarrow> t \<in> set (succs s) \<Longrightarrow> wl_reach succs init t"

lemma wl_reach_trans:
  "wl_reach succs init t \<Longrightarrow> (\<And>s. s \<in> init \<Longrightarrow> wl_reach succs init' s) \<Longrightarrow> wl_reach succs init' t"
  by (induction rule: wl_reach.induct) (auto intro: wl_reach.intros)

lemma wl_reach_mono: "wl_reach succs init t \<Longrightarrow> init \<subseteq> init' \<Longrightarrow> wl_reach succs init' t"
  by (erule wl_reach_trans) (auto intro: wl_init)

lemma wl_reach_closed:
  assumes "wl_reach succs init t" and "init \<subseteq> V" and "\<And>s. s \<in> V \<Longrightarrow> set (succs s) \<subseteq> V"
  shows "t \<in> V"
  using assms by (induction rule: wl_reach.induct) auto

section \<open>The contract of a terminating search\<close>

locale worklist_search =
  fixes quit :: "'s list \<Rightarrow> 's \<Rightarrow> 'r option"
    and succs :: "'s \<Rightarrow> 's list"
    and universe :: "'s set"
  assumes finite_universe: "finite universe"
    and succs_universe: "s \<in> universe \<Longrightarrow> set (succs s) \<subseteq> universe"
begin

text \<open>
  The induction the loop justifies: each iteration either shortens the stack or visits one
  more state of the finite universe.
\<close>

lemma search_induct [consumes 1, case_names Empty Seen Quit Visit]:
  assumes "set pending \<subseteq> universe"
    and "\<And>visited. P [] visited"
    and "\<And>s rest visited. s \<in> universe \<Longrightarrow> set rest \<subseteq> universe \<Longrightarrow> s \<in> set visited \<Longrightarrow>
           P rest visited \<Longrightarrow> P (s # rest) visited"
    and "\<And>s rest visited r. s \<in> universe \<Longrightarrow> set rest \<subseteq> universe \<Longrightarrow> s \<notin> set visited \<Longrightarrow>
           quit (s # visited) s = Some r \<Longrightarrow> P (s # rest) visited"
    and "\<And>s rest visited. s \<in> universe \<Longrightarrow> set rest \<subseteq> universe \<Longrightarrow> s \<notin> set visited \<Longrightarrow>
           quit (s # visited) s = None \<Longrightarrow> P (rev (succs s) @ rest) (s # visited) \<Longrightarrow>
           P (s # rest) visited"
  shows "P pending visited"
  using assms(1)
proof (induction "(pending, visited)" arbitrary: pending visited
    rule: wf_induct_rule [OF wf_measures
      [of "[\<lambda>(p, v). card (universe - set v), \<lambda>(p, v). length p]"]])
  case 1
  note IH = "1.hyps"
  show ?case
  proof (cases pending)
    case Nil
    then show ?thesis using assms(2) by simp
  next
    case (Cons s rest)
    with "1.prems" have s: "s \<in> universe" and rest: "set rest \<subseteq> universe" by auto
    show ?thesis
    proof (cases "s \<in> set visited")
      case True
      have "P rest visited" by (rule IH) (use Cons rest in auto)
      with assms(3) [OF s rest True] Cons show ?thesis by simp
    next
      case fresh: False
      have smaller: "card (universe - set (s # visited)) < card (universe - set visited)"
        by (rule psubset_card_mono) (use finite_universe s fresh in auto)
      show ?thesis
      proof (cases "quit (s # visited) s")
        case None
        have "P (rev (succs s) @ rest) (s # visited)"
          by (rule IH) (use smaller rest succs_universe [OF s] in auto)
        with assms(5) [OF s rest fresh None] Cons show ?thesis by simp
      next
        case (Some r)
        with assms(4) [OF s rest fresh] Cons show ?thesis by simp
      qed
    qed
  qed
qed

lemma search_returns:
  "set pending \<subseteq> universe \<Longrightarrow> \<exists>r. worklist quit succs pending visited = Some r"
  by (induction pending visited rule: search_induct) (auto simp: worklist_unfolds)

text \<open>
  An early return happens at a state that is reachable from the stack, with a visited list
  that holds only reachable states, none of them twice.
\<close>

lemma search_quit_reachable:
  assumes "set pending \<subseteq> universe" and "worklist quit succs pending visited = Some (Inl r)"
    and "distinct visited"
  shows "\<exists>s visited'. wl_reach succs (set pending) s \<and> quit visited' s = Some r \<and> distinct visited'
    \<and> set visited' \<subseteq> set visited \<union> Collect (wl_reach succs (set pending))"
  using assms
proof (induction pending visited rule: search_induct)
  case (Empty visited)
  then show ?case by (simp add: worklist_Nil)
next
  case (Seen s rest visited)
  then obtain t v where "wl_reach succs (set rest) t" "quit v t = Some r" "distinct v"
      "set v \<subseteq> set visited \<union> Collect (wl_reach succs (set rest))"
    by (auto simp: worklist_visited)
  moreover have "\<And>u. wl_reach succs (set rest) u \<Longrightarrow> wl_reach succs (set (s # rest)) u"
    by (erule wl_reach_mono) auto
  ultimately show ?case by blast
next
  case (Quit s rest visited r')
  have "wl_reach succs (set (s # rest)) s" by (auto intro: wl_init)
  with Quit show ?case by (intro exI [of _ s] exI [of _ "s # visited"]) (auto simp: worklist_quit)
next
  case (Visit s rest visited)
  then obtain t v where t: "wl_reach succs (set (rev (succs s) @ rest)) t" "quit v t = Some r"
      "distinct v"
      "set v \<subseteq> set (s # visited) \<union> Collect (wl_reach succs (set (rev (succs s) @ rest)))"
    by (auto simp: worklist_step)
  have lift: "\<And>u. wl_reach succs (set (rev (succs s) @ rest)) u \<Longrightarrow> wl_reach succs (set (s # rest)) u"
    by (erule wl_reach_trans) (auto intro: wl_reach.intros)
  have "wl_reach succs (set (s # rest)) s" by (auto intro: wl_init)
  with t lift have "set v \<subseteq> set visited \<union> Collect (wl_reach succs (set (s # rest)))" by auto
  with t lift show ?case by blast
qed

text \<open>
  A search that runs to its end has visited a set that holds the stack, is closed under
  successors (given that what it had visited before was, up to the stack), and at every new
  state of which the early return was declined.
\<close>

lemma search_completes:
  assumes "set pending \<subseteq> universe" and "worklist quit succs pending visited = Some (Inr visited')"
    and "\<forall>s \<in> set visited. set (succs s) \<subseteq> set visited \<union> set pending"
    and "\<forall>s \<in> set visited. \<exists>v. set v \<subseteq> set visited \<and> quit v s = None"
  shows "set visited \<union> set pending \<subseteq> set visited'
    \<and> (\<forall>s \<in> set visited'. set (succs s) \<subseteq> set visited')
    \<and> (\<forall>s \<in> set visited'. \<exists>v. set v \<subseteq> set visited' \<and> quit v s = None)"
  using assms
proof (induction pending visited rule: search_induct)
  case (Empty visited)
  then show ?case by (auto simp: worklist_Nil)
next
  case (Seen s rest visited)
  have same: "set visited \<union> set (s # rest) = set visited \<union> set rest"
    using Seen.hyps(3) by auto
  show ?case
    unfolding same by (rule Seen.IH) (use Seen same in \<open>auto simp: worklist_visited\<close>)
next
  case (Quit s rest visited r')
  then show ?case by (simp add: worklist_quit)
next
  case (Visit s rest visited)
  have "set (s # visited) \<union> set (rev (succs s) @ rest) \<subseteq> set visited'
    \<and> (\<forall>s \<in> set visited'. set (succs s) \<subseteq> set visited')
    \<and> (\<forall>s \<in> set visited'. \<exists>v. set v \<subseteq> set visited' \<and> quit v s = None)"
  proof (rule Visit.IH)
    show "worklist quit succs (rev (succs s) @ rest) (s # visited) = Some (Inr visited')"
      using Visit by (simp add: worklist_step)
    show "\<forall>t \<in> set (s # visited). set (succs t) \<subseteq> set (s # visited) \<union> set (rev (succs s) @ rest)"
      using Visit.prems(2) by auto
    show "\<forall>t \<in> set (s # visited). \<exists>v. set v \<subseteq> set (s # visited) \<and> quit v t = None"
    proof
      fix t assume "t \<in> set (s # visited)"
      then consider "t = s" | "t \<in> set visited" by auto
      then show "\<exists>v. set v \<subseteq> set (s # visited) \<and> quit v t = None"
      proof cases
        case 1
        with Visit.hyps(4) show ?thesis by (intro exI [of _ "s # visited"]) simp
      next
        case 2
        with Visit.prems(3) obtain v where "set v \<subseteq> set visited" "quit v t = None" by blast
        then show ?thesis by (intro exI [of _ v]) auto
      qed
    qed
  qed
  then show ?case by auto
qed

lemma search_visited_reachable:
  assumes "set pending \<subseteq> universe" and "worklist quit succs pending visited = Some (Inr visited')"
    and "s \<in> set visited'" and "s \<notin> set visited"
  shows "wl_reach succs (set pending) s"
  using assms
proof (induction pending visited rule: search_induct)
  case (Empty visited)
  then show ?case by (simp add: worklist_Nil)
next
  case (Seen t rest visited)
  then show ?case by (metis worklist_visited wl_reach_mono set_subset_Cons)
next
  case (Quit t rest visited r')
  then show ?case by (simp add: worklist_quit)
next
  case (Visit t rest visited)
  show ?case
  proof (cases "s = t")
    case True
    then show ?thesis by (auto intro: wl_init)
  next
    case False
    with Visit have "wl_reach succs (set (rev (succs t) @ rest)) s"
      by (simp add: worklist_step)
    then show ?thesis by (rule wl_reach_trans) (auto intro: wl_reach.intros)
  qed
qed

lemma search_visited_distinct:
  "set pending \<subseteq> universe \<Longrightarrow> distinct visited \<Longrightarrow>
     worklist quit succs pending visited = Some (Inr visited') \<Longrightarrow> distinct visited'"
  by (induction pending visited rule: search_induct) (auto simp: worklist_unfolds)

text \<open>
  The two outcomes of a search from an empty visited set, when the decision to return early
  depends on the state alone.
\<close>

lemma search_exact:
  assumes "set pending \<subseteq> universe" and "worklist quit succs pending [] = Some (Inr visited')"
  shows "set visited' = Collect (wl_reach succs (set pending))"
proof
  show "set visited' \<subseteq> Collect (wl_reach succs (set pending))"
    using search_visited_reachable [OF assms] by auto
  have start: "set pending \<subseteq> set visited'"
    and closed: "\<And>s. s \<in> set visited' \<Longrightarrow> set (succs s) \<subseteq> set visited'"
    using search_completes [OF assms] by auto
  show "Collect (wl_reach succs (set pending)) \<subseteq> set visited'"
  proof
    fix s assume "s \<in> Collect (wl_reach succs (set pending))"
    then have "wl_reach succs (set pending) s" by simp
    then show "s \<in> set visited'" using start closed by (rule wl_reach_closed)
  qed
qed

lemma search_declined:
  assumes "set pending \<subseteq> universe" and "worklist quit succs pending [] = Some (Inr visited')"
    and "wl_reach succs (set pending) s"
  shows "\<exists>v. quit v s = None"
  using search_completes [OF assms(1,2)] search_exact [OF assms(1,2)] assms(3) by auto

end

end
