(* ===== verification/PathGlob.thy ===== *)
theory PathGlob
  imports Worklist
begin

text \<open>
  The path-glob matcher of \<open>packages/kernel/src/path-glob.ts\<close>: the tokenizer, the
  backtracking-free matcher over (token, position, scanning) states, and the language a
  glob denotes.  The matcher is proved to return on every input and to decide exactly the
  language.
\<close>

section \<open>Tokens\<close>

datatype PathGlobToken =
    Literal jchar
  | Star
  | Globstar
  | GlobstarDirectories

text \<open>
  \<open>tokenizePathGlob\<close> walks the pattern by index; the model walks its suffix from the index.
  A run of one asterisk is \<open>Star\<close>; a longer run followed by a slash swallows the slash.
\<close>

function tokenizePathGlob :: "jstring \<Rightarrow> PathGlobToken list" where
  "tokenizePathGlob [] = []"
| "tokenizePathGlob (c # cs) =
     (if c \<noteq> asterisk then Literal c # tokenizePathGlob cs
      else
        let run = takeWhile (\<lambda>d. d = asterisk) cs;
            rest = dropWhile (\<lambda>d. d = asterisk) cs
        in if run = [] then Star # tokenizePathGlob rest
           else (case rest of
                   [] \<Rightarrow> Globstar # tokenizePathGlob []
                 | d # ds \<Rightarrow>
                     if d = slash then GlobstarDirectories # tokenizePathGlob ds
                     else Globstar # tokenizePathGlob (d # ds)))"
  by pat_completeness auto
termination
  by (relation "measure length")
    (auto simp: less_Suc_eq_le dest!: arg_cong [where f = length]
      intro: le_trans [OF length_dropWhile_le] le_trans [OF Suc_leD])

section \<open>The language of a token list\<close>

text \<open>
  \<open>*\<close> is any run of characters without a slash, \<open>**\<close> any run at all, and \<open>**/\<close> any
  number of complete directories, none included.
\<close>

fun glob_lang :: "PathGlobToken list \<Rightarrow> jstring \<Rightarrow> bool" where
  "glob_lang [] s = (s = [])"
| "glob_lang (Literal c # ts) s = (\<exists>v. s = c # v \<and> glob_lang ts v)"
| "glob_lang (Star # ts) s = (\<exists>u v. s = u @ v \<and> slash \<notin> set u \<and> glob_lang ts v)"
| "glob_lang (Globstar # ts) s = (\<exists>u v. s = u @ v \<and> glob_lang ts v)"
| "glob_lang (GlobstarDirectories # ts) s =
     (\<exists>u v. s = u @ v \<and> (u = [] \<or> last u = slash) \<and> glob_lang ts v)"

definition pattern_lang :: "jstring \<Rightarrow> jstring \<Rightarrow> bool" where
  "pattern_lang pattern = glob_lang (tokenizePathGlob pattern)"

lemma glob_lang_Star_iff:
  "glob_lang (Star # ts) s \<longleftrightarrow>
     glob_lang ts s \<or> (\<exists>c v. s = c # v \<and> c \<noteq> slash \<and> glob_lang (Star # ts) v)"
  (is "?l \<longleftrightarrow> ?r")
proof
  assume ?l
  then obtain u v where "s = u @ v" "slash \<notin> set u" "glob_lang ts v" by auto
  then show ?r by (cases u) auto
next
  assume ?r
  then consider "glob_lang ts s"
    | c u v where "s = c # u @ v" "c \<noteq> slash" "slash \<notin> set u" "glob_lang ts v" by auto
  then show ?l
  proof cases
    case 1
    then have "s = [] @ s \<and> slash \<notin> set [] \<and> glob_lang ts s" by simp
    then show ?thesis unfolding glob_lang.simps by blast
  next
    case 2
    then have "s = (c # u) @ v \<and> slash \<notin> set (c # u) \<and> glob_lang ts v" by simp
    then show ?thesis unfolding glob_lang.simps by blast
  qed
qed

lemma glob_lang_Globstar_iff:
  "glob_lang (Globstar # ts) s \<longleftrightarrow>
     glob_lang ts s \<or> (\<exists>c v. s = c # v \<and> glob_lang (Globstar # ts) v)"
  (is "?l \<longleftrightarrow> ?r")
proof
  assume ?l
  then obtain u v where "s = u @ v" "glob_lang ts v" by auto
  then show ?r by (cases u) auto
next
  assume ?r
  then consider "glob_lang ts s" | c u v where "s = c # u @ v" "glob_lang ts v" by auto
  then show ?l
  proof cases
    case 1
    then have "s = [] @ s \<and> glob_lang ts s" by simp
    then show ?thesis unfolding glob_lang.simps by blast
  next
    case 2
    then have "s = (c # u) @ v \<and> glob_lang ts v" by simp
    then show ?thesis unfolding glob_lang.simps by blast
  qed
qed

text \<open>The suffixes a directory scan can stop at: what follows the next slash.\<close>

definition scan_lang :: "(jstring \<Rightarrow> bool) \<Rightarrow> jstring \<Rightarrow> bool" where
  "scan_lang L s \<longleftrightarrow> (\<exists>u v. s = u @ slash # v \<and> slash \<notin> set u \<and> L v)"

lemma scan_lang_Nil [simp]: "\<not> scan_lang L []"
  by (simp add: scan_lang_def)

lemma scan_lang_Cons [simp]:
  "scan_lang L (c # s) \<longleftrightarrow> (if c = slash then L s else scan_lang L s)"
proof -
  have "(\<exists>u v. c # s = u @ slash # v \<and> slash \<notin> set u \<and> L v) \<longleftrightarrow>
      (c = slash \<and> L s) \<or> (\<exists>u v. c \<noteq> slash \<and> s = u @ slash # v \<and> slash \<notin> set u \<and> L v)"
    by (safe; simp add: Cons_eq_append_conv; fastforce)
  then show ?thesis by (auto simp: scan_lang_def)
qed

lemma glob_lang_Directories_iff:
  "glob_lang (GlobstarDirectories # ts) s \<longleftrightarrow>
     glob_lang ts s \<or> scan_lang (glob_lang (GlobstarDirectories # ts)) s"
  (is "?l \<longleftrightarrow> ?r")
proof
  assume ?l
  then obtain u v where s: "s = u @ v" and u: "u = [] \<or> last u = slash" and v: "glob_lang ts v"
    by auto
  show ?r
  proof (cases "u = []")
    case True
    with s v show ?thesis by simp
  next
    case False
    with u have "slash \<in> set u" by (metis last_in_set)
    then obtain a b where ab: "u = a @ slash # b" "slash \<notin> set a" by (meson split_list_first)
    with u have "b = [] \<or> last b = slash" by (cases "b = []") auto
    with v have "glob_lang (GlobstarDirectories # ts) (b @ v)" by auto
    with s ab show ?thesis unfolding scan_lang_def by fastforce
  qed
next
  assume ?r
  then show ?l
  proof
    assume "glob_lang ts s"
    then have "s = [] @ s \<and> ([] = [] \<or> last [] = slash) \<and> glob_lang ts s" by simp
    then show ?l unfolding glob_lang.simps by blast
  next
    assume "scan_lang (glob_lang (GlobstarDirectories # ts)) s"
    then obtain a b v where "s = a @ slash # b @ v" "b = [] \<or> last b = slash" "glob_lang ts v"
      by (auto simp: scan_lang_def)
    then have "s = (a @ slash # b) @ v \<and> (a @ slash # b = [] \<or> last (a @ slash # b) = slash)
        \<and> glob_lang ts v" by auto
    then show ?l unfolding glob_lang.simps by blast
  qed
qed

lemmas glob_lang_iffs = glob_lang_Star_iff glob_lang_Globstar_iff glob_lang_Directories_iff

declare glob_lang.simps(3-5) [simp del]

text \<open>
  The language of a position in the token list: read from token \<open>t\<close> on, or still scanning for
  the slash that ends a directory of the \<open>**/\<close> token at \<open>t\<close>.
\<close>

definition state_lang :: "PathGlobToken list \<Rightarrow> nat \<Rightarrow> bool \<Rightarrow> jstring \<Rightarrow> bool" where
  "state_lang tokens t scanning =
     (if scanning then scan_lang (glob_lang (drop t tokens)) else glob_lang (drop t tokens))"

lemma state_lang_scanning [simp]:
  "\<not> state_lang tokens t True []"
  "state_lang tokens t True (c # s) \<longleftrightarrow>
     (if c = slash then state_lang tokens t False s else state_lang tokens t True s)"
  by (simp_all add: state_lang_def)

lemma state_lang_end: "length tokens \<le> t \<Longrightarrow> state_lang tokens t False s \<longleftrightarrow> s = []"
  by (simp add: state_lang_def)

lemma state_lang_token:
  assumes "t < length tokens"
  shows "state_lang tokens t False s \<longleftrightarrow>
    (case tokens ! t of
       Literal c \<Rightarrow> (case s of [] \<Rightarrow> False | d # v \<Rightarrow> d = c \<and> state_lang tokens (Suc t) False v)
     | Star \<Rightarrow> state_lang tokens (Suc t) False s
         \<or> (case s of [] \<Rightarrow> False | d # v \<Rightarrow> d \<noteq> slash \<and> state_lang tokens t False v)
     | Globstar \<Rightarrow> state_lang tokens (Suc t) False s
         \<or> (case s of [] \<Rightarrow> False | d # v \<Rightarrow> state_lang tokens t False v)
     | GlobstarDirectories \<Rightarrow> state_lang tokens (Suc t) False s \<or> state_lang tokens t True s)"
proof -
  note here = Cons_nth_drop_Suc [OF assms, symmetric]
  show ?thesis
  proof (cases "tokens ! t")
    case (Literal c)
    with here have "drop t tokens = Literal c # drop (Suc t) tokens" by simp
    with Literal show ?thesis by (auto simp: state_lang_def split: list.split)
  next
    case Star
    with here have d: "drop t tokens = Star # drop (Suc t) tokens" by simp
    show ?thesis
      using glob_lang_Star_iff [of "drop (Suc t) tokens" s]
      by (auto simp: state_lang_def Star d split: list.split)
  next
    case Globstar
    with here have d: "drop t tokens = Globstar # drop (Suc t) tokens" by simp
    show ?thesis
      using glob_lang_Globstar_iff [of "drop (Suc t) tokens" s]
      by (auto simp: state_lang_def Globstar d split: list.split)
  next
    case GlobstarDirectories
    with here have d: "drop t tokens = GlobstarDirectories # drop (Suc t) tokens" by simp
    show ?thesis
      using glob_lang_Directories_iff [of "drop (Suc t) tokens" s]
      by (auto simp: state_lang_def GlobstarDirectories d)
  qed
qed

section \<open>The matcher\<close>

record MatchState =
  tokenIndex :: nat
  pathIndex :: nat
  scanningDirectory :: bool

text \<open>
  The pushes of one iteration, in the order the code makes them.  \<open>path[i]\<close> out of range is
  \<open>undefined\<close> and equal to no character, hence the explicit bounds.
\<close>

definition matchSuccs :: "PathGlobToken list \<Rightarrow> jstring \<Rightarrow> MatchState \<Rightarrow> MatchState list" where
  "matchSuccs tokens path state =
     (if scanningDirectory state then
        (if pathIndex state \<ge> length path then []
         else if path ! pathIndex state = slash then
           [\<lparr>tokenIndex = tokenIndex state, pathIndex = pathIndex state + 1,
             scanningDirectory = False\<rparr>]
         else [state\<lparr>pathIndex := pathIndex state + 1\<rparr>])
      else if tokenIndex state < length tokens then
        (let token = tokens ! tokenIndex state;
             skip = \<lparr>tokenIndex = tokenIndex state + 1, pathIndex = pathIndex state,
                     scanningDirectory = False\<rparr>
         in case token of
              Literal value \<Rightarrow>
                (if pathIndex state < length path \<and> path ! pathIndex state = value then
                   [\<lparr>tokenIndex = tokenIndex state + 1, pathIndex = pathIndex state + 1,
                     scanningDirectory = False\<rparr>]
                 else [])
            | GlobstarDirectories \<Rightarrow> [skip, state\<lparr>scanningDirectory := True\<rparr>]
            | _ \<Rightarrow>
                (if pathIndex state < length path \<and>
                    (token = Globstar \<or> path ! pathIndex state \<noteq> slash) then
                   [skip, state\<lparr>pathIndex := pathIndex state + 1\<rparr>]
                 else [skip]))
      else [])"

definition matchQuit ::
  "PathGlobToken list \<Rightarrow> jstring \<Rightarrow> MatchState list \<Rightarrow> MatchState \<Rightarrow> bool option" where
  "matchQuit tokens path visited state =
     (if \<not> scanningDirectory state \<and> length tokens \<le> tokenIndex state
         \<and> pathIndex state = length path
      then Some True else None)"

definition matchesCompiledPathGlob :: "PathGlobToken list \<Rightarrow> jstring \<Rightarrow> bool option" where
  "matchesCompiledPathGlob tokens path =
     map_option (case_sum id (\<lambda>visited. False))
       (worklist (matchQuit tokens path) (matchSuccs tokens path)
         [\<lparr>tokenIndex = 0, pathIndex = 0, scanningDirectory = False\<rparr>] [])"

text \<open>\<open>compilePathGlob\<close> tokenizes once and returns the matcher as a predicate on paths.\<close>

definition compilePathGlob :: "jstring \<Rightarrow> (jstring \<Rightarrow> bool)" where
  "compilePathGlob pattern =
     (let tokens = tokenizePathGlob pattern
      in (\<lambda>path. matchesCompiledPathGlob tokens path = Some True))"

definition matchesPathGlob :: "jstring \<Rightarrow> jstring \<Rightarrow> bool" where
  "matchesPathGlob pattern path = compilePathGlob pattern path"

section \<open>The matcher decides the language\<close>

definition matchUniverse :: "PathGlobToken list \<Rightarrow> jstring \<Rightarrow> MatchState set" where
  "matchUniverse tokens path =
     (\<lambda>(t, i, b). \<lparr>tokenIndex = t, pathIndex = i, scanningDirectory = b\<rparr>) `
       ({..length tokens} \<times> {..length path} \<times> UNIV)"

lemma matchUniverse_iff:
  "s \<in> matchUniverse tokens path \<longleftrightarrow> tokenIndex s \<le> length tokens \<and> pathIndex s \<le> length path"
proof
  assume "tokenIndex s \<le> length tokens \<and> pathIndex s \<le> length path"
  then show "s \<in> matchUniverse tokens path"
    unfolding matchUniverse_def
    by (intro image_eqI [of _ _ "(tokenIndex s, pathIndex s, scanningDirectory s)"]) auto
qed (auto simp: matchUniverse_def)

lemma matchSuccs_universe:
  "s \<in> matchUniverse tokens path \<Longrightarrow> set (matchSuccs tokens path s) \<subseteq> matchUniverse tokens path"
  by (auto simp: matchSuccs_def matchUniverse_iff Let_def
      split: if_splits PathGlobToken.splits)

interpretation matcher:
  worklist_search "matchQuit tokens path" "matchSuccs tokens path" "matchUniverse tokens path"
  for tokens path
  by (unfold_locales; (rule matchSuccs_universe)?) (simp_all add: matchUniverse_def)

definition match_lang :: "PathGlobToken list \<Rightarrow> jstring \<Rightarrow> MatchState \<Rightarrow> bool" where
  "match_lang tokens path s =
     state_lang tokens (tokenIndex s) (scanningDirectory s) (drop (pathIndex s) path)"

lemma drop_cases:
  "(case drop i xs of [] \<Rightarrow> a | y # ys \<Rightarrow> f y ys) =
     (if i < length xs then f (xs ! i) (drop (Suc i) xs) else a)"
  by (simp add: Cons_nth_drop_Suc [symmetric])

lemma match_lang_scanning:
  assumes "scanningDirectory s"
  shows "match_lang tokens path s \<longleftrightarrow>
    (pathIndex s < length path \<and>
      state_lang tokens (tokenIndex s) (path ! pathIndex s \<noteq> slash) (drop (Suc (pathIndex s)) path))"
  using assms
  by (cases "pathIndex s < length path")
    (simp_all add: match_lang_def Cons_nth_drop_Suc [symmetric])

lemma match_lang_step:
  assumes "s \<in> matchUniverse tokens path"
  shows "match_lang tokens path s \<longleftrightarrow>
    matchQuit tokens path v s = Some True \<or> (\<exists>t \<in> set (matchSuccs tokens path s). match_lang tokens path t)"
proof (cases "scanningDirectory s")
  case True
  show ?thesis
    unfolding match_lang_scanning [OF True]
    using True by (simp add: matchQuit_def matchSuccs_def match_lang_def)
next
  case normal: False
  show ?thesis
  proof (cases "tokenIndex s < length tokens")
    case True
    have "match_lang tokens path s \<longleftrightarrow>
        state_lang tokens (tokenIndex s) False (drop (pathIndex s) path)"
      using normal by (simp add: match_lang_def)
    also have "\<dots> \<longleftrightarrow> (\<exists>t \<in> set (matchSuccs tokens path s). match_lang tokens path t)"
    proof (subst state_lang_token [OF True], unfold drop_cases, cases "tokens ! tokenIndex s")
    qed (use normal True in \<open>auto simp: matchSuccs_def match_lang_def Let_def\<close>)
    finally show ?thesis using True by (simp add: matchQuit_def)
  next
    case False
    with normal assms show ?thesis
      by (simp add: match_lang_def state_lang_end matchQuit_def matchSuccs_def matchUniverse_iff)
  qed
qed

text \<open>Along pushes the weight below decreases, so a state in the language leads to acceptance.\<close>

definition match_weight :: "PathGlobToken list \<Rightarrow> jstring \<Rightarrow> MatchState \<Rightarrow> nat" where
  "match_weight tokens path s =
     (length tokens - tokenIndex s) + 2 * (length path - pathIndex s)
       + (if scanningDirectory s then 0 else 1)"

lemma matchSuccs_weight:
  "s \<in> matchUniverse tokens path \<Longrightarrow> t \<in> set (matchSuccs tokens path s) \<Longrightarrow>
     match_weight tokens path t < match_weight tokens path s"
  by (auto simp: matchSuccs_def matchUniverse_iff match_weight_def Let_def
      split: if_splits PathGlobToken.splits)

lemma match_lang_reaches:
  assumes "s \<in> matchUniverse tokens path" and "match_lang tokens path s"
    and "wl_reach (matchSuccs tokens path) I s"
  shows "\<exists>t. wl_reach (matchSuccs tokens path) I t \<and> (\<forall>v. matchQuit tokens path v t = Some True)"
  using assms
proof (induction "match_weight tokens path s" arbitrary: s rule: less_induct)
  case less
  show ?case
  proof (cases "matchQuit tokens path [] s = Some True")
    case True
    then have "\<forall>v. matchQuit tokens path v s = Some True"
      by (auto simp: matchQuit_def split: if_splits)
    with less.prems(3) show ?thesis by blast
  next
    case False
    with match_lang_step [OF less.prems(1)] less.prems(2) obtain t
      where t: "t \<in> set (matchSuccs tokens path s)" "match_lang tokens path t" by blast
    show ?thesis
    proof (rule less.hyps)
      show "match_weight tokens path t < match_weight tokens path s"
        using matchSuccs_weight less.prems(1) t(1) .
      show "t \<in> matchUniverse tokens path"
        using matchSuccs_universe less.prems(1) t(1) by blast
      show "wl_reach (matchSuccs tokens path) I t" using wl_succ less.prems(3) t(1) .
    qed (rule t(2))
  qed
qed

lemma reach_match_lang:
  assumes "wl_reach (matchSuccs tokens path) I t" and "I \<subseteq> matchUniverse tokens path"
    and "match_lang tokens path t"
  shows "\<exists>s \<in> I. match_lang tokens path s"
proof -
  from assms(1) have "t \<in> matchUniverse tokens path"
    by (rule wl_reach_closed) (use assms(2) matchSuccs_universe in auto)
  from assms(1) this assms(3) show ?thesis
  proof (induction rule: wl_reach.induct)
    case (wl_init s)
    then show ?case by blast
  next
    case (wl_succ s t)
    have "s \<in> matchUniverse tokens path"
      using wl_succ.hyps(1) by (rule wl_reach_closed) (use assms(2) matchSuccs_universe in auto)
    with wl_succ match_lang_step show ?case by blast
  qed
qed

theorem matchesCompiledPathGlob_lang:
  "matchesCompiledPathGlob tokens path = Some (glob_lang tokens path)"
proof -
  let ?start = "\<lparr>tokenIndex = 0, pathIndex = 0, scanningDirectory = False\<rparr>"
  have U: "set [?start] \<subseteq> matchUniverse tokens path" by (simp add: matchUniverse_iff)
  have lang: "match_lang tokens path ?start \<longleftrightarrow> glob_lang tokens path"
    by (simp add: match_lang_def state_lang_def)
  from matcher.search_returns [OF U] obtain r
    where r: "worklist (matchQuit tokens path) (matchSuccs tokens path) [?start] [] = Some r" by blast
  show ?thesis
  proof (cases r)
    case (Inl b)
    with r matcher.search_quit_reachable [OF U _ distinct.simps(1) [THEN iffD2, OF TrueI]]
    obtain s v where s: "wl_reach (matchSuccs tokens path) (set [?start]) s"
        and q: "matchQuit tokens path v s = Some b" by blast
    have "s \<in> matchUniverse tokens path"
      using s by (rule wl_reach_closed) (use U matchSuccs_universe in auto)
    moreover from q have b by (auto simp: matchQuit_def split: if_splits)
    ultimately have "match_lang tokens path s" using q match_lang_step by auto
    with reach_match_lang [OF s U] lang have "glob_lang tokens path" by simp
    with r Inl \<open>b\<close> show ?thesis by (simp add: matchesCompiledPathGlob_def)
  next
    case (Inr visited)
    have "\<not> glob_lang tokens path"
    proof
      assume "glob_lang tokens path"
      then obtain t where "wl_reach (matchSuccs tokens path) (set [?start]) t"
          "\<forall>v. matchQuit tokens path v t = Some True"
        using match_lang_reaches [of ?start tokens path "set [?start]"] U lang
        by (auto intro: wl_init)
      with matcher.search_declined [OF U] r Inr show False by fastforce
    qed
    with r Inr show ?thesis by (simp add: matchesCompiledPathGlob_def)
  qed
qed

lemma compilePathGlob_lang [simp]: "compilePathGlob pattern path = pattern_lang pattern path"
  by (simp add: compilePathGlob_def matchesCompiledPathGlob_lang pattern_lang_def)

lemma matchesPathGlob_lang [simp]: "matchesPathGlob pattern path = pattern_lang pattern path"
  by (simp add: matchesPathGlob_def)

end
