(* ===== verification/GlobAnalysis.thy ===== *)
theory GlobAnalysis
  imports PathGlob
begin

text \<open>
  The static analysis of \<open>packages/kernel/src/path-glob.ts\<close>: whether two globs share a path
  (\<open>pathGlobsIntersect\<close>) and whether one covers the other (\<open>pathGlobCovers\<close>), decided by a
  search of the product automaton over finitely many representative characters.  Both
  analyses are proved conservative on every input: an overlap is never missed and a cover
  never claimed wrongly; below the two resource limits they are exact.
\<close>

section \<open>Automaton states\<close>

type_synonym GlobState = nat

definition normalState :: "nat \<Rightarrow> GlobState" where
  "normalState i = i * 2"

definition scanningState :: "nat \<Rightarrow> GlobState" where
  "scanningState i = i * 2 + 1"

definition stateTokenIndex :: "GlobState \<Rightarrow> nat" where
  "stateTokenIndex state = state div 2"

definition isScanningState :: "GlobState \<Rightarrow> bool" where
  "isScanningState state \<longleftrightarrow> state mod 2 = 1"

lemma state_codes [simp]:
  "stateTokenIndex (normalState t) = t" "stateTokenIndex (scanningState t) = t"
  "\<not> isScanningState (normalState t)" "isScanningState (scanningState t)"
  by (simp_all add: stateTokenIndex_def normalState_def scanningState_def isScanningState_def)
    presburger

lemma state_code_cases:
  obtains t where "s = normalState t" | t where "s = scanningState t"
  by (cases "s mod 2 = 1")
    (metis normalState_def scanningState_def div_mult_mod_eq not_mod_2_eq_1_eq_0 add_0_right)+

lemma state_code_inj [simp]:
  "normalState t = normalState u \<longleftrightarrow> t = u" "scanningState t = scanningState u \<longleftrightarrow> t = u"
  "normalState t \<noteq> scanningState u" "scanningState u \<noteq> normalState t"
  by (metis state_codes)+

section \<open>Closure and moves\<close>

definition epsilonSuccs :: "PathGlobToken list \<Rightarrow> GlobState \<Rightarrow> GlobState list" where
  "epsilonSuccs tokens state =
     (if isScanningState state then []
      else
        let i = stateTokenIndex state
        in if i < length tokens then
             (case tokens ! i of
                Literal value \<Rightarrow> []
              | GlobstarDirectories \<Rightarrow> [normalState (i + 1), scanningState i]
              | _ \<Rightarrow> [normalState (i + 1)])
           else [])"

text \<open>
  The loop of \<open>epsilonClosure\<close> never returns early.  It is total for states of the token
  list (lemma \<open>epsilonClosure_spec\<close>); the last alternative is never taken.
\<close>

definition epsilonClosure :: "PathGlobToken list \<Rightarrow> GlobState list \<Rightarrow> GlobState list" where
  "epsilonClosure tokens initial =
     (case worklist (\<lambda>_ _. None :: unit option) (epsilonSuccs tokens) (rev initial) [] of
        Some (Inr closure) \<Rightarrow> sort closure
      | _ \<Rightarrow> [])"

definition moveState :: "PathGlobToken list \<Rightarrow> jchar \<Rightarrow> GlobState \<Rightarrow> GlobState list" where
  "moveState tokens character state =
     (let i = stateTokenIndex state
      in if isScanningState state then
           [if character = slash then normalState i else scanningState i]
         else if i < length tokens then
           (case tokens ! i of
              Literal value \<Rightarrow> (if value = character then [normalState (i + 1)] else [])
            | Star \<Rightarrow> (if character \<noteq> slash then [normalState i] else [])
            | Globstar \<Rightarrow> [normalState i]
            | GlobstarDirectories \<Rightarrow> [])
         else [])"

definition moveGlobStates ::
  "PathGlobToken list \<Rightarrow> GlobState list \<Rightarrow> jchar \<Rightarrow> GlobState list" where
  "moveGlobStates tokens states character =
     epsilonClosure tokens (js_set (concat (map (moveState tokens character) states)))"

definition accepts :: "PathGlobToken list \<Rightarrow> GlobState list \<Rightarrow> bool" where
  "accepts tokens states \<longleftrightarrow> normalState (length tokens) \<in> set states"

section \<open>Representative characters\<close>

function freshCharacter :: "nat \<Rightarrow> jchar list \<Rightarrow> jchar option" where
  "freshCharacter code characters =
     (if code > 65535 then None
      else let candidate = of_nat code
           in if candidate \<noteq> slash \<and> candidate \<notin> set characters then Some candidate
              else freshCharacter (code + 1) characters)"
  by pat_completeness auto
termination
  by (relation "measure (\<lambda>(code, characters). 65536 - code)") auto

declare freshCharacter.simps [simp del]

definition literalValues :: "PathGlobToken list \<Rightarrow> jchar list" where
  "literalValues tokens =
     concat (map (\<lambda>token. case token of Literal value \<Rightarrow> [value] | _ \<Rightarrow> []) tokens)"

definition representativeCharacters ::
  "PathGlobToken list \<Rightarrow> PathGlobToken list \<Rightarrow> jchar list" where
  "representativeCharacters left right =
     (let characters = js_set (slash # literalValues (left @ right))
      in characters @ (case freshCharacter 0 characters of None \<Rightarrow> [] | Some c \<Rightarrow> [c]))"

section \<open>The product search\<close>

datatype GlobMode = Intersects | LeftSubsetOfRight

definition MAX_GLOB_ANALYSIS_LENGTH :: nat where "MAX_GLOB_ANALYSIS_LENGTH = 4096"
definition MAX_GLOB_ANALYSIS_STATES :: nat where "MAX_GLOB_ANALYSIS_STATES = 65536"

type_synonym GlobPair = "GlobState list \<times> GlobState list"

definition pairQuit ::
  "GlobMode \<Rightarrow> PathGlobToken list \<Rightarrow> PathGlobToken list \<Rightarrow> GlobPair list \<Rightarrow> GlobPair \<Rightarrow> bool option"
where
  "pairQuit mode left right visited pair =
     (let leftAccepts = accepts left (fst pair); rightAccepts = accepts right (snd pair)
      in if length visited > MAX_GLOB_ANALYSIS_STATES then Some (mode = Intersects)
         else if mode = Intersects \<and> leftAccepts \<and> rightAccepts then Some True
         else if mode = LeftSubsetOfRight \<and> leftAccepts \<and> \<not> rightAccepts then Some False
         else None)"

definition pairSuccs ::
  "GlobMode \<Rightarrow> PathGlobToken list \<Rightarrow> PathGlobToken list \<Rightarrow> jchar list \<Rightarrow> GlobPair \<Rightarrow> GlobPair list"
where
  "pairSuccs mode left right characters pair =
     concat (map (\<lambda>character.
       let nextLeft = moveGlobStates left (fst pair) character;
           nextRight = moveGlobStates right (snd pair) character
       in if nextLeft = [] then []
          else if mode = Intersects \<and> nextRight = [] then []
          else [(nextLeft, nextRight)]) characters)"

definition analyzeTokens ::
  "GlobMode \<Rightarrow> PathGlobToken list \<Rightarrow> PathGlobToken list \<Rightarrow> (bool + GlobPair list) option" where
  "analyzeTokens mode left right =
     worklist (pairQuit mode left right)
       (pairSuccs mode left right (representativeCharacters left right))
       [(epsilonClosure left [normalState 0], epsilonClosure right [normalState 0])] []"

definition analyzeGlobPair :: "jstring \<Rightarrow> jstring \<Rightarrow> GlobMode \<Rightarrow> bool option" where
  "analyzeGlobPair leftPattern rightPattern mode =
     (if length leftPattern > MAX_GLOB_ANALYSIS_LENGTH
         \<or> length rightPattern > MAX_GLOB_ANALYSIS_LENGTH
      then Some (mode = Intersects)
      else map_option (case_sum id (\<lambda>visited. mode = LeftSubsetOfRight))
             (analyzeTokens mode (tokenizePathGlob leftPattern) (tokenizePathGlob rightPattern)))"

definition pathGlobsIntersect :: "jstring \<Rightarrow> jstring \<Rightarrow> bool" where
  "pathGlobsIntersect leftPattern rightPattern \<longleftrightarrow>
     analyzeGlobPair leftPattern rightPattern Intersects = Some True"

definition pathGlobCovers :: "jstring \<Rightarrow> jstring \<Rightarrow> bool" where
  "pathGlobCovers coveringPattern candidatePattern \<longleftrightarrow>
     analyzeGlobPair candidatePattern coveringPattern LeftSubsetOfRight = Some True"

section \<open>The automaton reads the language\<close>

definition glob_states :: "PathGlobToken list \<Rightarrow> GlobState set" where
  "glob_states tokens = {s. stateTokenIndex s \<le> length tokens}"

lemma finite_glob_states [simp]: "finite (glob_states tokens)"
proof (rule finite_subset)
  show "glob_states tokens \<subseteq> {..2 * length tokens + 1}"
    by (auto simp: glob_states_def stateTokenIndex_def)
qed simp

lemma epsilonSuccs_states:
  "s \<in> glob_states tokens \<Longrightarrow> set (epsilonSuccs tokens s) \<subseteq> glob_states tokens"
  by (auto simp: epsilonSuccs_def glob_states_def Let_def split: PathGlobToken.splits if_splits)

lemma moveState_states:
  "s \<in> glob_states tokens \<Longrightarrow> set (moveState tokens c s) \<subseteq> glob_states tokens"
  by (auto simp: moveState_def glob_states_def Let_def split: PathGlobToken.splits if_splits)

interpretation closure:
  worklist_search "\<lambda>_ _. None :: unit option" "epsilonSuccs tokens" "glob_states tokens"
  for tokens
  by (unfold_locales; (rule epsilonSuccs_states)?) simp_all

lemma epsilonClosure_spec:
  assumes "set initial \<subseteq> glob_states tokens"
  shows "set (epsilonClosure tokens initial) = Collect (wl_reach (epsilonSuccs tokens) (set initial))"
proof -
  have U: "set (rev initial) \<subseteq> glob_states tokens" using assms by simp
  from closure.search_returns [OF U] obtain r
    where r: "worklist (\<lambda>_ _. None :: unit option) (epsilonSuccs tokens) (rev initial) [] = Some r"
    by blast
  show ?thesis
  proof (cases r)
    case (Inl u)
    with r closure.search_quit_reachable [OF U] show ?thesis by fastforce
  next
    case (Inr visited)
    with r closure.search_exact [OF U] show ?thesis by (simp add: epsilonClosure_def)
  qed
qed

lemma distinct_epsilonClosure:
  "set initial \<subseteq> glob_states tokens \<Longrightarrow> distinct (epsilonClosure tokens initial)"
  using closure.search_visited_distinct [of "rev initial" tokens "[]"]
  by (auto simp: epsilonClosure_def split: option.split sum.split)

definition nstate_lang :: "PathGlobToken list \<Rightarrow> GlobState \<Rightarrow> jstring \<Rightarrow> bool" where
  "nstate_lang tokens s = state_lang tokens (stateTokenIndex s) (isScanningState s)"

definition states_lang :: "PathGlobToken list \<Rightarrow> GlobState set \<Rightarrow> jstring \<Rightarrow> bool" where
  "states_lang tokens S w \<longleftrightarrow> (\<exists>s \<in> S. nstate_lang tokens s w)"

text \<open>One state: a word is read by an epsilon step, by a move, or by ending in the last state.\<close>

lemma nstate_lang_Nil:
  assumes "s \<in> glob_states tokens"
  shows "nstate_lang tokens s [] \<longleftrightarrow>
    s = normalState (length tokens) \<or> (\<exists>t \<in> set (epsilonSuccs tokens s). nstate_lang tokens t [])"
proof (cases s rule: state_code_cases)
  case (1 i)
  show ?thesis
  proof (cases "i < length tokens")
    case True
    have "nstate_lang tokens s [] \<longleftrightarrow> state_lang tokens i False []"
      by (simp add: nstate_lang_def 1)
    then show ?thesis
      unfolding 1 using True
      by (subst (asm) state_lang_token [OF True], cases "tokens ! i")
        (auto simp: epsilonSuccs_def nstate_lang_def)
  next
    case False
    with assms 1 show ?thesis
      by (auto simp: glob_states_def nstate_lang_def state_lang_end epsilonSuccs_def)
  qed
next
  case (2 i)
  then show ?thesis by (simp add: nstate_lang_def epsilonSuccs_def)
qed

lemma nstate_lang_Cons:
  assumes "s \<in> glob_states tokens"
  shows "nstate_lang tokens s (c # w) \<longleftrightarrow>
    (\<exists>t \<in> set (moveState tokens c s). nstate_lang tokens t w)
    \<or> (\<exists>t \<in> set (epsilonSuccs tokens s). nstate_lang tokens t (c # w))"
proof (cases s rule: state_code_cases)
  case (1 i)
  show ?thesis
  proof (cases "i < length tokens")
    case True
    have "nstate_lang tokens s (c # w) \<longleftrightarrow> state_lang tokens i False (c # w)"
      by (simp add: nstate_lang_def 1)
    then show ?thesis
      unfolding 1 using True
      by (subst (asm) state_lang_token [OF True], cases "tokens ! i")
        (auto simp: epsilonSuccs_def moveState_def nstate_lang_def)
  next
    case False
    with assms 1 show ?thesis
      by (auto simp: glob_states_def nstate_lang_def state_lang_end epsilonSuccs_def moveState_def)
  qed
next
  case (2 i)
  then show ?thesis by (simp add: nstate_lang_def epsilonSuccs_def moveState_def)
qed

definition eps_closed :: "PathGlobToken list \<Rightarrow> GlobState set \<Rightarrow> bool" where
  "eps_closed tokens S \<longleftrightarrow> S \<subseteq> glob_states tokens \<and> (\<forall>s \<in> S. set (epsilonSuccs tokens s) \<subseteq> S)"

lemma epsilonSuccs_lang:
  assumes "s \<in> glob_states tokens" and "t \<in> set (epsilonSuccs tokens s)" and "nstate_lang tokens t w"
  shows "nstate_lang tokens s w"
  using assms nstate_lang_Nil nstate_lang_Cons by (cases w) blast+

lemma epsilonClosure_closed:
  assumes "set initial \<subseteq> glob_states tokens"
  shows "eps_closed tokens (set (epsilonClosure tokens initial))"
  unfolding eps_closed_def epsilonClosure_spec [OF assms]
proof (intro conjI subsetI ballI)
  fix s assume "s \<in> Collect (wl_reach (epsilonSuccs tokens) (set initial))"
  then have "wl_reach (epsilonSuccs tokens) (set initial) s" by simp
  then show "s \<in> glob_states tokens" by (rule wl_reach_closed) (use assms epsilonSuccs_states in auto)
next
  fix s t assume "s \<in> Collect (wl_reach (epsilonSuccs tokens) (set initial))"
    and "t \<in> set (epsilonSuccs tokens s)"
  then show "t \<in> Collect (wl_reach (epsilonSuccs tokens) (set initial))" by (auto intro: wl_succ)
qed

lemma epsilonClosure_lang:
  assumes "set initial \<subseteq> glob_states tokens"
  shows "states_lang tokens (set (epsilonClosure tokens initial)) w = states_lang tokens (set initial) w"
proof
  assume "states_lang tokens (set (epsilonClosure tokens initial)) w"
  then obtain t where "wl_reach (epsilonSuccs tokens) (set initial) t" "nstate_lang tokens t w"
    by (auto simp: states_lang_def epsilonClosure_spec [OF assms])
  then show "states_lang tokens (set initial) w"
  proof (induction rule: wl_reach.induct)
    case (wl_init s)
    then show ?case by (auto simp: states_lang_def)
  next
    case (wl_succ s t)
    have "s \<in> glob_states tokens"
      using wl_succ.hyps(1) by (rule wl_reach_closed) (use assms epsilonSuccs_states in auto)
    with wl_succ epsilonSuccs_lang show ?case by blast
  qed
next
  assume "states_lang tokens (set initial) w"
  then show "states_lang tokens (set (epsilonClosure tokens initial)) w"
    by (auto simp: states_lang_def epsilonClosure_spec [OF assms] intro: wl_init)
qed

text \<open>Epsilon steps move forward in the token list, so a closed set reads words by moves only.\<close>

definition eps_weight :: "PathGlobToken list \<Rightarrow> GlobState \<Rightarrow> nat" where
  "eps_weight tokens s =
     (if isScanningState s then 0 else Suc (length tokens - stateTokenIndex s))"

lemma epsilonSuccs_weight:
  "t \<in> set (epsilonSuccs tokens s) \<Longrightarrow> eps_weight tokens t < eps_weight tokens s"
  by (auto simp: epsilonSuccs_def eps_weight_def Let_def split: PathGlobToken.splits if_splits)

lemma closed_reads_Nil:
  assumes "eps_closed tokens S"
  shows "states_lang tokens S [] \<longleftrightarrow> normalState (length tokens) \<in> S"
proof
  assume "states_lang tokens S []"
  then obtain s where "s \<in> S" "nstate_lang tokens s []" by (auto simp: states_lang_def)
  then show "normalState (length tokens) \<in> S"
  proof (induction "eps_weight tokens s" arbitrary: s rule: less_induct)
    case less
    with assms have "s \<in> glob_states tokens" by (auto simp: eps_closed_def)
    with less.prems(2) nstate_lang_Nil consider "s = normalState (length tokens)"
      | t where "t \<in> set (epsilonSuccs tokens s)" "nstate_lang tokens t []" by blast
    then show ?case
    proof cases
      case 2
      with less.prems(1) assms have "t \<in> S" by (auto simp: eps_closed_def)
      with 2 less.hyps epsilonSuccs_weight show ?thesis by blast
    qed (use less.prems(1) in simp)
  qed
next
  assume *: "normalState (length tokens) \<in> S"
  have "nstate_lang tokens (normalState (length tokens)) []"
    by (subst nstate_lang_Nil) (simp_all add: glob_states_def)
  with * show "states_lang tokens S []" by (auto simp: states_lang_def)
qed

lemma closed_reads_Cons:
  assumes "eps_closed tokens S"
  shows "states_lang tokens S (c # w) \<longleftrightarrow>
    (\<exists>s \<in> S. \<exists>t \<in> set (moveState tokens c s). nstate_lang tokens t w)"
proof
  assume "states_lang tokens S (c # w)"
  then obtain s where "s \<in> S" "nstate_lang tokens s (c # w)" by (auto simp: states_lang_def)
  then show "\<exists>s \<in> S. \<exists>t \<in> set (moveState tokens c s). nstate_lang tokens t w"
  proof (induction "eps_weight tokens s" arbitrary: s rule: less_induct)
    case less
    with assms have "s \<in> glob_states tokens" by (auto simp: eps_closed_def)
    with less.prems(2) nstate_lang_Cons
    consider "\<exists>t \<in> set (moveState tokens c s). nstate_lang tokens t w"
      | t where "t \<in> set (epsilonSuccs tokens s)" "nstate_lang tokens t (c # w)" by blast
    then show ?case
    proof cases
      case 2
      with less.prems(1) assms have "t \<in> S" by (auto simp: eps_closed_def)
      with 2 less.hyps epsilonSuccs_weight show ?thesis by blast
    qed (use less.prems(1) in blast)
  qed
next
  assume "\<exists>s \<in> S. \<exists>t \<in> set (moveState tokens c s). nstate_lang tokens t w"
  then obtain s t where "s \<in> S" "t \<in> set (moveState tokens c s)" "nstate_lang tokens t w" by blast
  moreover have "s \<in> glob_states tokens" using \<open>s \<in> S\<close> assms by (auto simp: eps_closed_def)
  ultimately have "nstate_lang tokens s (c # w)" using nstate_lang_Cons by blast
  with \<open>s \<in> S\<close> show "states_lang tokens S (c # w)" by (auto simp: states_lang_def)
qed

lemma moveGlobStates_initial:
  assumes "eps_closed tokens (set S)"
  shows "set (js_set (concat (map (moveState tokens c) S))) \<subseteq> glob_states tokens"
  using assms moveState_states by (fastforce simp: eps_closed_def)

lemma moveGlobStates_closed:
  "eps_closed tokens (set S) \<Longrightarrow> eps_closed tokens (set (moveGlobStates tokens S c))"
  unfolding moveGlobStates_def by (rule epsilonClosure_closed) (rule moveGlobStates_initial)

lemma moveGlobStates_lang:
  assumes "eps_closed tokens (set S)"
  shows "states_lang tokens (set (moveGlobStates tokens S c)) w = states_lang tokens (set S) (c # w)"
  unfolding moveGlobStates_def epsilonClosure_lang [OF moveGlobStates_initial [OF assms]]
    closed_reads_Cons [OF assms]
  by (auto simp: states_lang_def)

lemma accepts_lang: "eps_closed tokens (set S) \<Longrightarrow> accepts tokens S \<longleftrightarrow> states_lang tokens (set S) []"
  by (simp add: accepts_def closed_reads_Nil)

definition startStates :: "PathGlobToken list \<Rightarrow> GlobState list" where
  "startStates tokens = epsilonClosure tokens [normalState 0]"

lemma startStates_closed: "eps_closed tokens (set (startStates tokens))"
  unfolding startStates_def by (rule epsilonClosure_closed) (simp add: glob_states_def)

lemma startStates_lang: "states_lang tokens (set (startStates tokens)) w = glob_lang tokens w"
  unfolding startStates_def
  by (subst epsilonClosure_lang)
    (simp_all add: glob_states_def states_lang_def nstate_lang_def state_lang_def)

section \<open>Every character has a representative\<close>

lemma freshCharacter_Some: "freshCharacter n cs = Some c \<Longrightarrow> c \<notin> set cs"
proof (induction n cs rule: freshCharacter.induct)
  case (1 n cs)
  have le: "\<not> n > 65535"
    using "1.prems" by (subst (asm) freshCharacter.simps) (simp split: if_splits)
  show ?case
  proof (cases "(of_nat n :: jchar) \<noteq> slash \<and> (of_nat n :: jchar) \<notin> set cs")
    case True
    with "1.prems" le show ?thesis
      by (subst (asm) freshCharacter.simps) (auto simp: Let_def)
  next
    case False
    with "1.prems" le have "freshCharacter (n + 1) cs = Some c"
      by (subst (asm) freshCharacter.simps) (simp add: Let_def)
    with "1.IH" [OF le refl False] show ?thesis .
  qed
qed

lemma freshCharacter_None:
  "freshCharacter n cs = None \<Longrightarrow> slash \<in> set cs \<Longrightarrow> n \<le> k \<Longrightarrow> k \<le> 65535 \<Longrightarrow> of_nat k \<in> set cs"
proof (induction n cs rule: freshCharacter.induct)
  case (1 n cs)
  have le: "\<not> n > 65535" using "1.prems" by simp
  let ?c = "of_nat n :: jchar"
  have rec: "\<not> (?c \<noteq> slash \<and> ?c \<notin> set cs)" "freshCharacter (n + 1) cs = None"
    using "1.prems"(1) le by (subst (asm) freshCharacter.simps; simp add: Let_def split: if_splits)+
  show ?case
  proof (cases "k = n")
    case True
    with rec(1) "1.prems"(2) show ?thesis by auto
  next
    case False
    with "1.prems" have "n + 1 \<le> k" by simp
    then show ?thesis using "1.IH" [OF le refl rec(1,2)] "1.prems" by simp
  qed
qed

lemma freshCharacter_None_UNIV:
  assumes "freshCharacter 0 cs = None" and "slash \<in> set cs"
  shows "c \<in> set cs"
proof -
  have "unat c < 2 ^ 16" using unsigned_less [of c] by simp
  then have "of_nat (unat c) \<in> set cs"
    by (intro freshCharacter_None [OF assms]) simp_all
  then show ?thesis by simp
qed

lemma literalValues_iff: "c \<in> set (literalValues ts) \<longleftrightarrow> Literal c \<in> set ts"
  by (auto simp: literalValues_def split: PathGlobToken.splits
      intro!: bexI [of _ "Literal c"])

lemma moveState_other:
  assumes "c \<noteq> slash" "d \<noteq> slash" "Literal c \<notin> set tokens" "Literal d \<notin> set tokens"
  shows "moveState tokens c s = moveState tokens d s"
  using assms
  by (auto simp: moveState_def Let_def split: PathGlobToken.splits dest: nth_mem)

text \<open>Moving on any character is moving on a representative, for both globs at once.\<close>

lemma representative_exists:
  "\<exists>r \<in> set (representativeCharacters left right).
     moveGlobStates left S c = moveGlobStates left S r \<and>
     moveGlobStates right T c = moveGlobStates right T r"
proof -
  define cs where "cs = js_set (slash # literalValues (left @ right))"
  have reps: "set cs \<subseteq> set (representativeCharacters left right)"
    by (auto simp: representativeCharacters_def cs_def Let_def)
  show ?thesis
  proof (cases "c \<in> set cs")
    case True
    with reps show ?thesis by blast
  next
    case False
    then have c: "c \<noteq> slash" "Literal c \<notin> set left" "Literal c \<notin> set right"
      by (auto simp: cs_def literalValues_iff)
    from False freshCharacter_None_UNIV [of cs c] obtain r where r: "freshCharacter 0 cs = Some r"
      by (cases "freshCharacter 0 cs") (auto simp: cs_def)
    then have "r \<notin> set cs" by (rule freshCharacter_Some)
    then have r': "r \<noteq> slash" "Literal r \<notin> set left" "Literal r \<notin> set right"
      by (auto simp: cs_def literalValues_iff)
    have "moveState left c = moveState left r" "moveState right c = moveState right r"
      by (rule ext, rule moveState_other; use c r' in simp)+
    then have "moveGlobStates left S c = moveGlobStates left S r"
      and "moveGlobStates right T c = moveGlobStates right T r"
      by (simp_all add: moveGlobStates_def)
    moreover have "r \<in> set (representativeCharacters left right)"
      using r by (simp add: representativeCharacters_def cs_def Let_def)
    ultimately show ?thesis by blast
  qed
qed

section \<open>The product search\<close>

definition closed_lists :: "PathGlobToken list \<Rightarrow> GlobState list set" where
  "closed_lists tokens =
     {S. eps_closed tokens (set S) \<and> length S \<le> card (glob_states tokens)}"

lemma finite_closed_lists: "finite (closed_lists tokens)"
proof (rule finite_subset)
  show "closed_lists tokens
      \<subseteq> {S. set S \<subseteq> glob_states tokens \<and> length S \<le> card (glob_states tokens)}"
    by (auto simp: closed_lists_def eps_closed_def)
qed (simp add: finite_lists_length_le)

lemma epsilonClosure_closed_lists:
  assumes "set initial \<subseteq> glob_states tokens"
  shows "epsilonClosure tokens initial \<in> closed_lists tokens"
  using epsilonClosure_closed [OF assms] distinct_epsilonClosure [OF assms]
  by (auto simp: closed_lists_def eps_closed_def distinct_card [symmetric] intro: card_mono)

lemma moveGlobStates_closed_lists:
  "S \<in> closed_lists tokens \<Longrightarrow> moveGlobStates tokens S c \<in> closed_lists tokens"
  unfolding moveGlobStates_def
  by (rule epsilonClosure_closed_lists) (auto simp: closed_lists_def intro!: moveGlobStates_initial [THEN subsetD])

lemma startStates_closed_lists: "startStates tokens \<in> closed_lists tokens"
  unfolding startStates_def by (rule epsilonClosure_closed_lists) (simp add: glob_states_def)

lemma pairSuccs_iff:
  "q \<in> set (pairSuccs mode left right cs p) \<longleftrightarrow>
     (\<exists>c \<in> set cs. q = (moveGlobStates left (fst p) c, moveGlobStates right (snd p) c)
        \<and> fst q \<noteq> [] \<and> (mode = Intersects \<longrightarrow> snd q \<noteq> []))"
  by (auto simp: pairSuccs_def Let_def)

interpretation product:
  worklist_search "pairQuit mode left right" "pairSuccs mode left right cs"
    "closed_lists left \<times> closed_lists right"
  for mode left right cs
proof
  show "finite (closed_lists left \<times> closed_lists right)"
    by (simp add: finite_closed_lists)
  fix s assume "s \<in> closed_lists left \<times> closed_lists right"
  then show "set (pairSuccs mode left right cs s) \<subseteq> closed_lists left \<times> closed_lists right"
    by (auto simp: pairSuccs_iff moveGlobStates_closed_lists)
qed

abbreviation product_start ::
  "PathGlobToken list \<Rightarrow> PathGlobToken list \<Rightarrow> GlobPair" where
  "product_start left right \<equiv> (startStates left, startStates right)"

abbreviation product_reach ::
  "GlobMode \<Rightarrow> PathGlobToken list \<Rightarrow> PathGlobToken list \<Rightarrow> GlobPair \<Rightarrow> bool" where
  "product_reach mode left right \<equiv>
     wl_reach (pairSuccs mode left right (representativeCharacters left right))
       {product_start left right}"

lemma analyzeTokens_returns: "\<exists>r. analyzeTokens mode left right = Some r"
  unfolding analyzeTokens_def startStates_def [symmetric]
  by (rule product.search_returns) (simp add: startStates_closed_lists)

text \<open>A reachable pair is what both automata reach on one word.\<close>

lemma product_reach_word:
  assumes "product_reach mode left right p"
  shows "p \<in> closed_lists left \<times> closed_lists right
    \<and> (\<exists>w. \<forall>v. states_lang left (set (fst p)) v = glob_lang left (w @ v)
            \<and> states_lang right (set (snd p)) v = glob_lang right (w @ v))"
  using assms
proof (induction rule: wl_reach.induct)
  case (wl_init p)
  then show ?case
    by (auto simp: startStates_closed_lists startStates_lang intro!: exI [of _ "[]"])
next
  case (wl_succ p q)
  then obtain w where p: "p \<in> closed_lists left \<times> closed_lists right"
    and w: "\<And>v. states_lang left (set (fst p)) v = glob_lang left (w @ v)"
      "\<And>v. states_lang right (set (snd p)) v = glob_lang right (w @ v)" by blast
  from wl_succ.hyps(2) obtain c
    where q: "q = (moveGlobStates left (fst p) c, moveGlobStates right (snd p) c)"
    by (auto simp: pairSuccs_iff)
  have "eps_closed left (set (fst p))" "eps_closed right (set (snd p))"
    using p by (auto simp: closed_lists_def)
  with q w have "\<forall>v. states_lang left (set (fst q)) v = glob_lang left ((w @ [c]) @ v)
      \<and> states_lang right (set (snd q)) v = glob_lang right ((w @ [c]) @ v)"
    by (simp add: moveGlobStates_lang)
  moreover have "q \<in> closed_lists left \<times> closed_lists right"
    using p q moveGlobStates_closed_lists by auto
  ultimately show ?case by blast
qed

text \<open>
  Conversely every word that keeps the left automaton alive (and, for \<open>Intersects\<close>, the
  right one) leads to a reachable pair.
\<close>

lemma states_lang_empty [simp]: "\<not> states_lang tokens {} w"
  by (simp add: states_lang_def)

lemma product_word_reach:
  assumes "product_reach mode left right p"
    and "states_lang left (set (fst p)) w"
    and "mode = Intersects \<Longrightarrow> states_lang right (set (snd p)) w"
  shows "\<exists>q. product_reach mode left right q \<and> accepts left (fst q)
    \<and> accepts right (snd q) = states_lang right (set (snd p)) w"
  using assms
proof (induction w arbitrary: p)
  case Nil
  have "eps_closed left (set (fst p))" "eps_closed right (set (snd p))"
    using product_reach_word [OF Nil.prems(1)] by (auto simp: closed_lists_def)
  with Nil show ?case by (intro exI [of _ p]) (simp add: accepts_lang)
next
  case (Cons c w)
  have closed: "eps_closed left (set (fst p))" "eps_closed right (set (snd p))"
    using product_reach_word [OF Cons.prems(1)] by (auto simp: closed_lists_def)
  obtain r where r: "r \<in> set (representativeCharacters left right)"
      "moveGlobStates left (fst p) c = moveGlobStates left (fst p) r"
      "moveGlobStates right (snd p) c = moveGlobStates right (snd p) r"
    using representative_exists by blast
  let ?q = "(moveGlobStates left (fst p) r, moveGlobStates right (snd p) r)"
  have l: "states_lang left (set (fst ?q)) w"
    using Cons.prems(2) moveGlobStates_lang [OF closed(1), of c w] r(2) by simp
  have rr: "states_lang right (set (snd ?q)) w = states_lang right (set (snd p)) (c # w)"
    using moveGlobStates_lang [OF closed(2), of c w] r(3) by simp
  have "?q \<in> set (pairSuccs mode left right (representativeCharacters left right) p)"
    using r(1) l rr Cons.prems(3) by (auto simp: pairSuccs_iff)
  with Cons.prems(1) have "product_reach mode left right ?q" by (rule wl_succ)
  from Cons.IH [OF this l] rr Cons.prems(3) show ?case by simp
qed

lemma analyzeTokens_Inr:
  assumes "analyzeTokens mode left right = Some (Inr visited)" and "product_reach mode left right q"
  shows "\<exists>v. pairQuit mode left right v q = None"
  using assms product.search_declined
    [of "[product_start left right]" left right mode "representativeCharacters left right"]
  unfolding analyzeTokens_def startStates_def [symmetric]
  by (simp add: startStates_closed_lists)

lemma analyzeTokens_Inl:
  assumes "analyzeTokens mode left right = Some (Inl b)"
  shows "\<exists>q v. product_reach mode left right q \<and> pairQuit mode left right v q = Some b \<and> distinct v
    \<and> set v \<subseteq> Collect (product_reach mode left right)"
  using assms product.search_quit_reachable
    [of "[product_start left right]" left right mode "representativeCharacters left right" "[]" b]
  unfolding analyzeTokens_def startStates_def [symmetric]
  by (simp add: startStates_closed_lists)

lemma analyzeTokens_conservative:
  assumes "glob_lang left w" and "glob_lang right w \<longleftrightarrow> mode = Intersects"
  shows "analyzeTokens mode left right = Some (Inl (mode = Intersects))"
proof -
  obtain r where r: "analyzeTokens mode left right = Some r"
    using analyzeTokens_returns by blast
  have start: "product_reach mode left right (product_start left right)"
    by (simp add: wl_init)
  obtain q where q: "product_reach mode left right q" "accepts left (fst q)"
      "accepts right (snd q) \<longleftrightarrow> mode = Intersects"
    using product_word_reach [OF start, of w] assms by (auto simp: startStates_lang)
  show ?thesis
  proof (cases r)
    case (Inl b)
    from analyzeTokens_Inl r Inl obtain v p where "pairQuit mode left right v p = Some b" by blast
    then have "b = (mode = Intersects)"
      by (cases mode) (auto simp: pairQuit_def Let_def split: if_splits)
    with r Inl show ?thesis by simp
  next
    case (Inr visited)
    from analyzeTokens_Inr r Inr q(1) obtain v where "pairQuit mode left right v q = None" by blast
    with q(2,3) show ?thesis by (cases mode) (auto simp: pairQuit_def Let_def split: if_splits)
  qed
qed

section \<open>What the two analyses promise\<close>

lemma analyzeGlobPair_returns: "\<exists>b. analyzeGlobPair p q mode = Some b"
  using analyzeTokens_returns [of mode "tokenizePathGlob p" "tokenizePathGlob q"]
  by (auto simp: analyzeGlobPair_def)

lemma pathGlobsIntersect_complete:
  "pattern_lang p path \<Longrightarrow> pattern_lang q path \<Longrightarrow> pathGlobsIntersect p q"
  using analyzeTokens_conservative [of "tokenizePathGlob p" path "tokenizePathGlob q" Intersects]
  by (simp add: pathGlobsIntersect_def analyzeGlobPair_def pattern_lang_def)

lemma pathGlobCovers_sound:
  assumes "pathGlobCovers covering candidate" and "pattern_lang candidate path"
  shows "pattern_lang covering path"
proof (rule ccontr)
  assume "\<not> pattern_lang covering path"
  with assms(2) analyzeTokens_conservative
      [of "tokenizePathGlob candidate" path "tokenizePathGlob covering" LeftSubsetOfRight]
  have "analyzeTokens LeftSubsetOfRight (tokenizePathGlob candidate) (tokenizePathGlob covering)
      = Some (Inl False)"
    by (simp add: pattern_lang_def)
  with assms(1) show False
    by (simp add: pathGlobCovers_def analyzeGlobPair_def split: if_splits)
qed

text \<open>
  The state limit is hit only when more than 65536 pairs are reachable; where neither limit
  is hit, the answer is exact.
\<close>

definition within_limits :: "GlobMode \<Rightarrow> jstring \<Rightarrow> jstring \<Rightarrow> bool" where
  "within_limits mode left right \<longleftrightarrow>
     length left \<le> MAX_GLOB_ANALYSIS_LENGTH \<and> length right \<le> MAX_GLOB_ANALYSIS_LENGTH \<and>
     card (Collect (product_reach mode (tokenizePathGlob left) (tokenizePathGlob right)))
       \<le> MAX_GLOB_ANALYSIS_STATES"

lemma finite_product_reach: "finite (Collect (product_reach mode left right))"
  by (rule finite_subset [of _ "closed_lists left \<times> closed_lists right"])
    (use product_reach_word in \<open>auto simp: finite_closed_lists\<close>)

lemma analyzeTokens_exact:
  assumes "card (Collect (product_reach mode left right)) \<le> MAX_GLOB_ANALYSIS_STATES"
    and "analyzeTokens mode left right = Some (Inl b)"
  shows "\<exists>w. glob_lang left w \<and> (glob_lang right w \<longleftrightarrow> mode = Intersects)"
proof -
  from analyzeTokens_Inl [OF assms(2)] obtain q v
    where q: "product_reach mode left right q" and quit: "pairQuit mode left right v q = Some b"
      and v: "distinct v" "set v \<subseteq> Collect (product_reach mode left right)" by blast
  have "length v \<le> MAX_GLOB_ANALYSIS_STATES"
    using card_mono [OF finite_product_reach v(2)] v(1) assms(1) by (simp add: distinct_card)
  with quit have acc: "accepts left (fst q)" "accepts right (snd q) \<longleftrightarrow> mode = Intersects"
    by (auto simp: pairQuit_def Let_def split: if_splits intro: GlobMode.exhaust [of mode])
  from product_reach_word [OF q] obtain w
    where closed: "q \<in> closed_lists left \<times> closed_lists right"
      and w: "\<And>v. states_lang left (set (fst q)) v = glob_lang left (w @ v)"
        "\<And>v. states_lang right (set (snd q)) v = glob_lang right (w @ v)" by blast
  have "glob_lang left w" "glob_lang right w \<longleftrightarrow> mode = Intersects"
    using acc w [of "[]"] closed by (auto simp: closed_lists_def accepts_lang)
  then show ?thesis by blast
qed

lemma pathGlobsIntersect_exact:
  assumes "within_limits Intersects p q"
  shows "pathGlobsIntersect p q \<longleftrightarrow> (\<exists>path. pattern_lang p path \<and> pattern_lang q path)"
proof
  assume "pathGlobsIntersect p q"
  with assms obtain r where "analyzeTokens Intersects (tokenizePathGlob p) (tokenizePathGlob q) = Some r"
      "case_sum id (\<lambda>_. False) r"
    by (auto simp: pathGlobsIntersect_def analyzeGlobPair_def within_limits_def)
  with assms analyzeTokens_exact show "\<exists>path. pattern_lang p path \<and> pattern_lang q path"
    by (cases r) (fastforce simp: within_limits_def pattern_lang_def)+
qed (auto intro: pathGlobsIntersect_complete)

lemma pathGlobCovers_exact:
  assumes "within_limits LeftSubsetOfRight candidate covering"
  shows "pathGlobCovers covering candidate \<longleftrightarrow>
    (\<forall>path. pattern_lang candidate path \<longrightarrow> pattern_lang covering path)"
proof
  assume sub: "\<forall>path. pattern_lang candidate path \<longrightarrow> pattern_lang covering path"
  let ?l = "tokenizePathGlob candidate" and ?r = "tokenizePathGlob covering"
  obtain r where r: "analyzeTokens LeftSubsetOfRight ?l ?r = Some r"
    using analyzeTokens_returns by blast
  show "pathGlobCovers covering candidate"
  proof (cases r)
    case (Inl b)
    with assms r analyzeTokens_exact [of LeftSubsetOfRight ?l ?r b] sub show ?thesis
      by (auto simp: within_limits_def pattern_lang_def)
  next
    case (Inr visited)
    with assms r show ?thesis
      by (simp add: pathGlobCovers_def analyzeGlobPair_def within_limits_def)
  qed
qed (auto dest: pathGlobCovers_sound)

section \<open>Evaluation\<close>

text \<open>Equations that evaluate the matcher's language and the two analyses on concrete globs.\<close>

lemma glob_lang_eval [js_lib]:
  "glob_lang (Star # ts) [] = glob_lang ts []"
  "glob_lang (Star # ts) (c # s) =
     (glob_lang ts (c # s) \<or> (c \<noteq> slash \<and> glob_lang (Star # ts) s))"
  "glob_lang (Globstar # ts) [] = glob_lang ts []"
  "glob_lang (Globstar # ts) (c # s) = (glob_lang ts (c # s) \<or> glob_lang (Globstar # ts) s)"
  "glob_lang (GlobstarDirectories # ts) s =
     (glob_lang ts s \<or> scan_lang (glob_lang (GlobstarDirectories # ts)) s)"
  using glob_lang_Star_iff [of ts "[]"] glob_lang_Star_iff [of ts "c # s"]
    glob_lang_Globstar_iff [of ts "[]"] glob_lang_Globstar_iff [of ts "c # s"]
    glob_lang_Directories_iff [of ts s]
  by simp_all

lemmas pattern_lang_eval = pattern_lang_def glob_lang_eval js_def

lemmas analysis_eval =
  pathGlobsIntersect_def pathGlobCovers_def analyzeGlobPair_def MAX_GLOB_ANALYSIS_LENGTH_def
  MAX_GLOB_ANALYSIS_STATES_def analyzeTokens_def representativeCharacters_def literalValues_def
  js_set_def freshCharacter.simps worklist.simps pairQuit_def pairSuccs_def accepts_def
  moveGlobStates_def epsilonClosure_def epsilonSuccs_def moveState_def stateTokenIndex_def
  isScanningState_def normalState_def scanningState_def js_def Let_def

text \<open>Two globs that start with different literal characters are told apart at once.\<close>

lemma startStates_Literal: "startStates (Literal c # ts) = [0]"
  by (simp add: startStates_def epsilonClosure_def worklist.simps epsilonSuccs_def normalState_def
      isScanningState_def stateTokenIndex_def)

lemma moveGlobStates_Literal: "d \<noteq> c \<Longrightarrow> moveGlobStates (Literal c # ts) [0] d = []"
  by (simp add: moveGlobStates_def moveState_def isScanningState_def stateTokenIndex_def
      epsilonClosure_def worklist.simps js_set_def)

lemma analyzeTokens_mismatch:
  assumes "c \<noteq> d"
  shows "analyzeTokens Intersects (Literal c # ts) (Literal d # us) = Some (Inr [([0], [0])])"
proof -
  let ?l = "Literal c # ts" and ?r = "Literal d # us"
  have "pairSuccs Intersects ?l ?r cs ([0], [0]) = []" for cs
    using assms
    by (auto simp: pairSuccs_def Let_def concat_eq_Nil_conv)
      (metis moveGlobStates_Literal)
  moreover have "pairQuit Intersects ?l ?r [([0], [0])] ([0], [0]) = None"
    by (simp add: pairQuit_def accepts_def normalState_def MAX_GLOB_ANALYSIS_STATES_def)
  ultimately show ?thesis
    by (simp add: analyzeTokens_def startStates_def [symmetric] startStates_Literal
        worklist_step worklist_Nil)
qed

lemma pathGlobsIntersect_mismatch:
  assumes "a \<noteq> b" and "a \<noteq> CHR ''*''" and "b \<noteq> CHR ''*''" and "length s < 4096" and "length t < 4096"
  shows "\<not> pathGlobsIntersect (js (a # s)) (js (b # t))"
proof -
  have star: "asterisk = (of_char CHR ''*'' :: jchar)" by simp
  then have "(of_char a :: jchar) \<noteq> asterisk" and "(of_char b :: jchar) \<noteq> asterisk"
    using assms(2,3) of_char_jchar_inj by metis+
  then have "tokenizePathGlob (js (a # s)) = Literal (of_char a) # tokenizePathGlob (js s)"
    and "tokenizePathGlob (js (b # t)) = Literal (of_char b) # tokenizePathGlob (js t)"
    unfolding js_def by simp_all
  with assms show ?thesis
    by (simp add: pathGlobsIntersect_def analyzeGlobPair_def MAX_GLOB_ANALYSIS_LENGTH_def
        analyzeTokens_mismatch of_char_jchar_inj)
qed

end
