(* ===== verification/RiskZones.thy ===== *)
theory RiskZones
  imports GlobAnalysis
begin

text \<open>
  The risk zones of the kernel: the zone types (\<open>packages/kernel/src/types.ts\<close>), their
  order (\<open>risk.ts\<close>), the zone patterns (\<open>zone-policy.ts\<close>), the classification of changed
  paths and of declared path globs (\<open>zones.ts\<close>), and the workflow API over it
  (\<open>packages/workflows/src/risk-classification.ts\<close>).
\<close>

section \<open>Zones and their order\<close>

datatype RiskZone = Green | Yellow | Red | Black

datatype TaskRiskLevel = Low | Medium | High | Critical

definition RISK_ZONES :: "RiskZone list" where
  "RISK_ZONES = [Green, Yellow, Red, Black]"

definition TASK_RISK_LEVELS :: "TaskRiskLevel list" where
  "TASK_RISK_LEVELS = [Low, Medium, High, Critical]"

primrec zone_name :: "RiskZone \<Rightarrow> jstring" where
  "zone_name Green = js ''green''"
| "zone_name Yellow = js ''yellow''"
| "zone_name Red = js ''red''"
| "zone_name Black = js ''black''"

primrec level_name :: "TaskRiskLevel \<Rightarrow> jstring" where
  "level_name Low = js ''low''"
| "level_name Medium = js ''medium''"
| "level_name High = js ''high''"
| "level_name Critical = js ''critical''"

text \<open>\<open>indexOf\<close> on a list that holds the element; \<open>-1\<close> is never produced for a zone.\<close>

fun indexOf :: "'a list \<Rightarrow> 'a \<Rightarrow> int" where
  "indexOf [] y = -1"
| "indexOf (x # xs) y =
     (if x = y then 0 else let i = indexOf xs y in if i = -1 then -1 else i + 1)"

definition riskRank :: "RiskZone \<Rightarrow> int" where
  "riskRank zone = indexOf RISK_ZONES zone"

lemma riskRank_simps [simp]:
  "riskRank Green = 0" "riskRank Yellow = 1" "riskRank Red = 2" "riskRank Black = 3"
  by (simp_all add: riskRank_def RISK_ZONES_def)

lemma riskRank_inj [simp]: "riskRank z = riskRank z' \<longleftrightarrow> z = z'"
  by (cases z; cases z') simp_all

instantiation RiskZone :: linorder
begin

definition less_eq_RiskZone :: "RiskZone \<Rightarrow> RiskZone \<Rightarrow> bool" where
  "less_eq_RiskZone z z' \<longleftrightarrow> riskRank z \<le> riskRank z'"

definition less_RiskZone :: "RiskZone \<Rightarrow> RiskZone \<Rightarrow> bool" where
  "less_RiskZone z z' \<longleftrightarrow> riskRank z < riskRank z'"

instance
  by intro_classes (auto simp: less_eq_RiskZone_def less_RiskZone_def)

end

lemma riskRank_less [simp]: "riskRank z < riskRank z' \<longleftrightarrow> z < z'"
  by (simp add: less_RiskZone_def)

lemma RiskZone_Green_least [simp]: "Green \<le> z"
  by (cases z) (simp_all add: less_eq_RiskZone_def)

lemma RiskZone_Black_greatest [simp]: "z \<le> Black"
  by (cases z) (simp_all add: less_eq_RiskZone_def)

lemma RiskZone_extremes [simp]: "z \<le> Green \<longleftrightarrow> z = Green" "Black \<le> z \<longleftrightarrow> z = Black"
  by (cases z; simp add: less_eq_RiskZone_def)+

lemma zone_order_eval [simp]:
  "Green < Yellow" "Green < Red" "Green < Black" "Yellow < Red" "Yellow < Black" "Red < Black"
  "\<not> Yellow < Green" "\<not> Red < Green" "\<not> Black < z" "\<not> Red < Yellow" "\<not> z < Green"
  by (cases z; simp add: less_RiskZone_def)+

definition zone_of_name :: "js_unknown \<Rightarrow> RiskZone option" where
  "zone_of_name value =
     (case value of
        JString s \<Rightarrow> find (\<lambda>z. zone_name z = s) RISK_ZONES
      | JOther s \<Rightarrow> None)"

definition isRiskZone :: "js_unknown \<Rightarrow> bool" where
  "isRiskZone value =
     (case value of
        JString s \<Rightarrow> s \<in> set (map zone_name RISK_ZONES)
      | JOther s \<Rightarrow> False)"

definition isTaskRiskLevel :: "js_unknown \<Rightarrow> bool" where
  "isTaskRiskLevel value =
     (case value of
        JString s \<Rightarrow> s \<in> set (map level_name TASK_RISK_LEVELS)
      | JOther s \<Rightarrow> False)"

definition taskRiskLevelToZone :: "TaskRiskLevel \<Rightarrow> RiskZone" where
  "taskRiskLevelToZone level =
     (if level = Critical then Black
      else if level = High then Red
      else if level = Medium then Yellow
      else Green)"

fun highestRiskZone_loop :: "RiskZone option \<Rightarrow> RiskZone option list \<Rightarrow> RiskZone option" where
  "highestRiskZone_loop highest [] = highest"
| "highestRiskZone_loop highest (None # zones) = highestRiskZone_loop highest zones"
| "highestRiskZone_loop highest (Some zone # zones) =
     (case highest of
        None \<Rightarrow> highestRiskZone_loop (Some zone) zones
      | Some h \<Rightarrow>
          if riskRank zone > riskRank h then highestRiskZone_loop (Some zone) zones
          else highestRiskZone_loop (Some h) zones)"

definition highestRiskZone :: "RiskZone option list \<Rightarrow> RiskZone option" where
  "highestRiskZone zones = highestRiskZone_loop None zones"

lemma isRiskZone_iff: "isRiskZone v \<longleftrightarrow> (\<exists>z. zone_of_name v = Some z)"
  by (auto simp: isRiskZone_def zone_of_name_def RISK_ZONES_def split: js_unknown.split)

lemma zone_of_zone_name [simp]: "zone_of_name (JString (zone_name z)) = Some z"
  by (cases z) (simp_all add: zone_of_name_def RISK_ZONES_def)

lemma zone_of_name_Some: "zone_of_name v = Some z \<Longrightarrow> v = JString (zone_name z)"
  by (auto simp: zone_of_name_def find_Some_iff split: js_unknown.splits)

lemma taskRiskLevelToZone_inj: "taskRiskLevelToZone l = taskRiskLevelToZone l' \<longleftrightarrow> l = l'"
  by (cases l; cases l') (simp_all add: taskRiskLevelToZone_def)

lemma highestRiskZone_loop_Some:
  "\<exists>m. highestRiskZone_loop (Some h) zs = Some m \<and> (m = h \<or> Some m \<in> set zs) \<and> h \<le> m
     \<and> (\<forall>z. Some z \<in> set zs \<longrightarrow> z \<le> m)"
proof (induction zs arbitrary: h)
  case (Cons z zs)
  show ?case
  proof (cases z)
    case None
    with Cons show ?thesis by auto
  next
    case (Some zone)
    then show ?thesis
      using Cons [of zone] Cons [of h] by (cases "zone > h") (auto intro: order.trans)
  qed
qed simp

lemma highestRiskZone_None: "highestRiskZone zs = None \<longleftrightarrow> set zs \<subseteq> {None}"
proof (induction zs)
  case (Cons z zs)
  then show ?case
    using highestRiskZone_loop_Some [of _ zs] by (cases z) (auto simp: highestRiskZone_def)
qed (simp add: highestRiskZone_def)

lemma highestRiskZone_max:
  "highestRiskZone zs = Some m \<Longrightarrow> Some m \<in> set zs \<and> (\<forall>z. Some z \<in> set zs \<longrightarrow> z \<le> m)"
proof (induction zs)
  case Nil
  then show ?case by (simp add: highestRiskZone_def)
next
  case (Cons z zs)
  show ?case
  proof (cases z)
    case None
    with Cons show ?thesis by (simp add: highestRiskZone_def)
  next
    case (Some h)
    with Cons.prems have "highestRiskZone_loop (Some h) zs = Some m"
      by (simp add: highestRiskZone_def)
    with highestRiskZone_loop_Some [of h zs] Some show ?thesis by auto
  qed
qed

lemmas highestRiskZone_Some = highestRiskZone_max [THEN conjunct1]
  highestRiskZone_max [THEN conjunct2, rule_format]

section \<open>Zone patterns\<close>

record ZonePatternDefinition =
  zone :: RiskZone
  globs :: "jstring list"

definition DEFAULT_RISK_ZONE :: RiskZone where
  "DEFAULT_RISK_ZONE = Yellow"

definition PLUGIN_TRUST_RED_PATHS :: "jstring list" where
  "PLUGIN_TRUST_RED_PATHS =
     [js ''.openslack/plugins/**'', js ''.openslack/plugins.lock'', js ''packages/plugin-host/**'']"

definition PLUGIN_CONFIG_GLOB :: jstring where "PLUGIN_CONFIG_GLOB = PLUGIN_TRUST_RED_PATHS ! 0"
definition PLUGIN_LOCK_PATH :: jstring where "PLUGIN_LOCK_PATH = PLUGIN_TRUST_RED_PATHS ! 1"
definition PLUGIN_HOST_GLOB :: jstring where "PLUGIN_HOST_GLOB = PLUGIN_TRUST_RED_PATHS ! 2"

definition ZONE_PATTERNS :: "ZonePatternDefinition list" where
  "ZONE_PATTERNS =
     [\<lparr>zone = Black, globs = [
        js ''.env'',
        js ''**/*.pem'',
        js ''**/*.key'',
        js ''secrets/**'',
        js ''credentials/**'',
        js ''private/**'',
        js ''production-tokens/**'']\<rparr>,
      \<lparr>zone = Red, globs = [
        js ''AGENTS.md'',
        js ''CLAUDE.md'',
        js ''.github/**'',
        js ''.openslack/policies/**'',
        js ''.openslack/agents/registry/**'',
        js ''.openslack/agents/prompts/**'',
        PLUGIN_CONFIG_GLOB,
        PLUGIN_LOCK_PATH,
        js ''.openslack/self/constitution.md'',
        js ''.openslack/self/invariants.yaml'',
        js ''packages/kernel/src/**'',
        PLUGIN_HOST_GLOB]\<rparr>,
      \<lparr>zone = Yellow, globs = [
        js ''apps/**'',
        js ''packages/core/**'',
        js ''packages/workspace/**'',
        js ''packages/runtime/**'',
        js ''packages/github/**'',
        js ''packages/pr/**'',
        js ''packages/operator/**'',
        js ''packages/chat-gateway/**'',
        js ''packages/collaboration/**'',
        js ''packages/agent-runtime/**'',
        js ''packages/tui/**'',
        js ''packages/workflows/**'',
        js ''.openslack/self/eval_suites/**'']\<rparr>,
      \<lparr>zone = Green, globs = [
        js ''docs/**'',
        js ''templates/**'',
        js ''.openslack/tasks/**'',
        js ''.openslack/audit/**'',
        js ''.openslack/self/scorecards/**'',
        js ''.openslack/self/experiments/**'']\<rparr>]"

definition zone_globs :: "(RiskZone \<times> jstring) list" where
  "zone_globs = concat (map (\<lambda>d. map (\<lambda>glob. (zone d, glob)) (globs d)) ZONE_PATTERNS)"

section \<open>Changed paths\<close>

definition COMPILED_ZONE_PATTERNS :: "(RiskZone \<times> (jstring \<Rightarrow> bool)) list" where
  "COMPILED_ZONE_PATTERNS =
     concat (map (\<lambda>d. map (\<lambda>glob. (zone d, compilePathGlob glob)) (globs d)) ZONE_PATTERNS)"

text \<open>The inner loop of both classifiers: keep the highest zone whose test succeeds.\<close>

fun highest_matching :: "(RiskZone \<times> bool) list \<Rightarrow> RiskZone option \<Rightarrow> RiskZone option" where
  "highest_matching [] current = current"
| "highest_matching ((z, matched) # rest) current =
     highest_matching rest
       (if matched \<and> (case current of None \<Rightarrow> True | Some c \<Rightarrow> riskRank z > riskRank c)
        then Some z else current)"

definition pathZone :: "jstring \<Rightarrow> RiskZone option" where
  "pathZone path =
     highest_matching (map (\<lambda>(z, matches). (z, matches path)) COMPILED_ZONE_PATTERNS) None"

fun classifyPaths_loop :: "jstring list \<Rightarrow> RiskZone \<Rightarrow> RiskZone" where
  "classifyPaths_loop [] highestZone = highestZone"
| "classifyPaths_loop (path # paths) highestZone =
     (let effectiveZone = (case pathZone path of None \<Rightarrow> DEFAULT_RISK_ZONE | Some z \<Rightarrow> z)
      in classifyPaths_loop paths
           (if riskRank effectiveZone > riskRank highestZone then effectiveZone else highestZone))"

definition classifyPaths :: "jstring list \<Rightarrow> RiskZone" where
  "classifyPaths changedPaths =
     (if changedPaths = [] then Yellow else classifyPaths_loop changedPaths Green)"

section \<open>Declared scopes\<close>

definition suffixOnlyBlack :: "RiskZone \<Rightarrow> jstring \<Rightarrow> bool" where
  "suffixOnlyBlack z glob \<longleftrightarrow> z = Black \<and> startsWith glob (js ''**/'')"

definition scopeMatchesZone :: "jstring \<Rightarrow> RiskZone \<Rightarrow> jstring \<Rightarrow> bool" where
  "scopeMatchesZone scope z glob =
     (if suffixOnlyBlack z glob then pathGlobCovers glob scope else pathGlobsIntersect scope glob)"

definition scopeZone :: "jstring \<Rightarrow> RiskZone" where
  "scopeZone scope =
     (case highest_matching
             (map (\<lambda>(z, glob). (z, scopeMatchesZone scope z glob)) zone_globs) None of
        Some z \<Rightarrow> z
      | None \<Rightarrow>
          (let green = (case find (\<lambda>d. zone d = Green) ZONE_PATTERNS of
                          None \<Rightarrow> [] | Some d \<Rightarrow> globs d);
               coveredByGreen = list_ex (\<lambda>glob. pathGlobCovers glob scope) green
           in if coveredByGreen then Green else DEFAULT_RISK_ZONE))"

fun classifyDeclaredScopes_loop :: "jstring list \<Rightarrow> RiskZone \<Rightarrow> RiskZone" where
  "classifyDeclaredScopes_loop [] highestZone = highestZone"
| "classifyDeclaredScopes_loop (scope # scopes) highestZone =
     (let z = scopeZone scope
      in classifyDeclaredScopes_loop scopes
           (if riskRank z > riskRank highestZone then z else highestZone))"

definition classifyDeclaredScopes :: "jstring list \<Rightarrow> RiskZone" where
  "classifyDeclaredScopes declaredScopes =
     (if declaredScopes = [] then Yellow else classifyDeclaredScopes_loop declaredScopes Green)"

section \<open>What a classification means\<close>

lemma highest_matching_Some:
  "highest_matching zms current = Some m \<Longrightarrow>
     (current = Some m \<or> (m, True) \<in> set zms)
     \<and> (\<forall>z. (z, True) \<in> set zms \<longrightarrow> z \<le> m) \<and> (\<forall>c. current = Some c \<longrightarrow> c \<le> m)"
proof (induction zms current rule: highest_matching.induct)
  case (2 z matched rest current)
  then show ?case
    by (fastforce split: if_splits option.splits)
qed simp

lemma highest_matching_None:
  "highest_matching zms current = None \<longleftrightarrow> current = None \<and> (\<forall>z. (z, True) \<notin> set zms)"
proof (induction zms current rule: highest_matching.induct)
  case (2 z matched rest current)
  then show ?case by (cases matched; cases current) auto
qed simp

lemma highest_matching_eq:
  "highest_matching zms None = Some m \<longleftrightarrow>
     (m, True) \<in> set zms \<and> (\<forall>z. (z, True) \<in> set zms \<longrightarrow> z \<le> m)"
proof
  assume *: "(m, True) \<in> set zms \<and> (\<forall>z. (z, True) \<in> set zms \<longrightarrow> z \<le> m)"
  then obtain n where n: "highest_matching zms None = Some n"
    using highest_matching_None [of zms None] by (cases "highest_matching zms None") auto
  with highest_matching_Some [OF n] * have "n = m" by (auto intro: order.antisym)
  with n show "highest_matching zms None = Some m" by simp
qed (use highest_matching_Some in fastforce)

lemma COMPILED_ZONE_PATTERNS_zone_globs:
  "map (\<lambda>(z, matches). (z, matches path)) COMPILED_ZONE_PATTERNS
     = map (\<lambda>(z, glob). (z, pattern_lang glob path)) zone_globs"
  by (simp add: COMPILED_ZONE_PATTERNS_def zone_globs_def map_concat comp_def)

lemma pathZone_Some:
  "pathZone path = Some m \<longleftrightarrow>
     (\<exists>glob. (m, glob) \<in> set zone_globs \<and> pattern_lang glob path)
     \<and> (\<forall>(z, glob) \<in> set zone_globs. pattern_lang glob path \<longrightarrow> z \<le> m)"
  unfolding pathZone_def highest_matching_eq COMPILED_ZONE_PATTERNS_zone_globs by force

lemma pathZone_None:
  "pathZone path = None \<longleftrightarrow> (\<forall>(z, glob) \<in> set zone_globs. \<not> pattern_lang glob path)"
  unfolding pathZone_def highest_matching_None COMPILED_ZONE_PATTERNS_zone_globs by force

definition effectiveZone :: "jstring \<Rightarrow> RiskZone" where
  "effectiveZone path = (case pathZone path of None \<Rightarrow> DEFAULT_RISK_ZONE | Some z \<Rightarrow> z)"

text \<open>Both loops compute a maximum.\<close>

lemma Max_insert_max:
  "finite A \<Longrightarrow> Max (insert (max a b) A) = Max (insert a (insert b A))"
  by (cases "A = {}") (simp_all add: max.assoc)

lemma classifyPaths_loop_max: "classifyPaths_loop paths h = Max (insert h (effectiveZone ` set paths))"
proof (induction paths arbitrary: h)
  case (Cons p paths)
  have "(if riskRank (effectiveZone p) > riskRank h then effectiveZone p else h)
      = max h (effectiveZone p)"
    by (auto simp: max_def)
  then show ?case
    using Cons Max_insert_max [of "effectiveZone ` set paths" h "effectiveZone p"]
    by (simp add: effectiveZone_def [symmetric] Let_def)
qed simp

lemma classifyDeclaredScopes_loop_max:
  "classifyDeclaredScopes_loop scopes h = Max (insert h (scopeZone ` set scopes))"
proof (induction scopes arbitrary: h)
  case (Cons p scopes)
  have "(if riskRank (scopeZone p) > riskRank h then scopeZone p else h) = max h (scopeZone p)"
    by (auto simp: max_def)
  then show ?case
    using Cons Max_insert_max [of "scopeZone ` set scopes" h "scopeZone p"] by (simp add: Let_def)
qed simp

lemma classifyPaths_Max:
  "paths \<noteq> [] \<Longrightarrow> classifyPaths paths = Max (effectiveZone ` set paths)"
  by (simp add: classifyPaths_def classifyPaths_loop_max Max_insert max_absorb2)

lemma classifyDeclaredScopes_Max:
  "scopes \<noteq> [] \<Longrightarrow> classifyDeclaredScopes scopes = Max (scopeZone ` set scopes)"
  by (simp add: classifyDeclaredScopes_def classifyDeclaredScopes_loop_max Max_insert max_absorb2)

lemma classifyPaths_ge: "path \<in> set paths \<Longrightarrow> effectiveZone path \<le> classifyPaths paths"
  by (cases "paths = []") (auto simp: classifyPaths_Max)

lemma classifyDeclaredScopes_ge: "scope \<in> set scopes \<Longrightarrow> scopeZone scope \<le> classifyDeclaredScopes scopes"
  by (cases "scopes = []") (auto simp: classifyDeclaredScopes_Max)

lemma effectiveZone_ge:
  "(z, glob) \<in> set zone_globs \<Longrightarrow> pattern_lang glob path \<Longrightarrow> z \<le> effectiveZone path"
  using pathZone_None [of path] pathZone_Some [of path]
  by (cases "pathZone path") (auto simp: effectiveZone_def)

lemma effectiveZone_Green:
  "effectiveZone path = Green \<longleftrightarrow>
     (\<exists>glob. (Green, glob) \<in> set zone_globs \<and> pattern_lang glob path)
     \<and> (\<forall>(z, glob) \<in> set zone_globs. pattern_lang glob path \<longrightarrow> z = Green)"
proof -
  have "effectiveZone path = Green \<longleftrightarrow> pathZone path = Some Green"
    by (auto simp: effectiveZone_def DEFAULT_RISK_ZONE_def split: option.split)
  also have "\<dots> \<longleftrightarrow> (\<exists>glob. (Green, glob) \<in> set zone_globs \<and> pattern_lang glob path)
     \<and> (\<forall>(z, glob) \<in> set zone_globs. pattern_lang glob path \<longrightarrow> z = Green)"
    unfolding pathZone_Some by (auto simp: order.antisym)
  finally show ?thesis .
qed

lemma scopeZone_ge:
  assumes "(z, glob) \<in> set zone_globs" and "scopeMatchesZone scope z glob"
  shows "z \<le> scopeZone scope"
proof -
  let ?zms = "map (\<lambda>(z, glob). (z, scopeMatchesZone scope z glob)) zone_globs"
  have "(z, True) \<in> set ?zms" using assms by force
  then obtain m where "highest_matching ?zms None = Some m"
    using highest_matching_None [of ?zms None] by (cases "highest_matching ?zms None") auto
  with \<open>(z, True) \<in> set ?zms\<close> highest_matching_Some [of ?zms None m] show ?thesis
    by (auto simp: scopeZone_def)
qed

section \<open>The workflow view: paths grouped by zone\<close>

record ClassifiedPathGroups =
  green :: "jstring list"
  yellow :: "jstring list"
  red :: "jstring list"

record ExactClassifiedPathGroups = ClassifiedPathGroups +
  black :: "jstring list"

definition classifyEachPath :: "jstring list \<Rightarrow> (jstring \<times> RiskZone) list" where
  "classifyEachPath paths = map (\<lambda>path. (path, classifyPaths [path])) paths"

text \<open>The two loops push each path onto one bucket; a black path joins the red bucket of the first.\<close>

definition classifyPathGroups :: "jstring list \<Rightarrow> ClassifiedPathGroups" where
  "classifyPathGroups paths =
     fold (\<lambda>(path, zone) groups.
         if zone = Green then groups\<lparr>green := green groups @ [path]\<rparr>
         else if zone = Yellow then groups\<lparr>yellow := yellow groups @ [path]\<rparr>
         else groups\<lparr>red := red groups @ [path]\<rparr>)
       (classifyEachPath paths) \<lparr>green = [], yellow = [], red = []\<rparr>"

definition classifyPathGroupsExact :: "jstring list \<Rightarrow> ExactClassifiedPathGroups" where
  "classifyPathGroupsExact paths =
     fold (\<lambda>(path, zone) groups.
         case zone of
           Green \<Rightarrow> groups\<lparr>green := green groups @ [path]\<rparr>
         | Yellow \<Rightarrow> groups\<lparr>yellow := yellow groups @ [path]\<rparr>
         | Red \<Rightarrow> groups\<lparr>red := red groups @ [path]\<rparr>
         | Black \<Rightarrow> groups\<lparr>black := black groups @ [path]\<rparr>)
       (classifyEachPath paths) \<lparr>green = [], yellow = [], red = [], black = []\<rparr>"

lemma classifyPaths_singleton [simp]: "classifyPaths [path] = effectiveZone path"
  by (simp add: classifyPaths_Max)

lemma classifyPathGroups_filter:
  "classifyPathGroups paths =
     \<lparr>green = filter (\<lambda>p. effectiveZone p = Green) paths,
      yellow = filter (\<lambda>p. effectiveZone p = Yellow) paths,
      red = filter (\<lambda>p. Red \<le> effectiveZone p) paths\<rparr>"
proof -
  have "fold (\<lambda>(path, zone) groups.
         if zone = Green then groups\<lparr>green := green groups @ [path]\<rparr>
         else if zone = Yellow then groups\<lparr>yellow := yellow groups @ [path]\<rparr>
         else groups\<lparr>red := red groups @ [path]\<rparr>)
       (classifyEachPath paths) g =
     \<lparr>green = green g @ filter (\<lambda>p. effectiveZone p = Green) paths,
      yellow = yellow g @ filter (\<lambda>p. effectiveZone p = Yellow) paths,
      red = red g @ filter (\<lambda>p. Red \<le> effectiveZone p) paths\<rparr>" for g :: ClassifiedPathGroups
  proof (induction paths arbitrary: g)
    case (Cons p paths)
    then show ?case
      by (cases "effectiveZone p") (simp_all add: classifyEachPath_def less_eq_RiskZone_def)
  qed (simp add: classifyEachPath_def)
  then show ?thesis by (simp add: classifyPathGroups_def)
qed

lemma classifyPathGroupsExact_filter:
  "classifyPathGroupsExact paths =
     \<lparr>green = filter (\<lambda>p. effectiveZone p = Green) paths,
      yellow = filter (\<lambda>p. effectiveZone p = Yellow) paths,
      red = filter (\<lambda>p. effectiveZone p = Red) paths,
      black = filter (\<lambda>p. effectiveZone p = Black) paths\<rparr>"
proof -
  have "fold (\<lambda>(path, zone) groups.
         case zone of
           Green \<Rightarrow> groups\<lparr>green := green groups @ [path]\<rparr>
         | Yellow \<Rightarrow> groups\<lparr>yellow := yellow groups @ [path]\<rparr>
         | Red \<Rightarrow> groups\<lparr>red := red groups @ [path]\<rparr>
         | Black \<Rightarrow> groups\<lparr>black := black groups @ [path]\<rparr>)
       (classifyEachPath paths) g =
     \<lparr>green = green g @ filter (\<lambda>p. effectiveZone p = Green) paths,
      yellow = yellow g @ filter (\<lambda>p. effectiveZone p = Yellow) paths,
      red = red g @ filter (\<lambda>p. effectiveZone p = Red) paths,
      black = black g @ filter (\<lambda>p. effectiveZone p = Black) paths\<rparr>"
    for g :: ExactClassifiedPathGroups
  proof (induction paths arbitrary: g)
    case (Cons p paths)
    then show ?case by (cases "effectiveZone p") (simp_all add: classifyEachPath_def)
  qed (simp add: classifyEachPath_def)
  then show ?thesis by (simp add: classifyPathGroupsExact_def)
qed

section \<open>Evaluation\<close>

lemmas zone_globs_eval =
  zone_globs_def ZONE_PATTERNS_def PLUGIN_CONFIG_GLOB_def PLUGIN_LOCK_PATH_def
  PLUGIN_HOST_GLOB_def PLUGIN_TRUST_RED_PATHS_def DEFAULT_RISK_ZONE_def

lemmas zone_eval =
  effectiveZone_def pathZone_def COMPILED_ZONE_PATTERNS_zone_globs zone_globs_eval pattern_lang_eval

lemmas scope_eval =
  classifyDeclaredScopes_def scopeZone_def scopeMatchesZone_def suffixOnlyBlack_def
  zone_globs_eval pathGlobsIntersect_mismatch

end
