(* ===== verification/KernelPolicy.thy ===== *)
theory KernelPolicy
  imports RiskZones
begin

text \<open>
  The policy decisions of the kernel: the zone policy engine
  (\<open>packages/kernel/src/policy-engine.ts\<close>), the classification of self-evolution pull
  requests (\<open>self/classify-pr.ts\<close>) and the merge decider (\<open>self/merge-decider.ts\<close>), over
  the types of \<open>packages/kernel/src/types.ts\<close>.
\<close>

section \<open>Policies\<close>

record ZoneDefinition =
  zd_zone :: RiskZone
  zd_paths :: "jstring list"
  auto_merge_allowed :: bool
  requires_independent_agent_review :: "bool option"
  requires_human_approval :: "bool option"
  requires_security_review :: "bool option"
  requires_all_checks :: "bool option"

record MergeRule =
  mr_required_checks :: "jstring list"
  required_agent_reviews :: int
  human_required :: bool

text \<open>
  The two records keyed by zone are partial: the engine guards against a zone the loaded
  policy does not define.
\<close>

record PolicyDefinition =
  zones :: "RiskZone \<Rightarrow> ZoneDefinition option"
  agent_rules :: "jstring \<Rightarrow> bool option"
  merge_rules :: "RiskZone \<Rightarrow> MergeRule option"

record PolicyResult =
  passed :: bool
  result_zone :: RiskZone
  violations :: "jstring list"
  requiredActions :: "jstring list"

text \<open>An optional boolean field counts as set only when it is present and true.\<close>

abbreviation truthy :: "bool option \<Rightarrow> bool" where
  "truthy b \<equiv> b = Some True"

definition evaluatePolicy :: "PolicyDefinition \<Rightarrow> RiskZone \<Rightarrow> PolicyResult" where
  "evaluatePolicy policy context_zone =
     (case zones policy context_zone of
        None \<Rightarrow>
          \<lparr>passed = False, result_zone = context_zone,
           violations = [js ''Unknown zone: '' @ zone_name context_zone],
           requiredActions = []\<rparr>
      | Some zoneDef \<Rightarrow>
          (let merge =
                 (if \<not> auto_merge_allowed zoneDef then
                    [if context_zone = Black then js ''PR denied automatically''
                     else js ''Manual merge required'']
                  else []);
               review =
                 (if truthy (requires_independent_agent_review zoneDef) then
                    [js ''Requires ''
                     @ js_int (case merge_rules policy context_zone of
                                 None \<Rightarrow> 1 | Some rule \<Rightarrow> required_agent_reviews rule)
                     @ js '' independent agent review(s)'']
                  else []);
               human =
                 (if truthy (requires_human_approval zoneDef) then [js ''Human approval required'']
                  else []);
               security =
                 (if truthy (requires_security_review zoneDef) then [js ''Security review required'']
                  else []);
               found = []
           in \<lparr>passed = (context_zone \<noteq> Black \<and> found = []), result_zone = context_zone,
               violations = found,
               requiredActions = merge @ review @ human @ security\<rparr>))"

section \<open>Self-evolution pull requests\<close>

record PRClassification =
  pc_riskZone :: RiskZone
  humanApprovalRequired :: bool
  autoMergeAllowed :: bool
  requiredChecks :: "jstring list"
  requiredAgentReviews :: int

definition classifySelfEvolutionPR :: "jstring list \<Rightarrow> PRClassification" where
  "classifySelfEvolutionPR changedPaths =
     (case classifyPaths changedPaths of
        Black \<Rightarrow>
          \<lparr>pc_riskZone = Black, humanApprovalRequired = False, autoMergeAllowed = False,
           requiredChecks = [], requiredAgentReviews = 0\<rparr>
      | Red \<Rightarrow>
          \<lparr>pc_riskZone = Red, humanApprovalRequired = True, autoMergeAllowed = False,
           requiredChecks =
             [js ''workspace-validate'', js ''typecheck'', js ''unit-tests'', js ''self-eval'',
              js ''security-scan'', js ''policy-audit''],
           requiredAgentReviews = 2\<rparr>
      | Yellow \<Rightarrow>
          \<lparr>pc_riskZone = Yellow, humanApprovalRequired = False, autoMergeAllowed = False,
           requiredChecks =
             [js ''workspace-validate'', js ''typecheck'', js ''unit-tests'',
              js ''integration-tests'', js ''self-eval'', js ''security-scan''],
           requiredAgentReviews = 2\<rparr>
      | Green \<Rightarrow>
          \<lparr>pc_riskZone = Green, humanApprovalRequired = False, autoMergeAllowed = True,
           requiredChecks = [js ''workspace-validate'', js ''self-eval'', js ''security-scan''],
           requiredAgentReviews = 1\<rparr>)"

section \<open>The merge decider\<close>

datatype CheckOutcome = CheckPass | CheckFail | CheckSkip

record SelfCheck =
  sc_result :: CheckOutcome
  sc_command :: jstring

record ProtectedPathCheck =
  pp_result :: bool
  red_zone_touched :: bool
  black_zone_touched :: bool

datatype ScoreDecision = ScorePass | ScoreReview | ScoreBlock

record SelfScore =
  overall_score :: js_number
  score_decision :: ScoreDecision
  dimensions :: "(jstring \<times> js_unknown) list"

datatype ValidationDecision = ValidationPass | ValidationFail | ValidationRequiresHuman

record SelfValidationResult =
  experimentId :: jstring
  sv_prNumber :: int
  sv_headSha :: jstring
  sv_checks :: "(jstring \<times> SelfCheck) list"
  protectedPathCheck :: ProtectedPathCheck
  score :: SelfScore
  sv_decision :: ValidationDecision

datatype ReviewDecision = Approve | Reject | NeedsChanges

record ReviewResult =
  reviewerAgent :: jstring
  implementationAgent :: jstring
  rr_decision :: ReviewDecision
  comments :: jstring

record HumanApproval =
  approved :: bool
  approved_by :: jstring

record MergeInput =
  mi_riskZone :: RiskZone
  validation :: "SelfValidationResult option"
  mi_reviews :: "ReviewResult list"
  humanApproval :: "HumanApproval option"

datatype MergeVerdict = MergeQueue | Deny | RequireHuman | Wait

record MergeDecision =
  md_decision :: MergeVerdict
  md_reason :: jstring
  md_riskZone :: RiskZone

text \<open>The em dash of the messages is code unit 8212.\<close>

definition decideMerge :: "MergeInput \<Rightarrow> MergeDecision" where
  "decideMerge input =
     (if mi_riskZone input = Black then
        \<lparr>md_decision = Deny,
         md_reason = js ''Black Zone files touched '' @ [8212] @ js '' PR rejected automatically'',
         md_riskZone = Black\<rparr>
      else if (case validation input of
                 None \<Rightarrow> True | Some v \<Rightarrow> sv_decision v = ValidationFail) then
        \<lparr>md_decision = Deny,
         md_reason = js ''Validation failed '' @ [8212] @ js '' see self_validation.yaml'',
         md_riskZone = mi_riskZone input\<rparr>
      else if mi_riskZone input = Red \<and> humanApproval input = None then
        \<lparr>md_decision = RequireHuman,
         md_reason = js ''Red Zone requires human approval'',
         md_riskZone = Red\<rparr>
      else if list_ex (\<lambda>r. reviewerAgent r = implementationAgent r) (mi_reviews input) then
        \<lparr>md_decision = Wait,
         md_reason = js ''Implementation agent cannot review own PR'',
         md_riskZone = mi_riskZone input\<rparr>
      else
        (let hasRequiredReviews =
               length (filter (\<lambda>r. rr_decision r = Approve) (mi_reviews input)) > 0
         in if \<not> hasRequiredReviews \<and> mi_riskZone input \<noteq> Green then
              \<lparr>md_decision = Wait,
               md_reason = js ''Independent agent review required'',
               md_riskZone = mi_riskZone input\<rparr>
            else
              \<lparr>md_decision = MergeQueue,
               md_reason = js ''All gates passed '' @ [8212] @ js '' eligible for merge queue'',
               md_riskZone = mi_riskZone input\<rparr>))"

section \<open>Facts\<close>

lemma evaluatePolicy_passed:
  "passed (evaluatePolicy policy z) \<longleftrightarrow> zones policy z \<noteq> None \<and> z \<noteq> Black"
  by (simp add: evaluatePolicy_def Let_def split: option.split)

lemma classifySelfEvolutionPR_flags:
  "autoMergeAllowed (classifySelfEvolutionPR paths) \<longleftrightarrow> classifyPaths paths = Green"
  "humanApprovalRequired (classifySelfEvolutionPR paths) \<longleftrightarrow> classifyPaths paths = Red"
  "pc_riskZone (classifySelfEvolutionPR paths) = classifyPaths paths"
  by (cases "classifyPaths paths"; simp add: classifySelfEvolutionPR_def)+

lemma filter_length_positive: "0 < length (filter P xs) \<longleftrightarrow> (\<exists>x \<in> set xs. P x)"
  by (induction xs) auto

lemma decideMerge_queue:
  "md_decision (decideMerge input) = MergeQueue \<longleftrightarrow>
     mi_riskZone input \<noteq> Black
     \<and> (\<exists>v. validation input = Some v \<and> sv_decision v \<noteq> ValidationFail)
     \<and> (mi_riskZone input = Red \<longrightarrow> humanApproval input \<noteq> None)
     \<and> (\<forall>r \<in> set (mi_reviews input). reviewerAgent r \<noteq> implementationAgent r)
     \<and> (mi_riskZone input = Green \<or> (\<exists>r \<in> set (mi_reviews input). rr_decision r = Approve))"
  by (auto simp: decideMerge_def Let_def list_ex_iff filter_length_positive
      filter_empty_conv split: option.splits)

end
