(* ===== verification/AgentAuthorizer.thy ===== *)
theory AgentAuthorizer
  imports KernelPolicy
begin

text \<open>
  The agent permission gate of the kernel (\<open>packages/kernel/src/agent-authorizer.ts\<close>) over
  the identity and permission types of \<open>types.ts\<close>: the snapshot of an agent's permissions,
  and the ordered checks that decide whether an action is allowed, needs a human, or is
  denied.
\<close>

section \<open>Identities and permissions\<close>

datatype ActionVerdict = VAllow | VAsk | VDeny

datatype IdentityStatus = IdentityActive | IdentitySuspended | IdentityRetired

record KeyRotation =
  last_rotated_at :: "jstring option"
  rotation_interval_days :: int

record AgentRegistryIdentity =
  uid :: jstring
  principal_id :: jstring
  ri_public_key_jwk :: "js_unknown option"
  ri_key_id :: "jstring option"
  key_rotation :: KeyRotation
  ri_status :: IdentityStatus

record PathPermissions =
  path_allow :: "jstring list"
  path_deny :: "jstring list"

record GithubPermissions =
  can_create_pr :: bool
  can_comment :: bool
  can_approve :: bool
  can_merge :: bool

text \<open>
  \<open>max_risk_zone\<close> is checked at run time (\<open>isRiskZone\<close>), so it is an unchecked value here;
  \<open>actions\<close> is an object keyed by the action's name.
\<close>

record AgentPermissions =
  paths :: PathPermissions
  actions :: "jstring \<Rightarrow> ActionVerdict option"
  github :: GithubPermissions
  max_risk_zone :: js_unknown

datatype Provider = ProviderCli | ProviderSlack | ProviderGithub | ProviderWebhook

record GithubIdentity =
  login :: jstring
  is_bot :: bool

record Vendor =
  vendor_provider :: jstring
  vendor_runtime :: jstring
  vendor_model :: "jstring option"

datatype EmploymentStatus =
  EmploymentActive | EmploymentPaused | EmploymentOnboarding | EmploymentRetired

record Employment =
  em_status :: EmploymentStatus
  hired_at :: jstring
  hired_by :: "jstring option"
  department :: "jstring option"
  em_role :: "jstring option"
  manager :: "jstring option"

record RepositoryRef =
  repo_owner :: jstring
  repo_name :: jstring
  default_branch :: jstring

record ExecutionLimits =
  max_parallel_tasks :: "js_number option"
  lease_ttl_minutes :: "js_number option"
  heartbeat_interval_minutes :: "js_number option"
  max_task_runtime_minutes :: "js_number option"
  max_daily_tasks :: "js_number option"

record OutputContract =
  must_create :: "jstring list"
  may_create :: "jstring list"
  must_not_create :: "jstring list"

record TaskMatching =
  github_owner :: "jstring option"
  github_project_number :: "js_number option"
  max_risk_level :: "TaskRiskLevel option"

record Scheduler =
  preferred_mode :: "jstring option"
  cadence_minutes :: "js_number option"

record AgentRegistryEntry =
  are_schema :: jstring
  are_agent_id :: jstring
  display_name :: jstring
  employee_type :: jstring
  are_identity :: AgentRegistryIdentity
  vendor :: Vendor
  employment :: Employment
  capabilities_primary :: "jstring list"
  capabilities_secondary :: "jstring list"
  workspace_repo :: RepositoryRef
  allowed_product_repos :: "jstring list option"
  are_permissions :: AgentPermissions
  execution :: ExecutionLimits
  output_contract :: OutputContract
  require_human_approval_for :: "jstring list"
  task_matching :: "TaskMatching option"
  scheduler :: "Scheduler option"

record AgentRuntimeIdentity =
  ari_schema :: jstring
  ari_agent_id :: jstring
  ari_agent_uid :: jstring
  ari_run_id :: jstring
  ari_public_key_jwk :: "js_unknown option"
  ari_key_id :: "jstring option"
  key_generated_at :: "jstring option"
  ari_provider :: Provider
  ari_github :: "GithubIdentity option"
  started_at :: jstring

record AgentPrincipal =
  registry_id :: jstring
  runtime_uid :: jstring
  run_id :: jstring
  provider :: Provider
  authenticated_github_identity :: "GithubIdentity option"

datatype SnapshotSource = RegistryV1 | RegistryV2

record AgentPermissionSnapshot =
  principal :: AgentPrincipal
  registry_entry_agent_id :: jstring
  permissions :: AgentPermissions
  resolved_at :: jstring
  snapshot_source :: SnapshotSource

datatype AuthorizationDecision = AuthAllow | AuthAsk | AuthDeny

record AuthorizationEvidence =
  rule :: jstring
  ev_reason :: jstring
  agent_id :: jstring
  ev_action :: jstring
  risk_zone :: "RiskZone option"
  identity_verified :: bool
  registry_active :: bool

record AuthorizationResult =
  decision :: AuthorizationDecision
  evidence :: AuthorizationEvidence
  prompt_message :: "jstring option"
  diagnostics :: "jstring list"

section \<open>The permission snapshot\<close>

text \<open>
  \<open>resolvePermissionSnapshot\<close> copies and freezes; copies of immutable values are the values.
  The clock (\<open>new Date().toISOString()\<close>) is the argument \<open>now\<close>.
\<close>

definition resolvePermissionSnapshot ::
  "jstring \<Rightarrow> AgentRegistryEntry option \<Rightarrow> AgentRuntimeIdentity option \<Rightarrow>
     AgentPermissionSnapshot option" where
  "resolvePermissionSnapshot now registry runtimeIdentity =
     (case registry of
        None \<Rightarrow> None
      | Some reg \<Rightarrow>
          (case runtimeIdentity of
             None \<Rightarrow> None
           | Some ident \<Rightarrow>
               Some \<lparr>principal =
                       \<lparr>registry_id = are_agent_id reg,
                        runtime_uid = ari_agent_uid ident,
                        run_id = ari_run_id ident,
                        provider = ari_provider ident,
                        authenticated_github_identity =
                          map_option (\<lambda>g. \<lparr>login = login g, is_bot = is_bot g\<rparr>) (ari_github ident)\<rparr>,
                     registry_entry_agent_id = are_agent_id reg,
                     permissions = are_permissions reg,
                     resolved_at = now,
                     snapshot_source =
                       (if are_schema reg = js ''openslack.agent_registry.v2'' then RegistryV2
                        else RegistryV1)\<rparr>))"

section \<open>The authorization gate\<close>

text \<open>
  A request carries changed paths, or a declared scope, or neither, and possibly a risk zone
  of the caller's choosing, which is checked at run time.
\<close>

record AuthorizationRequest =
  snapshot :: "AgentPermissionSnapshot option"
  action :: jstring
  changedPaths :: "jstring list option"
  declaredScope :: "jstring list option"
  riskZone :: "js_unknown option"

definition quoted :: "jstring \<Rightarrow> jstring" where
  "quoted s = [34] @ s @ [34]"

text \<open>\<open>denyEvidence\<close> with the caller's \<open>extras\<close>: verified and active default to false.\<close>

definition denyEvidence ::
  "jstring \<Rightarrow> jstring \<Rightarrow> jstring \<Rightarrow> jstring \<Rightarrow> bool \<Rightarrow> RiskZone option \<Rightarrow> AuthorizationEvidence" where
  "denyEvidence r reason agentId act verified rz =
     \<lparr>rule = r, ev_reason = reason, agent_id = agentId, ev_action = act, risk_zone = rz,
      identity_verified = verified, registry_active = verified\<rparr>"

definition denied :: "AuthorizationEvidence \<Rightarrow> jstring list \<Rightarrow> AuthorizationResult" where
  "denied ev diags =
     \<lparr>decision = AuthDeny, evidence = ev, prompt_message = None, diagnostics = diags\<rparr>"

text \<open>Step 5: the first path (in order) with a deny glob (in order) that concerns it.\<close>

fun firstDenied :: "(jstring \<Rightarrow> jstring \<Rightarrow> bool) \<Rightarrow> jstring list \<Rightarrow> jstring list \<Rightarrow> (jstring \<times> jstring) option"
where
  "firstDenied hits denyGlobs [] = None"
| "firstDenied hits denyGlobs (p # ps) =
     (case find (\<lambda>glob. hits glob p) denyGlobs of
        Some glob \<Rightarrow> Some (p, glob)
      | None \<Rightarrow> firstDenied hits denyGlobs ps)"

text \<open>Step 6: the first path no allow glob covers.\<close>

definition firstNotAllowed :: "(jstring \<Rightarrow> jstring \<Rightarrow> bool) \<Rightarrow> jstring list \<Rightarrow> jstring list \<Rightarrow> jstring option"
where
  "firstNotAllowed covers allowGlobs ps = find (\<lambda>p. \<not> list_ex (\<lambda>glob. covers glob p) allowGlobs) ps"

definition denyHits :: "AuthorizationRequest \<Rightarrow> jstring \<Rightarrow> jstring \<Rightarrow> bool" where
  "denyHits args denyGlob p =
     (if declaredScope args \<noteq> None then pathGlobsIntersect p denyGlob else compilePathGlob denyGlob p)"

definition allowCovers :: "AuthorizationRequest \<Rightarrow> jstring \<Rightarrow> jstring \<Rightarrow> bool" where
  "allowCovers args glob p =
     (if declaredScope args \<noteq> None then pathGlobCovers glob p else compilePathGlob glob p)"

definition authorizedPaths :: "AuthorizationRequest \<Rightarrow> jstring list" where
  "authorizedPaths args =
     (case declaredScope args of
        Some scope \<Rightarrow> scope
      | None \<Rightarrow> (case changedPaths args of Some ps \<Rightarrow> ps | None \<Rightarrow> []))"

definition derivedRiskZone :: "AuthorizationRequest \<Rightarrow> RiskZone option" where
  "derivedRiskZone args =
     (if authorizedPaths args \<noteq> [] then
        Some (if declaredScope args \<noteq> None then classifyDeclaredScopes (authorizedPaths args)
              else classifyPaths (authorizedPaths args))
      else None)"

text \<open>Steps 7 to 12: the checks on the action itself.\<close>

definition authorizeByAction ::
  "jstring \<Rightarrow> AgentPermissions \<Rightarrow> jstring \<Rightarrow> RiskZone option \<Rightarrow> jstring list \<Rightarrow>
     AuthorizationResult" where
  "authorizeByAction act perms agentId effective diags =
     (let deny = (\<lambda>r reason rz ds. denied (denyEvidence r reason agentId act True rz) ds)
      in
      if act = js ''github.approve'' then
        deny (js ''github_approve_forbidden'')
          (js ''Agent '' @ quoted agentId @ js '' cannot approve PRs '' @ [8212]
            @ js '' agents never hold approval authority'')
          None
          (diags @ [js ''DENY: agents can never submit GitHub APPROVE reviews''])
      else if act = js ''github.merge'' \<and> \<not> can_merge (github perms) then
        deny (js ''github_merge_forbidden'')
          (js ''Agent '' @ quoted agentId @ js '' does not have merge permission'')
          None
          (diags @ [js ''DENY: agent cannot merge''])
      else (case actions perms act of
        Some VDeny \<Rightarrow>
          deny (js ''action_denied'')
            (js ''Action '' @ quoted act @ js '' is denied for agent '' @ quoted agentId)
            effective
            (diags @ [js ''DENY: action '' @ quoted act @ js '' is explicitly denied''])
      | Some VAsk \<Rightarrow>
          \<lparr>decision = AuthAsk,
           evidence = denyEvidence (js ''action_ask'')
             (js ''Action '' @ quoted act @ js '' requires confirmation for agent ''
               @ quoted agentId) agentId act True effective,
           prompt_message = Some (js ''Agent '' @ quoted agentId
             @ js '' requests permission to execute '' @ quoted act @ js ''. Allow?''),
           diagnostics =
             diags @ [js ''ASK: action '' @ quoted act @ js '' requires human confirmation'']\<rparr>
      | Some VAllow \<Rightarrow>
          \<lparr>decision = AuthAllow,
           evidence = denyEvidence (js ''action_allowed'')
             (js ''Action '' @ quoted act @ js '' is allowed for agent '' @ quoted agentId)
             agentId act True effective,
           prompt_message = None,
           diagnostics =
             diags @ [js ''ALLOW: action '' @ quoted act @ js '' is explicitly allowed'']\<rparr>
      | None \<Rightarrow>
          deny (js ''unknown_action'')
            (js ''Action '' @ quoted act @ js '' is not in the permissions list for agent ''
              @ quoted agentId)
            effective
            (diags @ [js ''DENY: unknown action '' @ quoted act])))"

definition authorizeAgentAction :: "AuthorizationRequest \<Rightarrow> AuthorizationResult" where
  "authorizeAgentAction args =
     (let act = action args;
          d0 = [js ''Authorizing action='' @ quoted act]
      in case snapshot args of
        None \<Rightarrow>
          denied
            (denyEvidence (js ''unknown_principal'')
               (js ''No permission snapshot resolved for action '' @ quoted act)
               (js ''unknown'') act False None)
            (d0 @ [js ''DENY: no permission snapshot (unknown principal)''])
      | Some snap \<Rightarrow>
        (let perms = permissions snap;
             agentId = registry_id (principal snap);
             deny = (\<lambda>r reason rz diags. denied (denyEvidence r reason agentId act True rz) diags)
         in
         if changedPaths args \<noteq> None \<and> declaredScope args \<noteq> None then
           deny (js ''ambiguous_path_scope'')
             (js ''Authorization input cannot contain both changed paths and a declared scope'') None
             (d0 @ [js ''DENY: changedPaths and declaredScope cannot both be supplied''])
         else if (case riskZone args of None \<Rightarrow> False | Some v \<Rightarrow> \<not> isRiskZone v) then
           (let shown = quoted (case riskZone args of None \<Rightarrow> [] | Some v \<Rightarrow> js_String v)
            in deny (js ''invalid_risk_zone'')
                 (js ''Authorization input has unsupported risk zone '' @ shown) None
                 (d0 @ [js ''DENY: invalid requested risk zone '' @ shown]))
         else (case zone_of_name (max_risk_zone perms) of
           None \<Rightarrow>
             (let shown = quoted (js_String (max_risk_zone perms))
              in deny (js ''invalid_permission_risk_zone'')
                   (js ''Agent '' @ quoted agentId @ js '' has unsupported max_risk_zone '' @ shown)
                   None
                   (d0 @ [js ''DENY: invalid permission max_risk_zone '' @ shown]))
         | Some maxZone \<Rightarrow>
           (let effective = highestRiskZone
                  [case riskZone args of None \<Rightarrow> None | Some v \<Rightarrow> zone_of_name v,
                   derivedRiskZone args];
                d1 = d0 @ (case derivedRiskZone args of
                       None \<Rightarrow> []
                     | Some z \<Rightarrow>
                         [js ''Derived risk zone '' @ quoted (zone_name z) @ js '' from ''
                          @ (if declaredScope args \<noteq> None then js ''declared scope''
                             else js ''changed paths'')])
            in
            if effective = Some Black then
              deny (js ''black_zone'')
                (js ''Black zone paths can never be acted on directly by agent '' @ quoted agentId)
                (Some Black)
                (d1 @ [js ''DENY: black zone '' @ [8212] @ js '' unconditional''])
            else if (case effective of None \<Rightarrow> False | Some z \<Rightarrow> riskRank z > riskRank maxZone) then
              (let shown = quoted (case effective of None \<Rightarrow> [] | Some z \<Rightarrow> zone_name z)
               in deny (js ''risk_ceiling'')
                    (js ''Action requires '' @ shown @ js '' zone but agent '' @ quoted agentId
                      @ js '' ceiling is '' @ quoted (zone_name maxZone))
                    effective
                    (d1 @ [js ''DENY: risk zone '' @ shown @ js '' exceeds max_risk_zone ''
                      @ quoted (zone_name maxZone)]))
            else (case firstDenied (denyHits args) (path_deny (paths perms)) (authorizedPaths args) of
              Some (p, denyGlob) \<Rightarrow>
                deny (js ''path_denied'')
                  (js ''Path '' @ quoted p @ js '' is denied by pattern '' @ quoted denyGlob
                    @ js '' for agent '' @ quoted agentId)
                  effective
                  (d1 @ [js ''DENY: path '' @ quoted p @ js '' matches deny glob '' @ quoted denyGlob])
            | None \<Rightarrow> (case firstNotAllowed (allowCovers args) (path_allow (paths perms))
                              (authorizedPaths args) of
              Some p \<Rightarrow>
                deny (js ''path_not_allowed'')
                  (js ''Path '' @ quoted p @ js '' is outside allowed paths for agent '' @ quoted agentId)
                  effective
                  (d1 @ [js ''DENY: path '' @ quoted p @ js '' not in allow list''])
            | None \<Rightarrow>
              authorizeByAction act perms agentId effective d1))))))"

section \<open>What the gate promises\<close>

lemma firstDenied_None:
  "firstDenied hits denyGlobs ps = None \<longleftrightarrow> (\<forall>p \<in> set ps. \<forall>glob \<in> set denyGlobs. \<not> hits glob p)"
  by (induction ps) (auto split: option.split simp: find_None_iff find_Some_iff)

lemma firstNotAllowed_None:
  "firstNotAllowed covers allowGlobs ps = None \<longleftrightarrow>
     (\<forall>p \<in> set ps. \<exists>glob \<in> set allowGlobs. covers glob p)"
  by (auto simp: firstNotAllowed_def find_None_iff list_ex_iff)

definition effectiveRiskZone :: "AuthorizationRequest \<Rightarrow> RiskZone option" where
  "effectiveRiskZone args =
     highestRiskZone
       [case riskZone args of None \<Rightarrow> None | Some v \<Rightarrow> zone_of_name v, derivedRiskZone args]"

text \<open>Every guard of the gate but the final verdict, as one condition on the request.\<close>

definition gatesPass :: "AuthorizationRequest \<Rightarrow> AgentPermissionSnapshot \<Rightarrow> RiskZone \<Rightarrow> bool" where
  "gatesPass args snap maxZone \<longleftrightarrow>
     (changedPaths args = None \<or> declaredScope args = None)
     \<and> (\<forall>v. riskZone args = Some v \<longrightarrow> isRiskZone v)
     \<and> zone_of_name (max_risk_zone (permissions snap)) = Some maxZone
     \<and> effectiveRiskZone args \<noteq> Some Black
     \<and> (\<forall>z. effectiveRiskZone args = Some z \<longrightarrow> z \<le> maxZone)
     \<and> (\<forall>p \<in> set (authorizedPaths args). \<forall>glob \<in> set (path_deny (paths (permissions snap))).
           \<not> denyHits args glob p)
     \<and> (\<forall>p \<in> set (authorizedPaths args). \<exists>glob \<in> set (path_allow (paths (permissions snap))).
           allowCovers args glob p)
     \<and> action args \<noteq> js ''github.approve''
     \<and> (action args = js ''github.merge'' \<longrightarrow> can_merge (github (permissions snap)))"

lemma decision_denied [simp]: "decision (denied ev diags) = AuthDeny"
  by (simp add: denied_def)

lemma authorizeAgentAction_verdict:
  assumes "snapshot args = Some snap" and "gatesPass args snap maxZone"
  shows "decision (authorizeAgentAction args) =
    (case actions (permissions snap) (action args) of
       Some VAllow \<Rightarrow> AuthAllow | Some VAsk \<Rightarrow> AuthAsk | _ \<Rightarrow> AuthDeny)"
proof -
  have g: "\<not> (changedPaths args \<noteq> None \<and> declaredScope args \<noteq> None)"
    "\<not> (case riskZone args of None \<Rightarrow> False | Some v \<Rightarrow> \<not> isRiskZone v)"
    "zone_of_name (max_risk_zone (permissions snap)) = Some maxZone"
    "effectiveRiskZone args \<noteq> Some Black"
    "\<not> (case effectiveRiskZone args of None \<Rightarrow> False | Some z \<Rightarrow> riskRank z > riskRank maxZone)"
    "firstDenied (denyHits args) (path_deny (paths (permissions snap))) (authorizedPaths args) = None"
    "firstNotAllowed (allowCovers args) (path_allow (paths (permissions snap))) (authorizedPaths args)
       = None"
    "action args \<noteq> js ''github.approve''"
    "\<not> (action args = js ''github.merge'' \<and> \<not> can_merge (github (permissions snap)))"
    using assms(2)
    by (auto simp: gatesPass_def firstDenied_None firstNotAllowed_None split: option.splits)
  show ?thesis
    unfolding authorizeAgentAction_def authorizeByAction_def Let_def
      effectiveRiskZone_def [symmetric] assms(1)
      option.case g(3) if_not_P [OF g(1)] if_not_P [OF g(2)] if_not_P [OF g(4)] if_not_P [OF g(5)]
      g(6) g(7) if_not_P [OF g(8)] if_not_P [OF g(9)]
    by (cases "actions (permissions snap) (action args)"; simp split: ActionVerdict.split)
qed

lemma authorizeAgentAction_gates:
  assumes "decision (authorizeAgentAction args) \<noteq> AuthDeny"
  obtains snap maxZone where "snapshot args = Some snap" and "gatesPass args snap maxZone"
proof -
  have *: "decision (authorizeAgentAction args) \<noteq> AuthDeny" by (rule assms)
  note unfolded = * [unfolded authorizeAgentAction_def authorizeByAction_def Let_def
      effectiveRiskZone_def [symmetric]]
  obtain snap where snap: "snapshot args = Some snap"
    using unfolded by (cases "snapshot args") simp_all
  note u1 = unfolded [unfolded snap option.case]
  have a: "\<not> (changedPaths args \<noteq> None \<and> declaredScope args \<noteq> None)"
    using u1 by (rule contrapos_nn) simp
  note u2 = u1 [unfolded if_not_P [OF a]]
  have b: "\<not> (case riskZone args of None \<Rightarrow> False | Some v \<Rightarrow> \<not> isRiskZone v)"
    using u2 by (rule contrapos_nn) simp
  note u3 = u2 [unfolded if_not_P [OF b]]
  obtain maxZone where c: "zone_of_name (max_risk_zone (permissions snap)) = Some maxZone"
    using u3 by (cases "zone_of_name (max_risk_zone (permissions snap))") simp_all
  note u4 = u3 [unfolded c option.case]
  have d: "effectiveRiskZone args \<noteq> Some Black"
    using u4 by (rule contrapos_nn) simp
  note u5 = u4 [unfolded if_not_P [OF d]]
  have e: "\<not> (case effectiveRiskZone args of None \<Rightarrow> False | Some z \<Rightarrow> riskRank z > riskRank maxZone)"
    using u5 by (rule contrapos_nn) simp
  note u6 = u5 [unfolded if_not_P [OF e]]
  have f: "firstDenied (denyHits args) (path_deny (paths (permissions snap))) (authorizedPaths args)
      = None"
    using u6 by (auto split: option.splits)
  note u7 = u6 [unfolded f option.case]
  have g: "firstNotAllowed (allowCovers args) (path_allow (paths (permissions snap)))
      (authorizedPaths args) = None"
    using u7 by (auto split: option.splits)
  note u8 = u7 [unfolded g option.case]
  have h: "action args \<noteq> js ''github.approve''"
    using u8 by (rule contrapos_nn) simp
  note u9 = u8 [unfolded if_not_P [OF h]]
  have i: "\<not> (action args = js ''github.merge'' \<and> \<not> can_merge (github (permissions snap)))"
    using u9 by (rule contrapos_nn) simp
  have "gatesPass args snap maxZone"
    using a b c d e f g h i
    by (auto simp: gatesPass_def firstDenied_None firstNotAllowed_None not_less split: option.splits)
  with snap show ?thesis by (rule that)
qed

text \<open>
  The concrete repository paths a request is about: the changed paths themselves, or every
  path a declared scope glob matches.
\<close>

definition concernsPath :: "AuthorizationRequest \<Rightarrow> jstring \<Rightarrow> bool" where
  "concernsPath args p =
     (case declaredScope args of
        Some scopes \<Rightarrow> \<exists>scope \<in> set scopes. pattern_lang scope p
      | None \<Rightarrow> (case changedPaths args of Some ps \<Rightarrow> p \<in> set ps | None \<Rightarrow> False))"

lemma gates_paths:
  assumes "gatesPass args snap maxZone" and "concernsPath args p"
  shows "\<exists>glob \<in> set (path_allow (paths (permissions snap))). pattern_lang glob p"
    and "\<forall>glob \<in> set (path_deny (paths (permissions snap))). \<not> pattern_lang glob p"
proof -
  have "(\<exists>glob \<in> set (path_allow (paths (permissions snap))). pattern_lang glob p)
      \<and> (\<forall>glob \<in> set (path_deny (paths (permissions snap))). \<not> pattern_lang glob p)"
  proof (cases "declaredScope args")
    case None
    with assms(2) have "p \<in> set (authorizedPaths args)"
      by (auto simp: concernsPath_def authorizedPaths_def split: option.splits)
    with assms(1) None show ?thesis
      unfolding gatesPass_def allowCovers_def denyHits_def by simp
  next
    case (Some scopes)
    with assms(2) obtain scope where scope: "scope \<in> set (authorizedPaths args)"
      and lang: "pattern_lang scope p"
      by (auto simp: concernsPath_def authorizedPaths_def)
    from assms(1) scope Some
    have "\<exists>glob \<in> set (path_allow (paths (permissions snap))). pathGlobCovers glob scope"
      and "\<forall>glob \<in> set (path_deny (paths (permissions snap))). \<not> pathGlobsIntersect scope glob"
      unfolding gatesPass_def allowCovers_def denyHits_def by simp_all
    with lang show ?thesis using pathGlobCovers_sound pathGlobsIntersect_complete by blast
  qed
  then show "\<exists>glob \<in> set (path_allow (paths (permissions snap))). pattern_lang glob p"
    and "\<forall>glob \<in> set (path_deny (paths (permissions snap))). \<not> pattern_lang glob p" by simp_all
qed

lemma gates_derived_zone:
  assumes "gatesPass args snap maxZone" and "derivedRiskZone args = Some z"
  shows "z \<le> maxZone" and "z \<noteq> Black"
proof -
  from assms(2) obtain m where m: "effectiveRiskZone args = Some m"
    using highestRiskZone_None
      [of "[case riskZone args of None \<Rightarrow> None | Some v \<Rightarrow> zone_of_name v, derivedRiskZone args]"]
    by (cases "effectiveRiskZone args") (auto simp: effectiveRiskZone_def)
  have "z \<le> m"
    by (rule highestRiskZone_Some(2) [OF m [unfolded effectiveRiskZone_def]])
      (simp add: assms(2))
  with m assms(1) show "z \<le> maxZone" and "z \<noteq> Black"
    by (auto simp: gatesPass_def intro: order.trans order.antisym)
qed

lemma scope_zone_bound:
  assumes "scope \<in> set scopes" and "pattern_lang scope p"
    and "(z, glob) \<in> set zone_globs" and "pattern_lang glob p" and "\<not> suffixOnlyBlack z glob"
  shows "z \<le> classifyDeclaredScopes scopes"
proof -
  have "scopeMatchesZone scope z glob"
    using assms pathGlobsIntersect_complete by (simp add: scopeMatchesZone_def)
  with assms(3) have "z \<le> scopeZone scope" by (rule scopeZone_ge)
  also have "\<dots> \<le> classifyDeclaredScopes scopes" using assms(1) by (rule classifyDeclaredScopes_ge)
  finally show ?thesis .
qed

lemma gates_concerned_zone:
  assumes "gatesPass args snap maxZone" and "concernsPath args p"
    and "(z, glob) \<in> set zone_globs" and "pattern_lang glob p"
    and "suffixOnlyBlack z glob \<Longrightarrow> declaredScope args = None"
  shows "z \<le> maxZone" and "z \<noteq> Black"
proof -
  have "\<exists>d. derivedRiskZone args = Some d \<and> z \<le> d"
  proof (cases "declaredScope args")
    case None
    with assms(2) have p: "p \<in> set (authorizedPaths args)"
      by (auto simp: concernsPath_def authorizedPaths_def split: option.splits)
    have "z \<le> effectiveZone p" using assms(3,4) by (rule effectiveZone_ge)
    also have "\<dots> \<le> classifyPaths (authorizedPaths args)" using p by (rule classifyPaths_ge)
    finally show ?thesis using None p by (auto simp: derivedRiskZone_def)
  next
    case (Some scopes)
    with assms(2) obtain scope where "scope \<in> set scopes" "pattern_lang scope p"
      by (auto simp: concernsPath_def)
    moreover from Some assms(5) have "\<not> suffixOnlyBlack z glob" by auto
    ultimately have "z \<le> classifyDeclaredScopes scopes"
      using assms(3,4) scope_zone_bound by blast
    with Some \<open>scope \<in> set scopes\<close> show ?thesis
      by (auto simp: derivedRiskZone_def authorizedPaths_def)
  qed
  then obtain d where d: "derivedRiskZone args = Some d" "z \<le> d" by blast
  with gates_derived_zone [OF assms(1) d(1)] show "z \<le> maxZone" and "z \<noteq> Black"
    by (auto intro: order.trans order.antisym)
qed

text \<open>For changed paths the bound is on their full classification, the default zone included.\<close>

lemma gates_changed_zone:
  assumes "gatesPass args snap maxZone" and "changedPaths args = Some ps" and "p \<in> set ps"
  shows "classifyPaths [p] \<le> maxZone" and "classifyPaths [p] \<noteq> Black"
proof -
  from assms(1,2) have "declaredScope args = None" by (simp add: gatesPass_def)
  with assms(2,3) have d: "derivedRiskZone args = Some (classifyPaths ps)"
    by (auto simp: derivedRiskZone_def authorizedPaths_def)
  have "classifyPaths [p] \<le> classifyPaths ps" using assms(3) by (simp add: classifyPaths_ge)
  with gates_derived_zone [OF assms(1) d]
  show "classifyPaths [p] \<le> maxZone" and "classifyPaths [p] \<noteq> Black"
    by (auto intro: order.trans order.antisym)
qed

lemma authorize_allow:
  "decision (authorizeAgentAction args) = AuthAllow \<longleftrightarrow>
     (\<exists>snap maxZone. snapshot args = Some snap \<and> gatesPass args snap maxZone
        \<and> actions (permissions snap) (action args) = Some VAllow)"
proof
  assume a: "decision (authorizeAgentAction args) = AuthAllow"
  then have "decision (authorizeAgentAction args) \<noteq> AuthDeny" by simp
  then obtain snap maxZone where "snapshot args = Some snap" "gatesPass args snap maxZone"
    by (rule authorizeAgentAction_gates)
  with a show "\<exists>snap maxZone. snapshot args = Some snap \<and> gatesPass args snap maxZone
        \<and> actions (permissions snap) (action args) = Some VAllow"
    by (auto simp: authorizeAgentAction_verdict split: option.splits ActionVerdict.splits)
qed (auto simp: authorizeAgentAction_verdict)

end
