(* ===== verification/KernelProperties.thy ===== *)
theory KernelProperties
  imports AgentAuthorizer
begin

text \<open>
  The properties of the kernel: the glob matcher and analyses, zone classification, the
  policy decisions and the agent authorization gate, each with a concrete instance.
\<close>

section \<open>Path globs\<close>

text \<open>C26: The glob matcher returns on every token list and path, and its answer is membership
  of the path in the language of the tokens (\<open>*\<close> stops at slashes, \<open>**\<close> does not, \<open>**/\<close> is
  any number of whole directories).\<close>

theorem glob_matcher_decides_language:
  "matchesCompiledPathGlob tokens path = Some (glob_lang tokens path)"
  by (rule matchesCompiledPathGlob_lang)


text \<open>An overlap is never missed: two globs that both match some path are reported as
  intersecting, whatever limit the analysis runs into.\<close>

theorem glob_overlap_never_missed:
  assumes "matchesPathGlob p path" and "matchesPathGlob q path"
  shows "pathGlobsIntersect p q"
  using assms by (simp add: pathGlobsIntersect_complete)

theorem glob_overlap_never_missed_witness:
  "matchesPathGlob (js ''docs/**'') (js ''docs/a.md'') \<and> matchesPathGlob (js ''*/a.md'') (js ''docs/a.md'')
   \<and> pathGlobsIntersect (js ''docs/**'') (js ''*/a.md'')"
proof -
  have 1: "matchesPathGlob (js ''docs/**'') (js ''docs/a.md'')" by (simp add: pattern_lang_eval)
  have 2: "matchesPathGlob (js ''*/a.md'') (js ''docs/a.md'')" by (simp add: pattern_lang_eval)
  from 1 2 glob_overlap_never_missed [OF 1 2] show ?thesis by simp
qed

text \<open>A reported cover holds: when a glob is said to cover a candidate, every path the
  candidate matches is matched by the covering glob.\<close>

theorem glob_cover_sound:
  assumes "pathGlobCovers covering candidate" and "matchesPathGlob candidate path"
  shows "matchesPathGlob covering path"
  using assms by (auto intro: pathGlobCovers_sound)

theorem glob_cover_sound_witness:
  "pathGlobCovers (js ''docs/**'') (js ''docs/*.md'') \<and> matchesPathGlob (js ''docs/**'') (js ''docs/a.md'')"
proof -
  have 1: "pathGlobCovers (js ''docs/**'') (js ''docs/*.md'')" by (simp add: analysis_eval)
  have 2: "matchesPathGlob (js ''docs/*.md'') (js ''docs/a.md'')" by (simp add: pattern_lang_eval)
  from 1 glob_cover_sound [OF 1 2] show ?thesis by simp
qed

text \<open>A start pair without successors is the only reachable pair.\<close>

lemma product_reach_start:
  assumes "pairSuccs mode left right (representativeCharacters left right)
    (product_start left right) = []"
  shows "Collect (product_reach mode left right) = {product_start left right}"
proof -
  have "q = product_start left right" if "product_reach mode left right q" for q
    using that by (induction rule: wl_reach.induct) (simp_all add: assms)
  then show ?thesis by (auto intro: wl_init)
qed

lemma within_limits_start:
  assumes "pairSuccs mode (tokenizePathGlob p) (tokenizePathGlob q)
      (representativeCharacters (tokenizePathGlob p) (tokenizePathGlob q))
      (product_start (tokenizePathGlob p) (tokenizePathGlob q)) = []"
    and "length p \<le> 4096" and "length q \<le> 4096"
  shows "within_limits mode p q"
  using assms
  by (simp add: within_limits_def product_reach_start MAX_GLOB_ANALYSIS_LENGTH_def
      MAX_GLOB_ANALYSIS_STATES_def)

text \<open>C27: Within the two resource limits both analyses are exact: overlap means a shared path,
  cover means language inclusion.\<close>

theorem glob_analysis_exact:
  assumes "within_limits Intersects p q" and "within_limits LeftSubsetOfRight p q"
  shows "(pathGlobsIntersect p q \<longleftrightarrow> (\<exists>path. matchesPathGlob p path \<and> matchesPathGlob q path))
    \<and> (pathGlobCovers q p \<longleftrightarrow> (\<forall>path. matchesPathGlob p path \<longrightarrow> matchesPathGlob q path))"
  using pathGlobsIntersect_exact [OF assms(1)] pathGlobCovers_exact [OF assms(2)] by simp

theorem glob_analysis_exact_witness:
  "within_limits Intersects (js []) (js ''b'') \<and> within_limits LeftSubsetOfRight (js []) (js ''b'')
   \<and> \<not> (\<exists>path. matchesPathGlob (js []) path \<and> matchesPathGlob (js ''b'') path)
   \<and> \<not> (\<forall>path. matchesPathGlob (js []) path \<longrightarrow> matchesPathGlob (js ''b'') path)"
proof -
  have 1: "within_limits Intersects (js []) (js ''b'')"
    by (rule within_limits_start) (simp_all add: analysis_eval startStates_def)
  have 2: "within_limits LeftSubsetOfRight (js []) (js ''b'')"
    by (rule within_limits_start) (simp_all add: analysis_eval startStates_def)
  have 3: "\<not> pathGlobsIntersect (js []) (js ''b'')" by (simp add: analysis_eval)
  have 4: "\<not> pathGlobCovers (js ''b'') (js [])" by (simp add: analysis_eval)
  from 1 2 3 4 glob_analysis_exact [OF 1 2] show ?thesis by blast
qed

section \<open>Zones\<close>

text \<open>A set of changed paths is Green, the zone that may merge without review, exactly when
  it is not empty and every path is matched by some Green glob and by no glob of a higher zone;
  an unlisted path is never Green.\<close>

theorem classify_green_iff:
  "classifyPaths changed = Green \<longleftrightarrow>
     changed \<noteq> [] \<and>
     (\<forall>path \<in> set changed.
        (\<exists>glob. (Green, glob) \<in> set zone_globs \<and> matchesPathGlob glob path)
        \<and> (\<forall>(z, glob) \<in> set zone_globs. matchesPathGlob glob path \<longrightarrow> z = Green))"
proof (cases "changed = []")
  case False
  then have "classifyPaths changed = Green \<longleftrightarrow> (\<forall>path \<in> set changed. effectiveZone path = Green)"
    using Max_in [of "effectiveZone ` set changed"]
    by (auto simp: classifyPaths_Max intro!: Max_eqI order.antisym [OF _ RiskZone_Green_least]
        dest: classifyPaths_ge [unfolded classifyPaths_Max])
  with False show ?thesis by (simp add: effectiveZone_Green)
qed (simp add: classifyPaths_def)

theorem classify_green_iff_witness:
  "classifyPaths [js ''docs/a.md''] = Green \<and> classifyPaths [js ''docs/a.md'', js ''new/a''] \<noteq> Green"
proof -
  have g: "classifyPaths [js ''docs/a.md''] = Green" by (simp add: zone_eval)
  have "\<not> (\<exists>glob. (Green, glob) \<in> set zone_globs \<and> matchesPathGlob glob (js ''new/a''))"
    by (auto simp: zone_globs_eval pattern_lang_eval)
  with classify_green_iff [of "[js ''docs/a.md'', js ''new/a'']"] g show ?thesis by auto
qed

text \<open>Classification is the maximum over the paths, so touching more paths never lowers the
  zone, and one path in a zone pulls the whole change up to it.\<close>

theorem classify_is_maximum:
  assumes "changed \<noteq> []"
  shows "classifyPaths changed = Max ((\<lambda>path. classifyPaths [path]) ` set changed)
    \<and> classifyPaths changed \<le> classifyPaths (changed @ others)"
  using assms classifyPaths_Max [of changed] classifyPaths_Max [of "changed @ others"]
  by (auto simp: image_Un intro: Max_mono)

theorem classify_is_maximum_witness:
  "classifyPaths [js ''docs/a.md''] \<le> classifyPaths ([js ''docs/a.md''] @ [js ''secrets/k''])
   \<and> classifyPaths ([js ''docs/a.md''] @ [js ''secrets/k'']) = Black"
proof -
  have "effectiveZone (js ''secrets/k'') = Black" by (simp add: zone_eval)
  then have "classifyPaths ([js ''docs/a.md''] @ [js ''secrets/k'']) = Black"
    using classifyPaths_ge [of "js ''secrets/k''" "[js ''docs/a.md'', js ''secrets/k'']"]
    by simp
  with classify_is_maximum [of "[js ''docs/a.md'']" "[js ''secrets/k'']"] show ?thesis by simp
qed

text \<open>A declared scope is classified at least as high as any Red, Yellow, Green or rooted
  Black glob that matches one of the paths the scope matches (only the Black globs that start
  with \<open>**/\<close> are exempt).\<close>

theorem declared_scope_bounds_paths:
  assumes "scope \<in> set scopes" and "matchesPathGlob scope path"
    and "(z, glob) \<in> set zone_globs" and "matchesPathGlob glob path"
    and "\<not> (z = Black \<and> startsWith glob (js ''**/''))"
  shows "z \<le> classifyDeclaredScopes scopes"
  using assms scope_zone_bound [of scope scopes path z glob] by (simp add: suffixOnlyBlack_def)

theorem declared_scope_bounds_paths_witness:
  "Red \<le> classifyDeclaredScopes [js ''packages/**'']"
proof (rule declared_scope_bounds_paths)
  show "matchesPathGlob (js ''packages/**'') (js ''packages/kernel/src/a'')"
    by (simp add: pattern_lang_eval)
  show "(Red, js ''packages/kernel/src/**'') \<in> set zone_globs" by (simp add: zone_globs_eval)
  show "matchesPathGlob (js ''packages/kernel/src/**'') (js ''packages/kernel/src/a'')"
    by (simp add: pattern_lang_eval)
qed simp_all

text \<open>Every glob matches something.\<close>

lemma glob_lang_nonempty: "\<exists>w. glob_lang tokens w"
proof (induction tokens)
  case (Cons t tokens)
  then obtain w where "glob_lang tokens w" by blast
  then have "glob_lang (t # tokens) (case t of Literal c \<Rightarrow> c # w | _ \<Rightarrow> w)"
    by (cases t) (auto simp: glob_lang.simps intro: exI [of _ "[] :: jstring"])
  then show ?case by blast
qed simp

lemma unmatched_scope_Yellow:
  assumes "\<forall>(z, glob) \<in> set zone_globs. \<not> scopeMatchesZone scope z glob"
  shows "scopeZone scope = Yellow"
proof -
  have "\<not> pathGlobCovers glob scope" if "(Green, glob) \<in> set zone_globs" for glob
  proof
    assume covers: "pathGlobCovers glob scope"
    obtain w where w: "pattern_lang scope w" using glob_lang_nonempty by (auto simp: pattern_lang_def)
    with covers have "pattern_lang glob w" by (rule pathGlobCovers_sound)
    with w have "pathGlobsIntersect scope glob" by (rule pathGlobsIntersect_complete)
    with assms that show False by (auto simp: scopeMatchesZone_def suffixOnlyBlack_def)
  qed
  moreover have "(Green, glob) \<in> set zone_globs \<longleftrightarrow>
      glob \<in> set (case find (\<lambda>d. zone d = Green) ZONE_PATTERNS of None \<Rightarrow> [] | Some d \<Rightarrow> globs d)" for glob
    by (simp add: zone_globs_eval)
  moreover have "highest_matching
      (map (\<lambda>(z, glob). (z, scopeMatchesZone scope z glob)) zone_globs) None = None"
    unfolding highest_matching_None using assms by force
  ultimately show ?thesis by (simp add: scopeZone_def list_ex_iff DEFAULT_RISK_ZONE_def)
qed

text \<open>C38: The fallback of the declared-scope classifier, which makes a scope Green when a Green glob
  covers it, is never decisive: a scope for which no listed glob counts as a match is Yellow. A
  scope that merely shares a path with a Green glob is already Green when every glob that counts
  as a match for it is Green, although every path of it that no glob lists is Yellow when
  it is changed.\<close>

theorem declared_scope_green_overreach:
  assumes "(Green, glob) \<in> set zone_globs" and "matchesPathGlob scope q" and "matchesPathGlob glob q"
    and "\<forall>(z, g) \<in> set zone_globs. scopeMatchesZone scope z g \<longrightarrow> z = Green"
    and "matchesPathGlob scope p" and "\<forall>(z, g) \<in> set zone_globs. \<not> matchesPathGlob g p"
  shows "classifyDeclaredScopes [scope] = Green \<and> classifyPaths [p] = Yellow
    \<and> (\<forall>other. (\<forall>(z, g) \<in> set zone_globs. \<not> scopeMatchesZone other z g) \<longrightarrow>
          classifyDeclaredScopes [other] = Yellow)"
proof (intro conjI allI impI)
  have "pathGlobsIntersect scope glob"
    using assms(2,3) by (intro pathGlobsIntersect_complete [of _ q]) simp_all
  then have "scopeMatchesZone scope Green glob" by (simp add: scopeMatchesZone_def suffixOnlyBlack_def)
  then have "(Green, True) \<in> set (map (\<lambda>(z, g). (z, scopeMatchesZone scope z g)) zone_globs)"
    using assms(1) by force
  moreover have "\<forall>z. (z, True) \<in> set (map (\<lambda>(z, g). (z, scopeMatchesZone scope z g)) zone_globs)
      \<longrightarrow> z \<le> Green" using assms(4) by fastforce
  ultimately have "highest_matching
      (map (\<lambda>(z, g). (z, scopeMatchesZone scope z g)) zone_globs) None = Some Green"
    unfolding highest_matching_eq by blast
  then have "scopeZone scope = Green" by (simp add: scopeZone_def)
  then show "classifyDeclaredScopes [scope] = Green" by (simp add: classifyDeclaredScopes_Max)
  have "pathZone p = None" unfolding pathZone_None using assms(6) by simp
  then show "classifyPaths [p] = Yellow" by (simp add: effectiveZone_def DEFAULT_RISK_ZONE_def)
  show "classifyDeclaredScopes [other] = Yellow"
    if "\<forall>(z, g) \<in> set zone_globs. \<not> scopeMatchesZone other z g" for other
    using unmatched_scope_Yellow [OF that] by (simp add: classifyDeclaredScopes_Max)
qed

theorem declared_scope_green_overreach_witness:
  "classifyDeclaredScopes [js ''docs*/**''] = Green \<and> classifyPaths [js ''docsx/a''] = Yellow"
proof -
  have pem: "\<not> pathGlobCovers (js ''**/*.pem'') (js ''docs*/**'')"
    using pathGlobCovers_sound [of "js ''**/*.pem''" "js ''docs*/**''" "js ''docs/a''"]
    by (auto simp: pattern_lang_eval)
  have key: "\<not> pathGlobCovers (js ''**/*.key'') (js ''docs*/**'')"
    using pathGlobCovers_sound [of "js ''**/*.key''" "js ''docs*/**''" "js ''docs/a''"]
    by (auto simp: pattern_lang_eval)
  have "\<forall>(z, g) \<in> set zone_globs. scopeMatchesZone (js ''docs*/**'') z g \<longrightarrow> z = Green"
    by (simp add: scope_eval pem key)
  moreover have "(Green, js ''docs/**'') \<in> set zone_globs" by (simp add: zone_globs_eval)
  moreover have "\<forall>(z, g) \<in> set zone_globs. \<not> matchesPathGlob g (js ''docsx/a'')"
    by (simp add: zone_globs_eval pattern_lang_eval)
  moreover have "matchesPathGlob (js ''docs*/**'') (js ''docs/a'')"
    "matchesPathGlob (js ''docs/**'') (js ''docs/a'')" "matchesPathGlob (js ''docs*/**'') (js ''docsx/a'')"
    by (simp_all add: pattern_lang_eval)
  ultimately show ?thesis
    using declared_scope_green_overreach [of "js ''docs/**''" "js ''docs*/**''" "js ''docs/a''" "js ''docsx/a''"]
    by blast
qed

end
