(* ===== verification/AuthorizationProperties.thy ===== *)
theory AuthorizationProperties
  imports AgentAuthorizer
begin

text \<open>
  The properties of the kernel's decisions: what the agent gate lets through, when a
  self-evolution pull request may merge, and how changed paths are grouped by zone.
\<close>

section \<open>A concrete request\<close>

text \<open>An agent that may write the documentation, except its secrets, up to the Green zone.\<close>

definition docs_snapshot :: AgentPermissionSnapshot where
  "docs_snapshot =
     \<lparr>principal =
        \<lparr>registry_id = js ''docs-agent'', runtime_uid = js ''u1'', run_id = js ''r1'',
         provider = ProviderCli, authenticated_github_identity = None\<rparr>,
      registry_entry_agent_id = js ''docs-agent'',
      permissions =
        \<lparr>paths = \<lparr>path_allow = [js ''docs/**''], path_deny = [js ''docs/secret/**'']\<rparr>,
         actions = [js ''repo.write'' \<mapsto> VAllow, js ''github.merge'' \<mapsto> VAllow],
         github = \<lparr>can_create_pr = True, can_comment = True, can_approve = True, can_merge = False\<rparr>,
         max_risk_zone = JString (js ''green'')\<rparr>,
      resolved_at = js ''2026-01-01T00:00:00.000Z'',
      snapshot_source = RegistryV2\<rparr>"

definition docs_request :: AuthorizationRequest where
  "docs_request =
     \<lparr>snapshot = Some docs_snapshot, action = js ''repo.write'',
      changedPaths = Some [js ''docs/a.md''], declaredScope = None, riskZone = None\<rparr>"

lemma docs_gates: "gatesPass docs_request docs_snapshot Green"
proof -
  have green: "effectiveZone (js ''docs/a.md'') = Green" by (simp add: zone_eval)
  have ceiling: "zone_of_name (JString (js ''green'')) = Some Green"
    using zone_of_zone_name [of Green] by simp
  have allow: "pattern_lang (js ''docs/**'') (js ''docs/a.md'')"
    and deny: "\<not> pattern_lang (js ''docs/secret/**'') (js ''docs/a.md'')"
    by (simp_all add: pattern_lang_eval)
  show ?thesis
    unfolding gatesPass_def
    by (simp add: docs_request_def docs_snapshot_def effectiveRiskZone_def derivedRiskZone_def
        authorizedPaths_def denyHits_def allowCovers_def highestRiskZone_def green ceiling
        allow deny)
qed

lemma docs_request_allowed: "decision (authorizeAgentAction docs_request) = AuthAllow"
  by (subst authorizeAgentAction_verdict [OF _ docs_gates])
    (simp_all add: docs_request_def docs_snapshot_def)

section \<open>The agent gate\<close>

text \<open>C24: Whatever the gate does not deny stays inside the agent's paths: each changed path, and
  every path that a declared scope glob can match, is matched by an allow glob of the agent's
  snapshot and by none of its deny globs.\<close>

theorem authorized_paths_confined:
  assumes "decision (authorizeAgentAction args) \<noteq> AuthDeny" and "concernsPath args p"
  shows "\<exists>snap. snapshot args = Some snap
    \<and> (\<exists>glob \<in> set (path_allow (paths (permissions snap))). matchesPathGlob glob p)
    \<and> \<not> (\<exists>glob \<in> set (path_deny (paths (permissions snap))). matchesPathGlob glob p)"
proof -
  from assms(1) obtain snap maxZone where "snapshot args = Some snap" "gatesPass args snap maxZone"
    by (rule authorizeAgentAction_gates)
  with gates_paths [OF _ assms(2)] show ?thesis by auto
qed

theorem authorized_paths_confined_witness:
  "\<exists>glob \<in> set (path_allow (paths (permissions docs_snapshot))).
     matchesPathGlob glob (js ''docs/a.md'')"
proof -
  have "decision (authorizeAgentAction docs_request) \<noteq> AuthDeny"
    by (simp add: docs_request_allowed)
  moreover have "concernsPath docs_request (js ''docs/a.md'')"
    by (simp add: concernsPath_def docs_request_def)
  ultimately have "\<exists>snap. snapshot docs_request = Some snap
    \<and> (\<exists>glob \<in> set (path_allow (paths (permissions snap))). matchesPathGlob glob (js ''docs/a.md''))
    \<and> \<not> (\<exists>glob \<in> set (path_deny (paths (permissions snap))). matchesPathGlob glob (js ''docs/a.md''))"
    by (rule authorized_paths_confined)
  then show ?thesis by (simp add: docs_request_def)
qed

text \<open>C25: The risk ceiling holds path by path. For a request that is not denied, every changed path,
  classified on its own, is not Black and at most the agent's \<open>max_risk_zone\<close>; a path that no glob
  lists counts as Yellow here. For a declared scope only listed paths are bounded: the zone of every
  glob that matches a path of the scope is not Black and at most the ceiling, except for the
  Black globs that start with \<open>**/\<close>.\<close>

theorem authorized_zones_bounded:
  assumes "decision (authorizeAgentAction args) \<noteq> AuthDeny"
  shows "\<exists>snap maxZone. snapshot args = Some snap
    \<and> max_risk_zone (permissions snap) = JString (zone_name maxZone)
    \<and> (\<forall>ps p. changedPaths args = Some ps \<and> p \<in> set ps \<longrightarrow>
          classifyPaths [p] \<noteq> Black \<and> classifyPaths [p] \<le> maxZone)
    \<and> (\<forall>scopes scope p z glob. declaredScope args = Some scopes \<and> scope \<in> set scopes
          \<and> matchesPathGlob scope p \<and> (z, glob) \<in> set zone_globs \<and> matchesPathGlob glob p
          \<and> \<not> (z = Black \<and> startsWith glob (js ''**/'')) \<longrightarrow> z \<noteq> Black \<and> z \<le> maxZone)"
proof -
  from assms obtain snap maxZone
    where gates: "snapshot args = Some snap" "gatesPass args snap maxZone"
    by (rule authorizeAgentAction_gates)
  have "max_risk_zone (permissions snap) = JString (zone_name maxZone)"
    using gates(2) zone_of_name_Some by (simp add: gatesPass_def)
  moreover have "z \<noteq> Black \<and> z \<le> maxZone"
    if scope: "declaredScope args = Some scopes" "scope \<in> set scopes" "matchesPathGlob scope p"
      and glob: "(z, glob) \<in> set zone_globs" "matchesPathGlob glob p"
      and black: "\<not> (z = Black \<and> startsWith glob (js ''**/''))" for scopes scope p z glob
  proof -
    have "concernsPath args p" using scope by (auto simp: concernsPath_def)
    moreover have "pattern_lang glob p" using glob(2) by simp
    moreover have "suffixOnlyBlack z glob \<Longrightarrow> declaredScope args = None"
      using black by (simp add: suffixOnlyBlack_def)
    ultimately show ?thesis using gates_concerned_zone [OF gates(2) _ glob(1)] by blast
  qed
  ultimately show ?thesis
    using gates(1) gates_changed_zone [OF gates(2)] by (intro exI conjI allI impI) blast+
qed

theorem authorized_zones_bounded_witness: "classifyPaths [js ''docs/a.md''] \<le> Green"
proof -
  have "decision (authorizeAgentAction docs_request) \<noteq> AuthDeny" by (simp add: docs_request_allowed)
  from authorized_zones_bounded [OF this] obtain maxZone where
    "max_risk_zone (permissions docs_snapshot) = JString (zone_name maxZone)"
    "classifyPaths [js ''docs/a.md''] \<le> maxZone"
    by (auto simp: docs_request_def)
  moreover from this(1) have "maxZone = Green"
    by (cases maxZone) (simp_all add: docs_snapshot_def js_def)
  ultimately show ?thesis by simp
qed

text \<open>An action is allowed without a human exactly when a snapshot exists, the request names
  at most one of changed paths and scope, the risk zone it claims is a zone, its highest zone is
  not Black and within the ceiling, no path meets a deny glob, each meets an allow glob, the
  action is not a GitHub approval, a merge has the merge permission, and the action is listed
  as allowed. In particular no agent ever approves a pull request.\<close>

theorem authorize_allow_iff:
  "decision (authorizeAgentAction args) = AuthAllow \<longleftrightarrow>
     (\<exists>snap maxZone. snapshot args = Some snap
        \<and> \<not> (changedPaths args \<noteq> None \<and> declaredScope args \<noteq> None)
        \<and> (riskZone args = None \<or> (\<exists>z. riskZone args = Some (JString (zone_name z))))
        \<and> max_risk_zone (permissions snap) = JString (zone_name maxZone)
        \<and> effectiveRiskZone args \<noteq> Some Black
        \<and> (effectiveRiskZone args = None \<or> the (effectiveRiskZone args) \<le> maxZone)
        \<and> \<not> (\<exists>p \<in> set (authorizedPaths args).
               \<exists>glob \<in> set (path_deny (paths (permissions snap))). denyHits args glob p)
        \<and> \<not> (\<exists>p \<in> set (authorizedPaths args).
               \<not> (\<exists>glob \<in> set (path_allow (paths (permissions snap))). allowCovers args glob p))
        \<and> action args \<noteq> js ''github.approve''
        \<and> \<not> (action args = js ''github.merge'' \<and> \<not> can_merge (github (permissions snap)))
        \<and> actions (permissions snap) (action args) = Some VAllow)"
proof -
  have name: "zone_of_name v = Some z \<longleftrightarrow> v = JString (zone_name z)" for v z
    using zone_of_name_Some by auto
  have zone: "isRiskZone v \<longleftrightarrow> (\<exists>z. v = JString (zone_name z))" for v
    by (simp add: isRiskZone_iff name)
  show ?thesis
    unfolding authorize_allow gatesPass_def
    by (intro arg_cong [where f = Ex] ext, cases "riskZone args"; cases "effectiveRiskZone args")
      (auto simp: name zone)
qed

section \<open>Merging a self-evolution pull request\<close>

text \<open>The merge decider queues a pull request exactly when it is not Black, it was validated
  and did not fail, a Red one carries a human decision, no reviewer reviewed its own change, and
  a change outside the Green zone has an approving review.\<close>

theorem decideMerge_queue_iff:
  "md_decision (decideMerge input) = MergeQueue \<longleftrightarrow>
     mi_riskZone input \<noteq> Black
     \<and> (\<exists>v. validation input = Some v \<and> sv_decision v \<noteq> ValidationFail)
     \<and> \<not> (mi_riskZone input = Red \<and> humanApproval input = None)
     \<and> \<not> (\<exists>r \<in> set (mi_reviews input). reviewerAgent r = implementationAgent r)
     \<and> (mi_riskZone input = Green \<or> (\<exists>r \<in> set (mi_reviews input). rr_decision r = Approve))"
  unfolding decideMerge_queue by auto

definition rejected_red_input :: MergeInput where
  "rejected_red_input =
     \<lparr>mi_riskZone = Red,
      validation = Some
        \<lparr>experimentId = js ''e1'', sv_prNumber = 7, sv_headSha = js ''abc'', sv_checks = [],
         protectedPathCheck =
           \<lparr>pp_result = True, red_zone_touched = True, black_zone_touched = False\<rparr>,
         score = \<lparr>overall_score = 1, score_decision = ScorePass, dimensions = []\<rparr>,
         sv_decision = ValidationPass\<rparr>,
      mi_reviews =
        [\<lparr>reviewerAgent = js ''reviewer'', implementationAgent = js ''author'',
          rr_decision = Approve, comments = []\<rparr>],
      humanApproval = Some \<lparr>approved = False, approved_by = js ''alice''\<rparr>\<rparr>"

text \<open>The Red gate tests that a human decision is present, not that it is an approval: a Red
  pull request that the human refused is queued for merge.\<close>

theorem rejected_red_is_queued:
  "mi_riskZone rejected_red_input = Red
   \<and> map_option approved (humanApproval rejected_red_input) = Some False
   \<and> md_decision (decideMerge rejected_red_input) = MergeQueue"
  by (simp add: rejected_red_input_def decideMerge_def)

text \<open>A self-evolution pull request may merge automatically exactly when it touches at least
  one path and every path it touches is Green, and it asks for a human exactly when its highest
  zone is Red.\<close>

theorem self_evolution_automerge:
  "(autoMergeAllowed (classifySelfEvolutionPR changed) \<longleftrightarrow>
      changed \<noteq> [] \<and> (\<forall>path \<in> set changed. effectiveZone path = Green))
   \<and> (humanApprovalRequired (classifySelfEvolutionPR changed) \<longleftrightarrow>
      (\<exists>path \<in> set changed. effectiveZone path = Red)
      \<and> \<not> (\<exists>path \<in> set changed. effectiveZone path = Black))"
proof (cases "changed = []")
  case True
  then show ?thesis by (simp add: classifySelfEvolutionPR_flags classifyPaths_def)
next
  case False
  let ?Z = "effectiveZone ` set changed"
  have ne: "finite ?Z" "?Z \<noteq> {}" using False by simp_all
  have green: "Max ?Z = Green \<longleftrightarrow> (\<forall>path \<in> set changed. effectiveZone path = Green)"
  proof
    assume "Max ?Z = Green"
    then show "\<forall>path \<in> set changed. effectiveZone path = Green"
      using Max_ge [OF ne(1)] by (metis imageI RiskZone_Green_least order.antisym)
  qed (use Max_in [OF ne] in auto)
  have red: "Max ?Z = Red \<longleftrightarrow> Red \<in> ?Z \<and> Black \<notin> ?Z"
  proof
    assume "Max ?Z = Red"
    then show "Red \<in> ?Z \<and> Black \<notin> ?Z"
      using Max_in [OF ne] Max_ge [OF ne(1), of Black] by auto
  next
    assume *: "Red \<in> ?Z \<and> Black \<notin> ?Z"
    then have "Max ?Z \<noteq> Black" "Red \<le> Max ?Z" using Max_in [OF ne] Max_ge [OF ne(1)] by auto
    then show "Max ?Z = Red" by (cases "Max ?Z") (simp_all add: less_eq_RiskZone_def)
  qed
  have red': "Max ?Z = Red \<longleftrightarrow>
      (\<exists>path \<in> set changed. effectiveZone path = Red)
      \<and> \<not> (\<exists>path \<in> set changed. effectiveZone path = Black)"
    unfolding red by (auto simp: image_iff) metis+
  show ?thesis
    unfolding classifySelfEvolutionPR_flags classifyPaths_Max [OF False] green red'
    using False by blast
qed

theorem self_evolution_automerge_witness:
  "autoMergeAllowed (classifySelfEvolutionPR [js ''docs/a.md''])"
proof -
  have "effectiveZone (js ''docs/a.md'') = Green" by (simp add: zone_eval)
  with self_evolution_automerge [of "[js ''docs/a.md'']"] show ?thesis by simp
qed

text \<open>The exact grouping partitions the paths: each group lists, in input order and with
  repetitions, exactly the paths of its zone, and the older three-way grouping reports the Black
  paths in its red group.\<close>

theorem path_groups_partition:
  "green (classifyPathGroupsExact ps) = filter (\<lambda>p. classifyPaths [p] = Green) ps
   \<and> yellow (classifyPathGroupsExact ps) = filter (\<lambda>p. classifyPaths [p] = Yellow) ps
   \<and> red (classifyPathGroupsExact ps) = filter (\<lambda>p. classifyPaths [p] = Red) ps
   \<and> black (classifyPathGroupsExact ps) = filter (\<lambda>p. classifyPaths [p] = Black) ps
   \<and> green (classifyPathGroups ps) = green (classifyPathGroupsExact ps)
   \<and> yellow (classifyPathGroups ps) = yellow (classifyPathGroupsExact ps)
   \<and> red (classifyPathGroups ps) = filter (\<lambda>p. classifyPaths [p] \<in> {Red, Black}) ps"
proof -
  have "Red \<le> z \<longleftrightarrow> z = Red \<or> z = Black" for z
    by (cases z) (simp_all add: less_eq_RiskZone_def)
  then show ?thesis
    by (simp add: classifyPathGroupsExact_filter classifyPathGroups_filter)
qed

end
