(* ===== verification/ClaimBroker.thy ===== *)
theory ClaimBroker
  imports StepSystem "HOL-Library.AList"
begin

text \<open>
  The lease broker of \<open>packages/core/src/claim-broker.ts\<close>: leases on tasks with an expiry,
  granted, renewed, released and expired by \<open>ClaimBroker\<close>.

  A JavaScript \<open>Map\<close> is an association list in insertion order: \<open>AList.update\<close> replaces in
  place or appends as \<open>Map.set\<close> does. A timestamp is its number of milliseconds, which is what
  \<open>toISOString\<close> writes and \<open>new Date\<close> reads back; each reading of the clock is an argument.
  \<open>toISOString\<close> throws a \<open>RangeError\<close> beyond the range of dates.
\<close>

section \<open>Leases\<close>

type_synonym ms = int

datatype LeaseStatus = LeaseActive | LeaseExpired | LeaseReleased

record Lease =
  leaseId :: jstring
  taskId :: jstring
  agentId :: jstring
  lease_status :: LeaseStatus
  createdAt :: ms
  expiresAt :: ms
  heartbeatAt :: ms
  releasedAt :: "ms option"
  ttlMinutes :: js_number
  allowedPaths :: "jstring list"

record ClaimRequest =
  cq_agentId :: jstring
  cq_taskId :: jstring
  cq_ttlMinutes :: "js_number option"
  cq_capabilities :: "jstring list"

datatype ClaimStatus = Granted | Denied

datatype ClaimDenial =
  NOT_READY | ALREADY_CLAIMED | CAPABILITY_MISMATCH | RISK_EXCEEDED | BUDGET_EXCEEDED
| AGENT_PAUSED | LOCK_TIMEOUT

record ClaimResult =
  claimStatus :: ClaimStatus
  cs_taskId :: jstring
  cs_leaseId :: "jstring option"
  cs_lease :: "Lease option"
  cs_expiresAt :: "ms option"
  cs_reason :: "ClaimDenial option"

datatype js_error = RangeError

record Broker =
  leases :: "(jstring \<times> Lease) list"
  taskLeases :: "(jstring \<times> jstring) list"
  taskStates :: "(jstring \<times> jstring) list"
  leaseSeq :: nat

definition newBroker :: Broker where
  "newBroker = \<lparr>leases = [], taskLeases = [], taskStates = [], leaseSeq = 0\<rparr>"

text \<open>A date beyond 8.64e15 milliseconds is invalid; fractions are truncated.\<close>

definition js_time :: "js_number \<Rightarrow> ms option" where
  "js_time t =
     (if \<bar>t\<bar> > 8640000000000000 then None
      else Some (if 0 \<le> t then \<lfloor>t\<rfloor> else \<lceil>t\<rceil>))"

definition padStart :: "nat \<Rightarrow> jchar \<Rightarrow> jstring \<Rightarrow> jstring" where
  "padStart n c s = replicate (n - length s) c @ s"

definition leaseIdOf :: "int \<Rightarrow> nat \<Rightarrow> jstring" where
  "leaseIdOf year seq = js ''LEASE-'' @ js_int year @ [45] @ padStart 6 48 (js_nat seq)"

section \<open>Operations\<close>

definition setTaskReady :: "jstring \<Rightarrow> Broker \<Rightarrow> Broker" where
  "setTaskReady task b = b\<lparr>taskStates := AList.update task (js ''ready'') (taskStates b)\<rparr>"

text \<open>
  The three statements that end a lease: the new status is stored, the task's entry is deleted
  and the task becomes ready.
\<close>

definition endLease :: "jstring \<Rightarrow> Lease \<Rightarrow> jstring \<Rightarrow> Broker \<Rightarrow> Broker" where
  "endLease lid l task b =
     b\<lparr>leases := AList.update lid l (leases b),
       taskLeases := AList.delete task (taskLeases b),
       taskStates := AList.update task (js ''ready'') (taskStates b)\<rparr>"

definition getActiveLease :: "ms \<Rightarrow> jstring \<Rightarrow> Broker \<Rightarrow> Broker \<times> Lease option" where
  "getActiveLease now task b =
     (case map_of (taskLeases b) task of
        None \<Rightarrow> (b, None)
      | Some lid \<Rightarrow>
          if lid = [] then (b, None)
          else (case map_of (leases b) lid of
             None \<Rightarrow> (b, None)
           | Some lease \<Rightarrow>
               if lease_status lease = LeaseActive \<and> expiresAt lease \<le> now then
                 (endLease lid (lease\<lparr>lease_status := LeaseExpired\<rparr>) task b, None)
               else (b, if lease_status lease = LeaseActive then Some lease else None)))"

definition claimDenied :: "jstring \<Rightarrow> ClaimDenial \<Rightarrow> ClaimResult" where
  "claimDenied task r =
     \<lparr>claimStatus = Denied, cs_taskId = task, cs_leaseId = None, cs_lease = None,
      cs_expiresAt = None, cs_reason = Some r\<rparr>"

definition claimTask ::
  "ms \<Rightarrow> int \<Rightarrow> ms \<Rightarrow> ClaimRequest \<Rightarrow> Broker \<Rightarrow> Broker \<times> (js_error + ClaimResult)" where
  "claimTask checked year now request b =
     (let task = cq_taskId request;
          ttl = (case cq_ttlMinutes request of None \<Rightarrow> 60 | Some m \<Rightarrow> m);
          (b1, existingLease) = getActiveLease checked task b
      in if existingLease \<noteq> None then (b1, Inr (claimDenied task ALREADY_CLAIMED))
         else if map_of (taskStates b1) task \<noteq> Some (js ''ready'') then
           (b1, Inr (claimDenied task NOT_READY))
         else
           (let b2 = b1\<lparr>leaseSeq := leaseSeq b1 + 1\<rparr>;
                lid = leaseIdOf year (leaseSeq b2)
            in case js_time (of_int now + ttl * 60000) of
                 None \<Rightarrow> (b2, Inl RangeError)
               | Some expiry \<Rightarrow>
                   (let lease =
                          \<lparr>leaseId = lid, taskId = task, agentId = cq_agentId request,
                           lease_status = LeaseActive, createdAt = now, expiresAt = expiry,
                           heartbeatAt = now, releasedAt = None, ttlMinutes = ttl,
                           allowedPaths = []\<rparr>
                    in (b2\<lparr>leases := AList.update lid lease (leases b2),
                            taskLeases := AList.update task lid (taskLeases b2),
                            taskStates := AList.update task (js ''claimed'') (taskStates b2)\<rparr>,
                        Inr \<lparr>claimStatus = Granted, cs_taskId = task, cs_leaseId = Some lid,
                             cs_lease = Some lease, cs_expiresAt = Some expiry,
                             cs_reason = None\<rparr>))))"

definition heartbeat :: "ms \<Rightarrow> ms \<Rightarrow> jstring \<Rightarrow> Broker \<Rightarrow> Broker \<times> (js_error + bool)" where
  "heartbeat checked now lid b =
     (case map_of (leases b) lid of
        None \<Rightarrow> (b, Inr False)
      | Some lease \<Rightarrow>
          if lease_status lease \<noteq> LeaseActive then (b, Inr False)
          else if expiresAt lease \<le> checked then
            (endLease lid (lease\<lparr>lease_status := LeaseExpired\<rparr>) (taskId lease) b, Inr False)
          else
            (let beaten = lease\<lparr>heartbeatAt := now\<rparr>
             in case js_time (of_int now + ttlMinutes lease * 60000) of
                  None \<Rightarrow> (b\<lparr>leases := AList.update lid beaten (leases b)\<rparr>, Inl RangeError)
                | Some expiry \<Rightarrow>
                    (b\<lparr>leases := AList.update lid (beaten\<lparr>expiresAt := expiry\<rparr>) (leases b)\<rparr>,
                     Inr True)))"

definition releaseLease :: "ms \<Rightarrow> jstring \<Rightarrow> Broker \<Rightarrow> Broker \<times> bool" where
  "releaseLease now lid b =
     (case map_of (leases b) lid of
        None \<Rightarrow> (b, False)
      | Some lease \<Rightarrow>
          if lease_status lease \<noteq> LeaseActive then (b, False)
          else (endLease lid (lease\<lparr>lease_status := LeaseReleased, releasedAt := Some now\<rparr>)
                  (taskId lease) b, True))"

definition expireLease :: "jstring \<Rightarrow> Broker \<Rightarrow> Broker \<times> bool" where
  "expireLease lid b =
     (case map_of (leases b) lid of
        None \<Rightarrow> (b, False)
      | Some lease \<Rightarrow>
          (endLease lid (lease\<lparr>lease_status := LeaseExpired\<rparr>) (taskId lease) b, True))"

definition getLease :: "jstring \<Rightarrow> Broker \<Rightarrow> Lease option" where
  "getLease lid b = map_of (leases b) lid"

record BrokerStats =
  activeLeases :: nat
  totalLeases :: nat
  readyTasks :: nat

definition getStats :: "ms \<Rightarrow> Broker \<Rightarrow> BrokerStats" where
  "getStats now b =
     \<lparr>activeLeases =
        length (filter (\<lambda>(_, lease). lease_status lease = LeaseActive \<and> expiresAt lease > now)
                  (leases b)),
      totalLeases = length (leases b),
      readyTasks = length (filter (\<lambda>(_, s). s = js ''ready'') (taskStates b))\<rparr>"

definition reset :: "Broker \<Rightarrow> Broker" where
  "reset b = b\<lparr>leases := [], taskLeases := [], taskStates := [], leaseSeq := 0\<rparr>"

section \<open>Lease identifiers\<close>

lemma padStart_value: "digits_value (padStart n 48 s) = digits_value s"
proof -
  have "foldl (\<lambda>n (c :: jchar). 10 * n + (unat c - 48)) 0 (replicate k 48) = 0" for k
    by (induction k) simp_all
  then show ?thesis by (simp add: digits_value_def padStart_def)
qed

lemma leaseIdOf_inj:
  assumes "leaseIdOf y s = leaseIdOf y' s'"
  shows "s = s'"
proof -
  have no_dash: "(45 :: jchar) \<notin> set (padStart 6 48 (js_nat n))" for n
    using js_nat_digits [of 45 n] by (auto simp: padStart_def)
  have tail: "takeWhile (\<lambda>c. c \<noteq> 45) (rev (leaseIdOf z n)) = rev (padStart 6 48 (js_nat n))" for z n
  proof -
    have "rev (leaseIdOf z n) =
        rev (padStart 6 48 (js_nat n)) @ 45 # rev (js ''LEASE-'' @ js_int z)"
      by (simp add: leaseIdOf_def)
    moreover have "takeWhile (\<lambda>c. c \<noteq> 45) (rev (padStart 6 48 (js_nat n))) =
        rev (padStart 6 48 (js_nat n))"
      using no_dash [of n] by (auto simp: takeWhile_eq_all_conv)
    ultimately show ?thesis by (simp only: takeWhile_tail)
  qed
  have "rev (padStart 6 48 (js_nat s)) = rev (padStart 6 48 (js_nat s'))"
    unfolding tail [of y s, symmetric] tail [of y' s', symmetric] assms ..
  then have "padStart 6 48 (js_nat s) = padStart 6 48 (js_nat s')"
    by (rule rev_is_rev_conv [THEN iffD1])
  then show "s = s'"
    using padStart_value [of 6 "js_nat s"] padStart_value [of 6 "js_nat s'"]
    by (metis js_nat_value)
qed

lemma leaseIdOf_not_Nil [simp]: "leaseIdOf y s \<noteq> []"
  by (simp add: leaseIdOf_def)

section \<open>The invariant\<close>

text \<open>
  Every lease is stored under its own identifier, which was issued by the sequence counter,
  and the entry of its task points to every active lease.
\<close>

definition issued :: "nat \<Rightarrow> jstring \<Rightarrow> bool" where
  "issued n lid \<longleftrightarrow> (\<exists>y s. s \<le> n \<and> lid = leaseIdOf y s)"

lemma issued_Suc: "issued n lid \<Longrightarrow> issued (Suc n) lid"
  unfolding issued_def using le_SucI by blast

lemma issued_new [simp]: "issued n (leaseIdOf y n)"
  unfolding issued_def by blast

lemma not_issued_next [simp]: "\<not> issued n (leaseIdOf y (Suc n))"
  unfolding issued_def by (metis leaseIdOf_inj not_less_eq_eq order_refl)

lemma not_issued_Nil [simp]: "\<not> issued n []"
  unfolding issued_def by (metis leaseIdOf_not_Nil)

definition broker_inv :: "Broker \<Rightarrow> bool" where
  "broker_inv b \<longleftrightarrow>
     (\<forall>lid l. map_of (leases b) lid = Some l \<longrightarrow>
        leaseId l = lid \<and> issued (leaseSeq b) lid
        \<and> (lease_status l = LeaseActive \<longrightarrow> map_of (taskLeases b) (taskId l) = Some lid))"

lemma broker_inv_lookup:
  assumes "broker_inv b" and "map_of (leases b) lid = Some l"
  shows "leaseId l = lid" and "issued (leaseSeq b) lid"
    and "lease_status l = LeaseActive \<Longrightarrow> map_of (taskLeases b) (taskId l) = Some lid"
  using assms by (auto simp: broker_inv_def)

lemma broker_inv_no_empty_id: "broker_inv b \<Longrightarrow> map_of (leases b) [] = None"
  unfolding broker_inv_def using not_issued_Nil by (metis option.exhaust)

text \<open>Ending the lease its task points to, or one that no task points to, keeps the invariant.\<close>

lemma endLease_inv:
  assumes "broker_inv b" and "map_of (leases b) lid = Some l"
    and "leaseId l' = lid" and "lease_status l' \<noteq> LeaseActive"
    and "map_of (taskLeases b) task = Some lid"
  shows "broker_inv (endLease lid l' task b)"
  using assms by (auto simp: broker_inv_def endLease_def update_conv' delete_conv' restrict_map_def)

text \<open>Renewing an active lease keeps the invariant.\<close>

lemma renew_inv:
  assumes "broker_inv b" and "map_of (leases b) lid = Some l" and "lease_status l = LeaseActive"
    and "leaseId l' = leaseId l" and "taskId l' = taskId l"
  shows "broker_inv (b\<lparr>leases := AList.update lid l' (leases b)\<rparr>)"
  using assms by (auto simp: broker_inv_def update_conv')

lemma broker_inv_seq: "broker_inv b \<Longrightarrow> broker_inv (b\<lparr>leaseSeq := Suc (leaseSeq b)\<rparr>)"
  by (auto simp: broker_inv_def intro: issued_Suc)

lemma broker_inv_states: "broker_inv (b\<lparr>taskStates := x\<rparr>) = broker_inv b"
  by (simp add: broker_inv_def)

lemma newBroker_inv: "broker_inv newBroker"
  by (simp add: broker_inv_def newBroker_def)

lemma getActiveLease_inv: "broker_inv b \<Longrightarrow> broker_inv (fst (getActiveLease now task b))"
  by (auto simp: getActiveLease_def broker_inv_lookup split: option.split intro: endLease_inv)

text \<open>When no lease is found, the task has no active lease left.\<close>

lemma getActiveLease_None:
  assumes "broker_inv b" and "getActiveLease now task b = (b', None)"
    and "map_of (leases b') lid = Some l" and "lease_status l = LeaseActive"
  shows "taskId l \<noteq> task"
  using assms broker_inv_lookup [of b lid l] broker_inv_no_empty_id [of b]
  by (auto simp: getActiveLease_def endLease_def update_conv' broker_inv_def
      split: option.splits if_splits)

lemma getActiveLease_Some:
  assumes "getActiveLease now task b = (b', Some l)"
  shows "b' = b" and "lease_status l = LeaseActive" and "now < expiresAt l"
    and "\<exists>lid. map_of (taskLeases b) task = Some lid \<and> map_of (leases b) lid = Some l"
  using assms by (auto simp: getActiveLease_def split: option.splits if_splits)

lemma grant_inv:
  assumes "broker_inv b" and "\<And>lid l. map_of (leases b) lid = Some l \<Longrightarrow>
      lease_status l = LeaseActive \<Longrightarrow> taskId l \<noteq> task"
    and "lid = leaseIdOf y (Suc (leaseSeq b))" and "leaseId l = lid" and "taskId l = task"
  shows "broker_inv (b\<lparr>leaseSeq := Suc (leaseSeq b), leases := AList.update lid l (leases b),
    taskLeases := AList.update task lid (taskLeases b), taskStates := x\<rparr>)"
  using assms by (auto simp: broker_inv_def update_conv' intro: issued_Suc)

lemma claimTask_inv: "broker_inv b \<Longrightarrow> broker_inv (fst (claimTask checked year now request b))"
proof -
  assume inv: "broker_inv b"
  obtain b1 e where g: "getActiveLease checked (cq_taskId request) b = (b1, e)" by fastforce
  with getActiveLease_inv [OF inv] have inv1: "broker_inv b1" by (metis fst_conv)
  show ?thesis
  proof (cases e)
    case None
    have "broker_inv (b1\<lparr>leaseSeq := Suc (leaseSeq b1), leases := AList.update lid l (leases b1),
      taskLeases := AList.update (cq_taskId request) lid (taskLeases b1), taskStates := x\<rparr>)"
      if "lid = leaseIdOf year (Suc (leaseSeq b1))" "leaseId l = lid" "taskId l = cq_taskId request"
      for lid l x
      using getActiveLease_None [OF inv g [unfolded None]] that by (intro grant_inv [OF inv1]) auto
    with None inv1 broker_inv_seq [OF inv1] show ?thesis
      by (simp add: claimTask_def g Let_def split: option.split)
  qed (use inv1 in \<open>simp add: claimTask_def g Let_def\<close>)
qed

lemma heartbeat_inv: "broker_inv b \<Longrightarrow> broker_inv (fst (heartbeat checked now lid b))"
  by (auto simp: heartbeat_def Let_def broker_inv_lookup split: option.split
      intro!: endLease_inv renew_inv)

lemma releaseLease_inv: "broker_inv b \<Longrightarrow> broker_inv (fst (releaseLease now lid b))"
  by (auto simp: releaseLease_def broker_inv_lookup split: option.split intro!: endLease_inv)

lemma expireLease_inv:
  "broker_inv b \<Longrightarrow> map_of (leases b) lid = Some l \<Longrightarrow> lease_status l = LeaseActive \<Longrightarrow>
     broker_inv (fst (expireLease lid b))"
  by (auto simp: expireLease_def broker_inv_lookup intro!: endLease_inv)

section \<open>Stores of leases\<close>

text \<open>
  What a store of leases promises its users: two active leases on one task are the same lease.
\<close>

locale lease_store = inductive_invariant init step inv
  for init :: "'s \<Rightarrow> bool" and step :: "'s \<Rightarrow> 's \<Rightarrow> bool" and inv :: "'s \<Rightarrow> bool" +
  fixes stored :: "'s \<Rightarrow> jstring \<Rightarrow> Lease option"
  assumes stored_id: "inv s \<Longrightarrow> stored s lid = Some l \<Longrightarrow> leaseId l = lid"
    and one_active: "inv s \<Longrightarrow> stored s lid = Some l \<Longrightarrow> stored s lid' = Some l' \<Longrightarrow>
      lease_status l = LeaseActive \<Longrightarrow> lease_status l' = LeaseActive \<Longrightarrow> taskId l = taskId l' \<Longrightarrow>
      lid = lid'"
begin

lemma exclusive:
  assumes "reachable init step s" and "stored s lid = Some l" and "stored s lid' = Some l'"
    and "lease_status l = LeaseActive" and "lease_status l' = LeaseActive" and "taskId l = taskId l'"
  shows "l = l'"
  using one_active [OF reachable_inv [OF assms(1)] assms(2-6)] assms(2,3) by simp

end

lemma broker_inv_one_active:
  assumes "broker_inv b" and "map_of (leases b) lid = Some l" and "map_of (leases b) lid' = Some l'"
    and "lease_status l = LeaseActive" and "lease_status l' = LeaseActive" and "taskId l = taskId l'"
  shows "lid = lid'"
  using broker_inv_lookup(3) [OF assms(1,2,4)] broker_inv_lookup(3) [OF assms(1,3,5)] assms(6)
  by simp

section \<open>What the operations do\<close>

text \<open>A granted claim: the state before had no live lease on the task, the one after has the new
  one.\<close>

lemma claimTask_granted:
  assumes "claimTask checked year now request b = (b', Inr res)" and "claimStatus res = Granted"
  obtains b1 l where "getActiveLease checked (cq_taskId request) b = (b1, None)"
    and "map_of (taskStates b1) (cq_taskId request) = Some (js ''ready'')"
    and "leaseId l = leaseIdOf year (Suc (leaseSeq b1))" and "taskId l = cq_taskId request"
    and "lease_status l = LeaseActive"
    and "js_time (of_int now + ttlMinutes l * 60000) = Some (expiresAt l)"
    and "cs_lease res = Some l" and "cs_leaseId res = Some (leaseId l)"
    and "agentId l = cq_agentId request"
    and "map_of (leases b') (leaseId l) = Some l"
    and "map_of (taskLeases b') (taskId l) = Some (leaseId l)"
    and "leases b' = AList.update (leaseId l) l (leases b1)"
proof -
  obtain b1 e where g: "getActiveLease checked (cq_taskId request) b = (b1, e)" by fastforce
  show ?thesis
    by (rule that [of b1 "the (cs_lease res)"])
      (use assms g in \<open>auto simp: claimTask_def Let_def claimDenied_def update_conv'
        split: if_splits option.splits\<close>)
qed

lemma getActiveLease_live:
  assumes "broker_inv b" and "map_of (leases b) lid = Some l" and "lease_status l = LeaseActive"
    and "now < expiresAt l"
  shows "getActiveLease now (taskId l) b = (b, Some l)"
proof -
  have "map_of (taskLeases b) (taskId l) = Some lid" using broker_inv_lookup(3) [OF assms(1-3)] .
  moreover have "lid \<noteq> []" using assms(1,2) broker_inv_no_empty_id by auto
  ultimately show ?thesis using assms by (simp add: getActiveLease_def)
qed

lemma claimTask_denied_live:
  assumes "broker_inv b" and "map_of (leases b) lid = Some l" and "lease_status l = LeaseActive"
    and "checked < expiresAt l" and "cq_taskId request = taskId l"
  shows "claimTask checked year now request b = (b, Inr (claimDenied (taskId l) ALREADY_CLAIMED))"
  using getActiveLease_live [OF assms(1-4)] assms(5) by (simp add: claimTask_def Let_def)

end
