(* ===== verification/FileClaimBroker.thy ===== *)
theory FileClaimBroker
  imports ClaimBroker
begin

text \<open>
  \<open>FileClaimBroker\<close> of \<open>packages/core/src/claim-broker.ts\<close>: brokers in several processes that
  share one state file, each operation under an exclusive lock file. A broker keeps its own
  maps between operations and merges the file into them at the start of each one.

  The file is what was last saved (\<open>JSON.parse\<close> of \<open>JSON.stringify\<close> is the saved value), absent,
  or does not parse. The outcomes of the attempts to create the lock file before the deadline
  are an argument. Failures of the file system other than those are not modelled.
\<close>

section \<open>The state file\<close>

datatype StateFile = Absent | Corrupted | Saved Broker

fun acquireLock :: "bool list \<Rightarrow> bool" where
  "acquireLock [] = False"
| "acquireLock (opened # later) = (if opened then True else acquireLock later)"

text \<open>\<open>map.set(k, v)\<close> for each entry of a saved object.\<close>

definition setAll :: "('k \<times> 'v) list \<Rightarrow> ('k \<times> 'v) list \<Rightarrow> ('k \<times> 'v) list" where
  "setAll entries m = fold (\<lambda>(k, v). AList.update k v) entries m"

definition loadWithLock :: "StateFile \<Rightarrow> Broker \<Rightarrow> Broker" where
  "loadWithLock file b =
     (case file of
        Saved data \<Rightarrow>
          b\<lparr>leaseSeq := leaseSeq data,
            leases := setAll (leases data) (leases b),
            taskLeases := setAll (taskLeases data) (taskLeases b),
            taskStates := setAll (taskStates data) (taskStates b)\<rparr>
      | _ \<Rightarrow> b)"

definition saveWithLock :: "Broker \<Rightarrow> StateFile" where
  "saveWithLock b = Saved b"

section \<open>Operations\<close>

text \<open>Each returns the new file, the new memory of the process, and the result.\<close>

definition fileClaimTask ::
  "bool list \<Rightarrow> ms \<Rightarrow> int \<Rightarrow> ms \<Rightarrow> ClaimRequest \<Rightarrow> StateFile \<Rightarrow> Broker \<Rightarrow>
     StateFile \<times> Broker \<times> (js_error + ClaimResult)" where
  "fileClaimTask attempts checked year now request file b =
     (if \<not> acquireLock attempts then
        (file, b, Inr (claimDenied (cq_taskId request) LOCK_TIMEOUT))
      else
        (let (b', result) = claimTask checked year now request (loadWithLock file b)
         in case result of
              Inr res \<Rightarrow>
                (if claimStatus res = Granted then saveWithLock b' else file, b', result)
            | Inl e \<Rightarrow> (file, b', result)))"

definition fileHeartbeat ::
  "bool list \<Rightarrow> ms \<Rightarrow> ms \<Rightarrow> jstring \<Rightarrow> StateFile \<Rightarrow> Broker \<Rightarrow>
     StateFile \<times> Broker \<times> (js_error + bool)" where
  "fileHeartbeat attempts checked now lid file b =
     (if \<not> acquireLock attempts then (file, b, Inr False)
      else
        (let (b', result) = heartbeat checked now lid (loadWithLock file b)
         in (if result = Inr True then saveWithLock b' else file, b', result)))"

definition fileReleaseLease ::
  "bool list \<Rightarrow> ms \<Rightarrow> jstring \<Rightarrow> StateFile \<Rightarrow> Broker \<Rightarrow> StateFile \<times> Broker \<times> bool" where
  "fileReleaseLease attempts now lid file b =
     (if \<not> acquireLock attempts then (file, b, False)
      else
        (let (b', result) = releaseLease now lid (loadWithLock file b)
         in (if result then saveWithLock b' else file, b', result)))"

definition fileExpireLease ::
  "bool list \<Rightarrow> jstring \<Rightarrow> StateFile \<Rightarrow> Broker \<Rightarrow> StateFile \<times> Broker \<times> bool" where
  "fileExpireLease attempts lid file b =
     (if \<not> acquireLock attempts then (file, b, False)
      else
        (let (b', result) = expireLease lid (loadWithLock file b)
         in (if result then saveWithLock b' else file, b', result)))"

text \<open>The constructor loads the file into an empty broker.\<close>

definition openBroker :: "StateFile \<Rightarrow> Broker" where
  "openBroker file = loadWithLock file newBroker"

section \<open>Processes that share the file\<close>

record SharedLeases =
  state_file :: StateFile
  brokers :: "nat \<Rightarrow> Broker option"

definition afterOp :: "nat \<Rightarrow> StateFile \<times> Broker \<times> 'r \<Rightarrow> SharedLeases \<Rightarrow> SharedLeases" where
  "afterOp pid r s = (case r of (file, b, result) \<Rightarrow>
     s\<lparr>state_file := file, brokers := (brokers s)(pid \<mapsto> b)\<rparr>)"

datatype SharedOp =
  SharedOpen
| SharedExit
| SharedReady jstring
| SharedLook ms jstring
| SharedClaim "bool list" ms int ms ClaimRequest
| SharedHeartbeat "bool list" ms ms jstring
| SharedRelease "bool list" ms jstring
| SharedExpire "bool list" jstring

text \<open>One operation of the broker of a process; a process that is not running has no broker to call.\<close>

fun broker_op :: "nat \<Rightarrow> SharedOp \<Rightarrow> Broker \<Rightarrow> SharedLeases \<Rightarrow> SharedLeases" where
  "broker_op pid SharedOpen b s = s\<lparr>brokers := (brokers s)(pid \<mapsto> openBroker (state_file s))\<rparr>"
| "broker_op pid SharedExit b s = s\<lparr>brokers := (brokers s)(pid := None)\<rparr>"
| "broker_op pid (SharedReady task) b s = s\<lparr>brokers := (brokers s)(pid \<mapsto> setTaskReady task b)\<rparr>"
| "broker_op pid (SharedLook now task) b s =
     s\<lparr>brokers := (brokers s)(pid \<mapsto> fst (getActiveLease now task b))\<rparr>"
| "broker_op pid (SharedClaim attempts checked year now request) b s =
     afterOp pid (fileClaimTask attempts checked year now request (state_file s) b) s"
| "broker_op pid (SharedHeartbeat attempts checked now lid) b s =
     afterOp pid (fileHeartbeat attempts checked now lid (state_file s) b) s"
| "broker_op pid (SharedRelease attempts now lid) b s =
     afterOp pid (fileReleaseLease attempts now lid (state_file s) b) s"
| "broker_op pid (SharedExpire attempts lid) b s =
     afterOp pid (fileExpireLease attempts lid (state_file s) b) s"

definition shared_op :: "nat \<times> SharedOp \<Rightarrow> SharedLeases \<Rightarrow> SharedLeases" where
  "shared_op pop s = (case brokers s (fst pop) of
       None \<Rightarrow> (if snd pop = SharedOpen then broker_op (fst pop) SharedOpen newBroker s else s)
     | Some b \<Rightarrow> broker_op (fst pop) (snd pop) b s)"

text \<open>Any operations of any processes, one after the other: the lock serialises them.\<close>

definition shared_run :: "(nat \<times> SharedOp) list \<Rightarrow> SharedLeases \<Rightarrow> SharedLeases" where
  "shared_run ops s = fold shared_op ops s"

definition no_leases :: SharedLeases where
  "no_leases = \<lparr>state_file = Absent, brokers = Map.empty\<rparr>"

section \<open>The invariant\<close>

text \<open>What the file says; nothing has been saved while it is absent.\<close>

definition file_broker :: "StateFile \<Rightarrow> Broker" where
  "file_broker file = (case file of Saved b \<Rightarrow> b | _ \<Rightarrow> newBroker)"

text \<open>The leases a shared store holds are those of the file.\<close>

definition stored_lease :: "SharedLeases \<Rightarrow> jstring \<Rightarrow> Lease option" where
  "stored_lease s lid = getLease lid (file_broker (state_file s))"

text \<open>
  The code's \<open>expireLease\<close> does not look at the status of the lease. A stale expiry is one that
  gets the lock and hits a lease of the file that has already ended.
\<close>

fun stale_expiry :: "nat \<times> SharedOp \<Rightarrow> SharedLeases \<Rightarrow> bool" where
  "stale_expiry (pid, SharedExpire attempts lid) s =
     (brokers s pid \<noteq> None \<and> acquireLock attempts \<and>
      (case stored_lease s lid of
         None \<Rightarrow> False
       | Some l \<Rightarrow> lease_status l \<noteq> LeaseActive))"
| "stale_expiry _ s = False"

primrec without_stale_expiry :: "(nat \<times> SharedOp) list \<Rightarrow> SharedLeases \<Rightarrow> bool" where
  "without_stale_expiry [] s = True"
| "without_stale_expiry (pop # ops) s =
     (\<not> stale_expiry pop s \<and> without_stale_expiry ops (shared_op pop s))"

definition distinct_maps :: "Broker \<Rightarrow> bool" where
  "distinct_maps b \<longleftrightarrow> distinct (map fst (leases b)) \<and> distinct (map fst (taskLeases b))
     \<and> distinct (map fst (taskStates b))"

text \<open>
  The file satisfies the invariant of a broker, and every process only knows leases that are
  in the file, whatever it believes about their status.
\<close>

definition memory_ok :: "StateFile \<Rightarrow> Broker \<Rightarrow> bool" where
  "memory_ok file b \<longleftrightarrow> distinct_maps b
     \<and> dom (map_of (leases b)) \<subseteq> dom (map_of (leases (file_broker file)))"

definition shared_inv :: "SharedLeases \<Rightarrow> bool" where
  "shared_inv s \<longleftrightarrow> state_file s \<noteq> Corrupted
     \<and> broker_inv (file_broker (state_file s)) \<and> distinct_maps (file_broker (state_file s))
     \<and> (\<forall>pid b. brokers s pid = Some b \<longrightarrow> memory_ok (state_file s) b)"

lemma map_of_setAll: "distinct (map fst es) \<Longrightarrow> map_of (setAll es m) = map_of m ++ map_of es"
proof (induction es arbitrary: m)
  case (Cons e es)
  obtain k v where e: "e = (k, v)" by fastforce
  from Cons.prems e have "map_of es k = None" by (simp add: map_of_eq_None_iff)
  with Cons e have "map_of (setAll (e # es) m) = (map_of m)(k \<mapsto> v) ++ map_of es"
    by (simp add: setAll_def update_conv')
  also have "\<dots> = map_of m ++ map_of (e # es)"
    using \<open>map_of es k = None\<close> e by (auto simp: map_add_def split: option.split)
  finally show ?case .
qed (simp add: setAll_def)

lemma distinct_setAll: "distinct (map fst m) \<Longrightarrow> distinct (map fst (setAll es m))"
  by (induction es arbitrary: m) (auto simp: setAll_def distinct_update)

text \<open>After loading, a process sees exactly the leases of the file.\<close>

lemma load_leases:
  assumes "shared_inv s" and "memory_ok (state_file s) b"
  shows "map_of (leases (loadWithLock (state_file s) b)) = map_of (leases (file_broker (state_file s)))"
proof (cases "state_file s")
  case (Saved data)
  with assms have "distinct (map fst (leases data))"
    by (auto simp: shared_inv_def file_broker_def distinct_maps_def)
  then show ?thesis
    using assms(2) Saved
    by (auto simp: loadWithLock_def map_of_setAll memory_ok_def file_broker_def map_add_def
        fun_eq_iff split: option.split)
next
  case Absent
  with assms(2) have "map_of (leases b) = Map.empty"
    by (simp add: memory_ok_def file_broker_def newBroker_def)
  with Absent show ?thesis by (simp add: loadWithLock_def file_broker_def newBroker_def)
qed (use assms in \<open>simp add: shared_inv_def\<close>)

lemma load_inv:
  assumes "shared_inv s" and "memory_ok (state_file s) b"
  shows "broker_inv (loadWithLock (state_file s) b)"
    and "distinct_maps (loadWithLock (state_file s) b)"
proof -
  have inv: "broker_inv (file_broker (state_file s))" and dist: "distinct_maps (file_broker (state_file s))"
    using assms(1) by (auto simp: shared_inv_def)
  note same = load_leases [OF assms]
  show "broker_inv (loadWithLock (state_file s) b)"
  proof (cases "state_file s")
    case (Saved data)
    with dist have "map_of (taskLeases (loadWithLock (state_file s) b)) t = Some lid"
      if "map_of (taskLeases data) t = Some lid" for t lid
      using that
      by (simp add: loadWithLock_def map_of_setAll distinct_maps_def file_broker_def map_add_def)
    moreover have "leaseSeq (loadWithLock (state_file s) b) = leaseSeq data"
      using Saved by (simp add: loadWithLock_def)
    ultimately show ?thesis
      using inv Saved same by (auto simp: broker_inv_def file_broker_def)
  next
    case Absent
    with same show ?thesis by (simp add: broker_inv_def file_broker_def newBroker_def)
  qed (use assms in \<open>simp add: shared_inv_def\<close>)
  show "distinct_maps (loadWithLock (state_file s) b)"
    using assms(2)
    by (auto simp: loadWithLock_def distinct_maps_def memory_ok_def distinct_setAll
        split: StateFile.split)
qed

text \<open>No operation forgets a lease, only a grant adds one, and keys stay distinct.\<close>

abbreviation lease_ids :: "Broker \<Rightarrow> jstring set" where
  "lease_ids b \<equiv> dom (map_of (leases b))"

lemma endLease_ids:
  "map_of (leases b) lid = Some l \<Longrightarrow> lease_ids (endLease lid l' task b) = lease_ids b"
  by (auto simp: endLease_def update_conv' split: if_splits)

lemma endLease_distinct: "distinct_maps b \<Longrightarrow> distinct_maps (endLease lid l' task b)"
  by (simp add: endLease_def distinct_maps_def distinct_update distinct_delete)

lemma renew_distinct:
  "distinct_maps b \<Longrightarrow> distinct_maps (b\<lparr>leases := AList.update lid l (leases b)\<rparr>)"
  by (simp add: distinct_maps_def distinct_update)

lemma getActiveLease_keeps:
  "lease_ids (fst (getActiveLease now task b)) = lease_ids b"
  "distinct_maps b \<Longrightarrow> distinct_maps (fst (getActiveLease now task b))"
  by (auto simp: getActiveLease_def endLease_ids endLease_distinct split: option.split)

lemma claimTask_keeps:
  assumes "claimTask checked year now request b = (b', r)"
  shows "lease_ids b \<subseteq> lease_ids b'"
    and "\<not> (\<exists>res. r = Inr res \<and> claimStatus res = Granted) \<Longrightarrow> lease_ids b' = lease_ids b"
    and "distinct_maps b \<Longrightarrow> distinct_maps b'"
proof -
  obtain b1 e where g: "getActiveLease checked (cq_taskId request) b = (b1, e)" by fastforce
  with getActiveLease_keeps [where now = checked and task = "cq_taskId request" and b = b]
  have ids: "lease_ids b1 = lease_ids b" and dist: "distinct_maps b \<Longrightarrow> distinct_maps b1" by simp_all
  from assms g have "lease_ids b1 \<subseteq> lease_ids b'"
    and "\<not> (\<exists>res. r = Inr res \<and> claimStatus res = Granted) \<Longrightarrow> lease_ids b' = lease_ids b1"
    and "distinct_maps b1 \<Longrightarrow> distinct_maps b'"
    by (auto simp: claimTask_def Let_def update_conv' distinct_maps_def distinct_update
        split: if_splits option.splits)
  with ids dist show "lease_ids b \<subseteq> lease_ids b'"
    and "\<not> (\<exists>res. r = Inr res \<and> claimStatus res = Granted) \<Longrightarrow> lease_ids b' = lease_ids b"
    and "distinct_maps b \<Longrightarrow> distinct_maps b'" by simp_all
qed

lemma heartbeat_keeps:
  "lease_ids (fst (heartbeat checked now lid b)) = lease_ids b"
  "distinct_maps b \<Longrightarrow> distinct_maps (fst (heartbeat checked now lid b))"
  by (auto simp: heartbeat_def Let_def endLease_ids endLease_distinct update_conv' renew_distinct
      split: option.split if_splits)

lemma releaseLease_keeps:
  "lease_ids (fst (releaseLease now lid b)) = lease_ids b"
  "distinct_maps b \<Longrightarrow> distinct_maps (fst (releaseLease now lid b))"
  by (auto simp: releaseLease_def endLease_ids endLease_distinct split: option.split)

lemma expireLease_keeps:
  "lease_ids (fst (expireLease lid b)) = lease_ids b"
  "distinct_maps b \<Longrightarrow> distinct_maps (fst (expireLease lid b))"
  by (auto simp: expireLease_def endLease_ids endLease_distinct split: option.split)

text \<open>One operation of one process: it either saves its new state or leaves the file alone.\<close>

lemma afterOp_saved:
  assumes "shared_inv s" and "broker_inv b'" and "distinct_maps b'"
    and "lease_ids (file_broker (state_file s)) \<subseteq> lease_ids b'"
  shows "shared_inv (afterOp pid (saveWithLock b', b', r) s)"
proof -
  have mem: "memory_ok (Saved b') b''" if "memory_ok (state_file s) b''" for b''
    using that subset_trans [OF _ assms(4)]
    by (simp add: memory_ok_def file_broker_def [of "Saved b'"])
  have "memory_ok (Saved b') b'" using assms(3) by (simp add: memory_ok_def file_broker_def)
  with mem assms show ?thesis
    by (auto simp: shared_inv_def afterOp_def saveWithLock_def file_broker_def [of "Saved b'"])
qed

lemma afterOp_unsaved:
  assumes "shared_inv s" and "distinct_maps b'"
    and "lease_ids b' \<subseteq> lease_ids (file_broker (state_file s))"
  shows "shared_inv (afterOp pid (state_file s, b', r) s)"
  using assms by (simp add: shared_inv_def afterOp_def memory_ok_def)

lemma afterOp_locked_out:
  assumes "shared_inv s" and "brokers s pid = Some b"
  shows "shared_inv (afterOp pid (state_file s, b, r) s)"
  using assms by (auto simp: shared_inv_def afterOp_def memory_ok_def)

text \<open>The shape of every overridden operation.\<close>

lemma locked_op_inv:
  assumes "shared_inv s" and "brokers s pid = Some b"
    and "b' = fst (op (loadWithLock (state_file s) b))"
    and "lease_ids b' \<supseteq> lease_ids (loadWithLock (state_file s) b)"
    and "broker_inv (loadWithLock (state_file s) b) \<Longrightarrow> save \<Longrightarrow> broker_inv b'"
    and "distinct_maps (loadWithLock (state_file s) b) \<Longrightarrow> distinct_maps b'"
    and "\<not> save \<Longrightarrow> lease_ids b' = lease_ids (loadWithLock (state_file s) b)"
  shows "shared_inv (afterOp pid (if save then saveWithLock b' else state_file s, b', r) s)"
proof -
  from assms(1,2) have mem: "memory_ok (state_file s) b" by (auto simp: shared_inv_def)
  note load = load_leases [OF assms(1) mem] load_inv [OF assms(1) mem]
  show ?thesis
  proof (cases save)
    case True
    then show ?thesis
      using assms load afterOp_saved [of s b' pid r] by simp
  next
    case False
    then show ?thesis
      using assms load afterOp_unsaved [of s b' pid r] by simp
  qed
qed

lemma fileClaimTask_inv:
  assumes "shared_inv s" and "brokers s pid = Some b"
  shows "shared_inv (afterOp pid (fileClaimTask attempts checked year now request (state_file s) b) s)"
proof (cases "acquireLock attempts")
  case True
  let ?m = "loadWithLock (state_file s) b"
  obtain b' r where op: "claimTask checked year now request ?m = (b', r)" by fastforce
  let ?save = "\<exists>res. r = Inr res \<and> claimStatus res = Granted"
  have "shared_inv (afterOp pid (if ?save then saveWithLock b' else state_file s, b', r) s)"
    using claimTask_keeps [OF op] claimTask_inv [of ?m checked year now request]
    by (intro locked_op_inv [OF assms, where op = "claimTask checked year now request"])
      (simp_all add: op)
  moreover have "fileClaimTask attempts checked year now request (state_file s) b =
      (if ?save then saveWithLock b' else state_file s, b', r)"
    using True op by (auto simp: fileClaimTask_def split: sum.split)
  ultimately show ?thesis by simp
qed (use assms afterOp_locked_out in \<open>simp add: fileClaimTask_def\<close>)

lemma fileHeartbeat_inv:
  assumes "shared_inv s" and "brokers s pid = Some b"
  shows "shared_inv (afterOp pid (fileHeartbeat attempts checked now lid (state_file s) b) s)"
proof (cases "acquireLock attempts")
  case True
  let ?m = "loadWithLock (state_file s) b"
  obtain b' r where op: "heartbeat checked now lid ?m = (b', r)" by fastforce
  have "shared_inv (afterOp pid (if r = Inr True then saveWithLock b' else state_file s, b', r) s)"
    using heartbeat_keeps [where checked = checked and now = now and lid = lid and b = ?m] heartbeat_inv [of ?m checked now lid]
    by (intro locked_op_inv [OF assms, where op = "heartbeat checked now lid"]) (simp_all add: op)
  then show ?thesis using True op by (simp add: fileHeartbeat_def)
qed (use assms afterOp_locked_out in \<open>simp add: fileHeartbeat_def\<close>)

lemma fileReleaseLease_inv:
  assumes "shared_inv s" and "brokers s pid = Some b"
  shows "shared_inv (afterOp pid (fileReleaseLease attempts now lid (state_file s) b) s)"
proof (cases "acquireLock attempts")
  case True
  let ?m = "loadWithLock (state_file s) b"
  obtain b' r where op: "releaseLease now lid ?m = (b', r)" by fastforce
  have "shared_inv (afterOp pid (if r then saveWithLock b' else state_file s, b', r) s)"
    using releaseLease_keeps [where now = now and lid = lid and b = ?m] releaseLease_inv [of ?m now lid]
    by (intro locked_op_inv [OF assms, where op = "releaseLease now lid"]) (simp_all add: op)
  then show ?thesis using True op by (simp add: fileReleaseLease_def)
qed (use assms afterOp_locked_out in \<open>simp add: fileReleaseLease_def\<close>)

lemma fileExpireLease_inv:
  assumes "shared_inv s" and "brokers s pid = Some b"
    and live: "\<not> stale_expiry (pid, SharedExpire attempts lid) s"
  shows "shared_inv (afterOp pid (fileExpireLease attempts lid (state_file s) b) s)"
proof (cases "acquireLock attempts")
  case True
  let ?m = "loadWithLock (state_file s) b"
  from assms(1,2) have mem: "memory_ok (state_file s) b" by (auto simp: shared_inv_def)
  have "getLease lid ?m = stored_lease s lid"
    using load_leases [OF assms(1) mem] by (simp add: stored_lease_def getLease_def)
  with live True assms(2) have "broker_inv ?m \<Longrightarrow> broker_inv (fst (expireLease lid ?m))"
    using expireLease_inv [of ?m lid]
    by (auto simp: getLease_def expireLease_def split: option.splits)
  moreover obtain b' r where op: "expireLease lid ?m = (b', r)" by fastforce
  ultimately
  have "shared_inv (afterOp pid (if r then saveWithLock b' else state_file s, b', r) s)"
    using expireLease_keeps [where lid = lid and b = ?m]
    by (intro locked_op_inv [OF assms(1,2), where op = "expireLease lid"]) (simp_all add: op)
  then show ?thesis using True op by (simp add: fileExpireLease_def)
qed (use assms afterOp_locked_out in \<open>simp add: fileExpireLease_def\<close>)

text \<open>Operations on a process's memory alone.\<close>

lemma memory_step_inv:
  "shared_inv s \<Longrightarrow> memory_ok (state_file s) b \<Longrightarrow> shared_inv (s\<lparr>brokers := (brokers s)(pid \<mapsto> b)\<rparr>)"
  by (simp add: shared_inv_def)

lemma openBroker_memory: "shared_inv s \<Longrightarrow> memory_ok (state_file s) (openBroker (state_file s))"
  using load_leases [of s newBroker] load_inv [of s newBroker]
  by (simp add: memory_ok_def openBroker_def newBroker_def distinct_maps_def)

text \<open>Every operation of every process that is not a stale expiry keeps the invariant.\<close>

lemma broker_op_inv:
  assumes "shared_inv s" and "brokers s pid = Some b" and "\<not> stale_expiry (pid, op) s"
  shows "shared_inv (broker_op pid op b s)"
proof (cases op)
  case SharedOpen
  with assms(1) show ?thesis by (simp add: memory_step_inv openBroker_memory)
next
  case SharedExit
  with assms(1) show ?thesis by (auto simp: shared_inv_def)
next
  case (SharedReady task)
  with assms have "memory_ok (state_file s) (setTaskReady task b)"
    by (auto simp: shared_inv_def memory_ok_def setTaskReady_def distinct_maps_def distinct_update)
  with assms(1) SharedReady show ?thesis by (simp add: memory_step_inv)
next
  case (SharedLook now task)
  with assms have "memory_ok (state_file s) (fst (getActiveLease now task b))"
    by (auto simp: shared_inv_def memory_ok_def getActiveLease_keeps)
  with assms(1) SharedLook show ?thesis by (simp add: memory_step_inv)
qed (use assms fileClaimTask_inv fileHeartbeat_inv fileReleaseLease_inv fileExpireLease_inv in simp_all)

lemma shared_op_inv:
  assumes "shared_inv s" and "\<not> stale_expiry pop s"
  shows "shared_inv (shared_op pop s)"
  using assms broker_op_inv [of s "fst pop" _ "snd pop"] openBroker_memory [OF assms(1)]
  by (cases "brokers s (fst pop)") (auto simp: shared_op_def memory_step_inv)

text \<open>The store of leases, as far as no stale expiry happens.\<close>

abbreviation shared_init :: "SharedLeases \<Rightarrow> bool" where
  "shared_init s \<equiv> s = no_leases"

definition live_step :: "SharedLeases \<Rightarrow> SharedLeases \<Rightarrow> bool" where
  "live_step s s' \<longleftrightarrow> (\<exists>pop. \<not> stale_expiry pop s \<and> s' = shared_op pop s)"

lemma live_run_reachable:
  "reachable init live_step s \<Longrightarrow> without_stale_expiry ops s \<Longrightarrow>
     reachable init live_step (shared_run ops s)"
proof (induction ops arbitrary: s)
  case (Cons pop ops)
  from Cons.prems have "live_step s (shared_op pop s)"
    unfolding live_step_def without_stale_expiry.simps by blast
  with Cons.prems(1) have "reachable init live_step (shared_op pop s)" by (rule reachable_step)
  with Cons.IH Cons.prems(2) show ?case by (simp add: shared_run_def)
qed (simp add: shared_run_def)

lemma live_run:
  "without_stale_expiry ops no_leases \<Longrightarrow>
     reachable shared_init live_step (shared_run ops no_leases)"
  by (rule live_run_reachable, rule reachable_init) auto

interpretation shared: lease_store shared_init live_step shared_inv stored_lease
proof unfold_locales
  show "shared_inv s" if "shared_init s" for s
    using that by (simp add: no_leases_def shared_inv_def file_broker_def newBroker_inv
        distinct_maps_def newBroker_def broker_inv_def)
  show "shared_inv s'" if "shared_inv s" "live_step s s'" for s s'
    using that shared_op_inv unfolding live_step_def by blast
  show "leaseId l = lid" if "shared_inv s" "stored_lease s lid = Some l" for s lid l
    using that broker_inv_lookup(1) [of "file_broker (state_file s)" lid l]
    by (simp add: stored_lease_def shared_inv_def getLease_def)
  show "lid = lid'"
    if "shared_inv s" "stored_lease s lid = Some l" "stored_lease s lid' = Some l'"
      "lease_status l = LeaseActive" "lease_status l' = LeaseActive" "taskId l = taskId l'"
    for s lid l lid' l'
    using that broker_inv_one_active [of "file_broker (state_file s)" lid l lid' l']
    by (simp add: stored_lease_def shared_inv_def getLease_def)
qed

end
