(* ===== verification/LeaseProperties.thy ===== *)
theory LeaseProperties
  imports FileClaimBroker
begin

text \<open>
  The properties of the lease brokers: mutual exclusion of active leases across the processes
  that share a state file as long as no lease is expired that has already ended, what a grant
  and a heartbeat promise, and what an expiry of a lease that has already ended does.
\<close>

lemma leaseIdOf_neq [simp]: "s \<noteq> s' \<Longrightarrow> leaseIdOf y s \<noteq> leaseIdOf y' s'"
  using leaseIdOf_inj by blast

definition task_a :: jstring where "task_a = js ''TASK-1''"

definition claim_by :: "jstring \<Rightarrow> ClaimRequest" where
  "claim_by agent =
     \<lparr>cq_agentId = agent, cq_taskId = task_a, cq_ttlMinutes = None, cq_capabilities = []\<rparr>"

definition first_lease :: Lease where
  "first_lease =
     \<lparr>leaseId = leaseIdOf 2026 1, taskId = task_a, agentId = js ''a'', lease_status = LeaseActive,
      createdAt = 0, expiresAt = 3600000, heartbeatAt = 0, releasedAt = None, ttlMinutes = 60,
      allowedPaths = []\<rparr>"

definition claimed_broker :: Broker where
  "claimed_broker =
     \<lparr>leases = [(leaseIdOf 2026 1, first_lease)], taskLeases = [(task_a, leaseIdOf 2026 1)],
      taskStates = [(task_a, js ''claimed'')], leaseSeq = 1\<rparr>"

definition first_grant :: ClaimResult where
  "first_grant =
     \<lparr>claimStatus = Granted, cs_taskId = task_a, cs_leaseId = Some (leaseIdOf 2026 1),
      cs_lease = Some first_lease, cs_expiresAt = Some 3600000, cs_reason = None\<rparr>"

lemmas broker_eval =
  claimTask_def getActiveLease_def setTaskReady_def newBroker_def claim_by_def js_time_def Let_def
  endLease_def releaseLease_def expireLease_def heartbeat_def getLease_def

lemma claim_first:
  "claimTask 0 2026 0 (claim_by (js ''a'')) (setTaskReady task_a newBroker)
     = (claimed_broker, Inr first_grant)"
  by (simp add: broker_eval claimed_broker_def first_grant_def first_lease_def)

lemma claimed_broker_inv: "broker_inv claimed_broker"
  using claimTask_inv [of "setTaskReady task_a newBroker" 0 2026 0 "claim_by (js ''a'')"] newBroker_inv
  by (simp add: claim_first) (simp add: setTaskReady_def broker_inv_states)

text \<open>C1: The brokers of any number of processes share a state file that is absent at first. They
  are opened, closed and called in any order, some calls fail to get the lock, and each broker
  remembers what it likes. As long as no call of \<open>expireLease\<close> hits a lease that has already
  ended, two active leases of the file on the same task are the same lease.\<close>

theorem shared_lease_mutual_exclusion:
  assumes "without_stale_expiry ops no_leases" and "s = shared_run ops no_leases"
    and "stored_lease s lid = Some l" and "stored_lease s lid' = Some l'"
    and "lease_status l = LeaseActive" and "lease_status l' = LeaseActive" and "taskId l = taskId l'"
  shows "l = l'"
  using shared.exclusive [OF live_run [OF assms(1)], folded assms(2), OF assms(3-7)] .

definition ready_store :: SharedLeases where
  "ready_store =
     \<lparr>state_file = Absent, brokers = [0 \<mapsto> setTaskReady task_a newBroker]\<rparr>"

definition claimed_store :: SharedLeases where
  "claimed_store =
     \<lparr>state_file = Saved claimed_broker, brokers = [0 \<mapsto> claimed_broker]\<rparr>"

definition ready_ops :: "(nat \<times> SharedOp) list" where
  "ready_ops = [(0, SharedOpen), (0, SharedReady task_a)]"

definition claim_op :: "nat \<times> SharedOp" where
  "claim_op = (0, SharedClaim [False, True] 0 2026 0 (claim_by (js ''a'')))"

lemma ready_run:
  "without_stale_expiry ready_ops no_leases" "shared_run ready_ops no_leases = ready_store"
  by (simp_all add: ready_ops_def no_leases_def shared_run_def shared_op_def openBroker_def
      loadWithLock_def ready_store_def)

lemma file_claim_first:
  "fileClaimTask [False, True] 0 2026 0 (claim_by (js ''a'')) Absent (setTaskReady task_a newBroker)
     = (Saved claimed_broker, claimed_broker, Inr first_grant)"
  by (simp add: fileClaimTask_def loadWithLock_def claim_first first_grant_def saveWithLock_def)

lemma claimed_run:
  "without_stale_expiry (ready_ops @ [claim_op]) no_leases"
  "shared_run (ready_ops @ [claim_op]) no_leases = claimed_store"
  by (simp_all add: ready_ops_def claim_op_def no_leases_def shared_run_def shared_op_def openBroker_def
      loadWithLock_def file_claim_first afterOp_def claimed_store_def)

theorem shared_lease_mutual_exclusion_witness:
  "\<exists>lid l. stored_lease claimed_store lid = Some l
     \<and> lease_status l = LeaseActive \<and> (\<nexists>l'. stored_lease claimed_store lid = Some l' \<and> l' \<noteq> l)"
proof -
  have stored: "stored_lease claimed_store (leaseIdOf 2026 1) = Some first_lease"
    and active: "lease_status first_lease = LeaseActive"
    by (simp_all add: stored_lease_def getLease_def claimed_store_def claimed_broker_def
        first_lease_def file_broker_def)
  have "\<nexists>l'. stored_lease claimed_store (leaseIdOf 2026 1) = Some l' \<and> l' \<noteq> first_lease"
    using shared_lease_mutual_exclusion [OF claimed_run(1) claimed_run(2) [symmetric] stored stored
        active active refl] stored by simp
  with stored active show ?thesis by blast
qed

text \<open>C2: After any calls by any processes, as long as none of them expired a lease that had
  already ended: when a process is granted a lease, the file held no live lease on the task, the
  identifier was never used in the file, and the file now holds the new lease, which expires
  its time to live after the grant.\<close>

theorem shared_grant_exclusive:
  assumes "without_stale_expiry ops no_leases" and "s = shared_run ops no_leases"
    and "brokers s pid = Some b"
    and "fileClaimTask attempts checked year now request (state_file s) b = (file', b', Inr res)"
    and "claimStatus res = Granted"
  shows "\<not> (\<exists>lid l. stored_lease s lid = Some l \<and> taskId l = cq_taskId request
        \<and> lease_status l = LeaseActive \<and> checked < expiresAt l)
    \<and> (\<exists>l. cs_lease res = Some l \<and> stored_lease s (leaseId l) = None
        \<and> getLease (leaseId l) (file_broker file') = Some l
        \<and> taskId l = cq_taskId request \<and> agentId l = cq_agentId request
        \<and> lease_status l = LeaseActive
        \<and> js_time (of_int now + ttlMinutes l * 60000) = Some (expiresAt l))"
proof -
  let ?m = "loadWithLock (state_file s) b"
  have inv: "shared_inv s" using shared.reachable_inv [OF live_run [OF assms(1)]] assms(2) by simp
  with assms(3) have mem: "memory_ok (state_file s) b" by (auto simp: shared_inv_def)
  note load = load_leases [OF inv mem] load_inv [OF inv mem]
  from assms(4,5) have op: "claimTask checked year now request ?m = (b', Inr res)"
    and file': "file' = Saved b'"
    by (auto simp: fileClaimTask_def claimDenied_def saveWithLock_def split: if_splits prod.splits
        sum.splits)
  from claimTask_granted [OF op assms(5)] obtain b1 l where
    none: "getActiveLease checked (cq_taskId request) ?m = (b1, None)"
    and lid: "leaseId l = leaseIdOf year (Suc (leaseSeq b1))"
    and l: "taskId l = cq_taskId request" "lease_status l = LeaseActive"
      "js_time (of_int now + ttlMinutes l * 60000) = Some (expiresAt l)"
      "cs_lease res = Some l" "agentId l = cq_agentId request"
      "map_of (leases b') (leaseId l) = Some l"
    by metis
  have "\<not> (\<exists>lid l. stored_lease s lid = Some l \<and> taskId l = cq_taskId request
      \<and> lease_status l = LeaseActive \<and> checked < expiresAt l)"
  proof safe
    fix lid l assume "stored_lease s lid = Some l" "taskId l = cq_taskId request"
      "lease_status l = LeaseActive" "checked < expiresAt l"
    with load getActiveLease_live [of ?m lid l checked] none show False
      by (simp add: stored_lease_def getLease_def)
  qed
  moreover have "stored_lease s (leaseId l) = None"
  proof (rule ccontr)
    assume "stored_lease s (leaseId l) \<noteq> None"
    then have "leaseId l \<in> lease_ids b1"
      using load(1) getActiveLease_keeps(1) [where now = checked and task = "cq_taskId request"
          and b = ?m] none
      by (auto simp: stored_lease_def getLease_def)
    moreover have "broker_inv b1" using getActiveLease_inv [OF load(2)] none by (metis fst_conv)
    ultimately have "issued (leaseSeq b1) (leaseId l)" using broker_inv_lookup(2) by blast
    with lid show False by simp
  qed
  moreover have "getLease (leaseId l) (file_broker file') = Some l"
    using l(6) file' by (simp add: getLease_def file_broker_def)
  ultimately show ?thesis using l by blast
qed

theorem shared_grant_exclusive_witness:
  "\<exists>l. cs_lease first_grant = Some l \<and> stored_lease ready_store (leaseId l) = None"
  using shared_grant_exclusive [OF ready_run(1) ready_run(2) [symmetric], of 0 "setTaskReady task_a newBroker"
      "[False, True]" 0 2026 0 "claim_by (js ''a'')" "Saved claimed_broker" claimed_broker first_grant]
  by (simp add: ready_store_def file_claim_first) (auto simp: first_grant_def)

text \<open>A lease keeps everybody else out until it expires: while it is active and its expiry is
  ahead of the clock, every claim on its task is denied with \<open>ALREADY_CLAIMED\<close> and changes
  nothing, and the active lease of the task is that lease.\<close>

theorem live_lease_excludes:
  assumes "broker_inv b" and "getLease lid b = Some l"
    and "lease_status l = LeaseActive" and "checked < expiresAt l" and "cq_taskId request = taskId l"
  shows "claimTask checked year now request b
      = (b, Inr (claimDenied (cq_taskId request) ALREADY_CLAIMED))
    \<and> getActiveLease checked (taskId l) b = (b, Some l)"
  using assms claimTask_denied_live [of b lid l checked request year now]
    getActiveLease_live [of b lid l checked]
  by (simp add: getLease_def)

theorem live_lease_excludes_witness:
  "claimTask 5 2026 5 (claim_by (js ''b'')) claimed_broker
     = (claimed_broker, Inr (claimDenied task_a ALREADY_CLAIMED))"
  using live_lease_excludes [OF claimed_broker_inv, of "leaseIdOf 2026 1" first_lease 5
      "claim_by (js ''b'')" 2026 5]
  by (simp add: getLease_def claimed_broker_def first_lease_def claim_by_def)

text \<open>A heartbeat succeeds exactly on an active lease whose expiry is ahead of the clock and
  whose new expiry is a date, and then the only change is that lease's heartbeat and expiry.\<close>

theorem heartbeat_renews:
  "snd (heartbeat checked now lid b) = Inr True \<longleftrightarrow>
     (\<exists>l expiry. getLease lid b = Some l \<and> lease_status l = LeaseActive \<and> checked < expiresAt l
        \<and> js_time (of_int now + ttlMinutes l * 60000) = Some expiry
        \<and> fst (heartbeat checked now lid b) =
            b\<lparr>leases := AList.update lid (l\<lparr>heartbeatAt := now, expiresAt := expiry\<rparr>) (leases b)\<rparr>)"
  by (auto simp: heartbeat_def getLease_def Let_def split: option.splits if_splits)

section \<open>Stale expiries\<close>

text \<open>Whatever the status of the lease, its expiry frees the task in the file.\<close>

lemma expiry_frees:
  assumes inv: "shared_inv s" and b: "brokers s pid = Some b" and "acquireLock attempts"
    and stored: "stored_lease s lid = Some l"
  obtains b1 where "shared_op (pid, SharedExpire attempts lid) s =
        s\<lparr>state_file := Saved b1, brokers := (brokers s)(pid \<mapsto> b1)\<rparr>"
    and "map_of (leases b1) = (map_of (leases (file_broker (state_file s))))
           (lid \<mapsto> l\<lparr>lease_status := LeaseExpired\<rparr>)"
    and "map_of (taskLeases b1) (taskId l) = None"
    and "map_of (taskStates b1) (taskId l) = Some (js ''ready'')"
    and "leaseSeq b1 = leaseSeq (file_broker (state_file s))" and "distinct_maps b1"
proof -
  let ?m = "loadWithLock (state_file s) b"
  from inv b have mem: "memory_ok (state_file s) b" by (auto simp: shared_inv_def)
  note load = load_leases [OF inv mem] load_inv [OF inv mem]
  from stored obtain data where f: "state_file s = Saved data"
    using inv by (cases "state_file s")
      (auto simp: stored_lease_def getLease_def file_broker_def newBroker_def shared_inv_def)
  from stored load(1) have l: "map_of (leases ?m) lid = Some l"
    by (simp add: stored_lease_def getLease_def)
  let ?b1 = "fst (expireLease lid ?m)"
  have "distinct_maps ?b1" using load(3) expireLease_keeps(2) by blast
  moreover have "shared_op (pid, SharedExpire attempts lid) s =
      s\<lparr>state_file := Saved ?b1, brokers := (brokers s)(pid \<mapsto> ?b1)\<rparr>"
    using assms l by (simp add: shared_op_def fileExpireLease_def expireLease_def afterOp_def
        saveWithLock_def)
  moreover have "leaseSeq ?b1 = leaseSeq (file_broker (state_file s))"
    using l f by (simp add: expireLease_def endLease_def loadWithLock_def file_broker_def)
  ultimately show ?thesis
    using that [of ?b1] l load(1) by (simp add: expireLease_def endLease_def update_conv' delete_conv)
qed

text \<open>A claim on a task that is ready and has no entry is granted.\<close>

lemma claimTask_free:
  assumes "map_of (taskLeases b) (cq_taskId request) = None"
    and "map_of (taskStates b) (cq_taskId request) = Some (js ''ready'')"
    and "js_time (of_int now + (case cq_ttlMinutes request of None \<Rightarrow> 60 | Some m \<Rightarrow> m) * 60000)
      = Some expiry"
  obtains b' res l where "claimTask checked year now request b = (b', Inr res)"
    and "claimStatus res = Granted" and "leases b' = AList.update (leaseId l) l (leases b)"
    and "leaseId l = leaseIdOf year (Suc (leaseSeq b))" and "taskId l = cq_taskId request"
    and "agentId l = cq_agentId request" and "lease_status l = LeaseActive" and "expiresAt l = expiry"
    and "cs_lease res = Some l"
proof -
  from assms have "getActiveLease checked (cq_taskId request) b = (b, None)"
    by (simp add: getActiveLease_def)
  with assms have "\<exists>b' res l. claimTask checked year now request b = (b', Inr res)
     \<and> claimStatus res = Granted \<and> leases b' = AList.update (leaseId l) l (leases b)
     \<and> leaseId l = leaseIdOf year (Suc (leaseSeq b)) \<and> taskId l = cq_taskId request
     \<and> agentId l = cq_agentId request \<and> lease_status l = LeaseActive \<and> expiresAt l = expiry
     \<and> cs_lease res = Some l"
    by (simp add: claimTask_def Let_def)
  with that show ?thesis by blast
qed

text \<open>C39: What a stale expiry does. After any calls without one, let a lease of the file have
  ended and another lease on its task be active, and let a process that gets the lock expire the
  ended one. Then the next claim on the task by any process that gets the lock, that does not
  itself remember an entry for the task, and whose expiry is a date, is granted: two active leases
  on the task are in the file, the old holder's unchanged, and the requester's under another
  identifier.\<close>

theorem stale_expiry_double_claim:
  assumes "without_stale_expiry ops no_leases" and "s = shared_run ops no_leases"
    and "stored_lease s lid = Some l" and "lease_status l \<noteq> LeaseActive"
    and "stored_lease s lid' = Some l'" and "lease_status l' = LeaseActive"
    and "taskId l' = taskId l"
    and "brokers s pid = Some b" and "acquireLock attempts"
    and "s1 = shared_op (pid, SharedExpire attempts lid) s"
    and "brokers s1 pid' = Some b'" and "map_of (taskLeases b') (taskId l) = None"
    and "acquireLock attempts'" and "cq_taskId request = taskId l"
    and "js_time (of_int now + (case cq_ttlMinutes request of None \<Rightarrow> 60 | Some m \<Rightarrow> m) * 60000)
      = Some expiry"
    and "s2 = shared_op (pid', SharedClaim attempts' checked year now request) s1"
  shows "\<exists>l2. (\<exists>res. snd (snd (fileClaimTask attempts' checked year now request (state_file s1) b'))
          = Inr res \<and> claimStatus res = Granted \<and> cs_lease res = Some l2)
    \<and> stored_lease s2 lid' = Some l' \<and> stored_lease s2 (leaseId l2) = Some l2
    \<and> leaseId l2 \<noteq> lid' \<and> lease_status l2 = LeaseActive \<and> taskId l2 = taskId l'
    \<and> agentId l2 = cq_agentId request \<and> expiresAt l2 = expiry"
proof -
  have inv: "shared_inv s" using shared.reachable_inv [OF live_run [OF assms(1)]] assms(2) by simp
  have "lid \<noteq> lid'" using assms(3-6) by auto
  from expiry_frees [OF inv assms(8,9,3)] obtain b1 where
    s1: "s1 = s\<lparr>state_file := Saved b1, brokers := (brokers s)(pid \<mapsto> b1)\<rparr>"
    and b1: "map_of (leases b1) = (map_of (leases (file_broker (state_file s))))
           (lid \<mapsto> l\<lparr>lease_status := LeaseExpired\<rparr>)"
      "map_of (taskLeases b1) (taskId l) = None"
      "map_of (taskStates b1) (taskId l) = Some (js ''ready'')"
      "leaseSeq b1 = leaseSeq (file_broker (state_file s))" "distinct_maps b1"
    unfolding assms(10) by metis
  have "map_of (leases b1) lid' = Some l'"
    using assms(5) b1(1) \<open>lid \<noteq> lid'\<close> by (simp add: stored_lease_def getLease_def)
  moreover have "lid' \<noteq> leaseIdOf year (Suc (leaseSeq b1))"
    using inv assms(5) b1(4) broker_inv_lookup(2) [of "file_broker (state_file s)" lid' l']
    by (auto simp: shared_inv_def stored_lease_def getLease_def)
  moreover let ?m = "loadWithLock (Saved b1) b'"
  have m: "leaseSeq ?m = leaseSeq b1" "map_of (leases ?m) lid' = Some l'"
    "map_of (taskLeases ?m) (cq_taskId request) = None"
    "map_of (taskStates ?m) (cq_taskId request) = Some (js ''ready'')"
    using b1(2,3,5) assms(12,14) calculation
    by (auto simp: loadWithLock_def map_of_setAll distinct_maps_def map_add_def)
  from claimTask_free [OF m(3,4) assms(15), of checked year] obtain b2 res l2 where
    op: "claimTask checked year now request ?m = (b2, Inr res)" "claimStatus res = Granted"
    and l2: "leases b2 = AList.update (leaseId l2) l2 (leases ?m)"
      "leaseId l2 = leaseIdOf year (Suc (leaseSeq ?m))" "taskId l2 = cq_taskId request"
      "agentId l2 = cq_agentId request" "lease_status l2 = LeaseActive" "expiresAt l2 = expiry"
      "cs_lease res = Some l2"
    by metis
  have claim: "fileClaimTask attempts' checked year now request (state_file s1) b' =
      (Saved b2, b2, Inr res)"
    using op s1 assms(13) by (simp add: fileClaimTask_def saveWithLock_def)
  then have "state_file s2 = Saved b2"
    using assms(11,16) by (simp add: shared_op_def afterOp_def)
  ultimately show ?thesis
    using claim op(2) l2 m(1,2) assms(7,14)
    by (intro exI [of _ l2]) (simp add: stored_lease_def getLease_def file_broker_def update_conv')
qed

text \<open>A lease is released, the task claimed by another agent, and the released lease then
  expired.\<close>

definition reclaim_ops :: "(nat \<times> SharedOp) list" where
  "reclaim_ops = ready_ops @ [claim_op, (0, SharedRelease [True] 1 (leaseIdOf 2026 1)),
     (0, SharedClaim [True] 2 2026 2 (claim_by (js ''b'')))]"

definition second_lease :: Lease where
  "second_lease =
     \<lparr>leaseId = leaseIdOf 2026 2, taskId = task_a, agentId = js ''b'', lease_status = LeaseActive,
      createdAt = 2, expiresAt = 3600002, heartbeatAt = 2, releasedAt = None, ttlMinutes = 60,
      allowedPaths = []\<rparr>"

definition reclaimed_broker :: Broker where
  "reclaimed_broker =
     \<lparr>leases =
        [(leaseIdOf 2026 1, first_lease\<lparr>lease_status := LeaseReleased, releasedAt := Some 1\<rparr>),
         (leaseIdOf 2026 2, second_lease)],
      taskLeases = [(task_a, leaseIdOf 2026 2)], taskStates = [(task_a, js ''claimed'')],
      leaseSeq = 2\<rparr>"

definition reclaimed_store :: SharedLeases where
  "reclaimed_store =
     \<lparr>state_file = Saved reclaimed_broker, brokers = [0 \<mapsto> reclaimed_broker]\<rparr>"

lemmas shared_eval = shared_op_def afterOp_def fileReleaseLease_def fileClaimTask_def
  fileExpireLease_def loadWithLock_def setAll_def saveWithLock_def

lemma released_then_claimed:
  "shared_op (0, SharedRelease [True] 1 (leaseIdOf 2026 1)) claimed_store =
     (let b = \<lparr>leases =
                [(leaseIdOf 2026 1, first_lease\<lparr>lease_status := LeaseReleased, releasedAt := Some 1\<rparr>)],
              taskLeases = [], taskStates = [(task_a, js ''ready'')], leaseSeq = 1\<rparr>
      in \<lparr>state_file = Saved b, brokers = [0 \<mapsto> b]\<rparr>)"
  "shared_op (0, SharedClaim [True] 2 2026 2 (claim_by (js ''b'')))
     (shared_op (0, SharedRelease [True] 1 (leaseIdOf 2026 1)) claimed_store) = reclaimed_store"
  by (simp_all add: shared_eval broker_eval claimed_store_def claimed_broker_def first_lease_def
      second_lease_def reclaimed_broker_def reclaimed_store_def numeral_2_eq_2)

lemma reclaimed_run:
  "without_stale_expiry reclaim_ops no_leases" "shared_run reclaim_ops no_leases = reclaimed_store"
proof -
  have claimed: "shared_op claim_op (shared_run ready_ops no_leases) = claimed_store"
    using claimed_run(2) by (simp add: shared_run_def)
  then show "shared_run reclaim_ops no_leases = reclaimed_store"
    using released_then_claimed(2) by (simp add: reclaim_ops_def shared_run_def)
  show "without_stale_expiry reclaim_ops no_leases"
    by (simp add: reclaim_ops_def ready_ops_def claim_op_def)
qed

theorem stale_expiry_double_claim_witness:
  "\<exists>l2. stored_lease
          (shared_op (0, SharedClaim [True] 3 2026 3 (claim_by (js ''c'')))
            (shared_op (0, SharedExpire [True] (leaseIdOf 2026 1)) reclaimed_store)) (leaseId l2) = Some l2
     \<and> leaseId l2 \<noteq> leaseIdOf 2026 2 \<and> lease_status l2 = LeaseActive \<and> taskId l2 = task_a"
proof -
  let ?old = "first_lease\<lparr>lease_status := LeaseReleased, releasedAt := Some 1\<rparr>"
  let ?s1 = "shared_op (0, SharedExpire [True] (leaseIdOf 2026 1)) reclaimed_store"
  have stored: "stored_lease reclaimed_store (leaseIdOf 2026 1) = Some ?old"
    "stored_lease reclaimed_store (leaseIdOf 2026 2) = Some second_lease"
    by (simp_all add: stored_lease_def getLease_def reclaimed_store_def reclaimed_broker_def
        file_broker_def)
  have "\<exists>b. brokers ?s1 0 = Some b \<and> map_of (taskLeases b) task_a = None"
    by (simp add: shared_eval expireLease_def endLease_def reclaimed_store_def reclaimed_broker_def
        first_lease_def)
  then obtain b where b: "brokers ?s1 0 = Some b" "map_of (taskLeases b) task_a = None" by blast
  show ?thesis
    using stale_expiry_double_claim [OF reclaimed_run(1) reclaimed_run(2) [symmetric] stored(1) _
        stored(2), of 0 reclaimed_broker "[True]" ?s1 0 b "[True]" "claim_by (js ''c'')" 3 3600003 _ 3 2026]
      b
    by (auto simp: first_lease_def second_lease_def reclaimed_store_def claim_by_def js_time_def)
qed


end
