(* ===== verification/PrTypes.thy ===== *)
theory PrTypes
  imports RiskZones
begin

text \<open>
  The data of the pull-request review system (\<open>packages/pr/src/types.ts\<close>): the review states,
  the evidence about a pull request, the gate results, and the report that collects them.
  Pull-request and issue numbers are integers.
\<close>

datatype PRReviewState =
  DISCOVERED | CLASSIFIED | ANALYZED | CHECKS_PENDING | CHECKS_FAILED | NEEDS_HUMAN_APPROVAL
| NEEDS_CODEOWNER_APPROVAL | NEEDS_CHANGES | BLOCKED_BASE_BRANCH | BLOCKED_POLICY
| BLOCKED_SELF_REVIEW | BLOCKED_BLACK_ZONE | BLOCKED_DRAFT | BLOCKED_AUTHORIZATION
| BLOCKED_AUTHOR_IS_SOLE_CODEOWNER | BLOCKED_SINGLE_MAINTAINER | BLOCKED_WORKFLOW_GATE
| BLOCKED_PROFILE_SYNC_GATE | BOT_APPROVAL_IGNORED | HUMAN_APPROVED | READY_TO_MERGE | MERGED

datatype GateStatus = PASS | FAIL | NotApplicable

record GateCriterion =
  gc_name :: jstring
  gc_status :: GateStatus
  gc_detail :: "jstring option"

datatype WorkflowTrustDecision = Untrusted | Trusted | Core

datatype WorkflowArtifactChangeKind = Added | Modified | Deleted | Mixed

record WorkflowTreeEntry =
  te_path :: jstring
  te_mode :: jstring
  te_type :: jstring
  te_sha :: jstring

record WorkflowEvidence =
  we_schema :: jstring
  we_baseSha :: jstring
  we_headSha :: jstring
  evidenceHash :: jstring
  artifactFiles :: "jstring list"
  addedFiles :: "jstring list"
  modifiedFiles :: "jstring list"
  deletedFiles :: "jstring list"
  we_changeKind :: WorkflowArtifactChangeKind

record PRReviewEvidence =
  rv_user :: jstring
  rv_state :: jstring
  rv_body :: "jstring option"
  rv_submittedAt :: "jstring option"
  rv_commitOid :: "jstring option"

record WorkflowGovernanceIssueEvidence =
  gi_issueNumber :: int
  gi_prNumber :: int
  gi_author :: jstring
  gi_body :: jstring

record WorkflowGateResult =
  touchedWorkflowFiles :: bool
  governanceRequired :: bool
  verifiedGovernanceIssue :: "int option"
  wg_overall :: GateStatus
  wg_criteria :: "GateCriterion list"
  wg_artifactFiles :: "jstring list option"
  wg_changeKind :: "WorkflowArtifactChangeKind option"
  wg_evidenceHash :: "jstring option"
  trustDecision :: "WorkflowTrustDecision option"
  trustReviewer :: "jstring option"
  trustReviewCommitOid :: "jstring option"
  trustSource :: "jstring option"
  wg_governanceIssue :: "int option"

record ProfileSyncGateResult =
  touchedProfileSyncFiles :: bool
  ps_overall :: GateStatus
  ps_criteria :: "GateCriterion list"

record CheckRun =
  ck_name :: jstring
  ck_status :: jstring
  ck_conclusion :: "jstring option"

record FilePatch =
  fp_filename :: jstring
  fp_patch :: jstring

text \<open>What several gates return: a decision with its reason and recommendation.\<close>

record Blocker =
  bl_decision :: PRReviewState
  bl_reason :: jstring
  bl_recommendation :: jstring

record PRReviewReport =
  requiredCheckIssue :: "Blocker option"
  pr_merged :: "bool option"
  headRepoFullName :: "jstring option"
  baseRepoFullName :: "jstring option"
  pr_number :: int
  pr_title :: jstring
  pr_author :: jstring
  pr_state :: jstring
  pr_draft :: bool
  baseRef :: jstring
  baseSha :: "jstring option"
  headSha :: "jstring option"
  pr_riskZone :: RiskZone
  changedFiles :: "jstring list"
  filePatches :: "FilePatch list option"
  pr_checks :: "CheckRun list"
  pr_reviews :: "PRReviewEvidence list"
  humanApprovals :: "jstring list"
  pr_decision :: PRReviewState
  pr_reason :: jstring
  pr_recommendation :: jstring
  pr_mergeable :: bool
  pr_body :: "jstring option"
  headRef :: "jstring option"
  workflowEvidence :: "WorkflowEvidence option"
  workflowGovernanceIssue :: "WorkflowGovernanceIssueEvidence option"
  workflowGate :: "WorkflowGateResult option"
  profileSyncGate :: "ProfileSyncGateResult option"

record PRReviewPolicy =
  no_auto_approval :: bool
  no_self_review :: bool
  red_zone_human_required :: bool
  black_zone_never_merge :: bool
  required_base_ref :: jstring
  effective_after_pr :: int
  required_check_contexts :: "(RiskZone \<Rightarrow> jstring list option) option"

text \<open>\<open>{ ...report, decision, reason, recommendation }\<close>\<close>

definition decide :: "PRReviewState \<Rightarrow> jstring \<Rightarrow> jstring \<Rightarrow> PRReviewReport \<Rightarrow> PRReviewReport" where
  "decide d reason recommendation report =
     report\<lparr>pr_decision := d, pr_reason := reason, pr_recommendation := recommendation\<rparr>"

definition block :: "Blocker \<Rightarrow> PRReviewReport \<Rightarrow> PRReviewReport" where
  "block b report = decide (bl_decision b) (bl_reason b) (bl_recommendation b) report"

lemma decide_simps [simp]:
  "pr_decision (decide d r c report) = d" "pr_reason (decide d r c report) = r"
  "pr_recommendation (decide d r c report) = c"
  "pr_riskZone (decide d r c report) = pr_riskZone report"
  "workflowGate (decide d r c report) = workflowGate report"
  by (simp_all add: decide_def)

end
