(* ===== verification/PrGates.thy ===== *)
theory PrGates
  imports PrTypes
begin

text \<open>
  The gates of the pull-request review system that look at the report alone: valid approvals
  (\<open>approvals.ts\<close>), the base branch (\<open>base-policy.ts\<close>), required checks (\<open>required-checks.ts\<close>),
  the classification (\<open>classify.ts\<close>), the CODEOWNERS deadlock (\<open>deadlock.ts\<close>), merge readiness
  (\<open>readiness.ts\<close>) and the author-risk preflight (\<open>author-risk.ts\<close>), all in \<open>packages/pr/src\<close>.
\<close>

section \<open>Approvals\<close>

definition KNOWN_BOTS :: "jstring list" where
  "KNOWN_BOTS = [js ''github-actions'', js ''openslack-bot'', js ''dependabot'', js ''renovate'']"

definition isBotUser :: "jstring \<Rightarrow> bool" where
  "isBotUser user \<longleftrightarrow>
     endsWith user (js ''[bot]'') \<or> startsWith (toLowerCase user) (js ''app/'')
     \<or> toLowerCase user \<in> set KNOWN_BOTS"

text \<open>An optional string that is empty is falsy.\<close>

definition falsy :: "jstring option \<Rightarrow> bool" where
  "falsy s \<longleftrightarrow> s = None \<or> s = Some []"

definition filterValidApprovals ::
  "PRReviewEvidence list \<Rightarrow> jstring \<Rightarrow> jstring option \<Rightarrow> jstring list" where
  "filterValidApprovals reviews author head =
     map rv_user
       (filter (\<lambda>r. falsy head \<or> rv_commitOid r = head)
         (filter (\<lambda>r. \<not> isBotUser (rv_user r))
           (filter (\<lambda>r. toLowerCase (rv_user r) \<noteq> toLowerCase author)
             (filter (\<lambda>r. rv_state r = js ''APPROVED'') reviews))))"

text \<open>\<open>fetchPRDetails\<close> records as human approvals of a report those of the latest reviews that are on
  its head; without a head there are none.\<close>

definition fetchedApprovals ::
  "PRReviewEvidence list \<Rightarrow> jstring \<Rightarrow> jstring option \<Rightarrow> jstring list" where
  "fetchedApprovals latestReviews author head =
     map rv_user
       (filter (\<lambda>r. \<not> falsy head \<and> rv_commitOid r = head)
         (filter (\<lambda>r. \<not> isBotUser (rv_user r))
           (filter (\<lambda>r. toLowerCase (rv_user r) \<noteq> toLowerCase author)
             (filter (\<lambda>r. rv_state r = js ''APPROVED'') latestReviews))))"

lemma fetchedApprovals_head:
  "\<not> falsy head \<Longrightarrow> fetchedApprovals reviews author head = filterValidApprovals reviews author head"
  by (simp add: fetchedApprovals_def filterValidApprovals_def)

lemma fetchedApprovals_no_head: "falsy head \<Longrightarrow> fetchedApprovals reviews author head = []"
  by (simp add: fetchedApprovals_def)

section \<open>The base branch\<close>

definition CANONICAL_PR_BASE_REF :: jstring where
  "CANONICAL_PR_BASE_REF = js ''main''"

definition evaluatePRBasePolicy :: "PRReviewReport \<Rightarrow> Blocker option" where
  "evaluatePRBasePolicy report =
     (if baseRef report = CANONICAL_PR_BASE_REF then None
      else Some
        \<lparr>bl_decision = BLOCKED_BASE_BRANCH,
         bl_reason = js ''PR targets base branch '' @ [34] @ baseRef report @ [34]
           @ js ''; policy requires '' @ [34] @ CANONICAL_PR_BASE_REF @ [34] @ js ''.'',
         bl_recommendation = js ''Run gh pr edit '' @ js_int (pr_number report) @ js '' --base ''
           @ CANONICAL_PR_BASE_REF
           @ js '', then refresh checks and request a new review if required.''\<rparr>)"

section \<open>Required checks\<close>

fun requiredCheck :: "CheckRun list \<Rightarrow> jstring list \<Rightarrow> Blocker option" where
  "requiredCheck checks [] = None"
| "requiredCheck checks (name # names) =
     (case filter (\<lambda>check. ck_name check = name) checks of
        [] \<Rightarrow> Some
          \<lparr>bl_decision = CHECKS_PENDING,
           bl_reason = js ''Required check has no current-head result: '' @ name,
           bl_recommendation = js ''Run the configured required control on this head before merge.''\<rparr>
      | [check] \<Rightarrow>
          if ck_status check \<noteq> js ''completed'' then Some
            \<lparr>bl_decision = CHECKS_PENDING,
             bl_reason = js ''Required check is still running: '' @ name,
             bl_recommendation = js ''Wait for the required control to complete.''\<rparr>
          else if ck_conclusion check \<noteq> Some (js ''success'') then Some
            \<lparr>bl_decision = CHECKS_FAILED,
             bl_reason = js ''Required check did not succeed: '' @ name @ js '' (''
               @ (case ck_conclusion check of None \<Rightarrow> js ''unknown'' | Some c \<Rightarrow> c) @ js '')'',
             bl_recommendation =
               js ''Fix and run the required control; skipped or neutral is not success.''\<rparr>
          else requiredCheck checks names
      | _ \<Rightarrow> Some
          \<lparr>bl_decision = BLOCKED_POLICY,
           bl_reason = js ''Required check context is ambiguous: '' @ name,
           bl_recommendation =
             js ''Resolve duplicate check producers; do not select a convenient result.''\<rparr>)"

definition requiredContexts :: "PRReviewPolicy \<Rightarrow> RiskZone \<Rightarrow> jstring list" where
  "requiredContexts policy z =
     (case required_check_contexts policy of
        None \<Rightarrow> []
      | Some contexts \<Rightarrow> (case contexts z of None \<Rightarrow> [] | Some names \<Rightarrow> names))"

definition requiredCheckBlocker :: "PRReviewReport \<Rightarrow> PRReviewPolicy \<Rightarrow> Blocker option" where
  "requiredCheckBlocker report policy =
     requiredCheck (pr_checks report) (requiredContexts policy (pr_riskZone report))"

section \<open>Classification\<close>

definition classifyPRReport :: "PRReviewReport \<Rightarrow> PRReviewReport" where
  "classifyPRReport report =
     (let z = classifyPaths (changedFiles report)
      in (case z of
            Black \<Rightarrow> decide BLOCKED_BLACK_ZONE
              (js ''Black Zone path detected. This PR touches forbidden paths (secrets, credentials, keys). Merging is prohibited.'')
              (js ''Close this PR immediately and investigate the intent.'')
          | Red \<Rightarrow> decide NEEDS_HUMAN_APPROVAL
              (js ''Red Zone path detected. Governance-critical changes require human code owner approval.'')
              (js ''Wait for CODEOWNERS human review and approval before proceeding.'')
          | Yellow \<Rightarrow> decide ANALYZED
              (js ''Yellow Zone path detected. Product code changes require independent review and passing checks.'')
              (js ''Ensure all required checks pass and at least one independent review exists.'')
          | Green \<Rightarrow> decide ANALYZED
              (js ''Green Zone path detected. Low-risk changes (docs, templates, tasks). Auto-merge eligible if checks pass.'')
              (js ''If all checks pass, this PR may be merged without additional human approval.''))
         (report\<lparr>pr_riskZone := z\<rparr>))"

section \<open>CODEOWNERS deadlock\<close>

datatype DeadlockType = AUTHOR_IS_SOLE_CODEOWNER | SINGLE_MAINTAINER

record DeadlockResult =
  deadlocked :: bool
  dl_reason :: jstring
  dl_recommendation :: jstring
  dl_type :: "DeadlockType option"

definition at_sign :: "jstring \<Rightarrow> jstring" where
  "at_sign user = [64] @ user"

text \<open>\<open>validApprovers\<close> is not consulted, as the source says.\<close>

definition detectDeadlock :: "jstring \<Rightarrow> jstring list \<Rightarrow> jstring list \<Rightarrow> DeadlockResult" where
  "detectDeadlock author codeowners validApprovers =
     (let authorAsOwner = at_sign author;
          authorIsCodeowner = authorAsOwner \<in> set codeowners;
          otherCodeowners = filter (\<lambda>owner. owner \<noteq> authorAsOwner) codeowners
      in if authorIsCodeowner \<and> otherCodeowners = [] \<and> codeowners \<noteq> [] then
           \<lparr>deadlocked = True,
            dl_reason = js ''PR author @'' @ author
              @ js '' is the only CODEOWNER for changed paths. GitHub does not allow authors to satisfy their own approval requirement.'',
            dl_recommendation =
              js ''Recreate this Red Zone change as a bot/agent-authored PR, then request human CODEOWNER approval from @''
              @ author @ js ''. Do not use bot approval.'',
            dl_type = Some AUTHOR_IS_SOLE_CODEOWNER\<rparr>
         else if length codeowners = 1 \<and> authorIsCodeowner then
           \<lparr>deadlocked = True,
            dl_reason = js ''Single maintainer deadlock: @'' @ author
              @ js '' is the only CODEOWNER in this repository.'',
            dl_recommendation =
              js ''Use a bot/agent-authored Red Zone PR with human CODEOWNER approval, or add a second human CODEOWNER. Do not use bot approval.'',
            dl_type = Some SINGLE_MAINTAINER\<rparr>
         else \<lparr>deadlocked = False, dl_reason = [], dl_recommendation = [], dl_type = None\<rparr>)"

section \<open>Checks of the current head\<close>

definition failingCheck :: "CheckRun \<Rightarrow> bool" where
  "failingCheck c \<longleftrightarrow>
     \<not> falsy (ck_conclusion c) \<and> ck_conclusion c \<noteq> Some (js ''success'')
     \<and> ck_conclusion c \<noteq> Some (js ''neutral'') \<and> ck_conclusion c \<noteq> Some (js ''skipped'')"

definition pendingCheck :: "CheckRun \<Rightarrow> bool" where
  "pendingCheck c \<longleftrightarrow> ck_status c \<noteq> js ''completed''"

text \<open>The two blockers computed from the checks, pending before failing, in both gates.\<close>

definition checksBlocker :: "CheckRun list \<Rightarrow> Blocker option" where
  "checksBlocker checks =
     (if filter pendingCheck checks \<noteq> [] then Some
        \<lparr>bl_decision = CHECKS_PENDING,
         bl_reason = js ''Checks still running: ''
           @ js_join (js '', '') (map ck_name (filter pendingCheck checks)),
         bl_recommendation = js ''Wait for all checks to complete before evaluating merge readiness.''\<rparr>
      else if filter failingCheck checks \<noteq> [] then Some
        \<lparr>bl_decision = CHECKS_FAILED,
         bl_reason = js ''Failing checks: ''
           @ js_join (js '', '') (map ck_name (filter failingCheck checks)),
         bl_recommendation = js ''Fix failing checks before merge.''\<rparr>
      else None)"

section \<open>Merge readiness\<close>

definition checkMergeReadiness :: "PRReviewReport \<Rightarrow> PRReviewPolicy \<Rightarrow> PRReviewReport" where
  "checkMergeReadiness report0 policy =
     (let report = report0\<lparr>requiredCheckIssue := None\<rparr>
      in case evaluatePRBasePolicy report of
           Some violation \<Rightarrow> block violation report
         | None \<Rightarrow>
      if black_zone_never_merge policy \<and> pr_riskZone report = Black then
        decide BLOCKED_BLACK_ZONE (js ''Policy: Black Zone PRs are never mergeable.'')
          (js ''Close PR. Black Zone changes are prohibited.'') report
      else (case checksBlocker (pr_checks report) of
           Some blocker \<Rightarrow> block blocker report
         | None \<Rightarrow>
      (case requiredCheckBlocker report policy of
           Some blocker \<Rightarrow> block blocker (report\<lparr>requiredCheckIssue := Some blocker\<rparr>)
         | None \<Rightarrow>
      if red_zone_human_required policy \<and> pr_riskZone report = Red \<and> humanApprovals report = [] then
        decide NEEDS_HUMAN_APPROVAL
          (js ''Red Zone requires independent human approval. No approving review found.'')
          (js ''Request an authorized human review and wait for approval.'') report
      else
        (let approved =
               (if red_zone_human_required policy \<and> pr_riskZone report = Red then
                  decide HUMAN_APPROVED
                    (js ''Red Zone approved by: '' @ js_join (js '', '') (humanApprovals report))
                    (js ''Human approval satisfied. Ready to merge if no other blocks.'') report
                else report)
         in if pr_riskZone report = Green then
              decide READY_TO_MERGE
                (js ''Green Zone. All checks passed. No human approval required.'')
                (js ''Safe to merge.'') approved
            else if pr_riskZone report = Yellow then
              decide READY_TO_MERGE
                (js ''Yellow Zone. All checks passed. Independent review recommended but not gated for MVP.'')
                (js ''Proceed with merge if independent review exists.'') approved
            else if pr_riskZone report = Red \<and> humanApprovals report \<noteq> [] then
              decide READY_TO_MERGE
                (js ''Red Zone. Human approval satisfied. All checks passed.'')
                (js ''Ready to merge.'') approved
            else approved))))"

section \<open>Author-risk preflight\<close>

datatype PRAuthorRiskStatus = Safe | RedZoneSoleCodeownerDeadlock | NeedsHumanCodeowner

record PRAuthorRiskInput =
  ar_author :: "jstring option"
  ar_changedPaths :: "jstring list"
  ar_codeowners :: "jstring list"
  authorIsBot :: bool

record PRAuthorRiskPreflight =
  pf_status :: PRAuthorRiskStatus
  pf_riskZone :: RiskZone
  pf_author :: "jstring option"
  pf_codeowners :: "jstring list"
  pf_reason :: jstring
  pf_recommendation :: jstring

definition normalizeLogin :: "jstring \<Rightarrow> jstring" where
  "normalizeLogin login =
     (if startsWith login (js ''@'') then toLowerCase (drop 1 login) else toLowerCase login)"

definition uniqueOwners :: "jstring list \<Rightarrow> jstring list" where
  "uniqueOwners codeowners = sort (js_set codeowners)"

primrec zone_upper :: "RiskZone \<Rightarrow> jstring" where
  "zone_upper Green = js ''GREEN''"
| "zone_upper Yellow = js ''YELLOW''"
| "zone_upper Red = js ''RED''"
| "zone_upper Black = js ''BLACK''"

definition assessPRAuthorRisk :: "PRAuthorRiskInput \<Rightarrow> PRAuthorRiskPreflight" where
  "assessPRAuthorRisk input =
     (let z = classifyPaths (ar_changedPaths input);
          codeowners = uniqueOwners (ar_codeowners input);
          author = (if falsy (ar_author input) then None
                    else map_option normalizeLogin (ar_author input));
          result = (\<lambda>status who reason recommendation.
            \<lparr>pf_status = status, pf_riskZone = z, pf_author = who, pf_codeowners = codeowners,
             pf_reason = reason, pf_recommendation = recommendation\<rparr>)
      in if z \<noteq> Red then
           result Safe author
             (zone_upper z @ js '' Zone changes do not trigger CODEOWNER author deadlock preflight.'')
             (js ''Proceed through normal PRMS gates.'')
         else if codeowners = [] then
           result NeedsHumanCodeowner author
             (js ''Red Zone paths require human CODEOWNER approval, but no CODEOWNER matched the changed paths.'')
             (js ''Add a human CODEOWNER for the touched Red Zone paths before creating the PR.'')
         else if authorIsBot input then
           result Safe author
             (js ''Red Zone PR is bot/agent-authored; a separate human CODEOWNER can approve on GitHub.'')
             (js ''Request GitHub approval from human CODEOWNER(s): ''
               @ js_join (js '', '') codeowners @ js ''.'')
         else (case author of
           None \<Rightarrow>
             result Safe None
               (js ''Author identity is unknown; PRMS will re-check deadlock after the PR exists.'')
               (js ''Create the PR with bot/agent credentials when touching Red Zone paths.'')
         | Some who \<Rightarrow>
             if who = [] then
               result Safe None
                 (js ''Author identity is unknown; PRMS will re-check deadlock after the PR exists.'')
                 (js ''Create the PR with bot/agent credentials when touching Red Zone paths.'')
             else
             (let otherOwners = filter (\<lambda>owner. normalizeLogin owner \<noteq> who) codeowners
              in if list_ex (\<lambda>owner. toLowerCase owner = at_sign who) codeowners \<and> otherOwners = []
                 then result RedZoneSoleCodeownerDeadlock author
                   (js ''PR author @'' @ who @ js '' is the only CODEOWNER for touched Red Zone paths.'')
                   (js ''Recreate as a bot/agent-authored PR, then request human CODEOWNER approval from @''
                     @ who @ js ''.'')
                 else result Safe author
                   (js ''Red Zone PR has a non-author human CODEOWNER path available.'')
                   (js ''Request GitHub approval from human CODEOWNER(s): ''
                     @ js_join (js '', '') otherOwners @ js ''.''))))"

end
