(* ===== verification/Regex.thy ===== *)
theory Regex
  imports Prelude
begin

text \<open>
  The regular expressions the sources test strings against: their language, and a matcher by
  derivatives that computes it. A character class is its membership test, so a
  case-insensitive or negated class of the sources is written as it is read.
\<close>

section \<open>Expressions and their language\<close>

datatype rx =
  RNone
| REmpty
| RClass "jchar \<Rightarrow> bool"
| RSeq rx rx
| RAlt rx rx
| RStar rx

inductive rx_matches :: "rx \<Rightarrow> jstring \<Rightarrow> bool" where
  rx_empty: "rx_matches REmpty []"
| rx_class: "p c \<Longrightarrow> rx_matches (RClass p) [c]"
| rx_seq: "rx_matches r s \<Longrightarrow> rx_matches q t \<Longrightarrow> rx_matches (RSeq r q) (s @ t)"
| rx_alt_left: "rx_matches r s \<Longrightarrow> rx_matches (RAlt r q) s"
| rx_alt_right: "rx_matches q s \<Longrightarrow> rx_matches (RAlt r q) s"
| rx_star_nil: "rx_matches (RStar r) []"
| rx_star_more: "rx_matches r s \<Longrightarrow> rx_matches (RStar r) t \<Longrightarrow> rx_matches (RStar r) (s @ t)"

inductive_simps rx_none_iff [simp]: "rx_matches RNone s"
inductive_simps rx_empty_iff [simp]: "rx_matches REmpty s"
inductive_simps rx_class_iff [simp]: "rx_matches (RClass p) s"
inductive_simps rx_alt_iff [simp]: "rx_matches (RAlt r q) s"

inductive_simps rx_seq_iff: "rx_matches (RSeq r q) s"

lemma rx_class_seq [simp]:
  "rx_matches (RSeq (RClass p) q) s \<longleftrightarrow> (\<exists>c t. s = c # t \<and> p c \<and> rx_matches q t)"
  unfolding rx_seq_iff rx_class_iff by (metis append_Cons append_Nil)

definition RChar :: "jchar \<Rightarrow> rx" where
  "RChar c = RClass (\<lambda>d. d = c)"

definition ROpt :: "rx \<Rightarrow> rx" where
  "ROpt r = RAlt r REmpty"

definition RPlus :: "rx \<Rightarrow> rx" where
  "RPlus r = RSeq r (RStar r)"

fun RString :: "jstring \<Rightarrow> rx" where
  "RString [] = REmpty"
| "RString (c # cs) = RSeq (RChar c) (RString cs)"

text \<open>Letters without regard to ASCII case, as with the flag \<open>i\<close>.\<close>

fun RStringCI :: "jstring \<Rightarrow> rx" where
  "RStringCI [] = REmpty"
| "RStringCI (c # cs) = RSeq (RClass (\<lambda>d. lower_char d = lower_char c)) (RStringCI cs)"

text \<open>\<open>\d\<close>; \<open>\s\<close>; and \<open>.\<close>, which excludes the line terminators.\<close>

definition is_digit :: "jchar \<Rightarrow> bool" where
  "is_digit c \<longleftrightarrow> 48 \<le> c \<and> c \<le> 57"

definition is_space :: "jchar \<Rightarrow> bool" where
  "is_space c \<longleftrightarrow> c \<in> {9, 10, 11, 12, 13, 32, 160, 5760, 8232, 8233, 8239, 8287, 12288, 65279}
     \<or> (8192 \<le> c \<and> c \<le> 8202)"

definition not_newline :: "jchar \<Rightarrow> bool" where
  "not_newline c \<longleftrightarrow> c \<notin> {10, 13, 8232, 8233}"

definition RAny :: rx where
  "RAny = RStar (RClass (\<lambda>_. True))"

section \<open>Matching by derivatives\<close>

primrec nullable :: "rx \<Rightarrow> bool" where
  "nullable RNone = False"
| "nullable REmpty = True"
| "nullable (RClass p) = False"
| "nullable (RSeq r q) = (nullable r \<and> nullable q)"
| "nullable (RAlt r q) = (nullable r \<or> nullable q)"
| "nullable (RStar r) = True"

primrec deriv :: "jchar \<Rightarrow> rx \<Rightarrow> rx" where
  "deriv c RNone = RNone"
| "deriv c REmpty = RNone"
| "deriv c (RClass p) = (if p c then REmpty else RNone)"
| "deriv c (RSeq r q) =
     (if nullable r then RAlt (RSeq (deriv c r) q) (deriv c q) else RSeq (deriv c r) q)"
| "deriv c (RAlt r q) = RAlt (deriv c r) (deriv c q)"
| "deriv c (RStar r) = RSeq (deriv c r) (RStar r)"

definition rx_test :: "rx \<Rightarrow> jstring \<Rightarrow> bool" where
  "rx_test r s = nullable (fold deriv s r)"

text \<open>\<open>/r/.test(s)\<close> without anchors: some part of the string matches.\<close>

definition rx_search :: "rx \<Rightarrow> jstring \<Rightarrow> bool" where
  "rx_search r s = rx_test (RSeq RAny (RSeq r RAny)) s"

lemma nullable_matches: "nullable r \<longleftrightarrow> rx_matches r []"
  by (induction r) (auto simp: rx_seq_iff intro: rx_star_nil)

lemma star_Cons:
  "rx_matches (RStar r) (c # s) \<longleftrightarrow>
     (\<exists>u v. s = u @ v \<and> rx_matches r (c # u) \<and> rx_matches (RStar r) v)"
proof
  assume "rx_matches (RStar r) (c # s)"
  then show "\<exists>u v. s = u @ v \<and> rx_matches r (c # u) \<and> rx_matches (RStar r) v"
  proof (induction "RStar r" "c # s" arbitrary: s rule: rx_matches.induct)
    case (rx_star_more u t)
    then show ?case by (cases u) auto
  qed
next
  assume "\<exists>u v. s = u @ v \<and> rx_matches r (c # u) \<and> rx_matches (RStar r) v"
  then show "rx_matches (RStar r) (c # s)"
    using rx_star_more [of r] by (metis append_Cons)
qed

lemma seq_Cons:
  "rx_matches (RSeq r q) (c # s) \<longleftrightarrow>
     (\<exists>u v. s = u @ v \<and> rx_matches r (c # u) \<and> rx_matches q v)
     \<or> (rx_matches r [] \<and> rx_matches q (c # s))"
  by (auto simp: rx_seq_iff Cons_eq_append_conv)

lemma deriv_matches: "rx_matches (deriv c r) s \<longleftrightarrow> rx_matches r (c # s)"
proof (induction r arbitrary: s)
  case (RSeq r q)
  then show ?case unfolding seq_Cons by (auto simp: rx_seq_iff nullable_matches)
next
  case (RStar r)
  then show ?case unfolding star_Cons by (auto simp: rx_seq_iff)
qed auto

lemma rx_test_matches [simp]: "rx_test r s \<longleftrightarrow> rx_matches r s"
  unfolding rx_test_def
proof (induction s arbitrary: r)
  case (Cons c s)
  then show ?case by (simp add: deriv_matches)
qed (simp add: nullable_matches)

lemma RAny_matches [simp]: "rx_matches RAny s"
  unfolding RAny_def
proof (induction s)
  case (Cons c s)
  then show ?case using rx_star_more [of "RClass (\<lambda>_. True)" "[c]" s] by simp
qed (rule rx_star_nil)

lemma rx_search_matches: "rx_search r s \<longleftrightarrow> (\<exists>u m v. s = u @ m @ v \<and> rx_matches r m)"
  unfolding rx_search_def rx_test_matches rx_seq_iff by auto

lemma RChar_matches [simp]: "rx_matches (RChar c) s \<longleftrightarrow> s = [c]"
  by (auto simp: RChar_def)

lemma ROpt_matches [simp]: "rx_matches (ROpt r) s \<longleftrightarrow> s = [] \<or> rx_matches r s"
  by (auto simp: ROpt_def)

lemma RString_matches [simp]: "rx_matches (RString p) s \<longleftrightarrow> s = p"
  by (induction p arbitrary: s) (auto simp: rx_seq_iff)

lemma RStringCI_matches [simp]: "rx_matches (RStringCI p) s \<longleftrightarrow> toLowerCase s = toLowerCase p"
proof (induction p arbitrary: s)
  case (Cons c p)
  show ?case
    by (cases s) (auto simp: toLowerCase_def Cons [unfolded toLowerCase_def])
qed (auto simp: toLowerCase_def)

text \<open>The strings of a class repeated.\<close>

lemma RStar_class_matches [simp]: "rx_matches (RStar (RClass p)) s \<longleftrightarrow> (\<forall>c \<in> set s. p c)"
proof (induction s)
  case (Cons c s)
  then show ?case by (auto simp: star_Cons)
qed (simp add: rx_star_nil)

lemma RPlus_class_matches [simp]:
  "rx_matches (RPlus (RClass p)) s \<longleftrightarrow> s \<noteq> [] \<and> (\<forall>c \<in> set s. p c)"
  by (cases s) (auto simp: RPlus_def)

end
