(* ===== verification/JsText.thy ===== *)
theory JsText
  imports Regex
begin

text \<open>
  The text functions of the language the sources use on bodies and patches: splitting into
  lines, trimming, the first match of an anchored pattern, numbers in decimal, and the values
  of parsed documents.
\<close>

section \<open>Lines\<close>

fun js_split :: "jchar \<Rightarrow> jstring \<Rightarrow> jstring list" where
  "js_split sep [] = [[]]"
| "js_split sep (c # cs) =
     (if c = sep then [] # js_split sep cs
      else (case js_split sep cs of [] \<Rightarrow> [[c]] | part # parts \<Rightarrow> (c # part) # parts))"

definition trim :: "jstring \<Rightarrow> jstring" where
  "trim s = rev (dropWhile is_space (rev (dropWhile is_space s)))"

text \<open>\<open>split(/\r?\n/)\<close>: the carriage return before a newline is part of the separator.\<close>

definition strip_cr :: "jstring \<Rightarrow> jstring" where
  "strip_cr l = (if l \<noteq> [] \<and> last l = 13 then butlast l else l)"

definition split_lines :: "jstring \<Rightarrow> jstring list" where
  "split_lines s = (let ls = js_split 10 s in map strip_cr (butlast ls) @ [last ls])"

section \<open>First matches\<close>

text \<open>
  The leftmost match of a regular expression whose match at a position is computed by \<open>here\<close>
  (greedy and without ambiguity), as \<open>String.match\<close> finds it.
\<close>

fun first_match :: "(jstring \<Rightarrow> 'a option) \<Rightarrow> jstring \<Rightarrow> 'a option" where
  "first_match here [] = here []"
| "first_match here (c # cs) =
     (case here (c # cs) of Some r \<Rightarrow> Some r | None \<Rightarrow> first_match here cs)"

text \<open>A literal at the start, and the same without regard to case.\<close>

definition after_literal :: "jstring \<Rightarrow> jstring \<Rightarrow> jstring option" where
  "after_literal p s = (if startsWith s p then Some (drop (length p) s) else None)"

definition after_literal_ci :: "jstring \<Rightarrow> jstring \<Rightarrow> jstring option" where
  "after_literal_ci p s =
     (if startsWith (toLowerCase s) (toLowerCase p) then Some (drop (length p) s) else None)"

definition after_spaces :: "jstring \<Rightarrow> jstring" where
  "after_spaces s = dropWhile is_space s"

text \<open>\<open>\s+\<close>, \<open>(\S+)\<close> and \<open>(\d+)\<close> at the start.\<close>

definition after_some_spaces :: "jstring \<Rightarrow> jstring option" where
  "after_some_spaces s = (if s \<noteq> [] \<and> is_space (hd s) then Some (after_spaces s) else None)"

definition take_word :: "jstring \<Rightarrow> jstring option" where
  "take_word s = (let w = takeWhile (\<lambda>c. \<not> is_space c) s in if w = [] then None else Some w)"

definition take_digits :: "jstring \<Rightarrow> nat option" where
  "take_digits s =
     (let w = takeWhile is_digit s
      in if w = [] then None else Some (foldl (\<lambda>n c. 10 * n + (unat c - 48)) 0 w))"

lemma first_match_Some: "first_match here s = Some r \<Longrightarrow> \<exists>u v. s = u @ v \<and> here v = Some r"
proof (induction s)
  case (Cons c s)
  show ?case
  proof (cases "here (c # s)")
    case None
    with Cons obtain u v where "s = u @ v" "here v = Some r" by auto
    then have "c # s = (c # u) @ v \<and> here v = Some r" by simp
    then show ?thesis by blast
  next
    case (Some r')
    with Cons.prems have "c # s = [] @ (c # s) \<and> here (c # s) = Some r" by simp
    then show ?thesis by blast
  qed
qed auto

section \<open>Numbers and encodings\<close>

text \<open>\<open>Number.isSafeInteger\<close>, and \<open>Buffer.byteLength\<close> of a text in UTF-8.\<close>

definition isSafeInteger :: "rat \<Rightarrow> bool" where
  "isSafeInteger x \<longleftrightarrow> of_int \<lfloor>x\<rfloor> = x \<and> \<bar>x\<bar> \<le> 9007199254740991"

fun utf8_length :: "jstring \<Rightarrow> nat" where
  "utf8_length [] = 0"
| "utf8_length (c # cs) =
     (if c < 0x80 then 1 + utf8_length cs
      else if c < 0x800 then 2 + utf8_length cs
      else if 0xD800 \<le> c \<and> c < 0xDC00 then
        (case cs of
           d # ds \<Rightarrow> if 0xDC00 \<le> d \<and> d < 0xE000 then 4 + utf8_length ds else 3 + utf8_length cs
         | [] \<Rightarrow> 3)
      else 3 + utf8_length cs)"

section \<open>Values of parsed documents\<close>

datatype js_value =
  JNull
| JBool bool
| JNumber rat
| JText jstring
| JArray "js_value list"
| JObject "(jstring \<times> js_value) list"

definition js_field :: "js_value \<Rightarrow> jstring \<Rightarrow> js_value option" where
  "js_field v k = (case v of JObject fields \<Rightarrow> map_of fields k | _ \<Rightarrow> None)"

lemma js_split_append:
  "sep \<notin> set l \<Longrightarrow> js_split sep (l @ sep # rest) = l # js_split sep rest"
  by (induction l) auto

lemma js_split_single: "sep \<notin> set l \<Longrightarrow> js_split sep l = [l]"
  by (induction l) auto

lemma js_split_join:
  "ls \<noteq> [] \<Longrightarrow> (\<And>l. l \<in> set ls \<Longrightarrow> sep \<notin> set l) \<Longrightarrow> js_split sep (js_join [sep] ls) = ls"
  by (induction ls rule: induct_list012) (simp_all add: js_split_append js_split_single)

end
