(* ===== verification/WorkflowGate.thy ===== *)
theory WorkflowGate
  imports PrGates JsText "HOL-Library.AList"
begin

text \<open>
  The governance gate for workflow artifacts (\<open>packages/pr/src/workflow-gate.ts\<close>): which paths
  are artifacts, the evidence computed from the base and head trees, the trust markers of the
  reviews, the governance issue and the gate itself.

  The hash (\<open>node:crypto\<close>) and the YAML parser are arguments: \<open>sha256\<close> gives the hexadecimal
  digest of a text, \<open>parse_yaml\<close> the value of a document or nothing where the parser throws or
  reports errors.
\<close>

section \<open>Artifacts\<close>

definition WORKFLOW_ARTIFACT_ROOTS :: "jstring list" where
  "WORKFLOW_ARTIFACT_ROOTS =
     [js ''.openslack/workflows/'', js ''.claude/workflows/'', js ''templates/workflows/'',
      js ''packages/workflows/src/builtins/'']"

definition CORE_WORKFLOW_ARTIFACTS :: "jstring list" where
  "CORE_WORKFLOW_ARTIFACTS =
     [js ''packages/workflows/src/workflow-catalog.ts'',
      js ''packages/workflows/src/pattern-registry.ts'']"

text \<open>Backslashes (92) become slashes, and one leading \<open>./\<close> is dropped.\<close>

definition normalizePath :: "jstring \<Rightarrow> jstring" where
  "normalizePath path =
     (let p = map (\<lambda>c. if c = 92 then slash else c) path
      in if startsWith p (js ''./'') then drop 2 p else p)"

definition isWorkflowArtifactPath :: "jstring \<Rightarrow> bool" where
  "isWorkflowArtifactPath path \<longleftrightarrow>
     list_ex (\<lambda>root. startsWith (normalizePath path) root) WORKFLOW_ARTIFACT_ROOTS
     \<or> normalizePath path \<in> set CORE_WORKFLOW_ARTIFACTS"

definition isCoreWorkflowArtifactPath :: "jstring \<Rightarrow> bool" where
  "isCoreWorkflowArtifactPath path \<longleftrightarrow>
     startsWith (normalizePath path) (js ''packages/workflows/src/builtins/'')
     \<or> normalizePath path \<in> set CORE_WORKFLOW_ARTIFACTS"

definition touchesWorkflowFiles :: "jstring list \<Rightarrow> bool" where
  "touchesWorkflowFiles files \<longleftrightarrow> list_ex isWorkflowArtifactPath files"

section \<open>Evidence\<close>

text \<open>\<open>comparePaths\<close> orders by code units, as the order on lists does; the sort is stable.\<close>

definition normalizeTree :: "WorkflowTreeEntry list \<Rightarrow> WorkflowTreeEntry list" where
  "normalizeTree entries =
     sort_key te_path
       (filter (\<lambda>e. te_type e \<noteq> js ''tree'' \<and> isWorkflowArtifactPath (te_path e))
         (map (\<lambda>e. e\<lparr>te_path := normalizePath (te_path e)\<rparr>) entries))"

definition renderTree :: "WorkflowTreeEntry list \<Rightarrow> jstring" where
  "renderTree entries =
     js_join [10] (map (\<lambda>e. te_path e @ [0] @ te_mode e @ [0] @ te_type e @ [0] @ te_sha e) entries)"

definition changeKind ::
  "jstring list \<Rightarrow> jstring list \<Rightarrow> jstring list \<Rightarrow> WorkflowArtifactChangeKind" where
  "changeKind added modified deleted =
     (if length (filter (\<lambda>files. files \<noteq> []) [added, modified, deleted]) > 1 then Mixed
      else if added \<noteq> [] then Added
      else if deleted \<noteq> [] then Deleted
      else Modified)"

text \<open>\<open>new Map(tree.map(entry => [entry.path, entry]))\<close>\<close>

definition treeMap :: "WorkflowTreeEntry list \<Rightarrow> (jstring \<times> WorkflowTreeEntry) list" where
  "treeMap entries = fold (\<lambda>e. AList.update (te_path e) e) entries []"

definition WORKFLOW_EVIDENCE_SCHEMA :: jstring where
  "WORKFLOW_EVIDENCE_SCHEMA = js ''openslack.workflow-evidence.v1''"

definition entryChanged :: "WorkflowTreeEntry \<Rightarrow> WorkflowTreeEntry \<Rightarrow> bool" where
  "entryChanged base head \<longleftrightarrow>
     te_sha base \<noteq> te_sha head \<or> te_mode base \<noteq> te_mode head \<or> te_type base \<noteq> te_type head"

definition addedPaths :: "(jstring \<times> WorkflowTreeEntry) list \<Rightarrow> (jstring \<times> WorkflowTreeEntry) list \<Rightarrow> jstring list"
where
  "addedPaths baseByPath headByPath =
     map fst (filter (\<lambda>(p, h). map_of baseByPath p = None) headByPath)"

definition modifiedPaths :: "(jstring \<times> WorkflowTreeEntry) list \<Rightarrow> (jstring \<times> WorkflowTreeEntry) list \<Rightarrow> jstring list"
where
  "modifiedPaths baseByPath headByPath =
     map fst (filter (\<lambda>(p, h). case map_of baseByPath p of None \<Rightarrow> False | Some b \<Rightarrow> entryChanged b h)
       headByPath)"

definition deletedPaths :: "(jstring \<times> WorkflowTreeEntry) list \<Rightarrow> (jstring \<times> WorkflowTreeEntry) list \<Rightarrow> jstring list"
where
  "deletedPaths baseByPath headByPath =
     filter (\<lambda>p. map_of headByPath p = None) (map fst baseByPath)"

text \<open>\<open>None\<close> is \<open>NoWorkflowArtifactChangeError\<close>.\<close>

definition createWorkflowEvidence ::
  "(jstring \<Rightarrow> jstring) \<Rightarrow> jstring \<Rightarrow> jstring \<Rightarrow> WorkflowTreeEntry list \<Rightarrow> WorkflowTreeEntry list \<Rightarrow>
     WorkflowEvidence option" where
  "createWorkflowEvidence sha256 base_sha head_sha base_entries head_entries =
     (let baseTree = normalizeTree base_entries;
          headTree = normalizeTree head_entries;
          baseByPath = treeMap baseTree;
          headByPath = treeMap headTree;
          added = sort (addedPaths baseByPath headByPath);
          modified = sort (modifiedPaths baseByPath headByPath);
          deleted = sort (deletedPaths baseByPath headByPath);
          files = sort (added @ modified @ deleted)
      in if files = [] then None
         else Some
           \<lparr>we_schema = WORKFLOW_EVIDENCE_SCHEMA, we_baseSha = base_sha, we_headSha = head_sha,
            evidenceHash = js ''sha256:'' @ sha256 (js_join [10]
              [WORKFLOW_EVIDENCE_SCHEMA, js ''base:'' @ base_sha, renderTree baseTree,
               js ''head:'' @ head_sha, renderTree headTree]),
            artifactFiles = files, addedFiles = added, modifiedFiles = modified,
            deletedFiles = deleted, we_changeKind = changeKind added modified deleted\<rparr>)"

section \<open>Trust markers\<close>

datatype ParsedTrustMarker = NoMarker | MarkerDecision WorkflowTrustDecision | MarkerError jstring

definition rx_spaces :: rx where
  "rx_spaces = RStar (RClass is_space)"

definition rx_marker_prefix :: rx where
  "rx_marker_prefix = RSeq (RStringCI (js ''workflow-trust'')) (RSeq rx_spaces (RChar 58))"

primrec trust_name :: "WorkflowTrustDecision \<Rightarrow> jstring" where
  "trust_name Untrusted = js ''untrusted''"
| "trust_name Trusted = js ''trusted''"
| "trust_name Core = js ''core''"

definition rx_marker :: "WorkflowTrustDecision \<Rightarrow> rx" where
  "rx_marker d = RSeq rx_marker_prefix (RSeq rx_spaces (RStringCI (trust_name d)))"

definition parseTrustMarker :: "jstring \<Rightarrow> ParsedTrustMarker" where
  "parseTrustMarker body =
     (case filter (rx_test (RSeq rx_marker_prefix RAny)) (map trim (split_lines body)) of
        [] \<Rightarrow> NoMarker
      | [line] \<Rightarrow>
          (case find (\<lambda>d. rx_test (rx_marker d) line) [Untrusted, Trusted, Core] of
             None \<Rightarrow> MarkerError (js ''Workflow-Trust must be untrusted, trusted, or core.'')
           | Some d \<Rightarrow> MarkerDecision d)
      | _ \<Rightarrow> MarkerError (js ''Review must contain exactly one Workflow-Trust marker.''))"

definition normalizeOwner :: "jstring \<Rightarrow> jstring" where
  "normalizeOwner owner =
     toLowerCase (if startsWith owner (js ''@'') then drop 1 owner else owner)"

section \<open>The governance issue\<close>

text \<open>\<open>/workflow\s+governance\s+#(\d+)/i\<close>\<close>

definition governance_here :: "jstring \<Rightarrow> nat option" where
  "governance_here s =
     Option.bind (after_literal_ci (js ''workflow'') s) (\<lambda>s1.
     Option.bind (after_some_spaces s1) (\<lambda>s2.
     Option.bind (after_literal_ci (js ''governance'') s2) (\<lambda>s3.
     Option.bind (after_some_spaces s3) (\<lambda>s4.
     Option.bind (after_literal (js ''#'') s4) take_digits))))"

definition governanceIssueNumber :: "jstring \<Rightarrow> int option" where
  "governanceIssueNumber body = map_option int (first_match governance_here body)"

text \<open>
  \<open>/^```openslack-workflow-governance\r?\n([\s\S]*?)^```[ \t]*\r?$/gm\<close>: at the start of a line
  the opening fence and a newline, then the shortest text up to a closing fence that has a
  line of its own. \<open>block_end\<close> gives the text and what follows the fence.
\<close>

definition line_terminator :: "jchar \<Rightarrow> bool" where
  "line_terminator c \<longleftrightarrow> \<not> not_newline c"

definition fence_close :: "jstring \<Rightarrow> jstring option" where
  "fence_close s =
     Option.bind (after_literal (js ''```'') s) (\<lambda>r.
       let r1 = dropWhile (\<lambda>c. c = 32 \<or> c = 9) r
       in if r1 = [] \<or> line_terminator (hd r1)
          then Some (if startsWith r1 [13] \<and> (tl r1 = [] \<or> line_terminator (hd (tl r1))) then tl r1
                     else r1)
          else None)"

fun block_end :: "bool \<Rightarrow> jstring \<Rightarrow> (jstring \<times> jstring) option" where
  "block_end at_start s =
     (case (if at_start then fence_close s else None) of
        Some rest \<Rightarrow> Some ([], rest)
      | None \<Rightarrow>
          (case s of
             [] \<Rightarrow> None
           | c # cs \<Rightarrow>
               map_option (\<lambda>(content, rest). (c # content, rest)) (block_end (line_terminator c) cs)))"

declare block_end.simps [simp del]

definition block_here :: "jstring \<Rightarrow> (jstring \<times> jstring) option" where
  "block_here s =
     Option.bind (after_literal (js ''```openslack-workflow-governance'') s) (\<lambda>r.
     Option.bind (after_literal [10] (if startsWith r [13, 10] then tl r else r)) (block_end True))"

text \<open>\<open>[...body.matchAll(...)]\<close>; the fuel is the length of the text, each step consumes some.\<close>

fun match_blocks :: "nat \<Rightarrow> bool \<Rightarrow> jstring \<Rightarrow> jstring list" where
  "match_blocks 0 at_start s = []"
| "match_blocks (Suc fuel) at_start s =
     (case (if at_start then block_here s else None) of
        Some (content, rest) \<Rightarrow> content # match_blocks fuel False rest
      | None \<Rightarrow>
          (case s of [] \<Rightarrow> [] | c # cs \<Rightarrow> match_blocks fuel (line_terminator c) cs))"

definition governanceBlocks :: "jstring \<Rightarrow> jstring list" where
  "governanceBlocks body = match_blocks (Suc (length body)) True body"

definition safe_positive :: "int \<Rightarrow> bool" where
  "safe_positive n \<longleftrightarrow> 0 < n \<and> n \<le> 9007199254740991"

definition text_of :: "js_value \<Rightarrow> jstring option" where
  "text_of v = (case v of JText s \<Rightarrow> Some s | _ \<Rightarrow> None)"

text \<open>Equal lists of strings have equal JSON texts.\<close>

definition governanceDocumentMatches ::
  "js_value \<Rightarrow> WorkflowGovernanceIssueEvidence \<Rightarrow> WorkflowEvidence \<Rightarrow> bool" where
  "governanceDocumentMatches data issue evid \<longleftrightarrow>
     js_field data (js ''schema'') = Some (JText (js ''openslack.workflow_governance.v1''))
     \<and> js_field data (js ''pr'') = Some (JNumber (of_int (gi_prNumber issue)))
     \<and> js_field data (js ''base_sha'') = Some (JText (we_baseSha evid))
     \<and> js_field data (js ''head_sha'') = Some (JText (we_headSha evid))
     \<and> js_field data (js ''evidence_hash'') = Some (JText (evidenceHash evid))
     \<and> (case js_field data (js ''artifact_files'') of
          Some (JArray files) \<Rightarrow>
            list_all (\<lambda>f. text_of f \<noteq> None) files
            \<and> sort (map (\<lambda>f. the (text_of f)) files) = artifactFiles evid
        | _ \<Rightarrow> False)"

definition governanceIssueMatches ::
  "(jstring \<Rightarrow> js_value option) \<Rightarrow> WorkflowGovernanceIssueEvidence option \<Rightarrow> int option \<Rightarrow>
     WorkflowEvidence option \<Rightarrow> int option \<Rightarrow> bool" where
  "governanceIssueMatches parse_yaml issue linked evid prNumber =
     (case (issue, linked, evid) of
        (Some iss, Some number, Some ev) \<Rightarrow>
          number \<noteq> 0 \<and> gi_issueNumber iss = number \<and> isBotUser (gi_author iss)
          \<and> safe_positive (gi_prNumber iss)
          \<and> (prNumber = None \<or> prNumber = Some (gi_prNumber iss))
          \<and> (case governanceBlocks (gi_body iss) of
               [content] \<Rightarrow>
                 (case parse_yaml content of
                    None \<Rightarrow> False
                  | Some data \<Rightarrow> governanceDocumentMatches data iss ev)
             | _ \<Rightarrow> False)
      | _ \<Rightarrow> False)"

section \<open>The gate\<close>

record EvaluateWorkflowGateInput =
  wi_prNumber :: "int option"
  wi_changedFiles :: "jstring list"
  wi_body :: jstring
  wi_author :: jstring
  wi_baseSha :: "jstring option"
  wi_headSha :: "jstring option"
  wi_reviews :: "PRReviewEvidence list"
  wi_workflowEvidence :: "WorkflowEvidence option"
  wi_governanceIssue :: "WorkflowGovernanceIssueEvidence option"
  wi_codeowners :: "jstring list option"

definition touchedArtifacts :: "EvaluateWorkflowGateInput \<Rightarrow> jstring list" where
  "touchedArtifacts input =
     sort (filter isWorkflowArtifactPath (map normalizePath (wi_changedFiles input)))"

definition evidenceCurrent :: "EvaluateWorkflowGateInput \<Rightarrow> bool" where
  "evidenceCurrent input =
     (case wi_workflowEvidence input of
        None \<Rightarrow> False
      | Some ev \<Rightarrow>
          we_schema ev = WORKFLOW_EVIDENCE_SCHEMA
          \<and> Some (we_baseSha ev) = wi_baseSha input \<and> Some (we_headSha ev) = wi_headSha input
          \<and> list_all (\<lambda>p. p \<in> set (artifactFiles ev)) (touchedArtifacts input))"

definition currentHumanReviews :: "EvaluateWorkflowGateInput \<Rightarrow> PRReviewEvidence list" where
  "currentHumanReviews input =
     filter (\<lambda>r. rv_state r = js ''APPROVED''
       \<and> normalizeOwner (rv_user r) \<noteq> normalizeOwner (wi_author input)
       \<and> \<not> isBotUser (rv_user r) \<and> \<not> falsy (wi_headSha input)
       \<and> rv_commitOid r = wi_headSha input) (wi_reviews input)"

definition reviewMarker :: "PRReviewEvidence \<Rightarrow> ParsedTrustMarker" where
  "reviewMarker r = parseTrustMarker (case rv_body r of None \<Rightarrow> [] | Some b \<Rightarrow> b)"

definition invalidMarker :: "EvaluateWorkflowGateInput \<Rightarrow> jstring option" where
  "invalidMarker input =
     (case find (\<lambda>r. case reviewMarker r of MarkerError e \<Rightarrow> True | _ \<Rightarrow> False)
             (currentHumanReviews input) of
        None \<Rightarrow> None
      | Some r \<Rightarrow> (case reviewMarker r of MarkerError e \<Rightarrow> Some e | _ \<Rightarrow> None))"

definition markerDecisions :: "EvaluateWorkflowGateInput \<Rightarrow> WorkflowTrustDecision list" where
  "markerDecisions input =
     js_set (concat (map (\<lambda>r. case reviewMarker r of MarkerDecision d \<Rightarrow> [d] | _ \<Rightarrow> [])
       (currentHumanReviews input)))"

definition trustDecisionOf :: "EvaluateWorkflowGateInput \<Rightarrow> WorkflowTrustDecision option" where
  "trustDecisionOf input =
     (if invalidMarker input = None then
        (case markerDecisions input of [d] \<Rightarrow> Some d | _ \<Rightarrow> None)
      else None)"

definition trustReviewsOf :: "EvaluateWorkflowGateInput \<Rightarrow> PRReviewEvidence list" where
  "trustReviewsOf input =
     (case trustDecisionOf input of
        None \<Rightarrow> []
      | Some d \<Rightarrow> filter (\<lambda>r. reviewMarker r = MarkerDecision d) (currentHumanReviews input))"

definition trustReviewersOf :: "EvaluateWorkflowGateInput \<Rightarrow> jstring list" where
  "trustReviewersOf input = sort (map rv_user (trustReviewsOf input))"

definition gateArtifacts :: "EvaluateWorkflowGateInput \<Rightarrow> jstring list" where
  "gateArtifacts input =
     (case wi_workflowEvidence input of Some ev \<Rightarrow> artifactFiles ev | None \<Rightarrow> touchedArtifacts input)"

definition includesCoreArtifact :: "EvaluateWorkflowGateInput \<Rightarrow> bool" where
  "includesCoreArtifact input = list_ex isCoreWorkflowArtifactPath (gateArtifacts input)"

definition trustScopeValid :: "EvaluateWorkflowGateInput \<Rightarrow> bool" where
  "trustScopeValid input =
     (let codeowners = map normalizeOwner (case wi_codeowners input of None \<Rightarrow> [] | Some os \<Rightarrow> os);
          coreReviewerValid =
            (trustDecisionOf input \<noteq> Some Core
             \<or> list_ex (\<lambda>r. normalizeOwner r \<in> set codeowners) (trustReviewersOf input))
      in trustDecisionOf input \<noteq> None
         \<and> (if includesCoreArtifact input then trustDecisionOf input = Some Core
            else trustDecisionOf input \<noteq> Some Core)
         \<and> coreReviewerValid)"

definition governanceRequiredFor :: "EvaluateWorkflowGateInput \<Rightarrow> bool" where
  "governanceRequiredFor input =
     (case wi_workflowEvidence input of
        None \<Rightarrow> False
      | Some ev \<Rightarrow> addedFiles ev \<noteq> [] \<or> includesCoreArtifact input)"

definition governanceValid ::
  "(jstring \<Rightarrow> js_value option) \<Rightarrow> EvaluateWorkflowGateInput \<Rightarrow> bool" where
  "governanceValid parse_yaml input \<longleftrightarrow>
     \<not> governanceRequiredFor input
     \<or> governanceIssueMatches parse_yaml (wi_governanceIssue input)
         (governanceIssueNumber (wi_body input)) (wi_workflowEvidence input) (wi_prNumber input)"

definition criterion :: "string \<Rightarrow> GateStatus \<Rightarrow> jstring option \<Rightarrow> GateCriterion" where
  "criterion name status detail = \<lparr>gc_name = js name, gc_status = status, gc_detail = detail\<rparr>"

definition pass_if :: "bool \<Rightarrow> GateStatus" where
  "pass_if b = (if b then PASS else FAIL)"

definition gateCriteria ::
  "(jstring \<Rightarrow> js_value option) \<Rightarrow> EvaluateWorkflowGateInput \<Rightarrow> GateCriterion list" where
  "gateCriteria parse_yaml input =
     (let decision = trustDecisionOf input;
          names = js_join (js '', '') (trustReviewersOf input);
          headText = (case wi_headSha input of None \<Rightarrow> js ''undefined'' | Some h \<Rightarrow> h)
      in
      [criterion ''Workflow artifacts touched'' PASS
         (Some (js ''Modified: '' @ js_join (js '', '') (gateArtifacts input))),
       criterion ''Current-head evidence'' (pass_if (evidenceCurrent input))
         (Some (case wi_workflowEvidence input of
            Some ev \<Rightarrow>
              if evidenceCurrent input then evidenceHash ev @ js '' for '' @ headText
              else js ''Workflow tree evidence is missing, stale, or does not match the changed artifact set.''
          | None \<Rightarrow> js ''Workflow tree evidence is missing, stale, or does not match the changed artifact set.'')),
       criterion ''Human trust review'' (pass_if (decision \<noteq> None))
         (Some (case invalidMarker input of
            Some e \<Rightarrow> e
          | None \<Rightarrow>
              if length (markerDecisions input) > 1
              then js ''Current-head human approvals contain conflicting Workflow-Trust decisions.''
              else (case decision of
                 Some d \<Rightarrow> trust_name d @ js '' by '' @ names
               | None \<Rightarrow> js ''Approve the current head with exactly one Workflow-Trust marker.''))),
       criterion ''Trust scope'' (pass_if (trustScopeValid input))
         (Some (if trustScopeValid input then
              (if includesCoreArtifact input then js ''Core artifact approved as core by a CODEOWNER.''
               else js ''Non-core artifact approved as ''
                 @ (case decision of None \<Rightarrow> js ''undefined'' | Some d \<Rightarrow> trust_name d) @ js ''.'')
            else if includesCoreArtifact input then
              js ''Builtins, catalog, and pattern artifacts require Workflow-Trust: core from a CODEOWNER.''
            else js ''Non-core artifacts only allow Workflow-Trust: trusted or untrusted.'')),
       criterion ''Governance issue''
         (if governanceRequiredFor input then pass_if (governanceValid parse_yaml input)
          else NotApplicable)
         (Some (if governanceRequiredFor input then
              (if governanceValid parse_yaml input then
                 js ''Workflow governance #''
                 @ (case governanceIssueNumber (wi_body input) of
                      None \<Rightarrow> js ''undefined'' | Some n \<Rightarrow> js_int n)
               else js ''New or core artifacts require a matching bot-created Workflow Governance Issue bound to the current evidence.'')
            else js ''Existing non-core artifact updates use the PR as the governance record.''))])"

definition criteriaOverall :: "GateCriterion list \<Rightarrow> GateStatus" where
  "criteriaOverall criteria =
     pass_if (list_all (\<lambda>c. gc_status c = PASS \<or> gc_status c = NotApplicable) criteria)"

definition workflowGateNotApplicable :: WorkflowGateResult where
  "workflowGateNotApplicable =
     \<lparr>touchedWorkflowFiles = False, governanceRequired = False, verifiedGovernanceIssue = None,
      wg_overall = NotApplicable,
      wg_criteria =
        [criterion ''Workflow artifacts touched'' NotApplicable
           (Some (js ''No governed workflow artifacts modified'')),
         criterion ''Current-head evidence'' NotApplicable None,
         criterion ''Human trust review'' NotApplicable None,
         criterion ''Trust scope'' NotApplicable None,
         criterion ''Governance issue'' NotApplicable None],
      wg_artifactFiles = None, wg_changeKind = None, wg_evidenceHash = None, trustDecision = None,
      trustReviewer = None, trustReviewCommitOid = None, trustSource = None,
      wg_governanceIssue = None\<rparr>"

definition evaluateWorkflowGate ::
  "(jstring \<Rightarrow> js_value option) \<Rightarrow> EvaluateWorkflowGateInput \<Rightarrow> WorkflowGateResult" where
  "evaluateWorkflowGate parse_yaml input =
     (if touchedArtifacts input = [] then workflowGateNotApplicable
      else
        (let criteria = gateCriteria parse_yaml input;
             overall = criteriaOverall criteria;
             issueNumber = governanceIssueNumber (wi_body input);
             reviewers = trustReviewersOf input
         in \<lparr>touchedWorkflowFiles = True,
             governanceRequired = governanceRequiredFor input,
             verifiedGovernanceIssue =
               (if overall = PASS \<and> governanceRequiredFor input
                   \<and> (case wi_prNumber input of None \<Rightarrow> False | Some n \<Rightarrow> safe_positive n)
                then issueNumber else None),
             wg_overall = overall,
             wg_criteria = criteria,
             wg_artifactFiles = Some (gateArtifacts input),
             wg_changeKind = map_option we_changeKind (wi_workflowEvidence input),
             wg_evidenceHash = map_option evidenceHash (wi_workflowEvidence input),
             trustDecision = trustDecisionOf input,
             trustReviewer = (case reviewers of [] \<Rightarrow> None | r # _ \<Rightarrow> Some r),
             trustReviewCommitOid =
               (case trustReviewsOf input of [] \<Rightarrow> None | r # _ \<Rightarrow> rv_commitOid r),
             trustSource =
               (if trustDecisionOf input \<noteq> None then Some (js ''human-review'') else None),
             wg_governanceIssue = issueNumber\<rparr>))"

section \<open>What the evidence lists\<close>

lemma treeMap_fold:
  "map_of (fold (\<lambda>e. AList.update (te_path e) e) es m) p = Some e \<Longrightarrow>
     map_of m p = Some e \<or> (e \<in> set es \<and> te_path e = p)"
proof (induction es arbitrary: m)
  case (Cons a es)
  have "map_of (AList.update (te_path a) a m) p = Some e \<or> (e \<in> set es \<and> te_path e = p)"
    by (rule Cons.IH) (use Cons.prems in \<open>simp only: fold_Cons o_apply\<close>)
  moreover have "map_of (AList.update (te_path a) a m) p = (if te_path a = p then Some a else map_of m p)"
    by (simp add: update_conv')
  ultimately show ?case by (cases "te_path a = p") auto
qed simp

lemma treeMap_path: "map_of (treeMap es) p = Some e \<Longrightarrow> e \<in> set es \<and> te_path e = p"
  unfolding treeMap_def by (drule treeMap_fold) simp

lemma distinct_treeMap: "distinct (map fst (treeMap es))"
proof -
  have "distinct (map fst m) \<Longrightarrow> distinct (map fst (fold (\<lambda>e. AList.update (te_path e) e) es m))"
    for m :: "(jstring \<times> WorkflowTreeEntry) list"
    by (induction es arbitrary: m) (simp_all add: distinct_update)
  then show ?thesis by (simp add: treeMap_def)
qed

lemma entryChanged_iff: "te_path a = te_path b \<Longrightarrow> entryChanged a b \<longleftrightarrow> a \<noteq> (b :: WorkflowTreeEntry)"
  by (cases a; cases b) (auto simp: entryChanged_def)

lemma set_filter_fst:
  assumes "distinct (map fst m)"
  shows "set (map fst (filter (\<lambda>(p, h). P p h) m)) = {p. \<exists>h. map_of m p = Some h \<and> P p h}"
  using assms by (auto simp: image_iff)

lemma distinct_filter_fst: "distinct (map fst m) \<Longrightarrow> distinct (map fst (filter P m))"
  by (induction m) auto

abbreviation artifact_map :: "WorkflowTreeEntry list \<Rightarrow> jstring \<Rightarrow> WorkflowTreeEntry option" where
  "artifact_map entries \<equiv> map_of (treeMap (normalizeTree entries))"

lemma sort_Nil_iff [simp]: "sort xs = [] \<longleftrightarrow> xs = []"
  by (metis length_0_conv length_sort)

lemma set_addedPaths:
  "set (addedPaths (treeMap (normalizeTree base)) (treeMap (normalizeTree head)))
     = dom (artifact_map head) - dom (artifact_map base)"
  unfolding addedPaths_def set_filter_fst [OF distinct_treeMap] by auto

lemma set_deletedPaths:
  "set (deletedPaths (treeMap (normalizeTree base)) (treeMap (normalizeTree head)))
     = dom (artifact_map base) - dom (artifact_map head)"
  unfolding deletedPaths_def by (auto simp: dom_map_of_conv_image_fst [symmetric])

lemma set_modifiedPaths:
  "set (modifiedPaths (treeMap (normalizeTree base)) (treeMap (normalizeTree head)))
     = {p \<in> dom (artifact_map base) \<inter> dom (artifact_map head). artifact_map base p \<noteq> artifact_map head p}"
proof -
  have "entryChanged x y \<longleftrightarrow> x \<noteq> y" if "artifact_map base p = Some x" "artifact_map head p = Some y"
    for p x y
    using treeMap_path [OF that(1)] treeMap_path [OF that(2)] by (simp add: entryChanged_iff)
  then show ?thesis
    unfolding modifiedPaths_def set_filter_fst [OF distinct_treeMap] by (auto split: option.splits)
qed

lemma evidence_none:
  assumes "createWorkflowEvidence h bs hs base head = None"
  shows "artifact_map base = artifact_map head"
proof
  fix p
  have "addedPaths (treeMap (normalizeTree base)) (treeMap (normalizeTree head)) = []"
    "modifiedPaths (treeMap (normalizeTree base)) (treeMap (normalizeTree head)) = []"
    "deletedPaths (treeMap (normalizeTree base)) (treeMap (normalizeTree head)) = []"
    using assms by (simp_all add: createWorkflowEvidence_def Let_def split: if_splits)
  then have "p \<notin> dom (artifact_map head) - dom (artifact_map base)"
    "p \<notin> dom (artifact_map base) - dom (artifact_map head)"
    "p \<notin> {p \<in> dom (artifact_map base) \<inter> dom (artifact_map head). artifact_map base p \<noteq> artifact_map head p}"
    using set_addedPaths [of base head] set_deletedPaths [of base head]
      set_modifiedPaths [of base head] by simp_all
  then show "artifact_map base p = artifact_map head p"
    by (cases "artifact_map base p"; cases "artifact_map head p") auto
qed

lemma evidence_files:
  assumes "createWorkflowEvidence h bs hs base head = Some ev"
  shows "set (addedFiles ev) = dom (artifact_map head) - dom (artifact_map base)"
    and "set (deletedFiles ev) = dom (artifact_map base) - dom (artifact_map head)"
    and "set (artifactFiles ev) = {p. artifact_map base p \<noteq> artifact_map head p}"
    and "distinct (artifactFiles ev)" and "sorted (artifactFiles ev)"
    and "artifactFiles ev \<noteq> []"
proof -
  let ?b = "treeMap (normalizeTree base)" and ?h = "treeMap (normalizeTree head)"
  have fields: "addedFiles ev = sort (addedPaths ?b ?h)" "modifiedFiles ev = sort (modifiedPaths ?b ?h)"
    "deletedFiles ev = sort (deletedPaths ?b ?h)"
    "artifactFiles ev = sort (addedFiles ev @ modifiedFiles ev @ deletedFiles ev)"
    "artifactFiles ev \<noteq> []"
    using assms by (auto simp: createWorkflowEvidence_def Let_def split: if_splits)
  show "set (addedFiles ev) = dom (artifact_map head) - dom (artifact_map base)"
    and "set (deletedFiles ev) = dom (artifact_map base) - dom (artifact_map head)"
    by (simp_all only: fields set_sort set_addedPaths set_deletedPaths)
  have files: "set (artifactFiles ev) = set (addedPaths ?b ?h) \<union> (set (modifiedPaths ?b ?h) \<union> set (deletedPaths ?b ?h))"
    by (simp only: fields set_sort set_append)
  show "set (artifactFiles ev) = {p. artifact_map base p \<noteq> artifact_map head p}"
    unfolding files set_addedPaths set_modifiedPaths set_deletedPaths by auto (metis domI not_Some_eq)+
  have "distinct (addedPaths ?b ?h)" "distinct (modifiedPaths ?b ?h)" "distinct (deletedPaths ?b ?h)"
    by (simp_all add: addedPaths_def modifiedPaths_def deletedPaths_def distinct_filter_fst
        distinct_treeMap)
  moreover have "set (addedPaths ?b ?h) \<inter> (set (modifiedPaths ?b ?h) \<union> set (deletedPaths ?b ?h)) = {}"
    "set (modifiedPaths ?b ?h) \<inter> set (deletedPaths ?b ?h) = {}"
    unfolding set_addedPaths set_modifiedPaths set_deletedPaths by auto
  ultimately show "distinct (artifactFiles ev)"
    by (simp only: fields distinct_sort distinct_append set_sort set_append)
  show "sorted (artifactFiles ev)" unfolding fields(4) by (rule sorted_sort)
  show "artifactFiles ev \<noteq> []" by (rule fields(5))
qed

section \<open>What a passing gate guarantees\<close>

lemma gate_pass:
  "wg_overall (evaluateWorkflowGate parse_yaml input) = PASS \<longleftrightarrow>
     touchedArtifacts input \<noteq> [] \<and> evidenceCurrent input \<and> trustDecisionOf input \<noteq> None
     \<and> trustScopeValid input \<and> governanceValid parse_yaml input"
  by (auto simp: evaluateWorkflowGate_def workflowGateNotApplicable_def Let_def gateCriteria_def
      criteriaOverall_def pass_if_def criterion_def governanceValid_def)

lemma gate_not_fail:
  "wg_overall (evaluateWorkflowGate parse_yaml input) \<noteq> FAIL \<longleftrightarrow>
     touchedArtifacts input = [] \<or> wg_overall (evaluateWorkflowGate parse_yaml input) = PASS"
  by (auto simp: evaluateWorkflowGate_def workflowGateNotApplicable_def Let_def criteriaOverall_def
      pass_if_def)

lemma trustDecisionOf_review:
  assumes "trustDecisionOf input = Some d"
  shows "\<exists>r \<in> set (currentHumanReviews input). reviewMarker r = MarkerDecision d"
    and "r \<in> set (currentHumanReviews input) \<Longrightarrow> reviewMarker r \<in> {NoMarker, MarkerDecision d}"
proof -
  from assms have invalid: "invalidMarker input = None" and one: "markerDecisions input = [d]"
    by (auto simp: trustDecisionOf_def split: if_splits list.splits)
  then have decisions: "set (concat (map (\<lambda>r. case reviewMarker r of MarkerDecision d \<Rightarrow> [d] | _ \<Rightarrow> [])
       (currentHumanReviews input))) = {d}"
    by (metis markerDecisions_def set_js_set list.set(1) list.simps(15))
  then have "d \<in> set (concat (map (\<lambda>r. case reviewMarker r of MarkerDecision d \<Rightarrow> [d] | _ \<Rightarrow> [])
       (currentHumanReviews input)))" by simp
  then show "\<exists>r \<in> set (currentHumanReviews input). reviewMarker r = MarkerDecision d"
    by (auto split: ParsedTrustMarker.splits)
  show "reviewMarker r \<in> {NoMarker, MarkerDecision d}" if "r \<in> set (currentHumanReviews input)"
  proof (cases "reviewMarker r")
    case (MarkerDecision d')
    with that have "d' \<in> set (concat (map (\<lambda>r. case reviewMarker r of MarkerDecision d \<Rightarrow> [d] | _ \<Rightarrow> [])
       (currentHumanReviews input)))" by force
    with decisions MarkerDecision show ?thesis by simp
  next
    case (MarkerError e)
    with invalid that show ?thesis
      by (auto simp: invalidMarker_def find_None_iff find_Some_iff split: option.splits
          ParsedTrustMarker.splits)
        (metis ParsedTrustMarker.distinct(5) ParsedTrustMarker.exhaust)+
  qed simp
qed

end
