(* ===== verification/ProfileSyncGate.thy ===== *)
theory ProfileSyncGate
  imports WorkflowGate
begin

text \<open>
  The gate for profile-sync pull requests (\<open>packages/pr/src/profile-sync-gate.ts\<close>): what counts
  as one, the metadata read from the body, and the check that a patch stays inside the marker
  block.
\<close>

section \<open>Detection and metadata\<close>

definition PROFILE_SYNC_BRANCH_PREFIX :: jstring where
  "PROFILE_SYNC_BRANCH_PREFIX = js ''openslack/profile-sync/''"

definition PROFILE_SYNC_TARGET_PATH :: jstring where
  "PROFILE_SYNC_TARGET_PATH = js ''profile/README.md''"

definition isProfileSyncPR :: "jstring list \<Rightarrow> jstring \<Rightarrow> jstring \<Rightarrow> bool" where
  "isProfileSyncPR files branch body \<longleftrightarrow>
     startsWith branch PROFILE_SYNC_BRANCH_PREFIX
     \<or> js_includes body (js ''```openslack-profile-sync-metadata'')
     \<or> js_includes body (js ''profile: sync latest'')
     \<or> files = [PROFILE_SYNC_TARGET_PATH]"

text \<open>\<open>/marker:\s*openslack:([^\s]+)/\<close> and the three \<open>/key:\s*(...)/\<close>.\<close>

definition extractMarkerFromBody :: "jstring \<Rightarrow> jstring option" where
  "extractMarkerFromBody body =
     first_match (\<lambda>s.
       Option.bind (after_literal (js ''marker:'') s) (\<lambda>r.
       Option.bind (after_literal (js ''openslack:'') (after_spaces r)) take_word)) body"

definition extractSourceCommit :: "jstring \<Rightarrow> jstring option" where
  "extractSourceCommit body =
     first_match (\<lambda>s. Option.bind (after_literal (js ''source_commit:'') s)
       (\<lambda>r. take_word (after_spaces r))) body"

definition extractRunId :: "jstring \<Rightarrow> jstring option" where
  "extractRunId body =
     first_match (\<lambda>s. Option.bind (after_literal (js ''workflow_run_id:'') s)
       (\<lambda>r. take_word (after_spaces r))) body"

definition extractPostsIncluded :: "jstring \<Rightarrow> nat option" where
  "extractPostsIncluded body =
     first_match (\<lambda>s. Option.bind (after_literal (js ''posts_included:'') s)
       (\<lambda>r. take_digits (after_spaces r))) body"

section \<open>The marker block\<close>

definition marker_comment :: "jstring \<Rightarrow> string \<Rightarrow> jstring" where
  "marker_comment marker which = js ''<!-- openslack:'' @ marker @ [58] @ js which @ js '' -->''"

text \<open>\<open>line.replace(/^[+\- ]/, '').trim()\<close>; plus, minus and blank are 43, 45 and 32.\<close>

definition hunk_content :: "jstring \<Rightarrow> jstring" where
  "hunk_content l = trim (case l of [] \<Rightarrow> [] | c # cs \<Rightarrow> if c \<in> {43, 45, 32} then cs else l)"

text \<open>The index of the last line with the given content, \<open>-1\<close> when there is none.\<close>

definition lastIndexOf :: "jstring \<Rightarrow> jstring list \<Rightarrow> int" where
  "lastIndexOf content ls =
     fold (\<lambda>(i, l) found. if hunk_content l = content then int i else found) (enumerate 0 ls) (-1)"

definition changedLine :: "jstring \<Rightarrow> bool" where
  "changedLine l \<longleftrightarrow>
     (startsWith l (js ''+'') \<or> startsWith l (js ''-''))
     \<and> \<not> startsWith l (js ''+++'') \<and> \<not> startsWith l (js ''---'')"

fun checkLines ::
  "jstring \<Rightarrow> jstring \<Rightarrow> int \<Rightarrow> int \<Rightarrow> (nat \<times> jstring) list \<Rightarrow> jstring option" where
  "checkLines startMarker endMarker startIdx endIdx [] = None"
| "checkLines startMarker endMarker startIdx endIdx ((i, l) # rest) =
     (if changedLine l then
        (let content = trim (drop 1 l)
         in if content = startMarker \<or> content = endMarker then
              Some (js ''Marker comment itself was modified'')
            else if int i < startIdx then Some (js ''Change detected before marker start block'')
            else if int i > endIdx then Some (js ''Change detected after marker end block'')
            else checkLines startMarker endMarker startIdx endIdx rest)
      else checkLines startMarker endMarker startIdx endIdx rest)"

definition hunkLines :: "jstring \<Rightarrow> jstring list" where
  "hunkLines patch = filter (\<lambda>l. \<not> startsWith l (js ''@@'')) (js_split 10 patch)"

definition isPatchWithinMarkerRange :: "jstring \<Rightarrow> jstring \<Rightarrow> bool \<times> jstring" where
  "isPatchWithinMarkerRange patch marker =
     (let startMarker = marker_comment marker ''start'';
          endMarker = marker_comment marker ''end'';
          ls = hunkLines patch;
          startIdx = lastIndexOf startMarker ls;
          endIdx = lastIndexOf endMarker ls
      in if startIdx = -1 \<or> endIdx = -1 then
           (False, js ''Marker block not found in patch (marker: '' @ marker @ js '')'')
         else (case checkLines startMarker endMarker startIdx endIdx (enumerate 0 ls) of
             Some detail \<Rightarrow> (False, detail)
           | None \<Rightarrow> (True, js ''All changes within openslack:'' @ marker @ js '' marker block'')))"

section \<open>The gate\<close>

definition profileSyncNotApplicable :: ProfileSyncGateResult where
  "profileSyncNotApplicable =
     \<lparr>touchedProfileSyncFiles = False, ps_overall = NotApplicable,
      ps_criteria =
        [criterion ''Profile-sync PR'' NotApplicable (Some (js ''Not a profile-sync PR'')),
         criterion ''Only modifies profile/README.md'' NotApplicable None,
         criterion ''Marker block present'' NotApplicable None,
         criterion ''Required metadata present'' NotApplicable None,
         criterion ''Not direct-main write'' NotApplicable None,
         criterion ''Marker-only patch'' NotApplicable None]\<rparr>"

definition metadataCriterion :: "jstring \<Rightarrow> GateCriterion" where
  "metadataCriterion body =
     (case (extractSourceCommit body, extractRunId body, extractPostsIncluded body) of
        (Some commit, Some runId, Some posts) \<Rightarrow>
          criterion ''Required metadata present'' PASS
            (Some (js ''source_commit='' @ commit @ js '', workflow_run_id='' @ runId
              @ js '', posts_included='' @ js_nat posts))
      | (commit, runId, posts) \<Rightarrow>
          criterion ''Required metadata present'' FAIL
            (Some (js ''Missing: '' @ js_join (js '', '')
              ((if commit = None then [js ''source_commit''] else [])
               @ (if runId = None then [js ''workflow_run_id''] else [])
               @ (if posts = None then [js ''posts_included''] else [])))))"

definition directMainCriterion :: "jstring \<Rightarrow> GateCriterion" where
  "directMainCriterion branch =
     (if branch = [] then
        criterion ''Not direct-main write'' FAIL
          (Some (js ''Missing branch information (headRef not available)''))
      else if branch = js ''main'' \<or> branch = js ''master'' then
        criterion ''Not direct-main write'' FAIL (Some (js ''PR is from main/master branch''))
      else criterion ''Not direct-main write'' PASS (Some (js ''Branch: '' @ branch)))"

definition patchCriterion :: "jstring option \<Rightarrow> FilePatch list option \<Rightarrow> GateCriterion" where
  "patchCriterion marker patches =
     (case marker of
        None \<Rightarrow>
          criterion ''Marker-only patch'' FAIL
            (Some (js ''Cannot verify marker-only patch without marker metadata''))
      | Some m \<Rightarrow>
          (case patches of
             Some (p # ps) \<Rightarrow>
               (case find (\<lambda>f. fp_filename f = PROFILE_SYNC_TARGET_PATH) (p # ps) of
                  Some target \<Rightarrow>
                    (let (valid, detail) = isPatchWithinMarkerRange (fp_patch target) m
                     in criterion ''Marker-only patch'' (pass_if valid) (Some detail))
                | None \<Rightarrow>
                    criterion ''Marker-only patch'' FAIL
                      (Some (js ''Expected patch for profile/README.md not found'')))
           | _ \<Rightarrow>
               criterion ''Marker-only patch'' FAIL
                 (Some (js ''Patch data unavailable; marker range not verified''))))"

definition evaluateProfileSyncGate ::
  "jstring list \<Rightarrow> jstring \<Rightarrow> jstring \<Rightarrow> FilePatch list option \<Rightarrow> ProfileSyncGateResult" where
  "evaluateProfileSyncGate files body branch patches =
     (if \<not> isProfileSyncPR files branch body then profileSyncNotApplicable
      else
        (let onlyTargetFile = (files = [PROFILE_SYNC_TARGET_PATH]);
             marker = extractMarkerFromBody body;
             criteria =
               [criterion ''Profile-sync PR'' PASS
                  (Some (js ''Branch: '' @ (if branch = [] then js ''(unknown)'' else branch))),
                criterion ''Only modifies profile/README.md'' (pass_if onlyTargetFile)
                  (Some (if onlyTargetFile then js ''Only profile/README.md modified''
                     else js ''Modified '' @ js_nat (length files) @ js '' file(s): ''
                       @ js_join (js '', '') files)),
                criterion ''Marker block present'' (pass_if (marker \<noteq> None))
                  (Some (case marker of
                     Some m \<Rightarrow> js ''Marker: openslack:'' @ m
                   | None \<Rightarrow> js ''No marker found in PR body metadata'')),
                metadataCriterion body,
                directMainCriterion branch,
                patchCriterion marker patches]
         in \<lparr>touchedProfileSyncFiles = True, ps_overall = criteriaOverall criteria,
             ps_criteria = criteria\<rparr>))"

section \<open>What a valid patch and a passing gate guarantee\<close>

lemma checkLines_None:
  "checkLines sm em si ei ils = None \<longleftrightarrow>
     (\<forall>(i, l) \<in> set ils. changedLine l \<longrightarrow>
        trim (drop 1 l) \<noteq> sm \<and> trim (drop 1 l) \<noteq> em \<and> si \<le> int i \<and> int i \<le> ei)"
  by (induction sm em si ei ils rule: checkLines.induct) (auto simp: Let_def)

lemma ball_enumerate: "(\<forall>(i, l) \<in> set (enumerate 0 ls). P i l) \<longleftrightarrow> (\<forall>k < length ls. P k (ls ! k))"
  by (fastforce simp: in_set_enumerate_eq)

lemma lastIndexOf_fold:
  "fold (\<lambda>(i, l) found. if hunk_content l = content then int i else found) ils k \<noteq> k \<Longrightarrow>
     \<exists>(i, l) \<in> set ils. hunk_content l = content
       \<and> fold (\<lambda>(i, l) found. if hunk_content l = content then int i else found) ils k = int i"
proof (induction ils arbitrary: k)
  case (Cons il ils)
  obtain i l where il: "il = (i, l)" by fastforce
  let ?f = "\<lambda>(i, l) found. if hunk_content l = content then int i else found"
  show ?case
  proof (cases "fold ?f ils (?f il k) = ?f il k")
    case True
    with Cons.prems il show ?thesis by (auto split: if_splits)
  next
    case False
    from Cons.IH [OF False] show ?thesis by auto
  qed
qed simp

lemma lastIndexOf_found:
  assumes "lastIndexOf content ls \<noteq> -1"
  shows "\<exists>i < length ls. hunk_content (ls ! i) = content \<and> lastIndexOf content ls = int i"
proof -
  from lastIndexOf_fold [of content "enumerate 0 ls" "-1"] assms
  obtain i l where "(i, l) \<in> set (enumerate 0 ls)" "hunk_content l = content"
    "lastIndexOf content ls = int i"
    unfolding lastIndexOf_def by blast
  then show ?thesis by (auto simp: in_set_enumerate_eq)
qed

text \<open>A changed line that is not a marker is not found as one.\<close>

lemma changedLine_content: "changedLine l \<Longrightarrow> hunk_content l = trim (drop 1 l)"
  by (cases l) (auto simp: changedLine_def hunk_content_def startsWith_def js_def)

lemma lastIndexOf_snoc:
  "lastIndexOf content (ls @ [l]) =
     (if hunk_content l = content then int (length ls) else lastIndexOf content ls)"
  by (simp add: lastIndexOf_def enumerate_append_eq)

lemma lastIndexOf_bound: "lastIndexOf content ls < int (length ls)"
  using lastIndexOf_found [of content ls] by fastforce

text \<open>A line that is not a marker, inserted anywhere, shifts the indices behind it.\<close>

definition shifted :: "nat \<Rightarrow> int \<Rightarrow> int" where
  "shifted n k = (if k < int n then k else k + 1)"

lemma shifted_le [simp]: "shifted n j \<le> shifted n k \<longleftrightarrow> j \<le> k"
  by (simp add: shifted_def)

lemma lastIndexOf_insert:
  "hunk_content l \<noteq> content \<Longrightarrow>
     lastIndexOf content (xs @ l # ys) = shifted (length xs) (lastIndexOf content (xs @ ys))"
proof (induction ys rule: rev_induct)
  case Nil
  then show ?case using lastIndexOf_bound [of content xs] by (simp add: lastIndexOf_snoc shifted_def)
next
  case (snoc y ys)
  then show ?case
    using lastIndexOf_snoc [of content "xs @ ys" y] lastIndexOf_snoc [of content "xs @ l # ys" y]
    by (simp add: shifted_def)
qed

lemma checkLines_insert:
  assumes "\<not> changedLine l"
  shows "checkLines sm em (shifted (length xs) si) (shifted (length xs) ei) (enumerate 0 (xs @ l # ys)) = None
    \<longleftrightarrow> checkLines sm em si ei (enumerate 0 (xs @ ys)) = None"
proof -
  let ?n = "length xs"
  let ?P = "\<lambda>si ei (i :: nat, l). changedLine l \<longrightarrow>
      trim (drop 1 l) \<noteq> sm \<and> trim (drop 1 l) \<noteq> em \<and> si \<le> int i \<and> int i \<le> ei"
  have before: "shifted ?n j \<le> int k \<longleftrightarrow> j \<le> int k" "int k \<le> shifted ?n j \<longleftrightarrow> int k \<le> j"
    if "k < ?n" for k j using that by (auto simp: shifted_def)
  have after: "shifted ?n j \<le> int (Suc k) \<longleftrightarrow> j \<le> int k" "int (Suc k) \<le> shifted ?n j \<longleftrightarrow> int k \<le> j"
    if "?n \<le> k" for k j using that by (auto simp: shifted_def)
  have "?P (shifted ?n si) (shifted ?n ei) il = ?P si ei il" if "il \<in> set (enumerate 0 xs)" for il
    using that before by (simp add: in_set_enumerate_eq case_prod_beta)
  then have "(\<forall>il \<in> set (enumerate 0 xs). ?P (shifted ?n si) (shifted ?n ei) il) \<longleftrightarrow>
      (\<forall>il \<in> set (enumerate 0 xs). ?P si ei il)" by simp
  moreover have "?P (shifted ?n si) (shifted ?n ei) (apfst Suc il) = ?P si ei il"
    if "il \<in> set (enumerate ?n ys)" for il
    using that after by (simp add: in_set_enumerate_eq case_prod_beta)
  then have "(\<forall>il \<in> set (enumerate (Suc ?n) ys). ?P (shifted ?n si) (shifted ?n ei) il) \<longleftrightarrow>
      (\<forall>il \<in> set (enumerate ?n ys). ?P si ei il)" by (simp add: enumerate_Suc_eq)
  ultimately show ?thesis
    using assms unfolding checkLines_None by (simp add: enumerate_append_eq ball_Un)
qed

lemma marker_range:
  "fst (isPatchWithinMarkerRange patch marker) \<longleftrightarrow>
     lastIndexOf (marker_comment marker ''start'') (hunkLines patch) \<noteq> -1
     \<and> lastIndexOf (marker_comment marker ''end'') (hunkLines patch) \<noteq> -1
     \<and> checkLines (marker_comment marker ''start'') (marker_comment marker ''end'')
          (lastIndexOf (marker_comment marker ''start'') (hunkLines patch))
          (lastIndexOf (marker_comment marker ''end'') (hunkLines patch))
          (enumerate 0 (hunkLines patch)) = None"
  by (auto simp: isPatchWithinMarkerRange_def Let_def split: option.split)

lemma patch_valid_insert:
  assumes "hunkLines patch = xs @ ys" and "hunkLines patch' = xs @ l # ys" and "\<not> changedLine l"
    and "hunk_content l \<noteq> marker_comment marker ''start''"
    and "hunk_content l \<noteq> marker_comment marker ''end''"
  shows "fst (isPatchWithinMarkerRange patch' marker) = fst (isPatchWithinMarkerRange patch marker)"
proof -
  have none: "shifted n k = -1 \<longleftrightarrow> k = -1" if "-1 \<le> k" for n k using that by (simp add: shifted_def)
  have "-1 \<le> lastIndexOf c ls" for c ls using lastIndexOf_found [of c ls] by force
  then show ?thesis
    unfolding marker_range assms(1,2) lastIndexOf_insert [OF assms(4)] lastIndexOf_insert [OF assms(5)]
      checkLines_insert [OF assms(3)]
    by (simp add: none)
qed

lemma patch_valid:
  "fst (isPatchWithinMarkerRange patch marker) \<longleftrightarrow>
     (\<exists>i j. i < length (hunkLines patch) \<and> j < length (hunkLines patch)
        \<and> lastIndexOf (marker_comment marker ''start'') (hunkLines patch) = int i
        \<and> lastIndexOf (marker_comment marker ''end'') (hunkLines patch) = int j
        \<and> hunk_content (hunkLines patch ! i) = marker_comment marker ''start''
        \<and> hunk_content (hunkLines patch ! j) = marker_comment marker ''end''
        \<and> (\<forall>k < length (hunkLines patch). changedLine (hunkLines patch ! k) \<longrightarrow>
             trim (drop 1 (hunkLines patch ! k)) \<noteq> marker_comment marker ''start''
             \<and> trim (drop 1 (hunkLines patch ! k)) \<noteq> marker_comment marker ''end''
             \<and> i \<le> k \<and> k \<le> j))"
  (is "?valid \<longleftrightarrow> ?range")
proof -
  let ?ls = "hunkLines patch" and ?s = "marker_comment marker ''start''"
    and ?e = "marker_comment marker ''end''"
  have "?valid \<longleftrightarrow> lastIndexOf ?s ?ls \<noteq> -1 \<and> lastIndexOf ?e ?ls \<noteq> -1
      \<and> checkLines ?s ?e (lastIndexOf ?s ?ls) (lastIndexOf ?e ?ls) (enumerate 0 ?ls) = None"
    by (rule marker_range)
  also have "\<dots> \<longleftrightarrow> ?range"
    using lastIndexOf_found [of ?s ?ls] lastIndexOf_found [of ?e ?ls]
    by (auto simp: checkLines_None ball_enumerate)
  finally show ?thesis .
qed

lemma profile_gate_pass:
  "ps_overall (evaluateProfileSyncGate files body branch patches) = PASS \<longleftrightarrow>
     isProfileSyncPR files branch body \<and> files = [PROFILE_SYNC_TARGET_PATH]
     \<and> extractSourceCommit body \<noteq> None \<and> extractRunId body \<noteq> None \<and> extractPostsIncluded body \<noteq> None
     \<and> branch \<noteq> [] \<and> branch \<noteq> js ''main'' \<and> branch \<noteq> js ''master''
     \<and> (\<exists>m fs target. extractMarkerFromBody body = Some m \<and> patches = Some fs
          \<and> find (\<lambda>f. fp_filename f = PROFILE_SYNC_TARGET_PATH) fs = Some target
          \<and> fst (isPatchWithinMarkerRange (fp_patch target) m))"
proof -
  have meta: "gc_status (metadataCriterion body) = PASS \<or> gc_status (metadataCriterion body) = NotApplicable
      \<longleftrightarrow> extractSourceCommit body \<noteq> None \<and> extractRunId body \<noteq> None \<and> extractPostsIncluded body \<noteq> None"
    by (auto simp: metadataCriterion_def criterion_def split: option.split)
  have main: "gc_status (directMainCriterion branch) = PASS \<or> gc_status (directMainCriterion branch) = NotApplicable
      \<longleftrightarrow> branch \<noteq> [] \<and> branch \<noteq> js ''main'' \<and> branch \<noteq> js ''master''"
    by (simp add: directMainCriterion_def criterion_def)
  have patch: "gc_status (patchCriterion marker patches) = PASS \<or> gc_status (patchCriterion marker patches) = NotApplicable
      \<longleftrightarrow> (\<exists>m fs target. marker = Some m \<and> patches = Some fs
          \<and> find (\<lambda>f. fp_filename f = PROFILE_SYNC_TARGET_PATH) fs = Some target
          \<and> fst (isPatchWithinMarkerRange (fp_patch target) m))" for marker
    by (auto simp: patchCriterion_def criterion_def pass_if_def Let_def
        split: option.split list.split prod.split if_splits)
  show ?thesis
    unfolding evaluateProfileSyncGate_def Let_def
    by (auto simp: profileSyncNotApplicable_def criteriaOverall_def pass_if_def meta main patch
        criterion_def split: if_splits)
qed

lemma profile_gate_not_fail:
  "ps_overall (evaluateProfileSyncGate files body branch patches) \<noteq> FAIL \<longleftrightarrow>
     \<not> isProfileSyncPR files branch body
     \<or> ps_overall (evaluateProfileSyncGate files body branch patches) = PASS"
  by (auto simp: evaluateProfileSyncGate_def profileSyncNotApplicable_def Let_def criteriaOverall_def
      pass_if_def)

end
