(* ===== verification/PrDoctor.thy ===== *)
theory PrDoctor
  imports ProfileSyncGate
begin

text \<open>
  The diagnosis of a pull request (\<open>packages/pr/src/doctor.ts\<close>): all gates in the order of the
  source, and the operational summary made from it (\<open>decision-summary.ts\<close>).
\<close>

section \<open>The diagnosis\<close>

definition workflowGateInput :: "PRReviewReport \<Rightarrow> jstring list \<Rightarrow> EvaluateWorkflowGateInput" where
  "workflowGateInput report codeowners =
     \<lparr>wi_prNumber = Some (pr_number report), wi_changedFiles = changedFiles report,
      wi_body = (case pr_body report of None \<Rightarrow> [] | Some b \<Rightarrow> b), wi_author = pr_author report,
      wi_baseSha = baseSha report, wi_headSha = headSha report, wi_reviews = pr_reviews report,
      wi_workflowEvidence = workflowEvidence report,
      wi_governanceIssue = workflowGovernanceIssue report, wi_codeowners = Some codeowners\<rparr>"

definition profileSyncGateOf :: "PRReviewReport \<Rightarrow> ProfileSyncGateResult" where
  "profileSyncGateOf report =
     evaluateProfileSyncGate (changedFiles report)
       (case pr_body report of None \<Rightarrow> [] | Some b \<Rightarrow> b)
       (case headRef report of None \<Rightarrow> [] | Some r \<Rightarrow> r) (filePatches report)"

definition failedCriteria :: "GateCriterion list \<Rightarrow> jstring" where
  "failedCriteria criteria =
     js_join (js '', '') (map gc_name (filter (\<lambda>c. gc_status c = FAIL) criteria))"

definition hasFailed :: "string \<Rightarrow> GateCriterion list \<Rightarrow> bool" where
  "hasFailed name criteria = list_ex (\<lambda>c. gc_name c = js name \<and> gc_status c = FAIL) criteria"

definition workflowGateBlocker :: "PRReviewReport \<Rightarrow> WorkflowGateResult \<Rightarrow> Blocker" where
  "workflowGateBlocker report gate =
     \<lparr>bl_decision = BLOCKED_WORKFLOW_GATE,
      bl_reason = js ''Workflow gate failed. Missing: '' @ failedCriteria (wg_criteria gate),
      bl_recommendation =
        (if hasFailed ''Current-head evidence'' (wg_criteria gate) then
           js ''Refresh live base/head workflow evidence for PR #'' @ js_int (pr_number report)
           @ js ''; do not approve stale or unavailable evidence.''
         else if hasFailed ''Governance issue'' (wg_criteria gate) then
           js ''Run openslack pr workflow-governance '' @ js_int (pr_number report)
           @ js '' with GitHub App authentication.''
         else
           js ''Run gh pr review '' @ js_int (pr_number report)
           @ js '' --approve --body '' @ [34] @ js ''Workflow-Trust: ''
           @ (if (case wg_artifactFiles gate of
                    None \<Rightarrow> False | Some files \<Rightarrow> list_ex isCoreWorkflowArtifactPath files)
              then js ''core'' else js ''trusted'')
           @ [34] @ js '' as an authorized human on the current head.'')\<rparr>"

definition deadlockBlocker :: "PRReviewReport \<Rightarrow> DeadlockResult \<Rightarrow> Blocker" where
  "deadlockBlocker report deadlock =
     \<lparr>bl_decision =
        (case dl_type deadlock of
           Some AUTHOR_IS_SOLE_CODEOWNER \<Rightarrow> BLOCKED_AUTHOR_IS_SOLE_CODEOWNER
         | Some SINGLE_MAINTAINER \<Rightarrow> BLOCKED_SINGLE_MAINTAINER
         | None \<Rightarrow> pr_decision report),
      bl_reason = dl_reason deadlock, bl_recommendation = dl_recommendation deadlock\<rparr>"

definition botApprovals :: "PRReviewReport \<Rightarrow> PRReviewEvidence list" where
  "botApprovals report =
     filter (\<lambda>r. rv_state r = js ''APPROVED'' \<and> isBotUser (rv_user r)) (pr_reviews report)"

definition missingApprovalBlocker :: "PRReviewReport \<Rightarrow> Blocker" where
  "missingApprovalBlocker report =
     (if botApprovals report \<noteq> [] then
        \<lparr>bl_decision = BOT_APPROVAL_IGNORED,
         bl_reason =
           js ''Bot approvals exist but are ignored per policy. Human approval required.'',
         bl_recommendation = js ''Request review from an independent human reviewer.''\<rparr>
      else
        \<lparr>bl_decision = NEEDS_HUMAN_APPROVAL,
         bl_reason = js ''No valid human approval found. Author and bot approvals are excluded.'',
         bl_recommendation = js ''Request review from an independent human reviewer.''\<rparr>)"

text \<open>\<open>owner.replace('@', '')\<close> removes the first at sign, wherever it is.\<close>

fun drop_first_at :: "jstring \<Rightarrow> jstring" where
  "drop_first_at [] = []"
| "drop_first_at (c # cs) = (if c = 64 then cs else c # drop_first_at cs)"

definition codeownerApprovals :: "jstring list \<Rightarrow> jstring list \<Rightarrow> jstring list" where
  "codeownerApprovals validApprovers codeowners =
     filter (\<lambda>approver. list_ex (\<lambda>owner. drop_first_at owner = approver) codeowners) validApprovers"

definition readyDecision :: "jstring list \<Rightarrow> PRReviewReport \<Rightarrow> PRReviewReport" where
  "readyDecision codeowners report =
     (case pr_riskZone report of
        Green \<Rightarrow> decide READY_TO_MERGE
          (js ''Green Zone. All checks passed. Valid approvals found.'') (js ''Safe to merge.'') report
      | Yellow \<Rightarrow> decide READY_TO_MERGE
          (js ''Yellow Zone. All checks passed. Valid approvals found.'') (js ''Safe to merge.'') report
      | Red \<Rightarrow> decide READY_TO_MERGE
          (if codeowners \<noteq> [] then js ''Red Zone. CODEOWNER approval satisfied. All checks passed.''
           else js ''Red Zone. Independent human approval satisfied; no matching CODEOWNERS entries. All checks passed.'')
          (js ''Ready to merge.'') report
      | Black \<Rightarrow> report)"

text \<open>Steps 8 to 14, once the workflow and profile-sync gates are attached.\<close>

definition diagnoseApprovals ::
  "PRReviewReport \<Rightarrow> PRReviewPolicy \<Rightarrow> jstring list \<Rightarrow> PRReviewReport" where
  "diagnoseApprovals report policy codeowners =
     (let validApprovers = filterValidApprovals (pr_reviews report) (pr_author report) (headSha report);
          deadlock = detectDeadlock (pr_author report) codeowners validApprovers
      in case checksBlocker (pr_checks report) of
           Some blocker \<Rightarrow> block blocker report
         | None \<Rightarrow>
      (case requiredCheckBlocker report policy of
           Some blocker \<Rightarrow> block blocker (report\<lparr>requiredCheckIssue := Some blocker\<rparr>)
         | None \<Rightarrow>
      if deadlocked deadlock then block (deadlockBlocker report deadlock) report
      else if no_self_review policy
          \<and> list_ex (\<lambda>r. rv_user r = pr_author report \<and> rv_state r = js ''APPROVED'') (pr_reviews report)
      then
        decide BLOCKED_SELF_REVIEW
          (js ''Self-review detected: @'' @ pr_author report @ js '' approved their own PR.'')
          (js ''Remove self-approval. Another reviewer must approve.'') report
      else if validApprovers = [] then block (missingApprovalBlocker report) report
      else if red_zone_human_required policy \<and> pr_riskZone report = Red \<and> codeowners \<noteq> []
          \<and> codeownerApprovals validApprovers codeowners = [] then
        decide NEEDS_CODEOWNER_APPROVAL
          (js ''Red Zone requires CODEOWNER approval. No CODEOWNER has approved this PR.'')
          (js ''Request review from CODEOWNERS ('' @ js_join (js '', '') codeowners @ js '').'') report
      else readyDecision codeowners report))"

definition diagnosePR ::
  "(jstring \<Rightarrow> js_value option) \<Rightarrow> PRReviewReport \<Rightarrow> PRReviewPolicy \<Rightarrow> jstring list \<Rightarrow> PRReviewReport"
where
  "diagnosePR parse_yaml report0 policy codeowners =
     (let gate = evaluateWorkflowGate parse_yaml (workflowGateInput report0 codeowners);
          report = report0\<lparr>requiredCheckIssue := None, workflowGate := Some gate\<rparr>;
          gate2 = profileSyncGateOf report;
          report2 = report\<lparr>profileSyncGate := Some gate2\<rparr>
      in if pr_draft report then
           decide BLOCKED_DRAFT (js ''This PR is in draft state.'')
             (js ''Mark the PR as ready for review before merge evaluation.'') report
         else if pr_state report \<noteq> js ''open'' then
           decide BLOCKED_POLICY (js ''PR is '' @ pr_state report @ js '', not open.'')
             (js ''Only open PRs can be merged.'') report
         else (case evaluatePRBasePolicy report of
           Some violation \<Rightarrow> block violation report
         | None \<Rightarrow>
         if \<not> pr_mergeable report then
           decide BLOCKED_POLICY (js ''PR has merge conflicts and cannot be merged.'')
             (js ''Resolve merge conflicts before proceeding.'') report
         else if wg_overall gate = FAIL then block (workflowGateBlocker report gate) report
         else if ps_overall gate2 = FAIL then
           decide BLOCKED_PROFILE_SYNC_GATE
             (js ''Profile-sync gate failed. Issues: '' @ failedCriteria (ps_criteria gate2))
             (js ''Ensure the PR only modifies profile/README.md within the marker block, includes full metadata, and is not a direct-main write.'')
             report2
         else if black_zone_never_merge policy \<and> pr_riskZone report = Black then
           decide BLOCKED_BLACK_ZONE (js ''Policy: Black Zone PRs are never mergeable.'')
             (js ''Close PR. Black Zone changes are prohibited.'') report2
         else diagnoseApprovals report2 policy codeowners))"

section \<open>The operational summary\<close>

datatype PRBlockerCategory =
  CatNone | CatChecks | CatApprovals | CatRiskZone | CatCodeowners | CatMergeability
| CatBranchPolicy | CatDeadlock | CatDraft | CatState

datatype PRDecisionOwner = OwnerHuman | OwnerAgent | OwnerGithubAdmin | OwnerCodeowner | OwnerNone

definition categoryFor :: "PRReviewState \<Rightarrow> PRBlockerCategory" where
  "categoryFor d =
     (case d of
        READY_TO_MERGE \<Rightarrow> CatNone
      | CHECKS_PENDING \<Rightarrow> CatChecks
      | CHECKS_FAILED \<Rightarrow> CatChecks
      | NEEDS_HUMAN_APPROVAL \<Rightarrow> CatApprovals
      | BOT_APPROVAL_IGNORED \<Rightarrow> CatApprovals
      | BLOCKED_SELF_REVIEW \<Rightarrow> CatApprovals
      | NEEDS_CODEOWNER_APPROVAL \<Rightarrow> CatCodeowners
      | BLOCKED_BLACK_ZONE \<Rightarrow> CatRiskZone
      | BLOCKED_AUTHOR_IS_SOLE_CODEOWNER \<Rightarrow> CatDeadlock
      | BLOCKED_SINGLE_MAINTAINER \<Rightarrow> CatDeadlock
      | BLOCKED_DRAFT \<Rightarrow> CatDraft
      | BLOCKED_BASE_BRANCH \<Rightarrow> CatBranchPolicy
      | BLOCKED_POLICY \<Rightarrow> CatMergeability
      | _ \<Rightarrow> CatState)"

definition ownerFor :: "PRBlockerCategory \<Rightarrow> PRReviewState \<Rightarrow> PRDecisionOwner" where
  "ownerFor category d =
     (if d = READY_TO_MERGE then OwnerHuman
      else if d = BLOCKED_BASE_BRANCH then OwnerAgent
      else if category = CatChecks then OwnerAgent
      else if category = CatCodeowners \<or> category = CatDeadlock then OwnerCodeowner
      else if category = CatApprovals then OwnerHuman
      else if category = CatBranchPolicy then OwnerGithubAdmin
      else if category = CatRiskZone then OwnerHuman
      else OwnerAgent)"

definition nextActionFor :: "PRReviewReport \<Rightarrow> PRDecisionOwner \<Rightarrow> jstring" where
  "nextActionFor report who =
     (if pr_decision report = READY_TO_MERGE then
        js ''Run openslack pr merge '' @ js_int (pr_number report)
        @ js ''; PRMS will re-check gates before merge.''
      else if pr_decision report = BLOCKED_AUTHOR_IS_SOLE_CODEOWNER then
        js ''Recreate as a bot/agent-authored PR, then request human CODEOWNER approval on GitHub.''
      else if pr_decision report = BOT_APPROVAL_IGNORED then
        js ''Request an independent human GitHub approval; bot approvals do not satisfy PRMS.''
      else if pr_decision report = NEEDS_HUMAN_APPROVAL then
        js ''Request an independent human GitHub approval; chat confirmation is not approval.''
      else if pr_decision report = NEEDS_CODEOWNER_APPROVAL then
        js ''Request CODEOWNER approval on GitHub.''
      else if pr_decision report = BLOCKED_BASE_BRANCH then pr_recommendation report
      else if who = OwnerGithubAdmin then
        js ''A GitHub repository admin must fix the branch policy or ruleset.''
      else pr_recommendation report)"

definition evidenceFor :: "PRReviewReport \<Rightarrow> jstring list \<Rightarrow> jstring list" where
  "evidenceFor report codeowners =
     (let validApprovers = filterValidApprovals (pr_reviews report) (pr_author report) (headSha report);
          bots = botApprovals report;
          failed = filter failingCheck (pr_checks report);
          pending = filter pendingCheck (pr_checks report)
      in [js ''Risk zone: '' @ zone_name (pr_riskZone report),
          js ''Author: @'' @ pr_author report,
          js ''Base branch: '' @ baseRef report,
          js ''Valid human approvals: '' @ js_nat (length validApprovers)]
         @ (if codeowners \<noteq> [] then [js ''CODEOWNERS: '' @ js_join (js '', '') codeowners] else [])
         @ (if bots \<noteq> [] then
              [js ''Bot approvals ignored: '' @ js_join (js '', '') (map (\<lambda>r. at_sign (rv_user r)) bots)]
            else [])
         @ (if pending \<noteq> [] then [js ''Pending checks: '' @ js_join (js '', '') (map ck_name pending)]
            else [])
         @ (if failed \<noteq> [] then [js ''Failing checks: '' @ js_join (js '', '') (map ck_name failed)]
            else [])
         @ (if \<not> pr_mergeable report then [js ''GitHub reports merge conflicts.''] else []))"

record PRDecisionSummary =
  sm_prNumber :: int
  sm_title :: jstring
  sm_decision :: PRReviewState
  canMerge :: bool
  blockerCategory :: PRBlockerCategory
  sm_owner :: PRDecisionOwner
  nextAction :: jstring
  sm_evidence :: "jstring list"
  rerunCommand :: jstring

definition summarizePRDecision :: "PRReviewReport \<Rightarrow> jstring list \<Rightarrow> PRDecisionSummary" where
  "summarizePRDecision report codeowners =
     (let category = categoryFor (pr_decision report);
          who = ownerFor category (pr_decision report)
      in \<lparr>sm_prNumber = pr_number report, sm_title = pr_title report,
          sm_decision = pr_decision report, canMerge = (pr_decision report = READY_TO_MERGE),
          blockerCategory = category, sm_owner = who, nextAction = nextActionFor report who,
          sm_evidence = evidenceFor report codeowners,
          rerunCommand = js ''openslack pr doctor '' @ js_int (pr_number report)\<rparr>)"

definition queueRank :: "PRDecisionSummary \<Rightarrow> nat" where
  "queueRank item =
     (if canMerge item then 0
      else if sm_owner item = OwnerHuman \<or> sm_owner item = OwnerCodeowner then 1
      else if sm_owner item = OwnerGithubAdmin then 2
      else 3)"

text \<open>The order of \<open>buildPRQueue\<close>: by rank, then by number; the sort is stable.\<close>

definition queueKey :: "PRDecisionSummary \<Rightarrow> int list" where
  "queueKey item = [int (queueRank item), sm_prNumber item]"

definition sortPRQueue :: "PRDecisionSummary list \<Rightarrow> PRDecisionSummary list" where
  "sortPRQueue items = sort_key queueKey items"

section \<open>When a pull request is ready\<close>

lemma filterValidApprovals_iff:
  "u \<in> set (filterValidApprovals reviews author head) \<longleftrightarrow>
     (\<exists>r \<in> set reviews. rv_user r = u \<and> rv_state r = js ''APPROVED''
        \<and> toLowerCase u \<noteq> toLowerCase author \<and> \<not> isBotUser u \<and> (falsy head \<or> rv_commitOid r = head))"
  by (auto simp: filterValidApprovals_def)

lemma requiredCheck_None:
  "requiredCheck checks names = None \<longleftrightarrow>
     (\<forall>name \<in> set names. \<exists>check. filter (\<lambda>c. ck_name c = name) checks = [check]
        \<and> ck_status check = js ''completed'' \<and> ck_conclusion check = Some (js ''success''))"
  by (induction checks names rule: requiredCheck.induct) (auto split: list.splits)

lemma checksBlocker_None:
  "checksBlocker checks = None \<longleftrightarrow> (\<forall>c \<in> set checks. \<not> pendingCheck c \<and> \<not> failingCheck c)"
  by (auto simp: checksBlocker_def filter_empty_conv)

lemma detectDeadlock_iff:
  "deadlocked (detectDeadlock author codeowners approvers) \<longleftrightarrow>
     codeowners \<noteq> [] \<and> set codeowners = {at_sign author}"
proof -
  have "at_sign author \<in> set codeowners \<and> filter (\<lambda>owner. owner \<noteq> at_sign author) codeowners = []
      \<longleftrightarrow> codeowners \<noteq> [] \<and> set codeowners = {at_sign author}"
    by (auto simp: filter_empty_conv)
  moreover have "length codeowners = 1 \<and> at_sign author \<in> set codeowners \<Longrightarrow>
      codeowners \<noteq> [] \<and> set codeowners = {at_sign author}"
    by (cases codeowners) auto
  ultimately show ?thesis by (auto simp: detectDeadlock_def Let_def)
qed

lemma detectDeadlock_type: "dl_type (detectDeadlock author codeowners approvers) \<noteq> Some SINGLE_MAINTAINER"
  by (cases codeowners) (auto simp: detectDeadlock_def Let_def)

lemma block_decision [simp]: "pr_decision (block b report) = bl_decision b"
  by (simp add: block_def)

lemma checksBlocker_Some: "checksBlocker checks = Some b \<Longrightarrow> bl_decision b \<in> {CHECKS_PENDING, CHECKS_FAILED}"
  by (auto simp: checksBlocker_def split: if_splits)

lemma requiredCheck_Some:
  "requiredCheck checks names = Some b \<Longrightarrow>
     bl_decision b \<in> {CHECKS_PENDING, CHECKS_FAILED, BLOCKED_POLICY}"
  by (induction checks names rule: requiredCheck.induct) (auto split: list.splits if_splits)

lemma deadlockBlocker_ready:
  assumes "deadlocked (detectDeadlock author codeowners approvers)"
  shows "bl_decision (deadlockBlocker report (detectDeadlock author codeowners approvers))
    = BLOCKED_AUTHOR_IS_SOLE_CODEOWNER"
  using assms by (cases codeowners) (auto simp: detectDeadlock_def deadlockBlocker_def Let_def split: if_splits)

lemma missingApproval_decision: "bl_decision (missingApprovalBlocker report) \<noteq> READY_TO_MERGE"
  by (simp add: missingApprovalBlocker_def)

text \<open>The approval gates as one condition.\<close>

definition approvalsOk :: "PRReviewReport \<Rightarrow> PRReviewPolicy \<Rightarrow> jstring list \<Rightarrow> bool" where
  "approvalsOk report policy codeowners \<longleftrightarrow>
     (let approvers = filterValidApprovals (pr_reviews report) (pr_author report) (headSha report)
      in checksBlocker (pr_checks report) = None \<and> requiredCheckBlocker report policy = None
         \<and> \<not> (codeowners \<noteq> [] \<and> set codeowners = {at_sign (pr_author report)})
         \<and> \<not> (no_self_review policy
             \<and> (\<exists>r \<in> set (pr_reviews report). rv_user r = pr_author report \<and> rv_state r = js ''APPROVED''))
         \<and> approvers \<noteq> []
         \<and> \<not> (red_zone_human_required policy \<and> pr_riskZone report = Red \<and> codeowners \<noteq> []
             \<and> codeownerApprovals approvers codeowners = []))"

lemma diagnoseApprovals_ready:
  assumes "pr_decision report \<noteq> READY_TO_MERGE"
  shows "pr_decision (diagnoseApprovals report policy codeowners) = READY_TO_MERGE \<longleftrightarrow>
     approvalsOk report policy codeowners \<and> pr_riskZone report \<noteq> Black"
proof -
  have "bl_decision b \<noteq> READY_TO_MERGE" if "checksBlocker cs = Some b" for cs b
    using checksBlocker_Some [OF that] by auto
  moreover have "bl_decision b \<noteq> READY_TO_MERGE" if "requiredCheckBlocker report policy = Some b" for b
    using requiredCheck_Some that by (fastforce simp: requiredCheckBlocker_def)
  moreover have "pr_decision (readyDecision cs report) = READY_TO_MERGE \<longleftrightarrow> pr_riskZone report \<noteq> Black"
    for cs using assms by (simp add: readyDecision_def split: RiskZone.split)
  ultimately show ?thesis
    by (simp add: diagnoseApprovals_def approvalsOk_def Let_def detectDeadlock_iff deadlockBlocker_ready
        missingApproval_decision list_ex_iff split: option.split)
qed

lemma diagnosePR_ready:
  assumes "pr_decision report \<noteq> READY_TO_MERGE"
  shows "pr_decision (diagnosePR parse_yaml report policy codeowners) = READY_TO_MERGE \<longleftrightarrow>
     \<not> pr_draft report \<and> pr_state report = js ''open'' \<and> baseRef report = CANONICAL_PR_BASE_REF
     \<and> pr_mergeable report
     \<and> wg_overall (evaluateWorkflowGate parse_yaml (workflowGateInput report codeowners)) \<noteq> FAIL
     \<and> ps_overall (profileSyncGateOf report) \<noteq> FAIL
     \<and> pr_riskZone report \<noteq> Black \<and> approvalsOk report policy codeowners"
proof -
  let ?gate = "evaluateWorkflowGate parse_yaml (workflowGateInput report codeowners)"
  let ?r = "report\<lparr>requiredCheckIssue := None, workflowGate := Some ?gate\<rparr>"
  let ?r2 = "?r\<lparr>profileSyncGate := Some (profileSyncGateOf report)\<rparr>"
  have same: "profileSyncGateOf ?r = profileSyncGateOf report"
    "evaluatePRBasePolicy ?r = None \<longleftrightarrow> baseRef report = CANONICAL_PR_BASE_REF"
    "approvalsOk ?r2 policy codeowners = approvalsOk report policy codeowners"
    by (simp_all add: profileSyncGateOf_def evaluatePRBasePolicy_def approvalsOk_def
        requiredCheckBlocker_def)
  have base: "bl_decision b \<noteq> READY_TO_MERGE" if "evaluatePRBasePolicy ?r = Some b" for b
    using that by (auto simp: evaluatePRBasePolicy_def split: if_splits)
  have "pr_decision ?r2 \<noteq> READY_TO_MERGE" using assms by simp
  note approvals = diagnoseApprovals_ready [OF this]
  show ?thesis
  proof (cases "evaluatePRBasePolicy ?r")
    case (Some b)
    with same(2) base show ?thesis by (simp add: diagnosePR_def Let_def)
  next
    case None
    with same(2) show ?thesis
      by (auto simp: diagnosePR_def Let_def approvals same(1) same(3) workflowGateBlocker_def)
  qed
qed

end
