(* ===== verification/Codeowners.thy ===== *)
theory Codeowners
  imports JsText RiskZones
begin

text \<open>
  CODEOWNERS evidence of \<open>packages/pr/src/codeowners.ts\<close>: limits, the parser, the translation of
  an owner pattern into a regular expression, and the owners of a set of changed files.

  Limits given by a caller are numbers checked at run time (\<open>Number.isSafeInteger\<close>), hence
  rationals here. The byte length of the content is an argument.
\<close>

section \<open>Limits\<close>

record EvidenceLimits =
  maxCodeownersBytes :: "js_number option"
  maxCodeownersLines :: "js_number option"
  maxCodeownersEntries :: "js_number option"
  maxFiles :: "js_number option"
  maxCodeownerMatchOperations :: "js_number option"

definition no_limits :: EvidenceLimits where
  "no_limits =
     \<lparr>maxCodeownersBytes = None, maxCodeownersLines = None, maxCodeownersEntries = None,
      maxFiles = None, maxCodeownerMatchOperations = None\<rparr>"

datatype CodeownersError =
  LimitInvalid jstring
| BytesLimitExceeded
| LinesLimitExceeded
| EntriesLimitExceeded
| FilesLimitExceeded
| MatchOperationsLimitExceeded
| InvalidPattern

definition DEFAULT_MAX_CODEOWNERS_BYTES :: rat where "DEFAULT_MAX_CODEOWNERS_BYTES = 256 * 1024"
definition DEFAULT_MAX_CODEOWNERS_LINES :: rat where "DEFAULT_MAX_CODEOWNERS_LINES = 10000"
definition DEFAULT_MAX_CODEOWNERS_ENTRIES :: rat where "DEFAULT_MAX_CODEOWNERS_ENTRIES = 1000"
definition DEFAULT_MAX_CHANGED_FILES :: rat where "DEFAULT_MAX_CHANGED_FILES = 1000"
definition DEFAULT_MAX_CODEOWNER_MATCH_OPERATIONS :: rat where
  "DEFAULT_MAX_CODEOWNER_MATCH_OPERATIONS = 100000"

definition checkedLimit :: "jstring \<Rightarrow> rat option \<Rightarrow> rat \<Rightarrow> rat \<Rightarrow> CodeownersError + rat" where
  "checkedLimit key given fallback absoluteMax =
     (let value = (case given of None \<Rightarrow> fallback | Some v \<Rightarrow> v)
      in if \<not> isSafeInteger value \<or> value < 1 \<or> value > absoluteMax then Inl (LimitInvalid key)
         else Inr value)"

definition changedFileLimit :: "EvidenceLimits \<Rightarrow> CodeownersError + rat" where
  "changedFileLimit limits =
     checkedLimit (js ''maxFiles'') (maxFiles limits) DEFAULT_MAX_CHANGED_FILES 100000"

definition codeownerMatchOperationLimit :: "EvidenceLimits \<Rightarrow> CodeownersError + rat" where
  "codeownerMatchOperationLimit limits =
     checkedLimit (js ''maxCodeownerMatchOperations'') (maxCodeownerMatchOperations limits)
       DEFAULT_MAX_CODEOWNER_MATCH_OPERATIONS 10000000"

definition codeownersEntriesLimit :: "EvidenceLimits \<Rightarrow> CodeownersError + rat" where
  "codeownersEntriesLimit limits =
     checkedLimit (js ''maxCodeownersEntries'') (maxCodeownersEntries limits)
       DEFAULT_MAX_CODEOWNERS_ENTRIES 100000"

section \<open>Owner patterns\<close>

text \<open>
  \<open>matchesGlob\<close> rewrites the pattern to a regular expression: special characters are escaped,
  then every \<open>**/\<close> becomes \<open>(.*/)?\<close>, every \<open>**\<close> left \<open>.*\<close> and every \<open>*\<close> left \<open>[^/]*\<close>.
  In a run of asterisks before a slash the last two belong to the \<open>**/\<close>.
  A question mark is not escaped: after a character it makes it optional, after a quantifier
  it only makes it lazy, and anywhere else it is a syntax error. The intermediate texts
  \<open><<GLOBSTAR_SLASH>>\<close> and \<open><<GLOBSTAR>>\<close>, which stand for the asterisks in between, are replaced
  wherever they occur, also where the pattern itself contains them.
\<close>

datatype GlobItem = GChar jchar | GQuestion | GStar | GGlobstar | GGlobstarSlash

definition question :: jchar where "question = 63"

definition GLOBSTAR_SLASH :: jstring where "GLOBSTAR_SLASH = js ''<<GLOBSTAR_SLASH>>''"

definition GLOBSTAR :: jstring where "GLOBSTAR = js ''<<GLOBSTAR>>''"

fun glob_items :: "jstring \<Rightarrow> GlobItem list" where
  "glob_items [] = []"
| "glob_items (c # cs) =
     (if startsWith (c # cs) GLOBSTAR_SLASH then
        GGlobstarSlash # glob_items (drop (length GLOBSTAR_SLASH - 1) cs)
      else if startsWith (c # cs) GLOBSTAR then
        GGlobstar # glob_items (drop (length GLOBSTAR - 1) cs)
      else if c \<noteq> asterisk then (if c = question then GQuestion else GChar c) # glob_items cs
      else if startsWith cs [asterisk, slash] then GGlobstarSlash # glob_items (drop 2 cs)
      else if startsWith cs [asterisk, asterisk, slash] then GStar # glob_items cs
      else if startsWith cs [asterisk] then GGlobstar # glob_items (drop 1 cs)
      else GStar # glob_items cs)"

definition rx_dotstar :: rx where
  "rx_dotstar = RStar (RClass not_newline)"

primrec item_regex :: "GlobItem \<Rightarrow> rx" where
  "item_regex (GChar c) = RChar c"
| "item_regex GQuestion = RNone"
| "item_regex GStar = RStar (RClass (\<lambda>c. c \<noteq> slash))"
| "item_regex GGlobstar = rx_dotstar"
| "item_regex GGlobstarSlash = ROpt (RSeq rx_dotstar (RChar slash))"

text \<open>The quantifiers an item can still take: a character two question marks, the others one.\<close>

fun glob_regex :: "GlobItem list \<Rightarrow> rx option" where
  "glob_regex [] = Some REmpty"
| "glob_regex (GQuestion # items) = None"
| "glob_regex (GChar c # GQuestion # GQuestion # items) =
     map_option (RSeq (ROpt (RChar c))) (glob_regex items)"
| "glob_regex (GChar c # GQuestion # items) =
     map_option (RSeq (ROpt (RChar c))) (glob_regex items)"
| "glob_regex (item # GQuestion # items) = map_option (RSeq (item_regex item)) (glob_regex items)"
| "glob_regex (item # items) = map_option (RSeq (item_regex item)) (glob_regex items)"

text \<open>\<open>None\<close> is the \<open>SyntaxError\<close> of \<open>new RegExp\<close>.\<close>

definition matchesGlob :: "jstring \<Rightarrow> jstring \<Rightarrow> bool option" where
  "matchesGlob path glob = map_option (\<lambda>r. rx_test r path) (glob_regex (glob_items glob))"

section \<open>Parsing\<close>

record CodeownersEntry =
  pattern :: jstring
  owners :: "jstring list"

text \<open>The words of \<open>split(/\s+/)\<close> on a trimmed line.\<close>

fun split_spaces :: "jstring \<Rightarrow> jstring list" where
  "split_spaces [] = [[]]"
| "split_spaces (c # cs) =
     (if is_space c then
        (case cs of
           d # ds \<Rightarrow> if is_space d then split_spaces cs else [] # split_spaces cs
         | [] \<Rightarrow> [[], []])
      else (case split_spaces cs of [] \<Rightarrow> [[c]] | word # words \<Rightarrow> (c # word) # words))"

fun parse_lines ::
  "rat \<Rightarrow> jstring list \<Rightarrow> CodeownersEntry list \<Rightarrow> CodeownersError + CodeownersEntry list" where
  "parse_lines maxEntries [] entries = Inr entries"
| "parse_lines maxEntries (rawLine # lines) entries =
     (let line = trim rawLine
      in if line = [] \<or> startsWith line (js ''#'') then parse_lines maxEntries lines entries
         else
           (let parts = split_spaces line;
                entries' = entries @ [\<lparr>pattern = hd parts, owners = tl parts\<rparr>]
            in if of_nat (length entries') > maxEntries then Inl EntriesLimitExceeded
               else parse_lines maxEntries lines entries'))"

definition parseCODEOWNERS :: "EvidenceLimits \<Rightarrow> jstring \<Rightarrow> CodeownersError + CodeownersEntry list"
where
  "parseCODEOWNERS limits content =
     (case checkedLimit (js ''maxCodeownersBytes'') (maxCodeownersBytes limits)
             DEFAULT_MAX_CODEOWNERS_BYTES (4 * 1024 * 1024) of
        Inl e \<Rightarrow> Inl e
      | Inr maxBytes \<Rightarrow>
          if of_nat (utf8_length content) > maxBytes then Inl BytesLimitExceeded
          else
            (let lines = (if content = [] then [] else js_split 10 content)
             in case checkedLimit (js ''maxCodeownersLines'') (maxCodeownersLines limits)
                       DEFAULT_MAX_CODEOWNERS_LINES 100000 of
                  Inl e \<Rightarrow> Inl e
                | Inr maxLines \<Rightarrow>
                    if of_nat (length lines) > maxLines then Inl LinesLimitExceeded
                    else
                      (case codeownersEntriesLimit limits of
                         Inl e \<Rightarrow> Inl e
                       | Inr maxEntries \<Rightarrow> parse_lines maxEntries lines [])))"

section \<open>Owners of changed files\<close>

text \<open>
  The owners are collected in a \<open>Set\<close>. Every file is tried against every entry, so one entry
  with an invalid pattern throws as soon as there is a file.
\<close>

definition resolveCodeowners ::
  "EvidenceLimits \<Rightarrow> jstring list \<Rightarrow> CodeownersEntry list \<Rightarrow> CodeownersError + jstring list" where
  "resolveCodeowners limits files entries =
     (case changedFileLimit limits of
        Inl e \<Rightarrow> Inl e
      | Inr fileLimit \<Rightarrow>
          if of_nat (length files) > fileLimit then Inl FilesLimitExceeded
          else (case codeownersEntriesLimit limits of
            Inl e \<Rightarrow> Inl e
          | Inr maxEntries \<Rightarrow>
              if of_nat (length entries) > maxEntries then Inl EntriesLimitExceeded
              else
                (let matchOperations = of_nat (length files) * of_nat (length entries) :: rat
                 in case (if isSafeInteger matchOperations then codeownerMatchOperationLimit limits
                          else Inr 0) of
                      Inl e \<Rightarrow> Inl e
                    | Inr operationLimit \<Rightarrow>
                        if \<not> isSafeInteger matchOperations \<or> matchOperations > operationLimit
                        then Inl MatchOperationsLimitExceeded
                        else if files \<noteq> []
                            \<and> list_ex (\<lambda>entry. glob_regex (glob_items (pattern entry)) = None) entries
                        then Inl InvalidPattern
                        else Inr (js_set (concat (map (\<lambda>file. concat (map (\<lambda>entry.
                            if matchesGlob file (pattern entry) = Some True then owners entry
                            else []) entries)) files))))))"

section \<open>Owner patterns and the globs of the kernel\<close>

primrec item_token :: "GlobItem \<Rightarrow> PathGlobToken" where
  "item_token (GChar c) = Literal c"
| "item_token GQuestion = Literal question"
| "item_token GStar = Star"
| "item_token GGlobstar = Globstar"
| "item_token GGlobstarSlash = GlobstarDirectories"

text \<open>Patterns whose runs of asterisks have at most two, without a question mark and without the
  intermediate texts.\<close>

fun plain_pattern :: "jstring \<Rightarrow> bool" where
  "plain_pattern [] = True"
| "plain_pattern (c # cs) =
     (c \<noteq> question \<and> \<not> (c = asterisk \<and> startsWith cs [asterisk, asterisk])
      \<and> \<not> startsWith (c # cs) GLOBSTAR_SLASH \<and> \<not> startsWith (c # cs) GLOBSTAR \<and> plain_pattern cs)"

lemma startsWith_simps [simp]:
  "startsWith s []" "\<not> startsWith [] (p # ps)"
  "startsWith (c # cs) (p # ps) \<longleftrightarrow> c = p \<and> startsWith cs ps"
  by (auto simp: startsWith_def)

lemma plain_glob_items:
  "plain_pattern p \<Longrightarrow> GQuestion \<notin> set (glob_items p)
     \<and> tokenizePathGlob p = map item_token (glob_items p)"
proof (induction p rule: glob_items.induct)
  case (2 c cs)
  then have texts: "\<not> startsWith (c # cs) GLOBSTAR_SLASH" "\<not> startsWith (c # cs) GLOBSTAR"
    by simp_all
  note IH = 2(3-7) [OF texts]
  show ?case
  proof (cases "c = asterisk")
    case False
    with IH(1) 2(8) texts show ?thesis by simp
  next
    case star: True
    show ?thesis
    proof (cases cs)
      case Nil
      with star texts show ?thesis by simp
    next
      case (Cons d ds)
      show ?thesis
      proof (cases "d = asterisk")
        case False
        with IH(4,5) 2(8) star Cons texts show ?thesis by simp
      next
        case True
        have "ds = [] \<or> hd ds \<noteq> asterisk"
          using 2(8) star Cons True by (cases ds) auto
        then have tw: "takeWhile (\<lambda>d. d = asterisk) ds = []" "dropWhile (\<lambda>d. d = asterisk) ds = ds"
          by (cases ds; simp)+
        show ?thesis
        proof (cases ds)
          case Nil
          with IH 2(8) star Cons True show ?thesis by simp
        next
          case (Cons e es)
          with IH 2(8) star \<open>cs = d # ds\<close> True tw show ?thesis by (cases "e = slash") simp_all
        qed
      qed
    qed
  qed
qed simp

lemma glob_regex_plain:
  "GQuestion \<notin> set items \<Longrightarrow> glob_regex items = Some (foldr (\<lambda>i. RSeq (item_regex i)) items REmpty)"
  by (induction items rule: glob_regex.induct) auto

lemma regex_glob_lang:
  assumes "GQuestion \<notin> set items" and "list_all not_newline path"
  shows "rx_matches (foldr (\<lambda>i. RSeq (item_regex i)) items REmpty) path
    \<longleftrightarrow> glob_lang (map item_token items) path"
  using assms
proof (induction items arbitrary: path)
  case (Cons i items)
  have rest: "rx_matches (foldr (\<lambda>i. RSeq (item_regex i)) items REmpty) v
      \<longleftrightarrow> glob_lang (map item_token items) v" if "path = u @ v" for u v
    using Cons that by simp
  show ?case
  proof (cases i)
    case (GChar c)
    then show ?thesis using rest by (auto simp: rx_seq_iff Cons_eq_append_conv)
  next
    case GStar
    have "rx_matches (RStar (RClass (\<lambda>c. c \<noteq> slash))) u \<longleftrightarrow> slash \<notin> set u" for u
      unfolding RStar_class_matches by blast
    then have "rx_matches (RSeq (item_regex GStar) (foldr (\<lambda>i. RSeq (item_regex i)) items REmpty)) path
        \<longleftrightarrow> (\<exists>u v. path = u @ v \<and> slash \<notin> set u \<and> glob_lang (map item_token items) v)"
      unfolding rx_seq_iff item_regex.simps using rest by blast
    with GStar show ?thesis by (simp add: glob_lang.simps del: item_regex.simps)
  next
    case GGlobstar
    have dots: "rx_matches rx_dotstar u" if "path = u @ v" for u v
      using Cons.prems(2) that by (simp add: rx_dotstar_def list_all_iff)
    have "rx_matches (RSeq rx_dotstar (foldr (\<lambda>i. RSeq (item_regex i)) items REmpty)) path
        \<longleftrightarrow> (\<exists>u v. path = u @ v \<and> glob_lang (map item_token items) v)"
      unfolding rx_seq_iff using dots rest by blast
    with GGlobstar show ?thesis by (simp add: glob_lang.simps)
  next
    case GGlobstarSlash
    have dirs: "rx_matches (ROpt (RSeq rx_dotstar (RChar slash))) u \<longleftrightarrow> u = [] \<or> last u = slash"
      if "path = u @ v" for u v
      using Cons.prems(2) that
      by (cases u rule: rev_cases) (auto simp: rx_seq_iff rx_dotstar_def list_all_iff)
    have "rx_matches (RSeq (item_regex GGlobstarSlash) (foldr (\<lambda>i. RSeq (item_regex i)) items REmpty)) path
        \<longleftrightarrow> (\<exists>u v. path = u @ v \<and> (u = [] \<or> last u = slash) \<and> glob_lang (map item_token items) v)"
      unfolding rx_seq_iff item_regex.simps using dirs rest by blast
    with GGlobstarSlash show ?thesis by (simp add: glob_lang.simps del: item_regex.simps)
  qed (use Cons.prems in simp)
qed simp

lemma matchesGlob_plain:
  assumes "plain_pattern p" and "list_all not_newline path"
  shows "matchesGlob path p = Some (matchesPathGlob p path)"
  using plain_glob_items [OF assms(1)] regex_glob_lang [OF _ assms(2)]
  by (simp add: matchesGlob_def glob_regex_plain pattern_lang_def)

section \<open>The parser reads back what a renderer writes\<close>

definition is_word :: "jstring \<Rightarrow> bool" where
  "is_word w \<longleftrightarrow> w \<noteq> [] \<and> (\<forall>c \<in> set w. \<not> is_space c)"

lemma split_spaces_single: "\<forall>c \<in> set w. \<not> is_space c \<Longrightarrow> split_spaces w = [w]"
  by (induction w) auto

lemma split_spaces_append:
  "\<forall>c \<in> set w. \<not> is_space c \<Longrightarrow> rest \<noteq> [] \<Longrightarrow> \<not> is_space (hd rest) \<Longrightarrow> is_space c \<Longrightarrow>
     split_spaces (w @ c # rest) = w # split_spaces rest"
proof (induction w)
  case Nil
  then show ?case by (cases rest) auto
qed auto

lemma split_spaces_join:
  "ws \<noteq> [] \<Longrightarrow> (\<And>w. w \<in> set ws \<Longrightarrow> is_word w) \<Longrightarrow> split_spaces (js_join [32] ws) = ws"
proof (induction ws rule: induct_list012)
  case (3 x y zs)
  have "js_join [32] (y # zs) \<noteq> [] \<and> \<not> is_space (hd (js_join [32] (y # zs)))"
    using 3(4) [of y] by (cases zs) (auto simp: is_word_def neq_Nil_conv)
  moreover have "is_space 32" by (simp add: is_space_def)
  moreover have "split_spaces (js_join [32] (y # zs)) = y # zs" using 3(2,4) by simp
  moreover have "\<forall>c \<in> set x. \<not> is_space c" using 3(4) [of x] by (simp add: is_word_def)
  ultimately show ?case using split_spaces_append [of x "js_join [32] (y # zs)" 32] by simp
qed (auto simp: is_word_def split_spaces_single)

lemma trim_words:
  assumes "s \<noteq> []" and "\<not> is_space (hd s)" and "\<not> is_space (last s)"
  shows "trim s = s"
proof -
  have 1: "dropWhile is_space s = s" using assms(1,2) by (cases s) auto
  have "dropWhile is_space (rev s) = rev s"
    using assms(1,3) by (cases s rule: rev_cases) auto
  with 1 show ?thesis by (simp add: trim_def)
qed

definition render_entry :: "CodeownersEntry \<Rightarrow> jstring" where
  "render_entry e = js_join [32] (pattern e # owners e)"

definition render_entries :: "CodeownersEntry list \<Rightarrow> jstring" where
  "render_entries es = js_join [10] (map render_entry es)"

definition entry_ok :: "CodeownersEntry \<Rightarrow> bool" where
  "entry_ok e \<longleftrightarrow> is_word (pattern e) \<and> hd (pattern e) \<noteq> 35 \<and> list_all is_word (owners e)"

lemma join_words_ends:
  assumes "ws \<noteq> []" and "\<And>w. w \<in> set ws \<Longrightarrow> is_word w"
  shows "js_join [32] ws \<noteq> [] \<and> hd (js_join [32] ws) = hd (hd ws) \<and> last (js_join [32] ws) = last (last ws)
    \<and> 10 \<notin> set (js_join [32] ws)"
  using assms
proof (induction ws rule: induct_list012)
  case (2 x)
  have "is_space 10" by (simp add: is_space_def)
  with 2 show ?case by (auto simp: is_word_def)
next
  case (3 x y zs)
  have "is_space 10" by (simp add: is_space_def)
  moreover have "js_join [32] (y # zs) \<noteq> []
    \<and> last (js_join [32] (y # zs)) = last (last (y # zs)) \<and> 10 \<notin> set (js_join [32] (y # zs))"
    using 3(2,4) by simp
  ultimately show ?case using 3(4) [of x] by (auto simp: is_word_def)
qed simp

lemma parse_line_rendered:
  assumes "entry_ok e"
  shows "trim (render_entry e) = render_entry e" and "render_entry e \<noteq> []"
    and "\<not> startsWith (render_entry e) (js ''#'')" and "split_spaces (render_entry e) = pattern e # owners e"
    and "10 \<notin> set (render_entry e)"
proof -
  let ?ws = "pattern e # owners e"
  have words: "is_word w" if "w \<in> set ?ws" for w
    using assms that by (auto simp: entry_ok_def list_all_iff)
  note ends = join_words_ends [of ?ws, OF _ words]
  have last: "\<not> is_space (last (last ?ws))" and first: "\<not> is_space (hd (pattern e))"
    using words [of "last ?ws"] words [of "pattern e"] by (auto simp: is_word_def)
  show "render_entry e \<noteq> []" "10 \<notin> set (render_entry e)" using ends by (simp_all add: render_entry_def)
  show "trim (render_entry e) = render_entry e"
    unfolding render_entry_def using ends first last by (intro trim_words) simp_all
  show "split_spaces (render_entry e) = ?ws"
    unfolding render_entry_def using words by (intro split_spaces_join) simp_all
  have "hd (render_entry e) \<noteq> 35" using ends assms by (simp add: render_entry_def entry_ok_def)
  then show "\<not> startsWith (render_entry e) (js ''#'')"
    using \<open>render_entry e \<noteq> []\<close> by (cases "render_entry e") (auto simp: js_def)
qed

lemma parse_lines_rendered:
  assumes "list_all entry_ok es" and "of_nat (length acc + length es) \<le> maxEntries"
  shows "parse_lines maxEntries (map render_entry es) acc = Inr (acc @ es)"
  using assms
proof (induction es arbitrary: acc)
  case (Cons e es)
  have "of_nat (length (acc @ [e])) \<le> maxEntries"
    using Cons.prems(2) by (rule order.trans [rotated]) simp
  with Cons show ?case by (simp add: parse_line_rendered Let_def)
qed simp

lemma parse_rendered:
  assumes "list_all entry_ok es" and "es \<noteq> []" and "length es \<le> 1000"
    and "utf8_length (render_entries es) \<le> 262144"
  shows "parseCODEOWNERS no_limits (render_entries es) = Inr es"
proof -
  have lines: "js_split 10 (render_entries es) = map render_entry es"
    unfolding render_entries_def using assms(1,2) parse_line_rendered(5)
    by (intro js_split_join) (auto simp: list_all_iff)
  have "render_entries es \<noteq> []"
    using assms(1,2) parse_line_rendered(2) by (cases es; cases "tl es")
      (auto simp: render_entries_def)
  moreover have "of_nat (utf8_length (render_entries es)) \<le> (262144 :: rat)"
    using assms(4) by (metis of_nat_le_iff of_nat_numeral)
  moreover have "of_nat (length es) \<le> (1000 :: rat)"
    using assms(3) by (metis of_nat_le_iff of_nat_numeral)
  ultimately show ?thesis
    using lines parse_lines_rendered [OF assms(1), of "[]" 1000]
    by (simp add: parseCODEOWNERS_def checkedLimit_def no_limits_def isSafeInteger_def Let_def
        codeownersEntriesLimit_def DEFAULT_MAX_CODEOWNERS_BYTES_def DEFAULT_MAX_CODEOWNERS_LINES_def
        DEFAULT_MAX_CODEOWNERS_ENTRIES_def not_less)
qed

end
