(* ===== verification/Effects.thy ===== *)
theory Effects
  imports Prelude
begin

text \<open>
  Code that calls services: a computation takes the state of the outside world and returns the
  next one with a result or a thrown error. Services are arguments of the code that uses them;
  the laws here let a successful run be taken apart call by call.
\<close>

type_synonym ('w, 'e, 'a) io = "'w \<Rightarrow> 'w \<times> ('e + 'a)"

definition io_return :: "'a \<Rightarrow> ('w, 'e, 'a) io" where
  "io_return a = (\<lambda>w. (w, Inr a))"

definition io_throw :: "'e \<Rightarrow> ('w, 'e, 'a) io" where
  "io_throw e = (\<lambda>w. (w, Inl e))"

definition io_bind :: "('w, 'e, 'a) io \<Rightarrow> ('a \<Rightarrow> ('w, 'e, 'b) io) \<Rightarrow> ('w, 'e, 'b) io" where
  "io_bind m f = (\<lambda>w. case m w of (w', Inl e) \<Rightarrow> (w', Inl e) | (w', Inr a) \<Rightarrow> f a w')"

text \<open>\<open>try { m } catch (e) { h(e) }\<close>: the effects of \<open>m\<close> before the throw remain.\<close>

definition io_catch :: "('w, 'e, 'a) io \<Rightarrow> ('e \<Rightarrow> ('w, 'e, 'a) io) \<Rightarrow> ('w, 'e, 'a) io" where
  "io_catch m h = (\<lambda>w. case m w of (w', Inl e) \<Rightarrow> h e w' | (w', Inr a) \<Rightarrow> (w', Inr a))"

lemma io_return_iff [simp]: "io_return a w = (w', r) \<longleftrightarrow> w' = w \<and> r = Inr a"
  by (auto simp: io_return_def)

lemma io_throw_iff [simp]: "io_throw e w = (w', r) \<longleftrightarrow> w' = w \<and> r = Inl e"
  by (auto simp: io_throw_def)

lemma io_bind_Inr:
  "io_bind m f w = (w', Inr b) \<longleftrightarrow> (\<exists>w1 a. m w = (w1, Inr a) \<and> f a w1 = (w', Inr b))"
  by (auto simp: io_bind_def split: prod.splits sum.splits)

lemma io_bind_Inl:
  "io_bind m f w = (w', Inl e) \<longleftrightarrow>
     m w = (w', Inl e) \<or> (\<exists>w1 a. m w = (w1, Inr a) \<and> f a w1 = (w', Inl e))"
  by (auto simp: io_bind_def split: prod.splits sum.splits)

lemma io_bind_eval:
  "m w = (w1, Inr a) \<Longrightarrow> io_bind m f w = f a w1"
  "m w = (w1, Inl e) \<Longrightarrow> io_bind m f w = (w1, Inl e)"
  by (simp_all add: io_bind_def)

lemma io_catch_Inr:
  "io_catch m h w = (w', Inr a) \<longleftrightarrow>
     m w = (w', Inr a) \<or> (\<exists>w1 e. m w = (w1, Inl e) \<and> h e w1 = (w', Inr a))"
  by (auto simp: io_catch_def split: prod.splits sum.splits)

lemma io_catch_Inl:
  "io_catch m h w = (w', Inl e) \<longleftrightarrow> (\<exists>w1 e1. m w = (w1, Inl e1) \<and> h e1 w1 = (w', Inl e))"
  by (auto simp: io_catch_def split: prod.splits sum.splits)

lemma io_return_apply [simp]: "io_return a w = (w, Inr a)"
  by (simp add: io_return_def)

lemma io_throw_apply [simp]: "io_throw e w = (w, Inl e)"
  by (simp add: io_throw_def)

text \<open>
  An invariant of the world that every call of a computation keeps; stated once for a
  predicate, it passes through the combinators.
\<close>

definition io_keeps :: "('w \<Rightarrow> bool) \<Rightarrow> ('w, 'e, 'a) io \<Rightarrow> bool" where
  "io_keeps P m \<longleftrightarrow> (\<forall>w. P w \<longrightarrow> P (fst (m w)))"

named_theorems io_keeps_intros

lemma io_keeps_return [io_keeps_intros]: "io_keeps P (io_return a)"
  by (simp add: io_keeps_def)

lemma io_keeps_throw [io_keeps_intros]: "io_keeps P (io_throw e)"
  by (simp add: io_keeps_def)

lemma io_keeps_bind [io_keeps_intros]:
  "io_keeps P m \<Longrightarrow> (\<And>a. io_keeps P (f a)) \<Longrightarrow> io_keeps P (io_bind m f)"
  by (auto simp: io_keeps_def io_bind_def split: prod.split sum.split)

lemma io_keeps_catch [io_keeps_intros]:
  "io_keeps P m \<Longrightarrow> (\<And>e. io_keeps P (h e)) \<Longrightarrow> io_keeps P (io_catch m h)"
  by (auto simp: io_keeps_def io_catch_def split: prod.split sum.split)

section \<open>Local variables\<close>

text \<open>
  A computation with local variables that survive a throw (a closure assigns them, a \<open>catch\<close>
  block reads them) runs on the world paired with the record of these variables.
\<close>

definition io_world :: "('w, 'e, 'a) io \<Rightarrow> ('w \<times> 's, 'e, 'a) io" where
  "io_world m = (\<lambda>(w, s). case m w of (w', r) \<Rightarrow> ((w', s), r))"

definition io_get :: "('s \<Rightarrow> 'a) \<Rightarrow> ('w \<times> 's, 'e, 'a) io" where
  "io_get f = (\<lambda>(w, s). ((w, s), Inr (f s)))"

definition io_set :: "('s \<Rightarrow> 's) \<Rightarrow> ('w \<times> 's, 'e, unit) io" where
  "io_set f = (\<lambda>(w, s). ((w, f s), Inr ()))"

definition io_locals :: "'s \<Rightarrow> ('w \<times> 's, 'e, 'a) io \<Rightarrow> ('w, 'e, 'a) io" where
  "io_locals s m = (\<lambda>w. case m (w, s) of ((w', s'), r) \<Rightarrow> (w', r))"

definition io_result :: "'e + 'a \<Rightarrow> ('w, 'e, 'a) io" where
  "io_result r = (\<lambda>w. (w, r))"

text \<open>\<open>try { m } finally { f }\<close>: an error of the cleanup replaces the outcome.\<close>

definition io_finally :: "('w, 'e, 'a) io \<Rightarrow> ('w, 'e, unit) io \<Rightarrow> ('w, 'e, 'a) io" where
  "io_finally m f = (\<lambda>w. case m w of (w', r) \<Rightarrow>
     (case f w' of (w'', Inl e) \<Rightarrow> (w'', Inl e) | (w'', Inr _) \<Rightarrow> (w'', r)))"

text \<open>A computation as the value of its outcome: the \<open>try\<close> whose handler only records the error.\<close>

definition io_attempt :: "('w, 'e, 'a) io \<Rightarrow> ('w, 'e, 'e + 'a) io" where
  "io_attempt m = (\<lambda>w. case m w of (w', r) \<Rightarrow> (w', Inr r))"

section \<open>Weakest preconditions\<close>

text \<open>
  From the state \<open>w\<close> a computation returns a value and a state in \<open>Q\<close>, or throws an error and
  leaves a state in \<open>E\<close>. The equations compute this through the combinators.
\<close>

definition io_wp ::
  "('w, 'e, 'a) io \<Rightarrow> ('a \<Rightarrow> 'w \<Rightarrow> bool) \<Rightarrow> ('e \<Rightarrow> 'w \<Rightarrow> bool) \<Rightarrow> 'w \<Rightarrow> bool" where
  "io_wp m Q E w \<longleftrightarrow> (case m w of (w', Inl e) \<Rightarrow> E e w' | (w', Inr a) \<Rightarrow> Q a w')"

named_theorems io_wp_simps \<open>the weakest precondition of each combinator\<close>

lemma io_wp_return [io_wp_simps]: "io_wp (io_return a) Q E w \<longleftrightarrow> Q a w"
  by (simp add: io_wp_def)

lemma io_wp_throw [io_wp_simps]: "io_wp (io_throw e) Q E w \<longleftrightarrow> E e w"
  by (simp add: io_wp_def)

lemma io_wp_result [io_wp_simps]:
  "io_wp (io_result r) Q E w \<longleftrightarrow> (case r of Inl e \<Rightarrow> E e w | Inr a \<Rightarrow> Q a w)"
  by (simp add: io_wp_def io_result_def)

lemma io_wp_bind [io_wp_simps]:
  "io_wp (io_bind m f) Q E w \<longleftrightarrow> io_wp m (\<lambda>a. io_wp (f a) Q E) E w"
  by (simp add: io_wp_def io_bind_def split: prod.split sum.split)

lemma io_wp_catch [io_wp_simps]:
  "io_wp (io_catch m h) Q E w \<longleftrightarrow> io_wp m Q (\<lambda>e. io_wp (h e) Q E) w"
  by (simp add: io_wp_def io_catch_def split: prod.split sum.split)

lemma io_wp_finally [io_wp_simps]:
  "io_wp (io_finally m f) Q E w \<longleftrightarrow>
     io_wp m (\<lambda>a. io_wp f (\<lambda>_. Q a) E) (\<lambda>e. io_wp f (\<lambda>_. E e) E) w"
  by (simp add: io_wp_def io_finally_def split: prod.split sum.split)

lemma io_wp_get [io_wp_simps]: "io_wp (io_get f) Q E p \<longleftrightarrow> Q (f (snd p)) p"
  by (simp add: io_wp_def io_get_def split: prod.split)

lemma io_wp_set [io_wp_simps]: "io_wp (io_set f) Q E p \<longleftrightarrow> Q () (fst p, f (snd p))"
  by (simp add: io_wp_def io_set_def split: prod.split)

lemma io_wp_world [io_wp_simps]:
  "io_wp (io_world m) Q E p \<longleftrightarrow>
     io_wp m (\<lambda>a w. Q a (w, snd p)) (\<lambda>e w. E e (w, snd p)) (fst p)"
  by (simp add: io_wp_def io_world_def split: prod.split sum.split)

lemma io_wp_locals [io_wp_simps]:
  "io_wp (io_locals s m) Q E w \<longleftrightarrow> io_wp m (\<lambda>a p. Q a (fst p)) (\<lambda>e p. E e (fst p)) (w, s)"
  by (simp add: io_wp_def io_locals_def split: prod.split sum.split)

lemma io_wp_attempt [io_wp_simps]:
  "io_wp (io_attempt m) Q E w \<longleftrightarrow> io_wp m (\<lambda>a. Q (Inr a)) (\<lambda>e. Q (Inl e)) w"
  by (simp add: io_wp_def io_attempt_def split: prod.split sum.split)

lemma io_wp_if [io_wp_simps]:
  "io_wp (if b then m else n) Q E w \<longleftrightarrow> (if b then io_wp m Q E w else io_wp n Q E w)"
  by simp

lemma io_wp_mono:
  "io_wp m Q E w \<Longrightarrow> (\<And>a w'. Q a w' \<Longrightarrow> Q' a w') \<Longrightarrow> (\<And>e w'. E e w' \<Longrightarrow> E' e w') \<Longrightarrow> io_wp m Q' E' w"
  by (simp add: io_wp_def split: prod.splits sum.splits)

lemma io_wp_bindI:
  "io_wp m R E w \<Longrightarrow> (\<And>a w'. R a w' \<Longrightarrow> io_wp (f a) Q E w') \<Longrightarrow> io_wp (io_bind m f) Q E w"
  by (auto simp: io_wp_bind elim: io_wp_mono)

lemma io_wp_catchI:
  "io_wp m Q R w \<Longrightarrow> (\<And>e w'. R e w' \<Longrightarrow> io_wp (h e) Q E w') \<Longrightarrow> io_wp (io_catch m h) Q E w"
  by (auto simp: io_wp_catch elim: io_wp_mono)

text \<open>A call of which nothing is assumed.\<close>

lemma io_wp_any: "(\<And>a w'. Q a w') \<Longrightarrow> (\<And>e w'. E e w') \<Longrightarrow> io_wp m Q E w"
  by (simp add: io_wp_def split: prod.split sum.split)

lemma io_wp_Inr: "io_wp m Q E w \<Longrightarrow> m w = (w', Inr a) \<Longrightarrow> Q a w'"
  by (simp add: io_wp_def)

lemma io_wp_Inl: "io_wp m Q E w \<Longrightarrow> m w = (w', Inl e) \<Longrightarrow> E e w'"
  by (simp add: io_wp_def)

lemma io_wpI: "(\<And>w' a. m w = (w', Inr a) \<Longrightarrow> Q a w') \<Longrightarrow> (\<And>w' e. m w = (w', Inl e) \<Longrightarrow> E e w') \<Longrightarrow> io_wp m Q E w"
  by (simp add: io_wp_def split: prod.split sum.split)

text \<open>A computation whose errors satisfy \<open>P\<close>, from every state.\<close>

definition io_throws :: "('e \<Rightarrow> bool) \<Rightarrow> ('w, 'e, 'a) io \<Rightarrow> bool" where
  "io_throws P m \<longleftrightarrow> (\<forall>w. io_wp m (\<lambda>_ _. True) (\<lambda>e _. P e) w)"

named_theorems io_throws_intros

lemma io_throws_return [io_throws_intros]: "io_throws P (io_return a)"
  by (simp add: io_throws_def io_wp_return)

lemma io_throws_throw [io_throws_intros]: "P e \<Longrightarrow> io_throws P (io_throw e)"
  by (simp add: io_throws_def io_wp_throw)

lemma io_throws_result [io_throws_intros]: "(\<And>e. r = Inl e \<Longrightarrow> P e) \<Longrightarrow> io_throws P (io_result r)"
  by (simp add: io_throws_def io_wp_result split: sum.split)

lemma io_throws_bind [io_throws_intros]:
  "io_throws P m \<Longrightarrow> (\<And>a. io_throws P (f a)) \<Longrightarrow> io_throws P (io_bind m f)"
  unfolding io_throws_def by (blast intro: io_wp_bindI)

lemma io_throws_finally [io_throws_intros]:
  "io_throws P m \<Longrightarrow> io_throws P f \<Longrightarrow> io_throws P (io_finally m f)"
  by (simp add: io_throws_def io_wp_def io_finally_def split: prod.splits sum.splits)

lemma io_throws_attempt [io_throws_intros]: "io_throws P (io_attempt m)"
  by (simp add: io_throws_def io_wp_def io_attempt_def split: prod.split)

lemma io_throws_if [io_throws_intros]:
  "(b \<Longrightarrow> io_throws P m) \<Longrightarrow> (\<not> b \<Longrightarrow> io_throws P n) \<Longrightarrow> io_throws P (if b then m else n)"
  by simp

lemma io_throws_Inl: "io_throws P m \<Longrightarrow> m w = (w', Inl e) \<Longrightarrow> P e"
  unfolding io_throws_def io_wp_def by (metis (mono_tags, lifting) case_prod_conv sum.case(1))

end
