(* ===== verification/MergeSteward.thy ===== *)
theory MergeSteward
  imports PrDoctor Codeowners AgentAuthorizer Effects
begin

text \<open>
  The merge steward of \<open>packages/pr/src/merge.ts\<close>: fetch, classify, check the base branch, load
  the CODEOWNERS of the immutable base commit (\<open>loadPRCodeownerEvidence\<close> of
  \<open>codeowners.ts\<close>), diagnose, authorize, merge.

  GitHub is a record of services: reading a pull request (\<open>fetch.ts\<close>), reading CODEOWNERS at a
  commit, and merging. Their errors are an arbitrary type.
\<close>

section \<open>Services\<close>

record MergeOptions =
  mo_method :: "jstring option"
  mo_commitTitle :: "jstring option"
  mo_commitMessage :: "jstring option"
  mo_expectedHeadSha :: "jstring option"

record MergeOutcome =
  mg_merged :: bool
  mg_sha :: "jstring option"
  mg_message :: jstring

datatype 'x StewardError =
  CodeownerEvidenceUnavailable jstring int
| CodeownersFailure CodeownersError
| ServiceError 'x

record ('w, 'x) MergeServices =
  fetchPRDetails :: "int \<Rightarrow> ('w, 'x StewardError, PRReviewReport) io"
  getCODEOWNERS :: "jstring \<Rightarrow> ('w, 'x StewardError, jstring option) io"
  mergePR :: "int \<Rightarrow> MergeOptions \<Rightarrow> ('w, 'x StewardError, MergeOutcome) io"

record MergeStewardOptions =
  so_merge :: MergeOptions
  so_snapshot :: "AgentPermissionSnapshot option"

record MergeStewardResult =
  ms_merged :: bool
  ms_decision :: PRReviewState
  ms_reason :: jstring
  ms_sha :: "jstring option"
  ms_message :: jstring

section \<open>CODEOWNERS evidence\<close>

record PRCodeownerEvidence =
  ce_ref :: jstring
  ce_owners :: "jstring list"
  ce_entries :: "CodeownersEntry list"

definition lift_codeowners :: "CodeownersError + 'a \<Rightarrow> ('w, 'x StewardError, 'a) io" where
  "lift_codeowners r = (case r of Inl e \<Rightarrow> io_throw (CodeownersFailure e) | Inr a \<Rightarrow> io_return a)"

definition loadPRCodeownerEvidence ::
  "('w, 'x) MergeServices \<Rightarrow> EvidenceLimits \<Rightarrow> PRReviewReport \<Rightarrow>
     ('w, 'x StewardError, PRCodeownerEvidence) io" where
  "loadPRCodeownerEvidence services limits report =
     (if (case baseSha report of None \<Rightarrow> True | Some sha \<Rightarrow> trim sha = []) then
        io_throw (CodeownerEvidenceUnavailable
          (js ''PR #'' @ js_int (pr_number report) @ js '' is missing its immutable base SHA.'')
          (pr_number report))
      else
        (let ref = the (baseSha report)
         in io_bind (getCODEOWNERS services ref) (\<lambda>content.
            case content of
              None \<Rightarrow>
                io_throw (CodeownerEvidenceUnavailable
                  (js ''CODEOWNERS could not be loaded from '' @ ref @ js ''.'') (pr_number report))
            | Some text \<Rightarrow>
                io_bind (lift_codeowners (parseCODEOWNERS limits text)) (\<lambda>entries.
                io_bind (lift_codeowners (resolveCodeowners limits (changedFiles report) entries))
                  (\<lambda>found.
                io_return \<lparr>ce_ref = ref, ce_owners = found, ce_entries = entries\<rparr>)))))"

section \<open>The steward\<close>

text \<open>The line feeds of the messages are code unit 10.\<close>

definition blockedMessage :: "jstring \<Rightarrow> jstring \<Rightarrow> jstring \<Rightarrow> jstring" where
  "blockedMessage d reason recommendation =
     js ''Merge blocked: '' @ d @ [10] @ reason @ [10] @ js ''Recommendation: '' @ recommendation"

definition mergeRequest :: "AgentPermissionSnapshot \<Rightarrow> AuthorizationRequest" where
  "mergeRequest snap =
     \<lparr>snapshot = Some snap, action = js ''github.merge'', AuthorizationRequest.changedPaths = None,
      declaredScope = None, riskZone = None\<rparr>"

text \<open>The authorization gate, enforced when a snapshot is given: an answer other than allow.\<close>

definition refusedAuthorization :: "MergeStewardOptions \<Rightarrow> AuthorizationResult option" where
  "refusedAuthorization options =
     (case so_snapshot options of
        None \<Rightarrow> None
      | Some snap \<Rightarrow>
          (let auth = authorizeAgentAction (mergeRequest snap)
           in if decision auth \<noteq> AuthAllow then Some auth else None))"

text \<open>\<open>state_name\<close> prints a review state.\<close>

definition mergeIfReady ::
  "(PRReviewState \<Rightarrow> jstring) \<Rightarrow> (jstring \<Rightarrow> js_value option) \<Rightarrow> ('w, 'x) MergeServices \<Rightarrow> int \<Rightarrow>
     PRReviewPolicy \<Rightarrow> MergeStewardOptions \<Rightarrow> ('w, 'x StewardError, MergeStewardResult) io" where
  "mergeIfReady state_name parse_yaml services prNumber policy options =
     io_bind (fetchPRDetails services prNumber) (\<lambda>report.
       let classified = classifyPRReport report
       in case evaluatePRBasePolicy classified of
            Some violation \<Rightarrow>
              io_return
                \<lparr>ms_merged = False, ms_decision = bl_decision violation,
                 ms_reason = bl_reason violation, ms_sha = None,
                 ms_message = blockedMessage (state_name (bl_decision violation))
                   (bl_reason violation) (bl_recommendation violation)\<rparr>
          | None \<Rightarrow>
              io_bind (loadPRCodeownerEvidence services no_limits classified) (\<lambda>found.
                let diagnosed = diagnosePR parse_yaml classified policy (ce_owners found)
                in if pr_decision diagnosed \<noteq> READY_TO_MERGE then
                     io_return
                       \<lparr>ms_merged = False, ms_decision = pr_decision diagnosed,
                        ms_reason = pr_reason diagnosed, ms_sha = None,
                        ms_message = blockedMessage (state_name (pr_decision diagnosed))
                          (pr_reason diagnosed) (pr_recommendation diagnosed)\<rparr>
                   else
                     (case refusedAuthorization options of
                        Some auth \<Rightarrow>
                          io_return
                            \<lparr>ms_merged = False, ms_decision = BLOCKED_AUTHORIZATION,
                             ms_reason = ev_reason (evidence auth), ms_sha = None,
                             ms_message =
                               (if decision auth = AuthAsk
                                then js ''Merge requires authorization confirmation: ''
                                else js ''Merge denied: '') @ ev_reason (evidence auth)\<rparr>
                      | None \<Rightarrow>
                          io_bind (mergePR services prNumber (so_merge options)) (\<lambda>outcome.
                            io_return
                              \<lparr>ms_merged = mg_merged outcome, ms_decision = pr_decision diagnosed,
                               ms_reason = pr_reason diagnosed, ms_sha = mg_sha outcome,
                               ms_message = mg_message outcome\<rparr>))))"

section \<open>When the steward merges\<close>

lemma classifyPRReport_fields [simp]:
  "pr_riskZone (classifyPRReport report) = classifyPaths (changedFiles report)"
  "pr_decision (classifyPRReport report) \<noteq> READY_TO_MERGE"
  "pr_draft (classifyPRReport report) = pr_draft report"
  "pr_state (classifyPRReport report) = pr_state report"
  "baseRef (classifyPRReport report) = baseRef report"
  "pr_checks (classifyPRReport report) = pr_checks report"
  "pr_reviews (classifyPRReport report) = pr_reviews report"
  "pr_author (classifyPRReport report) = pr_author report"
  "headSha (classifyPRReport report) = headSha report"
  "baseSha (classifyPRReport report) = baseSha report"
  "changedFiles (classifyPRReport report) = changedFiles report"
  "pr_mergeable (classifyPRReport report) = pr_mergeable report"
  "headRef (classifyPRReport report) = headRef report"
  "pr_body (classifyPRReport report) = pr_body report"
  "filePatches (classifyPRReport report) = filePatches report"
  "pr_number (classifyPRReport report) = pr_number report"
  by (cases "classifyPaths (changedFiles report)"; simp add: classifyPRReport_def decide_def)+

text \<open>Everything the steward reads and requires before it calls \<open>mergePR\<close>.\<close>

definition mergeGates ::
  "(jstring \<Rightarrow> js_value option) \<Rightarrow> ('w, 'x) MergeServices \<Rightarrow> int \<Rightarrow> PRReviewPolicy \<Rightarrow>
     MergeStewardOptions \<Rightarrow> 'w \<Rightarrow> PRReviewReport \<Rightarrow> jstring list \<Rightarrow> 'w \<Rightarrow> bool" where
  "mergeGates parse_yaml services prNumber policy options w report codeowners w' \<longleftrightarrow>
     (\<exists>w1 found. fetchPRDetails services prNumber w = (w1, Inr report)
        \<and> loadPRCodeownerEvidence services no_limits (classifyPRReport report) w1 = (w', Inr found)
        \<and> ce_owners found = codeowners)
     \<and> baseRef report = CANONICAL_PR_BASE_REF
     \<and> pr_decision (diagnosePR parse_yaml (classifyPRReport report) policy codeowners) = READY_TO_MERGE
     \<and> refusedAuthorization options = None"

lemma refusedAuthorization_None:
  "refusedAuthorization options = None \<longleftrightarrow>
     so_snapshot options = None
     \<or> (\<exists>snap. so_snapshot options = Some snap
          \<and> decision (authorizeAgentAction (mergeRequest snap)) = AuthAllow)"
  by (auto simp: refusedAuthorization_def Let_def split: option.split)

lemma mergeIfReady_merged:
  assumes "mergeIfReady state_name parse_yaml services n policy options w = (w', Inr res)"
    and "ms_merged res"
  shows "\<exists>report codeowners w1 outcome.
    mergeGates parse_yaml services n policy options w report codeowners w1
    \<and> mergePR services n (so_merge options) w1 = (w', Inr outcome) \<and> mg_merged outcome"
  using assms
  by (cases "refusedAuthorization options")
    (auto simp: mergeIfReady_def io_bind_Inr Let_def mergeGates_def evaluatePRBasePolicy_def
      split: option.splits if_splits)

text \<open>Without the gates, \<open>mergePR\<close> is not called: the run is the same whatever it does.\<close>

lemma loadPRCodeownerEvidence_mergePR [simp]:
  "loadPRCodeownerEvidence (services\<lparr>mergePR := f\<rparr>) = loadPRCodeownerEvidence services"
  by (simp add: loadPRCodeownerEvidence_def fun_eq_iff)

lemma mergeIfReady_ungated:
  assumes "\<nexists>report codeowners w1. mergeGates parse_yaml services n policy options w report codeowners w1"
  shows "mergeIfReady state_name parse_yaml (services\<lparr>mergePR := f\<rparr>) n policy options w
    = mergeIfReady state_name parse_yaml services n policy options w"
proof (cases "fetchPRDetails services n w")
  case (Pair w1 r)
  show ?thesis
  proof (cases r)
    case (Inl e)
    with Pair show ?thesis by (simp add: mergeIfReady_def io_bind_def)
  next
    case (Inr report)
    show ?thesis
    proof (cases "loadPRCodeownerEvidence services no_limits (classifyPRReport report) w1")
      case load: (Pair w2 q)
      show ?thesis
      proof (cases q)
        case (Inl e)
        with Pair Inr load show ?thesis
          by (simp add: mergeIfReady_def io_bind_def Let_def split: option.split)
      next
        case found: (Inr found)
        have "\<not> mergeGates parse_yaml services n policy options w report (ce_owners found) w2"
          using assms by blast
        with Pair Inr load found show ?thesis
          by (auto simp: mergeIfReady_def io_bind_def Let_def mergeGates_def evaluatePRBasePolicy_def
              split: option.split if_splits)
      qed
    qed
  qed
qed

end
