(* ===== verification/PrProperties.thy ===== *)
theory PrProperties
  imports MergeSteward
begin

text \<open>
  The properties of the pull-request review system: when a pull request is ready and merged,
  what the gates guarantee, and how CODEOWNERS patterns relate to the kernel's globs.
\<close>

section \<open>A concrete pull request\<close>

definition bob_review :: PRReviewEvidence where
  "bob_review =
     \<lparr>rv_user = js ''bob'', rv_state = js ''APPROVED'', rv_body = None, rv_submittedAt = None,
      rv_commitOid = Some (js ''h1'')\<rparr>"

definition docs_report :: PRReviewReport where
  "docs_report =
     \<lparr>requiredCheckIssue = None, pr_merged = None, headRepoFullName = None, baseRepoFullName = None,
      pr_number = 7, pr_title = js ''Docs'', pr_author = js ''alice'', pr_state = js ''open'',
      pr_draft = False, baseRef = js ''main'', baseSha = Some (js ''b1''), headSha = Some (js ''h1''),
      pr_riskZone = Green, changedFiles = [js ''docs/a.md''], filePatches = None,
      pr_checks = [\<lparr>ck_name = js ''ci'', ck_status = js ''completed'', ck_conclusion = Some (js ''success'')\<rparr>],
      pr_reviews = [bob_review], humanApprovals = [js ''bob''], pr_decision = DISCOVERED,
      pr_reason = [], pr_recommendation = [], pr_mergeable = True, pr_body = Some [],
      headRef = Some (js ''feature''), workflowEvidence = None, workflowGovernanceIssue = None,
      workflowGate = None, profileSyncGate = None\<rparr>"

definition docs_policy :: PRReviewPolicy where
  "docs_policy =
     \<lparr>no_auto_approval = True, no_self_review = True, red_zone_human_required = True,
      black_zone_never_merge = True, required_base_ref = js ''main'', effective_after_pr = 0,
      required_check_contexts = Some [Green \<mapsto> [js ''ci'']]\<rparr>"

lemma docs_report_simps [simp]:
  "pr_number docs_report = 7" "pr_author docs_report = js ''alice''" "pr_state docs_report = js ''open''"
  "\<not> pr_draft docs_report" "baseRef docs_report = js ''main''" "baseSha docs_report = Some (js ''b1'')"
  "headSha docs_report = Some (js ''h1'')" "changedFiles docs_report = [js ''docs/a.md'']"
  "filePatches docs_report = None" "pr_reviews docs_report = [bob_review]"
  "pr_checks docs_report =
     [\<lparr>ck_name = js ''ci'', ck_status = js ''completed'', ck_conclusion = Some (js ''success'')\<rparr>]"
  "humanApprovals docs_report = [js ''bob'']" "pr_mergeable docs_report" "pr_body docs_report = Some []"
  "headRef docs_report = Some (js ''feature'')" "rv_user bob_review = js ''bob''"
  by (simp_all add: docs_report_def bob_review_def)

lemma docs_zone: "effectiveZone (js ''docs/a.md'') = Green"
  by (simp add: zone_eval)

lemma docs_valid_approvals: "filterValidApprovals [bob_review] (js ''alice'') (Some (js ''h1'')) = [js ''bob'']"
proof -
  have "\<not> isBotUser (js ''bob'')"
    by (simp add: isBotUser_def KNOWN_BOTS_def endsWith_def startsWith_def toLowerCase_def
        lower_char_def js_def)
  then show ?thesis
    by (simp add: filterValidApprovals_def bob_review_def toLowerCase_def lower_char_def js_def)
qed

lemma docs_gates_na:
  "touchedArtifacts (workflowGateInput (classifyPRReport docs_report) codeowners) = []"
  "\<not> isProfileSyncPR [js ''docs/a.md''] (js ''feature'') []"
  by (simp_all add: touchedArtifacts_def workflowGateInput_def docs_report_def isWorkflowArtifactPath_def
      normalizePath_def WORKFLOW_ARTIFACT_ROOTS_def CORE_WORKFLOW_ARTIFACTS_def isProfileSyncPR_def
      PROFILE_SYNC_BRANCH_PREFIX_def PROFILE_SYNC_TARGET_PATH_def js_def startsWith_def)

section \<open>Readiness\<close>

text \<open>C5: A classified pull request is ready to merge exactly when it is an open, mergeable,
  non-draft pull request against \<open>main\<close> outside the Black zone; the workflow and profile-sync
  gates do not fail; no check is pending or failing; each required context of its zone has
  exactly one result, completed and successful; the author is not the only CODEOWNER and, under
  the policy, has not approved; some human other than the author approved the current head; and
  a Red one with CODEOWNERS has the approval of one of them.\<close>

theorem diagnose_ready_iff:
  "pr_decision (diagnosePR parse_yaml (classifyPRReport report) policy codeowners) = READY_TO_MERGE \<longleftrightarrow>
     \<not> pr_draft report \<and> pr_state report = js ''open'' \<and> baseRef report = js ''main''
     \<and> pr_mergeable report \<and> classifyPaths (changedFiles report) \<noteq> Black
     \<and> wg_overall (evaluateWorkflowGate parse_yaml
          (workflowGateInput (classifyPRReport report) codeowners)) \<noteq> FAIL
     \<and> ps_overall (profileSyncGateOf report) \<noteq> FAIL
     \<and> \<not> (\<exists>c \<in> set (pr_checks report). pendingCheck c \<or> failingCheck c)
     \<and> \<not> (\<exists>name \<in> set (requiredContexts policy (classifyPaths (changedFiles report))).
            \<not> (\<exists>check. filter (\<lambda>c. ck_name c = name) (pr_checks report) = [check]
                 \<and> ck_status check = js ''completed'' \<and> ck_conclusion check = Some (js ''success'')))
     \<and> \<not> (codeowners \<noteq> [] \<and> set codeowners = {at_sign (pr_author report)})
     \<and> \<not> (no_self_review policy
          \<and> (\<exists>r \<in> set (pr_reviews report). rv_user r = pr_author report \<and> rv_state r = js ''APPROVED''))
     \<and> filterValidApprovals (pr_reviews report) (pr_author report) (headSha report) \<noteq> []
     \<and> \<not> (red_zone_human_required policy \<and> classifyPaths (changedFiles report) = Red \<and> codeowners \<noteq> []
          \<and> \<not> (\<exists>u \<in> set (filterValidApprovals (pr_reviews report) (pr_author report) (headSha report)).
                 \<exists>owner \<in> set codeowners. drop_first_at owner = u))"
proof -
  have ps: "profileSyncGateOf (classifyPRReport report) = profileSyncGateOf report"
    by (simp add: profileSyncGateOf_def)
  have owners: "codeownerApprovals approvers codeowners = [] \<longleftrightarrow>
      \<not> (\<exists>u \<in> set approvers. \<exists>owner \<in> set codeowners. drop_first_at owner = u)" for approvers
    by (auto simp: codeownerApprovals_def filter_empty_conv list_ex_iff)
  show ?thesis
    unfolding diagnosePR_ready [OF classifyPRReport_fields(2)] approvalsOk_def Let_def ps
      checksBlocker_None requiredCheckBlocker_def requiredCheck_None classifyPRReport_fields
      CANONICAL_PR_BASE_REF_def owners
    by blast
qed

lemma docs_ready:
  "pr_decision (diagnosePR parse_yaml (classifyPRReport docs_report) docs_policy []) = READY_TO_MERGE"
proof -
  have "ps_overall (profileSyncGateOf docs_report) \<noteq> FAIL"
    using docs_gates_na(2) by (simp add: profile_gate_not_fail profileSyncGateOf_def)
  moreover have "wg_overall (evaluateWorkflowGate parse_yaml
      (workflowGateInput (classifyPRReport docs_report) [])) \<noteq> FAIL"
    by (simp add: gate_not_fail docs_gates_na(1))
  ultimately show ?thesis
    by (simp add: diagnosePR_ready approvalsOk_def profileSyncGateOf_def docs_zone docs_valid_approvals
        checksBlocker_def pendingCheck_def failingCheck_def requiredCheckBlocker_def
        requiredContexts_def docs_policy_def CANONICAL_PR_BASE_REF_def)
qed

text \<open>C36: On a report with a head commit whose human approvals were recorded from its reviews the
  way \<open>fetchPRDetails\<close> does, the pre-check \<open>checkMergeReadiness\<close> never blocks what the full diagnosis
  lets through: classified and ready for the diagnosis, it is ready for the pre-check too.\<close>

theorem readiness_refined_by_diagnosis:
  assumes "pr_decision (diagnosePR parse_yaml (classifyPRReport report) policy codeowners) = READY_TO_MERGE"
    and "\<not> falsy (headSha report)"
    and "humanApprovals report = fetchedApprovals (pr_reviews report) (pr_author report) (headSha report)"
  shows "pr_decision (checkMergeReadiness (classifyPRReport report) policy) = READY_TO_MERGE"
proof -
  let ?c = "(classifyPRReport report)\<lparr>requiredCheckIssue := None\<rparr>"
  from assms(1) have ok: "baseRef report = CANONICAL_PR_BASE_REF" "pr_riskZone (classifyPRReport report) \<noteq> Black"
    "approvalsOk (classifyPRReport report) policy codeowners"
    by (simp_all add: diagnosePR_ready)
  then have checks: "checksBlocker (pr_checks report) = None"
    "requiredCheckBlocker (classifyPRReport report) policy = None"
    "filterValidApprovals (pr_reviews report) (pr_author report) (headSha report) \<noteq> []"
    by (simp_all add: approvalsOk_def Let_def)
  have human: "humanApprovals (classifyPRReport report) = humanApprovals report"
    by (cases "classifyPaths (changedFiles report)") (simp_all add: classifyPRReport_def decide_def)
  have "requiredCheckBlocker ?c policy = None"
    using checks(2) by (simp add: requiredCheckBlocker_def)
  moreover have "evaluatePRBasePolicy ?c = None"
    using ok(1) by (simp add: evaluatePRBasePolicy_def)
  ultimately show ?thesis
    using ok(2) checks assms(3) human fetchedApprovals_head [OF assms(2)]
    by (cases "classifyPaths (changedFiles report)") (simp_all add: checkMergeReadiness_def Let_def)
qed

theorem readiness_refined_by_diagnosis_witness:
  "pr_decision (checkMergeReadiness (classifyPRReport docs_report) docs_policy) = READY_TO_MERGE"
  by (rule readiness_refined_by_diagnosis [OF docs_ready [of "\<lambda>_. None"]])
    (simp_all add: fetchedApprovals_head docs_valid_approvals falsy_def)

section \<open>Merging\<close>

definition docs_services :: "MergeOutcome \<Rightarrow> (bool, unit) MergeServices" where
  "docs_services outcome =
     \<lparr>fetchPRDetails = (\<lambda>n. io_return docs_report),
      getCODEOWNERS = (\<lambda>ref. io_return (Some [])),
      mergePR = (\<lambda>n options w. (True, Inr outcome))\<rparr>"

definition plain_options :: MergeStewardOptions where
  "plain_options =
     \<lparr>so_merge = \<lparr>mo_method = None, mo_commitTitle = None, mo_commitMessage = None,
        mo_expectedHeadSha = None\<rparr>, so_snapshot = None\<rparr>"

definition merged_outcome :: MergeOutcome where
  "merged_outcome = \<lparr>mg_merged = True, mg_sha = None, mg_message = []\<rparr>"

lemma docs_services_simps [simp]:
  "fetchPRDetails (docs_services outcome) n = io_return docs_report"
  "getCODEOWNERS (docs_services outcome) ref = io_return (Some [])"
  "mergePR (docs_services outcome) n options w = (True, Inr outcome)"
  "mg_merged merged_outcome" "mg_sha merged_outcome = None" "mg_message merged_outcome = []"
  "so_snapshot plain_options = None"
  by (simp_all add: docs_services_def merged_outcome_def plain_options_def)

lemma docs_steward:
  "mergeIfReady state_name parse_yaml (docs_services merged_outcome) 7 docs_policy plain_options False
     = (True, Inr \<lparr>ms_merged = True, ms_decision = READY_TO_MERGE,
          ms_reason = pr_reason (diagnosePR parse_yaml (classifyPRReport docs_report) docs_policy []),
          ms_sha = None, ms_message = []\<rparr>)"
proof -
  have "loadPRCodeownerEvidence (docs_services merged_outcome) no_limits (classifyPRReport docs_report) False
      = (False, Inr \<lparr>ce_ref = js ''b1'', ce_owners = [], ce_entries = []\<rparr>)"
    by (simp add: loadPRCodeownerEvidence_def io_bind_def trim_def
        is_space_def js_def lift_codeowners_def parseCODEOWNERS_def checkedLimit_def no_limits_def
        isSafeInteger_def DEFAULT_MAX_CODEOWNERS_BYTES_def DEFAULT_MAX_CODEOWNERS_LINES_def
        codeownersEntriesLimit_def DEFAULT_MAX_CODEOWNERS_ENTRIES_def resolveCodeowners_def
        changedFileLimit_def DEFAULT_MAX_CHANGED_FILES_def codeownerMatchOperationLimit_def
        DEFAULT_MAX_CODEOWNER_MATCH_OPERATIONS_def Let_def)
  moreover have "evaluatePRBasePolicy (classifyPRReport docs_report) = None"
    by (simp add: evaluatePRBasePolicy_def CANONICAL_PR_BASE_REF_def)
  ultimately show ?thesis
    by (simp add: mergeIfReady_def io_bind_def Let_def refusedAuthorization_def docs_ready)
qed

text \<open>C4: A merge is only ever reported for a pull request that was fetched in the same run, is
  against \<open>main\<close>, is not Black, has no pending or failing check, and was approved by a human other
  than its author, on the fetched head where the report has one (without a head commit the code
  counts an approval of any commit); and when an agent's snapshot is given, the authorization of
  \<open>github.merge\<close> for that agent was allowed.\<close>

theorem merged_was_approved:
  assumes "mergeIfReady state_name parse_yaml services n policy options w = (w', Inr res)"
    and "ms_merged res"
  shows "\<exists>report w1. fetchPRDetails services n w = (w1, Inr report)
    \<and> classifyPaths (changedFiles report) \<noteq> Black \<and> baseRef report = js ''main''
    \<and> \<not> (\<exists>c \<in> set (pr_checks report). pendingCheck c \<or> failingCheck c)
    \<and> (\<exists>r \<in> set (pr_reviews report). rv_state r = js ''APPROVED'' \<and> \<not> isBotUser (rv_user r)
        \<and> toLowerCase (rv_user r) \<noteq> toLowerCase (pr_author report)
        \<and> (falsy (headSha report) \<or> rv_commitOid r = headSha report))
    \<and> (so_snapshot options = None
        \<or> (\<exists>snap. so_snapshot options = Some snap
             \<and> decision (authorizeAgentAction (mergeRequest snap)) = AuthAllow
             \<and> can_merge (github (permissions snap))))"
proof -
  from mergeIfReady_merged [OF assms] obtain report codeowners w1
    where gates: "mergeGates parse_yaml services n policy options w report codeowners w1" by blast
  have ready: "\<not> pr_draft report" "classifyPaths (changedFiles report) \<noteq> Black"
    "approvalsOk (classifyPRReport report) policy codeowners" "baseRef report = js ''main''"
    using gates by (simp_all add: mergeGates_def diagnosePR_ready CANONICAL_PR_BASE_REF_def)
  then have checks: "\<not> (\<exists>c \<in> set (pr_checks report). pendingCheck c \<or> failingCheck c)"
    and "filterValidApprovals (pr_reviews report) (pr_author report) (headSha report) \<noteq> []"
    by (auto simp: approvalsOk_def Let_def checksBlocker_None)
  then obtain u where "u \<in> set (filterValidApprovals (pr_reviews report) (pr_author report) (headSha report))"
    using hd_in_set by blast
  then have review: "\<exists>r \<in> set (pr_reviews report). rv_state r = js ''APPROVED'' \<and> \<not> isBotUser (rv_user r)
      \<and> toLowerCase (rv_user r) \<noteq> toLowerCase (pr_author report)
      \<and> (falsy (headSha report) \<or> rv_commitOid r = headSha report)"
    unfolding filterValidApprovals_iff by blast
  have "decision (authorizeAgentAction (mergeRequest snap)) = AuthAllow
      \<and> can_merge (github (permissions snap))" if "so_snapshot options = Some snap" for snap
    using gates that
    by (auto simp: mergeGates_def refusedAuthorization_None authorize_allow gatesPass_def mergeRequest_def)
  with gates ready checks review show ?thesis
    unfolding mergeGates_def by (cases "so_snapshot options") blast+
qed

theorem merged_was_approved_witness:
  "\<exists>report w1. fetchPRDetails (docs_services merged_outcome) 7 False = (w1, Inr report)
    \<and> classifyPaths (changedFiles report) \<noteq> Black"
  using merged_was_approved [OF docs_steward [of "\<lambda>_. []" "\<lambda>_. None"]] by fastforce

text \<open>C3: The merge service is called only behind the gates: if two implementations of
  \<open>mergePR\<close> make any difference to a run, then the run fetched a report and its CODEOWNERS, the
  diagnosis was \<open>READY_TO_MERGE\<close> and no authorization was refused.\<close>

theorem merge_call_gated:
  assumes "mergeIfReady state_name parse_yaml (services\<lparr>mergePR := f\<rparr>) n policy options w
    \<noteq> mergeIfReady state_name parse_yaml services n policy options w"
  shows "\<exists>report found w1 w2. fetchPRDetails services n w = (w1, Inr report)
    \<and> loadPRCodeownerEvidence services no_limits (classifyPRReport report) w1 = (w2, Inr found)
    \<and> pr_decision (diagnosePR parse_yaml (classifyPRReport report) policy (ce_owners found)) = READY_TO_MERGE
    \<and> refusedAuthorization options = None"
  using mergeIfReady_ungated [of parse_yaml services n policy options w state_name f] assms
  unfolding mergeGates_def by blast

theorem merge_call_gated_witness:
  "\<exists>report. fetchPRDetails (docs_services merged_outcome) 7 False = (False, Inr report)
    \<and> refusedAuthorization plain_options = None"
proof -
  let ?f = "\<lambda>n options w. (w, Inr merged_outcome)"
  have "fst (mergeIfReady (\<lambda>_. []) (\<lambda>_. None) ((docs_services merged_outcome)\<lparr>mergePR := ?f\<rparr>) 7
      docs_policy plain_options w) = w" for w
    by (auto simp: mergeIfReady_def io_bind_def loadPRCodeownerEvidence_def Let_def
        lift_codeowners_def split: option.split sum.split prod.split)
  then have "mergeIfReady (\<lambda>_. []) (\<lambda>_. None) ((docs_services merged_outcome)\<lparr>mergePR := ?f\<rparr>) 7
      docs_policy plain_options False
    \<noteq> mergeIfReady (\<lambda>_. []) (\<lambda>_. None) (docs_services merged_outcome) 7 docs_policy plain_options False"
    unfolding docs_steward by (metis fst_conv)
  from merge_call_gated [OF this] show ?thesis by auto
qed

end
