(* ===== verification/GateProperties.thy ===== *)
theory GateProperties
  imports PrDoctor Codeowners
begin

text \<open>
  The properties of the gates of the pull-request review system: what a passing workflow or
  profile-sync gate guarantees, what workflow evidence lists, and how CODEOWNERS are read.
\<close>

section \<open>The workflow gate\<close>

lemma trust_review_of_scope:
  assumes "trustDecisionOf input = Some d" and "trustScopeValid input"
  shows "\<exists>r \<in> set (currentHumanReviews input). reviewMarker r = MarkerDecision d
    \<and> (d = Core \<longrightarrow> normalizeOwner (rv_user r)
          \<in> normalizeOwner ` set (case wi_codeowners input of None \<Rightarrow> [] | Some os \<Rightarrow> os))"
proof (cases "d = Core")
  case True
  with assms obtain u where "u \<in> set (trustReviewersOf input)"
    "normalizeOwner u \<in> normalizeOwner ` set (case wi_codeowners input of None \<Rightarrow> [] | Some os \<Rightarrow> os)"
    by (auto simp: trustScopeValid_def Let_def list_ex_iff)
  then show ?thesis
    using assms(1) by (auto simp: trustReviewersOf_def trustReviewsOf_def)
next
  case False
  with trustDecisionOf_review(1) [OF assms(1)] show ?thesis by blast
qed

text \<open>C6: A passing workflow gate rests on current evidence: it is bound to the base and head of the
  pull request and lists every touched artifact; a human other than the author approved exactly
  this head with the decision as the marker, no other current human approval disagrees; the
  decision is core exactly when a core artifact changed, and then the reviewer is a CODEOWNER; and
  an added or core artifact has a matching governance issue.\<close>

theorem workflow_gate_pass_sound:
  assumes "wg_overall (evaluateWorkflowGate parse_yaml input) = PASS"
  shows "\<exists>ev d r. wi_workflowEvidence input = Some ev
    \<and> Some (we_baseSha ev) = wi_baseSha input \<and> Some (we_headSha ev) = wi_headSha input
    \<and> set (touchedArtifacts input) \<subseteq> set (artifactFiles ev)
    \<and> r \<in> set (wi_reviews input) \<and> rv_state r = js ''APPROVED'' \<and> \<not> isBotUser (rv_user r)
    \<and> normalizeOwner (rv_user r) \<noteq> normalizeOwner (wi_author input)
    \<and> rv_commitOid r = Some (we_headSha ev) \<and> reviewMarker r = MarkerDecision d
    \<and> \<not> (\<exists>r' \<in> set (currentHumanReviews input). reviewMarker r' \<notin> {NoMarker, MarkerDecision d})
    \<and> (d = Core \<longleftrightarrow> (\<exists>p \<in> set (artifactFiles ev). isCoreWorkflowArtifactPath p))
    \<and> (d = Core \<longrightarrow> normalizeOwner (rv_user r)
          \<in> normalizeOwner ` set (case wi_codeowners input of None \<Rightarrow> [] | Some os \<Rightarrow> os))
    \<and> (addedFiles ev \<noteq> [] \<or> d = Core \<longrightarrow>
         governanceIssueMatches parse_yaml (wi_governanceIssue input)
           (governanceIssueNumber (wi_body input)) (Some ev) (wi_prNumber input))"
proof -
  from assms have gate: "evidenceCurrent input" "trustScopeValid input" "governanceValid parse_yaml input"
    and "trustDecisionOf input \<noteq> None" by (simp_all add: gate_pass)
  then obtain d where d: "trustDecisionOf input = Some d" by blast
  from gate(1) obtain ev where ev: "wi_workflowEvidence input = Some ev"
    "Some (we_baseSha ev) = wi_baseSha input" "Some (we_headSha ev) = wi_headSha input"
    "set (touchedArtifacts input) \<subseteq> set (artifactFiles ev)"
    by (auto simp: evidenceCurrent_def list_all_iff split: option.splits)
  from trust_review_of_scope [OF d gate(2)] obtain r where r: "r \<in> set (currentHumanReviews input)"
    "reviewMarker r = MarkerDecision d"
    "d = Core \<longrightarrow> normalizeOwner (rv_user r)
       \<in> normalizeOwner ` set (case wi_codeowners input of None \<Rightarrow> [] | Some os \<Rightarrow> os)" by blast
  have core: "d = Core \<longleftrightarrow> (\<exists>p \<in> set (artifactFiles ev). isCoreWorkflowArtifactPath p)"
    using gate(2) d ev(1)
    by (auto simp: trustScopeValid_def includesCoreArtifact_def gateArtifacts_def list_ex_iff Let_def
        split: if_splits)
  have governed: "addedFiles ev \<noteq> [] \<or> d = Core \<longrightarrow>
      governanceIssueMatches parse_yaml (wi_governanceIssue input)
        (governanceIssueNumber (wi_body input)) (Some ev) (wi_prNumber input)"
    using gate(3) core ev(1)
    by (auto simp: governanceValid_def governanceRequiredFor_def includesCoreArtifact_def
        gateArtifacts_def list_ex_iff)
  have "r \<in> set (wi_reviews input)" "rv_state r = js ''APPROVED''" "\<not> isBotUser (rv_user r)"
    "normalizeOwner (rv_user r) \<noteq> normalizeOwner (wi_author input)" "rv_commitOid r = wi_headSha input"
    using r(1) by (simp_all add: currentHumanReviews_def)
  moreover have "\<not> (\<exists>r' \<in> set (currentHumanReviews input). reviewMarker r' \<notin> {NoMarker, MarkerDecision d})"
    using trustDecisionOf_review(2) [OF d] by blast
  ultimately show ?thesis
    using ev r(2,3) core governed by (intro exI [of _ ev] exI [of _ d] exI [of _ r]) simp
qed

definition trusted_review :: PRReviewEvidence where
  "trusted_review =
     \<lparr>rv_user = js ''bob'', rv_state = js ''APPROVED'', rv_body = Some (js ''Workflow-Trust: trusted''),
      rv_submittedAt = None, rv_commitOid = Some (js ''h1'')\<rparr>"

definition workflow_evidence :: WorkflowEvidence where
  "workflow_evidence =
     \<lparr>we_schema = WORKFLOW_EVIDENCE_SCHEMA, we_baseSha = js ''b1'', we_headSha = js ''h1'',
      evidenceHash = [], artifactFiles = [js ''.claude/workflows/a.ts''], addedFiles = [],
      modifiedFiles = [js ''.claude/workflows/a.ts''], deletedFiles = [], we_changeKind = Modified\<rparr>"

definition workflow_input :: EvaluateWorkflowGateInput where
  "workflow_input =
     \<lparr>wi_prNumber = Some 7, wi_changedFiles = [js ''.claude/workflows/a.ts''], wi_body = [],
      wi_author = js ''alice'', wi_baseSha = Some (js ''b1''), wi_headSha = Some (js ''h1''),
      wi_reviews = [trusted_review], wi_workflowEvidence = Some workflow_evidence,
      wi_governanceIssue = None, wi_codeowners = None\<rparr>"

lemma workflow_path:
  "normalizePath (js ''.claude/workflows/a.ts'') = js ''.claude/workflows/a.ts''"
  "isWorkflowArtifactPath (js ''.claude/workflows/a.ts'')"
  "\<not> isCoreWorkflowArtifactPath (js ''.claude/workflows/a.ts'')"
  by code_simp+

lemma parseTrustMarker_trusted: "parseTrustMarker (js ''Workflow-Trust: trusted'') = MarkerDecision Trusted"
  by code_simp

lemma workflow_input_review: "currentHumanReviews workflow_input = [trusted_review]"
proof -
  have "\<not> isBotUser (js ''bob'')" "normalizeOwner (js ''bob'') \<noteq> normalizeOwner (js ''alice'')"
    by code_simp+
  then show ?thesis
    by (simp add: currentHumanReviews_def workflow_input_def trusted_review_def falsy_def)
qed

lemma workflow_input_trust: "trustDecisionOf workflow_input = Some Trusted"
  by (simp add: trustDecisionOf_def invalidMarker_def markerDecisions_def workflow_input_review
      reviewMarker_def parseTrustMarker_trusted trusted_review_def js_set_def)

lemma workflow_input_passes: "wg_overall (evaluateWorkflowGate (\<lambda>_. None) workflow_input) = PASS"
proof -
  have touched: "touchedArtifacts workflow_input = [js ''.claude/workflows/a.ts'']"
    by (simp add: touchedArtifacts_def workflow_input_def workflow_path)
  have "\<not> includesCoreArtifact workflow_input"
    by (simp add: includesCoreArtifact_def gateArtifacts_def workflow_input_def workflow_evidence_def
        workflow_path)
  moreover have "wi_workflowEvidence workflow_input = Some workflow_evidence" "addedFiles workflow_evidence = []"
    by (simp_all add: workflow_input_def workflow_evidence_def)
  ultimately have "trustScopeValid workflow_input" "governanceValid (\<lambda>_. None) workflow_input"
    by (simp_all add: trustScopeValid_def workflow_input_trust governanceValid_def
        governanceRequiredFor_def)
  moreover have "evidenceCurrent workflow_input"
    unfolding evidenceCurrent_def touched by (simp add: workflow_input_def workflow_evidence_def)
  ultimately show ?thesis by (simp add: gate_pass touched workflow_input_trust)
qed

theorem workflow_gate_pass_sound_witness:
  "\<exists>r \<in> set (wi_reviews workflow_input). rv_state r = js ''APPROVED'' \<and> \<not> isBotUser (rv_user r)"
  using workflow_gate_pass_sound [OF workflow_input_passes] by blast

text \<open>Workflow evidence is refused exactly when the two trees have the same governed artifacts;
  otherwise the artifact files it lists are the paths at which the trees differ, without
  repetition and in order, and the added and deleted ones are those of only one tree.\<close>

theorem evidence_lists_changes:
  "case createWorkflowEvidence sha256 base_sha head_sha base head of
     None \<Rightarrow> artifact_map base = artifact_map head
   | Some ev \<Rightarrow>
       set (artifactFiles ev) = {p. artifact_map base p \<noteq> artifact_map head p}
       \<and> artifactFiles ev \<noteq> [] \<and> distinct (artifactFiles ev) \<and> sorted (artifactFiles ev)
       \<and> set (addedFiles ev) = dom (artifact_map head) - dom (artifact_map base)
       \<and> set (deletedFiles ev) = dom (artifact_map base) - dom (artifact_map head)"
  by (simp add: evidence_none evidence_files split: option.split)

section \<open>The profile-sync gate\<close>

text \<open>C7: A passing profile-sync gate confines the change: only \<open>profile/README.md\<close> changed, the
  head is not main or master, and every added or removed line of its patch, a line that starts
  with a plus or a minus sign, lies between the two marker comments and is none of them, unless it
  starts with \<open>+++\<close> or \<open>---\<close>: such lines the gate ignores.\<close>

theorem profile_sync_confined:
  assumes "ps_overall (evaluateProfileSyncGate files body branch patches) = PASS"
  shows "files = [PROFILE_SYNC_TARGET_PATH] \<and> branch \<notin> {[], js ''main'', js ''master''}
    \<and> (\<exists>marker patch i j. extractMarkerFromBody body = Some marker
        \<and> \<lparr>fp_filename = PROFILE_SYNC_TARGET_PATH, fp_patch = patch\<rparr> \<in> set (case patches of None \<Rightarrow> [] | Some fs \<Rightarrow> fs)
        \<and> i < length (hunkLines patch) \<and> hunk_content (hunkLines patch ! i) = marker_comment marker ''start''
        \<and> j < length (hunkLines patch) \<and> hunk_content (hunkLines patch ! j) = marker_comment marker ''end''
        \<and> (\<forall>k < length (hunkLines patch).
              startsWith (hunkLines patch ! k) (js ''+'') \<or> startsWith (hunkLines patch ! k) (js ''-'') \<longrightarrow>
                startsWith (hunkLines patch ! k) (js ''+++'') \<or> startsWith (hunkLines patch ! k) (js ''---'')
                \<or> i < k \<and> k < j \<and> trim (drop 1 (hunkLines patch ! k))
                    \<notin> {marker_comment marker ''start'', marker_comment marker ''end''}))"
proof -
  from assms obtain m fs target where pass: "files = [PROFILE_SYNC_TARGET_PATH]"
    "branch \<noteq> [] \<and> branch \<noteq> js ''main'' \<and> branch \<noteq> js ''master''"
    "extractMarkerFromBody body = Some m" "patches = Some fs"
    "find (\<lambda>f. fp_filename f = PROFILE_SYNC_TARGET_PATH) fs = Some target"
    "fst (isPatchWithinMarkerRange (fp_patch target) m)"
    unfolding profile_gate_pass by blast
  let ?ls = "hunkLines (fp_patch target)"
  from pass(5) have "target = \<lparr>fp_filename = PROFILE_SYNC_TARGET_PATH, fp_patch = fp_patch target\<rparr>" "target \<in> set fs"
    by (auto simp: find_Some_iff)
  then have target: "\<lparr>fp_filename = PROFILE_SYNC_TARGET_PATH, fp_patch = fp_patch target\<rparr> \<in> set fs" by metis
  from pass(6) obtain i j where ij: "i < length ?ls" "j < length ?ls"
    "hunk_content (?ls ! i) = marker_comment m ''start''" "hunk_content (?ls ! j) = marker_comment m ''end''"
    and lines: "\<forall>k < length ?ls. changedLine (?ls ! k) \<longrightarrow>
        trim (drop 1 (?ls ! k)) \<noteq> marker_comment m ''start''
        \<and> trim (drop 1 (?ls ! k)) \<noteq> marker_comment m ''end'' \<and> i \<le> k \<and> k \<le> j"
    unfolding patch_valid by metis
  moreover have "i < k \<and> k < j
      \<and> trim (drop 1 (?ls ! k)) \<notin> {marker_comment m ''start'', marker_comment m ''end''}"
    if k: "k < length ?ls" "changedLine (?ls ! k)" for k
  proof -
    from lines k have "trim (drop 1 (?ls ! k)) \<notin> {marker_comment m ''start'', marker_comment m ''end''}"
      "i \<le> k" "k \<le> j" by blast+
    moreover from this(1) ij(3,4) changedLine_content [OF k(2)] have "k \<noteq> i" "k \<noteq> j" by auto
    ultimately show ?thesis by simp
  qed
  ultimately have "\<exists>i j. i < length ?ls \<and> hunk_content (?ls ! i) = marker_comment m ''start''
        \<and> j < length ?ls \<and> hunk_content (?ls ! j) = marker_comment m ''end''
        \<and> (\<forall>k < length ?ls. changedLine (?ls ! k) \<longrightarrow> i < k \<and> k < j
             \<and> trim (drop 1 (?ls ! k)) \<notin> {marker_comment m ''start'', marker_comment m ''end''})"
    by metis
  with pass(1-4) target show ?thesis
    by (elim exE conjE, intro conjI, simp_all)
      (rule exI [of _ "fp_patch target"], auto simp: changedLine_def)
qed

definition profile_patch :: jstring where
  "profile_patch = js_join [10]
     [js ''@@ -1,3 +1,3 @@'', js '' <!-- openslack:posts:start -->'', js ''-old'', js ''+new'',
      js '' <!-- openslack:posts:end -->'']"

definition profile_body :: jstring where
  "profile_body = js_join [10]
     [js ''marker: openslack:posts'', js ''source_commit: abc'', js ''workflow_run_id: 9'',
      js ''posts_included: 1'']"

lemma profile_extracts:
  "extractMarkerFromBody profile_body = Some (js ''posts'')" "extractSourceCommit profile_body = Some (js ''abc'')"
  "extractRunId profile_body = Some (js ''9'')" "extractPostsIncluded profile_body = Some 1"
  by code_simp+

lemma profile_patch_valid: "fst (isPatchWithinMarkerRange profile_patch (js ''posts''))"
  by code_simp

theorem profile_sync_confined_witness:
  "\<exists>marker. extractMarkerFromBody profile_body = Some marker"
proof -
  have "ps_overall (evaluateProfileSyncGate [PROFILE_SYNC_TARGET_PATH] profile_body (js ''sync'')
      (Some [\<lparr>fp_filename = PROFILE_SYNC_TARGET_PATH, fp_patch = profile_patch\<rparr>])) = PASS"
    unfolding profile_gate_pass
    by (simp add: profile_extracts profile_patch_valid isProfileSyncPR_def)
  from profile_sync_confined [OF this] show ?thesis by blast
qed

lemma js_split_no_sep: "l \<in> set (js_split sep s) \<Longrightarrow> sep \<notin> set l"
  by (induction s arbitrary: l) (fastforce split: list.splits if_splits)+

lemma dropWhile_end: "\<not> P c \<Longrightarrow> \<exists>ys. dropWhile P (xs @ [c]) = ys @ [c]"
  by (induction xs) auto

lemma trim_head: "\<not> is_space c \<Longrightarrow> \<exists>t. trim (c # s) = c # t"
proof -
  assume "\<not> is_space c"
  with dropWhile_end [of is_space c "rev s"] obtain ys where
    "dropWhile is_space (rev s @ [c]) = ys @ [c]" by blast
  with \<open>\<not> is_space c\<close> have "trim (c # s) = c # rev ys" by (simp add: trim_def)
  then show ?thesis by blast
qed

text \<open>C40: The gate does not see added or removed lines whose text itself starts with two plus or two
  minus signs: it takes them for the file headers of a diff, which the patches of the API never
  contain. Whatever such a line says and wherever it is inserted into the lines of a patch, before,
  within or after the marker block, it is a line of the new patch at that place, and the new patch
  is valid exactly when the old one is.\<close>

theorem profile_patch_bypass:
  assumes "sign \<in> {js ''+++'', js ''---''}" and "10 \<notin> set text"
    and "js_split 10 patch = before @ after"
    and "patch' = js_join [10] (before @ [sign @ text] @ after)"
  shows "hunkLines patch' = filter (\<lambda>l. \<not> startsWith l (js ''@@'')) before @ [sign @ text]
        @ filter (\<lambda>l. \<not> startsWith l (js ''@@'')) after
    \<and> fst (isPatchWithinMarkerRange patch' marker) = fst (isPatchWithinMarkerRange patch marker)"
proof -
  let ?l = "sign @ text" and ?hunk = "filter (\<lambda>l. \<not> startsWith l (js ''@@''))"
  have "10 \<notin> set l" if "l \<in> set (before @ [?l] @ after)" for l
    using that assms(1,2) js_split_no_sep [of _ 10 patch] unfolding assms(3) by (auto simp: js_def)
  then have "js_split 10 patch' = before @ [?l] @ after"
    unfolding assms(4) by (intro js_split_join) auto
  moreover have "\<not> startsWith ?l (js ''@@'')" and same: "\<not> changedLine ?l"
    using assms(1) by (auto simp: changedLine_def startsWith_def js_def)
  ultimately have ls: "hunkLines patch' = ?hunk before @ ?l # ?hunk after"
    by (simp add: hunkLines_def)
  obtain c t where l: "?l = c # c # t" and c: "c \<in> {43, 45}"
    using assms(1) by (auto simp: js_def)
  have "\<not> is_space c" using c by (auto simp: is_space_def)
  with trim_head [of c t] c l have "\<exists>t. hunk_content ?l = c # t" by (auto simp: hunk_content_def)
  with c have marker: "hunk_content ?l \<noteq> marker_comment marker which" for which
    by (auto simp: marker_comment_def js_def)
  have "hunkLines patch = ?hunk before @ ?hunk after" by (simp add: hunkLines_def assms(3))
  from patch_valid_insert [OF this ls same marker marker] ls show ?thesis by simp
qed

definition bypassed_patch :: jstring where
  "bypassed_patch = js_join [10]
     [js ''---gone'', js ''@@ -1,3 +1,3 @@'', js '' <!-- openslack:posts:start -->'', js ''-old'', js ''+new'',
      js '' <!-- openslack:posts:end -->'']"

theorem profile_patch_bypass_witness:
  "fst (isPatchWithinMarkerRange bypassed_patch (js ''posts''))"
proof -
  have "js_split 10 profile_patch = [] @ js_split 10 profile_patch"
    "bypassed_patch = js_join [10] ([] @ [js ''---'' @ js ''gone''] @ js_split 10 profile_patch)"
    "(10 :: jchar) \<notin> set (js ''gone'')" by code_simp+
  from profile_patch_bypass [OF _ this(3,1,2)] profile_patch_valid show ?thesis by simp
qed

section \<open>CODEOWNERS\<close>

text \<open>C28: For a CODEOWNERS pattern without a question mark, without three asterisks in a row and
  without the texts \<open><<GLOBSTAR>>\<close> and \<open><<GLOBSTAR_SLASH>>\<close>, and for a path without line terminators,
  the regular expression built from the pattern matches exactly the paths that the kernel's glob
  matcher matches. Every other character of the pattern, those that are special in a regular
  expression included, stands for itself in both.\<close>

theorem codeowners_glob_agrees:
  assumes "plain_pattern pat" and "list_all not_newline path"
  shows "matchesGlob path pat = Some (matchesPathGlob pat path)"
  using assms by (rule matchesGlob_plain)

theorem codeowners_glob_agrees_witness:
  "matchesGlob (js ''docs/a.md'') (js ''docs/**'') = Some (matchesPathGlob (js ''docs/**'') (js ''docs/a.md''))"
  by (rule codeowners_glob_agrees) code_simp+

text \<open>The intermediate texts of the translation act as wildcards when a pattern contains them.\<close>

lemma codeowners_intermediate_text:
  "matchesGlob (js ''a/b.md'') (js ''<<GLOBSTAR>>'') = Some True"
  "\<not> matchesPathGlob (js ''<<GLOBSTAR>>'') (js ''a/b.md'')"
  by code_simp+

text \<open>C29: Parsing is the inverse of rendering: entries whose pattern and owners are non-empty words
  without white space, with no pattern that starts a comment, are read back from the file of their
  space-separated lines, within the default limits of 1000 entries and 256 KiB.\<close>

theorem codeowners_parse_roundtrip:
  assumes "list_all entry_ok es" and "es \<noteq> []" and "length es \<le> 1000"
    and "utf8_length (render_entries es) \<le> 262144"
  shows "parseCODEOWNERS no_limits (render_entries es) = Inr es"
  using assms by (rule parse_rendered)

definition docs_entry :: CodeownersEntry where
  "docs_entry = \<lparr>pattern = js ''docs/**'', owners = [js ''@bob'']\<rparr>"

theorem codeowners_parse_roundtrip_witness:
  "parseCODEOWNERS no_limits (js ''docs/** @bob'') = Inr [docs_entry]"
proof -
  have render: "render_entries [docs_entry] = js ''docs/** @bob''" by code_simp
  have "utf8_length (js ''docs/** @bob'') = 12" "entry_ok docs_entry" by code_simp+
  then show ?thesis using codeowners_parse_roundtrip [of "[docs_entry]"] by (simp add: render)
qed

text \<open>The second branch of the deadlock detection is dead: whenever the author is the only
  CODEOWNER the first one has already answered, so no diagnosis ever says
  \<open>BLOCKED_SINGLE_MAINTAINER\<close>, and the deadlock is reported exactly when all matching entries name
  the author with this spelling.\<close>

theorem single_maintainer_unreachable:
  "(deadlocked (detectDeadlock author codeowners approvers) \<longleftrightarrow>
      codeowners \<noteq> [] \<and> set codeowners = {at_sign author})
   \<and> dl_type (detectDeadlock author codeowners approvers) \<noteq> Some SINGLE_MAINTAINER"
  using detectDeadlock_iff detectDeadlock_type by blast

end
