(* ===== verification/DeliveryTypes.thy ===== *)
theory DeliveryTypes
  imports Effects Regex
begin

text \<open>
  The data of the delivery service (\<open>packages/delivery/src/types.ts\<close>), its errors
  (\<open>errors.ts\<close>), the delivery state machine (\<open>state-machine.ts\<close>) and the permission diagnosis
  (\<open>permission-diagnostics.ts\<close>).
\<close>

section \<open>Errors\<close>

datatype DeliveryErrorCode =
  DELIVERY_AUTH_REQUIRED | DELIVERY_BASE_FORBIDDEN | DELIVERY_PERMISSION_DENIED
| DELIVERY_PUSH_FAILED | DELIVERY_PR_FAILED | DELIVERY_PR_CONFLICT | DELIVERY_TARGET_MISMATCH
| DELIVERY_HEAD_STALE | DELIVERY_TIMEOUT | DELIVERY_REMOTE_UNSUPPORTED
| DELIVERY_REPOSITORY_NOT_INSTALLED | DELIVERY_REPOSITORY_SCOPE_INCOMPLETE
| DELIVERY_PROBE_CLEANUP_FAILED

primrec code_text :: "DeliveryErrorCode \<Rightarrow> jstring" where
  "code_text DELIVERY_AUTH_REQUIRED = js ''DELIVERY_AUTH_REQUIRED''"
| "code_text DELIVERY_BASE_FORBIDDEN = js ''DELIVERY_BASE_FORBIDDEN''"
| "code_text DELIVERY_PERMISSION_DENIED = js ''DELIVERY_PERMISSION_DENIED''"
| "code_text DELIVERY_PUSH_FAILED = js ''DELIVERY_PUSH_FAILED''"
| "code_text DELIVERY_PR_FAILED = js ''DELIVERY_PR_FAILED''"
| "code_text DELIVERY_PR_CONFLICT = js ''DELIVERY_PR_CONFLICT''"
| "code_text DELIVERY_TARGET_MISMATCH = js ''DELIVERY_TARGET_MISMATCH''"
| "code_text DELIVERY_HEAD_STALE = js ''DELIVERY_HEAD_STALE''"
| "code_text DELIVERY_TIMEOUT = js ''DELIVERY_TIMEOUT''"
| "code_text DELIVERY_REMOTE_UNSUPPORTED = js ''DELIVERY_REMOTE_UNSUPPORTED''"
| "code_text DELIVERY_REPOSITORY_NOT_INSTALLED = js ''DELIVERY_REPOSITORY_NOT_INSTALLED''"
| "code_text DELIVERY_REPOSITORY_SCOPE_INCOMPLETE = js ''DELIVERY_REPOSITORY_SCOPE_INCOMPLETE''"
| "code_text DELIVERY_PROBE_CLEANUP_FAILED = js ''DELIVERY_PROBE_CLEANUP_FAILED''"

text \<open>
  The cause of an error: a text without transport detail, or, for a failed cleanup, the error that
  made the cleanup necessary or the one of the cleanup itself.
\<close>

datatype ErrorCause = SafeCause jstring | PrimaryFailure | CleanupFailure

text \<open>\<open>de_remediation\<close> is only present on a \<open>DeliveryProbeCleanupError\<close>.\<close>

record DeliveryError =
  de_code :: DeliveryErrorCode
  de_message :: jstring
  de_retryable :: bool
  de_cause :: "ErrorCause option"
  de_remediation :: "jstring option"

text \<open>
  What a call can throw: an error of this package, another object, of which the sources only read
  the fields below (\<open>None\<close> when the field is absent or has another type), or a primitive value,
  of which it only matters whether it is \<open>null\<close> or \<open>undefined\<close>, another falsy value, or a truthy one.
\<close>

datatype PrimitiveValue = Nullish | Falsy | Truthy

record ForeignError =
  fe_status :: "int option"
  fe_code :: "jstring option"
  fe_responseMessage :: "jstring option"
  fe_responseErrorCodes :: "jstring option list"

datatype Failure = Delivery DeliveryError | Foreign ForeignError | Primitive PrimitiveValue

definition deliveryError :: "DeliveryErrorCode \<Rightarrow> jstring \<Rightarrow> bool \<Rightarrow> Failure" where
  "deliveryError code message retryable =
     Delivery \<lparr>de_code = code, de_message = message, de_retryable = retryable, de_cause = None,
       de_remediation = None\<rparr>"

primrec is_delivery :: "Failure \<Rightarrow> bool" where
  "is_delivery (Delivery e) = True"
| "is_delivery (Foreign e) = False"
| "is_delivery (Primitive p) = False"

lemma is_delivery_error [simp]: "is_delivery (deliveryError code message retryable)"
  by (simp add: deliveryError_def)

section \<open>Delivery states\<close>

datatype DeliveryState =
  PREPARED | PUSHED | PR_CREATED | PR_UPDATED | HEAD_SYNCHRONIZED | AWAITING_GATES

primrec ALLOWED :: "DeliveryState \<Rightarrow> DeliveryState list" where
  "ALLOWED PREPARED = [PUSHED]"
| "ALLOWED PUSHED = [PR_CREATED, PR_UPDATED]"
| "ALLOWED PR_CREATED = [HEAD_SYNCHRONIZED]"
| "ALLOWED PR_UPDATED = [HEAD_SYNCHRONIZED]"
| "ALLOWED HEAD_SYNCHRONIZED = [AWAITING_GATES]"
| "ALLOWED AWAITING_GATES = []"

primrec state_text :: "DeliveryState \<Rightarrow> jstring" where
  "state_text PREPARED = js ''PREPARED''"
| "state_text PUSHED = js ''PUSHED''"
| "state_text PR_CREATED = js ''PR_CREATED''"
| "state_text PR_UPDATED = js ''PR_UPDATED''"
| "state_text HEAD_SYNCHRONIZED = js ''HEAD_SYNCHRONIZED''"
| "state_text AWAITING_GATES = js ''AWAITING_GATES''"

text \<open>The transition error; its arrow is the three characters of the source.\<close>

definition invalidTransition :: "DeliveryState list \<Rightarrow> DeliveryState \<Rightarrow> Failure" where
  "invalidTransition history next_state =
     deliveryError DELIVERY_PR_FAILED
       (js ''Invalid delivery transition ''
        @ (if history = [] then js ''(none)'' else state_text (last history))
        @ js '' -> '' @ state_text next_state @ js ''.'') False"

definition advanceDeliveryState ::
  "DeliveryState list \<Rightarrow> DeliveryState \<Rightarrow> Failure + DeliveryState list" where
  "advanceDeliveryState history next_state =
     (if history = [] \<or> next_state \<notin> set (ALLOWED (last history))
      then Inl (invalidTransition history next_state)
      else Inr (history @ [next_state]))"

section \<open>Tokens, pull requests and checks\<close>

record DeliveryToken =
  tk_value :: jstring
  tk_expiresAt :: jstring
  tk_installationId :: jstring
  tk_permissions :: "(jstring \<times> jstring) list"

datatype PermissionStatus = PermissionPass | PermissionFail | PermissionWarn

record DeliveryPermissionCheck =
  pc_capability :: jstring
  pc_required :: jstring
  pc_actual :: "jstring option"
  pc_status :: PermissionStatus

record DeliveryPullRequest =
  dp_number :: int
  dp_url :: jstring
  dp_headOwner :: jstring
  dp_headRepo :: jstring
  dp_headRef :: jstring
  dp_headSha :: jstring

record DeliveryCheckSnapshot =
  dc_name :: jstring
  dc_status :: jstring
  dc_conclusion :: "jstring option"
  dc_headSha :: jstring

section \<open>Permissions\<close>

definition requiredCapabilities :: "bool \<Rightarrow> jstring list" where
  "requiredCapabilities requireIssuesWrite =
     [js ''contents'', js ''pull_requests'', js ''workflows'']
     @ (if requireIssuesWrite then [js ''issues''] else [])"

definition diagnoseDeliveryPermissions ::
  "(jstring \<times> jstring) list \<Rightarrow> bool \<Rightarrow> DeliveryPermissionCheck list" where
  "diagnoseDeliveryPermissions granted requireIssuesWrite =
     map (\<lambda>capability.
       let actual = map_of granted capability
       in \<lparr>pc_capability = capability, pc_required = js ''write'', pc_actual = actual,
           pc_status =
             (if actual = Some (js ''write'') then PermissionPass
              else if actual = None then PermissionWarn else PermissionFail)\<rparr>)
       (requiredCapabilities requireIssuesWrite)"

definition assertDeliveryPermissions :: "DeliveryPermissionCheck list \<Rightarrow> Failure + unit" where
  "assertDeliveryPermissions checks =
     (let failures = filter (\<lambda>check. pc_status check \<noteq> PermissionPass) checks
      in if failures = [] then Inr ()
         else Inl (deliveryError DELIVERY_PERMISSION_DENIED
           (js ''GitHub App installation lacks required delivery permissions: ''
            @ js_join (js '', '') (map (\<lambda>check. pc_capability check @ js '':write'') failures)
            @ js ''.'') False))"

lemma assertDeliveryPermissions_ok:
  "assertDeliveryPermissions (diagnoseDeliveryPermissions granted issues) = Inr () \<longleftrightarrow>
     (\<forall>capability \<in> set (requiredCapabilities issues). map_of granted capability = Some (js ''write''))"
  by (auto simp: assertDeliveryPermissions_def diagnoseDeliveryPermissions_def filter_empty_conv Let_def)

lemma assertDeliveryPermissions_typed: "assertDeliveryPermissions checks = Inl e \<Longrightarrow> is_delivery e"
  by (auto simp: assertDeliveryPermissions_def Let_def split: if_splits)

section \<open>Authentication failures\<close>

text \<open>The test of \<open>git-transport.ts\<close> on a message, without regard to case.\<close>

definition isAuthenticationFailure :: "jstring \<Rightarrow> bool" where
  "isAuthenticationFailure text =
     rx_search
       (RAlt (RStringCI (js ''authentication failed''))
         (RAlt (RStringCI (js ''invalid username or password''))
           (RAlt (RStringCI (js ''http 401''))
             (RAlt (RStringCI (js ''bad credentials'')) (RStringCI (js ''could not read username'')))))) text"

end
