(* ===== verification/DeliveryService.thy ===== *)
theory DeliveryService
  imports DeliveryTypes
begin

text \<open>
  The delivery service (\<open>packages/delivery/src/service.ts\<close>): authenticate, push the branch,
  find or create its pull request, wait until GitHub reports the pushed head, and list the checks.

  Git, the token provider, the GitHub client, the clock and the timer are a record of services.
  The variables that the closures of \<open>publish\<close> assign (the token, the permissions, the refresh
  flag, the history, and later the client) are the locals of the computation: they survive a
  throw that a handler catches.
\<close>

section \<open>Interfaces\<close>

record GitHubDeliveryInput =
  di_rootDir :: jstring
  di_owner :: jstring
  di_repo :: jstring
  di_branch :: jstring
  di_base :: "jstring option"
  di_title :: jstring
  di_body :: jstring
  di_remote :: "jstring option"
  di_timeoutMs :: "int option"
  di_requireIssuesWrite :: bool

datatype DeliveryAction = ActionCreated | ActionUpdated

record GitHubDeliveryResult =
  dr_state :: DeliveryState
  dr_history :: "DeliveryState list"
  dr_action :: DeliveryAction
  dr_prNumber :: int
  dr_prUrl :: jstring
  dr_branchSha :: jstring
  dr_prHeadSha :: jstring
  dr_checks :: "DeliveryCheckSnapshot list"
  dr_checksEmpty :: bool
  dr_permissions :: "DeliveryPermissionCheck list"
  dr_evidenceTimestamp :: jstring

record TransportInput =
  ti_rootDir :: jstring
  ti_remote :: jstring
  ti_branch :: jstring
  ti_owner :: jstring
  ti_repo :: jstring
  ti_token :: jstring
  ti_timeoutMs :: int

record PushResult =
  pu_branchSha :: jstring
  pu_remoteSha :: jstring

record FindQuery =
  fq_owner :: jstring
  fq_repo :: jstring
  fq_headOwner :: jstring
  fq_head :: jstring

record CreateQuery =
  cq_owner :: jstring
  cq_repo :: jstring
  cq_head :: jstring
  cq_base :: jstring
  cq_title :: jstring
  cq_body :: jstring

record UpdateQuery =
  uq_owner :: jstring
  uq_repo :: jstring
  uq_number :: int
  uq_base :: jstring
  uq_title :: jstring
  uq_body :: jstring

record 'w DeliveryGitHubApi =
  findOpenPullRequests :: "FindQuery \<Rightarrow> ('w, Failure, DeliveryPullRequest list) io"
  createDraftPullRequest :: "CreateQuery \<Rightarrow> ('w, Failure, DeliveryPullRequest) io"
  updatePullRequest :: "UpdateQuery \<Rightarrow> ('w, Failure, DeliveryPullRequest) io"
  getPullRequest :: "jstring \<Rightarrow> jstring \<Rightarrow> int \<Rightarrow> ('w, Failure, DeliveryPullRequest) io"
  listChecks :: "jstring \<Rightarrow> jstring \<Rightarrow> jstring \<Rightarrow> ('w, Failure, DeliveryCheckSnapshot list) io"

record 'w DeliveryServices =
  tokenAcquire :: "bool \<Rightarrow> ('w, Failure, DeliveryToken) io"
  tokenInvalidate :: "('w, Failure, unit) io"
  gitPush :: "TransportInput \<Rightarrow> ('w, Failure, PushResult) io"
  gitReadRemoteSha :: "TransportInput \<Rightarrow> ('w, Failure, jstring) io"
  githubApiFactory ::
    "DeliveryToken \<Rightarrow> jstring \<Rightarrow> jstring \<Rightarrow> jstring \<Rightarrow> ('w, Failure, 'w DeliveryGitHubApi) io"
  clockNow :: "('w, Failure, jstring) io"
  timerSleep :: "int \<Rightarrow> ('w, Failure, unit) io"
  headSyncAttempts :: "nat option"
  headSyncIntervalMs :: "int option"

record DeliveryLocals =
  lo_token :: DeliveryToken
  lo_permissions :: "DeliveryPermissionCheck list"
  lo_refreshUsed :: bool
  lo_history :: "DeliveryState list"

record 'w DeliverySession = DeliveryLocals +
  lo_api :: "'w DeliveryGitHubApi"

section \<open>Classification of failures\<close>

definition validateInput :: "GitHubDeliveryInput \<Rightarrow> Failure + unit" where
  "validateInput input =
     (if di_base input \<notin> {None, Some (js ''main'')} then
        Inl (deliveryError DELIVERY_BASE_FORBIDDEN
          (js ''Pull requests must target '' @ [34] @ js ''main'' @ [34] @ js ''; received ''
           @ [34] @ the (di_base input) @ [34] @ js ''.'') False)
      else if di_rootDir input = [] \<or> di_owner input = [] \<or> di_repo input = []
          \<or> di_branch input = [] \<or> di_title input = [] \<or> di_body input = [] then
        Inl (deliveryError DELIVERY_PR_FAILED (js ''Delivery input is incomplete.'') False)
      else Inr ())"

definition isRetryableAuthenticationFailure :: "Failure \<Rightarrow> bool" where
  "isRetryableAuthenticationFailure failure =
     (case failure of
        Delivery e \<Rightarrow>
          de_code e = DELIVERY_PUSH_FAILED \<and> de_retryable e \<and> isAuthenticationFailure (de_message e)
      | _ \<Rightarrow> False)"

text \<open>An error of this package has no \<open>status\<close> and its \<open>code\<close> is never \<open>BAD_CREDENTIALS\<close>.\<close>

definition isApiAuthenticationFailure :: "Failure \<Rightarrow> bool" where
  "isApiAuthenticationFailure failure =
     (case failure of
        Foreign e \<Rightarrow> fe_status e = Some 401 \<or> fe_code e = Some (js ''BAD_CREDENTIALS'')
      | _ \<Rightarrow> False)"

definition rx_already_exists :: rx where
  "rx_already_exists =
     RSeq (RStringCI (js ''pull request''))
       (RSeq (RStar (RClass not_newline)) (RStringCI (js ''already exists'')))"

definition isPullRequestCreateRace :: "Failure \<Rightarrow> bool" where
  "isPullRequestCreateRace failure =
     (case failure of
        Foreign e \<Rightarrow>
          fe_status e = Some 422
          \<and> ((case fe_responseMessage e of None \<Rightarrow> False | Some m \<Rightarrow> rx_search rx_already_exists m)
             \<or> Some (js ''already_exists'') \<in> set (fe_responseErrorCodes e))
      | _ \<Rightarrow> False)"

definition isExactHead :: "DeliveryPullRequest \<Rightarrow> GitHubDeliveryInput \<Rightarrow> bool" where
  "isExactHead pr input \<longleftrightarrow>
     toLowerCase (dp_headOwner pr) = toLowerCase (di_owner input)
     \<and> toLowerCase (dp_headRepo pr) = toLowerCase (di_repo input)
     \<and> dp_headRef pr = di_branch input"

definition retryableCodes :: "jstring list" where
  "retryableCodes =
     [js ''ECONNRESET'', js ''ECONNREFUSED'', js ''EAI_AGAIN'', js ''ENETDOWN'', js ''ENETUNREACH'',
      js ''ETIMEDOUT'']"

definition classifyDeliveryApiFailure :: "Failure \<Rightarrow> bool \<times> jstring" where
  "classifyDeliveryApiFailure failure =
     (case failure of
        Primitive p \<Rightarrow> (False, js ''GitHub API failure (unknown).'')
      | Delivery e \<Rightarrow>
          (False, js ''GitHub API transport failure ('' @ code_text (de_code e) @ js '').'')
      | Foreign e \<Rightarrow>
          (case fe_status e of
             Some status \<Rightarrow>
               (status = 408 \<or> status = 429 \<or> status \<ge> 500,
                js ''GitHub API failure (HTTP '' @ js_int status @ js '').'')
           | None \<Rightarrow>
               (case fe_code e of
                  Some code \<Rightarrow>
                    (code \<in> set retryableCodes,
                     if code \<noteq> [] then js ''GitHub API transport failure ('' @ code @ js '').''
                     else js ''GitHub API failure (unknown).'')
                | None \<Rightarrow> (False, js ''GitHub API failure (unknown).''))))"

definition safeDeliveryFailure :: "jstring \<Rightarrow> Failure \<Rightarrow> Failure" where
  "safeDeliveryFailure message failure =
     (if is_delivery failure then failure
      else
        (let (retryable, safeCause) = classifyDeliveryApiFailure failure
         in Delivery \<lparr>de_code = DELIVERY_PR_FAILED, de_message = message, de_retryable = retryable,
              de_cause = Some (SafeCause safeCause), de_remediation = None\<rparr>))"

lemma safeDeliveryFailure_typed [simp]: "is_delivery (safeDeliveryFailure message failure)"
  by (simp add: safeDeliveryFailure_def split: prod.split)

section \<open>Authentication\<close>

type_synonym ('w, 'z, 'a) delivery_io = "('w \<times> 'z DeliveryLocals_scheme, Failure, 'a) io"

definition acquireToken :: "'w DeliveryServices \<Rightarrow> bool \<Rightarrow> ('w, Failure, DeliveryToken) io" where
  "acquireToken services forceRefresh =
     io_catch (tokenAcquire services forceRefresh) (\<lambda>e.
       if is_delivery e then io_throw e
       else io_throw (deliveryError DELIVERY_AUTH_REQUIRED
         (js ''GitHub App installation token is unavailable.'') True))"

definition setPermissions :: "DeliveryPermissionCheck list \<Rightarrow> ('w, 'z, unit) delivery_io" where
  "setPermissions checks = io_set (lo_permissions_update (\<lambda>_. checks))"

text \<open>The closure \<open>refreshAuthentication\<close>: at most once, and only for the same installation.\<close>

definition refreshAuthentication ::
  "'w DeliveryServices \<Rightarrow> GitHubDeliveryInput \<Rightarrow> jstring \<Rightarrow> ('w, 'z, unit) delivery_io" where
  "refreshAuthentication services input installationId =
     io_bind (io_get lo_refreshUsed) (\<lambda>used.
       if used then
         io_throw (deliveryError DELIVERY_AUTH_REQUIRED
           (js ''GitHub App authentication failed after the single refresh attempt.'') True)
       else
         io_bind (io_set (lo_refreshUsed_update (\<lambda>_. True))) (\<lambda>_.
         io_bind (io_world (tokenInvalidate services)) (\<lambda>_.
         io_bind (io_world (acquireToken services True)) (\<lambda>token.
         io_bind (io_set (lo_token_update (\<lambda>_. token))) (\<lambda>_.
           if tk_installationId token \<noteq> installationId then
             io_throw (deliveryError DELIVERY_AUTH_REQUIRED
               (js ''GitHub App installation identity changed during delivery.'') False)
           else
             (let checks = diagnoseDeliveryPermissions (tk_permissions token) (di_requireIssuesWrite input)
              in io_bind (setPermissions checks) (\<lambda>_.
                 io_result (assertDeliveryPermissions checks))))))))"

definition transportInput :: "GitHubDeliveryInput \<Rightarrow> DeliveryToken \<Rightarrow> TransportInput" where
  "transportInput input token =
     \<lparr>ti_rootDir = di_rootDir input,
      ti_remote = (case di_remote input of None \<Rightarrow> js ''origin'' | Some r \<Rightarrow> r),
      ti_branch = di_branch input, ti_owner = di_owner input, ti_repo = di_repo input,
      ti_token = tk_value token,
      ti_timeoutMs = (case di_timeoutMs input of None \<Rightarrow> 30000 | Some ms \<Rightarrow> ms)\<rparr>"

text \<open>A Git call with the current token, repeated once after a refresh.\<close>

definition gitWithRefresh ::
  "'w DeliveryServices \<Rightarrow> GitHubDeliveryInput \<Rightarrow> jstring \<Rightarrow>
     (TransportInput \<Rightarrow> ('w, Failure, 'a) io) \<Rightarrow> ('w, 'z, 'a) delivery_io" where
  "gitWithRefresh services input installationId git =
     io_catch
       (io_bind (io_get lo_token) (\<lambda>token. io_world (git (transportInput input token))))
       (\<lambda>e. if \<not> isRetryableAuthenticationFailure e then io_throw e
            else
              io_bind (refreshAuthentication services input installationId) (\<lambda>_.
              io_bind (io_get lo_token) (\<lambda>token. io_world (git (transportInput input token)))))"

type_synonym ('w, 'a) session_io = "('w \<times> 'w DeliverySession, Failure, 'a) io"

definition callApi ::
  "'w DeliveryServices \<Rightarrow> GitHubDeliveryInput \<Rightarrow> jstring \<Rightarrow>
     ('w DeliveryGitHubApi \<Rightarrow> ('w, Failure, 'a) io) \<Rightarrow> ('w, 'a) session_io" where
  "callApi services input installationId operation =
     io_catch
       (io_bind (io_get lo_api) (\<lambda>api. io_world (operation api)))
       (\<lambda>e. if \<not> isApiAuthenticationFailure e then io_throw e
            else
              io_bind (refreshAuthentication services input installationId) (\<lambda>_.
              io_bind (io_get lo_token) (\<lambda>token.
              io_bind (io_world (githubApiFactory services token (di_owner input) (di_repo input)
                  (di_rootDir input))) (\<lambda>api.
              io_bind (io_set (lo_api_update (\<lambda>_. api))) (\<lambda>_. io_world (operation api))))))"

definition advance :: "DeliveryState \<Rightarrow> ('w, 'z, unit) delivery_io" where
  "advance next_state =
     io_bind (io_get lo_history) (\<lambda>history.
     io_bind (io_result (advanceDeliveryState history next_state)) (\<lambda>history'.
       io_set (lo_history_update (\<lambda>_. history'))))"

section \<open>Publication\<close>

definition withSafeFailure :: "jstring \<Rightarrow> ('w, Failure, 'a) io \<Rightarrow> ('w, Failure, 'a) io" where
  "withSafeFailure message m = io_catch m (\<lambda>e. io_throw (safeDeliveryFailure message e))"

definition conflict :: "jstring \<Rightarrow> ('w, Failure, 'a) io" where
  "conflict message = io_throw (deliveryError DELIVERY_PR_CONFLICT message False)"

definition findQuery :: "GitHubDeliveryInput \<Rightarrow> FindQuery" where
  "findQuery input =
     \<lparr>fq_owner = di_owner input, fq_repo = di_repo input, fq_headOwner = di_owner input,
      fq_head = di_branch input\<rparr>"

definition createQuery :: "GitHubDeliveryInput \<Rightarrow> CreateQuery" where
  "createQuery input =
     \<lparr>cq_owner = di_owner input, cq_repo = di_repo input, cq_head = di_branch input,
      cq_base = js ''main'', cq_title = di_title input, cq_body = di_body input\<rparr>"

definition updateQuery :: "GitHubDeliveryInput \<Rightarrow> int \<Rightarrow> UpdateQuery" where
  "updateQuery input number =
     \<lparr>uq_owner = di_owner input, uq_repo = di_repo input, uq_number = number,
      uq_base = js ''main'', uq_title = di_title input, uq_body = di_body input\<rparr>"

definition updateMatch ::
  "'w DeliveryServices \<Rightarrow> GitHubDeliveryInput \<Rightarrow> jstring \<Rightarrow> DeliveryPullRequest \<Rightarrow>
     ('w, DeliveryPullRequest \<times> DeliveryAction) session_io" where
  "updateMatch services input installationId match =
     io_bind (callApi services input installationId
       (\<lambda>api. updatePullRequest api (updateQuery input (dp_number match)))) (\<lambda>pr.
     io_bind (advance PR_UPDATED) (\<lambda>_. io_return (pr, ActionUpdated)))"

text \<open>The \<open>catch\<close> of a failed creation: another delivery may have created the pull request.\<close>

definition recoverCreateRace ::
  "'w DeliveryServices \<Rightarrow> GitHubDeliveryInput \<Rightarrow> jstring \<Rightarrow> Failure \<Rightarrow>
     ('w, DeliveryPullRequest \<times> DeliveryAction) session_io" where
  "recoverCreateRace services input installationId e =
     (if \<not> isPullRequestCreateRace e then io_throw e
      else
        io_bind (callApi services input installationId
          (\<lambda>api. findOpenPullRequests api (findQuery input))) (\<lambda>raced.
          (case raced of
             [match] \<Rightarrow>
               if \<not> isExactHead match input then
                 conflict (js ''GitHub returned a pull request outside the exact delivery head after a create race.'')
               else updateMatch services input installationId match
           | _ \<Rightarrow> io_throw e)))"

definition createOrRecover ::
  "'w DeliveryServices \<Rightarrow> GitHubDeliveryInput \<Rightarrow> jstring \<Rightarrow>
     ('w, DeliveryPullRequest \<times> DeliveryAction) session_io" where
  "createOrRecover services input installationId =
     io_catch
       (io_bind (callApi services input installationId
          (\<lambda>api. createDraftPullRequest api (createQuery input))) (\<lambda>pr.
        io_bind (advance PR_CREATED) (\<lambda>_. io_return (pr, ActionCreated))))
       (recoverCreateRace services input installationId)"

definition publishPullRequest ::
  "'w DeliveryServices \<Rightarrow> GitHubDeliveryInput \<Rightarrow> jstring \<Rightarrow> DeliveryPullRequest list \<Rightarrow>
     ('w, DeliveryPullRequest \<times> DeliveryAction) session_io" where
  "publishPullRequest services input installationId matches =
     (if list_ex (\<lambda>match. \<not> isExactHead match input) matches then
        conflict (js ''GitHub returned a pull request outside the exact delivery head.'')
      else
        (case matches of
           [] \<Rightarrow>
             withSafeFailure (js ''Pull request publication failed.'')
               (createOrRecover services input installationId)
         | [match] \<Rightarrow>
             withSafeFailure (js ''Pull request publication failed.'')
               (updateMatch services input installationId match)
         | _ \<Rightarrow> conflict (js ''Multiple open pull requests exist for the exact delivery head.'')))"

primrec waitForSynchronizedHead ::
  "'w DeliveryServices \<Rightarrow> GitHubDeliveryInput \<Rightarrow> jstring \<Rightarrow> int \<Rightarrow> jstring \<Rightarrow> nat \<Rightarrow>
     ('w, DeliveryPullRequest) session_io" where
  "waitForSynchronizedHead services input installationId prNumber expectedSha 0 =
     io_throw (deliveryError DELIVERY_HEAD_STALE
       (js ''Pull request head did not synchronize with the remote branch SHA.'') True)"
| "waitForSynchronizedHead services input installationId prNumber expectedSha (Suc rest) =
     io_bind (callApi services input installationId
       (\<lambda>api. getPullRequest api (di_owner input) (di_repo input) prNumber)) (\<lambda>pr.
       if \<not> isExactHead pr input then
         conflict (js ''Pull request head repository or ref does not match the delivery target.'')
       else if dp_headSha pr = expectedSha then io_return pr
       else if rest > 0 then
         io_bind (io_world (timerSleep services
           (case headSyncIntervalMs services of None \<Rightarrow> 250 | Some ms \<Rightarrow> ms))) (\<lambda>_.
           waitForSynchronizedHead services input installationId prNumber expectedSha rest)
       else waitForSynchronizedHead services input installationId prNumber expectedSha rest)"

definition headStale :: "jstring \<Rightarrow> ('w, Failure, 'a) io" where
  "headStale message = io_throw (deliveryError DELIVERY_HEAD_STALE message True)"

text \<open>The end of \<open>publish\<close>, once all three heads agree.\<close>

definition finishDelivery ::
  "'w DeliveryServices \<Rightarrow> GitHubDeliveryInput \<Rightarrow> jstring \<Rightarrow> PushResult \<Rightarrow> DeliveryAction \<Rightarrow>
     DeliveryPullRequest \<Rightarrow> ('w, GitHubDeliveryResult) session_io" where
  "finishDelivery services input installationId pushed done_action synchronized =
     io_bind (advance HEAD_SYNCHRONIZED) (\<lambda>_.
     io_bind (withSafeFailure (js ''Check evidence query failed.'')
       (callApi services input installationId
         (\<lambda>api. listChecks api (di_owner input) (di_repo input) (dp_headSha synchronized))))
       (\<lambda>checks.
     io_bind (advance AWAITING_GATES) (\<lambda>_.
     io_bind (io_get lo_history) (\<lambda>history.
     io_bind (io_get lo_permissions) (\<lambda>granted.
     io_bind (io_world (clockNow services)) (\<lambda>timestamp.
     io_return
       \<lparr>dr_state = AWAITING_GATES, dr_history = history, dr_action = done_action,
        dr_prNumber = dp_number synchronized, dr_prUrl = dp_url synchronized,
        dr_branchSha = pu_remoteSha pushed, dr_prHeadSha = dp_headSha synchronized,
        dr_checks = checks, dr_checksEmpty = (checks = []), dr_permissions = granted,
        dr_evidenceTimestamp = timestamp\<rparr>))))))"

text \<open>The part of \<open>publish\<close> that uses the GitHub client.\<close>

definition deliverPullRequest ::
  "'w DeliveryServices \<Rightarrow> GitHubDeliveryInput \<Rightarrow> jstring \<Rightarrow> PushResult \<Rightarrow>
     ('w, GitHubDeliveryResult) session_io" where
  "deliverPullRequest services input installationId pushed =
     io_bind (withSafeFailure (js ''Open pull request lookup failed.'')
       (callApi services input installationId (\<lambda>api. findOpenPullRequests api (findQuery input))))
       (\<lambda>matches.
     io_bind (publishPullRequest services input installationId matches) (\<lambda>(pr, done_action).
     io_bind (withSafeFailure (js ''Pull request head verification failed.'')
       (waitForSynchronizedHead services input installationId (dp_number pr) (pu_remoteSha pushed)
         (case headSyncAttempts services of None \<Rightarrow> 5 | Some n \<Rightarrow> n))) (\<lambda>synchronized.
     io_bind (gitWithRefresh services input installationId (gitReadRemoteSha services))
       (\<lambda>currentRemoteSha.
     if currentRemoteSha = [] \<or> currentRemoteSha \<noteq> pu_branchSha pushed
         \<or> dp_headSha synchronized \<noteq> currentRemoteSha then
       headStale (js ''Local, remote, and pull request head SHAs are not synchronized.'')
     else finishDelivery services input installationId pushed done_action synchronized))))"

text \<open>
  \<open>let api = apiFactory(...)\<close>: from here on the client is one more local. The locals end with the
  call, so the session starts with those of the authentication.
\<close>

definition withApi ::
  "'w DeliveryGitHubApi \<Rightarrow> ('w, 'a) session_io \<Rightarrow> ('w, unit, 'a) delivery_io" where
  "withApi api m = (\<lambda>(w, locals).
     case m (w, DeliveryLocals.extend locals (DeliverySession.fields api)) of
       ((w', session), r) \<Rightarrow> ((w', DeliveryLocals.truncate session), r))"

definition pushAndDeliver ::
  "'w DeliveryServices \<Rightarrow> GitHubDeliveryInput \<Rightarrow> jstring \<Rightarrow>
     ('w, unit, GitHubDeliveryResult) delivery_io" where
  "pushAndDeliver services input installationId =
     io_bind (gitWithRefresh services input installationId (gitPush services)) (\<lambda>pushed.
     if pu_remoteSha pushed = [] \<or> pu_remoteSha pushed \<noteq> pu_branchSha pushed then
       headStale (js ''Remote branch SHA did not synchronize with the local branch SHA.'')
     else
       io_bind (advance PUSHED) (\<lambda>_.
       io_bind (io_get lo_token) (\<lambda>token.
       io_bind (io_world (githubApiFactory services token (di_owner input) (di_repo input)
           (di_rootDir input))) (\<lambda>api.
       withApi api (deliverPullRequest services input installationId pushed)))))"

definition publish ::
  "'w DeliveryServices \<Rightarrow> GitHubDeliveryInput \<Rightarrow> ('w, Failure, GitHubDeliveryResult) io" where
  "publish services input =
     io_bind (io_result (validateInput input)) (\<lambda>_.
     io_bind (acquireToken services False) (\<lambda>token.
     let checks = diagnoseDeliveryPermissions (tk_permissions token) (di_requireIssuesWrite input)
     in io_bind (io_result (assertDeliveryPermissions checks)) (\<lambda>_.
        io_locals
          \<lparr>lo_token = token, lo_permissions = checks, lo_refreshUsed = False, lo_history = [PREPARED]\<rparr>
          (pushAndDeliver services input (tk_installationId token)))))"

end
