(* ===== verification/DeliveryCorrectness.thy ===== *)
theory DeliveryCorrectness
  imports DeliveryService
begin

text \<open>
  Lemmas on the delivery service, by weakest preconditions along the code: the result of a
  successful publication, the errors it throws, and the number of its token requests.
\<close>

section \<open>The authenticated state\<close>

text \<open>The token belongs to one installation and has the required permissions, as recorded.\<close>

definition auth_ok :: "GitHubDeliveryInput \<Rightarrow> jstring \<Rightarrow> 'z DeliveryLocals_scheme \<Rightarrow> bool" where
  "auth_ok input inst s \<longleftrightarrow>
     lo_permissions s = diagnoseDeliveryPermissions (tk_permissions (lo_token s)) (di_requireIssuesWrite input)
     \<and> assertDeliveryPermissions (lo_permissions s) = Inr () \<and> tk_installationId (lo_token s) = inst"

definition at_history ::
  "GitHubDeliveryInput \<Rightarrow> jstring \<Rightarrow> DeliveryState list \<Rightarrow> 'w \<times> 'z DeliveryLocals_scheme \<Rightarrow> bool" where
  "at_history input inst history p \<longleftrightarrow> auth_ok input inst (snd p) \<and> lo_history (snd p) = history"

text \<open>A foreign error leaves the state as it was; an error of the package ends the delivery.\<close>

abbreviation fail_at ::
  "GitHubDeliveryInput \<Rightarrow> jstring \<Rightarrow> DeliveryState list \<Rightarrow> Failure \<Rightarrow> 'w \<times> 'z DeliveryLocals_scheme \<Rightarrow> bool" where
  "fail_at input inst history e p \<equiv> is_delivery e \<or> at_history input inst history p"

lemma acquireToken_wp:
  "(\<And>token w'. Q token w') \<Longrightarrow> (\<And>e w'. is_delivery e \<Longrightarrow> E e w') \<Longrightarrow> io_wp (acquireToken services force) Q E w"
  unfolding acquireToken_def by (simp add: io_wp_simps, rule io_wp_any) (simp_all add: io_wp_simps)

lemma refresh_wp:
  assumes "at_history input inst history p"
  shows "io_wp (refreshAuthentication services input inst)
    (\<lambda>_. at_history input inst history) (fail_at input inst history) p"
  using assms unfolding refreshAuthentication_def setPermissions_def Let_def
  by (simp add: io_wp_simps, intro impI io_wp_any acquireToken_wp)
    (auto simp: at_history_def auth_ok_def assertDeliveryPermissions_typed split: sum.split)

lemma git_wp:
  assumes "at_history input inst history p"
  shows "io_wp (io_bind (io_get lo_token) (\<lambda>token. io_world (git (transportInput input token))))
    (\<lambda>_. at_history input inst history) (\<lambda>_. at_history input inst history) p"
  using assms by (simp add: io_wp_simps, intro io_wp_any) (simp_all add: at_history_def)

lemma gitWithRefresh_wp:
  assumes "at_history input inst history p"
  shows "io_wp (gitWithRefresh services input inst git)
    (\<lambda>_. at_history input inst history) (fail_at input inst history) p"
  unfolding gitWithRefresh_def
proof (rule io_wp_catchI [OF git_wp [OF assms]], goal_cases)
  case (1 e p')
  have "io_wp (io_bind (refreshAuthentication services input inst) (\<lambda>_.
      io_bind (io_get lo_token) (\<lambda>token. io_world (git (transportInput input token)))))
    (\<lambda>_. at_history input inst history) (fail_at input inst history) p'"
    by (rule io_wp_bindI [OF refresh_wp [OF 1]], rule io_wp_mono [OF git_wp]) auto
  with 1 show ?case by (simp only: io_wp_throw io_wp_if split: if_split) blast
qed

lemma api_wp:
  assumes "at_history input inst history p"
  shows "io_wp (io_bind (io_get lo_api) (\<lambda>api. io_world (operation api)))
    (\<lambda>_. at_history input inst history) (\<lambda>_. at_history input inst history) p"
  using assms by (simp add: io_wp_simps, intro io_wp_any) (simp_all add: at_history_def)

lemma callApi_wp:
  assumes "at_history input inst history p"
  shows "io_wp (callApi services input inst operation)
    (\<lambda>_. at_history input inst history) (fail_at input inst history) p"
  unfolding callApi_def
proof (rule io_wp_catchI [OF api_wp [OF assms]], goal_cases)
  case (1 e p')
  have "io_wp (io_bind (refreshAuthentication services input inst) (\<lambda>_.
      io_bind (io_get lo_token) (\<lambda>token.
      io_bind (io_world (githubApiFactory services token (di_owner input) (di_repo input)
          (di_rootDir input))) (\<lambda>api.
      io_bind (io_set (lo_api_update (\<lambda>_. api))) (\<lambda>_. io_world (operation api))))))
    (\<lambda>_. at_history input inst history) (fail_at input inst history) p'"
    by (rule io_wp_bindI [OF refresh_wp [OF 1]], simp add: io_wp_simps, intro io_wp_any)
      (auto simp: at_history_def auth_ok_def)
  with 1 show ?case by (simp only: io_wp_throw io_wp_if split: if_split) blast
qed

lemma advance_wp:
  assumes "at_history input inst history p" and "advanceDeliveryState history next_state = Inr history'"
  shows "io_wp (advance next_state) (\<lambda>_. at_history input inst history') E p"
  using assms by (auto simp: advance_def io_wp_simps at_history_def auth_ok_def)

section \<open>Publication\<close>

text \<open>The histories of a delivery, by what happened to the pull request.\<close>

primrec action_state :: "DeliveryAction \<Rightarrow> DeliveryState" where
  "action_state ActionCreated = PR_CREATED"
| "action_state ActionUpdated = PR_UPDATED"

abbreviation published_at ::
  "GitHubDeliveryInput \<Rightarrow> jstring \<Rightarrow> DeliveryPullRequest \<times> DeliveryAction \<Rightarrow> 'w \<times> 'z DeliveryLocals_scheme \<Rightarrow> bool" where
  "published_at input inst r \<equiv> at_history input inst [PREPARED, PUSHED, action_state (snd r)]"

lemma updateMatch_wp:
  assumes "at_history input inst [PREPARED, PUSHED] p"
  shows "io_wp (updateMatch services input inst match) (published_at input inst)
    (fail_at input inst [PREPARED, PUSHED]) p"
  unfolding updateMatch_def
proof (rule io_wp_bindI [OF callApi_wp [OF assms]], goal_cases)
  case (1 pr p')
  show ?case
    by (rule io_wp_bindI [OF advance_wp [OF 1]]) (simp_all add: advanceDeliveryState_def io_wp_return)
qed

lemma createRace_foreign: "isPullRequestCreateRace e \<Longrightarrow> \<not> is_delivery e"
  by (cases e) (simp_all add: isPullRequestCreateRace_def)

lemma recoverCreateRace_wp:
  assumes "fail_at input inst [PREPARED, PUSHED] e p"
  shows "io_wp (recoverCreateRace services input inst e) (published_at input inst)
    (fail_at input inst [PREPARED, PUSHED]) p"
proof (cases "isPullRequestCreateRace e")
  case True
  with assms have at: "at_history input inst [PREPARED, PUSHED] p" using createRace_foreign by blast
  have "io_wp (case raced of
         [match] \<Rightarrow>
           if \<not> isExactHead match input then
             conflict (js ''GitHub returned a pull request outside the exact delivery head after a create race.'')
           else updateMatch services input inst match
       | _ \<Rightarrow> io_throw e) (published_at input inst) (fail_at input inst [PREPARED, PUSHED]) p'"
    if "at_history input inst [PREPARED, PUSHED] p'" for raced p'
    using that by (auto simp: io_wp_throw conflict_def updateMatch_wp split: list.split)
  then show ?thesis
    using True unfolding recoverCreateRace_def
    by (simp del: io_throw_apply, intro io_wp_bindI [OF callApi_wp [OF at]]) blast
next
  case False
  with assms show ?thesis unfolding recoverCreateRace_def by (simp only: simp_thms if_True io_wp_throw)
qed

lemma createOrRecover_wp:
  assumes "at_history input inst [PREPARED, PUSHED] p"
  shows "io_wp (createOrRecover services input inst) (published_at input inst)
    (fail_at input inst [PREPARED, PUSHED]) p"
  unfolding createOrRecover_def
proof (rule io_wp_catchI)
  show "io_wp (io_bind (callApi services input inst (\<lambda>api. createDraftPullRequest api (createQuery input)))
      (\<lambda>pr. io_bind (advance PR_CREATED) (\<lambda>_. io_return (pr, ActionCreated))))
    (published_at input inst) (fail_at input inst [PREPARED, PUSHED]) p"
  proof (rule io_wp_bindI [OF callApi_wp [OF assms]], goal_cases)
    case (1 pr p')
    show ?case
      by (rule io_wp_bindI [OF advance_wp [OF 1]]) (simp_all add: advanceDeliveryState_def io_wp_return)
  qed
qed (rule recoverCreateRace_wp)

lemma withSafeFailure_wp:
  "io_wp m Q (\<lambda>_ _. True) p \<Longrightarrow> (\<And>e p'. is_delivery e \<Longrightarrow> E e p') \<Longrightarrow> io_wp (withSafeFailure message m) Q E p"
  unfolding withSafeFailure_def by (rule io_wp_catchI) (simp_all only: io_wp_throw safeDeliveryFailure_typed)

lemma publishPullRequest_wp:
  assumes "at_history input inst [PREPARED, PUSHED] p"
  shows "io_wp (publishPullRequest services input inst matches) (published_at input inst)
    (\<lambda>e _. is_delivery e) p"
proof -
  have "io_wp (withSafeFailure message (createOrRecover services input inst)) (published_at input inst)
      (\<lambda>e _. is_delivery e) p"
    and "io_wp (withSafeFailure message (updateMatch services input inst match)) (published_at input inst)
      (\<lambda>e _. is_delivery e) p" for message match
    by (rule withSafeFailure_wp, rule io_wp_mono [OF createOrRecover_wp [OF assms]], simp_all)
      (rule withSafeFailure_wp, rule io_wp_mono [OF updateMatch_wp [OF assms]], simp_all)
  then show ?thesis
    by (auto simp: publishPullRequest_def conflict_def io_wp_throw split: list.split)
qed

lemma wait_wp:
  assumes "at_history input inst history p"
  shows "io_wp (waitForSynchronizedHead services input inst n sha attempts)
    (\<lambda>pr p. at_history input inst history p \<and> dp_headSha pr = sha \<and> isExactHead pr input)
    (\<lambda>_ _. True) p"
  using assms
proof (induction attempts arbitrary: p)
  case (Suc rest)
  let ?Q = "\<lambda>pr p. at_history input inst history p \<and> dp_headSha pr = sha \<and> isExactHead pr input"
  have again: "io_wp (io_bind (io_world (timerSleep services ms)) (\<lambda>_.
      waitForSynchronizedHead services input inst n sha rest)) ?Q (\<lambda>_ _. True) p'"
    if "at_history input inst history p'" for p' ms
  proof (rule io_wp_bindI)
    show "io_wp (io_world (timerSleep services ms)) (\<lambda>_. at_history input inst history) (\<lambda>_ _. True) p'"
      using that by (simp add: io_wp_world, intro io_wp_any) (simp_all add: at_history_def)
  qed (rule Suc.IH)
  have "io_wp (callApi services input inst
      (\<lambda>api. getPullRequest api (di_owner input) (di_repo input) n))
    (\<lambda>_. at_history input inst history) (\<lambda>_ _. True) p"
    by (rule io_wp_mono [OF callApi_wp [OF Suc.prems]]) simp_all
  then show ?case
    unfolding waitForSynchronizedHead.simps
    by (rule io_wp_bindI) (auto simp: io_wp_throw io_wp_return conflict_def again Suc.IH)
qed (simp add: io_wp_throw)

definition grantedChecks :: "bool \<Rightarrow> DeliveryPermissionCheck list" where
  "grantedChecks issues =
     map (\<lambda>capability. \<lparr>pc_capability = capability, pc_required = js ''write'',
       pc_actual = Some (js ''write''), pc_status = PermissionPass\<rparr>) (requiredCapabilities issues)"

lemma auth_ok_granted:
  assumes "auth_ok input inst s"
  shows "lo_permissions s = grantedChecks (di_requireIssuesWrite input)"
proof -
  from assms have granted: "map_of (tk_permissions (lo_token s)) capability = Some (js ''write'')"
    if "capability \<in> set (requiredCapabilities (di_requireIssuesWrite input))" for capability
    using that assertDeliveryPermissions_ok unfolding auth_ok_def by metis
  from assms show ?thesis
    by (simp add: auth_ok_def grantedChecks_def diagnoseDeliveryPermissions_def granted Let_def)
qed

text \<open>What a delivery promises about its result.\<close>

definition delivered :: "GitHubDeliveryInput \<Rightarrow> GitHubDeliveryResult \<Rightarrow> bool" where
  "delivered input res \<longleftrightarrow>
     dr_state res = AWAITING_GATES
     \<and> dr_history res =
         [PREPARED, PUSHED, action_state (dr_action res), HEAD_SYNCHRONIZED, AWAITING_GATES]
     \<and> dr_branchSha res \<noteq> [] \<and> dr_prHeadSha res = dr_branchSha res
     \<and> (dr_checksEmpty res \<longleftrightarrow> dr_checks res = [])
     \<and> dr_permissions res = grantedChecks (di_requireIssuesWrite input)"

lemma any_error: "io_wp m Q E p \<Longrightarrow> io_wp m Q (\<lambda>_ _. True) p"
  by (rule io_wp_mono) simp_all

lemma withSafeFailure_any: "io_wp m Q (\<lambda>_ _. True) p \<Longrightarrow> io_wp (withSafeFailure message m) Q (\<lambda>_ _. True) p"
  by (rule withSafeFailure_wp) simp_all

lemma finishDelivery_wp:
  assumes "at_history input inst [PREPARED, PUSHED, action_state act] p"
    and "pu_remoteSha pushed \<noteq> []" and "dp_headSha synchronized = pu_remoteSha pushed"
  shows "io_wp (finishDelivery services input inst pushed act synchronized)
    (\<lambda>res _. delivered input res) (\<lambda>_ _. True) p"
proof -
  let ?h = "[PREPARED, PUSHED, action_state act, HEAD_SYNCHRONIZED]"
  have steps: "advanceDeliveryState [PREPARED, PUSHED, action_state act] HEAD_SYNCHRONIZED = Inr ?h"
    "advanceDeliveryState ?h AWAITING_GATES = Inr (?h @ [AWAITING_GATES])"
    by (cases act; simp add: advanceDeliveryState_def)+
  show ?thesis
    unfolding finishDelivery_def
  proof (rule io_wp_bindI [OF advance_wp [OF assms(1) steps(1)]],
      rule io_wp_bindI [OF withSafeFailure_any [OF any_error [OF callApi_wp]]], assumption,
      rule io_wp_bindI [OF advance_wp [OF _ steps(2)]], assumption, goal_cases)
    case (1 _ p1 checks p2 _ p3)
    from 1(3) show ?case
      by (simp add: io_wp_simps, intro io_wp_any)
        (auto simp: at_history_def delivered_def assms auth_ok_granted)
  qed
qed

lemma deliverPullRequest_wp:
  assumes "at_history input inst [PREPARED, PUSHED] p"
  shows "io_wp (deliverPullRequest services input inst pushed)
    (\<lambda>res _. delivered input res) (\<lambda>_ _. True) p"
  unfolding deliverPullRequest_def
proof (rule io_wp_bindI [OF withSafeFailure_any [OF any_error [OF callApi_wp [OF assms]]]],
    rule io_wp_bindI [OF any_error [OF publishPullRequest_wp]], assumption, unfold split_beta,
    rule io_wp_bindI [OF withSafeFailure_any [OF wait_wp]], assumption,
    rule io_wp_bindI [OF any_error [OF gitWithRefresh_wp]], erule conjunct1, goal_cases)
  case (1 matches p1 r p2 synchronized p3 sha p4)
  then show ?case
    by (cases "sha = [] \<or> sha \<noteq> pu_branchSha pushed \<or> dp_headSha synchronized \<noteq> sha")
      (auto simp: headStale_def io_wp_throw intro: finishDelivery_wp)
qed

lemma withApi_wp:
  assumes "io_wp m Q E (fst p, DeliveryLocals.extend (snd p) (DeliverySession.fields api))"
    and "\<And>a p. Q a p \<Longrightarrow> Q' a (fst p, DeliveryLocals.truncate (snd p))"
    and "\<And>e p. E e p \<Longrightarrow> E' e (fst p, DeliveryLocals.truncate (snd p))"
  shows "io_wp (withApi api m) Q' E' p"
  using assms by (fastforce simp: io_wp_def withApi_def split: prod.splits sum.splits)

lemma enter_at_history:
  "at_history input inst history p \<Longrightarrow>
     at_history input inst history (w, DeliveryLocals.extend (snd p) rest)"
  by (auto simp: at_history_def auth_ok_def DeliveryLocals.defs)

lemma pushAndDeliver_wp:
  assumes "at_history input inst [PREPARED] p"
  shows "io_wp (pushAndDeliver services input inst) (\<lambda>res _. delivered input res) (\<lambda>_ _. True) p"
  unfolding pushAndDeliver_def
proof (rule io_wp_bindI [OF any_error [OF gitWithRefresh_wp [OF assms]]], goal_cases)
  case (1 pushed p1)
  have "advanceDeliveryState [PREPARED] PUSHED = Inr [PREPARED, PUSHED]"
    by (simp add: advanceDeliveryState_def)
  note pushed = advance_wp [OF 1 this]
  have "io_wp (io_bind (advance PUSHED) (\<lambda>_.
       io_bind (io_get lo_token) (\<lambda>token.
       io_bind (io_world (githubApiFactory services token (di_owner input) (di_repo input)
           (di_rootDir input))) (\<lambda>api.
       withApi api (deliverPullRequest services input inst pushed)))))
     (\<lambda>res _. delivered input res) (\<lambda>_ _. True) p1"
  proof (rule io_wp_bindI [OF pushed])
    fix p2 :: "'a \<times> DeliveryLocals" assume at: "at_history input inst [PREPARED, PUSHED] p2"
    have "io_wp (withApi api (deliverPullRequest services input inst pushed))
        (\<lambda>res _. delivered input res) (\<lambda>_ _. True) (w, snd p2)" for api w
      using deliverPullRequest_wp [OF enter_at_history [OF at, where w = w and rest = "DeliverySession.fields api"]]
      by (intro withApi_wp) simp_all
    then show "io_wp (io_bind (io_get lo_token) (\<lambda>token.
       io_bind (io_world (githubApiFactory services token (di_owner input) (di_repo input)
           (di_rootDir input))) (\<lambda>api.
       withApi api (deliverPullRequest services input inst pushed))))
     (\<lambda>res _. delivered input res) (\<lambda>_ _. True) p2"
      unfolding io_wp_bind io_wp_get io_wp_world by (rule io_wp_any) simp_all
  qed
  then show ?case by (simp add: headStale_def io_wp_throw)
qed

lemma publish_wp: "io_wp (publish services input) (\<lambda>res _. delivered input res) (\<lambda>_ _. True) w"
proof -
  have "io_wp (pushAndDeliver services input (tk_installationId token)) (\<lambda>res _. delivered input res) (\<lambda>_ _. True)
      (w', \<lparr>lo_token = token, lo_permissions = checks, lo_refreshUsed = False, lo_history = [PREPARED]\<rparr>)"
    if "checks = diagnoseDeliveryPermissions (tk_permissions token) (di_requireIssuesWrite input)"
      "assertDeliveryPermissions checks = Inr ()" for token checks w'
    using that by (intro pushAndDeliver_wp) (simp add: at_history_def auth_ok_def)
  then show ?thesis
    unfolding publish_def Let_def
    by (simp add: io_wp_simps split: sum.split)
      (intro impI, rule io_wp_any, simp_all add: io_wp_simps split: sum.split)
qed

section \<open>Errors\<close>

text \<open>A program whose errors are errors of the package, or errors with \<open>P\<close>.\<close>

definition typed :: "(Failure \<Rightarrow> bool) \<Rightarrow> ('w, Failure, 'a) io \<Rightarrow> bool" where
  "typed P m \<longleftrightarrow> (\<forall>w. io_wp m (\<lambda>_ _. True) (\<lambda>e _. is_delivery e \<or> P e) w)"

lemma typed_wp: "typed P m \<Longrightarrow> io_wp m (\<lambda>_ _. True) (\<lambda>e _. is_delivery e \<or> P e) w"
  by (simp add: typed_def)

lemma typed_raises: "(\<And>w w' e. m w = (w', Inl e) \<Longrightarrow> P e) \<Longrightarrow> typed P m"
  unfolding typed_def by (intro allI io_wpI) auto

lemma typed_bind: "typed P m \<Longrightarrow> (\<And>a. typed P (f a)) \<Longrightarrow> typed P (io_bind m f)"
  unfolding typed_def by (blast intro: io_wp_bindI)

lemma typed_safe: "typed P (withSafeFailure message m)"
  unfolding typed_def by (intro allI withSafeFailure_wp io_wp_any) simp_all

lemma typed_token: "typed P (acquireToken services force)"
  unfolding typed_def by (intro allI acquireToken_wp) simp_all

lemma typed_basic:
  "typed P (io_return a)" "typed P (io_get f)" "typed P (io_set g)" "is_delivery e \<Longrightarrow> typed P (io_throw e)"
  "typed P (conflict message)" "typed P (headStale message)" "typed P (advance next_state)"
  "typed P (io_result (assertDeliveryPermissions checks))" "typed P (io_result (validateInput input))"
  by (auto simp: typed_def io_wp_simps conflict_def headStale_def advance_def
      advanceDeliveryState_def invalidTransition_def validateInput_def assertDeliveryPermissions_typed
      split: sum.split)

lemma typed_world: "typed P m \<Longrightarrow> typed P (io_world m)"
  unfolding typed_def io_wp_world by simp

lemma typed_locals: "typed P m \<Longrightarrow> typed P (io_locals s m)"
  unfolding typed_def io_wp_locals by simp

lemma typed_withApi: "typed P m \<Longrightarrow> typed P (withApi api m)"
  unfolding typed_def by (blast intro: withApi_wp)

lemma typed_catch:
  "typed P m \<Longrightarrow> (\<And>e. is_delivery e \<or> P e \<Longrightarrow> typed P (h e)) \<Longrightarrow> typed P (io_catch m h)"
  unfolding typed_def by (blast intro: io_wp_catchI)

lemma typed_throw: "is_delivery e \<or> P e \<Longrightarrow> typed P (io_throw e)"
  by (simp add: typed_def io_wp_simps)

lemma typed_if: "(b \<Longrightarrow> typed P m) \<Longrightarrow> (\<not> b \<Longrightarrow> typed P n) \<Longrightarrow> typed P (if b then m else n)"
  by simp

text \<open>The errors of the services that \<open>publish\<close> calls without wrapping what they throw.\<close>

definition unwrapped_error :: "'w DeliveryServices \<Rightarrow> Failure \<Rightarrow> bool" where
  "unwrapped_error services e \<longleftrightarrow> (\<exists>w w'. tokenInvalidate services w = (w', Inl e)
     \<or> (\<exists>input. gitPush services input w = (w', Inl e))
     \<or> (\<exists>input. gitReadRemoteSha services input w = (w', Inl e))
     \<or> (\<exists>token owner repo dir. githubApiFactory services token owner repo dir w = (w', Inl e))
     \<or> clockNow services w = (w', Inl e))"

lemma typed_services:
  "typed (unwrapped_error services) (tokenInvalidate services)"
  "typed (unwrapped_error services) (gitPush services ti)"
  "typed (unwrapped_error services) (gitReadRemoteSha services ti)"
  "typed (unwrapped_error services) (githubApiFactory services token own rep dir)"
  "typed (unwrapped_error services) (clockNow services)"
  unfolding unwrapped_error_def by (rule typed_raises, blast)+

lemma typed_refresh: "typed (unwrapped_error services) (refreshAuthentication services input inst)"
  unfolding refreshAuthentication_def setPermissions_def Let_def
  by (intro typed_bind typed_basic typed_token typed_services)
    (simp add: typed_basic, intro conjI impI typed_bind typed_basic typed_token typed_world typed_services; simp add: typed_basic typed_bind)

lemma typed_gitWithRefresh:
  assumes "\<And>input. typed (unwrapped_error services) (git input)"
  shows "typed (unwrapped_error services) (gitWithRefresh services input inst git)"
  unfolding gitWithRefresh_def
  by (intro typed_catch typed_bind typed_if typed_world typed_throw typed_basic typed_refresh assms)

lemma typed_publishPullRequest: "typed P (publishPullRequest services input inst matches)"
  by (auto simp: publishPullRequest_def typed_safe typed_basic split: list.split)

lemma typed_pushAndDeliver: "typed (unwrapped_error services) (pushAndDeliver services input inst)"
proof -
  have "typed (unwrapped_error services) (finishDelivery services input inst pushed act pr)" for pushed act pr
    unfolding finishDelivery_def
    by (intro typed_bind typed_basic typed_safe typed_world typed_services)
  then have "typed (unwrapped_error services) (deliverPullRequest services input inst pushed)" for pushed
    unfolding deliverPullRequest_def split_beta
    by (intro typed_bind typed_if typed_basic typed_safe typed_publishPullRequest
        typed_gitWithRefresh typed_services)
  then show ?thesis
    unfolding pushAndDeliver_def
    by (intro typed_bind typed_if typed_basic typed_world typed_withApi typed_gitWithRefresh typed_services)
qed

lemma typed_publish: "typed (unwrapped_error services) (publish services input)"
  unfolding publish_def Let_def
  by (intro typed_bind typed_basic typed_token typed_locals typed_pushAndDeliver)

section \<open>How often a delivery authenticates\<close>

text \<open>A measure of the world that only token requests increase, each by one.\<close>

definition steady :: "('w \<Rightarrow> nat) \<Rightarrow> ('w, 'e, 'a) io \<Rightarrow> bool" where
  "steady count m \<longleftrightarrow> (\<forall>w. count (fst (m w)) = count w)"

definition steady_api :: "('w \<Rightarrow> nat) \<Rightarrow> 'w DeliveryGitHubApi \<Rightarrow> bool" where
  "steady_api count api \<longleftrightarrow>
     (\<forall>query. steady count (findOpenPullRequests api query))
     \<and> (\<forall>query. steady count (createDraftPullRequest api query))
     \<and> (\<forall>query. steady count (updatePullRequest api query))
     \<and> (\<forall>own rep n. steady count (getPullRequest api own rep n))
     \<and> (\<forall>own rep ref. steady count (listChecks api own rep ref))"

definition counts_tokens :: "('w \<Rightarrow> nat) \<Rightarrow> 'w DeliveryServices \<Rightarrow> bool" where
  "counts_tokens count services \<longleftrightarrow>
     (\<forall>force w. count (fst (tokenAcquire services force w)) = Suc (count w))
     \<and> steady count (tokenInvalidate services)
     \<and> (\<forall>input. steady count (gitPush services input))
     \<and> (\<forall>input. steady count (gitReadRemoteSha services input))
     \<and> steady count (clockNow services) \<and> (\<forall>ms. steady count (timerSleep services ms))
     \<and> (\<forall>token own rep dir. steady count (githubApiFactory services token own rep dir))
     \<and> (\<forall>token own rep dir w w' api. githubApiFactory services token own rep dir w = (w', Inr api) \<longrightarrow>
          steady_api count api)"

lemma steady_apiD:
  assumes "steady_api count api"
  shows "steady count (findOpenPullRequests api query)" "steady count (createDraftPullRequest api query')"
    "steady count (updatePullRequest api query'')" "steady count (getPullRequest api own rep n)"
    "steady count (listChecks api own rep ref)"
  using assms by (simp_all add: steady_api_def)

lemma steady_wp: "steady count m \<Longrightarrow> (\<And>a w'. count w' = count w \<Longrightarrow> Q a w') \<Longrightarrow>
    (\<And>e w'. count w' = count w \<Longrightarrow> E e w') \<Longrightarrow> io_wp m Q E w"
  by (rule io_wpI) (metis steady_def fst_conv)+

text \<open>
  One request so far, and one more at most once the refresh has been used; \<open>G\<close> stands for what the
  variables of the authentication do not touch.
\<close>

definition spent ::
  "('w \<Rightarrow> nat) \<Rightarrow> nat \<Rightarrow> ('z DeliveryLocals_scheme \<Rightarrow> bool) \<Rightarrow> 'w \<times> 'z DeliveryLocals_scheme \<Rightarrow> bool" where
  "spent count start G p \<longleftrightarrow>
     count (fst p) \<le> start + (if lo_refreshUsed (snd p) then 2 else 1) \<and> G (snd p)"

definition untouched :: "('z DeliveryLocals_scheme \<Rightarrow> bool) \<Rightarrow> bool" where
  "untouched G \<longleftrightarrow>
     (\<forall>s token. G (lo_token_update (\<lambda>_. token) s) = G s)
     \<and> (\<forall>s checks. G (lo_permissions_update (\<lambda>_. checks) s) = G s)
     \<and> (\<forall>s used. G (lo_refreshUsed_update (\<lambda>_. used) s) = G s)
     \<and> (\<forall>s history. G (lo_history_update (\<lambda>_. history) s) = G s)"

lemma keeps_wp: "io_keeps P m \<longleftrightarrow> (\<forall>w. P w \<longrightarrow> io_wp m (\<lambda>_. P) (\<lambda>_. P) w)"
  unfolding io_keeps_def io_wp_def
  by (intro all_cong1 imp_cong refl) (simp split: prod.split sum.split)

lemma keeps_basic:
  "io_keeps P (io_get f)" "io_keeps P (io_result r)" "io_keeps P (conflict message)"
  "io_keeps P (headStale message)"
  by (auto simp: keeps_wp io_wp_simps conflict_def headStale_def split: sum.split)

lemma keeps_if: "(b \<Longrightarrow> io_keeps P m) \<Longrightarrow> (\<not> b \<Longrightarrow> io_keeps P n) \<Longrightarrow> io_keeps P (if b then m else n)"
  by simp

lemma keeps_safe: "io_keeps P m \<Longrightarrow> io_keeps P (withSafeFailure message m)"
  unfolding withSafeFailure_def by (intro io_keeps_intros)

lemma keeps_set: "untouched G \<Longrightarrow> io_keeps (spent count start G) (io_set (lo_token_update (\<lambda>_. token)))"
  "untouched G \<Longrightarrow> io_keeps (spent count start G) (io_set (lo_permissions_update (\<lambda>_. checks)))"
  "untouched G \<Longrightarrow> io_keeps (spent count start G) (io_set (lo_history_update (\<lambda>_. history)))"
  by (auto simp: keeps_wp io_wp_simps spent_def untouched_def)

lemma keeps_advance: "untouched G \<Longrightarrow> io_keeps (spent count start G) (advance next_state)"
  unfolding advance_def by (intro io_keeps_intros keeps_basic keeps_set)

lemma keeps_world: "steady count m \<Longrightarrow> io_keeps (spent count start G) (io_world m)"
  unfolding keeps_wp io_wp_world by (intro allI impI steady_wp [where count = count]) (simp_all add: spent_def)

lemma keeps_refresh:
  assumes "counts_tokens count services" and "untouched G"
  shows "io_keeps (spent count start G) (refreshAuthentication services input inst)"
proof -
  have used: "io_wp (io_set (lo_refreshUsed_update (\<lambda>_. True)))
      (\<lambda>_ p. count (fst p) \<le> start + 1 \<and> lo_refreshUsed (snd p) \<and> G (snd p)) E p"
    if "spent count start G p" "\<not> lo_refreshUsed (snd p)" for p E
    using that assms(2) by (simp add: io_wp_simps spent_def untouched_def)
  have dropped: "io_wp (io_world (tokenInvalidate services))
      (\<lambda>_ p. count (fst p) \<le> start + 1 \<and> lo_refreshUsed (snd p) \<and> G (snd p)) (\<lambda>_. spent count start G) p"
    if "count (fst p) \<le> start + 1 \<and> lo_refreshUsed (snd p) \<and> G (snd p)" for p
    unfolding io_wp_world using that assms(1)
    by (intro steady_wp [where count = count]) (simp_all add: counts_tokens_def spent_def)
  have "count (fst (acquireToken services True w)) = Suc (count w)" for w
  proof -
    have "count (fst (tokenAcquire services True w)) = Suc (count w)"
      using assms(1) by (simp add: counts_tokens_def)
    then show ?thesis by (auto simp: acquireToken_def io_catch_def split: prod.split sum.split)
  qed
  note acquired = this
  have acquired: "io_wp (io_world (acquireToken services True)) (\<lambda>_. spent count start G) (\<lambda>_. spent count start G) p"
    if "count (fst p) \<le> start + 1 \<and> lo_refreshUsed (snd p) \<and> G (snd p)" for p
  proof -
    have "spent count start G (w', snd p)" if "acquireToken services True (fst p) = (w', r)" for w' r
      using that acquired [of "fst p"] \<open>count (fst p) \<le> start + 1 \<and> lo_refreshUsed (snd p) \<and> G (snd p)\<close>
      by (simp add: spent_def)
    then show ?thesis unfolding io_wp_world by (auto intro: io_wpI)
  qed
  have after: "io_keeps (spent count start G)
      (io_bind (io_set (lo_token_update (\<lambda>_. token))) (\<lambda>_.
        if tk_installationId token \<noteq> inst then io_throw e
        else io_bind (setPermissions checks) (\<lambda>_. io_result (assertDeliveryPermissions checks))))"
    for token checks e
    unfolding setPermissions_def by (intro io_keeps_intros keeps_if keeps_basic keeps_set assms(2))
  have first: "io_wp (io_bind (io_set (lo_refreshUsed_update (\<lambda>_. True))) (\<lambda>_.
         io_bind (io_world (tokenInvalidate services)) (\<lambda>_.
         io_bind (io_world (acquireToken services True)) f)))
      (\<lambda>_. spent count start G) (\<lambda>_. spent count start G) p"
    if "spent count start G p" "\<not> lo_refreshUsed (snd p)" "\<And>token. io_keeps (spent count start G) (f token)"
    for f :: "DeliveryToken \<Rightarrow> ('a, 'b, unit) delivery_io" and p
    by (rule io_wp_bindI [OF used [OF that(1,2)]], rule io_wp_bindI [OF dropped], assumption,
        rule io_wp_bindI [OF acquired], assumption)
      (simp add: that(3) [unfolded keeps_wp])
  show ?thesis
    unfolding keeps_wp refreshAuthentication_def Let_def
  proof (intro allI impI, goal_cases)
    case (1 p)
    show ?case
    proof (cases "lo_refreshUsed (snd p)")
      case True
      with 1 show ?thesis unfolding io_wp_bind [of "io_get _"] io_wp_get by (simp only: if_True io_wp_throw)
    next
      case False
      show ?thesis unfolding io_wp_bind [of "io_get _"] io_wp_get if_not_P [OF False]
        by (rule first [OF 1 False after])
    qed
  qed
qed

lemma keeps_gitWithRefresh:
  assumes "counts_tokens count services" and "untouched G" and "\<And>input. steady count (git input)"
  shows "io_keeps (spent count start G) (gitWithRefresh services input inst git)"
  unfolding gitWithRefresh_def
  by (intro io_keeps_intros keeps_if keeps_basic keeps_world keeps_refresh assms)

abbreviation session_spent :: "('w \<Rightarrow> nat) \<Rightarrow> nat \<Rightarrow> 'w \<times> 'w DeliverySession \<Rightarrow> bool" where
  "session_spent count start \<equiv> spent count start (\<lambda>s. steady_api count (lo_api s))"

lemma untouched_api: "untouched (\<lambda>s :: 'w DeliverySession. steady_api count (lo_api s))"
  by (simp add: untouched_def)

lemma keeps_apiCall:
  assumes "\<And>api. steady_api count api \<Longrightarrow> steady count (operation api)"
  shows "io_keeps (session_spent count start) (io_bind (io_get lo_api) (\<lambda>api. io_world (operation api)))"
  unfolding keeps_wp io_wp_bind io_wp_get
proof (intro allI impI)
  fix p :: "'a \<times> 'a DeliverySession" assume spent: "session_spent count start p"
  then have "steady count (operation (lo_api (snd p)))" by (simp add: spent_def assms)
  from keeps_world [OF this] spent
  show "io_wp (io_world (operation (lo_api (snd p)))) (\<lambda>_. session_spent count start)
      (\<lambda>_. session_spent count start) p"
    unfolding keeps_wp by blast
qed

lemma keeps_renewApi:
  assumes "counts_tokens count services" and "\<And>api. steady_api count api \<Longrightarrow> steady count (operation api)"
  shows "io_keeps (session_spent count start)
    (io_bind (io_world (githubApiFactory services token own rep dir)) (\<lambda>api.
     io_bind (io_set (lo_api_update (\<lambda>_. api))) (\<lambda>_. io_world (operation api))))"
  unfolding keeps_wp
proof (intro allI impI)
  fix p :: "'a \<times> 'a DeliverySession" assume spent: "session_spent count start p"
  have "steady count (githubApiFactory services token own rep dir)"
    using assms(1) by (simp add: counts_tokens_def)
  then have made: "count w' = count (fst p) \<and> (\<forall>api. r = Inr api \<longrightarrow> steady_api count api)"
    if "githubApiFactory services token own rep dir (fst p) = (w', r)" for w' r
    using that assms(1) by (metis counts_tokens_def steady_def fst_conv)
  have call: "io_wp (io_world (operation api)) (\<lambda>_. session_spent count start) (\<lambda>_. session_spent count start) q"
    if "session_spent count start q" "steady_api count api" for q api
    using keeps_world [OF assms(2) [OF that(2)]] that(1) unfolding keeps_wp by blast
  have "io_wp (io_world (githubApiFactory services token own rep dir))
      (\<lambda>api q. session_spent count start (fst q, lo_api_update (\<lambda>_. api) (snd q)) \<and> steady_api count api)
      (\<lambda>_. session_spent count start) p"
    unfolding io_wp_world using spent by (intro io_wpI) (auto simp: spent_def dest!: made)
  then show "io_wp (io_bind (io_world (githubApiFactory services token own rep dir)) (\<lambda>api.
       io_bind (io_set (lo_api_update (\<lambda>_. api))) (\<lambda>_. io_world (operation api))))
     (\<lambda>_. session_spent count start) (\<lambda>_. session_spent count start) p"
    by (rule io_wp_bindI) (simp add: io_wp_bind io_wp_set call)
qed

lemma keeps_callApi:
  assumes "counts_tokens count services" and "\<And>api. steady_api count api \<Longrightarrow> steady count (operation api)"
  shows "io_keeps (session_spent count start) (callApi services input inst operation)"
  unfolding callApi_def
  by (intro io_keeps_catch keeps_apiCall keeps_if io_keeps_throw io_keeps_bind
      [of _ "refreshAuthentication services input inst"] io_keeps_bind [of _ "io_get lo_token"]
      keeps_basic keeps_renewApi keeps_refresh untouched_api assms)

lemma keeps_deliver:
  assumes "counts_tokens count services"
  shows "io_keeps (session_spent count start) (deliverPullRequest services input inst pushed)"
proof -
  note call = keeps_callApi [OF assms]
  have update: "io_keeps (session_spent count start) (updateMatch services input inst match)" for match
    unfolding updateMatch_def
    by (intro io_keeps_bind call io_keeps_return keeps_advance untouched_api steady_apiD)
  have recover: "io_keeps (session_spent count start) (recoverCreateRace services input inst e)" for e
    unfolding recoverCreateRace_def
    by (intro keeps_if io_keeps_bind call io_keeps_throw steady_apiD)
      (auto simp: update keeps_basic io_keeps_throw split: list.split)
  have create: "io_keeps (session_spent count start) (createOrRecover services input inst)"
    unfolding createOrRecover_def
    by (intro io_keeps_catch io_keeps_bind call io_keeps_return keeps_advance untouched_api recover
        steady_apiD)
  have publish: "io_keeps (session_spent count start) (publishPullRequest services input inst matches)" for matches
    by (auto simp: publishPullRequest_def keeps_basic intro!: keeps_safe create update split: list.split)
  have sleep: "steady count (timerSleep services ms)" for ms
    using assms by (simp add: counts_tokens_def)
  have wait: "io_keeps (session_spent count start) (waitForSynchronizedHead services input inst n sha k)" for n sha k
  proof (induction k)
    case (Suc k)
    show ?case unfolding waitForSynchronizedHead.simps
      by (intro io_keeps_bind call keeps_if keeps_basic io_keeps_return keeps_world sleep Suc.IH
          steady_apiD)
  qed (simp only: waitForSynchronizedHead.simps io_keeps_throw)
  have steady: "steady count (gitReadRemoteSha services ti)" "steady count (clockNow services)" for ti
    using assms by (simp_all add: counts_tokens_def)
  have finish: "io_keeps (session_spent count start) (finishDelivery services input inst pushed act pr)" for act pr
    unfolding finishDelivery_def
    by (intro io_keeps_bind keeps_safe call keeps_basic keeps_world io_keeps_return keeps_advance
        untouched_api steady steady_apiD)
  show ?thesis
    unfolding deliverPullRequest_def split_beta
    by (intro io_keeps_bind keeps_safe call publish wait keeps_gitWithRefresh assms untouched_api
        steady keeps_if keeps_basic finish steady_apiD)
qed

lemma pushAndDeliver_spent:
  assumes "counts_tokens count services" and "spent count start (\<lambda>_. True) p"
  shows "count (fst (fst (pushAndDeliver services input inst p))) \<le> start + 2"
proof -
  let ?I = "spent count start (\<lambda>_ :: DeliveryLocals. True)" and ?E = "\<lambda>_ p. count (fst p) \<le> start + 2"
  have steady: "steady count (gitPush services ti)" for ti
    using assms(1) by (simp add: counts_tokens_def)
  have factory: "steady count (githubApiFactory services token own rep dir)" for token own rep dir
    using assms(1) by (simp add: counts_tokens_def)
  have made: "count w' = count w \<and> (\<forall>api. r = Inr api \<longrightarrow> steady_api count api)"
    if "githubApiFactory services token own rep dir w = (w', r)" for token own rep dir w w' r
    using that assms(1) factory by (metis counts_tokens_def steady_def fst_conv)
  have bound: "?I p \<Longrightarrow> ?E a p" for p a by (auto simp: spent_def split: if_splits)
  have deliver: "io_wp (withApi api (deliverPullRequest services input inst pushed)) ?E ?E (w, s)"
    if "?I (w, s)" "steady_api count api" for api pushed w and s :: DeliveryLocals
  proof -
    have "session_spent count start (w, DeliveryLocals.extend s (DeliverySession.fields api))"
      using that by (simp add: spent_def DeliveryLocals.defs DeliverySession.defs)
    with keeps_deliver [OF assms(1)]
    have "io_wp (deliverPullRequest services input inst pushed)
        (\<lambda>_. session_spent count start) (\<lambda>_. session_spent count start)
        (w, DeliveryLocals.extend s (DeliverySession.fields api))"
      unfolding keeps_wp by blast
    then show ?thesis
      by (intro withApi_wp [where Q = "\<lambda>_. session_spent count start" and E = "\<lambda>_. session_spent count start"])
        (auto simp: spent_def split: if_splits)
  qed
  have tail: "io_wp (io_bind (io_get lo_token) (\<lambda>token.
      io_bind (io_world (githubApiFactory services token (di_owner input) (di_repo input) (di_rootDir input)))
        (\<lambda>api. withApi api (deliverPullRequest services input inst pushed)))) ?E ?E p"
    if "?I p" for p pushed
    unfolding io_wp_bind io_wp_get io_wp_world
  proof (rule io_wpI)
    fix w' api
    assume "githubApiFactory services (lo_token (snd p)) (di_owner input) (di_repo input) (di_rootDir input)
      (fst p) = (w', Inr api)"
    from made [OF this] that
    show "io_wp (withApi api (deliverPullRequest services input inst pushed)) ?E ?E (w', snd p)"
      by (intro deliver) (auto simp: spent_def)
  next
    fix w' e
    assume "githubApiFactory services (lo_token (snd p)) (di_owner input) (di_repo input) (di_rootDir input)
      (fst p) = (w', Inl e)"
    from made [OF this] that show "?E e (w', snd p)" by (auto simp: spent_def split: if_splits)
  qed
  have "io_wp (gitWithRefresh services input inst (gitPush services)) (\<lambda>_. ?I) ?E p"
  proof -
    have "io_keeps ?I (gitWithRefresh services input inst (gitPush services))"
      by (rule keeps_gitWithRefresh [OF assms(1)]) (simp_all add: untouched_def steady)
    with assms(2) show ?thesis unfolding keeps_wp by (blast intro: io_wp_mono bound)
  qed
  then have "io_wp (pushAndDeliver services input inst) ?E ?E p"
    unfolding pushAndDeliver_def
  proof (rule io_wp_bindI, goal_cases)
    case (1 pushed p')
    have "io_wp (advance PUSHED) (\<lambda>_. ?I) ?E p'"
    proof -
      have "io_keeps ?I (advance PUSHED)" by (rule keeps_advance) (simp add: untouched_def)
      with 1 show ?thesis unfolding keeps_wp by (blast intro: io_wp_mono bound)
    qed
    then have "io_wp (io_bind (advance PUSHED) (\<lambda>_. io_bind (io_get lo_token) (\<lambda>token.
        io_bind (io_world (githubApiFactory services token (di_owner input) (di_repo input) (di_rootDir input)))
        (\<lambda>api. withApi api (deliverPullRequest services input inst pushed))))) ?E ?E p'"
      by (rule io_wp_bindI) (rule tail)
    with bound [OF 1] show ?case
      unfolding headStale_def by (simp only: io_wp_if io_wp_throw simp_thms split: if_split)
  qed
  then show ?thesis by (auto simp: io_wp_def split: prod.splits sum.splits)
qed

lemma publish_spent:
  assumes "counts_tokens count services"
  shows "count (fst (publish services input w)) \<le> count w + 2"
proof (cases "acquireToken services False w")
  case (Pair w1 r)
  have "count (fst (tokenAcquire services False w)) = Suc (count w)"
    using assms by (simp add: counts_tokens_def)
  then have "count w1 = Suc (count w)"
    using Pair by (auto simp: acquireToken_def io_catch_def split: prod.splits sum.splits if_splits)
  then have "count (fst (fst (pushAndDeliver services input inst
      (w1, \<lparr>lo_token = token, lo_permissions = checks, lo_refreshUsed = False, lo_history = [PREPARED]\<rparr>))))
    \<le> count w + 2" for inst token checks
    by (intro pushAndDeliver_spent [OF assms]) (simp add: spent_def)
  with Pair \<open>count w1 = Suc (count w)\<close> show ?thesis
    by (auto simp: publish_def io_bind_def io_result_def io_locals_def Let_def split: sum.split prod.split)
      (metis fst_conv)+
qed

section \<open>GitHub after the push\<close>

definition synchronizedPush :: "PushResult \<Rightarrow> bool" where
  "synchronizedPush pushed \<longleftrightarrow> pu_remoteSha pushed \<noteq> [] \<and> pu_remoteSha pushed = pu_branchSha pushed"

lemma gitWithRefresh_api [simp]:
  "gitWithRefresh (services\<lparr>githubApiFactory := f\<rparr>) input inst git = gitWithRefresh services input inst git"
  unfolding gitWithRefresh_def refreshAuthentication_def acquireToken_def by (simp cong: if_cong)

lemma gitWithRefresh_result:
  "gitWithRefresh services input inst git p = (p', Inr r) \<Longrightarrow> \<exists>ti w w'. git ti w = (w', Inr r)"
  by (auto simp: gitWithRefresh_def io_catch_Inr io_bind_Inr io_get_def io_world_def split: prod.splits if_splits)
    (metis surj_pair)

lemma pushAndDeliver_api:
  assumes "\<nexists>ti w w' pushed. gitPush services ti w = (w', Inr pushed) \<and> synchronizedPush pushed"
  shows "pushAndDeliver (services\<lparr>githubApiFactory := f\<rparr>) input inst = pushAndDeliver services input inst"
proof
  fix p
  show "pushAndDeliver (services\<lparr>githubApiFactory := f\<rparr>) input inst p = pushAndDeliver services input inst p"
  proof (cases "gitWithRefresh services input inst (gitPush services) p")
    case (Pair p' r)
    show ?thesis
    proof (cases r)
      case (Inl e)
      with Pair show ?thesis by (simp add: pushAndDeliver_def io_bind_eval)
    next
      case (Inr pushed)
      with Pair assms gitWithRefresh_result have "\<not> synchronizedPush pushed" by fast
      with Pair Inr show ?thesis
        by (simp add: pushAndDeliver_def io_bind_eval synchronizedPush_def)
    qed
  qed
qed

end
