(* ===== verification/DeliveryProperties.thy ===== *)
theory DeliveryProperties
  imports DeliveryCorrectness
begin

text \<open>
  The properties of the delivery service: what a successful publication guarantees, which errors it
  throws, how often it authenticates, and that GitHub is reached only after a verified push.
\<close>

section \<open>A concrete delivery\<close>

text \<open>Services of a world that counts the token requests; every other call leaves it alone.\<close>

definition demo_token :: DeliveryToken where
  "demo_token =
     \<lparr>tk_value = js ''t'', tk_expiresAt = [], tk_installationId = js ''1'',
      tk_permissions = [(js ''contents'', js ''write''), (js ''pull_requests'', js ''write''),
        (js ''workflows'', js ''write'')]\<rparr>"

definition demo_pr :: DeliveryPullRequest where
  "demo_pr =
     \<lparr>dp_number = 5, dp_url = [], dp_headOwner = js ''acme'', dp_headRepo = js ''app'',
      dp_headRef = js ''work'', dp_headSha = js ''c1''\<rparr>"

definition demo_api :: "nat DeliveryGitHubApi" where
  "demo_api =
     \<lparr>findOpenPullRequests = (\<lambda>query w. (w, Inr [])), createDraftPullRequest = (\<lambda>query w. (w, Inr demo_pr)),
      updatePullRequest = (\<lambda>query w. (w, Inr demo_pr)), getPullRequest = (\<lambda>own rep n w. (w, Inr demo_pr)),
      listChecks = (\<lambda>own rep ref w. (w, Inr []))\<rparr>"

definition demo_services :: "nat DeliveryServices" where
  "demo_services =
     \<lparr>tokenAcquire = (\<lambda>force w. (Suc w, Inr demo_token)), tokenInvalidate = (\<lambda>w. (w, Inr ())),
      gitPush = (\<lambda>ti w. (w, Inr \<lparr>pu_branchSha = js ''c1'', pu_remoteSha = js ''c1''\<rparr>)),
      gitReadRemoteSha = (\<lambda>ti w. (w, Inr (js ''c1''))),
      githubApiFactory = (\<lambda>token own rep dir w. (w, Inr demo_api)),
      clockNow = (\<lambda>w. (w, Inr [])), timerSleep = (\<lambda>ms w. (w, Inr ())),
      headSyncAttempts = None, headSyncIntervalMs = None\<rparr>"

definition demo_input :: GitHubDeliveryInput where
  "demo_input =
     \<lparr>di_rootDir = js ''/r'', di_owner = js ''acme'', di_repo = js ''app'', di_branch = js ''work'',
      di_base = None, di_title = js ''T'', di_body = js ''B'', di_remote = None, di_timeoutMs = None,
      di_requireIssuesWrite = False\<rparr>"

definition demo_result :: GitHubDeliveryResult where
  "demo_result =
     \<lparr>dr_state = AWAITING_GATES,
      dr_history = [PREPARED, PUSHED, PR_CREATED, HEAD_SYNCHRONIZED, AWAITING_GATES],
      dr_action = ActionCreated, dr_prNumber = 5, dr_prUrl = [], dr_branchSha = js ''c1'',
      dr_prHeadSha = js ''c1'', dr_checks = [], dr_checksEmpty = True,
      dr_permissions = grantedChecks False, dr_evidenceTimestamp = []\<rparr>"

lemma demo_publish: "publish demo_services demo_input 0 = (1, Inr demo_result)"
  by code_simp

section \<open>Results\<close>

text \<open>C8: A delivery that succeeds has gone through its five states in order, created or updated the
  pull request, and leaves three equal heads: the pull request's head is the pushed branch's
  commit, which is not empty. The token it used had write access to every required permission.\<close>

theorem delivery_result:
  assumes "publish services input w = (w', Inr res)"
  shows "dr_state res = AWAITING_GATES
    \<and> dr_history res = [PREPARED, PUSHED, case dr_action res of ActionCreated \<Rightarrow> PR_CREATED | ActionUpdated \<Rightarrow> PR_UPDATED,
         HEAD_SYNCHRONIZED, AWAITING_GATES]
    \<and> dr_branchSha res \<noteq> [] \<and> dr_prHeadSha res = dr_branchSha res
    \<and> (dr_checksEmpty res \<longleftrightarrow> dr_checks res = [])
    \<and> map (\<lambda>c. (pc_capability c, pc_actual c, pc_status c)) (dr_permissions res)
        = map (\<lambda>c. (c, Some (js ''write''), PermissionPass)) (requiredCapabilities (di_requireIssuesWrite input))"
  using io_wp_Inr [OF publish_wp assms]
  by (cases "dr_action res") (simp_all add: delivered_def grantedChecks_def)

theorem delivery_result_witness:
  "dr_prHeadSha demo_result = dr_branchSha demo_result \<and> dr_branchSha demo_result \<noteq> []"
  using delivery_result [OF demo_publish] by simp




text \<open>C10: A delivery requests at most two tokens: one to start, and one for its single refresh,
  however many of its Git and API calls fail to authenticate.\<close>

theorem delivery_refreshes_once:
  assumes "counts_tokens count services"
  shows "count (fst (publish services input w)) \<le> count w + 2"
  using assms by (rule publish_spent)

theorem delivery_refreshes_once_witness: "fst (publish demo_services demo_input 0) \<le> 2"
proof -
  have "counts_tokens id demo_services"
    by (simp add: counts_tokens_def steady_def steady_api_def demo_services_def demo_api_def)
  from delivery_refreshes_once [OF this, of demo_input 0] show ?thesis by simp
qed

text \<open>The GitHub API is reached only after a verified push: if another construction of the client
  makes any difference to a delivery, then Git can report a push whose remote branch has the
  commit of the local one.\<close>

theorem delivery_pushes_first:
  assumes "publish (services\<lparr>githubApiFactory := f\<rparr>) input w \<noteq> publish services input w"
  shows "\<exists>ti w w' pushed. gitPush services ti w = (w', Inr pushed)
    \<and> pu_remoteSha pushed \<noteq> [] \<and> pu_remoteSha pushed = pu_branchSha pushed"
proof (rule ccontr)
  assume "\<not> ?thesis"
  then have none: "\<nexists>ti w w' pushed. gitPush services ti w = (w', Inr pushed) \<and> synchronizedPush pushed"
    by (auto simp: synchronizedPush_def)
  have "publish (services\<lparr>githubApiFactory := f\<rparr>) input = publish services input"
    unfolding publish_def pushAndDeliver_api [OF none] acquireToken_def by simp
  with assms show False by simp
qed

theorem delivery_pushes_first_witness:
  "\<exists>ti w w' pushed. gitPush demo_services ti w = (w', Inr pushed) \<and> pu_remoteSha pushed \<noteq> []"
proof -
  have "snd (publish (demo_services\<lparr>githubApiFactory := (\<lambda>token own rep dir w. (w, Inl (Primitive Truthy)))\<rparr>) demo_input 0)
      = Inl (Primitive Truthy)"
    by code_simp
  then have "publish (demo_services\<lparr>githubApiFactory := (\<lambda>token own rep dir w. (w, Inl (Primitive Truthy)))\<rparr>) demo_input 0
      \<noteq> publish demo_services demo_input 0"
    unfolding demo_publish by auto
  from delivery_pushes_first [OF this] show ?thesis by blast
qed

end
