(* ===== verification/DeliveryCredentials.thy ===== *)
theory DeliveryCredentials
  imports DeliveryService JsText
begin

text \<open>
  The built-in token provider of the delivery service (the end of
  \<open>packages/delivery/src/service.ts\<close>): a token forwarded in the environment, which is never
  refreshed, or one of the installation. The environment, the date and JSON parsers and the clock
  are arguments; the clock is read first, which nothing else can notice.
\<close>

definition FORWARDED_TOKEN :: jstring where
  "FORWARDED_TOKEN = js ''OPENSLACK_GITHUB_APP_INSTALLATION_TOKEN''"

definition FORWARDED_ID :: jstring where
  "FORWARDED_ID = js ''OPENSLACK_GITHUB_APP_INSTALLATION_ID''"

definition FORWARDED_EXPIRY :: jstring where
  "FORWARDED_EXPIRY = js ''OPENSLACK_GITHUB_APP_INSTALLATION_TOKEN_EXPIRES_AT''"

definition FORWARDED_PERMISSIONS :: jstring where
  "FORWARDED_PERMISSIONS = js ''OPENSLACK_GITHUB_APP_INSTALLATION_PERMISSIONS''"

text \<open>\<open>process.env.X?.trim()\<close>; an absent and an empty value are both falsy.\<close>

definition env_trim :: "(jstring \<Rightarrow> jstring option) \<Rightarrow> jstring \<Rightarrow> jstring" where
  "env_trim env key = (case env key of None \<Rightarrow> [] | Some v \<Rightarrow> trim v)"

definition env_raw :: "(jstring \<Rightarrow> jstring option) \<Rightarrow> jstring \<Rightarrow> jstring" where
  "env_raw env key = (case env key of None \<Rightarrow> [] | Some v \<Rightarrow> v)"

definition credentialError :: "jstring \<Rightarrow> Failure" where
  "credentialError message = deliveryError DELIVERY_AUTH_REQUIRED message False"

definition text_entries :: "(jstring \<times> js_value) list \<Rightarrow> (jstring \<times> jstring) list" where
  "text_entries entries =
     concat (map (\<lambda>(k, v). case v of JText s \<Rightarrow> [(k, s)] | _ \<Rightarrow> []) entries)"

definition forwardedPermissions ::
  "(jstring \<Rightarrow> js_value option) \<Rightarrow> jstring \<Rightarrow> Failure + (jstring \<times> jstring) list" where
  "forwardedPermissions parseJson raw =
     (if raw = [] then Inr []
      else
        (case parseJson raw of
           None \<Rightarrow> Inl (credentialError (js ''Forwarded GitHub App permission evidence is invalid.''))
         | Some (JObject entries) \<Rightarrow> Inr (text_entries entries)
         | Some _ \<Rightarrow> Inr []))"

definition readForwardedInstallationToken ::
  "(jstring \<Rightarrow> jstring option) \<Rightarrow> (jstring \<Rightarrow> int option) \<Rightarrow> (jstring \<Rightarrow> js_value option) \<Rightarrow> int \<Rightarrow>
     Failure + DeliveryToken option" where
  "readForwardedInstallationToken env parseDate parseJson now =
     (let val = env_trim env FORWARDED_TOKEN;
          installationId = env_trim env FORWARDED_ID;
          expiresAt = env_trim env FORWARDED_EXPIRY;
          rawPermissions = env_raw env FORWARDED_PERMISSIONS
      in if val = [] \<and> expiresAt = [] \<and> rawPermissions = [] then Inr None
         else if val = [] \<or> installationId = [] \<or> expiresAt = [] then
           Inl (credentialError (js ''Forwarded GitHub App credentials are incomplete.''))
         else
           (case parseDate expiresAt of
              None \<Rightarrow> Inl (credentialError
                (js ''Forwarded GitHub App installation token expiry is invalid or expired.''))
            | Some expiry \<Rightarrow>
                if expiry \<le> now then Inl (credentialError
                  (js ''Forwarded GitHub App installation token expiry is invalid or expired.''))
                else
                  (case forwardedPermissions parseJson rawPermissions of
                     Inl e \<Rightarrow> Inl e
                   | Inr granted \<Rightarrow> Inr (Some
                       \<lparr>tk_value = val, tk_expiresAt = expiresAt, tk_installationId = installationId,
                        tk_permissions = granted\<rparr>))))"

record InstallationToken =
  it_token :: jstring
  it_expiresAt :: jstring
  it_installationId :: jstring
  it_permissions :: "(jstring \<times> jstring) list"

definition mapToken :: "InstallationToken \<Rightarrow> DeliveryToken" where
  "mapToken token =
     \<lparr>tk_value = it_token token, tk_expiresAt = it_expiresAt token,
      tk_installationId = it_installationId token, tk_permissions = it_permissions token\<rparr>"

record 'w CredentialServices =
  cs_env :: "jstring \<Rightarrow> jstring option"
  cs_parseDate :: "jstring \<Rightarrow> int option"
  cs_parseJson :: "jstring \<Rightarrow> js_value option"
  cs_now :: "('w, Failure, int) io"
  cs_clearTokenCache :: "('w, Failure, unit) io"
  cs_requireToken :: "('w, Failure, InstallationToken) io"

definition defaultAcquire :: "'w CredentialServices \<Rightarrow> bool \<Rightarrow> ('w, Failure, DeliveryToken) io" where
  "defaultAcquire services forceRefresh =
     io_bind (cs_now services) (\<lambda>now.
     io_bind (io_result (readForwardedInstallationToken (cs_env services) (cs_parseDate services)
       (cs_parseJson services) now)) (\<lambda>forwarded.
     case forwarded of
       Some token \<Rightarrow>
         if forceRefresh then
           io_throw (deliveryError DELIVERY_AUTH_REQUIRED
             (js ''The forwarded installation token cannot be refreshed in this process.'') True)
         else io_return token
     | None \<Rightarrow>
         io_bind (if forceRefresh then cs_clearTokenCache services else io_return ()) (\<lambda>_.
         io_bind (cs_requireToken services) (\<lambda>token. io_return (mapToken token)))))"

definition withDefaultProvider :: "'w CredentialServices \<Rightarrow> 'w DeliveryServices \<Rightarrow> 'w DeliveryServices" where
  "withDefaultProvider credentials services =
     services\<lparr>tokenAcquire := defaultAcquire credentials,
       tokenInvalidate := cs_clearTokenCache credentials\<rparr>"

lemma forwarded_token_live:
  assumes "readForwardedInstallationToken env parseDate parseJson now = Inr (Some token)"
  shows "tk_value token \<noteq> [] \<and> tk_installationId token \<noteq> []
    \<and> (\<exists>expiry. parseDate (tk_expiresAt token) = Some expiry \<and> now < expiry)"
  using assms
  by (auto simp: readForwardedInstallationToken_def Let_def split: if_splits option.splits sum.splits)

end
