(* ===== verification/DeliveryProbe.thy ===== *)
theory DeliveryProbe
  imports DeliveryService
begin

text \<open>
  The write probe (\<open>packages/delivery/src/probe.ts\<close>): it pushes a temporary branch to show that
  delivery would work, and removes it again whatever happened; it also diagnoses without
  writing and removes a left-over probe branch by name.
\<close>

record RepositoryAccess =
  ra_accessible :: bool
  ra_complete :: bool
  ra_totalAccessibleRepositories :: int
  ra_pagesScanned :: int

record 'w ProbeServices =
  ps_acquire :: "('w, Failure, DeliveryToken) io"
  ps_push :: "TransportInput \<Rightarrow> ('w, Failure, PushResult) io"
  ps_readRemoteSha :: "TransportInput \<Rightarrow> ('w, Failure, jstring) io"
  ps_deleteRemoteRef :: "TransportInput \<Rightarrow> ('w, Failure, unit) io"
  ps_inspect :: "jstring \<Rightarrow> jstring \<Rightarrow> jstring \<Rightarrow> ('w, Failure, RepositoryAccess) io"
  ps_now :: "('w, Failure, jstring) io"
  ps_uuid :: "('w, Failure, jstring) io"

record GitHubDeliveryProbeInput =
  pi_rootDir :: jstring
  pi_owner :: jstring
  pi_repo :: jstring
  pi_remote :: "jstring option"
  pi_timeoutMs :: "int option"
  pi_requireIssuesWrite :: bool

record GitHubDeliveryProbeResult =
  pr_probeRef :: jstring
  pr_probeBranchSha :: jstring
  pr_probeRemoteSha :: jstring
  pr_totalAccessibleRepositories :: int
  pr_pagesScanned :: int
  pr_permissions :: "DeliveryPermissionCheck list"
  pr_evidenceTimestamp :: jstring

record GitHubDeliveryDiagnosticResult =
  dg_totalAccessibleRepositories :: int
  dg_pagesScanned :: int
  dg_permissions :: "DeliveryPermissionCheck list"
  dg_evidenceTimestamp :: jstring

section \<open>Names\<close>

text \<open>\<open>[A-Za-z0-9_.-]\<close> and \<open>[a-f0-9-]\<close>\<close>

definition repository_char :: "jchar \<Rightarrow> bool" where
  "repository_char c \<longleftrightarrow>
     (65 \<le> c \<and> c \<le> 90) \<or> (97 \<le> c \<and> c \<le> 122) \<or> (48 \<le> c \<and> c \<le> 57) \<or> c \<in> {95, 46, 45}"

definition probe_char :: "jchar \<Rightarrow> bool" where
  "probe_char c \<longleftrightarrow> (97 \<le> c \<and> c \<le> 102) \<or> (48 \<le> c \<and> c \<le> 57) \<or> c = 45"

definition repository_part :: "jstring \<Rightarrow> bool" where
  "repository_part s \<longleftrightarrow> list_all repository_char s \<and> 1 \<le> length s \<and> length s \<le> 100"

definition validateProbeInput :: "GitHubDeliveryProbeInput \<Rightarrow> Failure + unit" where
  "validateProbeInput input =
     (if pi_rootDir input = [] \<or> \<not> repository_part (pi_owner input) \<or> \<not> repository_part (pi_repo input)
      then Inl (deliveryError DELIVERY_PUSH_FAILED (js ''Delivery probe input is invalid.'') False)
      else Inr ())"

definition normalizeUuid :: "jstring \<Rightarrow> Failure + jstring" where
  "normalizeUuid value =
     (let normalized = take 64 (filter probe_char (toLowerCase value))
      in if length normalized < 8
         then Inl (deliveryError DELIVERY_PUSH_FAILED (js ''Delivery probe identifier is invalid.'') False)
         else Inr normalized)"

definition PROBE_PREFIX :: jstring where
  "PROBE_PREFIX = js ''openslack/probes/write-''"

text \<open>\<open>/^openslack\/probes\/write-[a-f0-9-]{8,64}$/\<close>\<close>

definition isProbeRef :: "jstring \<Rightarrow> bool" where
  "isProbeRef branch \<longleftrightarrow>
     startsWith branch PROBE_PREFIX
     \<and> (let rest = drop (length PROBE_PREFIX) branch
        in list_all probe_char rest \<and> 8 \<le> length rest \<and> length rest \<le> 64)"

section \<open>Preparation\<close>

definition probeAcquireToken :: "'w ProbeServices \<Rightarrow> ('w, Failure, DeliveryToken) io" where
  "probeAcquireToken services =
     io_catch (ps_acquire services) (\<lambda>_.
       io_throw (deliveryError DELIVERY_AUTH_REQUIRED
         (js ''GitHub App installation token is unavailable.'') True))"

definition inspectRepository ::
  "'w ProbeServices \<Rightarrow> DeliveryToken \<Rightarrow> GitHubDeliveryProbeInput \<Rightarrow> ('w, Failure, RepositoryAccess) io" where
  "inspectRepository services token input =
     io_catch (ps_inspect services (tk_value token) (pi_owner input) (pi_repo input)) (\<lambda>_.
       io_throw (deliveryError DELIVERY_REPOSITORY_SCOPE_INCOMPLETE
         (js ''GitHub App installation repository access diagnostic failed safely.'') True))"

definition prepareProbe ::
  "'w ProbeServices \<Rightarrow> GitHubDeliveryProbeInput \<Rightarrow>
     ('w, Failure, DeliveryToken \<times> DeliveryPermissionCheck list \<times> RepositoryAccess) io" where
  "prepareProbe services input =
     io_bind (io_result (validateProbeInput input)) (\<lambda>_.
     io_bind (probeAcquireToken services) (\<lambda>token.
     let checks = diagnoseDeliveryPermissions (tk_permissions token) (pi_requireIssuesWrite input)
     in io_bind (io_result (assertDeliveryPermissions checks)) (\<lambda>_.
        io_bind (inspectRepository services token input) (\<lambda>access.
        if \<not> ra_complete access then
          io_throw (deliveryError DELIVERY_REPOSITORY_SCOPE_INCOMPLETE
            (js ''GitHub App repository scope diagnostic did not reach a complete result.'') True)
        else if \<not> ra_accessible access then
          io_throw (deliveryError DELIVERY_REPOSITORY_NOT_INSTALLED
            (js ''GitHub App installation does not include '' @ pi_owner input @ [slash] @ pi_repo input
             @ js ''. Update the installation repository selection and retry.'') False)
        else io_return (token, checks, access)))))"

definition probeTransport :: "GitHubDeliveryProbeInput \<Rightarrow> jstring \<Rightarrow> DeliveryToken \<Rightarrow> TransportInput" where
  "probeTransport input branch token =
     \<lparr>ti_rootDir = pi_rootDir input,
      ti_remote = (case pi_remote input of None \<Rightarrow> js ''origin'' | Some r \<Rightarrow> r),
      ti_branch = branch, ti_owner = pi_owner input, ti_repo = pi_repo input,
      ti_token = tk_value token,
      ti_timeoutMs = (case pi_timeoutMs input of None \<Rightarrow> 30000 | Some ms \<Rightarrow> ms)\<rparr>"

section \<open>The probe\<close>

text \<open>The cause is \<open>primaryError ?? cleanupError\<close>: \<open>primary\<close> is that there is one that is not nullish.\<close>

definition probeCleanupError :: "jstring \<Rightarrow> GitHubDeliveryProbeInput \<Rightarrow> bool \<Rightarrow> Failure" where
  "probeCleanupError probeRef input primary =
     (let remediation = js ''openslack delivery cleanup-ref --branch '' @ probeRef @ js '' --repo ''
        @ pi_owner input @ [slash] @ pi_repo input @ js '' --apply''
      in Delivery
        \<lparr>de_code = DELIVERY_PROBE_CLEANUP_FAILED,
         de_message = js ''Temporary delivery probe ref could not be removed. Run: '' @ remediation,
         de_retryable = True,
         de_cause = Some (if primary then PrimaryFailure else CleanupFailure),
         de_remediation = Some remediation\<rparr>)"

definition probeResult ::
  "jstring \<Rightarrow> PushResult \<Rightarrow> RepositoryAccess \<Rightarrow> DeliveryPermissionCheck list \<Rightarrow> jstring \<Rightarrow> GitHubDeliveryProbeResult" where
  "probeResult probeRef pushed access checks timestamp =
     \<lparr>pr_probeRef = probeRef, pr_probeBranchSha = pu_branchSha pushed,
      pr_probeRemoteSha = pu_remoteSha pushed,
      pr_totalAccessibleRepositories = ra_totalAccessibleRepositories access,
      pr_pagesScanned = ra_pagesScanned access, pr_permissions = checks,
      pr_evidenceTimestamp = timestamp\<rparr>"

text \<open>After a completed push: the check of the two commits, and the time stamp.\<close>

definition verifyProbe ::
  "'w ProbeServices \<Rightarrow> jstring \<Rightarrow> PushResult \<Rightarrow> RepositoryAccess \<Rightarrow> DeliveryPermissionCheck list \<Rightarrow>
     ('w, Failure, GitHubDeliveryProbeResult) io" where
  "verifyProbe services probeRef pushed access checks =
     (if pu_remoteSha pushed = [] \<or> pu_remoteSha pushed \<noteq> pu_branchSha pushed then
        io_throw (deliveryError DELIVERY_HEAD_STALE
          (js ''Temporary delivery probe ref did not synchronize with local HEAD.'') True)
      else
        io_bind (ps_now services) (\<lambda>timestamp.
        io_return (probeResult probeRef pushed access checks timestamp)))"

text \<open>Whether the remote branch may exist after a failure: an unreadable remote may have it.\<close>

definition probeMayRemain :: "'w ProbeServices \<Rightarrow> TransportInput \<Rightarrow> ('w, Failure, bool) io" where
  "probeMayRemain services transport =
     io_bind (io_attempt (ps_readRemoteSha services transport)) (\<lambda>observed.
     io_return (case observed of Inl _ \<Rightarrow> True | Inr sha \<Rightarrow> sha \<noteq> []))"

definition removeProbe ::
  "'w ProbeServices \<Rightarrow> GitHubDeliveryProbeInput \<Rightarrow> jstring \<Rightarrow> TransportInput \<Rightarrow> bool \<Rightarrow> ('w, Failure, unit) io" where
  "removeProbe services input probeRef transport primary =
     io_catch (ps_deleteRemoteRef services transport)
       (\<lambda>_. io_throw (probeCleanupError probeRef input primary))"

definition truthy_failure :: "Failure \<Rightarrow> bool" where
  "truthy_failure e \<longleftrightarrow> e \<noteq> Primitive Nullish \<and> e \<noteq> Primitive Falsy"

text \<open>\<open>if (primaryError) throw primaryError; if (!result) throw ...\<close>\<close>

definition finishProbe :: "Failure + GitHubDeliveryProbeResult \<Rightarrow> Failure + GitHubDeliveryProbeResult" where
  "finishProbe outcome =
     (case outcome of
        Inr res \<Rightarrow> Inr res
      | Inl e \<Rightarrow>
          if truthy_failure e then Inl e
          else Inl (deliveryError DELIVERY_PUSH_FAILED
            (js ''Temporary delivery probe did not produce a result.'') True))"

text \<open>
  The end of the probe: after an error the remote is read, and a branch that was pushed or may be
  on the remote is deleted before the outcome is returned.
\<close>

definition settleProbe ::
  "'w ProbeServices \<Rightarrow> GitHubDeliveryProbeInput \<Rightarrow> jstring \<Rightarrow> TransportInput \<Rightarrow> bool \<Rightarrow>
     Failure + GitHubDeliveryProbeResult \<Rightarrow> ('w, Failure, GitHubDeliveryProbeResult) io" where
  "settleProbe services input probeRef transport pushed outcome =
     io_bind (case outcome of Inl _ \<Rightarrow> probeMayRemain services transport | Inr _ \<Rightarrow> io_return False)
       (\<lambda>cleanupRequired.
     io_bind (if pushed \<or> cleanupRequired
         then removeProbe services input probeRef transport
           (case outcome of Inl e \<Rightarrow> e \<noteq> Primitive Nullish | Inr _ \<Rightarrow> False)
         else io_return ()) (\<lambda>_.
     io_result (finishProbe outcome)))"

definition pushProbe ::
  "'w ProbeServices \<Rightarrow> GitHubDeliveryProbeInput \<Rightarrow> jstring \<Rightarrow> TransportInput \<Rightarrow> RepositoryAccess \<Rightarrow>
     DeliveryPermissionCheck list \<Rightarrow> ('w, Failure, GitHubDeliveryProbeResult) io" where
  "pushProbe services input probeRef transport access checks =
     io_bind (io_attempt (ps_push services transport)) (\<lambda>push.
     case push of
       Inr pushed \<Rightarrow>
         io_bind (io_attempt (verifyProbe services probeRef pushed access checks))
           (settleProbe services input probeRef transport True)
     | Inl e \<Rightarrow> settleProbe services input probeRef transport False (Inl e))"

definition runProbe ::
  "'w ProbeServices \<Rightarrow> GitHubDeliveryProbeInput \<Rightarrow> ('w, Failure, GitHubDeliveryProbeResult) io" where
  "runProbe services input =
     io_bind (prepareProbe services input) (\<lambda>(token, checks, access).
     io_bind (ps_uuid services) (\<lambda>value.
     io_bind (io_result (normalizeUuid value)) (\<lambda>uuid.
     pushProbe services input (PROBE_PREFIX @ uuid)
       (probeTransport input (PROBE_PREFIX @ uuid) token) access checks)))"

definition diagnoseProbe ::
  "'w ProbeServices \<Rightarrow> GitHubDeliveryProbeInput \<Rightarrow> ('w, Failure, GitHubDeliveryDiagnosticResult) io" where
  "diagnoseProbe services input =
     io_bind (prepareProbe services input) (\<lambda>(token, checks, access).
     io_bind (ps_now services) (\<lambda>timestamp.
     io_return
       \<lparr>dg_totalAccessibleRepositories = ra_totalAccessibleRepositories access,
        dg_pagesScanned = ra_pagesScanned access, dg_permissions = checks,
        dg_evidenceTimestamp = timestamp\<rparr>))"

definition cleanupRef ::
  "'w ProbeServices \<Rightarrow> GitHubDeliveryProbeInput \<Rightarrow> jstring \<Rightarrow> ('w, Failure, unit) io" where
  "cleanupRef services input branch =
     io_bind (io_result (validateProbeInput input)) (\<lambda>_.
     if \<not> isProbeRef branch then
       io_throw (deliveryError DELIVERY_PUSH_FAILED
         (js ''Cleanup is restricted to OpenSlack temporary probe refs.'') False)
     else
       io_bind (probeAcquireToken services) (\<lambda>token.
       io_bind (io_result (assertDeliveryPermissions
           (filter (\<lambda>check. pc_capability check = js ''contents'')
             (diagnoseDeliveryPermissions (tk_permissions token) False)))) (\<lambda>_.
       io_bind (inspectRepository services token input) (\<lambda>access.
       if \<not> ra_complete access \<or> \<not> ra_accessible access then
         io_throw (deliveryError DELIVERY_REPOSITORY_NOT_INSTALLED
           (js ''GitHub App installation repository access could not be confirmed for cleanup.'') False)
       else
         (let transport = probeTransport input branch token
          in io_bind (ps_readRemoteSha services transport) (\<lambda>sha.
             if sha = [] then io_return () else ps_deleteRemoteRef services transport))))))"

end
