(* ===== verification/ProbeProperties.thy ===== *)
theory ProbeProperties
  imports DeliveryProbe
begin

text \<open>
  What the write probe leaves behind: under Git services that report the remote truthfully, no run
  leaves a probe branch without naming it in a cleanup error, and no other branch is ever touched.
\<close>

section \<open>Remote branches\<close>

text \<open>The branch a Git call is about: its remote, its repository and its name.\<close>

type_synonym remote_branch = "jstring \<times> jstring \<times> jstring \<times> jstring"

definition branchOf :: "TransportInput \<Rightarrow> remote_branch" where
  "branchOf ti = (ti_remote ti, ti_owner ti, ti_repo ti, ti_branch ti)"

definition branchName :: "remote_branch \<Rightarrow> jstring" where
  "branchName b = snd (snd (snd b))"

text \<open>
  \<open>ref w b\<close> is the commit of the branch \<open>b\<close> on the remote, empty when there is none. A push may do
  anything to its own branch; a completed read is right, and after a completed deletion the branch
  is gone. Every call may fail.
\<close>

definition changes_only :: "('w \<Rightarrow> remote_branch \<Rightarrow> jstring) \<Rightarrow> remote_branch set \<Rightarrow> ('w, 'e, 'a) io \<Rightarrow> bool" where
  "changes_only ref S m \<longleftrightarrow> (\<forall>w b. b \<notin> S \<longrightarrow> ref (fst (m w)) b = ref w b)"

definition truthful :: "('w \<Rightarrow> remote_branch \<Rightarrow> jstring) \<Rightarrow> 'w ProbeServices \<Rightarrow> bool" where
  "truthful ref services \<longleftrightarrow>
     changes_only ref {} (ps_acquire services)
     \<and> changes_only ref {} (ps_now services) \<and> changes_only ref {} (ps_uuid services)
     \<and> (\<forall>token own rep. changes_only ref {} (ps_inspect services token own rep))
     \<and> (\<forall>ti. changes_only ref {branchOf ti} (ps_push services ti)
          \<and> changes_only ref {} (ps_readRemoteSha services ti)
          \<and> changes_only ref {branchOf ti} (ps_deleteRemoteRef services ti))
     \<and> (\<forall>ti w w' sha. ps_readRemoteSha services ti w = (w', Inr sha) \<longrightarrow> sha = ref w (branchOf ti))
     \<and> (\<forall>ti w w'. ps_deleteRemoteRef services ti w = (w', Inr ()) \<longrightarrow> ref w' (branchOf ti) = [])"

lemma changes_only_wp:
  assumes "changes_only ref S m"
  shows "io_wp m (\<lambda>_ w'. \<forall>b. b \<notin> S \<longrightarrow> ref w' b = ref w b) (\<lambda>_ w'. \<forall>b. b \<notin> S \<longrightarrow> ref w' b = ref w b) w"
  using assms by (force simp: changes_only_def intro: io_wpI dest: spec [of _ w])

lemma quiet_wp:
  assumes "changes_only ref {} m"
  shows "io_wp m (\<lambda>_ w'. ref w' = ref w) (\<lambda>_ w'. ref w' = ref w) w"
  using changes_only_wp [OF assms, of w] by (simp add: fun_eq_iff)

lemma truthful_quiet:
  assumes "truthful ref services"
  shows "changes_only ref {} (ps_acquire services)" and "changes_only ref {} (ps_now services)"
    and "changes_only ref {} (ps_uuid services)" and "changes_only ref {} (ps_inspect services token own rep)"
    and "changes_only ref {} (ps_readRemoteSha services ti)"
  using assms by (simp_all add: truthful_def)

lemma read_wp:
  assumes "truthful ref services"
  shows "io_wp (ps_readRemoteSha services ti)
    (\<lambda>sha w'. ref w' = ref w \<and> sha = ref w (branchOf ti)) (\<lambda>_ w'. ref w' = ref w) w"
  using quiet_wp [OF truthful_quiet(5) [OF assms], of ti w] assms
  by (auto simp: io_wp_def truthful_def split: prod.splits sum.splits)

lemma delete_wp:
  assumes "truthful ref services"
  shows "io_wp (ps_deleteRemoteRef services ti)
    (\<lambda>_ w'. ref w' (branchOf ti) = [] \<and> (\<forall>b. b \<noteq> branchOf ti \<longrightarrow> ref w' b = ref w b))
    (\<lambda>_ w'. \<forall>b. b \<noteq> branchOf ti \<longrightarrow> ref w' b = ref w b) w"
  using changes_only_wp [of ref "{branchOf ti}" "ps_deleteRemoteRef services ti" w] assms
  by (auto simp: io_wp_def truthful_def split: prod.splits sum.splits)

lemma push_wp:
  assumes "truthful ref services"
  shows "io_wp (ps_push services ti)
    (\<lambda>_ w'. \<forall>b. b \<noteq> branchOf ti \<longrightarrow> ref w' b = ref w b) (\<lambda>_ w'. \<forall>b. b \<noteq> branchOf ti \<longrightarrow> ref w' b = ref w b) w"
  using changes_only_wp [of ref "{branchOf ti}" "ps_push services ti" w] assms by (simp add: truthful_def)

lemma prepareProbe_wp:
  assumes "truthful ref services"
  shows "io_wp (prepareProbe services input) (\<lambda>_ w'. ref w' = ref w) (\<lambda>_ w'. ref w' = ref w) w"
  unfolding prepareProbe_def probeAcquireToken_def inspectRepository_def Let_def
  apply (simp add: io_wp_simps split: sum.split del: io_throw_apply)
  apply (intro allI impI)
  apply (rule io_wp_mono [OF quiet_wp [OF truthful_quiet(1) [OF assms]]])
   apply (simp add: io_wp_simps split: sum.split)
   apply (intro allI impI)
   apply (rule io_wp_mono [OF quiet_wp [OF truthful_quiet(4) [OF assms]]])
    apply (simp_all add: io_wp_simps)
  done

text \<open>A push, and what must happen to the branch it may have left.\<close>

definition untouched :: "('w \<Rightarrow> remote_branch \<Rightarrow> jstring) \<Rightarrow> 'w \<Rightarrow> remote_branch \<Rightarrow> 'w \<Rightarrow> bool" where
  "untouched ref w b w' \<longleftrightarrow> (\<forall>b'. b' \<noteq> b \<longrightarrow> ref w' b' = ref w b')"

definition cleanupNamed :: "jstring \<Rightarrow> GitHubDeliveryProbeInput \<Rightarrow> Failure \<Rightarrow> bool" where
  "cleanupNamed probeRef input e \<longleftrightarrow> (\<exists>primary. e = probeCleanupError probeRef input primary)"

lemma untouched_refl [simp]: "untouched ref w b w"
  by (simp add: untouched_def)

lemma untouched_quiet: "untouched ref w0 b w \<Longrightarrow> ref w' = ref w \<Longrightarrow> untouched ref w0 b w'"
  by (simp add: untouched_def)

lemma removeProbe_wp:
  assumes "truthful ref services" and "untouched ref w0 (branchOf ti) w"
  shows "io_wp (removeProbe services input probeRef ti primary)
    (\<lambda>_ w'. ref w' (branchOf ti) = [] \<and> untouched ref w0 (branchOf ti) w')
    (\<lambda>e w'. cleanupNamed probeRef input e \<and> untouched ref w0 (branchOf ti) w') w"
  unfolding removeProbe_def io_wp_catch io_wp_throw
  using delete_wp [OF assms(1), of ti w] assms(2)
  by (auto simp: untouched_def cleanupNamed_def elim!: io_wp_mono)

lemma probeMayRemain_wp:
  assumes "truthful ref services"
  shows "io_wp (probeMayRemain services ti)
    (\<lambda>may w'. ref w' = ref w \<and> (may \<or> ref w (branchOf ti) = [])) (\<lambda>_ _. False) w"
  unfolding probeMayRemain_def
  using read_wp [OF assms, of ti w] by (auto simp: io_wp_simps elim!: io_wp_mono)

lemma verifyProbe_wp:
  assumes "truthful ref services"
  shows "io_wp (verifyProbe services probeRef pushed access checks) (\<lambda>_ w'. ref w' = ref w) (\<lambda>_ w'. ref w' = ref w) w"
  unfolding verifyProbe_def
  using quiet_wp [OF truthful_quiet(2) [OF assms], of w] by (auto simp: io_wp_simps elim!: io_wp_mono)

definition probeEnds ::
  "('w \<Rightarrow> remote_branch \<Rightarrow> jstring) \<Rightarrow> GitHubDeliveryProbeInput \<Rightarrow> jstring \<Rightarrow> remote_branch \<Rightarrow> 'w \<Rightarrow>
     ('w, Failure, 'a) io \<Rightarrow> 'w \<Rightarrow> bool" where
  "probeEnds ref input probeRef b w0 m w \<longleftrightarrow> io_wp m
     (\<lambda>_ w'. ref w' b = [] \<and> untouched ref w0 b w')
     (\<lambda>e w'. (ref w' b = [] \<or> cleanupNamed probeRef input e) \<and> untouched ref w0 b w') w"

lemma settleProbe_wp:
  assumes truthful: "truthful ref services" and "untouched ref w0 (branchOf ti) w"
    and "pushed \<or> (\<exists>e. outcome = Inl e)"
  shows "probeEnds ref input probeRef (branchOf ti) w0 (settleProbe services input probeRef ti pushed outcome) w"
  unfolding settleProbe_def probeEnds_def
proof (rule io_wp_bindI)
  show "io_wp (case outcome of Inl _ \<Rightarrow> probeMayRemain services ti | Inr _ \<Rightarrow> io_return False)
    (\<lambda>may w'. untouched ref w0 (branchOf ti) w' \<and> (pushed \<or> may \<or> ref w' (branchOf ti) = []))
    (\<lambda>e w'. (ref w' (branchOf ti) = [] \<or> cleanupNamed probeRef input e) \<and> untouched ref w0 (branchOf ti) w') w"
  proof (cases outcome)
    case (Inl e)
    show ?thesis
      unfolding Inl sum.case
      by (rule io_wp_mono [OF probeMayRemain_wp [OF truthful]]) (auto intro: untouched_quiet [OF assms(2)])
  next
    case (Inr res)
    then show ?thesis using assms(2,3) by (simp add: io_wp_simps)
  qed
next
  fix may w'
  assume *: "untouched ref w0 (branchOf ti) w' \<and> (pushed \<or> may \<or> ref w' (branchOf ti) = [])"
  show "io_wp (io_bind (if pushed \<or> may
         then removeProbe services input probeRef ti (case outcome of Inl e \<Rightarrow> e \<noteq> Primitive Nullish | Inr _ \<Rightarrow> False)
         else io_return ()) (\<lambda>_. io_result (finishProbe outcome)))
     (\<lambda>_ w'. ref w' (branchOf ti) = [] \<and> untouched ref w0 (branchOf ti) w')
     (\<lambda>e w'. (ref w' (branchOf ti) = [] \<or> cleanupNamed probeRef input e) \<and> untouched ref w0 (branchOf ti) w') w'"
  proof (cases "pushed \<or> may")
    case True
    show ?thesis
      unfolding if_P [OF True]
      unfolding io_wp_bind
      by (rule io_wp_mono [OF removeProbe_wp [OF truthful conjunct1 [OF *]]])
        (auto simp: io_wp_result split: sum.split)
  next
    case False
    then show ?thesis
      using * unfolding if_not_P [OF False] by (auto simp: io_wp_simps split: sum.split)
  qed
qed

lemma pushProbe_wp:
  assumes truthful: "truthful ref services"
  shows "probeEnds ref input probeRef (branchOf ti) w (pushProbe services input probeRef ti access checks) w"
  unfolding pushProbe_def probeEnds_def io_wp_bind io_wp_attempt
proof (rule io_wp_mono [OF push_wp [OF truthful], folded untouched_def])
  fix pushed w1
  assume "untouched ref w (branchOf ti) w1"
  then have settled: "probeEnds ref input probeRef (branchOf ti) w (settleProbe services input probeRef ti True outcome) w2"
    if "ref w2 = ref w1" for outcome w2
    using settleProbe_wp [OF truthful untouched_quiet] that by blast
  show "io_wp (case Inr pushed of Inl e \<Rightarrow> settleProbe services input probeRef ti False (Inl e)
      | Inr pushed \<Rightarrow> io_bind (io_attempt (verifyProbe services probeRef pushed access checks))
          (settleProbe services input probeRef ti True))
     (\<lambda>_ w'. ref w' (branchOf ti) = [] \<and> untouched ref w (branchOf ti) w')
     (\<lambda>e w'. (ref w' (branchOf ti) = [] \<or> cleanupNamed probeRef input e) \<and> untouched ref w (branchOf ti) w') w1"
    unfolding sum.case io_wp_bind io_wp_attempt
    by (rule io_wp_mono [OF verifyProbe_wp [OF truthful]]) (use settled in \<open>simp_all add: probeEnds_def\<close>)
next
  fix e w1
  assume "untouched ref w (branchOf ti) w1"
  then show "io_wp (case Inl e of Inl e \<Rightarrow> settleProbe services input probeRef ti False (Inl e)
      | Inr pushed \<Rightarrow> io_bind (io_attempt (verifyProbe services probeRef pushed access checks))
          (settleProbe services input probeRef ti True))
     (\<lambda>_ w'. ref w' (branchOf ti) = [] \<and> untouched ref w (branchOf ti) w')
     (\<lambda>e w'. (ref w' (branchOf ti) = [] \<or> cleanupNamed probeRef input e) \<and> untouched ref w (branchOf ti) w') w1"
    unfolding sum.case using settleProbe_wp [OF truthful, unfolded probeEnds_def] by blast
qed

lemma normalizeUuid_probe: "normalizeUuid v = Inr uuid \<Longrightarrow> isProbeRef (PROBE_PREFIX @ uuid)"
  by (auto simp: normalizeUuid_def isProbeRef_def startsWith_def Let_def list_all_iff
      dest: in_set_takeD split: if_splits)

text \<open>What a probe may do to a branch, and what it reports when it could not clean it up.\<close>

definition probedBranch ::
  "('w \<Rightarrow> remote_branch \<Rightarrow> jstring) \<Rightarrow> GitHubDeliveryProbeInput \<Rightarrow> 'w \<Rightarrow> remote_branch \<Rightarrow> 'w \<Rightarrow> Failure option \<Rightarrow> bool" where
  "probedBranch ref input w b w' failure \<longleftrightarrow> ref w' b = ref w b \<or>
     (isProbeRef (branchName b) \<and>
       (ref w' b = [] \<or> (\<exists>primary. failure = Some (probeCleanupError (branchName b) input primary))))"

lemma probedBranch_same: "ref w' = ref w \<Longrightarrow> probedBranch ref input w b w' failure"
  by (simp add: probedBranch_def)

lemma untouchedD: "untouched ref w c w' \<Longrightarrow> b \<noteq> c \<Longrightarrow> ref w' b = ref w b"
  unfolding untouched_def by blast

lemma probedBranchI:
  assumes "untouched ref w c w'" and "isProbeRef (branchName c)"
    and "ref w' c = [] \<or> (\<exists>primary. failure = Some (probeCleanupError (branchName c) input primary))"
  shows "probedBranch ref input w b w' failure"
  using assms(2,3) untouchedD [OF assms(1), of b] by (cases "b = c") (auto simp: probedBranch_def)

lemma probeTransport_name [simp]: "branchName (branchOf (probeTransport input branch token)) = branch"
  by (simp add: branchOf_def branchName_def probeTransport_def)

lemma runProbe_wp:
  assumes truthful: "truthful ref services"
  shows "io_wp (runProbe services input)
    (\<lambda>_ w'. probedBranch ref input w b w' None) (\<lambda>e w'. probedBranch ref input w b w' (Some e)) w"
  unfolding runProbe_def io_wp_bind
proof (rule io_wp_mono [OF prepareProbe_wp [OF truthful]], clarify)
  fix w1 token checks access
  assume w1: "ref w1 = ref w"
  have push: "io_wp (pushProbe services input (PROBE_PREFIX @ uuid)
        (probeTransport input (PROBE_PREFIX @ uuid) token) access checks)
      (\<lambda>_ w'. probedBranch ref input w b w' None) (\<lambda>e w'. probedBranch ref input w b w' (Some e)) w2"
    if w2: "ref w2 = ref w" and probe: "isProbeRef (PROBE_PREFIX @ uuid)" for w2 uuid
  proof (rule io_wp_mono [OF pushProbe_wp [OF truthful, unfolded probeEnds_def]], goal_cases)
    case (1 res w')
    then show ?case using probe w2 by (intro probedBranchI) (auto simp: untouched_def)
  next
    case (2 e w')
    then show ?case using probe w2 by (intro probedBranchI) (auto simp: untouched_def cleanupNamed_def)
  qed
  show "io_wp (io_bind (ps_uuid services) (\<lambda>value. io_bind (io_result (normalizeUuid value)) (\<lambda>uuid.
      pushProbe services input (PROBE_PREFIX @ uuid)
        (probeTransport input (PROBE_PREFIX @ uuid) token) access checks)))
      (\<lambda>_ w'. probedBranch ref input w b w' None) (\<lambda>e w'. probedBranch ref input w b w' (Some e)) w1"
    unfolding io_wp_bind io_wp_result
    by (rule io_wp_mono [OF quiet_wp [OF truthful_quiet(3) [OF truthful]]])
      (auto simp: w1 probedBranch_same intro!: push normalizeUuid_probe split: sum.split)
qed (simp add: probedBranch_same)

definition probeBranch :: "GitHubDeliveryProbeInput \<Rightarrow> jstring \<Rightarrow> remote_branch" where
  "probeBranch input branch = branchOf (probeTransport input branch
     \<lparr>tk_value = [], tk_expiresAt = [], tk_installationId = [], tk_permissions = []\<rparr>)"

lemma branchOf_probeTransport: "branchOf (probeTransport input branch token) = probeBranch input branch"
  by (simp add: probeBranch_def branchOf_def probeTransport_def)

definition cleanupEnds ::
  "('w \<Rightarrow> remote_branch \<Rightarrow> jstring) \<Rightarrow> GitHubDeliveryProbeInput \<Rightarrow> jstring \<Rightarrow> 'w \<Rightarrow> ('w, Failure, unit) io \<Rightarrow> 'w \<Rightarrow> bool" where
  "cleanupEnds ref input branch w0 m w \<longleftrightarrow> io_wp m
     (\<lambda>_ w'. isProbeRef branch \<and> ref w' (probeBranch input branch) = [] \<and> untouched ref w0 (probeBranch input branch) w')
     (\<lambda>e w'. ref w' = ref w0 \<or> isProbeRef branch \<and> untouched ref w0 (probeBranch input branch) w') w"

lemma cleanupRemoval_wp:
  assumes truthful: "truthful ref services" and "ref w = ref w0" and probe: "isProbeRef branch"
  shows "cleanupEnds ref input branch w0
    (let transport = probeTransport input branch token
     in io_bind (ps_readRemoteSha services transport)
       (\<lambda>sha. if sha = [] then io_return () else ps_deleteRemoteRef services transport)) w"
  unfolding cleanupEnds_def Let_def io_wp_bind
proof (rule io_wp_mono [OF read_wp [OF truthful]], goal_cases)
  case (1 sha w1)
  have "untouched ref w0 (probeBranch input branch) w'" if "\<forall>b. b \<noteq> probeBranch input branch \<longrightarrow> ref w' b = ref w1 b" for w'
    using that 1 assms(2) unfolding untouched_def by presburger
  then show ?case
    using 1 assms(2) probe delete_wp [OF truthful, of "probeTransport input branch token" w1]
    by (cases "sha = []") (simp_all add: io_wp_return branchOf_probeTransport, auto elim: io_wp_mono)
next
  case (2 e w1)
  then show ?case using assms by simp
qed

lemma cleanupRef_wp:
  assumes truthful: "truthful ref services"
  shows "cleanupEnds ref input branch w (cleanupRef services input branch) w"
proof (cases "isProbeRef branch")
  case False
  then show ?thesis
    by (simp add: cleanupRef_def cleanupEnds_def io_wp_simps split: sum.split del: io_throw_apply)
next
  case True
  show ?thesis
    unfolding cleanupRef_def cleanupEnds_def probeAcquireToken_def inspectRepository_def
    apply (simp only: True not_True_eq_False if_False io_wp_bind io_wp_result io_wp_catch io_wp_throw)
    apply (simp split: sum.split)
    apply (intro allI impI)
    apply (rule io_wp_mono [OF quiet_wp [OF truthful_quiet(1) [OF truthful]]])
     apply (simp only: io_wp_bind io_wp_result io_wp_catch io_wp_throw)
     apply (simp split: sum.split)
     apply (intro allI impI)
     apply (rule io_wp_mono [OF quiet_wp [OF truthful_quiet(4) [OF truthful]]])
      apply (simp only: io_wp_if io_wp_throw split: if_split)
      apply (use cleanupRemoval_wp [OF truthful _ True, unfolded cleanupEnds_def] True in \<open>simp add: Let_def\<close>)
     apply (simp_all add: io_wp_throw del: io_throw_apply)
    done
qed

section \<open>Properties\<close>

text \<open>A remote on which the push is cut off after it arrived, and which then cannot be read.\<close>

definition demo_probe_input :: GitHubDeliveryProbeInput where
  "demo_probe_input =
     \<lparr>pi_rootDir = js ''/r'', pi_owner = js ''acme'', pi_repo = js ''app'', pi_remote = None,
      pi_timeoutMs = None, pi_requireIssuesWrite = False\<rparr>"

definition demo_probe_branch :: remote_branch where
  "demo_probe_branch = (js ''origin'', js ''acme'', js ''app'', js ''openslack/probes/write-abcdef-0'')"

definition demo_ref :: "bool \<Rightarrow> remote_branch \<Rightarrow> jstring" where
  "demo_ref w b = (if w \<and> b = demo_probe_branch then js ''c1'' else [])"

definition demo_probe_services :: "bool ProbeServices" where
  "demo_probe_services =
     \<lparr>ps_acquire = (\<lambda>w. (w, Inr
        \<lparr>tk_value = js ''t'', tk_expiresAt = [], tk_installationId = js ''1'',
         tk_permissions = [(js ''contents'', js ''write''), (js ''pull_requests'', js ''write''),
           (js ''workflows'', js ''write'')]\<rparr>)),
      ps_push = (\<lambda>ti w. (w \<or> branchOf ti = demo_probe_branch, Inl (Primitive Truthy))),
      ps_readRemoteSha = (\<lambda>ti w. (w, Inl (Primitive Truthy))),
      ps_deleteRemoteRef = (\<lambda>ti w. (w \<and> branchOf ti \<noteq> demo_probe_branch, Inr ())),
      ps_inspect = (\<lambda>token own rep w. (w, Inr
        \<lparr>ra_accessible = True, ra_complete = True, ra_totalAccessibleRepositories = 1, ra_pagesScanned = 1\<rparr>)),
      ps_now = (\<lambda>w. (w, Inr [])), ps_uuid = (\<lambda>w. (w, Inr (js ''ABCDEF-0'')))\<rparr>"

lemma demo_truthful: "truthful demo_ref demo_probe_services"
  by (auto simp: truthful_def changes_only_def demo_ref_def demo_probe_services_def)

text \<open>C11: The write probe leaves nothing behind: after any run, with any call failing at any point,
  every branch of every remote is as it was, or it has the name of a probe and is gone, or the run
  failed with the cleanup error that names this branch and the command that removes it.\<close>

theorem probe_leaves_nothing:
  assumes "truthful ref services" and "runProbe services input w = (w', r)"
  shows "ref w' b = ref w b
    \<or> isProbeRef (branchName b) \<and>
        (ref w' b = [] \<or> (\<exists>primary. r = Inl (probeCleanupError (branchName b) input primary)))"
  using runProbe_wp [OF assms(1), of input w b] assms(2)
  by (auto simp: io_wp_def probedBranch_def split: sum.splits)

theorem probe_leaves_nothing_witness:
  "demo_ref (fst (runProbe demo_probe_services demo_probe_input False)) demo_probe_branch = []"
proof -
  have run: "runProbe demo_probe_services demo_probe_input False = (False, Inl (Primitive Truthy))"
    by code_simp
  from probe_leaves_nothing [OF demo_truthful run, of demo_probe_branch] show ?thesis
    by (auto simp: run demo_ref_def probeCleanupError_def Let_def)
qed

text \<open>Removing a probe branch by name touches no branch but that one, touches it only when it has
  the name of a probe, and returns only when it is gone from the remote.\<close>

theorem cleanup_ref_confined:
  assumes "truthful ref services" and "cleanupRef services input branch w = (w', r)"
  shows "(ref w' b = ref w b \<or> isProbeRef branch \<and> b = probeBranch input branch)
    \<and> (r = Inr () \<longrightarrow> isProbeRef branch \<and> ref w' (probeBranch input branch) = [])"
  using cleanupRef_wp [OF assms(1), of input branch w] assms(2)
  by (auto simp: io_wp_def cleanupEnds_def dest: untouchedD [of _ _ _ _ b] split: sum.splits)

theorem cleanup_ref_confined_witness:
  "demo_ref (fst (cleanupRef demo_probe_services demo_probe_input (js ''main'') True)) demo_probe_branch = js ''c1''"
proof -
  obtain w' r where run: "cleanupRef demo_probe_services demo_probe_input (js ''main'') True = (w', r)"
    by fastforce
  have "\<not> isProbeRef (js ''main'')" by code_simp
  with cleanup_ref_confined [OF demo_truthful run, of demo_probe_branch] show ?thesis
    by (simp add: run demo_ref_def)
qed

end
