(* ===== verification/CleanupRefs.thy ===== *)
theory CleanupRefs
  imports JsText
begin

text \<open>
  The names of branches that may be cleaned up and of full commits
  (\<open>packages/core/src/task-link.ts\<close>).
\<close>

text \<open>\<open>Buffer.from(s).toString('utf8') === s\<close>: every surrogate is part of a pair.\<close>

fun well_formed :: "jstring \<Rightarrow> bool" where
  "well_formed [] = True"
| "well_formed (c # cs) =
     (if 0xD800 \<le> c \<and> c < 0xDC00 then
        (case cs of d # ds \<Rightarrow> 0xDC00 \<le> d \<and> d < 0xE000 \<and> well_formed ds | [] \<Rightarrow> False)
      else \<not> (0xDC00 \<le> c \<and> c < 0xE000) \<and> well_formed cs)"

text \<open>\<open>[\x00-\x20\x7f~^:?*\[\\]\<close>\<close>

definition forbidden_ref_char :: "jchar \<Rightarrow> bool" where
  "forbidden_ref_char c \<longleftrightarrow> c \<le> 32 \<or> c \<in> {127, 126, 94, 58, 63, 42, 91, 92}"

definition isValidCleanupBranch :: "jstring \<Rightarrow> bool" where
  "isValidCleanupBranch branch \<longleftrightarrow>
     utf8_length branch > 0 \<and> utf8_length branch \<le> 1024 \<and> well_formed branch
     \<and> \<not> list_ex forbidden_ref_char branch
     \<and> \<not> js_includes branch (js ''..'') \<and> \<not> js_includes branch [64, 123]
     \<and> \<not> endsWith branch (js ''.'') \<and> \<not> startsWith branch (js ''-'')
     \<and> list_all (\<lambda>part. part \<noteq> [] \<and> \<not> startsWith part (js ''.'') \<and> \<not> endsWith part (js ''.lock''))
         (js_split slash branch)"

text \<open>\<open>/^openslack\/(?:claims|probes)(?:\/|$)/\<close>\<close>

definition reservedFolder :: "jstring \<Rightarrow> jstring \<Rightarrow> bool" where
  "reservedFolder folder branch \<longleftrightarrow>
     branch = js ''openslack/'' @ folder \<or> startsWith branch (js ''openslack/'' @ folder @ [slash])"

definition isReservedCleanupBranch :: "jstring \<Rightarrow> jstring option \<Rightarrow> bool" where
  "isReservedCleanupBranch branch defaultBranch \<longleftrightarrow>
     branch = js ''main'' \<or> Some branch = defaultBranch
     \<or> reservedFolder (js ''claims'') branch \<or> reservedFolder (js ''probes'') branch"

definition hex_char :: "jchar \<Rightarrow> bool" where
  "hex_char c \<longleftrightarrow> (97 \<le> c \<and> c \<le> 102) \<or> (48 \<le> c \<and> c \<le> 57)"

definition isFullGitObjectId :: "jstring \<Rightarrow> bool" where
  "isFullGitObjectId value \<longleftrightarrow> list_all hex_char value \<and> (length value = 40 \<or> length value = 64)"

datatype ClaimRefFormat = ApiFormat | CanonicalFormat

text \<open>\<open>None\<close> is the \<open>TypeError\<close> of a number that is not a positive safe integer.\<close>

definition issueClaimRef :: "rat \<Rightarrow> ClaimRefFormat \<Rightarrow> jstring option" where
  "issueClaimRef issueNumber format =
     (if \<not> isSafeInteger issueNumber \<or> issueNumber < 1 then None
      else Some ((if format = CanonicalFormat then js ''refs/'' else [])
        @ js ''heads/openslack/claims/issue-'' @ js_int \<lfloor>issueNumber\<rfloor>))"

lemma claim_refs_reserved:
  assumes "issueClaimRef n CanonicalFormat = Some (js ''refs/heads/'' @ branch)"
  shows "isReservedCleanupBranch branch defaultBranch"
proof -
  have split: "js ''refs/'' @ js ''heads/openslack/claims/issue-''
      = js ''refs/heads/'' @ js ''openslack/'' @ js ''claims'' @ [slash] @ js ''issue-''"
    by code_simp
  from assms have "(js ''refs/'' @ js ''heads/openslack/claims/issue-'') @ js_int \<lfloor>n\<rfloor> = js ''refs/heads/'' @ branch"
    by (simp add: issueClaimRef_def split: if_splits)
  then have "branch = js ''openslack/'' @ js ''claims'' @ [slash] @ js ''issue-'' @ js_int \<lfloor>n\<rfloor>"
    unfolding split append.assoc same_append_eq by (rule sym)
  then show ?thesis
    unfolding isReservedCleanupBranch_def reservedFolder_def startsWith_iff by (metis append.assoc)
qed

end
