(* ===== verification/GitTransport.thy ===== *)
theory GitTransport
  imports DeliveryService CleanupRefs
begin

text \<open>
  The Git transport of the delivery package (\<open>packages/delivery/src/git-transport.ts\<close>): each
  operation runs Git as a child process, with the token in the environment of an askpass helper
  that lives in a temporary directory. Processes, files, the clock and the URL parser are services.
\<close>

section \<open>Processes and services\<close>

type_synonym ProcessEnv = "(jstring \<times> jstring) list"

text \<open>
  The arguments of \<open>spawn('git', ...)\<close>; no environment is the inherited one. All calls share the
  encoding, the standard streams, the hidden window and, but for one, the buffer limit.
\<close>

record SpawnCall =
  sc_args :: "jstring list"
  sc_cwd :: jstring
  sc_env :: "ProcessEnv option"
  sc_timeout :: int

record SpawnError =
  se_message :: jstring
  se_code :: "jstring option"

record SpawnResult =
  sr_error :: "SpawnError option"
  sr_status :: "int option"
  sr_stdout :: "jstring option"
  sr_stderr :: "jstring option"

record UrlParts =
  url_protocol :: jstring
  url_hostname :: jstring
  url_port :: jstring
  url_search :: jstring
  url_hash :: jstring
  url_username :: jstring
  url_password :: jstring
  url_pathname :: jstring

type_synonym 'w Spawn = "SpawnCall \<Rightarrow> ('w, Failure, SpawnResult) io"

record 'w GitServices =
  gs_spawn :: "'w Spawn"
  gs_allowLocalRemote :: bool
  gs_now :: "('w, Failure, int) io"
  gs_processEnv :: "jstring \<Rightarrow> jstring option"
  gs_tmpdir :: jstring
  gs_mkdtemp :: "jstring \<Rightarrow> ('w, Failure, jstring) io"
  gs_mkdir :: "jstring \<Rightarrow> ('w, Failure, unit) io"
  gs_writeFile :: "jstring \<Rightarrow> jstring \<Rightarrow> ('w, Failure, unit) io"
  gs_chmod :: "jstring \<Rightarrow> nat \<Rightarrow> ('w, Failure, unit) io"
  gs_rm :: "jstring \<Rightarrow> ('w, Failure, unit) io"
  gs_parseUrl :: "jstring \<Rightarrow> UrlParts option"

text \<open>\<open>join(dir, name)\<close> of a normal absolute directory and a plain name.\<close>

definition path_join :: "jstring \<Rightarrow> jstring \<Rightarrow> jstring" where
  "path_join dir name = dir @ [slash] @ name"

definition pushFailed :: "jstring \<Rightarrow> Failure" where
  "pushFailed message = deliveryError DELIVERY_PUSH_FAILED message False"

section \<open>Redaction\<close>

text \<open>\<open>replaceAll\<close>: the occurrences from the left, none overlapping; an empty pattern is everywhere.\<close>

function replace_from :: "jstring \<Rightarrow> jstring \<Rightarrow> jstring \<Rightarrow> jstring" where
  "replace_from p r [] = []"
| "replace_from p r (c # cs) =
     (if p \<noteq> [] \<and> startsWith (c # cs) p then r @ replace_from p r (drop (length p) (c # cs))
      else c # replace_from p r cs)"
  by pat_completeness auto

termination
  by (relation "measure (\<lambda>(p, r, s). length s)") auto

definition js_replaceAll :: "jstring \<Rightarrow> jstring \<Rightarrow> jstring \<Rightarrow> jstring" where
  "js_replaceAll p r s = (if p = [] then r @ concat (map (\<lambda>c. c # r) s) else replace_from p r s)"

text \<open>\<open>replace(/[\r\n]+/g, ' ')\<close>\<close>

fun squeeze_newlines :: "jstring \<Rightarrow> jstring" where
  "squeeze_newlines [] = []"
| "squeeze_newlines (c # cs) =
     (if c \<in> {10, 13} then
        (case cs of
           d # ds \<Rightarrow> if d \<in> {10, 13} then squeeze_newlines cs else 32 # squeeze_newlines cs
         | [] \<Rightarrow> [32])
      else c # squeeze_newlines cs)"

definition redactTransportText :: "jstring \<Rightarrow> jstring \<Rightarrow> jstring" where
  "redactTransportText text token =
     take 500 (trim (squeeze_newlines (js_replaceAll token (js ''[redacted]'') text)))"

section \<open>Running Git\<close>

definition spawn_failed :: "SpawnResult \<Rightarrow> bool" where
  "spawn_failed res \<longleftrightarrow> sr_error res \<noteq> None \<or> sr_status res \<noteq> Some 0"

definition text_or_empty :: "jstring option \<Rightarrow> jstring" where
  "text_or_empty t = (case t of None \<Rightarrow> [] | Some s \<Rightarrow> s)"

definition spawn_text :: "SpawnResult \<Rightarrow> jstring" where
  "spawn_text res =
     text_or_empty (sr_stdout res) @ [10] @ text_or_empty (sr_stderr res) @ [10]
     @ text_or_empty (map_option se_message (sr_error res))"

definition runLocalGit ::
  "'w Spawn \<Rightarrow> jstring \<Rightarrow> jstring list \<Rightarrow> int \<Rightarrow> ('w, Failure, jstring) io" where
  "runLocalGit spawn cwd args timeoutMs =
     io_bind (spawn \<lparr>sc_args = args, sc_cwd = cwd, sc_env = None, sc_timeout = timeoutMs\<rparr>) (\<lambda>res.
     if spawn_failed res then io_throw (pushFailed (js ''Git repository inspection failed.''))
     else io_return (trim (text_or_empty (sr_stdout res))))"

definition gitFailure :: "jstring \<Rightarrow> jstring \<Rightarrow> SpawnResult \<Rightarrow> Failure" where
  "gitFailure token operation res =
     (let detail = redactTransportText (spawn_text res) token;
          timeout = ((case sr_error res of None \<Rightarrow> None | Some e \<Rightarrow> se_code e) = Some (js ''ETIMEDOUT''))
      in deliveryError
           (if timeout then DELIVERY_TIMEOUT else DELIVERY_PUSH_FAILED)
           (if timeout then operation @ js '' timed out.'' else operation @ js '' failed: '' @ detail)
           (timeout \<or> isAuthenticationFailure detail))"

definition runAuthenticatedGit ::
  "'w Spawn \<Rightarrow> jstring \<Rightarrow> jstring list \<Rightarrow> ProcessEnv \<Rightarrow> int \<Rightarrow> jstring \<Rightarrow> jstring \<Rightarrow>
     ('w, Failure, jstring) io" where
  "runAuthenticatedGit spawn cwd args env timeoutMs token operation =
     io_bind (spawn \<lparr>sc_args = args, sc_cwd = cwd, sc_env = Some env, sc_timeout = timeoutMs\<rparr>) (\<lambda>res.
     if spawn_failed res then io_throw (gitFailure token operation res)
     else io_return (trim (text_or_empty (sr_stdout res))))"

section \<open>Branch and target\<close>

text \<open>\<open>[A-Za-z0-9._/-]\<close>, without a leading \<open>-\<close>, \<open>/\<close> or \<open>.\<close>, and without \<open>..\<close>, \<open>/.\<close> or \<open>.lock\<close> at the end of a part.\<close>

definition git_ref_char :: "jchar \<Rightarrow> bool" where
  "git_ref_char c \<longleftrightarrow>
     (65 \<le> c \<and> c \<le> 90) \<or> (97 \<le> c \<and> c \<le> 122) \<or> (48 \<le> c \<and> c \<le> 57) \<or> c \<in> {46, 95, 47, 45}"

definition valid_git_ref :: "jstring \<Rightarrow> bool" where
  "valid_git_ref ref \<longleftrightarrow>
     ref \<noteq> [] \<and> list_all git_ref_char ref \<and> hd ref \<notin> {45, 47, 46}
     \<and> \<not> js_includes ref (js ''..'') \<and> \<not> js_includes ref (js ''/.'')
     \<and> \<not> js_includes ref (js ''.lock/'') \<and> \<not> endsWith ref (js ''.lock'')"

definition assertGitRef :: "jstring \<Rightarrow> Failure + unit" where
  "assertGitRef ref =
     (if valid_git_ref ref then Inr () else Inl (pushFailed (js ''Delivery branch name is invalid.'')))"

definition trim_slashes :: "jstring \<Rightarrow> jstring" where
  "trim_slashes s = rev (dropWhile (\<lambda>c. c = slash) (rev (dropWhile (\<lambda>c. c = slash) s)))"

definition strip_git_suffix :: "jstring \<Rightarrow> jstring" where
  "strip_git_suffix s =
     (if endsWith (toLowerCase s) (js ''.git'') then take (length s - 4) s else s)"

definition parseGitHubHttpsTarget ::
  "(jstring \<Rightarrow> UrlParts option) \<Rightarrow> jstring \<Rightarrow> (jstring \<times> jstring) option" where
  "parseGitHubHttpsTarget parseUrl value =
     (case parseUrl value of
        None \<Rightarrow> None
      | Some url \<Rightarrow>
          if url_protocol url \<noteq> js ''https:'' \<or> toLowerCase (url_hostname url) \<noteq> js ''github.com''
            \<or> url_port url \<noteq> [] \<or> url_search url \<noteq> [] \<or> url_hash url \<noteq> []
            \<or> url_username url \<noteq> [] \<or> url_password url \<noteq> []
          then None
          else
            (case js_split slash (trim_slashes (url_pathname url)) of
               [own, rep] \<Rightarrow> if own = [] \<or> rep = [] then None else Some (own, strip_git_suffix rep)
             | _ \<Rightarrow> None))"

definition checkTarget ::
  "(jstring \<Rightarrow> UrlParts option) \<Rightarrow> bool \<Rightarrow> TransportInput \<Rightarrow> jstring \<Rightarrow> Failure + jstring" where
  "checkTarget parseUrl allowLocal input output =
     (case filter (\<lambda>l. l \<noteq> []) (split_lines output) of
        [pushUrl] \<Rightarrow>
          if allowLocal then Inr pushUrl
          else
            (case parseGitHubHttpsTarget parseUrl pushUrl of
               None \<Rightarrow> Inl (deliveryError DELIVERY_REMOTE_UNSUPPORTED
                 (js ''Delivery requires an HTTPS GitHub push URL without embedded credentials.'') False)
             | Some (own, rep) \<Rightarrow>
                 if toLowerCase own \<noteq> toLowerCase (ti_owner input)
                   \<or> toLowerCase rep \<noteq> toLowerCase (ti_repo input)
                 then Inl (deliveryError DELIVERY_TARGET_MISMATCH
                   (js ''Git push target does not match the GitHub API repository target.'') False)
                 else Inr pushUrl)
      | _ \<Rightarrow> Inl (deliveryError DELIVERY_REMOTE_UNSUPPORTED
          (js ''Delivery requires exactly one configured push URL.'') False))"

definition resolvePushUrl :: "'w GitServices \<Rightarrow> TransportInput \<Rightarrow> ('w, Failure, jstring) io" where
  "resolvePushUrl services input =
     io_bind (runLocalGit (gs_spawn services) (ti_rootDir input)
       [js ''remote'', js ''get-url'', js ''--push'', js ''--all'', ti_remote input] (ti_timeoutMs input)) (\<lambda>output.
     io_result (checkTarget (gs_parseUrl services) (gs_allowLocalRemote services) input output))"

section \<open>The askpass environment\<close>

definition allowedKeys :: "jstring list" where
  "allowedKeys =
     [js ''PATH'', js ''Path'', js ''PATHEXT'', js ''SystemRoot'', js ''WINDIR'', js ''COMSPEC'', js ''TEMP'',
      js ''TMP'', js ''TMPDIR'', js ''HOME'', js ''USERPROFILE'', js ''LANG'', js ''LC_ALL'', js ''HTTP_PROXY'',
      js ''HTTPS_PROXY'', js ''NO_PROXY'', js ''http_proxy'', js ''https_proxy'', js ''no_proxy'',
      js ''SSL_CERT_FILE'', js ''SSL_CERT_DIR'']"

definition TOKEN_VARIABLE :: jstring where
  "TOKEN_VARIABLE = js ''OPENSLACK_GIT_ASKPASS_TOKEN''"

definition createTransportEnvironment :: "(jstring \<Rightarrow> jstring option) \<Rightarrow> jstring \<Rightarrow> ProcessEnv" where
  "createTransportEnvironment processEnv globalConfigPath =
     concat (map (\<lambda>key. case processEnv key of None \<Rightarrow> [] | Some v \<Rightarrow> [(key, v)]) allowedKeys)
     @ [(js ''GIT_CONFIG_NOSYSTEM'', js ''1''), (js ''GIT_CONFIG_GLOBAL'', globalConfigPath)]"

definition askpassScript :: "jstring \<Rightarrow> jstring" where
  "askpassScript shell = js_join [10]
     [js ''#!'' @ shell,
      js ''case '' @ [34] @ js ''$1'' @ [34] @ js '' in'',
      js ''  *[Uu][Ss][Ee][Rr][Nn][Aa][Mm][Ee]*) printf %s x-access-token ;;'',
      js ''  *[Pp][Aa][Ss][Ss][Ww][Oo][Rr][Dd]*) printf %s '' @ [34] @ js ''$OPENSLACK_GIT_ASKPASS_TOKEN'' @ [34] @ js '' ;;'',
      js ''  *) exit 1 ;;'',
      js ''esac'']"

definition withAskPassEnvironment ::
  "'w GitServices \<Rightarrow> jstring \<Rightarrow> (ProcessEnv \<Rightarrow> jstring \<Rightarrow> ('w, Failure, 'a) io) \<Rightarrow> jstring option \<Rightarrow>
     jstring option \<Rightarrow> ('w, Failure, 'a) io" where
  "withAskPassEnvironment services token operation fixedTemporaryRoot fixedShell =
     io_bind (gs_mkdtemp services (path_join
       (case fixedTemporaryRoot of None \<Rightarrow> gs_tmpdir services | Some d \<Rightarrow> d) (js ''openslack-askpass-'')))
       (\<lambda>helperDir.
     let hooksDir = path_join helperDir (js ''disabled-hooks'');
         askpassPath = path_join helperDir (js ''askpass.sh'');
         globalConfigPath = path_join helperDir (js ''empty-gitconfig'')
     in io_bind (gs_mkdir services hooksDir) (\<lambda>_.
        io_bind (gs_writeFile services globalConfigPath []) (\<lambda>_.
        io_bind (gs_writeFile services askpassPath
          (askpassScript (case fixedShell of None \<Rightarrow> js ''/bin/sh'' | Some sh \<Rightarrow> sh))) (\<lambda>_.
        io_bind (gs_chmod services askpassPath 448) (\<lambda>_.
        io_finally
          (operation
            (createTransportEnvironment (gs_processEnv services) globalConfigPath
             @ [(js ''GIT_TERMINAL_PROMPT'', js ''0''), (js ''GIT_ASKPASS'', askpassPath),
                (js ''GIT_ASKPASS_REQUIRE'', js ''force''), (TOKEN_VARIABLE, token)])
            hooksDir)
          (gs_rm services helperDir))))))"

section \<open>Reading a remote branch\<close>

text \<open>\<open>/^([a-f0-9]{40}|[a-f0-9]{64})\t(.+)$/\<close>\<close>

definition parseRemoteRef :: "jstring \<Rightarrow> (jstring \<times> jstring) option" where
  "parseRemoteRef line =
     (let sha = takeWhile hex_char line; rest = dropWhile hex_char line
      in if (length sha = 40 \<or> length sha = 64) \<and> rest \<noteq> [] \<and> hd rest = 9 \<and> tl rest \<noteq> []
           \<and> list_all not_newline (tl rest)
         then Some (sha, tl rest) else None)"

definition branchRef :: "jstring \<Rightarrow> jstring" where
  "branchRef branch = js ''refs/heads/'' @ branch"

definition remoteShaOf :: "jstring \<Rightarrow> jstring \<Rightarrow> Failure + jstring" where
  "remoteShaOf branch output =
     (if output = [] then Inr []
      else
        (let lines = split_lines output
         in case parseRemoteRef (hd lines) of
              Some (sha, ref) \<Rightarrow>
                if length lines \<noteq> 1 \<or> ref \<noteq> branchRef branch
                then Inl (pushFailed (js ''Remote branch evidence is not one exact full-SHA ref.''))
                else Inr sha
            | None \<Rightarrow> Inl (pushFailed (js ''Remote branch evidence is not one exact full-SHA ref.''))))"

text \<open>\<open>-c credential.helper= -c core.hooksPath=...\<close>\<close>

definition isolatedArgs :: "jstring \<Rightarrow> jstring list" where
  "isolatedArgs hooksDir =
     [js ''-c'', js ''credential.helper='', js ''-c'', js ''core.hooksPath='' @ hooksDir]"

definition readRemoteShaAtUrl ::
  "'w Spawn \<Rightarrow> jstring \<Rightarrow> jstring \<Rightarrow> jstring \<Rightarrow> ProcessEnv \<Rightarrow> jstring \<Rightarrow> int \<Rightarrow> jstring \<Rightarrow>
     ('w, Failure, jstring) io" where
  "readRemoteShaAtUrl spawn cwd pushUrl branch env hooksDir timeoutMs token =
     io_bind (runAuthenticatedGit spawn cwd
       (isolatedArgs hooksDir @ [js ''ls-remote'', pushUrl, branchRef branch]) env timeoutMs token
       (js ''Remote branch verification'')) (\<lambda>output.
     io_result (remoteShaOf branch output))"

section \<open>Publication and plain deletion\<close>

definition transportPush :: "'w GitServices \<Rightarrow> TransportInput \<Rightarrow> ('w, Failure, PushResult) io" where
  "transportPush services input =
     io_bind (io_result (assertGitRef (ti_branch input))) (\<lambda>_.
     io_bind (resolvePushUrl services input) (\<lambda>pushUrl.
     io_bind (runLocalGit (gs_spawn services) (ti_rootDir input)
       [js ''rev-parse'', js ''HEAD^{commit}''] (ti_timeoutMs input)) (\<lambda>branchSha.
     withAskPassEnvironment services (ti_token input) (\<lambda>env hooksDir.
       io_bind (runAuthenticatedGit (gs_spawn services) (ti_rootDir input)
         (isolatedArgs hooksDir
          @ [js ''push'', js ''--porcelain'', pushUrl, js ''HEAD:'' @ branchRef (ti_branch input)])
         env (ti_timeoutMs input) (ti_token input) (js ''Git branch publication'')) (\<lambda>_.
       io_bind (readRemoteShaAtUrl (gs_spawn services) (ti_rootDir input) pushUrl (ti_branch input)
         env hooksDir (ti_timeoutMs input) (ti_token input)) (\<lambda>remoteSha.
       io_return \<lparr>pu_branchSha = branchSha, pu_remoteSha = remoteSha\<rparr>))) None None)))"

definition transportReadRemoteSha :: "'w GitServices \<Rightarrow> TransportInput \<Rightarrow> ('w, Failure, jstring) io" where
  "transportReadRemoteSha services input =
     io_bind (io_result (assertGitRef (ti_branch input))) (\<lambda>_.
     io_bind (resolvePushUrl services input) (\<lambda>pushUrl.
     withAskPassEnvironment services (ti_token input) (\<lambda>env hooksDir.
       readRemoteShaAtUrl (gs_spawn services) (ti_rootDir input) pushUrl (ti_branch input)
         env hooksDir (ti_timeoutMs input) (ti_token input)) None None))"

definition transportDeleteRemoteRef :: "'w GitServices \<Rightarrow> TransportInput \<Rightarrow> ('w, Failure, unit) io" where
  "transportDeleteRemoteRef services input =
     io_bind (io_result (assertGitRef (ti_branch input))) (\<lambda>_.
     io_bind (resolvePushUrl services input) (\<lambda>pushUrl.
     withAskPassEnvironment services (ti_token input) (\<lambda>env hooksDir.
       io_bind (runAuthenticatedGit (gs_spawn services) (ti_rootDir input)
         (isolatedArgs hooksDir
          @ [js ''push'', js ''--porcelain'', pushUrl, js '':'' @ branchRef (ti_branch input)])
         env (ti_timeoutMs input) (ti_token input) (js ''Temporary delivery ref cleanup'')) (\<lambda>_.
       io_bind (readRemoteShaAtUrl (gs_spawn services) (ti_rootDir input) pushUrl (ti_branch input)
         env hooksDir (ti_timeoutMs input) (ti_token input)) (\<lambda>remaining_sha.
       if remaining_sha \<noteq> [] then
         io_throw (deliveryError DELIVERY_PUSH_FAILED
           (js ''Temporary delivery ref cleanup could not be verified.'') True)
       else io_return ()))) None None))"

end
