(* ===== verification/ConditionalDelete.thy ===== *)
theory ConditionalDelete
  imports GitTransport
begin

text \<open>
  The conditional deletion of a remote branch (the second half of
  \<open>packages/delivery/src/git-transport.ts\<close>): one push with an explicit lease on the expected commit,
  from an empty bare repository, between two reads of the remote, within one deadline.
\<close>

datatype DeleteState =
  DELETED | ABSENT | STALE | ABSENT_AFTER_ATTEMPT | RECONCILIATION_REQUIRED | DELETE_FAILED

datatype RefState = RefPresent | RefAbsent | RefUnknown

record ConditionalBranchDeleteResult =
  cd_state :: DeleteState
  cd_attempted :: bool
  cd_observedRefState :: RefState
  cd_observedSha :: "jstring option"
  cd_message :: "jstring option"

record 'w ConditionalGitContext =
  cx_fixed :: bool
  cx_rootDir :: jstring
  cx_url :: jstring
  cx_spawn :: "'w Spawn"
  cx_tempRoot :: "jstring option"
  cx_shell :: "jstring option"
  cx_beforePush :: "('w, Failure, unit) io"

type_synonym 'w FixedContext =
  "(TransportInput \<Rightarrow> jstring option \<Rightarrow> ('w, Failure, 'w ConditionalGitContext) io) option"

section \<open>Deadline and preparation\<close>

definition remainingTime :: "'w GitServices \<Rightarrow> int \<Rightarrow> ('w, Failure, int) io" where
  "remainingTime services deadline =
     io_bind (gs_now services) (\<lambda>now.
     if deadline - now \<le> 0 then
       io_throw (deliveryError DELIVERY_TIMEOUT (js ''Branch cleanup deadline expired.'') False)
     else io_return (deadline - now))"

text \<open>\<open>/^[A-Za-z0-9][A-Za-z0-9._-]*$/\<close>\<close>

definition alnum_char :: "jchar \<Rightarrow> bool" where
  "alnum_char c \<longleftrightarrow> (65 \<le> c \<and> c \<le> 90) \<or> (97 \<le> c \<and> c \<le> 122) \<or> (48 \<le> c \<and> c \<le> 57)"

definition valid_remote :: "jstring \<Rightarrow> bool" where
  "valid_remote remote \<longleftrightarrow>
     remote \<noteq> [] \<and> alnum_char (hd remote) \<and> list_all (\<lambda>c. alnum_char c \<or> c \<in> {46, 95, 45}) (tl remote)"

definition cleanupRefError :: "TransportInput \<Rightarrow> Failure option" where
  "cleanupRefError input =
     (if \<not> isValidCleanupBranch (ti_branch input) then
        Some (pushFailed (js ''Cleanup branch name is invalid.''))
      else if isReservedCleanupBranch (ti_branch input) None \<or> \<not> valid_remote (ti_remote input) then
        Some (pushFailed (js ''Reserved branch or invalid remote cannot be cleaned.''))
      else if \<not> isSafeInteger (of_int (ti_timeoutMs input)) \<or> ti_timeoutMs input \<le> 0 then
        Some (deliveryError DELIVERY_TIMEOUT (js ''Invalid branch cleanup deadline.'') False)
      else None)"

definition validateCleanupRef :: "'w Spawn \<Rightarrow> TransportInput \<Rightarrow> ('w, Failure, unit) io" where
  "validateCleanupRef spawn input =
     (case cleanupRefError input of
        Some e \<Rightarrow> io_throw e
      | None \<Rightarrow>
          io_bind (runLocalGit spawn (ti_rootDir input)
            [js ''check-ref-format'', branchRef (ti_branch input)] (ti_timeoutMs input)) (\<lambda>_.
          io_return ()))"

definition cleanupRepository ::
  "'w Spawn \<Rightarrow> jstring \<Rightarrow> ProcessEnv \<Rightarrow> int \<Rightarrow> bool \<Rightarrow> ('w, Failure, jstring) io" where
  "cleanupRepository spawn hooksDir env timeoutMs sha256 =
     (let root = path_join hooksDir (js ''transport.git'')
      in io_bind (spawn
           \<lparr>sc_args = [js ''init'', js ''--bare'', js ''--template='']
              @ (if sha256 then [js ''--object-format=sha256''] else []) @ [root],
            sc_cwd = hooksDir, sc_env = Some (filter (\<lambda>(k, v). k \<noteq> TOKEN_VARIABLE) env),
            sc_timeout = timeoutMs\<rparr>) (\<lambda>res.
         if spawn_failed res then
           io_throw (pushFailed (js ''Isolated cleanup transport could not be prepared.''))
         else io_return root))"

definition contextOf ::
  "'w GitServices \<Rightarrow> 'w FixedContext \<Rightarrow> TransportInput \<Rightarrow> jstring option \<Rightarrow>
     ('w, Failure, 'w ConditionalGitContext) io" where
  "contextOf services fixed input expectedSha =
     (case fixed of
        Some f \<Rightarrow> f input expectedSha
      | None \<Rightarrow>
          io_bind (resolvePushUrl services input) (\<lambda>url.
          io_return
            \<lparr>cx_fixed = False, cx_rootDir = ti_rootDir input, cx_url = url, cx_spawn = gs_spawn services,
             cx_tempRoot = None, cx_shell = None, cx_beforePush = io_return ()\<rparr>))"

text \<open>\<open>if (context.fixed) input = ...; input = { ...input, timeoutMs: remaining(deadline) }\<close>\<close>

definition contextInput :: "'w ConditionalGitContext \<Rightarrow> int \<Rightarrow> TransportInput \<Rightarrow> TransportInput" where
  "contextInput context timeoutMs input =
     input\<lparr>ti_rootDir := (if cx_fixed context then cx_rootDir context else ti_rootDir input),
       ti_timeoutMs := timeoutMs\<rparr>"

definition readRemoteBranchSha ::
  "'w GitServices \<Rightarrow> 'w FixedContext \<Rightarrow> TransportInput \<Rightarrow> ('w, Failure, jstring option) io" where
  "readRemoteBranchSha services fixed input0 =
     (if \<not> isValidCleanupBranch (ti_branch input0) then
        io_throw (pushFailed (js ''Cleanup branch name is invalid.''))
      else
        io_bind (gs_now services) (\<lambda>now.
        let deadline = now + ti_timeoutMs input0
        in io_bind (contextOf services fixed input0 None) (\<lambda>context.
           io_bind (remainingTime services deadline) (\<lambda>timeoutMs.
           let input = contextInput context timeoutMs input0
           in io_bind (validateCleanupRef (cx_spawn context) input) (\<lambda>_.
              withAskPassEnvironment services (ti_token input) (\<lambda>env hooksDir.
                io_bind (remainingTime services deadline) (\<lambda>readMs.
                io_bind (readRemoteShaAtUrl (cx_spawn context) hooksDir (cx_url context)
                  (ti_branch input) env hooksDir readMs (ti_token input)) (\<lambda>sha.
                io_return (if sha = [] then None else Some sha))))
                (cx_tempRoot context) (cx_shell context))))))"

section \<open>The leased push\<close>

text \<open>
  \<open>Math.floor(x * 0.7)\<close> for a positive safe integer: the double nearest to \<open>0.7\<close> is
  \<open>6305039478318694 / 2^53\<close>, and the product is rounded to 53 significant bits, ties to even.
\<close>

fun bit_count :: "int \<Rightarrow> nat" where
  "bit_count n = (if n \<le> 0 then 0 else Suc (bit_count (n div 2)))"

declare bit_count.simps [simp del]

definition round_bits :: "int \<Rightarrow> nat \<Rightarrow> int" where
  "round_bits n k =
     (let q = n div 2 ^ k; r = n mod 2 ^ k
      in if 2 * r > 2 ^ k \<or> (2 * r = 2 ^ k \<and> k > 0 \<and> odd q) then q + 1 else q)"

definition seven_tenths :: "int \<Rightarrow> int" where
  "seven_tenths x =
     (let n = x * 6305039478318694; k = bit_count n - 53 in round_bits n k * 2 ^ k div 2 ^ 53)"

definition pushBudget :: "int \<Rightarrow> int" where
  "pushBudget timeoutMs = max 1 (seven_tenths timeoutMs)"

definition leaseArgs :: "jstring \<Rightarrow> jstring \<Rightarrow> jstring \<Rightarrow> jstring \<Rightarrow> jstring list" where
  "leaseArgs hooksDir branch expectedSha pushUrl =
     isolatedArgs hooksDir
     @ [js ''push'', js ''--porcelain'', js ''--force-with-lease='' @ branchRef branch @ [58] @ expectedSha,
        pushUrl, js '':'' @ branchRef branch]"

definition receipt :: "jstring list \<Rightarrow> jstring \<Rightarrow> jstring \<Rightarrow> jstring \<Rightarrow> bool" where
  "receipt lines ref flag summary \<longleftrightarrow>
     list_ex (\<lambda>line. line = flag @ [9] @ js '':'' @ ref @ [9] @ summary
       \<or> line = flag @ [9] @ js ''(delete):'' @ ref @ [9] @ summary) lines"

definition pushDeleted :: "jstring \<Rightarrow> SpawnResult \<Rightarrow> bool" where
  "pushDeleted branch res \<longleftrightarrow>
     \<not> spawn_failed res
     \<and> receipt (split_lines (text_or_empty (sr_stdout res))) (branchRef branch) (js ''-'') (js ''[deleted]'')"

definition pushStale :: "jstring \<Rightarrow> SpawnResult \<Rightarrow> bool" where
  "pushStale branch res \<longleftrightarrow>
     sr_error res = None \<and> sr_status res \<noteq> Some 0
     \<and> receipt (split_lines (text_or_empty (sr_stdout res))) (branchRef branch) (js ''!'')
         (js ''[rejected] (stale info)'')"

text \<open>The result of an attempt, from the push and the read after it (\<open>Inl\<close>: it failed).\<close>

definition attemptResult ::
  "TransportInput \<Rightarrow> jstring \<Rightarrow> SpawnResult \<Rightarrow> Failure + jstring \<Rightarrow> ConditionalBranchDeleteResult" where
  "attemptResult input expectedSha res observed =
     (let message =
            (if spawn_failed res then Some (redactTransportText (spawn_text res) (ti_token input)) else None);
          deleted = pushDeleted (ti_branch input) res;
          stale = pushStale (ti_branch input) res
      in case observed of
           Inl e \<Rightarrow>
             \<lparr>cd_state = RECONCILIATION_REQUIRED, cd_attempted = True, cd_observedRefState = RefUnknown,
              cd_observedSha = None, cd_message = message\<rparr>
         | Inr after \<Rightarrow>
             if after = [] then
               \<lparr>cd_state = (if deleted then DELETED else ABSENT_AFTER_ATTEMPT), cd_attempted = True,
                cd_observedRefState = RefAbsent, cd_observedSha = None, cd_message = message\<rparr>
             else
               \<lparr>cd_state =
                  (if stale \<and> after \<noteq> expectedSha then STALE
                   else if \<not> deleted \<and> spawn_failed res \<and> after = expectedSha then DELETE_FAILED
                   else RECONCILIATION_REQUIRED),
                cd_attempted = True, cd_observedRefState = RefPresent, cd_observedSha = Some after,
                cd_message = message\<rparr>)"

definition unattempted :: "DeleteState \<Rightarrow> RefState \<Rightarrow> jstring option \<Rightarrow> ConditionalBranchDeleteResult" where
  "unattempted state ref_state sha =
     \<lparr>cd_state = state, cd_attempted = False, cd_observedRefState = ref_state, cd_observedSha = sha,
      cd_message = None\<rparr>"

text \<open>The two reads and the push, with the environment and the deadline at hand.\<close>

definition leasedDelete ::
  "'w GitServices \<Rightarrow> 'w ConditionalGitContext \<Rightarrow> TransportInput \<Rightarrow> jstring \<Rightarrow> int \<Rightarrow> ProcessEnv \<Rightarrow> jstring \<Rightarrow>
     ('w, Failure, ConditionalBranchDeleteResult) io" where
  "leasedDelete services context input expectedSha deadline env hooksDir =
     io_bind (remainingTime services deadline) (\<lambda>initMs.
     io_bind (cleanupRepository (cx_spawn context) hooksDir env initMs (length expectedSha = 64))
       (\<lambda>transportDir.
     let read =
           io_bind (remainingTime services deadline) (\<lambda>readMs.
           readRemoteShaAtUrl (cx_spawn context) transportDir (cx_url context) (ti_branch input) env
             hooksDir readMs (ti_token input))
     in io_bind read (\<lambda>before.
        if before = [] then io_return (unattempted ABSENT RefAbsent None)
        else if before \<noteq> expectedSha then io_return (unattempted STALE RefPresent (Some before))
        else
          io_bind (cx_beforePush context) (\<lambda>_.
          io_bind (remainingTime services deadline) (\<lambda>pushMs.
          io_bind (cx_spawn context
            \<lparr>sc_args = leaseArgs hooksDir (ti_branch input) expectedSha (cx_url context),
             sc_cwd = transportDir, sc_env = Some env, sc_timeout = pushBudget pushMs\<rparr>) (\<lambda>res.
          io_bind (io_attempt read) (\<lambda>observed.
          io_return (attemptResult input expectedSha res observed))))))))"

definition deleteRemoteRefIfAt ::
  "'w GitServices \<Rightarrow> 'w FixedContext \<Rightarrow> TransportInput \<Rightarrow> jstring \<Rightarrow>
     ('w, Failure, ConditionalBranchDeleteResult) io" where
  "deleteRemoteRefIfAt services fixed input0 expectedSha =
     (if \<not> isValidCleanupBranch (ti_branch input0) then
        io_throw (pushFailed (js ''Cleanup branch name is invalid.''))
      else
        io_bind (gs_now services) (\<lambda>now.
        let deadline = now + ti_timeoutMs input0
        in io_bind (contextOf services fixed input0 (Some expectedSha)) (\<lambda>context.
           io_bind (remainingTime services deadline) (\<lambda>timeoutMs.
           let input = contextInput context timeoutMs input0
           in if \<not> isFullGitObjectId expectedSha then
                io_throw (pushFailed
                  (js ''Conditional deletion requires a full 40- or 64-hex Git object id.''))
              else
                io_bind (validateCleanupRef (cx_spawn context) input) (\<lambda>_.
                withAskPassEnvironment services (ti_token input)
                  (leasedDelete services context input expectedSha deadline)
                  (cx_tempRoot context) (cx_shell context))))))"

end
