(* ===== verification/TransportCorrectness.thy ===== *)
theory TransportCorrectness
  imports ConditionalDelete
begin

text \<open>
  Facts on the Git transport: what its error messages contain, and which pushes it sends.
\<close>

section \<open>Redacted texts\<close>

text \<open>An installation token of GitHub: the prefix \<open>ghs_\<close>, then letters, digits and underscores.\<close>

definition word_char :: "jchar \<Rightarrow> bool" where
  "word_char c \<longleftrightarrow> alnum_char c \<or> c = 95"

definition installation_token :: "jstring \<Rightarrow> bool" where
  "installation_token token \<longleftrightarrow> list_all word_char token \<and> startsWith token (js ''ghs_'')"

lemma token_facts:
  assumes "installation_token token"
  shows "95 \<in> set token" and "token \<noteq> []" and "c \<in> set token \<Longrightarrow> word_char c"
proof -
  obtain t where "token = js ''ghs_'' @ t"
    using assms by (auto simp: installation_token_def startsWith_iff)
  moreover have "95 \<in> set (js ''ghs_'')" by code_simp
  ultimately show "95 \<in> set token" and "token \<noteq> []" by auto
  show "c \<in> set token \<Longrightarrow> word_char c"
    using assms by (auto simp: installation_token_def list_all_iff)
qed

lemma includes_factor: "js_includes m p \<Longrightarrow> js_includes (u @ m @ v) p"
  unfolding includes_iff by (metis append.assoc)

text \<open>An occurrence cannot cross a character it does not have, nor lie in text that lacks one it has.\<close>

lemma includes_after:
  assumes "js_includes (m @ c # v) p" and "c \<notin> set p" and "\<not> set p \<subseteq> set m"
  shows "js_includes v p"
proof -
  obtain a b where eq: "(m @ [c]) @ v = a @ (p @ b)"
    using assms(1) by (auto simp: includes_iff)
  from append_eq_append_conv2 [THEN iffD1, OF eq]
  consider us where "m @ [c] = a @ us" "us @ v = p @ b" | us where "v = us @ p @ b"
    by blast
  then show ?thesis
  proof cases
    case (1 us)
    show ?thesis
    proof (cases us rule: rev_cases)
      case Nil
      with 1(2) show ?thesis by (auto simp: includes_iff intro: exI [of _ "[]"])
    next
      case (snoc us' d)
      with 1(1) have us: "us = us' @ [c]" "m = a @ us'" by auto
      with 1(2) have "us' @ c # v = p @ b" by simp
      from append_eq_append_conv2 [THEN iffD1, OF this]
      obtain ws where "us' = p @ ws \<and> ws @ c # v = b \<or> us' @ ws = p \<and> c # v = ws @ b"
        by blast
      then show ?thesis
        using assms(2,3) us(2) by (cases ws) (auto simp: Cons_eq_append_conv)
    qed
  next
    case (2 us)
    then show ?thesis by (auto simp: includes_iff)
  qed
qed

lemma startsWith_Cons: "startsWith (c # cs) q \<longleftrightarrow> q = [] \<or> (\<exists>q'. q = c # q' \<and> startsWith cs q')"
  by (cases q) (auto simp: startsWith_def)

lemma startsWith_Nil [simp]: "startsWith s []" and Nil_startsWith: "startsWith [] q \<longleftrightarrow> q = []"
  by (auto simp: startsWith_def)

lemma replace_from_starts:
  assumes "startsWith (replace_from p (c # r) s) q" and "c \<notin> set q"
  shows "startsWith s q"
  using assms
proof (induction p "c # r" s arbitrary: q rule: replace_from.induct)
  case (2 p d ds)
  show ?case
  proof (cases "p \<noteq> [] \<and> startsWith (d # ds) p")
    case True
    with 2(3) have "startsWith (c # r @ replace_from p (c # r) (drop (length p) (d # ds))) q" by simp
    then show ?thesis using 2(4) by (auto simp: startsWith_Cons)
  next
    case False
    with 2(3) have "startsWith (d # replace_from p (c # r) ds) q" by (simp only: replace_from.simps if_False)
    then show ?thesis using 2(4) 2(2) [OF False] by (auto simp: startsWith_Cons)
  qed
qed simp

lemma replace_from_includes:
  assumes "c \<notin> set p" and "d \<notin> set p" and "\<not> set p \<subseteq> set (c # m)"
  shows "\<not> js_includes (replace_from p (c # m @ [d]) s) p"
  using assms
proof (induction p "c # m @ [d]" s rule: replace_from.induct)
  case (1 p)
  then show ?case by auto
next
  case (2 p x xs)
  show ?case
  proof (cases "p \<noteq> [] \<and> startsWith (x # xs) p")
    case True
    show ?thesis
    proof
      assume "js_includes (replace_from p (c # m @ [d]) (x # xs)) p"
      with True have "js_includes ((c # m) @ d # replace_from p (c # m @ [d]) (drop (length p) (x # xs))) p"
        by simp
      from includes_after [OF this 2(4,5)] 2(1) [OF True 2(3-5)] show False by simp
    qed
  next
    case False
    then have "\<not> js_includes (replace_from p (c # m @ [d]) xs) p" using 2 by blast
    moreover have "\<not> startsWith (x # replace_from p (c # m @ [d]) xs) p"
      using False 2(3,5) replace_from_starts [of p c "m @ [d]" xs]
      by (auto simp: startsWith_Cons)
    moreover have "p \<noteq> []" using 2(5) by auto
    ultimately show ?thesis using False by simp
  qed
qed

lemma squeeze_starts:
  assumes "startsWith (squeeze_newlines s) q" and "set q \<inter> {10, 13, 32} = {}"
  shows "startsWith s q"
  using assms
proof (induction s arbitrary: q rule: squeeze_newlines.induct)
  case (2 c cs)
  show ?case
  proof (cases "c \<in> {10, 13}")
    case True
    show ?thesis
    proof (cases "\<exists>d ds. cs = d # ds \<and> d \<in> {10, 13}")
      case True
      then obtain d ds where cs: "cs = d # ds" "d \<in> {10, 13}" by blast
      with \<open>c \<in> {10, 13}\<close> 2(4) have "startsWith (squeeze_newlines cs) q" by simp
      with 2(1) \<open>c \<in> {10, 13}\<close> cs 2(5) have "startsWith cs q" by blast
      with cs 2(5) show ?thesis by (auto simp: startsWith_Cons)
    next
      case False
      with True 2(4) have "\<exists>t. startsWith (32 # t) q" by (auto split: list.splits)
      with 2(5) show ?thesis by (auto simp: startsWith_Cons)
    qed
  next
    case False
    with 2(4) have "startsWith (c # squeeze_newlines cs) q" by simp
    then show ?thesis using 2(5) 2(3) [OF False] by (auto simp: startsWith_Cons)
  qed
qed simp

lemma squeeze_cases:
  "squeeze_newlines (c # cs) = c # squeeze_newlines cs \<or> squeeze_newlines (c # cs) = 32 # squeeze_newlines cs
   \<or> squeeze_newlines (c # cs) = squeeze_newlines cs \<or> squeeze_newlines (c # cs) = [32]"
  unfolding squeeze_newlines.simps(2) [of c cs] by (simp del: squeeze_newlines.simps split: list.split)

lemma squeeze_includes:
  "js_includes (squeeze_newlines s) p \<Longrightarrow> p \<noteq> [] \<Longrightarrow> set p \<inter> {10, 13, 32} = {} \<Longrightarrow> js_includes s p"
proof (induction s)
  case (Cons c cs)
  have no_space: "\<not> startsWith (32 # t) p" for t
    using Cons.prems(2,3) by (auto simp: startsWith_Cons)
  have start: "startsWith (c # squeeze_newlines cs) p \<Longrightarrow> startsWith (c # cs) p"
    using Cons.prems(3) squeeze_starts [of cs] by (auto simp: startsWith_Cons)
  consider "squeeze_newlines (c # cs) = c # squeeze_newlines cs"
    | "squeeze_newlines (c # cs) = 32 # squeeze_newlines cs"
    | "squeeze_newlines (c # cs) = squeeze_newlines cs"
    | "squeeze_newlines (c # cs) = [32]"
    using squeeze_cases [of c cs] by blast
  then show ?case
  proof cases
    case 4
    with Cons.prems(1) have "js_includes [32] p" by (simp only:)
    then show ?thesis using no_space [of "[]"] Cons.prems(2) by simp
  qed (use Cons.prems Cons.IH no_space start in \<open>simp_all only: js_includes.simps, blast+\<close>)
qed simp

lemma trim_factor: "\<exists>u v. s = u @ trim s @ v"
proof -
  let ?t = "dropWhile is_space s"
  have "s = takeWhile is_space s @ ?t" by simp
  moreover have "?t = rev (takeWhile is_space (rev ?t) @ dropWhile is_space (rev ?t))"
    by (simp only: takeWhile_dropWhile_id rev_rev_ident)
  then have "?t = trim s @ rev (takeWhile is_space (rev ?t))"
    by (simp only: trim_def rev_append)
  ultimately show ?thesis by metis
qed

lemma redact_includes:
  assumes "installation_token token"
  shows "\<not> js_includes (redactTransportText s token) token"
proof
  let ?redacted = "js_replaceAll token (js ''[redacted]'') s"
  assume "js_includes (redactTransportText s token) token"
  then have "js_includes ([] @ redactTransportText s token @ drop 500 (trim (squeeze_newlines ?redacted))) token"
    by (rule includes_factor)
  then have "js_includes (trim (squeeze_newlines ?redacted)) token"
    by (simp add: redactTransportText_def)
  then have "js_includes (squeeze_newlines ?redacted) token"
    using trim_factor [of "squeeze_newlines ?redacted"] includes_factor by metis
  moreover have "\<not> word_char 10" "\<not> word_char 13" "\<not> word_char 32"
    by (simp_all add: word_char_def alnum_char_def)
  ultimately have "js_includes ?redacted token"
    using token_facts [OF assms] by (blast intro: squeeze_includes)
  moreover have "js ''[redacted]'' = 91 # js ''redacted'' @ [93]" by code_simp
  moreover have "\<not> word_char 91" "\<not> word_char 93" by (simp_all add: word_char_def alnum_char_def)
  moreover have "95 \<notin> set (91 # js ''redacted'')" by code_simp
  ultimately show False
    using token_facts(1,2) [OF assms] token_facts(3) [OF assms, of 91] token_facts(3) [OF assms, of 93]
      replace_from_includes [of 91 token 93 "js ''redacted''" s]
    by (simp only: js_replaceAll_def if_False) blast
qed

section \<open>Messages\<close>

definition hides :: "jstring \<Rightarrow> Failure \<Rightarrow> bool" where
  "hides token failure =
     (case failure of Delivery e \<Rightarrow> \<not> js_includes (de_message e) token | _ \<Rightarrow> True)"

text \<open>The services of the platform throw no errors of this package.\<close>

definition platform_errors :: "'w GitServices \<Rightarrow> bool" where
  "platform_errors services \<longleftrightarrow>
     (\<forall>call. io_throws (Not \<circ> is_delivery) (gs_spawn services call))
     \<and> io_throws (Not \<circ> is_delivery) (gs_now services)
     \<and> (\<forall>p. io_throws (Not \<circ> is_delivery) (gs_mkdtemp services p))
     \<and> (\<forall>p. io_throws (Not \<circ> is_delivery) (gs_mkdir services p))
     \<and> (\<forall>p c. io_throws (Not \<circ> is_delivery) (gs_writeFile services p c))
     \<and> (\<forall>p n. io_throws (Not \<circ> is_delivery) (gs_chmod services p n))
     \<and> (\<forall>p. io_throws (Not \<circ> is_delivery) (gs_rm services p))"

lemma io_throws_mono: "io_throws P m \<Longrightarrow> (\<And>e. P e \<Longrightarrow> Q e) \<Longrightarrow> io_throws Q m"
  unfolding io_throws_def by (blast intro: io_wp_mono)

lemma hides_foreign: "io_throws (Not \<circ> is_delivery) m \<Longrightarrow> io_throws (hides token) m"
  by (erule io_throws_mono) (auto simp: hides_def split: Failure.splits)

lemma platform_hides:
  assumes "platform_errors services"
  shows "io_throws (hides token) (gs_spawn services call)" and "io_throws (hides token) (gs_now services)"
    and "io_throws (hides token) (gs_mkdtemp services p)" and "io_throws (hides token) (gs_mkdir services p)"
    and "io_throws (hides token) (gs_writeFile services p c)" and "io_throws (hides token) (gs_chmod services p n)"
    and "io_throws (hides token) (gs_rm services p)"
  using assms unfolding platform_errors_def by (blast intro: hides_foreign)+

lemma underscore_js [simp]: "95 \<in> set (js s) \<longleftrightarrow> CHR ''_'' \<in> set s"
proof -
  have underscore: "95 = (of_char (CHR ''_'') :: jchar)" by code_simp
  show ?thesis
    unfolding js_def underscore set_map
    by (rule iffI, erule imageE, simp only: of_char_jchar_inj, erule imageI)
qed

lemma plain_message: "installation_token token \<Longrightarrow> 95 \<notin> set m \<Longrightarrow> \<not> js_includes m token"
  using token_facts(1) by (auto simp: includes_iff)

lemma hides_plain:
  "installation_token token \<Longrightarrow> 95 \<notin> set m \<Longrightarrow> hides token (deliveryError code m retryable)"
  using plain_message by (simp add: hides_def deliveryError_def)

lemma hides_gitFailure:
  assumes token: "installation_token token" and "95 \<notin> set operation"
  shows "hides token (gitFailure token operation res)"
proof -
  have "\<not> js_includes (operation @ js '' failed: '' @ redactTransportText (spawn_text res) token) token"
  proof
    assume "js_includes (operation @ js '' failed: '' @ redactTransportText (spawn_text res) token) token"
    moreover have "js '' failed: '' = js '' failed:'' @ [32]" by code_simp
    ultimately have "js_includes ((operation @ js '' failed:'') @ 32 # redactTransportText (spawn_text res) token) token"
      by simp
    moreover have "32 \<notin> set token"
      using token_facts(3) [OF token, of 32] by (auto simp: word_char_def alnum_char_def)
    ultimately show False
      using includes_after redact_includes [OF token] token_facts(1) [OF token] assms(2) by fastforce
  qed
  moreover have "\<not> js_includes (operation @ js '' timed out.'') token"
    using assms(2) by (intro plain_message [OF token]) simp
  ultimately show ?thesis by (simp add: gitFailure_def hides_def deliveryError_def Let_def)
qed

definition hidden_by :: "'w Spawn \<Rightarrow> jstring \<Rightarrow> bool" where
  "hidden_by spawn token \<longleftrightarrow> installation_token token \<and> (\<forall>call. io_throws (hides token) (spawn call))"

lemma hidden_byD:
  "hidden_by spawn token \<Longrightarrow> installation_token token"
  "hidden_by spawn token \<Longrightarrow> io_throws (hides token) (spawn call)"
  by (simp_all add: hidden_by_def)

lemma hides_pushFailed: "installation_token token \<Longrightarrow> 95 \<notin> set m \<Longrightarrow> hides token (pushFailed m)"
  by (simp add: pushFailed_def hides_plain)

lemmas hiding = io_throws_intros hidden_byD hides_plain hides_pushFailed

lemma runLocalGit_hides: "hidden_by spawn token \<Longrightarrow> io_throws (hides token) (runLocalGit spawn cwd args timeoutMs)"
  unfolding runLocalGit_def by (intro hiding) (auto dest: hidden_byD)

lemma runAuthenticatedGit_hides:
  "hidden_by spawn token \<Longrightarrow> 95 \<notin> set operation \<Longrightarrow>
     io_throws (hides token) (runAuthenticatedGit spawn cwd args env timeoutMs token operation)"
  unfolding runAuthenticatedGit_def by (intro hiding hides_gitFailure) (auto dest: hidden_byD)

lemma remoteShaOf_hides:
  "installation_token token \<Longrightarrow> remoteShaOf branch output = Inl e \<Longrightarrow> hides token e"
  by (auto simp: remoteShaOf_def Let_def hides_pushFailed split: if_splits option.splits)

lemma readRemoteShaAtUrl_hides:
  "hidden_by spawn token \<Longrightarrow>
     io_throws (hides token) (readRemoteShaAtUrl spawn cwd pushUrl branch env hooksDir timeoutMs token)"
  unfolding readRemoteShaAtUrl_def
  by (intro io_throws_intros runAuthenticatedGit_hides) (auto dest: hidden_byD remoteShaOf_hides)

lemma checkTarget_hides:
  "installation_token token \<Longrightarrow> checkTarget parseUrl allowLocal input output = Inl e \<Longrightarrow> hides token e"
  by (auto simp: checkTarget_def hides_plain split: if_splits option.splits list.splits)

lemma resolvePushUrl_hides:
  "hidden_by (gs_spawn services) token \<Longrightarrow> io_throws (hides token) (resolvePushUrl services input)"
  unfolding resolvePushUrl_def
  by (intro io_throws_intros runLocalGit_hides) (auto dest: hidden_byD checkTarget_hides)

lemma withAskPass_hides:
  assumes "platform_errors services" and "\<And>env hooksDir. io_throws (hides token) (operation env hooksDir)"
  shows "io_throws (hides token) (withAskPassEnvironment services t operation tempRoot shell)"
  unfolding withAskPassEnvironment_def Let_def
  by (intro io_throws_intros platform_hides [OF assms(1)] assms(2))

lemma platform_hidden_by:
  "platform_errors services \<Longrightarrow> installation_token token \<Longrightarrow> hidden_by (gs_spawn services) token"
  by (simp add: hidden_by_def platform_hides(1))

lemma assertGitRef_hides: "installation_token token \<Longrightarrow> assertGitRef ref = Inl e \<Longrightarrow> hides token e"
  by (auto simp: assertGitRef_def hides_pushFailed split: if_splits)

lemma transport_hides:
  assumes platform: "platform_errors services" and token: "installation_token (ti_token input)"
  shows "io_throws (hides (ti_token input)) (transportPush services input)"
    and "io_throws (hides (ti_token input)) (transportReadRemoteSha services input)"
    and "io_throws (hides (ti_token input)) (transportDeleteRemoteRef services input)"
  unfolding transportPush_def transportReadRemoteSha_def transportDeleteRemoteRef_def
  using assertGitRef_hides [OF token] platform_hidden_by [OF platform token] token
  by (intro io_throws_intros resolvePushUrl_hides withAskPass_hides platform runLocalGit_hides
      runAuthenticatedGit_hides readRemoteShaAtUrl_hides hides_plain; simp)+

section \<open>The conditional deletion\<close>

text \<open>The results satisfy \<open>Q\<close> and the errors \<open>P\<close>.\<close>

definition io_ends :: "('a \<Rightarrow> bool) \<Rightarrow> ('e \<Rightarrow> bool) \<Rightarrow> ('w, 'e, 'a) io \<Rightarrow> bool" where
  "io_ends Q P m \<longleftrightarrow> (\<forall>w. io_wp m (\<lambda>a _. Q a) (\<lambda>e _. P e) w)"

lemma io_ends_return: "Q a \<Longrightarrow> io_ends Q P (io_return a)"
  by (simp add: io_ends_def io_wp_return)

lemma io_ends_throw: "P e \<Longrightarrow> io_ends Q P (io_throw e)"
  by (simp add: io_ends_def io_wp_throw)

lemma io_ends_bind: "io_throws P m \<Longrightarrow> (\<And>a. io_ends Q P (f a)) \<Longrightarrow> io_ends Q P (io_bind m f)"
  unfolding io_ends_def io_throws_def by (blast intro: io_wp_bindI)

lemma io_ends_finally: "io_ends Q P m \<Longrightarrow> io_throws P f \<Longrightarrow> io_ends Q P (io_finally m f)"
  by (simp add: io_ends_def io_throws_def io_wp_def io_finally_def split: prod.splits sum.splits)

lemma io_ends_if: "(b \<Longrightarrow> io_ends Q P m) \<Longrightarrow> (\<not> b \<Longrightarrow> io_ends Q P n) \<Longrightarrow> io_ends Q P (if b then m else n)"
  by simp

lemma io_throws_snd: "io_throws P m \<Longrightarrow> snd (m w) = Inl e \<Longrightarrow> P e"
  by (metis io_throws_Inl prod.collapse)

lemma io_ends_snd:
  assumes "io_ends Q P m"
  shows "snd (m w) = Inl e \<Longrightarrow> P e" and "snd (m w) = Inr a \<Longrightarrow> Q a"
  using spec [OF assms [unfolded io_ends_def], of w] by (cases "m w"; simp add: io_wp_def)+

lemmas io_ends_intros = io_ends_return io_ends_throw io_ends_bind io_ends_finally io_ends_if

definition messageHidden :: "jstring \<Rightarrow> ConditionalBranchDeleteResult \<Rightarrow> bool" where
  "messageHidden token res \<longleftrightarrow> (\<forall>m. cd_message res = Some m \<longrightarrow> \<not> js_includes m token)"

lemma messageHidden_basic:
  "messageHidden token (unattempted state ref_state sha)"
  "installation_token (ti_token input) \<Longrightarrow> messageHidden (ti_token input) (attemptResult input expectedSha res observed)"
  by (auto simp: messageHidden_def unattempted_def attemptResult_def redact_includes Let_def split: sum.splits)

lemma remainingTime_hides:
  "platform_errors services \<Longrightarrow> installation_token token \<Longrightarrow> io_throws (hides token) (remainingTime services deadline)"
  unfolding remainingTime_def by (intro io_throws_intros platform_hides hides_plain; simp)

lemma cleanupRepository_hides:
  "hidden_by spawn token \<Longrightarrow> io_throws (hides token) (cleanupRepository spawn hooksDir env timeoutMs sha256)"
  unfolding cleanupRepository_def Let_def
  by (intro io_throws_intros hidden_byD(2) hides_pushFailed hidden_byD(1); simp)

lemma validateCleanupRef_hides:
  "hidden_by spawn token \<Longrightarrow> io_throws (hides token) (validateCleanupRef spawn input)"
  unfolding validateCleanupRef_def cleanupRefError_def
  by (auto intro!: io_throws_intros runLocalGit_hides hides_pushFailed hides_plain dest: hidden_byD(1))

definition hidden_context :: "jstring \<Rightarrow> 'w ConditionalGitContext \<Rightarrow> bool" where
  "hidden_context token context \<longleftrightarrow>
     hidden_by (cx_spawn context) token \<and> io_throws (hides token) (cx_beforePush context)"

lemma leasedDelete_hides:
  assumes platform: "platform_errors services" and token: "installation_token (ti_token input)"
    and "hidden_context (ti_token input) context"
  shows "io_ends (messageHidden (ti_token input)) (hides (ti_token input))
    (leasedDelete services context input expectedSha deadline env hooksDir)"
  unfolding leasedDelete_def Let_def
  using assms(3) messageHidden_basic(1) messageHidden_basic(2) [OF token]
  by (intro io_ends_intros io_throws_intros remainingTime_hides platform token cleanupRepository_hides
      readRemoteShaAtUrl_hides hidden_byD(2); simp add: hidden_context_def)

lemma contextOf_hides:
  assumes "platform_errors services" and "installation_token token"
  shows "io_throws (hides token) (contextOf services None input sha)"
  unfolding contextOf_def
  using platform_hidden_by [OF assms] by (auto intro!: io_throws_intros resolvePushUrl_hides)

text \<open>The context of the public transport, and what follows for a computation that obtains it.\<close>

definition plain_context :: "'w GitServices \<Rightarrow> 'w ConditionalGitContext \<Rightarrow> bool" where
  "plain_context services context \<longleftrightarrow>
     cx_spawn context = gs_spawn services \<and> cx_beforePush context = io_return () \<and> \<not> cx_fixed context"

lemma io_wp_return_fun: "io_wp (io_return a) Q E = Q a"
  by (rule ext) (simp add: io_wp_return)

lemma io_ends_context:
  assumes "io_throws P (contextOf services None input sha)"
    and "\<And>context. plain_context services context \<Longrightarrow> io_ends Q P (f context)"
  shows "io_ends Q P (io_bind (contextOf services None input sha) f)"
proof -
  have "io_wp (contextOf services None input sha) (\<lambda>context _. plain_context services context) (\<lambda>e _. P e) w" for w
    using assms(1) by (simp add: contextOf_def io_throws_def io_wp_bind io_wp_return_fun plain_context_def)
  then show ?thesis
    using assms(2) unfolding io_ends_def by (blast intro: io_wp_bindI)
qed

lemma withAskPass_ends:
  assumes "platform_errors services" and "\<And>env hooksDir. io_ends Q (hides token) (operation env hooksDir)"
  shows "io_ends Q (hides token) (withAskPassEnvironment services t operation tempRoot shell)"
  unfolding withAskPassEnvironment_def Let_def
  by (intro io_ends_intros platform_hides [OF assms(1)] assms(2))

lemma deleteRemoteRefIfAt_hides:
  assumes platform: "platform_errors services" and token: "installation_token (ti_token input)"
  shows "io_ends (messageHidden (ti_token input)) (hides (ti_token input))
    (deleteRemoteRefIfAt services None input expectedSha)"
proof -
  have same: "ti_token (contextInput ctx timeoutMs input) = ti_token input" for ctx timeoutMs
    by (simp add: contextInput_def)
  have leased: "io_ends (messageHidden (ti_token input)) (hides (ti_token input))
      (leasedDelete services ctx (contextInput ctx timeoutMs input) expectedSha deadline env hooksDir)"
    if "plain_context services ctx" for ctx timeoutMs deadline env hooksDir
    using leasedDelete_hides [of services "contextInput ctx timeoutMs input" ctx] platform token that
      platform_hidden_by [OF platform token] by (simp add: same hidden_context_def plain_context_def io_throws_return)
  show ?thesis
    unfolding deleteRemoteRefIfAt_def Let_def
    using platform_hidden_by [OF platform token] leased token
    by (intro io_ends_intros io_ends_context contextOf_hides remainingTime_hides withAskPass_ends platform
        validateCleanupRef_hides platform_hides hides_pushFailed; simp add: plain_context_def)
qed

end
