(* ===== verification/TransportPushes.thy ===== *)
theory TransportPushes
  imports TransportCorrectness
begin

text \<open>
  Which pushes a conditional deletion sends, read off the log of the Git processes it starts.
\<close>

section \<open>The log of Git calls\<close>

text \<open>The Git command of an argument list, after the options \<open>-c name=value\<close>.\<close>

fun gitCommand :: "jstring list \<Rightarrow> jstring option" where
  "gitCommand [] = None"
| "gitCommand [a] = Some a"
| "gitCommand (a # b # rest) = (if a = js ''-c'' then gitCommand rest else Some a)"

definition isPush :: "SpawnCall \<Rightarrow> bool" where
  "isPush call \<longleftrightarrow> gitCommand (sc_args call) = Some (js ''push'')"

definition pushes :: "('w \<Rightarrow> SpawnCall list) \<Rightarrow> 'w \<Rightarrow> 'w \<Rightarrow> SpawnCall list \<Rightarrow> bool" where
  "pushes calls w w' ps \<longleftrightarrow> (\<exists>added. calls w' = calls w @ added \<and> filter isPush added = ps)"

lemma pushes_refl [simp]: "pushes calls w w []"
  by (simp add: pushes_def)

lemma pushes_trans: "pushes calls w w1 ps \<Longrightarrow> pushes calls w1 w2 qs \<Longrightarrow> pushes calls w w2 (ps @ qs)"
  unfolding pushes_def by auto

definition quiet :: "('w \<Rightarrow> SpawnCall list) \<Rightarrow> ('w, 'e, 'a) io \<Rightarrow> bool" where
  "quiet calls m \<longleftrightarrow> (\<forall>w. pushes calls w (fst (m w)) [])"

text \<open>Every started process is logged, and nothing else is.\<close>

definition logs_calls :: "('w \<Rightarrow> SpawnCall list) \<Rightarrow> 'w GitServices \<Rightarrow> bool" where
  "logs_calls calls services \<longleftrightarrow>
     (\<forall>call w. calls (fst (gs_spawn services call w)) = calls w @ [call])
     \<and> (\<forall>w. calls (fst (gs_now services w)) = calls w)
     \<and> (\<forall>p w. calls (fst (gs_mkdtemp services p w)) = calls w)
     \<and> (\<forall>p w. calls (fst (gs_mkdir services p w)) = calls w)
     \<and> (\<forall>p c w. calls (fst (gs_writeFile services p c w)) = calls w)
     \<and> (\<forall>p n w. calls (fst (gs_chmod services p n w)) = calls w)
     \<and> (\<forall>p w. calls (fst (gs_rm services p w)) = calls w)"

named_theorems quiet_intros

lemma quiet_basic [quiet_intros]:
  "quiet calls (io_return a)" "quiet calls (io_throw e)" "quiet calls (io_result r)"
  by (simp_all add: quiet_def io_result_def)

lemma quiet_bind [quiet_intros]:
  assumes "quiet calls m" and "\<And>a. quiet calls (f a)"
  shows "quiet calls (io_bind m f)"
  unfolding quiet_def
proof
  fix w
  have m: "pushes calls w (fst (m w)) []" and f: "pushes calls w1 (fst (f a w1)) []" for a w1
    using assms by (simp_all add: quiet_def)
  show "pushes calls w (fst (io_bind m f w)) []"
    using m pushes_trans [OF m f]
    by (cases "m w"; cases "snd (m w)") (simp_all add: io_bind_def)
qed

lemma quiet_finally [quiet_intros]:
  assumes "quiet calls m" and "quiet calls f"
  shows "quiet calls (io_finally m f)"
  unfolding quiet_def
proof
  fix w
  have "pushes calls w (fst (f (fst (m w)))) ([] @ [])"
    using assms by (intro pushes_trans) (auto simp: quiet_def)
  then show "pushes calls w (fst (io_finally m f w)) []"
    by (auto simp: io_finally_def split: prod.split sum.split)
qed

lemma quiet_attempt [quiet_intros]: "quiet calls m \<Longrightarrow> quiet calls (io_attempt m)"
  unfolding quiet_def io_attempt_def by (metis (mono_tags, lifting) case_prod_beta fst_conv)

lemma quiet_if [quiet_intros]:
  "(b \<Longrightarrow> quiet calls m) \<Longrightarrow> (\<not> b \<Longrightarrow> quiet calls n) \<Longrightarrow> quiet calls (if b then m else n)"
  by simp

lemma services_quiet:
  assumes "logs_calls calls services"
  shows "\<not> isPush call \<Longrightarrow> quiet calls (gs_spawn services call)" and "quiet calls (gs_now services)"
    and "quiet calls (gs_mkdtemp services p)" and "quiet calls (gs_mkdir services p)"
    and "quiet calls (gs_writeFile services p c)" and "quiet calls (gs_chmod services p n)"
    and "quiet calls (gs_rm services p)"
  using assms by (auto simp: logs_calls_def quiet_def pushes_def)

section \<open>Quiet parts of the transport\<close>

lemma gitCommand_isolated: "gitCommand (isolatedArgs hooksDir @ args) = gitCommand args"
  by (simp add: isolatedArgs_def)

lemma runLocalGit_quiet:
  assumes "logs_calls calls services" and "gitCommand args \<noteq> Some (js ''push'')"
  shows "quiet calls (runLocalGit (gs_spawn services) cwd args timeoutMs)"
  unfolding runLocalGit_def using assms(2)
  by (intro quiet_intros services_quiet [OF assms(1)]) (simp add: isPush_def)

lemma readRemoteShaAtUrl_quiet:
  assumes "logs_calls calls services"
  shows "quiet calls (readRemoteShaAtUrl (gs_spawn services) cwd url branch env hooksDir timeoutMs token)"
  unfolding readRemoteShaAtUrl_def runAuthenticatedGit_def
  by (intro quiet_intros services_quiet [OF assms]) (simp add: isPush_def gitCommand_isolated)

lemma remainingTime_quiet:
  "logs_calls calls services \<Longrightarrow> quiet calls (remainingTime services deadline)"
  unfolding remainingTime_def by (intro quiet_intros services_quiet)

lemma cleanupRepository_quiet:
  assumes "logs_calls calls services"
  shows "quiet calls (cleanupRepository (gs_spawn services) hooksDir env timeoutMs sha256)"
  unfolding cleanupRepository_def Let_def
  by (intro quiet_intros services_quiet [OF assms]) (simp add: isPush_def)

lemma resolvePushUrl_quiet:
  "logs_calls calls services \<Longrightarrow> quiet calls (resolvePushUrl services input)"
  unfolding resolvePushUrl_def by (intro quiet_intros runLocalGit_quiet) simp_all

lemma validateCleanupRef_quiet:
  "logs_calls calls services \<Longrightarrow> quiet calls (validateCleanupRef (gs_spawn services) input)"
  unfolding validateCleanupRef_def
  by (auto intro!: quiet_intros runLocalGit_quiet split: option.split)

section \<open>The deletion\<close>

text \<open>The only push a deletion of the branch may send: one with the lease on the expected commit.\<close>

definition leasedPush :: "jstring \<Rightarrow> jstring \<Rightarrow> jstring \<Rightarrow> SpawnCall \<Rightarrow> bool" where
  "leasedPush branch expectedSha url call \<longleftrightarrow>
     (\<exists>hooksDir. sc_args call = isolatedArgs hooksDir @
        [js ''push'', js ''--porcelain'', js ''--force-with-lease=refs/heads/'' @ branch @ js '':'' @ expectedSha,
         url, js '':refs/heads/'' @ branch])"

text \<open>
  From the state \<open>w\<close> on, a run sends no push, or one with \<open>C\<close> of the call and the state at the end;
  a result says which.
\<close>

definition deletes ::
  "('w \<Rightarrow> SpawnCall list) \<Rightarrow> (SpawnCall \<Rightarrow> 'w \<Rightarrow> bool) \<Rightarrow>
     ('w, Failure, ConditionalBranchDeleteResult) io \<Rightarrow> 'w \<Rightarrow> bool" where
  "deletes calls C m w \<longleftrightarrow>
     (\<exists>ps. pushes calls w (fst (m w)) ps
        \<and> (ps = [] \<or> (\<exists>call. ps = [call] \<and> C call (fst (m w))))
        \<and> (\<forall>res. snd (m w) = Inr res \<longrightarrow> (cd_attempted res \<longleftrightarrow> ps \<noteq> [])))"

lemma deletes_throw: "deletes calls C (io_throw e) w"
  by (auto simp: deletes_def intro: exI [of _ "[]"])

lemma deletes_unattempted: "deletes calls C (io_return (unattempted state ref_state sha)) w"
  by (auto simp: deletes_def unattempted_def intro: exI [of _ "[]"])

lemma deletes_bind:
  assumes m: "quiet calls m"
    and f: "\<And>a w1. m w = (w1, Inr a) \<Longrightarrow> pushes calls w w1 [] \<Longrightarrow> deletes calls C (f a) w1"
  shows "deletes calls C (io_bind m f) w"
proof -
  obtain w1 r where run: "m w = (w1, r)" by fastforce
  have step: "pushes calls w w1 []" using m by (metis quiet_def run fst_conv)
  show ?thesis
  proof (cases r)
    case (Inl e)
    with run step show ?thesis by (auto simp: deletes_def io_bind_eval)
  next
    case (Inr a)
    with run step have "io_bind m f w = f a w1" and fa: "deletes calls C (f a) w1"
      using f by (simp_all add: io_bind_eval)
    moreover from fa obtain ps where "pushes calls w1 (fst (f a w1)) ps"
        "ps = [] \<or> (\<exists>call. ps = [call] \<and> C call (fst (f a w1)))"
        "\<forall>res. snd (f a w1) = Inr res \<longrightarrow> (cd_attempted res \<longleftrightarrow> ps \<noteq> [])"
      by (metis deletes_def)
    ultimately show ?thesis
      using pushes_trans [OF step] unfolding deletes_def by (metis append_Nil)
  qed
qed

text \<open>What holds after the push holds after anything that sends none.\<close>

definition settled :: "('w \<Rightarrow> SpawnCall list) \<Rightarrow> (SpawnCall \<Rightarrow> 'w \<Rightarrow> bool) \<Rightarrow> bool" where
  "settled calls C \<longleftrightarrow> (\<forall>call w w'. C call w \<longrightarrow> pushes calls w w' [] \<longrightarrow> C call w')"

lemma deletes_finally:
  assumes m: "deletes calls C m w" and f: "quiet calls f" and C: "settled calls C"
  shows "deletes calls C (io_finally m f) w"
proof -
  obtain w1 r where run: "m w = (w1, r)" by fastforce
  then obtain ps where ps: "pushes calls w w1 ps" "ps = [] \<or> (\<exists>call. ps = [call] \<and> C call w1)"
      "\<forall>res. r = Inr res \<longrightarrow> (cd_attempted res \<longleftrightarrow> ps \<noteq> [])"
    using m by (metis deletes_def fst_conv snd_conv)
  obtain w2 q where fin: "f w1 = (w2, q)" by fastforce
  then have quiet: "pushes calls w1 w2 []" using f by (metis quiet_def fst_conv)
  with ps(1) have "pushes calls w w2 (ps @ [])" by (rule pushes_trans)
  moreover have "ps = [] \<or> (\<exists>call. ps = [call] \<and> C call w2)"
    using ps(2) quiet C unfolding settled_def by blast
  moreover have "io_finally m f w = (w2, case q of Inl e \<Rightarrow> Inl e | Inr _ \<Rightarrow> r)"
    by (simp add: io_finally_def run fin split: sum.split)
  ultimately show ?thesis using ps(3) by (auto simp: deletes_def split: sum.splits)
qed

lemma attemptResult_attempted [simp]: "cd_attempted (attemptResult input sha res observed)"
  by (simp add: attemptResult_def Let_def split: sum.split)

lemma leaseArgs_leased: "sc_args call = leaseArgs hooksDir branch sha url \<Longrightarrow> leasedPush branch sha url call"
proof -
  have "js ''--force-with-lease='' @ js ''refs/heads/'' = js ''--force-with-lease=refs/heads/''"
    and "js '':'' @ js ''refs/heads/'' = js '':refs/heads/''" and "[58] = js '':''"
    by code_simp+
  then have "js ''--force-with-lease='' @ js ''refs/heads/'' @ t = js ''--force-with-lease=refs/heads/'' @ t"
    and "js '':'' @ js ''refs/heads/'' @ t = js '':refs/heads/'' @ t" and "58 # t = js '':'' @ t" for t
    by (metis append.assoc append_Cons append_Nil)+
  then show "sc_args call = leaseArgs hooksDir branch sha url \<Longrightarrow> leasedPush branch sha url call"
    by (simp add: leasedPush_def leaseArgs_def branchRef_def) blast
qed

lemma deletes_attempt:
  assumes logs: "logs_calls calls services" and leased: "leasedPush branch sha url call"
    and read: "quiet calls read"
    and C: "\<And>w'. pushes calls (fst (gs_spawn services call w)) w' [] \<Longrightarrow> C call w'"
  shows "deletes calls C
    (io_bind (gs_spawn services call) (\<lambda>res. io_bind (io_attempt read) (\<lambda>observed.
      io_return (attemptResult input sha' res observed)))) w"
proof -
  have push: "isPush call"
    using leased by (auto simp: isPush_def leasedPush_def gitCommand_isolated)
  obtain w1 r where spawn: "gs_spawn services call w = (w1, r)" by fastforce
  then have step: "pushes calls w w1 [call]"
    using logs push by (auto simp: logs_calls_def pushes_def dest!: spec [of _ call] spec [of _ w])
  obtain w2 obs where rd: "io_attempt read w1 = (w2, Inr obs)"
    by (cases "read w1") (simp add: io_attempt_def)
  then have quiet: "pushes calls w1 w2 []"
    using quiet_attempt [OF read] by (metis quiet_def fst_conv)
  then have both: "pushes calls w w2 [call]"
    using pushes_trans [OF step] by force
  have "C call w1" "C call w2" using C [of w1] C [of w2] quiet spawn by simp_all
  moreover have "io_bind (gs_spawn services call) (\<lambda>res. io_bind (io_attempt read) (\<lambda>observed.
      io_return (attemptResult input sha' res observed))) w
    = (case r of Inl e \<Rightarrow> (w1, Inl e) | Inr res \<Rightarrow> (w2, Inr (attemptResult input sha' res obs)))"
    by (simp add: spawn rd io_bind_def split: sum.split)
  ultimately show ?thesis
    unfolding deletes_def using both step
    by (intro exI [of _ "[call]"]) (auto split: sum.split)
qed

section \<open>What precedes the push\<close>

lemma remainingTime_run:
  "remainingTime services deadline w = (w', Inr ms) \<longleftrightarrow>
     (\<exists>now. gs_now services w = (w', Inr now) \<and> now < deadline \<and> ms = deadline - now)"
  by (cases "gs_now services w") (auto simp: remainingTime_def io_bind_def split: sum.split if_splits)

text \<open>
  The end of a deletion that pushes: the branch is read at the URL, it is at the expected commit,
  the deadline has not passed, and the push is sent to the same URL with the rest of its time. Only
  reads follow.
\<close>

definition readThenPush ::
  "('w \<Rightarrow> SpawnCall list) \<Rightarrow> 'w GitServices \<Rightarrow> TransportInput \<Rightarrow> jstring \<Rightarrow> jstring \<Rightarrow> int \<Rightarrow> 'w \<Rightarrow>
     SpawnCall \<Rightarrow> 'w \<Rightarrow> bool" where
  "readThenPush calls services input expectedSha url deadline w call w' \<longleftrightarrow>
     (\<exists>w1 dir env hooksDir ms w2 now w3.
        pushes calls w w1 []
        \<and> readRemoteShaAtUrl (gs_spawn services) dir url (ti_branch input) env hooksDir ms (ti_token input) w1
            = (w2, Inr expectedSha)
        \<and> gs_now services w2 = (w3, Inr now) \<and> now < deadline
        \<and> leasedPush (ti_branch input) expectedSha url call
        \<and> sc_cwd call = dir \<and> sc_env call = Some env \<and> sc_timeout call = pushBudget (deadline - now)
        \<and> pushes calls (fst (gs_spawn services call w3)) w' [])"

lemma settled_readThenPush: "settled calls (readThenPush calls services input sha url deadline w)"
  unfolding settled_def readThenPush_def using pushes_trans [of calls _ _ "[]" _ "[]"]
  by (metis append_Nil)

lemma readThenPush_start:
  "pushes calls w w1 [] \<Longrightarrow> readThenPush calls services input sha url deadline w1 call w' \<Longrightarrow>
     readThenPush calls services input sha url deadline w call w'"
  unfolding readThenPush_def using pushes_trans [of calls w w1 "[]" _ "[]"] by (metis append_Nil)

lemma deletes_mono:
  "deletes calls C m w \<Longrightarrow> (\<And>call w'. C call w' \<Longrightarrow> D call w') \<Longrightarrow> deletes calls D m w"
  unfolding deletes_def by blast

lemma leasedDelete_deletes:
  assumes logs: "logs_calls calls services" and "plain_context services context"
  shows "deletes calls (readThenPush calls services input sha (cx_url context) deadline w)
    (leasedDelete services context input sha deadline env hooksDir) w"
proof -
  have spawn: "cx_spawn context = gs_spawn services" and before: "cx_beforePush context = io_return ()"
    using assms(2) by (auto simp: plain_context_def)
  let ?read = "\<lambda>dir. io_bind (remainingTime services deadline) (\<lambda>readMs.
      readRemoteShaAtUrl (gs_spawn services) dir (cx_url context) (ti_branch input) env hooksDir readMs
        (ti_token input))"
  have quiet: "quiet calls (?read dir)" for dir
    by (intro quiet_intros remainingTime_quiet readRemoteShaAtUrl_quiet logs)
  show ?thesis
    unfolding leasedDelete_def Let_def spawn before
  proof (intro deletes_bind remainingTime_quiet cleanupRepository_quiet quiet logs, goal_cases)
    case (1 initMs w1 dir w2 before w3)
    from 1(5) obtain ms w2' where read: "remainingTime services deadline w2 = (w2', Inr ms)"
      "readRemoteShaAtUrl (gs_spawn services) dir (cx_url context) (ti_branch input) env hooksDir ms
         (ti_token input) w2' = (w3, Inr before)"
      by (auto simp: io_bind_Inr)
    have "pushes calls w2 w2' []"
      using remainingTime_quiet [OF logs] read(1) by (metis quiet_def fst_conv)
    with 1(2,4) have start: "pushes calls w w2' []" using pushes_trans by (metis append_Nil)
    show ?case
    proof (cases "before = [] \<or> before \<noteq> sha")
      case True
      then show ?thesis using deletes_unattempted by auto
    next
      case False
      have push: "deletes calls (readThenPush calls services input sha (cx_url context) deadline w)
        (io_bind (gs_spawn services call) (\<lambda>res. io_bind (io_attempt (?read dir)) (\<lambda>observed.
           io_return (attemptResult input sha res observed)))) w4"
        if push: "remainingTime services deadline w3 = (w4, Inr pushMs)"
          "call = \<lparr>sc_args = leaseArgs hooksDir (ti_branch input) sha (cx_url context), sc_cwd = dir,
             sc_env = Some env, sc_timeout = pushBudget pushMs\<rparr>" for w4 pushMs call
      proof (rule deletes_attempt [OF logs _ quiet])
        show leased: "leasedPush (ti_branch input) sha (cx_url context) call"
          using push(2) by (intro leaseArgs_leased) simp
        show "readThenPush calls services input sha (cx_url context) deadline w call w'"
          if "pushes calls (fst (gs_spawn services call w4)) w' []" for w'
          unfolding readThenPush_def
          using start read(2) False push that leased unfolding remainingTime_run by fastforce
      qed
      from False have "before = sha" and "sha \<noteq> []" by auto
      then show ?thesis
        by (simp add: io_bind_def [of "io_return ()"])
          (rule deletes_bind [OF remainingTime_quiet [OF logs]], rule push [OF _ refl], assumption)
    qed
  qed
qed

lemma contextOf_plain:
  "contextOf services None input sha w = (w', Inr context) \<Longrightarrow> plain_context services context"
  by (auto simp: contextOf_def io_bind_Inr plain_context_def)

lemma contextOf_url:
  "contextOf services None input sha w = (w', Inr context) \<Longrightarrow>
     resolvePushUrl services input w = (w', Inr (cx_url context))"
  by (auto simp: contextOf_def io_bind_Inr)

lemma withAskPass_deletes:
  assumes logs: "logs_calls calls services" and C: "settled calls C"
    and "\<And>env hooksDir w1. pushes calls w w1 [] \<Longrightarrow> deletes calls C (operation env hooksDir) w1"
  shows "deletes calls C (withAskPassEnvironment services t operation tempRoot shell) w"
proof -
  have trans: "pushes calls w w2 []" if "pushes calls w w1 []" "pushes calls w1 w2 []" for w1 w2
    using pushes_trans [OF that] by simp
  show ?thesis
    unfolding withAskPassEnvironment_def Let_def
    by (intro deletes_bind deletes_finally services_quiet [OF logs] C assms(3)) (metis trans)
qed

lemma contextOf_quiet: "logs_calls calls services \<Longrightarrow> quiet calls (contextOf services None input sha)"
  by (auto simp: contextOf_def intro!: quiet_intros resolvePushUrl_quiet)

text \<open>
  Everything that precedes the push of a deletion, in this order: the deadline is fixed, the push URL
  of the remote is resolved and checked, the deadline has not passed, the branch name is checked, the
  branch is read at that URL.
\<close>

definition checkedPush ::
  "('w \<Rightarrow> SpawnCall list) \<Rightarrow> 'w GitServices \<Rightarrow> TransportInput \<Rightarrow> jstring \<Rightarrow> 'w \<Rightarrow> SpawnCall \<Rightarrow> 'w \<Rightarrow> bool"
where
  "checkedPush calls services input expectedSha w call w' \<longleftrightarrow>
     (\<exists>start w1 url w2 now w3 w4.
        gs_now services w = (w1, Inr start)
        \<and> resolvePushUrl services input w1 = (w2, Inr url)
        \<and> gs_now services w2 = (w3, Inr now) \<and> now < start + ti_timeoutMs input
        \<and> validateCleanupRef (gs_spawn services)
            (input\<lparr>ti_timeoutMs := start + ti_timeoutMs input - now\<rparr>) w3 = (w4, Inr ())
        \<and> readThenPush calls services input expectedSha url (start + ti_timeoutMs input) w4 call w')"

lemma deleteRemoteRefIfAt_deletes:
  assumes logs: "logs_calls calls services"
  shows "deletes calls (checkedPush calls services input sha w) (deleteRemoteRefIfAt services None input sha) w"
proof -
  show ?thesis
  proof (cases "isValidCleanupBranch (ti_branch input)")
    case False
    then show ?thesis by (simp add: deleteRemoteRefIfAt_def deletes_throw del: io_throw_apply)
  next
    case True
    have "deletes calls (checkedPush calls services input sha w)
      (io_bind (gs_now services) (\<lambda>start. io_bind (contextOf services None input (Some sha)) (\<lambda>context.
        io_bind (remainingTime services (start + ti_timeoutMs input)) (\<lambda>timeoutMs.
          if \<not> isFullGitObjectId sha then io_throw e
          else io_bind (validateCleanupRef (cx_spawn context) (contextInput context timeoutMs input)) (\<lambda>_.
            withAskPassEnvironment services (ti_token (contextInput context timeoutMs input))
              (leasedDelete services context (contextInput context timeoutMs input) sha (start + ti_timeoutMs input))
              (cx_tempRoot context) (cx_shell context)))))) w" for e
    proof (intro deletes_bind services_quiet(2) contextOf_quiet remainingTime_quiet logs, goal_cases)
      case (1 start w1 ctx w2 timeoutMs w3)
      let ?deadline = "start + ti_timeoutMs input" and ?input = "contextInput ctx timeoutMs input"
      have plain: "plain_context services ctx" using 1(3) by (rule contextOf_plain)
      then have input: "?input = input\<lparr>ti_timeoutMs := timeoutMs\<rparr>"
        and spawn: "cx_spawn ctx = gs_spawn services"
        by (simp_all add: contextInput_def plain_context_def)
      from 1(5) obtain now where now: "gs_now services w2 = (w3, Inr now)" "now < ?deadline"
        "timeoutMs = ?deadline - now" unfolding remainingTime_run by blast
      have "deletes calls (checkedPush calls services input sha w)
          (withAskPassEnvironment services (ti_token ?input)
            (leasedDelete services ctx ?input sha ?deadline) (cx_tempRoot ctx) (cx_shell ctx)) w4"
        if valid: "validateCleanupRef (gs_spawn services) ?input w3 = (w4, Inr a)" for a w4
      proof (rule deletes_mono [OF withAskPass_deletes [OF logs settled_readThenPush]])
        show "deletes calls (readThenPush calls services ?input sha (cx_url ctx) ?deadline w4)
            (leasedDelete services ctx ?input sha ?deadline env hooksDir) w5"
          if "pushes calls w4 w5 []" for env hooksDir w5
          using leasedDelete_deletes [OF logs plain] readThenPush_start [OF that] by (rule deletes_mono)
        show "checkedPush calls services input sha w call w'"
          if "readThenPush calls services ?input sha (cx_url ctx) ?deadline w4 call w'" for call w'
        proof -
          have "readThenPush calls services input sha (cx_url ctx) ?deadline w4 call w'"
            using that by (simp add: readThenPush_def input)
          then show ?thesis
            unfolding checkedPush_def using 1(1) contextOf_url [OF 1(3)] now valid input by auto
        qed
      qed
      then show ?case
        unfolding spawn by (auto intro!: deletes_throw deletes_bind validateCleanupRef_quiet logs simp del: io_throw_apply)
    qed
    with True show ?thesis by (simp add: deleteRemoteRefIfAt_def Let_def)
  qed
qed

text \<open>What every push needs of the input.\<close>

definition deletable :: "TransportInput \<Rightarrow> jstring \<Rightarrow> bool" where
  "deletable input expectedSha \<longleftrightarrow>
     isValidCleanupBranch (ti_branch input) \<and> \<not> isReservedCleanupBranch (ti_branch input) None
     \<and> valid_remote (ti_remote input) \<and> isFullGitObjectId expectedSha"

lemma io_bind_throw: "io_bind (io_throw e) f = io_throw e"
  by (rule ext) (simp add: io_bind_def io_throw_def)

lemma undeletable_quiet:
  assumes logs: "logs_calls calls services" and "\<not> deletable input sha"
  shows "quiet calls (deleteRemoteRefIfAt services None input sha)"
proof -
  show ?thesis
  proof (cases "isValidCleanupBranch (ti_branch input) \<and> isFullGitObjectId sha")
    case True
    then have refused: "validateCleanupRef spawn (contextInput ctx timeoutMs input)
        = io_throw (pushFailed (js ''Reserved branch or invalid remote cannot be cleaned.''))" for spawn ctx timeoutMs
      using assms(2) by (auto simp: validateCleanupRef_def cleanupRefError_def deletable_def contextInput_def)
    show ?thesis
      unfolding deleteRemoteRefIfAt_def Let_def refused io_bind_throw
      by (intro quiet_intros services_quiet(2) contextOf_quiet remainingTime_quiet logs)
  next
    case False
    then show ?thesis
      unfolding deleteRemoteRefIfAt_def Let_def
      by (cases "isValidCleanupBranch (ti_branch input)")
        (auto intro!: quiet_intros services_quiet(2) contextOf_quiet remainingTime_quiet logs simp del: io_throw_apply)
  qed
qed

lemma pushes_unique: "pushes calls w w' ps \<Longrightarrow> pushes calls w w' qs \<Longrightarrow> ps = qs"
  by (auto simp: pushes_def)

end
