(* ===== verification/TransportTruth.thy ===== *)
theory TransportTruth
  imports TransportPushes
begin

text \<open>
  That the result of a conditional deletion tells the truth about the remote branch, when
  \<open>git ls-remote\<close> does.
\<close>

section \<open>Git and the remote branch\<close>

definition remoteLine :: "jstring \<Rightarrow> jstring \<Rightarrow> jstring" where
  "remoteLine branch sha = (if sha = [] then [] else sha @ [9] @ branchRef branch)"

text \<open>
  \<open>ref w\<close> is the commit of the branch on the remote, empty when there is none. Only a push may
  change it, and \<open>ls-remote\<close>, when it succeeds, prints it.
\<close>

definition keeps :: "('w \<Rightarrow> jstring) \<Rightarrow> ('w, 'e, 'a) io \<Rightarrow> bool" where
  "keeps ref m \<longleftrightarrow> (\<forall>w. ref (fst (m w)) = ref w)"

definition shows_remote :: "('w \<Rightarrow> jstring) \<Rightarrow> jstring \<Rightarrow> 'w GitServices \<Rightarrow> bool" where
  "shows_remote ref branch services \<longleftrightarrow>
     (\<forall>w. ref w = [] \<or> isFullGitObjectId (ref w))
     \<and> (\<forall>call. isPush call \<or> keeps ref (gs_spawn services call))
     \<and> (\<forall>call w w' res. gs_spawn services call w = (w', Inr res) \<longrightarrow> \<not> spawn_failed res \<longrightarrow>
          gitCommand (sc_args call) = Some (js ''ls-remote'') \<longrightarrow> last (sc_args call) = branchRef branch \<longrightarrow>
          trim (text_or_empty (sr_stdout res)) = remoteLine branch (ref w))
     \<and> keeps ref (gs_now services)
     \<and> (\<forall>p. keeps ref (gs_mkdtemp services p)) \<and> (\<forall>p. keeps ref (gs_mkdir services p))
     \<and> (\<forall>p c. keeps ref (gs_writeFile services p c)) \<and> (\<forall>p n. keeps ref (gs_chmod services p n))
     \<and> (\<forall>p. keeps ref (gs_rm services p))"

named_theorems holds_intros

lemma holds_basic [holds_intros]:
  "keeps ref (io_return a)" "keeps ref (io_throw e)" "keeps ref (io_result r)"
  by (simp_all add: keeps_def io_result_def)

lemma holds_bind [holds_intros]:
  "keeps ref m \<Longrightarrow> (\<And>a. keeps ref (f a)) \<Longrightarrow> keeps ref (io_bind m f)"
  unfolding keeps_def io_bind_def by (simp split: prod.split sum.split) (metis fst_conv)

lemma holds_finally [holds_intros]: "keeps ref m \<Longrightarrow> keeps ref f \<Longrightarrow> keeps ref (io_finally m f)"
  unfolding keeps_def io_finally_def by (simp split: prod.split sum.split) (metis fst_conv)

lemma holds_if [holds_intros]: "(b \<Longrightarrow> keeps ref m) \<Longrightarrow> (\<not> b \<Longrightarrow> keeps ref n) \<Longrightarrow> keeps ref (if b then m else n)"
  by simp

lemma holds_wp: "keeps ref m \<Longrightarrow> io_wp m (\<lambda>_ w'. ref w' = ref w) (\<lambda>_ w'. ref w' = ref w) w"
  by (rule io_wpI) (metis keeps_def fst_conv)+

lemma services_keep:
  assumes "shows_remote ref branch services"
  shows "\<not> isPush call \<Longrightarrow> keeps ref (gs_spawn services call)" and "keeps ref (gs_now services)"
    and "keeps ref (gs_mkdtemp services p)" and "keeps ref (gs_mkdir services p)"
    and "keeps ref (gs_writeFile services p c)" and "keeps ref (gs_chmod services p n)"
    and "keeps ref (gs_rm services p)"
  using assms by (simp_all add: shows_remote_def) blast+

lemma parts_keep:
  assumes "shows_remote ref branch services"
  shows "gitCommand args \<noteq> Some (js ''push'') \<Longrightarrow> keeps ref (runLocalGit (gs_spawn services) cwd args timeoutMs)"
    and "keeps ref (readRemoteShaAtUrl (gs_spawn services) cwd url b env hooksDir timeoutMs token)"
    and "keeps ref (remainingTime services deadline)"
    and "keeps ref (cleanupRepository (gs_spawn services) hooksDir env timeoutMs sha256)"
  unfolding runLocalGit_def readRemoteShaAtUrl_def runAuthenticatedGit_def remainingTime_def
    cleanupRepository_def Let_def
  by (intro holds_intros services_keep [OF assms]; simp add: isPush_def gitCommand_isolated)+

section \<open>Reading\<close>

lemma takeWhile_hex: "isFullGitObjectId sha \<Longrightarrow> takeWhile hex_char (sha @ 9 # rest) = sha"
  by (subst takeWhile_append2) (auto simp: isFullGitObjectId_def list_all_iff hex_char_def)

lemma js_split_nonempty [simp]: "js_split sep s \<noteq> []"
  by (cases s) (auto split: list.split)

lemma js_split_one: "js_split sep s = [l] \<Longrightarrow> l = s"
proof (induction s arbitrary: l)
  case (Cons c cs)
  then show ?case by (cases "js_split sep cs") (auto split: if_splits)
qed simp

lemma split_lines_one: "length (split_lines s) = 1 \<Longrightarrow> split_lines s = [s]"
  by (cases "js_split 10 s" rule: rev_cases) (auto simp: split_lines_def dest: js_split_one)

lemma remoteShaOf_line:
  assumes "sha = [] \<or> isFullGitObjectId sha" and "remoteShaOf branch (remoteLine branch sha) = Inr x"
  shows "x = sha"
proof (cases "sha = []")
  case True
  with assms(2) show ?thesis by (simp add: remoteLine_def remoteShaOf_def)
next
  case False
  let ?out = "sha @ [9] @ branchRef branch"
  from False assms(2) have parsed: "parseRemoteRef (hd (split_lines ?out)) = Some (x, branchRef branch)"
    and one: "length (split_lines ?out) = 1"
    by (auto simp: remoteLine_def remoteShaOf_def Let_def split: option.splits if_splits)
  have "split_lines ?out = [?out]"
    using one by (rule split_lines_one)
  with parsed have "x = takeWhile hex_char ?out"
    by (auto simp: parseRemoteRef_def Let_def split: if_splits)
  then show ?thesis using takeWhile_hex assms(1) False by simp
qed

lemma read_true:
  assumes "shows_remote ref branch services"
  shows "io_wp (readRemoteShaAtUrl (gs_spawn services) cwd url branch env hooksDir timeoutMs token)
    (\<lambda>x w'. ref w' = ref w \<and> x = ref w) (\<lambda>_ w'. ref w' = ref w) w" (is "io_wp ?read _ _ w")
proof (rule io_wpI)
  fix w' x
  assume run: "?read w = (w', Inr x)"
  then have "ref w' = ref w"
    using parts_keep(2) [OF assms] by (metis keeps_def fst_conv)
  moreover obtain w1 res where "gs_spawn services
        \<lparr>sc_args = isolatedArgs hooksDir @ [js ''ls-remote'', url, branchRef branch], sc_cwd = cwd,
         sc_env = Some env, sc_timeout = timeoutMs\<rparr> w = (w1, Inr res)"
      "\<not> spawn_failed res" "remoteShaOf branch (trim (text_or_empty (sr_stdout res))) = Inr x"
    using run by (auto simp: readRemoteShaAtUrl_def runAuthenticatedGit_def io_bind_Inr io_result_def split: if_splits)
  moreover from this have "trim (text_or_empty (sr_stdout res)) = remoteLine branch (ref w)"
    using assms unfolding shows_remote_def by (force simp: gitCommand_isolated)
  ultimately show "ref w' = ref w \<and> x = ref w"
    using remoteShaOf_line [of "ref w" branch x] assms by (auto simp: shows_remote_def)
next
  fix w' e
  assume "?read w = (w', Inl e)"
  then show "ref w' = ref w"
    using parts_keep(2) [OF assms] by (metis keeps_def fst_conv)
qed

section \<open>Results\<close>

definition truth :: "('w \<Rightarrow> jstring) \<Rightarrow> jstring \<Rightarrow> 'w \<Rightarrow> ConditionalBranchDeleteResult \<Rightarrow> 'w \<Rightarrow> bool" where
  "truth ref sha w res w' \<longleftrightarrow>
     (cd_state res \<in> {ABSENT, DELETED, ABSENT_AFTER_ATTEMPT} \<longrightarrow> ref w' = [])
     \<and> (cd_state res = STALE \<longrightarrow> ref w' \<noteq> [] \<and> ref w' \<noteq> sha)
     \<and> (cd_state res = DELETE_FAILED \<longrightarrow> ref w' = sha)
     \<and> (\<forall>s. cd_observedSha res = Some s \<longrightarrow> ref w' = s)
     \<and> (\<not> cd_attempted res \<longrightarrow> ref w' = ref w)"

definition truthfully ::
  "('w \<Rightarrow> jstring) \<Rightarrow> jstring \<Rightarrow> ('w, Failure, ConditionalBranchDeleteResult) io \<Rightarrow> bool" where
  "truthfully ref sha m \<longleftrightarrow> (\<forall>w w' res. m w = (w', Inr res) \<longrightarrow> truth ref sha w res w')"

lemma truthfully_throw: "truthfully ref sha (io_throw e)"
  by (simp add: truthfully_def)

lemma truth_keep:
  "ref w = ref w0 \<Longrightarrow> truth ref sha w res w' \<Longrightarrow> truth ref sha w0 res w'"
  "ref w2 = ref w1 \<Longrightarrow> truth ref sha w res w1 \<Longrightarrow> truth ref sha w res w2"
  by (simp_all add: truth_def)

lemma keepsD: "keeps ref m \<Longrightarrow> m w = (w', r) \<Longrightarrow> ref w' = ref w"
  by (metis keeps_def fst_conv)

lemma truthfully_bind_result:
  "keeps ref m \<Longrightarrow> (\<And>a w w'. m w = (w', Inr a) \<Longrightarrow> truthfully ref sha (f a)) \<Longrightarrow> truthfully ref sha (io_bind m f)"
  unfolding truthfully_def io_bind_Inr by (metis keepsD truth_keep(1))

lemma truthfully_bind: "keeps ref m \<Longrightarrow> (\<And>a. truthfully ref sha (f a)) \<Longrightarrow> truthfully ref sha (io_bind m f)"
  by (rule truthfully_bind_result)

lemma truthfully_if: "(b \<Longrightarrow> truthfully ref sha m) \<Longrightarrow> (\<not> b \<Longrightarrow> truthfully ref sha n) \<Longrightarrow> truthfully ref sha (if b then m else n)"
  by simp

lemma io_finally_Inr:
  "io_finally m f w = (w', Inr a) \<longleftrightarrow> (\<exists>w1. m w = (w1, Inr a) \<and> f w1 = (w', Inr ()))"
  by (auto simp: io_finally_def split: prod.splits sum.splits)

lemma truthfully_finally: "truthfully ref sha m \<Longrightarrow> keeps ref f \<Longrightarrow> truthfully ref sha (io_finally m f)"
  unfolding truthfully_def io_finally_Inr by (metis keepsD truth_keep(2))

lemma attempt_truth:
  assumes "observed = Inr (ref w') \<or> (\<exists>e. observed = Inl e)"
  shows "truth ref sha w (attemptResult input sha res observed) w'"
  using assms by (auto simp: truth_def attemptResult_def Let_def split: if_splits)

lemma leasedDelete_truth:
  assumes remote: "shows_remote ref (ti_branch input) services" and "plain_context services context"
  shows "truthfully ref sha (leasedDelete services context input sha deadline env hooksDir)"
proof -
  have spawn: "cx_spawn context = gs_spawn services" and before: "cx_beforePush context = io_return ()"
    using assms(2) by (auto simp: plain_context_def)
  define read where "read dir = io_bind (remainingTime services deadline) (\<lambda>readMs.
      readRemoteShaAtUrl (gs_spawn services) dir (cx_url context) (ti_branch input) env hooksDir readMs (ti_token input))"
    for dir
  have read_keeps: "keeps ref (read dir)" for dir
    unfolding read_def by (intro holds_intros parts_keep [OF remote])
  have reads: "x = ref w'" if "read dir w = (w', Inr x)" for dir w w' x
    using that io_wp_Inr [OF read_true [OF remote]] unfolding read_def io_bind_Inr by metis
  have attempt: "truthfully ref sha (io_bind (gs_spawn services call) (\<lambda>res. io_bind (io_attempt (read dir)) (\<lambda>observed.
      io_return (attemptResult input sha res observed))))" for call dir
    unfolding truthfully_def io_bind_Inr
  proof (intro allI impI, elim exE conjE)
    fix w w' result w1 res w2 observed
    assume "io_attempt (read dir) w1 = (w2, Inr observed)"
      and ret: "io_return (attemptResult input sha res observed) w2 = (w', Inr result)"
    then have "read dir w1 = (w2, observed)"
      by (cases "read dir w1") (simp add: io_attempt_def)
    then have "observed = Inr (ref w') \<or> (\<exists>e. observed = Inl e)"
      using reads ret by (cases observed) auto
    then have "truth ref sha w (attemptResult input sha res observed) w'" by (rule attempt_truth)
    with ret show "truth ref sha w result w'" by simp
  qed
  have outcome: "truthfully ref sha (io_bind (read dir) (\<lambda>before.
      if before = [] then io_return (unattempted ABSENT RefAbsent None)
      else if before \<noteq> sha then io_return (unattempted STALE RefPresent (Some before))
      else io_bind (io_return ()) (\<lambda>_. io_bind (remainingTime services deadline) (\<lambda>pushMs.
        io_bind (gs_spawn services (call pushMs)) (\<lambda>res. io_bind (io_attempt (read dir)) (\<lambda>observed.
          io_return (attemptResult input sha res observed)))))))" for call dir
    unfolding truthfully_def io_bind_Inr [of "read dir"]
  proof (intro allI impI, elim exE conjE)
    fix w w' res w1 before
    assume run: "read dir w = (w1, Inr before)"
      and rest: "(if before = [] then io_return (unattempted ABSENT RefAbsent None)
        else if before \<noteq> sha then io_return (unattempted STALE RefPresent (Some before))
        else io_bind (io_return ()) (\<lambda>_. io_bind (remainingTime services deadline) (\<lambda>pushMs.
          io_bind (gs_spawn services (call pushMs)) (\<lambda>res. io_bind (io_attempt (read dir)) (\<lambda>observed.
            io_return (attemptResult input sha res observed)))))) w1 = (w', Inr res)"
    have before: "before = ref w1" and same: "ref w1 = ref w"
      using reads [OF run] keepsD [OF read_keeps run] by simp_all
    show "truth ref sha w res w'"
    proof (cases "before = [] \<or> before \<noteq> sha")
      case True
      with rest before same show ?thesis
        by (auto simp: truth_def unattempted_def split: if_splits)
    next
      case False
      have "truthfully ref sha (io_bind (io_return ()) (\<lambda>_. io_bind (remainingTime services deadline) (\<lambda>pushMs.
          io_bind (gs_spawn services (call pushMs)) (\<lambda>res. io_bind (io_attempt (read dir)) (\<lambda>observed.
            io_return (attemptResult input sha res observed))))))"
        by (intro truthfully_bind holds_intros parts_keep(3) [OF remote] attempt)
      with rest False same show ?thesis
        unfolding truthfully_def by (auto intro: truth_keep(1))
    qed
  qed
  show ?thesis
    unfolding leasedDelete_def Let_def spawn before read_def [symmetric]
    by (intro truthfully_bind parts_keep [OF remote] outcome)
qed

lemma withAskPass_truth:
  assumes "shows_remote ref branch services" and "\<And>env hooksDir. truthfully ref sha (operation env hooksDir)"
  shows "truthfully ref sha (withAskPassEnvironment services t operation tempRoot shell)"
  unfolding withAskPassEnvironment_def Let_def
  by (intro truthfully_bind truthfully_finally services_keep [OF assms(1)] assms(2))

lemma deleteRemoteRefIfAt_truth:
  assumes remote: "shows_remote ref (ti_branch input) services"
  shows "truthfully ref sha (deleteRemoteRefIfAt services None input sha)"
proof -
  have branch: "ti_branch (contextInput ctx timeoutMs input) = ti_branch input" for ctx timeoutMs
    by (simp add: contextInput_def)
  have leased: "truthfully ref sha (leasedDelete services ctx (contextInput ctx timeoutMs input) sha deadline env hooksDir)"
    if "plain_context services ctx" for ctx timeoutMs deadline env hooksDir
    using leasedDelete_truth [of ref "contextInput ctx timeoutMs input"] remote that by (simp add: branch)
  have obtained: "keeps ref (contextOf services None input (Some sha))"
    unfolding contextOf_def resolvePushUrl_def option.case
    by (intro holds_intros parts_keep(1) [OF remote]) simp
  have valid: "keeps ref (validateCleanupRef (cx_spawn ctx) input')" if "plain_context services ctx" for ctx input'
    using that unfolding validateCleanupRef_def plain_context_def
    by (auto intro!: holds_intros parts_keep(1) [OF remote] split: option.split)
  show ?thesis
    unfolding deleteRemoteRefIfAt_def Let_def
    apply (rule truthfully_if)
     apply (rule truthfully_throw)
    apply (rule truthfully_bind [OF services_keep(2) [OF remote]])
    apply (rule truthfully_bind_result [OF obtained])
    apply (drule contextOf_plain)
    apply (intro truthfully_bind truthfully_if truthfully_throw parts_keep(3) [OF remote] valid
        withAskPass_truth [OF remote] leased)
     apply assumption+
    done
qed

end
