(* ===== verification/TransportProperties.thy ===== *)
theory TransportProperties
  imports TransportTruth
begin

text \<open>
  The properties of the Git transport: no error or result text contains the token, a conditional
  deletion sends at most one push and only with its lease, and its result tells the truth.
\<close>

section \<open>A concrete transport\<close>

text \<open>The world is the log of Git calls and whether the remote branch exists.\<close>

type_synonym demo_world = "SpawnCall list \<times> bool"

definition demo_sha :: jstring where
  "demo_sha = replicate 40 97"

definition demo_git_token :: jstring where
  "demo_git_token = js ''ghs_abc123''"

definition demo_transport :: TransportInput where
  "demo_transport =
     \<lparr>ti_rootDir = js ''/r'', ti_remote = js ''origin'', ti_branch = js ''work'', ti_owner = js ''acme'',
      ti_repo = js ''app'', ti_token = demo_git_token, ti_timeoutMs = 1000\<rparr>"

definition demo_output :: "SpawnCall \<Rightarrow> bool \<Rightarrow> SpawnResult" where
  "demo_output call present =
     \<lparr>sr_error = None, sr_status = Some 0,
      sr_stdout = Some
        (if gitCommand (sc_args call) = Some (js ''remote'') then js ''https://github.com/acme/app.git''
         else if gitCommand (sc_args call) = Some (js ''ls-remote'') \<and> present
           then demo_sha @ [9] @ branchRef (js ''work'')
         else if isPush call then js ''-'' @ [9] @ js '':'' @ branchRef (js ''work'') @ [9] @ js ''[deleted]''
         else []),
      sr_stderr = None\<rparr>"

definition demo_url :: UrlParts where
  "demo_url =
     \<lparr>url_protocol = js ''https:'', url_hostname = js ''github.com'', url_port = [], url_search = [],
      url_hash = [], url_username = [], url_password = [], url_pathname = js ''/acme/app.git''\<rparr>"

definition demo_git :: "demo_world GitServices" where
  "demo_git =
     \<lparr>gs_spawn = (\<lambda>call (log, present). ((log @ [call], present \<and> \<not> isPush call), Inr (demo_output call present))),
      gs_allowLocalRemote = False, gs_now = (\<lambda>w. (w, Inr 0)), gs_processEnv = (\<lambda>_. None),
      gs_tmpdir = js ''/tmp'', gs_mkdtemp = (\<lambda>p w. (w, Inr p)), gs_mkdir = (\<lambda>p w. (w, Inr ())),
      gs_writeFile = (\<lambda>p c w. (w, Inr ())), gs_chmod = (\<lambda>p n w. (w, Inr ())), gs_rm = (\<lambda>p w. (w, Inr ())),
      gs_parseUrl = (\<lambda>_. Some demo_url)\<rparr>"

definition demo_deleted :: ConditionalBranchDeleteResult where
  "demo_deleted =
     \<lparr>cd_state = DELETED, cd_attempted = True, cd_observedRefState = RefAbsent, cd_observedSha = None,
      cd_message = None\<rparr>"

lemma demo_deletion:
  "snd (deleteRemoteRefIfAt demo_git None demo_transport demo_sha ([], True)) = Inr demo_deleted"
  by code_simp

lemma demo_logs: "logs_calls fst demo_git"
  by (simp add: logs_calls_def demo_git_def split: prod.split)

lemma demo_platform: "platform_errors demo_git"
  by (simp add: platform_errors_def io_throws_def io_wp_def demo_git_def split: prod.split)

lemma demo_token: "installation_token demo_git_token"
  by code_simp

section \<open>Properties\<close>

text \<open>C14: The token of an installation never gets into a text: whatever Git prints, no error of a push, of
  a read or of a deletion contains it in its message, and no result of a conditional deletion does.\<close>

theorem transport_hides_token:
  assumes "platform_errors services" and "installation_token (ti_token input)"
    and "snd (transportPush services input w) = Inl (Delivery e)
      \<or> snd (transportReadRemoteSha services input w) = Inl (Delivery e)
      \<or> snd (transportDeleteRemoteRef services input w) = Inl (Delivery e)
      \<or> snd (deleteRemoteRefIfAt services None input sha w) = Inl (Delivery e)
      \<or> (\<exists>res. snd (deleteRemoteRefIfAt services None input sha w) = Inr res
           \<and> cd_message res = Some (de_message e))"
  shows "\<not> js_includes (de_message e) (ti_token input)"
  using assms(3) transport_hides [OF assms(1,2)] deleteRemoteRefIfAt_hides [OF assms(1,2), of sha]
  by (auto simp: hides_def messageHidden_def dest: io_throws_snd io_ends_snd)

definition leaking_git :: "demo_world GitServices" where
  "leaking_git = demo_git\<lparr>gs_spawn := (\<lambda>call w. (w, Inr
     \<lparr>sr_error = None, sr_status = Some (if isPush call then 1 else 0),
      sr_stdout = Some (if isPush call then [] else js ''https://github.com/acme/app.git''),
      sr_stderr = Some (js ''ghs_abc123?'')\<rparr>))\<rparr>"

definition leaked_error :: DeliveryError where
  "leaked_error =
     \<lparr>de_code = DELIVERY_PUSH_FAILED,
      de_message = js ''Git branch publication failed: [redacted]?'',
      de_retryable = False, de_cause = None, de_remediation = None\<rparr>"

theorem transport_hides_token_witness:
  "snd (transportPush leaking_git demo_transport ([], True)) = Inl (Delivery leaked_error)
   \<and> \<not> js_includes (de_message leaked_error) demo_git_token"
proof -
  have "platform_errors leaking_git"
    using demo_platform by (simp add: platform_errors_def io_throws_def io_wp_def leaking_git_def)
  moreover have run: "snd (transportPush leaking_git demo_transport ([], True)) = Inl (Delivery leaked_error)"
    by code_simp
  ultimately show ?thesis
    using transport_hides_token [of leaking_git demo_transport "([], True)" leaked_error] demo_token
    by (simp add: demo_transport_def)
qed

text \<open>C12: A conditional deletion sends at most one push, and a result says truly whether it was sent.
  The push is sent only after every check of the same run: the branch is valid and not reserved,
  the remote name plain and the commit a full object id; then, in this order, the push URL of the
  remote was resolved and accepted, the deadline had not passed, Git accepted the branch name, the
  branch read at that URL was at the expected commit, and the deadline had still not passed. The
  push goes to that URL, deletes only that branch, carries the lease on the expected commit, so that
  Git refuses it when the branch has moved, and gets no more than the time left.\<close>

theorem conditional_delete_leased:
  assumes "logs_calls calls services" and "deleteRemoteRefIfAt services None input expectedSha w = (w', r)"
  shows "\<exists>ps. pushes calls w w' ps \<and> (\<forall>res. r = Inr res \<longrightarrow> (cd_attempted res \<longleftrightarrow> ps \<noteq> []))
    \<and> (ps = [] \<or> (\<exists>call start w1 url w2 now w3 w4 w5 dir env hooksDir ms w6 later w7.
        ps = [call] \<and> deletable input expectedSha
        \<and> gs_now services w = (w1, Inr start)
        \<and> resolvePushUrl services input w1 = (w2, Inr url)
        \<and> gs_now services w2 = (w3, Inr now) \<and> now < start + ti_timeoutMs input
        \<and> validateCleanupRef (gs_spawn services)
            (input\<lparr>ti_timeoutMs := start + ti_timeoutMs input - now\<rparr>) w3 = (w4, Inr ())
        \<and> pushes calls w4 w5 []
        \<and> readRemoteShaAtUrl (gs_spawn services) dir url (ti_branch input) env hooksDir ms (ti_token input) w5
            = (w6, Inr expectedSha)
        \<and> gs_now services w6 = (w7, Inr later) \<and> later < start + ti_timeoutMs input
        \<and> leasedPush (ti_branch input) expectedSha url call
        \<and> sc_timeout call = pushBudget (start + ti_timeoutMs input - later)
        \<and> pushes calls (fst (gs_spawn services call w7)) w' []))"
proof -
  from deleteRemoteRefIfAt_deletes [OF assms(1), of input expectedSha w] assms(2) obtain ps where
    ps: "pushes calls w w' ps"
      "ps = [] \<or> (\<exists>call. ps = [call] \<and> checkedPush calls services input expectedSha w call w')"
      "\<forall>res. r = Inr res \<longrightarrow> (cd_attempted res \<longleftrightarrow> ps \<noteq> [])"
    by (auto simp: deletes_def)
  have "deletable input expectedSha" if "ps \<noteq> []"
    using undeletable_quiet [OF assms(1), of input expectedSha] that ps(1) assms(2)
    by (metis quiet_def fst_conv pushes_unique)
  with ps show ?thesis
    unfolding checkedPush_def readThenPush_def by (intro exI [of _ ps]) (elim disjE; fastforce)
qed

theorem conditional_delete_leased_witness:
  "\<exists>call url. filter isPush (fst (fst (deleteRemoteRefIfAt demo_git None demo_transport demo_sha ([], True)))) = [call]
     \<and> leasedPush (js ''work'') demo_sha url call"
proof -
  obtain w' where run: "deleteRemoteRefIfAt demo_git None demo_transport demo_sha ([], True) = (w', Inr demo_deleted)"
    using demo_deletion by (metis prod.collapse)
  have "ti_branch demo_transport = js ''work''" by (simp add: demo_transport_def)
  with conditional_delete_leased [OF demo_logs run] show ?thesis
    by (auto simp: run pushes_def demo_deleted_def)
qed

text \<open>C13: The result of a conditional deletion tells the truth, when \<open>git ls-remote\<close> does and nobody else
  pushes meanwhile: a branch reported absent or deleted is gone, a stale one is there at another
  commit, after a failed deletion it is still at the expected commit, an observed commit is the
  one it has, and nothing has changed when no attempt was made.\<close>

theorem delete_result_truthful:
  assumes "shows_remote ref (ti_branch input) services"
    and "deleteRemoteRefIfAt services None input expectedSha w = (w', Inr res)"
  shows "(cd_state res \<in> {ABSENT, DELETED, ABSENT_AFTER_ATTEMPT} \<longrightarrow> ref w' = [])
    \<and> (cd_state res = STALE \<longrightarrow> ref w' \<noteq> [] \<and> ref w' \<noteq> expectedSha)
    \<and> (cd_state res = DELETE_FAILED \<longrightarrow> ref w' = expectedSha)
    \<and> (\<forall>s. cd_observedSha res = Some s \<longrightarrow> ref w' = s)
    \<and> (\<not> cd_attempted res \<longrightarrow> ref w' = ref w)"
  using deleteRemoteRefIfAt_truth [OF assms(1)] assms(2) by (auto simp: truthfully_def truth_def)

definition demo_remote :: "demo_world \<Rightarrow> jstring" where
  "demo_remote w = (if snd w then demo_sha else [])"

lemma demo_trim: "trim (demo_sha @ [9] @ branchRef (js ''work'')) = demo_sha @ [9] @ branchRef (js ''work'')"
  by code_simp

lemma demo_remote_shown: "shows_remote demo_remote (js ''work'') demo_git"
proof -
  have "isFullGitObjectId demo_sha" by code_simp
  moreover have "gitCommand args = Some (js ''ls-remote'') \<Longrightarrow> gitCommand args \<noteq> Some (js ''push'')
      \<and> gitCommand args \<noteq> Some (js ''remote'')" for args by simp
  moreover have "demo_sha \<noteq> []" and "trim [] = []" by (simp_all add: demo_sha_def trim_def)
  ultimately show ?thesis
    using demo_trim
    by (auto simp: shows_remote_def keeps_def demo_remote_def demo_git_def demo_output_def isPush_def
        text_or_empty_def remoteLine_def)
qed

theorem delete_result_truthful_witness:
  "demo_remote (fst (deleteRemoteRefIfAt demo_git None demo_transport demo_sha ([], True))) = []"
proof -
  obtain w' where run: "deleteRemoteRefIfAt demo_git None demo_transport demo_sha ([], True) = (w', Inr demo_deleted)"
    using demo_deletion by (metis prod.collapse)
  have "shows_remote demo_remote (ti_branch demo_transport) demo_git"
    using demo_remote_shown by (simp add: demo_transport_def)
  from delete_result_truthful [OF this run] show ?thesis by (simp add: run demo_deleted_def)
qed

end
