(* ===== verification/BranchCleanup.thy ===== *)
theory BranchCleanup
  imports DeliveryProbe ConditionalDelete
begin

text \<open>
  The cleanup of a remote branch (\<open>packages/delivery/src/branch-cleanup.ts\<close>): authentication and
  the access check within one deadline, then one read or one conditional deletion.
\<close>

record BranchCleanupInput =
  bi_rootDir :: jstring
  bi_owner :: jstring
  bi_repo :: jstring
  bi_branch :: jstring
  bi_remote :: "jstring option"
  bi_timeoutMs :: "int option"

text \<open>\<open>bd_timerFirst ms\<close>: whether a timer of \<open>ms\<close> milliseconds ends before the operation it races with.\<close>

record 'w BranchCleanupDependencies =
  bd_acquire :: "('w, Failure, DeliveryToken) io"
  bd_inspect :: "jstring \<Rightarrow> jstring \<Rightarrow> jstring \<Rightarrow> ('w, Failure, RepositoryAccess) io"
  bd_now :: "('w, Failure, int) io"
  bd_timerFirst :: "int \<Rightarrow> ('w, Failure, bool) io"
  bd_readRemoteBranchSha :: "TransportInput \<Rightarrow> ('w, Failure, jstring option) io"
  bd_deleteRemoteRefIfAt :: "TransportInput \<Rightarrow> jstring \<Rightarrow> ('w, Failure, ConditionalBranchDeleteResult) io"

definition deadlineExpired :: Failure where
  "deadlineExpired = deliveryError DELIVERY_TIMEOUT (js ''Branch cleanup deadline expired.'') False"

text \<open>The operation runs even when its result comes too late to be used.\<close>

definition withinDeadline ::
  "'w BranchCleanupDependencies \<Rightarrow> ('w, Failure, 'a) io \<Rightarrow> int \<Rightarrow> ('w, Failure, 'a) io" where
  "withinDeadline deps operation deadline =
     io_bind (bd_now deps) (\<lambda>now.
     if deadline - now \<le> 0 then io_throw deadlineExpired
     else
       io_bind (io_attempt operation) (\<lambda>outcome.
       io_bind (bd_timerFirst deps (deadline - now)) (\<lambda>late.
       if late then io_throw deadlineExpired else io_result outcome)))"

definition cleanupTimeout :: "BranchCleanupInput \<Rightarrow> int" where
  "cleanupTimeout input = (case bi_timeoutMs input of None \<Rightarrow> 60000 | Some ms \<Rightarrow> ms)"

definition cleanupInputValid :: "BranchCleanupInput \<Rightarrow> bool" where
  "cleanupInputValid input \<longleftrightarrow>
     bi_rootDir input \<noteq> [] \<and> repository_part (bi_owner input) \<and> repository_part (bi_repo input)
     \<and> isSafeInteger (of_int (cleanupTimeout input)) \<and> cleanupTimeout input > 0
     \<and> cleanupTimeout input \<le> 600000
     \<and> isValidCleanupBranch (bi_branch input) \<and> \<not> isReservedCleanupBranch (bi_branch input) None"

text \<open>A \<open>catch\<close> that keeps the errors of the package and replaces the others.\<close>

definition replaceForeign :: "Failure \<Rightarrow> ('w, Failure, 'a) io \<Rightarrow> ('w, Failure, 'a) io" where
  "replaceForeign failure m = io_catch m (\<lambda>e. io_throw (if is_delivery e then e else failure))"

definition accessError :: "RepositoryAccess \<Rightarrow> Failure option" where
  "accessError access =
     (if \<not> ra_complete access \<or> \<not> ra_accessible access then
        Some (deliveryError
          (if ra_complete access then DELIVERY_REPOSITORY_NOT_INSTALLED
           else DELIVERY_REPOSITORY_SCOPE_INCOMPLETE)
          (js ''Installation repository access is not complete and accessible.'') False)
      else None)"

definition preparedInput :: "BranchCleanupInput \<Rightarrow> DeliveryToken \<Rightarrow> int \<Rightarrow> TransportInput" where
  "preparedInput input token timeoutMs =
     \<lparr>ti_rootDir = bi_rootDir input,
      ti_remote = (case bi_remote input of None \<Rightarrow> js ''origin'' | Some r \<Rightarrow> r),
      ti_branch = bi_branch input, ti_owner = bi_owner input, ti_repo = bi_repo input,
      ti_token = tk_value token, ti_timeoutMs = timeoutMs\<rparr>"

definition contentsPermission :: "DeliveryToken \<Rightarrow> Failure + unit" where
  "contentsPermission token =
     assertDeliveryPermissions
       (filter (\<lambda>entry. pc_capability entry = js ''contents'')
         (diagnoseDeliveryPermissions (tk_permissions token) False))"

definition prepareCleanup ::
  "'w BranchCleanupDependencies \<Rightarrow> BranchCleanupInput \<Rightarrow> ('w, Failure, TransportInput) io" where
  "prepareCleanup deps input =
     io_bind (bd_now deps) (\<lambda>now.
     let deadline = now + cleanupTimeout input
     in if \<not> cleanupInputValid input then
          io_throw (pushFailed (js ''Invalid or reserved branch cleanup input.''))
        else
          io_bind (replaceForeign
            (deliveryError DELIVERY_AUTH_REQUIRED (js ''GitHub App installation token is unavailable.'') False)
            (withinDeadline deps (bd_acquire deps) deadline)) (\<lambda>token.
          io_bind (io_result (contentsPermission token)) (\<lambda>_.
          io_bind (replaceForeign
            (deliveryError DELIVERY_REPOSITORY_SCOPE_INCOMPLETE
              (js ''Installation repository access could not be verified.'') False)
            (withinDeadline deps (bd_inspect deps (tk_value token) (bi_owner input) (bi_repo input)) deadline))
            (\<lambda>access.
          case accessError access of
            Some e \<Rightarrow> io_throw e
          | None \<Rightarrow>
              io_bind (bd_now deps) (\<lambda>now'.
              if deadline - now' \<le> 0 then io_throw deadlineExpired
              else io_return (preparedInput input token (deadline - now')))))))"

definition readRemoteBranch ::
  "'w BranchCleanupDependencies \<Rightarrow> BranchCleanupInput \<Rightarrow> ('w, Failure, jstring option) io" where
  "readRemoteBranch deps input =
     io_bind (prepareCleanup deps input) (bd_readRemoteBranchSha deps)"

definition deleteRemoteBranchIfAt ::
  "'w BranchCleanupDependencies \<Rightarrow> BranchCleanupInput \<Rightarrow> jstring \<Rightarrow>
     ('w, Failure, ConditionalBranchDeleteResult) io" where
  "deleteRemoteBranchIfAt deps input expectedSha =
     (if \<not> isFullGitObjectId expectedSha then
        io_throw (pushFailed (js ''Expected branch SHA must be a full 40- or 64-hex object id.''))
      else
        io_bind (prepareCleanup deps input) (\<lambda>prepared.
        bd_deleteRemoteRefIfAt deps prepared expectedSha))"

end
