(* ===== verification/BranchCleanupProperties.thy ===== *)
theory BranchCleanupProperties
  imports BranchCleanup
begin

text \<open>
  The cleanup of a remote branch reaches Git only after the checks of its input, of the token and
  of the repository access.
\<close>

text \<open>An operation whose result is used: it was started before the deadline and ended before the timer.\<close>

definition inTime ::
  "'w BranchCleanupDependencies \<Rightarrow> ('w, Failure, 'a) io \<Rightarrow> int \<Rightarrow> 'w \<Rightarrow> 'w \<Rightarrow> 'a \<Rightarrow> bool" where
  "inTime deps operation deadline w w' a \<longleftrightarrow>
     (\<exists>now w1 w2. bd_now deps w = (w1, Inr now) \<and> now < deadline
        \<and> operation w1 = (w2, Inr a) \<and> bd_timerFirst deps (deadline - now) w2 = (w', Inr False))"

lemma withinDeadline_Inr:
  "withinDeadline deps operation deadline w = (w', Inr a) \<Longrightarrow> inTime deps operation deadline w w' a"
  by (auto simp: withinDeadline_def inTime_def io_bind_Inr io_attempt_def io_result_def
      split: if_splits prod.splits)

lemma replaceForeign_Inr: "replaceForeign failure m w = (w', Inr a) \<Longrightarrow> m w = (w', Inr a)"
  by (auto simp: replaceForeign_def io_catch_Inr)

lemma contentsPermission_ok:
  "contentsPermission token = Inr () \<Longrightarrow> map_of (tk_permissions token) (js ''contents'') = Some (js ''write'')"
  by (auto simp: contentsPermission_def assertDeliveryPermissions_def diagnoseDeliveryPermissions_def
      requiredCapabilities_def Let_def split: if_splits)

text \<open>
  The checks of a run that starts in \<open>w\<close> and prepares in \<open>w'\<close> the input of a deletion: the token
  that is acquired is the one whose permissions are read, whose access is inspected, and which the
  deletion gets, all before one deadline.
\<close>

definition cleanupGranted ::
  "'w BranchCleanupDependencies \<Rightarrow> BranchCleanupInput \<Rightarrow> 'w \<Rightarrow> TransportInput \<Rightarrow> 'w \<Rightarrow> bool" where
  "cleanupGranted deps input w prepared w' \<longleftrightarrow>
     (\<exists>start w1 token w2 access w3 now.
        bd_now deps w = (w1, Inr start)
        \<and> inTime deps (bd_acquire deps) (start + cleanupTimeout input) w1 w2 token
        \<and> map_of (tk_permissions token) (js ''contents'') = Some (js ''write'')
        \<and> inTime deps (bd_inspect deps (tk_value token) (bi_owner input) (bi_repo input))
            (start + cleanupTimeout input) w2 w3 access
        \<and> ra_complete access \<and> ra_accessible access
        \<and> bd_now deps w3 = (w', Inr now) \<and> now < start + cleanupTimeout input
        \<and> ti_token prepared = tk_value token
        \<and> ti_timeoutMs prepared = start + cleanupTimeout input - now
        \<and> ti_rootDir prepared = bi_rootDir input \<and> ti_branch prepared = bi_branch input
        \<and> ti_owner prepared = bi_owner input \<and> ti_repo prepared = bi_repo input)"

lemma prepareCleanup_granted:
  assumes "prepareCleanup deps input w = (w', Inr prepared)"
  shows "cleanupInputValid input" and "cleanupGranted deps input w prepared w'"
proof -
  from assms obtain start w1 token w2 access w3 now where valid: "cleanupInputValid input"
      and start: "bd_now deps w = (w1, Inr start)"
      and token: "withinDeadline deps (bd_acquire deps) (start + cleanupTimeout input) w1 = (w2, Inr token)"
      and contents: "contentsPermission token = Inr ()"
      and access: "withinDeadline deps (bd_inspect deps (tk_value token) (bi_owner input) (bi_repo input))
          (start + cleanupTimeout input) w2 = (w3, Inr access)" "accessError access = None"
      and now: "bd_now deps w3 = (w', Inr now)" "now < start + cleanupTimeout input"
        "prepared = preparedInput input token (start + cleanupTimeout input - now)"
    by (auto simp: prepareCleanup_def io_bind_Inr io_result_def Let_def split: if_splits option.splits
        dest!: replaceForeign_Inr)
  have "ra_complete access" "ra_accessible access"
    using access(2) by (auto simp: accessError_def split: if_splits)
  with withinDeadline_Inr [OF token] withinDeadline_Inr [OF access(1)] start contentsPermission_ok [OF contents] now
  show "cleanupGranted deps input w prepared w'"
    unfolding cleanupGranted_def by (fastforce simp: preparedInput_def)
  show "cleanupInputValid input" by (rule valid)
qed

section \<open>Property\<close>

text \<open>C15: A branch cleanup reaches the conditional deletion only behind its checks: if another
  implementation of the deletion makes any difference to a run, then the expected commit is full, the
  input is valid (owner, repository, timeout, and a branch that is not reserved), and in this run a
  token was acquired that has write access to contents, the access that was inspected with this
  token is complete and accessible, all within the deadline, and the run ends with the deletion
  called for this branch, with this token and with the time that is left.\<close>

theorem branch_cleanup_gated:
  assumes "deleteRemoteBranchIfAt (deps\<lparr>bd_deleteRemoteRefIfAt := f\<rparr>) input expectedSha w
    \<noteq> deleteRemoteBranchIfAt deps input expectedSha w"
  shows "isFullGitObjectId expectedSha \<and> cleanupInputValid input
    \<and> (\<exists>start w1 token w2 access w3 now w4 prepared.
        bd_now deps w = (w1, Inr start)
        \<and> inTime deps (bd_acquire deps) (start + cleanupTimeout input) w1 w2 token
        \<and> map_of (tk_permissions token) (js ''contents'') = Some (js ''write'')
        \<and> inTime deps (bd_inspect deps (tk_value token) (bi_owner input) (bi_repo input))
            (start + cleanupTimeout input) w2 w3 access
        \<and> ra_complete access \<and> ra_accessible access
        \<and> bd_now deps w3 = (w4, Inr now) \<and> now < start + cleanupTimeout input
        \<and> ti_token prepared = tk_value token
        \<and> ti_timeoutMs prepared = start + cleanupTimeout input - now
        \<and> ti_rootDir prepared = bi_rootDir input \<and> ti_branch prepared = bi_branch input
        \<and> ti_owner prepared = bi_owner input \<and> ti_repo prepared = bi_repo input
        \<and> deleteRemoteBranchIfAt deps input expectedSha w = bd_deleteRemoteRefIfAt deps prepared expectedSha w4
        \<and> deleteRemoteBranchIfAt (deps\<lparr>bd_deleteRemoteRefIfAt := f\<rparr>) input expectedSha w
            = f prepared expectedSha w4)"
proof -
  have same: "prepareCleanup (deps\<lparr>bd_deleteRemoteRefIfAt := f\<rparr>) input = prepareCleanup deps input"
    by (simp add: prepareCleanup_def withinDeadline_def cong: if_cong option.case_cong)
  have full: "isFullGitObjectId expectedSha"
    by (rule ccontr) (use assms in \<open>simp add: deleteRemoteBranchIfAt_def\<close>)
  moreover obtain w4 prepared where run: "prepareCleanup deps input w = (w4, Inr prepared)"
    using assms
    by (cases "prepareCleanup deps input w"; cases "snd (prepareCleanup deps input w)")
      (auto simp: deleteRemoteBranchIfAt_def full same io_bind_eval)
  moreover have "deleteRemoteBranchIfAt deps input expectedSha w = bd_deleteRemoteRefIfAt deps prepared expectedSha w4"
    "deleteRemoteBranchIfAt (deps\<lparr>bd_deleteRemoteRefIfAt := f\<rparr>) input expectedSha w = f prepared expectedSha w4"
    by (simp_all add: deleteRemoteBranchIfAt_def full same io_bind_eval(1) [where m = "prepareCleanup deps input", OF run])
  ultimately show ?thesis
    using prepareCleanup_granted [OF run] unfolding cleanupGranted_def by blast
qed

definition demo_cleanup :: "unit BranchCleanupDependencies" where
  "demo_cleanup =
     \<lparr>bd_acquire = (\<lambda>w. (w, Inr \<lparr>tk_value = js ''ghs_1'', tk_expiresAt = [], tk_installationId = js ''1'',
        tk_permissions = [(js ''contents'', js ''write'')]\<rparr>)),
      bd_inspect = (\<lambda>token own rep w. (w, Inr \<lparr>ra_accessible = True, ra_complete = True,
        ra_totalAccessibleRepositories = 1, ra_pagesScanned = 1\<rparr>)),
      bd_now = (\<lambda>w. (w, Inr 0)), bd_timerFirst = (\<lambda>ms w. (w, Inr False)),
      bd_readRemoteBranchSha = (\<lambda>ti w. (w, Inr None)),
      bd_deleteRemoteRefIfAt = (\<lambda>ti sha w. (w, Inr (unattempted ABSENT RefAbsent None)))\<rparr>"

definition demo_cleanup_input :: BranchCleanupInput where
  "demo_cleanup_input =
     \<lparr>bi_rootDir = js ''/r'', bi_owner = js ''acme'', bi_repo = js ''app'', bi_branch = js ''work'',
      bi_remote = None, bi_timeoutMs = None\<rparr>"

theorem branch_cleanup_gated_witness:
  "cleanupInputValid demo_cleanup_input \<and> (\<exists>start w1 token w2.
     inTime demo_cleanup (bd_acquire demo_cleanup) (start + cleanupTimeout demo_cleanup_input) w1 w2 token
     \<and> map_of (tk_permissions token) (js ''contents'') = Some (js ''write''))"
proof -
  let ?f = "\<lambda>ti sha w. (w, Inl (Primitive Truthy))"
  have "snd (deleteRemoteBranchIfAt (demo_cleanup\<lparr>bd_deleteRemoteRefIfAt := ?f\<rparr>) demo_cleanup_input
      (replicate 40 97) ()) = Inl (Primitive Truthy)"
    by code_simp
  moreover have "snd (deleteRemoteBranchIfAt demo_cleanup demo_cleanup_input (replicate 40 97) ())
      = Inr (unattempted ABSENT RefAbsent None)"
    by code_simp
  ultimately have "deleteRemoteBranchIfAt (demo_cleanup\<lparr>bd_deleteRemoteRefIfAt := ?f\<rparr>) demo_cleanup_input
      (replicate 40 97) () \<noteq> deleteRemoteBranchIfAt demo_cleanup demo_cleanup_input (replicate 40 97) ()"
    by auto
  from branch_cleanup_gated [OF this] show ?thesis by blast
qed

end
