(* ===== verification/TaskPool.thy ===== *)
theory TaskPool
  imports StepSystem
begin

text \<open>
  The loop that \<open>runParallel\<close>, \<open>runPipeline\<close> and \<open>runMultiStagePipeline\<close> share
  (\<open>packages/workflows/src/parallel-runner.ts\<close> and \<open>pipeline-runner.ts\<close>): it starts tasks in
  order up to a limit, waits for one of those in flight, drops the settled ones and goes on.
  The loop runs without interruption between two waits; while it waits, the tasks in flight
  proceed in any order.
\<close>

section \<open>Pools\<close>

text \<open>
  What distinguishes the three callers: the number of tasks, the limit (\<open>None\<close> is \<open>Infinity\<close>; a
  \<open>NaN\<close> compares as \<open>Some 0\<close>), whether the call of a task throws before it returns a promise, what
  the next step of a started task does to the data and whether it settles the task, and the outcome.
\<close>

record ('d, 'e, 'r) PoolTasks =
  pt_count :: nat
  pt_limit :: "rat option"
  pt_throws :: "nat \<Rightarrow> 'e option"
  pt_event :: "nat \<Rightarrow> 'd \<Rightarrow> 'd \<times> bool"
  pt_finish :: "'d \<Rightarrow> 'e + 'r"

datatype ('e, 'r) PoolPhase = Looping | Awaiting | Ended "'e + 'r"

record ('d, 'e, 'r) Pool =
  po_phase :: "('e, 'r) PoolPhase"
  po_next :: nat
  po_inFlight :: "nat list"
  po_settled :: "nat list"
  po_data :: 'd

definition belowLimit :: "nat \<Rightarrow> rat option \<Rightarrow> bool" where
  "belowLimit k limit = (case limit of None \<Rightarrow> True | Some c \<Rightarrow> of_nat k < c)"

text \<open>The inner loop. A task that throws at its call ends the caller at once.\<close>

function fillPool ::
  "('d, 'e, 'r) PoolTasks \<Rightarrow> nat list \<Rightarrow> nat \<Rightarrow> 'e + nat list \<times> nat" where
  "fillPool t inFlight i =
     (if belowLimit (length inFlight) (pt_limit t) \<and> i < pt_count t then
        (case pt_throws t i of
           Some e \<Rightarrow> Inl e
         | None \<Rightarrow> fillPool t (inFlight @ [i]) (i + 1))
      else Inr (inFlight, i))"
  by pat_completeness auto

termination
  by (relation "measure (\<lambda>(t, inFlight, i). pt_count t - i)") auto

declare fillPool.simps [simp del]

text \<open>One turn of the outer loop, up to its next wait or its end.\<close>

definition loopTurn :: "('d, 'e, 'r) PoolTasks \<Rightarrow> ('d, 'e, 'r) Pool \<Rightarrow> ('d, 'e, 'r) Pool" where
  "loopTurn t p =
     (if po_next p < pt_count t \<or> po_inFlight p \<noteq> [] then
        (case fillPool t (po_inFlight p) (po_next p) of
           Inl e \<Rightarrow> p\<lparr>po_phase := Ended (Inl e)\<rparr>
         | Inr (inFlight, i) \<Rightarrow>
             p\<lparr>po_phase := (if inFlight \<noteq> [] then Awaiting else Looping), po_inFlight := inFlight,
               po_next := i\<rparr>)
      else p\<lparr>po_phase := Ended (pt_finish t (po_data p))\<rparr>)"

definition taskEvent :: "('d, 'e, 'r) PoolTasks \<Rightarrow> nat \<Rightarrow> ('d, 'e, 'r) Pool \<Rightarrow> ('d, 'e, 'r) Pool" where
  "taskEvent t i p =
     (let (d, settles) = pt_event t i (po_data p)
      in p\<lparr>po_data := d, po_settled := (if settles then po_settled p @ [i] else po_settled p)\<rparr>)"

definition dropSettled :: "('d, 'e, 'r) Pool \<Rightarrow> ('d, 'e, 'r) Pool" where
  "dropSettled p =
     p\<lparr>po_phase := Looping, po_inFlight := filter (\<lambda>i. i \<notin> set (po_settled p)) (po_inFlight p)\<rparr>"

inductive pool_step :: "('d, 'e, 'r) PoolTasks \<Rightarrow> ('d, 'e, 'r) Pool \<Rightarrow> ('d, 'e, 'r) Pool \<Rightarrow> bool" for t where
  pool_turn: "po_phase p = Looping \<Longrightarrow> pool_step t p (loopTurn t p)"
| pool_event: "po_phase p = Awaiting \<Longrightarrow> i \<in> set (po_inFlight p) \<Longrightarrow> i \<notin> set (po_settled p) \<Longrightarrow>
    pool_step t p (taskEvent t i p)"
| pool_resume: "po_phase p = Awaiting \<Longrightarrow> i \<in> set (po_inFlight p) \<Longrightarrow> i \<in> set (po_settled p) \<Longrightarrow>
    pool_step t p (dropSettled p)"

inductive_cases pool_stepE: "pool_step t p q"

definition poolStart :: "nat \<Rightarrow> 'd \<Rightarrow> ('d, 'e, 'r) Pool" where
  "poolStart first d =
     \<lparr>po_phase = Looping, po_next = first, po_inFlight = [], po_settled = [], po_data = d\<rparr>"

section \<open>The loop\<close>

lemma fillPool_Inr:
  "fillPool t inFlight i = Inr (inFlight', j) \<Longrightarrow> i \<le> pt_count t \<Longrightarrow>
     i \<le> j \<and> j \<le> pt_count t \<and> inFlight' = inFlight @ [i..<j]
     \<and> (\<forall>k \<in> {i..<j}. pt_throws t k = None)
     \<and> (j = pt_count t \<or> \<not> belowLimit (length inFlight') (pt_limit t))
     \<and> (inFlight' = inFlight \<or> belowLimit (length inFlight' - 1) (pt_limit t))"
proof (induction t inFlight i rule: fillPool.induct)
  case (1 t inFlight i)
  show ?case
  proof (cases "belowLimit (length inFlight) (pt_limit t) \<and> i < pt_count t")
    case True
    with "1.prems"(1) have none: "pt_throws t i = None"
      and rest: "fillPool t (inFlight @ [i]) (i + 1) = Inr (inFlight', j)"
      by (auto simp: fillPool.simps [of t inFlight i] split: option.splits)
    note IH = "1.IH" [OF True none rest]
    from True have "i + 1 \<le> pt_count t" by simp
    note IH = IH [OF this]
    then have "i < j" by simp
    then have "[i..<j] = i # [i + 1..<j]" and "{i..<j} = insert i {i + 1..<j}"
      by (auto simp: upt_conv_Cons)
    with IH True none show ?thesis by auto
  next
    case False
    with "1.prems" show ?thesis by (auto simp: fillPool.simps [of t inFlight i] split: if_splits)
  qed
qed

lemma fillPool_Inl: "fillPool t inFlight i = Inl e \<Longrightarrow> \<exists>j. i \<le> j \<and> j < pt_count t \<and> pt_throws t j = Some e"
proof (induction t inFlight i rule: fillPool.induct)
  case (1 t inFlight i)
  show ?case
  proof (cases "belowLimit (length inFlight) (pt_limit t) \<and> i < pt_count t \<and> pt_throws t i = None")
    case True
    with "1.prems" have "fillPool t (inFlight @ [i]) (i + 1) = Inl e"
      by (simp add: fillPool.simps [of t inFlight i])
    with True "1.IH" obtain j where "i + 1 \<le> j \<and> j < pt_count t \<and> pt_throws t j = Some e"
      by blast
    then show ?thesis by (intro exI [of _ j]) simp
  next
    case False
    with "1.prems" show ?thesis
      by (auto simp: fillPool.simps [of t inFlight i] split: if_splits option.splits)
  qed
qed

text \<open>
  The state between two steps: the started tasks are in flight or settled, the tasks in flight
  number one more than a value below the limit at most, a wait has something to wait for, and an
  end is either a throwing call or the outcome after all tasks have settled.
\<close>

definition pool_ok :: "('d, 'e, 'r) PoolTasks \<Rightarrow> nat \<Rightarrow> ('d, 'e, 'r) Pool \<Rightarrow> bool" where
  "pool_ok t first p \<longleftrightarrow>
     first \<le> po_next p \<and> po_next p \<le> pt_count t
     \<and> distinct (po_inFlight p) \<and> distinct (po_settled p)
     \<and> set (po_inFlight p) \<union> set (po_settled p) = {first..<po_next p}
     \<and> (po_inFlight p = [] \<or> belowLimit (length (po_inFlight p) - 1) (pt_limit t))
     \<and> (\<forall>i \<in> {first..<po_next p}. pt_throws t i = None)
     \<and> (case po_phase p of
          Looping \<Rightarrow> set (po_inFlight p) \<inter> set (po_settled p) = {}
        | Awaiting \<Rightarrow> po_inFlight p \<noteq> []
        | Ended r \<Rightarrow>
            (\<exists>i e. i < pt_count t \<and> pt_throws t i = Some e \<and> r = Inl e)
            \<or> r = pt_finish t (po_data p) \<and> set (po_settled p) = {first..<pt_count t}
                \<and> (\<forall>i \<in> {first..<pt_count t}. pt_throws t i = None))"

lemma belowLimit_mono: "belowLimit k limit \<Longrightarrow> j \<le> k \<Longrightarrow> belowLimit j limit"
  by (auto simp: belowLimit_def split: option.splits)

lemma pool_ok_start: "first \<le> pt_count t \<Longrightarrow> pool_ok t first (poolStart first d)"
  by (simp add: pool_ok_def poolStart_def)

lemma pool_ok_turn:
  assumes "pool_ok t first p" and "po_phase p = Looping"
  shows "pool_ok t first (loopTurn t p)"
proof (cases "po_next p < pt_count t \<or> po_inFlight p \<noteq> []")
  case False
  with assms show ?thesis by (auto simp: pool_ok_def loopTurn_def)
next
  case True
  show ?thesis
  proof (cases "fillPool t (po_inFlight p) (po_next p)")
    case (Inl e)
    with True assms fillPool_Inl [OF Inl] show ?thesis
      by (auto simp: pool_ok_def loopTurn_def)
  next
    case (Inr filled)
    obtain inFlight j where filled: "filled = (inFlight, j)" by (cases filled)
    from fillPool_Inr [OF Inr [unfolded filled]] assms(1)
    have f: "po_next p \<le> j" "j \<le> pt_count t" "inFlight = po_inFlight p @ [po_next p..<j]"
      "inFlight = po_inFlight p \<or> belowLimit (length inFlight - 1) (pt_limit t)"
      "\<forall>i \<in> {po_next p..<j}. pt_throws t i = None"
      by (auto simp: pool_ok_def)
    from assms f(1) have upto: "{first..<j} = {first..<po_next p} \<union> {po_next p..<j}"
      by (auto simp: pool_ok_def)
    have turn: "loopTurn t p = p\<lparr>po_phase := (if inFlight \<noteq> [] then Awaiting else Looping),
        po_inFlight := inFlight, po_next := j\<rparr>"
      using True Inr filled by (simp add: loopTurn_def)
    from assms have started: "set (po_inFlight p) \<union> set (po_settled p) = {first..<po_next p}"
      by (simp add: pool_ok_def)
    have "set (po_inFlight p) \<inter> {po_next p..<j} = {}"
      using equalityD1 [OF started] by auto
    with started have "distinct inFlight" and "set inFlight \<union> set (po_settled p) = {first..<j}"
      using assms f(3) upto by (auto simp: pool_ok_def)
    moreover from assms(1) f(4) have "inFlight = [] \<or> belowLimit (length inFlight - 1) (pt_limit t)"
      unfolding pool_ok_def by metis
    moreover from assms(1) f(5) upto have "\<forall>i \<in> {first..<j}. pt_throws t i = None"
      by (simp add: pool_ok_def ball_Un)
    ultimately show ?thesis
      using assms f(1, 2) unfolding turn pool_ok_def by simp
  qed
qed

lemma pool_ok_event:
  assumes "pool_ok t first p" and "po_phase p = Awaiting"
    and "i \<in> set (po_inFlight p)" and "i \<notin> set (po_settled p)"
  shows "pool_ok t first (taskEvent t i p)"
  using assms by (auto simp: pool_ok_def taskEvent_def split: prod.splits)

lemma pool_ok_resume:
  assumes "pool_ok t first p" and "po_phase p = Awaiting"
  shows "pool_ok t first (dropSettled p)"
  using assms belowLimit_mono [of "length (po_inFlight p) - 1" "pt_limit t"]
    length_filter_le [of "\<lambda>i. i \<notin> set (po_settled p)" "po_inFlight p"]
  by (auto simp: pool_ok_def dropSettled_def diff_le_mono)

lemma pool_ok_step: "pool_ok t first p \<Longrightarrow> pool_step t p q \<Longrightarrow> pool_ok t first q"
  by (auto elim!: pool_stepE intro: pool_ok_turn pool_ok_event pool_ok_resume)

text \<open>Only the end is final.\<close>

lemma pool_progress:
  assumes "pool_ok t first p" and "\<nexists>r. po_phase p = Ended r"
  shows "\<exists>q. pool_step t p q"
proof (cases "po_phase p")
  case Looping
  then show ?thesis by (blast intro: pool_turn)
next
  case Awaiting
  with assms(1) have "hd (po_inFlight p) \<in> set (po_inFlight p)" by (simp add: pool_ok_def)
  with Awaiting show ?thesis by (blast intro: pool_event pool_resume)
qed (use assms(2) in blast)

text \<open>What is left to do: decreases at every step when the limit admits a first task.\<close>

definition pool_left ::
  "(nat \<Rightarrow> 'd \<Rightarrow> nat) \<Rightarrow> ('d, 'e, 'r) PoolTasks \<Rightarrow> ('d, 'e, 'r) Pool \<Rightarrow> nat" where
  "pool_left work t p =
     (\<Sum>j < pt_count t. if j \<in> set (po_settled p) then 0 else Suc (work j (po_data p)))
     + 2 * (pt_count t - po_next p) + 2 * length (po_inFlight p)
     + (case po_phase p of Looping \<Rightarrow> 1 | _ \<Rightarrow> 0)"

lemma pool_left_turn:
  assumes "pool_ok t first p" and "po_phase p = Looping" and "belowLimit 0 (pt_limit t)"
  shows "pool_left work t (loopTurn t p) < pool_left work t p"
proof (cases "po_next p < pt_count t \<or> po_inFlight p \<noteq> []")
  case False
  with assms show ?thesis by (simp add: loopTurn_def pool_left_def cong: if_cong)
next
  case True
  show ?thesis
  proof (cases "fillPool t (po_inFlight p) (po_next p)")
    case (Inl e)
    with True assms show ?thesis by (simp add: loopTurn_def pool_left_def cong: if_cong)
  next
    case (Inr filled)
    obtain inFlight j where filled: "filled = (inFlight, j)" by (cases filled)
    from fillPool_Inr [OF Inr [unfolded filled]] assms(1)
    have f: "po_next p \<le> j" "j \<le> pt_count t" "inFlight = po_inFlight p @ [po_next p..<j]"
      "j = pt_count t \<or> \<not> belowLimit (length inFlight) (pt_limit t)"
      by (auto simp: pool_ok_def)
    have "inFlight \<noteq> []"
    proof
      assume "inFlight = []"
      with f(1, 3) have "j = po_next p" "po_inFlight p = []" by auto
      with True f(4) assms(3) \<open>inFlight = []\<close> show False by auto
    qed
    with f(3) have "po_next p < j \<or> po_inFlight p \<noteq> []" by auto
    with \<open>inFlight \<noteq> []\<close> True assms(2) f(1-3) Inr filled show ?thesis
      by (auto simp: loopTurn_def pool_left_def cong: if_cong)
  qed
qed

lemma pool_left_resume:
  assumes "pool_ok t first p" and "po_phase p = Awaiting"
    and "i \<in> set (po_inFlight p)" and "i \<in> set (po_settled p)"
  shows "pool_left work t (dropSettled p) < pool_left work t p"
proof -
  from assms(3, 4) have "length (filter (\<lambda>i. i \<notin> set (po_settled p)) (po_inFlight p)) < length (po_inFlight p)"
    by (auto intro: length_filter_less)
  with assms(2) show ?thesis by (simp add: dropSettled_def pool_left_def cong: if_cong)
qed

text \<open>An end is final, and a loop whose limit admits no task never leaves its start.\<close>

lemma ended_final: "po_phase p = Ended r \<Longrightarrow> \<not> pool_step t p q"
  by (auto elim: pool_stepE)

lemma ended_schedule:
  assumes "po_phase p = Ended r" and "(pool_step t ^^ k) p q"
  shows "k = 0 \<and> q = p"
proof (cases k)
  case 0
  with assms(2) show ?thesis by simp
next
  case (Suc j)
  with assms(2) obtain p' where "pool_step t p p'" by (metis relpowp_Suc_D2)
  with ended_final [OF assms(1)] show ?thesis by blast
qed

lemma ended_reachable:
  assumes "reachable (\<lambda>p. p = start) (pool_step t) q" and "po_phase start = Ended r"
  shows "q = start"
  using assms by (induction rule: reachable.induct) (auto dest: ended_final)

lemma schedule_reachable: "(step ^^ k) p q \<Longrightarrow> reachable (\<lambda>s. s = p) step q"
  by (induction k arbitrary: q) (auto intro: reachable_init reachable_step)

text \<open>One round of the loop: start a task, let it settle, take it out.\<close>

lemma one_round:
  assumes "po_phase p = Looping" and "po_phase (loopTurn t p) = Awaiting"
    and "i \<in> set (po_inFlight (loopTurn t p))" and "i \<notin> set (po_settled (loopTurn t p))"
    and "snd (pt_event t i (po_data (loopTurn t p)))"
  shows "(pool_step t ^^ 3) p (dropSettled (taskEvent t i (loopTurn t p)))"
proof -
  let ?e = "taskEvent t i (loopTurn t p)"
  have "po_phase ?e = Awaiting" "i \<in> set (po_inFlight ?e)" "i \<in> set (po_settled ?e)"
    using assms(2, 3, 5) by (auto simp: taskEvent_def split: prod.splits)
  then have "pool_step t ?e (dropSettled ?e)" by (rule pool_resume)
  moreover have "pool_step t (loopTurn t p) ?e" using assms(2-4) by (rule pool_event)
  moreover have "pool_step t p (loopTurn t p)" using assms(1) by (rule pool_turn)
  ultimately show ?thesis by (auto simp: numeral_3_eq_3)
qed

definition loopRound :: "('d, 'e, 'r) PoolTasks \<Rightarrow> nat \<Rightarrow> ('d, 'e, 'r) Pool \<Rightarrow> ('d, 'e, 'r) Pool" where
  "loopRound t i p = loopTurn t (dropSettled (taskEvent t i (loopTurn t p)))"

lemma loopRound_steps:
  assumes "po_phase p = Looping" and "po_phase (loopTurn t p) = Awaiting"
    and "i \<in> set (po_inFlight (loopTurn t p))" and "i \<notin> set (po_settled (loopTurn t p))"
    and "snd (pt_event t i (po_data (loopTurn t p)))"
  shows "(pool_step t ^^ 4) p (loopRound t i p)"
proof -
  have "pool_step t (dropSettled (taskEvent t i (loopTurn t p))) (loopRound t i p)"
    unfolding loopRound_def by (rule pool_turn) (simp add: dropSettled_def)
  with one_round [OF assms] have "(pool_step t ^^ Suc 3) p (loopRound t i p)" by (rule relpowp_Suc_I)
  then show ?thesis by (simp add: eval_nat_numeral)
qed

lemma closed_loop:
  assumes "\<not> belowLimit 0 (pt_limit t)" and "po_next p < pt_count t"
    and "po_phase p = Looping" and "po_inFlight p = []"
  shows "pool_step t p q \<longleftrightarrow> q = p"
proof -
  have "fillPool t [] (po_next p) = Inr ([], po_next p)"
    using assms(1) by (simp add: fillPool.simps)
  with assms have "loopTurn t p = p" by (simp add: loopTurn_def)
  with assms(3) show ?thesis by (auto elim: pool_stepE dest: pool_turn [of p t])
qed

section \<open>What the callers rely on\<close>

text \<open>
  A caller fixes its tasks, where the loop starts and with which data; \<open>work\<close> bounds the steps a
  task takes before it settles, and \<open>good\<close> relates the data to the tasks settled so far.
\<close>

locale task_pool =
  fixes t :: "('d, 'e, 'r) PoolTasks" and first :: nat and start :: 'd
    and work :: "nat \<Rightarrow> 'd \<Rightarrow> nat" and good :: "nat list \<Rightarrow> 'd \<Rightarrow> bool"
  assumes first_le: "first \<le> pt_count t"
    and good_start: "good [] start"
    and good_event: "good S d \<Longrightarrow> first \<le> i \<Longrightarrow> i < pt_count t \<Longrightarrow> i \<notin> set S \<Longrightarrow>
      pt_event t i d = (d', settles) \<Longrightarrow> good (if settles then S @ [i] else S) d'"
    and work_event: "pt_event t i d = (d', settles) \<Longrightarrow> \<not> settles \<Longrightarrow> work i d' < work i d"
    and work_others: "pt_event t i d = (d', settles) \<Longrightarrow> j \<noteq> i \<Longrightarrow> work j d' \<le> work j d"
begin

lemma good_step:
  assumes "pool_ok t first p" and "good (po_settled p) (po_data p)" and "pool_step t p q"
  shows "good (po_settled q) (po_data q)"
  using assms(3)
proof (rule pool_stepE)
  assume "q = loopTurn t p"
  with assms(2) show ?thesis
    by (auto simp: loopTurn_def split: sum.splits)
next
  fix i
  assume q: "q = taskEvent t i p" and i: "i \<in> set (po_inFlight p)" "i \<notin> set (po_settled p)"
  from assms(1) i have "first \<le> i" "i < pt_count t"
    unfolding pool_ok_def by (metis UnI1 atLeastLessThan_iff, metis UnI1 atLeastLessThan_iff order.strict_trans2)
  with assms(2) i(2) show ?thesis
    by (auto simp: q taskEvent_def split: prod.splits dest: good_event)
qed (use assms(2) in \<open>simp add: dropSettled_def\<close>)

lemma left_event:
  assumes "i < pt_count t" and "i \<notin> set (po_settled p)" and "po_phase p = Awaiting"
  shows "pool_left work t (taskEvent t i p) < pool_left work t p"
proof -
  obtain d settles where e: "pt_event t i (po_data p) = (d, settles)" by (cases "pt_event t i (po_data p)")
  let ?S = "if settles then po_settled p @ [i] else po_settled p"
  have "(\<Sum>j < pt_count t. if j \<in> set ?S then 0 else Suc (work j d))
      < (\<Sum>j < pt_count t. if j \<in> set (po_settled p) then 0 else Suc (work j (po_data p)))"
  proof (rule sum_strict_mono_ex1)
    show "\<forall>j \<in> {..<pt_count t}. (if j \<in> set ?S then 0 else Suc (work j d))
        \<le> (if j \<in> set (po_settled p) then 0 else Suc (work j (po_data p)))"
    proof
      fix j
      show "(if j \<in> set ?S then 0 else Suc (work j d))
          \<le> (if j \<in> set (po_settled p) then 0 else Suc (work j (po_data p)))"
        using work_others [OF e, of j] work_event [OF e] by (cases "j = i") auto
    qed
    show "\<exists>j \<in> {..<pt_count t}. (if j \<in> set ?S then 0 else Suc (work j d))
        < (if j \<in> set (po_settled p) then 0 else Suc (work j (po_data p)))"
      using assms(1, 2) work_event [OF e] by (intro bexI [of _ i]) auto
  qed simp
  with e assms(3) show ?thesis by (simp add: taskEvent_def pool_left_def cong: if_cong)
qed

end

sublocale task_pool \<subseteq> pool: inductive_invariant "\<lambda>p. p = poolStart first start" "pool_step t"
    "\<lambda>p. pool_ok t first p \<and> good (po_settled p) (po_data p)"
proof
  show "pool_ok t first p \<and> good (po_settled p) (po_data p)" if "p = poolStart first start" for p
    using that pool_ok_start [OF first_le] good_start by (simp add: poolStart_def)
  show "pool_ok t first q \<and> good (po_settled q) (po_data q)"
    if "pool_ok t first p \<and> good (po_settled p) (po_data p)" and "pool_step t p q" for p q
    using that pool_ok_step good_step by blast
qed

context task_pool
begin

lemma left_step:
  assumes "pool_ok t first p" and "belowLimit 0 (pt_limit t)" and "pool_step t p q"
  shows "pool_left work t q < pool_left work t p"
  using assms(3)
proof (rule pool_stepE)
  fix i
  assume q: "q = taskEvent t i p" and i: "i \<in> set (po_inFlight p)" "i \<notin> set (po_settled p)"
    and "po_phase p = Awaiting"
  from assms(1) i(1) have "i < pt_count t"
    unfolding pool_ok_def by (metis UnI1 atLeastLessThan_iff order.strict_trans2)
  with i \<open>po_phase p = Awaiting\<close> show ?thesis by (simp add: q left_event)
qed (use assms in \<open>auto intro: pool_left_turn pool_left_resume\<close>)

text \<open>Every schedule is finite: its length is bounded by what is left at the start.\<close>

lemma schedule_bounded:
  assumes "belowLimit 0 (pt_limit t)" and "(pool_step t ^^ k) (poolStart first start) q"
  shows "k + pool_left work t q \<le> pool_left work t (poolStart first start)"
  using assms(2)
proof (induction k arbitrary: q)
  case 0
  then show ?case by simp
next
  case (Suc k)
  then obtain p where p: "(pool_step t ^^ k) (poolStart first start) p" "pool_step t p q" by auto
  from left_step [OF _ assms(1) p(2)] pool.reachable_inv [OF schedule_reachable [OF p(1)]]
  have "pool_left work t q < pool_left work t p" by simp
  with Suc.IH [OF p(1)] show ?case by simp
qed

lemma not_stuck:
  "reachable (\<lambda>p. p = poolStart first start) (pool_step t) p \<Longrightarrow>
   (\<exists>r. po_phase p = Ended r) \<or> (\<exists>q. pool_step t p q)"
  using pool.reachable_inv pool_progress by blast

lemma ended:
  assumes "reachable (\<lambda>p. p = poolStart first start) (pool_step t) p" and "po_phase p = Ended r"
  shows "(\<exists>i e. i < pt_count t \<and> pt_throws t i = Some e \<and> r = Inl e)
    \<or> r = pt_finish t (po_data p) \<and> good (po_settled p) (po_data p)
      \<and> distinct (po_settled p) \<and> set (po_settled p) = {first..<pt_count t}
      \<and> (\<forall>i \<in> {first..<pt_count t}. pt_throws t i = None)"
  using pool.reachable_inv [OF assms(1)] assms(2) by (auto simp: pool_ok_def)

lemma in_flight_bounded:
  "reachable (\<lambda>p. p = poolStart first start) (pool_step t) p \<Longrightarrow>
   po_inFlight p = [] \<or> belowLimit (length (po_inFlight p) - 1) (pt_limit t)"
  using pool.reachable_inv by (auto simp: pool_ok_def)

end

end
