(* ===== verification/TaskRunners.thy ===== *)
theory TaskRunners
  imports TaskPool
begin

text \<open>
  The three callers of the scheduler loop, from \<open>packages/workflows/src\<close>: \<open>runParallel\<close> in
  \<open>parallel-runner.ts\<close>, \<open>runPipeline\<close> and \<open>runMultiStagePipeline\<close> in \<open>pipeline-runner.ts\<close>.
  Each definition of the caller's name gives the pool at its first wait for the scheduler, or
  already ended when the caller returns early; the steps of \<open>pool_step\<close> take it on from there.
  What the tasks do is an argument: the outcome of each call, and the functions of the cache.
\<close>

section \<open>Values, budgets and limits\<close>

datatype 'v jsval = Undefined | Null | Val 'v

record BudgetState =
  tokensUsed :: js_number
  tokensRemaining :: "js_number option"
  costUsd :: js_number
  agentCalls :: js_number

definition budgetExhausted :: "BudgetState option \<Rightarrow> bool" where
  "budgetExhausted budget =
     (case budget of
        None \<Rightarrow> False
      | Some b \<Rightarrow> (case tokensRemaining b of None \<Rightarrow> False | Some left \<Rightarrow> left \<le> 0))"

text \<open>The option \<open>concurrency\<close>: absent, \<open>Infinity\<close> (\<open>Some None\<close>), or a number.\<close>

type_synonym concurrency = "js_number option option"

definition parallelLimit :: "concurrency \<Rightarrow> js_number option" where
  "parallelLimit c = (case c of None \<Rightarrow> None | Some limit \<Rightarrow> limit)"

definition pipelineLimit :: "concurrency \<Rightarrow> js_number option" where
  "pipelineLimit c = (case c of None \<Rightarrow> Some 4 | Some limit \<Rightarrow> limit)"

datatype 'e RunnerFailure = BudgetFailure jstring | TaskFailure 'e

definition poolEnded :: "'e + 'r \<Rightarrow> 'd \<Rightarrow> ('d, 'e, 'r) Pool" where
  "poolEnded r d = (poolStart 0 d)\<lparr>po_phase := Ended r\<rparr>"

section \<open>Parallel tasks\<close>

text \<open>A task throws when it is called, or its promise settles.\<close>

datatype ('e, 'v) ParallelTask = ThrowsAtCall 'e | Settles "'e + 'v jsval"

record ('e, 'v) ParallelData =
  pl_results :: "'v jsval list"
  pl_errors :: "'e list"

definition launchTask ::
  "('e, 'v) ParallelTask list \<Rightarrow> nat \<Rightarrow> ('e, 'v) ParallelData \<Rightarrow> ('e, 'v) ParallelData \<times> bool" where
  "launchTask tasks i d =
     (case tasks ! i of
        Settles (Inr v) \<Rightarrow> (d\<lparr>pl_results := (pl_results d)[i := v]\<rparr>, True)
      | Settles (Inl e) \<Rightarrow> (d\<lparr>pl_errors := pl_errors d @ [e]\<rparr>, True)
      | ThrowsAtCall e \<Rightarrow> (d, True))"

definition parallelTasks ::
  "('e, 'v) ParallelTask list \<Rightarrow> js_number option \<Rightarrow>
   (('e, 'v) ParallelData, 'e RunnerFailure, 'v jsval list) PoolTasks" where
  "parallelTasks tasks limit =
     \<lparr>pt_count = length tasks, pt_limit = limit,
      pt_throws = (\<lambda>i. case tasks ! i of ThrowsAtCall e \<Rightarrow> Some (TaskFailure e) | Settles _ \<Rightarrow> None),
      pt_event = launchTask tasks,
      pt_finish = (\<lambda>d. case pl_errors d of e # _ \<Rightarrow> Inl (TaskFailure e) | [] \<Rightarrow> Inr (pl_results d))\<rparr>"

definition parallelData :: "('e, 'v) ParallelTask list \<Rightarrow> ('e, 'v) ParallelData" where
  "parallelData tasks = \<lparr>pl_results = replicate (length tasks) Undefined, pl_errors = []\<rparr>"

definition runParallel ::
  "('e, 'v) ParallelTask list \<Rightarrow> BudgetState option \<Rightarrow>
   (('e, 'v) ParallelData, 'e RunnerFailure, 'v jsval list) Pool" where
  "runParallel tasks budget =
     (if tasks = [] then poolEnded (Inr []) (parallelData tasks)
      else if budgetExhausted budget then
        poolEnded (Inl (BudgetFailure (js ''Budget exhausted: no tokens remaining for parallel tasks'')))
          (parallelData tasks)
      else poolStart 0 (parallelData tasks))"

section \<open>Pipelines\<close>

text \<open>
  The cache of a pipeline: both functions may reject with a message; a miss loads \<open>null\<close>. The
  failure of an item is only used through its message.
\<close>

record ('c, 'v) PipelineCacheStore =
  loadItem :: "'c \<Rightarrow> jstring \<Rightarrow> jstring \<Rightarrow> nat \<Rightarrow> jstring + 'v jsval"
  saveItem :: "'c \<Rightarrow> jstring \<Rightarrow> jstring \<Rightarrow> nat \<Rightarrow> 'v jsval \<Rightarrow> 'c \<times> jstring option"

record ('i, 'c, 'v) PipelineCall =
  pc_runId :: jstring
  pc_phase :: jstring
  pc_items :: "'i list"
  pc_fn :: "'i \<Rightarrow> nat \<Rightarrow> jstring + 'v jsval"
  pc_store :: "('c, 'v) PipelineCacheStore"

datatype 'v ItemStage = Calling | Saving "'v jsval"

record ('c, 'v) PipelineData =
  pd_results :: "'v jsval list"
  pd_stage :: "nat \<Rightarrow> 'v ItemStage"
  pd_cache :: 'c
  pd_log :: "jstring list"

definition itemFailed :: "nat \<Rightarrow> jstring \<Rightarrow> jstring" where
  "itemFailed i msg = js ''Pipeline item '' @ js_nat i @ js '' failed: '' @ msg"

definition failItem :: "nat \<Rightarrow> jstring \<Rightarrow> ('c, 'v) PipelineData \<Rightarrow> ('c, 'v) PipelineData" where
  "failItem i msg d =
     d\<lparr>pd_results := (pd_results d)[i := Null], pd_log := pd_log d @ [itemFailed i msg]\<rparr>"

text \<open>One item: its call, then the checkpoint of its result.\<close>

definition launchItem ::
  "('i, 'c, 'v) PipelineCall \<Rightarrow> nat \<Rightarrow> ('c, 'v) PipelineData \<Rightarrow> ('c, 'v) PipelineData \<times> bool" where
  "launchItem p i d =
     (case pd_stage d i of
        Calling \<Rightarrow>
          (case pc_fn p (pc_items p ! i) i of
             Inl msg \<Rightarrow> (failItem i msg d, True)
           | Inr v \<Rightarrow>
               (d\<lparr>pd_results := (pd_results d)[i := v], pd_stage := (pd_stage d)(i := Saving v)\<rparr>, False))
      | Saving v \<Rightarrow>
          (case saveItem (pc_store p) (pd_cache d) (pc_runId p) (pc_phase p) i v of
             (c, None) \<Rightarrow> (d\<lparr>pd_cache := c\<rparr>, True)
           | (c, Some msg) \<Rightarrow> (failItem i msg (d\<lparr>pd_cache := c\<rparr>), True)))"

definition pipelineTasks ::
  "('i, 'c, 'v) PipelineCall \<Rightarrow> js_number option \<Rightarrow>
   (('c, 'v) PipelineData, jstring RunnerFailure, 'v jsval list) PoolTasks" where
  "pipelineTasks p limit =
     \<lparr>pt_count = length (pc_items p), pt_limit = limit, pt_throws = (\<lambda>i. None),
      pt_event = launchItem p, pt_finish = (\<lambda>d. Inr (pd_results d))\<rparr>"

text \<open>Phase 1: the cached items from the start, up to the first miss.\<close>

fun replayItems ::
  "(nat \<Rightarrow> jstring + 'v jsval) \<Rightarrow> nat list \<Rightarrow> nat \<Rightarrow> 'v jsval list \<Rightarrow> jstring + 'v jsval list \<times> nat" where
  "replayItems load [] k results = Inr (results, k)"
| "replayItems load (i # is) k results =
     (case load i of
        Inl e \<Rightarrow> Inl e
      | Inr cached \<Rightarrow>
          if cached \<noteq> Null then replayItems load is (i + 1) (results[i := cached])
          else Inr (results, k))"

definition replayPhase ::
  "('i, 'c, 'v) PipelineCall \<Rightarrow> 'c \<Rightarrow> jstring + 'v jsval list \<times> nat" where
  "replayPhase p c =
     replayItems (loadItem (pc_store p) c (pc_runId p) (pc_phase p)) [0..<length (pc_items p)] 0
       (replicate (length (pc_items p)) Null)"

definition replayLog :: "jstring \<Rightarrow> nat \<Rightarrow> jstring list" where
  "replayLog phase k =
     (if 0 < k then
        [js ''Replayed '' @ js_nat k @ js '' cached pipeline items for phase '' @ [34] @ phase @ [34]]
      else [])"

definition pipelineData ::
  "('i, 'c, 'v) PipelineCall \<Rightarrow> 'c \<Rightarrow> 'v jsval list \<Rightarrow> nat \<Rightarrow> ('c, 'v) PipelineData" where
  "pipelineData p c results k =
     \<lparr>pd_results = results, pd_stage = (\<lambda>i. Calling), pd_cache = c, pd_log = replayLog (pc_phase p) k\<rparr>"

definition runPipeline ::
  "('i, 'c, 'v) PipelineCall \<Rightarrow> BudgetState option \<Rightarrow> 'c \<Rightarrow>
   (('c, 'v) PipelineData, jstring RunnerFailure, 'v jsval list) Pool" where
  "runPipeline p budget c =
     (if pc_items p = [] then poolEnded (Inr []) (pipelineData p c [] 0)
      else if budgetExhausted budget then
        poolEnded (Inl (BudgetFailure (js ''Budget exhausted: no tokens remaining for pipeline'')))
          (pipelineData p c [] 0)
      else
        (case replayPhase p c of
           Inl e \<Rightarrow> poolEnded (Inl (TaskFailure e)) (pipelineData p c [] 0)
         | Inr (results, k) \<Rightarrow>
             if length (pc_items p) \<le> k then poolEnded (Inr results) (pipelineData p c results k)
             else poolStart k (pipelineData p c results k)))"

section \<open>Pipelines of several stages\<close>

type_synonym ('i, 'e, 'v) stage = "'v jsval \<Rightarrow> 'i \<Rightarrow> nat \<Rightarrow> 'e + 'v jsval"

record 'v StagesData =
  sd_results :: "'v jsval list"
  sd_stage :: "nat \<Rightarrow> nat \<times> 'v jsval"

definition processItem ::
  "'i list \<Rightarrow> ('i, 'e, 'v) stage list \<Rightarrow> nat \<Rightarrow> 'v StagesData \<Rightarrow> 'v StagesData \<times> bool" where
  "processItem items stages i d =
     (let (k, prev) = sd_stage d i
      in case (stages ! k) prev (items ! i) i of
           Inl e \<Rightarrow> (d\<lparr>sd_results := (sd_results d)[i := Null]\<rparr>, True)
         | Inr v \<Rightarrow>
             if k + 1 < length stages then (d\<lparr>sd_stage := (sd_stage d)(i := (k + 1, v))\<rparr>, False)
             else (d\<lparr>sd_results := (sd_results d)[i := v]\<rparr>, True))"

definition stageTasks ::
  "'i list \<Rightarrow> ('i, 'e, 'v) stage list \<Rightarrow> js_number option \<Rightarrow>
   ('v StagesData, 'e RunnerFailure, 'v jsval list) PoolTasks" where
  "stageTasks items stages limit =
     \<lparr>pt_count = length items, pt_limit = limit, pt_throws = (\<lambda>i. None),
      pt_event = processItem items stages, pt_finish = (\<lambda>d. Inr (sd_results d))\<rparr>"

definition stagesData :: "'i list \<Rightarrow> 'v StagesData" where
  "stagesData items =
     \<lparr>sd_results = replicate (length items) Null, sd_stage = (\<lambda>i. (0, Undefined))\<rparr>"

definition runMultiStagePipeline ::
  "'i list \<Rightarrow> ('i, 'e, 'v) stage list \<Rightarrow> ('v StagesData, 'e RunnerFailure, 'v jsval list) Pool" where
  "runMultiStagePipeline items stages =
     (if items = [] then poolEnded (Inr []) (stagesData items)
      else if stages = [] then poolEnded (Inr (map (\<lambda>item. Null) items)) (stagesData items)
      else poolStart 0 (stagesData items))"

section \<open>The callers are task pools\<close>

subsection \<open>Parallel tasks\<close>

definition settledValue :: "('e, 'v) ParallelTask \<Rightarrow> 'v jsval" where
  "settledValue task = (case task of Settles (Inr v) \<Rightarrow> v | _ \<Rightarrow> Undefined)"

definition rejections :: "('e, 'v) ParallelTask list \<Rightarrow> nat list \<Rightarrow> 'e list" where
  "rejections tasks S = concat (map (\<lambda>i. case tasks ! i of Settles (Inl e) \<Rightarrow> [e] | _ \<Rightarrow> []) S)"

definition parallelGood ::
  "('e, 'v) ParallelTask list \<Rightarrow> nat list \<Rightarrow> ('e, 'v) ParallelData \<Rightarrow> bool" where
  "parallelGood tasks S d \<longleftrightarrow>
     length (pl_results d) = length tasks
     \<and> (\<forall>i < length tasks. pl_results d ! i = (if i \<in> set S then settledValue (tasks ! i) else Undefined))
     \<and> pl_errors d = rejections tasks S"

interpretation parallel: task_pool "parallelTasks tasks limit" 0 "parallelData tasks" "\<lambda>i d. 0"
    "parallelGood tasks" for tasks limit
  by unfold_locales
    (auto simp: parallelTasks_def parallelData_def parallelGood_def rejections_def launchTask_def
      settledValue_def nth_list_update split: ParallelTask.splits sum.splits)

subsection \<open>Pipelines\<close>

text \<open>
  The laws of the cache: what was saved without an error is loaded again, and a save leaves the
  other items alone.
\<close>

definition cacheLaws :: "('i, 'c, 'v) PipelineCall \<Rightarrow> bool" where
  "cacheLaws p \<longleftrightarrow>
     (\<forall>c i v c' e. saveItem (pc_store p) c (pc_runId p) (pc_phase p) i v = (c', e) \<longrightarrow>
        (e = None \<longrightarrow> loadItem (pc_store p) c' (pc_runId p) (pc_phase p) i = Inr v)
        \<and> (\<forall>j. j \<noteq> i \<longrightarrow> loadItem (pc_store p) c' (pc_runId p) (pc_phase p) j
            = loadItem (pc_store p) c (pc_runId p) (pc_phase p) j))"

definition itemGood ::
  "('i, 'c, 'v) PipelineCall \<Rightarrow> ('c, 'v) PipelineData \<Rightarrow> bool \<Rightarrow> nat \<Rightarrow> bool" where
  "itemGood p d settled i \<longleftrightarrow>
     (if settled then
        (\<exists>v. pc_fn p (pc_items p ! i) i = Inr v \<and> pd_results d ! i = v
           \<and> (cacheLaws p \<longrightarrow> loadItem (pc_store p) (pd_cache d) (pc_runId p) (pc_phase p) i = Inr v))
        \<or> pd_results d ! i = Null \<and> (\<exists>msg. itemFailed i msg \<in> set (pd_log d))
      else
        (case pd_stage d i of
           Calling \<Rightarrow> True
         | Saving v \<Rightarrow> pc_fn p (pc_items p ! i) i = Inr v \<and> pd_results d ! i = v))"

definition pipelineGood ::
  "('i, 'c, 'v) PipelineCall \<Rightarrow> nat \<Rightarrow> 'c \<Rightarrow> 'v jsval list \<Rightarrow> nat list \<Rightarrow> ('c, 'v) PipelineData \<Rightarrow> bool"
where
  "pipelineGood p k c results S d \<longleftrightarrow>
     length (pd_results d) = length (pc_items p)
     \<and> (\<forall>i < k. pd_results d ! i = results ! i
          \<and> (cacheLaws p \<longrightarrow> loadItem (pc_store p) (pd_cache d) (pc_runId p) (pc_phase p) i
               = loadItem (pc_store p) c (pc_runId p) (pc_phase p) i))
     \<and> (\<forall>i. k \<le> i \<longrightarrow> i < length (pc_items p) \<longrightarrow> itemGood p d (i \<in> set S) i)"

definition stageWork :: "nat \<Rightarrow> ('c, 'v) PipelineData \<Rightarrow> nat" where
  "stageWork i d = (case pd_stage d i of Calling \<Rightarrow> 1 | Saving v \<Rightarrow> 0)"

lemma itemGood_other:
  assumes "itemGood p d b j" and "j \<noteq> i" and "launchItem p i d = (d', settles)"
  shows "itemGood p d' b j"
  using assms unfolding itemGood_def launchItem_def failItem_def cacheLaws_def
  by (auto split: ItemStage.splits sum.splits prod.splits option.splits if_splits)

lemma itemGood_own:
  assumes "itemGood p d False i" and "launchItem p i d = (d', settles)" and "i < length (pd_results d)"
  shows "itemGood p d' settles i"
  using assms unfolding itemGood_def launchItem_def failItem_def cacheLaws_def
  by (auto split: ItemStage.splits sum.splits prod.splits option.splits if_splits)

lemma launchItem_frame:
  assumes "launchItem p i d = (d', settles)"
  shows "length (pd_results d') = length (pd_results d)"
    and "j \<noteq> i \<Longrightarrow> pd_results d' ! j = pd_results d ! j"
    and "cacheLaws p \<Longrightarrow> j \<noteq> i \<Longrightarrow> loadItem (pc_store p) (pd_cache d') (pc_runId p) (pc_phase p) j
      = loadItem (pc_store p) (pd_cache d) (pc_runId p) (pc_phase p) j"
  using assms unfolding launchItem_def failItem_def cacheLaws_def
  by (auto split: ItemStage.splits sum.splits prod.splits option.splits)

lemma pipelineGood_event:
  assumes "pipelineGood p k c results S d" and "k \<le> i" and "i < length (pc_items p)"
    and "i \<notin> set S" and "launchItem p i d = (d', settles)"
  shows "pipelineGood p k c results (if settles then S @ [i] else S) d'"
proof -
  have "itemGood p d' (j \<in> set (if settles then S @ [i] else S)) j"
    if "k \<le> j" "j < length (pc_items p)" for j
  proof (cases "j = i")
    case True
    have "itemGood p d False i" "i < length (pd_results d)"
      using assms(1-4) by (auto simp: pipelineGood_def)
    with itemGood_own [OF _ assms(5)] True assms(4) show ?thesis by auto
  next
    case False
    with that assms(1) have "itemGood p d (j \<in> set (if settles then S @ [i] else S)) j"
      by (simp add: pipelineGood_def)
    from itemGood_other [OF this False assms(5)] show ?thesis .
  qed
  with assms(1, 2) launchItem_frame [OF assms(5)] show ?thesis
    by (simp add: pipelineGood_def)
qed

lemma launchItem_work:
  assumes "launchItem p i d = (d', settles)"
  shows "\<not> settles \<Longrightarrow> stageWork i d' < stageWork i d"
    and "j \<noteq> i \<Longrightarrow> stageWork j d' \<le> stageWork j d"
  using assms unfolding launchItem_def failItem_def stageWork_def
  by (auto split: ItemStage.splits sum.splits prod.splits option.splits)

lemma replayItems_upt:
  "replayItems load [i..<n] i results = Inr (results', k) \<Longrightarrow> i \<le> n \<Longrightarrow> length results = n \<Longrightarrow>
     length results' = n \<and> i \<le> k \<and> k \<le> n
     \<and> (\<forall>j. i \<le> j \<longrightarrow> j < k \<longrightarrow> results' ! j \<noteq> Null \<and> load j = Inr (results' ! j))
     \<and> (\<forall>j. j < i \<or> k \<le> j \<longrightarrow> results' ! j = results ! j)
     \<and> (k < n \<longrightarrow> load k = Inr Null)"
proof (induction "n - i" arbitrary: i results)
  case 0
  then show ?case by auto
next
  case (Suc m)
  then have upt: "[i..<n] = i # [i + 1..<n]" by (simp add: upt_conv_Cons)
  show ?case
  proof (cases "\<exists>cached. load i = Inr cached \<and> cached \<noteq> Null")
    case False
    with Suc.prems upt show ?thesis by (auto split: sum.splits if_splits)
  next
    case True
    then obtain cached where cached: "load i = Inr cached" "cached \<noteq> Null" by blast
    with Suc.prems upt have "replayItems load [i + 1..<n] (i + 1) (results[i := cached]) = Inr (results', k)"
      by simp
    from Suc.hyps(1) [OF _ this] Suc.hyps(2) Suc.prems have
      IH: "length results' = n" "i + 1 \<le> k" "k \<le> n" "k < n \<longrightarrow> load k = Inr Null"
        "\<forall>j. i + 1 \<le> j \<longrightarrow> j < k \<longrightarrow> results' ! j \<noteq> Null \<and> load j = Inr (results' ! j)"
        "\<forall>j. j < i + 1 \<or> k \<le> j \<longrightarrow> results' ! j = results[i := cached] ! j"
      by auto
    have "results' ! i = cached" using IH(6) Suc.hyps(2) Suc.prems(3) by (simp add: nth_list_update)
    with cached IH(5) have "results' ! j \<noteq> Null \<and> load j = Inr (results' ! j)" if "i \<le> j" "j < k" for j
      using that by (cases "j = i") auto
    moreover have "results' ! j = results ! j" if "j < i \<or> k \<le> j" for j
      using that IH(2, 6) by (cases "j = i") auto
    ultimately show ?thesis using IH(1-4) by simp
  qed
qed

definition replayedOf :: "('i, 'c, 'v) PipelineCall \<Rightarrow> 'c \<Rightarrow> 'v jsval list \<times> nat" where
  "replayedOf p c =
     (case replayPhase p c of
        Inl _ \<Rightarrow> (replicate (length (pc_items p)) Null, 0)
      | Inr x \<Rightarrow> x)"

lemma replayedOf_prefix:
  assumes "replayPhase p c = Inr (results, k)"
  shows "length results = length (pc_items p)" and "k \<le> length (pc_items p)"
    and "j < k \<Longrightarrow> results ! j \<noteq> Null
      \<and> loadItem (pc_store p) c (pc_runId p) (pc_phase p) j = Inr (results ! j)"
    and "k < length (pc_items p) \<Longrightarrow> loadItem (pc_store p) c (pc_runId p) (pc_phase p) k = Inr Null"
  using replayItems_upt [OF assms [unfolded replayPhase_def]] by auto

lemma replayedOf_length:
  "length (fst (replayedOf p c)) = length (pc_items p) \<and> snd (replayedOf p c) \<le> length (pc_items p)"
  using replayedOf_prefix(1, 2) by (fastforce simp: replayedOf_def split: sum.splits)

interpretation pipeline: task_pool "pipelineTasks p limit" "snd (replayedOf p c)"
    "pipelineData p c (fst (replayedOf p c)) (snd (replayedOf p c))" stageWork
    "pipelineGood p (snd (replayedOf p c)) c (fst (replayedOf p c))" for p limit c
proof
  show "snd (replayedOf p c) \<le> pt_count (pipelineTasks p limit)"
    using replayedOf_length [of p c] by (simp add: pipelineTasks_def)
  show "pipelineGood p (snd (replayedOf p c)) c (fst (replayedOf p c)) []
      (pipelineData p c (fst (replayedOf p c)) (snd (replayedOf p c)))"
    using replayedOf_length [of p c] by (simp add: pipelineGood_def pipelineData_def itemGood_def)
qed (auto simp: pipelineTasks_def dest: pipelineGood_event intro: launchItem_work)

subsection \<open>Pipelines of several stages\<close>

text \<open>The reference: the stages of one item, one after the other.\<close>

fun runStages :: "('i, 'e, 'v) stage list \<Rightarrow> 'v jsval \<Rightarrow> 'i \<Rightarrow> nat \<Rightarrow> 'e + 'v jsval" where
  "runStages [] prev item i = Inr prev"
| "runStages (stage # stages) prev item i =
     (case stage prev item i of Inl e \<Rightarrow> Inl e | Inr v \<Rightarrow> runStages stages v item i)"

definition itemResult :: "'i list \<Rightarrow> ('i, 'e, 'v) stage list \<Rightarrow> nat \<Rightarrow> 'v jsval" where
  "itemResult items stages i =
     (case runStages stages Undefined (items ! i) i of Inl _ \<Rightarrow> Null | Inr v \<Rightarrow> v)"

definition stagesGood ::
  "'i list \<Rightarrow> ('i, 'e, 'v) stage list \<Rightarrow> nat list \<Rightarrow> 'v StagesData \<Rightarrow> bool" where
  "stagesGood items stages S d \<longleftrightarrow>
     length (sd_results d) = length items
     \<and> (\<forall>i < length items.
          if i \<in> set S then sd_results d ! i = itemResult items stages i
          else fst (sd_stage d i) < length stages
            \<and> runStages (drop (fst (sd_stage d i)) stages) (snd (sd_stage d i)) (items ! i) i
                = runStages stages Undefined (items ! i) i)"

definition stagesWork :: "('i, 'e, 'v) stage list \<Rightarrow> nat \<Rightarrow> 'v StagesData \<Rightarrow> nat" where
  "stagesWork stages i d = length stages - fst (sd_stage d i)"

lemma processItem_work:
  assumes "processItem items stages i d = (d', settles)"
  shows "\<not> settles \<Longrightarrow> stagesWork stages i d' < stagesWork stages i d"
    and "j \<noteq> i \<Longrightarrow> stagesWork stages j d' \<le> stagesWork stages j d"
  using assms by (auto simp: processItem_def stagesWork_def split: sum.splits if_splits prod.splits)

lemma processItem_good:
  assumes "stagesGood items stages S d" and "i < length items" and "i \<notin> set S"
    and "processItem items stages i d = (d', settles)"
  shows "stagesGood items stages (if settles then S @ [i] else S) d'"
proof -
  obtain k prev where at: "sd_stage d i = (k, prev)" by (cases "sd_stage d i")
  with assms(1-3) have k: "k < length stages"
    "runStages (drop k stages) prev (items ! i) i = runStages stages Undefined (items ! i) i"
    by (auto simp: stagesGood_def)
  from k(1) have "drop k stages = stages ! k # drop (Suc k) stages" by (simp add: Cons_nth_drop_Suc)
  then have run: "runStages stages Undefined (items ! i) i =
      (case (stages ! k) prev (items ! i) i of
         Inl e \<Rightarrow> Inl e | Inr v \<Rightarrow> runStages (drop (Suc k) stages) v (items ! i) i)"
    unfolding k(2) [symmetric] by simp
  show ?thesis
  proof (cases "(stages ! k) prev (items ! i) i")
    case (Inl e)
    with assms at run show ?thesis
      by (auto simp: stagesGood_def processItem_def itemResult_def nth_list_update)
  next
    case (Inr v)
    show ?thesis
    proof (cases "k + 1 < length stages")
      case True
      with Inr assms at run show ?thesis by (auto simp: stagesGood_def processItem_def)
    next
      case False
      with k(1) have "drop (Suc k) stages = []" by simp
      with Inr False assms at run show ?thesis
        by (auto simp: stagesGood_def processItem_def itemResult_def nth_list_update)
    qed
  qed
qed

text \<open>With no stage the caller returns at once; the pool of such a call has no tasks.\<close>

interpretation stages: task_pool "stageTasks (if stages = [] then [] else items) stages limit" 0
    "stagesData (if stages = [] then [] else items)" "stagesWork stages"
    "stagesGood (if stages = [] then [] else items) stages" for items stages limit
proof
  show "stagesGood (if stages = [] then [] else items) stages [] (stagesData (if stages = [] then [] else items))"
    by (simp add: stagesGood_def stagesData_def)
qed (auto simp: stageTasks_def simp del: if_split dest: processItem_good processItem_work)

end
