(* ===== verification/TaskRunnerProperties.thy ===== *)
theory TaskRunnerProperties
  imports TaskRunners
begin

text \<open>
  What the callers of the scheduler loop guarantee, whatever the order in which their tasks
  proceed: the loop ends, the results are those of the tasks in input order, checkpoints match
  results, and items of a staged pipeline come out as if they were processed alone.
\<close>

section \<open>Parallel tasks\<close>

lemma phase_poolEnded [simp]: "po_phase (poolEnded r d) = Ended r"
  by (simp add: poolEnded_def)

lemma runParallel_cases:
  obtains (empty) "tasks = []" "runParallel tasks budget = poolEnded (Inr []) (parallelData tasks)"
  | (exhausted) e where "tasks \<noteq> []" "budgetExhausted budget"
      "runParallel tasks budget = poolEnded (Inl (BudgetFailure e)) (parallelData tasks)"
  | (pool) "tasks \<noteq> []" "\<not> budgetExhausted budget"
      "runParallel tasks budget = poolStart 0 (parallelData tasks)"
  by (cases "tasks = []"; cases "budgetExhausted budget") (auto simp: runParallel_def)

lemma parallel_left:
  "pool_left (\<lambda>i d. 0) (parallelTasks tasks limit) (poolStart 0 d) = 3 * length tasks + 1"
  by (simp add: pool_left_def poolStart_def parallelTasks_def)

text \<open>C30: \<open>runParallel\<close> ends. With a limit that admits a task, no schedule of the loop and of the
  tasks in flight is longer than three steps for each task and one more, and a state that has not
  ended can go on: whatever the order in which the tasks settle, the caller gets an answer.\<close>

theorem parallel_ends:
  assumes "belowLimit 0 (parallelLimit c)"
    and "(pool_step (parallelTasks tasks (parallelLimit c)) ^^ k) (runParallel tasks budget) q"
  shows "k \<le> 3 * length tasks + 1
    \<and> ((\<exists>r. po_phase q = Ended r) \<or> (\<exists>q'. pool_step (parallelTasks tasks (parallelLimit c)) q q'))"
proof (cases rule: runParallel_cases [of tasks budget])
  case pool
  have "belowLimit 0 (pt_limit (parallelTasks tasks (parallelLimit c)))"
    using assms(1) by (simp add: parallelTasks_def)
  from parallel.schedule_bounded [OF this assms(2) [unfolded pool(3)]]
    parallel.not_stuck [OF schedule_reachable [OF assms(2) [unfolded pool(3)]]]
  show ?thesis by (simp add: parallel_left)
qed (use ended_schedule [OF _ assms(2)] in auto)

text \<open>A run of one task, for the witnesses.\<close>

definition demoTasks :: "(nat, nat) ParallelTask list" where
  "demoTasks = [Settles (Inr (Val 1))]"

abbreviation demoPool :: "((nat, nat) ParallelData, nat RunnerFailure, nat jsval list) PoolTasks" where
  "demoPool \<equiv> parallelTasks demoTasks (parallelLimit (Some (Some 1)))"

lemma demo_run:
  "(pool_step demoPool ^^ 4) (runParallel demoTasks None) (loopRound demoPool 0 (runParallel demoTasks None))"
  "po_phase (loopRound demoPool 0 (runParallel demoTasks None)) = Ended (Inr [Val 1])"
proof -
  have turn: "loopTurn demoPool (runParallel demoTasks None)
      = (runParallel demoTasks None)\<lparr>po_phase := Awaiting, po_inFlight := [0], po_next := 1\<rparr>"
    by (simp add: runParallel_def budgetExhausted_def demoTasks_def poolStart_def loopTurn_def
        parallelTasks_def fillPool.simps belowLimit_def parallelLimit_def)
  show "(pool_step demoPool ^^ 4) (runParallel demoTasks None) (loopRound demoPool 0 (runParallel demoTasks None))"
    by (rule loopRound_steps)
      (simp_all add: turn, simp_all add: runParallel_def budgetExhausted_def demoTasks_def poolStart_def
        parallelTasks_def launchTask_def)
  show "po_phase (loopRound demoPool 0 (runParallel demoTasks None)) = Ended (Inr [Val 1])"
    by (simp add: loopRound_def turn)
      (simp add: runParallel_def budgetExhausted_def demoTasks_def poolStart_def
        loopTurn_def dropSettled_def taskEvent_def parallelTasks_def launchTask_def parallelData_def)
qed

theorem parallel_ends_witness:
  "(4 :: nat) \<le> 3 * length demoTasks + 1
    \<and> ((\<exists>r. po_phase (loopRound demoPool 0 (runParallel demoTasks None)) = Ended r)
       \<or> (\<exists>q. pool_step demoPool (loopRound demoPool 0 (runParallel demoTasks None)) q))"
  by (rule parallel_ends [OF _ demo_run(1)]) (simp add: belowLimit_def parallelLimit_def)

text \<open>what \<open>runParallel\<close> answers. It returns only when every task fulfilled, with their
  values in the order of the tasks; otherwise it throws: the error of a task that threw at its
  call, or else the rejection that came first, after all tasks have settled.\<close>

theorem parallel_results:
  assumes "reachable (\<lambda>p. p = runParallel tasks budget) (pool_step (parallelTasks tasks (parallelLimit c))) p"
    and "po_phase p = Ended r" and "tasks \<noteq> []" and "\<not> budgetExhausted budget"
  shows "case r of
      Inr results \<Rightarrow>
        map (\<lambda>v. Settles (Inr v)) results = tasks
    | Inl failure \<Rightarrow>
        (\<exists>e. ThrowsAtCall e \<in> set tasks \<and> failure = TaskFailure e)
        \<or> (\<exists>e later. rejections tasks (po_settled p) = e # later \<and> failure = TaskFailure e)"
proof -
  have "reachable (\<lambda>p. p = poolStart 0 (parallelData tasks)) (pool_step (parallelTasks tasks (parallelLimit c))) p"
    using assms(1, 3, 4) by (simp add: runParallel_def)
  from parallel.ended [OF this assms(2)] show ?thesis
  proof (elim disjE conjE exE)
    fix i e
    assume "i < pt_count (parallelTasks tasks (parallelLimit c))"
      and "pt_throws (parallelTasks tasks (parallelLimit c)) i = Some e" and "r = Inl e"
    then show ?thesis
      by (auto simp: parallelTasks_def split: ParallelTask.splits) (metis nth_mem)
  next
    assume r: "r = pt_finish (parallelTasks tasks (parallelLimit c)) (po_data p)"
      and good: "parallelGood tasks (po_settled p) (po_data p)"
      and all: "set (po_settled p) = {0..<pt_count (parallelTasks tasks (parallelLimit c))}"
      and none: "\<forall>i \<in> {0..<pt_count (parallelTasks tasks (parallelLimit c))}.
        pt_throws (parallelTasks tasks (parallelLimit c)) i = None"
    show ?thesis
    proof (cases "rejections tasks (po_settled p)")
      case (Cons e later)
      with r good show ?thesis by (simp add: parallelTasks_def parallelGood_def)
    next
      case Nil
      have "Settles (Inr (pl_results (po_data p) ! i)) = tasks ! i" if i: "i < length tasks" for i
      proof -
        from i all have "i \<in> set (po_settled p)" by (simp add: parallelTasks_def)
        with Nil have "\<forall>e. tasks ! i \<noteq> Settles (Inl e)"
          by (auto simp: rejections_def split: ParallelTask.splits sum.splits)
        moreover from none i have "\<forall>e. tasks ! i \<noteq> ThrowsAtCall e"
          by (auto simp: parallelTasks_def split: ParallelTask.splits)
        ultimately obtain v where "tasks ! i = Settles (Inr v)"
          by (metis ParallelTask.exhaust sum.exhaust)
        with good i \<open>i \<in> set (po_settled p)\<close> show ?thesis
          by (simp add: parallelGood_def settledValue_def)
      qed
      with r good Nil show ?thesis
        by (auto simp: parallelTasks_def parallelGood_def intro: nth_equalityI)
    qed
  qed
qed

theorem parallel_results_witness: "map (\<lambda>v. Settles (Inr v)) [Val 1] = demoTasks"
  using parallel_results [OF schedule_reachable [OF demo_run(1)] demo_run(2)]
  by (simp add: budgetExhausted_def demoTasks_def)

text \<open>A limit that admits no task, such as 0, a negative number or \<open>NaN\<close>, makes
  \<open>runParallel\<close> spin: the loop starts nothing, waits for nothing and never leaves its state, and
  since it never yields, nothing else runs either.\<close>

theorem parallel_limit_zero_spins:
  assumes "\<not> belowLimit 0 (parallelLimit c)" and "tasks \<noteq> []" and "\<not> budgetExhausted budget"
    and "reachable (\<lambda>p. p = runParallel tasks budget) (pool_step (parallelTasks tasks (parallelLimit c))) q"
  shows "q = runParallel tasks budget \<and> po_phase q = Looping"
proof -
  have "po_next (runParallel tasks budget) = 0" "po_inFlight (runParallel tasks budget) = []"
    "po_phase (runParallel tasks budget) = Looping"
    using assms(2, 3) by (simp_all add: runParallel_def poolStart_def)
  with assms(1, 2) have "pool_step (parallelTasks tasks (parallelLimit c)) (runParallel tasks budget) p
      \<Longrightarrow> p = runParallel tasks budget" for p
    using closed_loop [of "parallelTasks tasks (parallelLimit c)" "runParallel tasks budget" p]
    by (simp add: parallelTasks_def)
  with assms(4) have "q = runParallel tasks budget"
    by (induction rule: reachable.induct) auto
  with \<open>po_phase (runParallel tasks budget) = Looping\<close> show ?thesis by simp
qed

theorem parallel_limit_zero_spins_witness:
  "po_phase (loopTurn (parallelTasks demoTasks (parallelLimit (Some (Some 0)))) (runParallel demoTasks None))
     = Looping"
proof -
  have "pool_step (parallelTasks demoTasks (parallelLimit (Some (Some 0)))) (runParallel demoTasks None)
      (loopTurn (parallelTasks demoTasks (parallelLimit (Some (Some 0)))) (runParallel demoTasks None))"
    by (rule pool_turn) (simp add: runParallel_def budgetExhausted_def demoTasks_def poolStart_def)
  then have start: "reachable (\<lambda>p. p = runParallel demoTasks None)
      (pool_step (parallelTasks demoTasks (parallelLimit (Some (Some 0)))))
      (loopTurn (parallelTasks demoTasks (parallelLimit (Some (Some 0)))) (runParallel demoTasks None))"
    by (blast intro: reachable_init reachable_step)
  show ?thesis
    by (rule conjunct2 [OF parallel_limit_zero_spins [OF _ _ _ start]])
      (simp_all add: belowLimit_def parallelLimit_def budgetExhausted_def demoTasks_def)
qed

section \<open>Pipelines\<close>

lemma runPipeline_pool:
  assumes "pc_items p \<noteq> []" and "\<not> budgetExhausted budget"
  shows "runPipeline p budget c =
    (case replayPhase p c of
       Inl e \<Rightarrow> poolEnded (Inl (TaskFailure e)) (pipelineData p c [] 0)
     | Inr (results, k) \<Rightarrow>
         if length (pc_items p) \<le> k then poolEnded (Inr results) (pipelineData p c results k)
         else poolStart k (pipelineData p c results k))"
  using assms by (simp add: runPipeline_def)

text \<open>What an ended pipeline knows of its items; \<open>k\<close> of them were replayed.\<close>

definition pipelineOutcome ::
  "('i, 'c, 'v) PipelineCall \<Rightarrow> ('c, 'v) PipelineData \<Rightarrow> nat \<Rightarrow> 'v jsval list \<Rightarrow> 'v jsval list \<Rightarrow> bool"
where
  "pipelineOutcome p d k replayed results \<longleftrightarrow>
     length results = length (pc_items p) \<and> take k results = take k replayed
     \<and> (\<forall>i \<in> {k..<length (pc_items p)}.
          pc_fn p (pc_items p ! i) i = Inr (results ! i)
          \<or> results ! i = Null \<and> (\<exists>msg. itemFailed i msg \<in> set (pd_log d)))
     \<and> (cacheLaws p \<longrightarrow> (\<forall>i < length (pc_items p). results ! i \<noteq> Null \<longrightarrow>
          loadItem (pc_store p) (pd_cache d) (pc_runId p) (pc_phase p) i = Inr (results ! i)))"

lemma pipelineGood_outcome:
  assumes "pipelineGood p k c replayed S d" and "set S = {k..<length (pc_items p)}"
    and "replayPhase p c = Inr (replayed, k)"
  shows "pipelineOutcome p d k replayed (pd_results d)"
proof -
  note prefix = replayedOf_prefix [OF assms(3)]
  from assms(1) have len: "length (pd_results d) = length (pc_items p)"
    and old: "\<And>i. i < k \<Longrightarrow> pd_results d ! i = replayed ! i
      \<and> (cacheLaws p \<longrightarrow> loadItem (pc_store p) (pd_cache d) (pc_runId p) (pc_phase p) i
           = loadItem (pc_store p) c (pc_runId p) (pc_phase p) i)"
    and new: "\<And>i. k \<le> i \<Longrightarrow> i < length (pc_items p) \<Longrightarrow> itemGood p d True i"
    using assms(2) by (auto simp: pipelineGood_def)
  have "take k (pd_results d) = take k replayed"
    using len old prefix(1, 2) by (intro nth_take_lemma) auto
  moreover have "loadItem (pc_store p) (pd_cache d) (pc_runId p) (pc_phase p) i = Inr (pd_results d ! i)"
    if "cacheLaws p" "i < length (pc_items p)" "pd_results d ! i \<noteq> Null" for i
    using that old [of i] new [of i] prefix(3) [of i] by (cases "i < k") (auto simp: itemGood_def)
  moreover have "pc_fn p (pc_items p ! i) i = Inr (pd_results d ! i)
      \<or> pd_results d ! i = Null \<and> (\<exists>msg. itemFailed i msg \<in> set (pd_log d))"
    if "k \<le> i" "i < length (pc_items p)" for i
    using new [OF that] by (auto simp: itemGood_def)
  ultimately show ?thesis
    using len unfolding pipelineOutcome_def by (metis atLeastLessThan_iff)
qed

lemma pipeline_ended:
  assumes "reachable (\<lambda>q. q = runPipeline p budget c) (pool_step (pipelineTasks p (pipelineLimit l))) q"
    and "po_phase q = Ended r" and "pc_items p \<noteq> []" and "\<not> budgetExhausted budget"
  shows "case replayPhase p c of
      Inl e \<Rightarrow> r = Inl (TaskFailure e)
    | Inr (replayed, k) \<Rightarrow> \<exists>results. r = Inr results \<and> pipelineOutcome p (po_data q) k replayed results"
proof (cases "replayPhase p c")
  case (Inl e)
  with assms(3, 4) have start: "runPipeline p budget c = poolEnded (Inl (TaskFailure e)) (pipelineData p c [] 0)"
    by (simp add: runPipeline_pool)
  with ended_reachable [OF assms(1)] assms(2) Inl show ?thesis by auto
next
  case (Inr x)
  obtain replayed k where x: "x = (replayed, k)" by (cases x)
  note replay = Inr [unfolded x]
  have of: "replayedOf p c = (replayed, k)" by (simp add: replayedOf_def replay)
  show ?thesis
  proof (cases "length (pc_items p) \<le> k")
    case True
    then have start: "runPipeline p budget c = poolEnded (Inr replayed) (pipelineData p c replayed k)"
      using assms(3, 4) replay by (simp add: runPipeline_pool)
    with ended_reachable [OF assms(1)] assms(2) have "r = Inr replayed" "q = poolEnded (Inr replayed) (pipelineData p c replayed k)"
      by auto
    moreover have "pipelineOutcome p (pipelineData p c replayed k) k replayed replayed"
      using pipelineGood_outcome [OF _ _ replay, of "[]" "pipelineData p c replayed k"] True replayedOf_prefix [OF replay]
      by (simp add: pipelineGood_def pipelineData_def)
    ultimately show ?thesis using replay by (simp add: poolEnded_def poolStart_def)
  next
    case False
    then have "reachable (\<lambda>q. q = poolStart (snd (replayedOf p c))
          (pipelineData p c (fst (replayedOf p c)) (snd (replayedOf p c))))
        (pool_step (pipelineTasks p (pipelineLimit l))) q"
      using assms(1, 3, 4) replay by (simp add: runPipeline_pool of)
    from pipeline.ended [OF this assms(2)] of replay show ?thesis
      using pipelineGood_outcome [OF _ _ replay, of "po_settled q" "po_data q"]
      by (auto simp: pipelineTasks_def)
  qed
qed

text \<open>A run of one item over a cache that is a function, for the witnesses.\<close>

definition demoCall :: "(nat, nat \<Rightarrow> nat jsval, nat) PipelineCall" where
  "demoCall = \<lparr>pc_runId = js ''run'', pc_phase = js ''build'', pc_items = [3],
     pc_fn = (\<lambda>item i. Inr (Val (item + 4))),
     pc_store = \<lparr>loadItem = (\<lambda>c runId phase i. Inr (c i)),
       saveItem = (\<lambda>c runId phase i v. (c(i := v), None))\<rparr>\<rparr>"

abbreviation demoPipe ::
  "((nat \<Rightarrow> nat jsval, nat) PipelineData, jstring RunnerFailure, nat jsval list) PoolTasks" where
  "demoPipe \<equiv> pipelineTasks demoCall (pipelineLimit None)"

abbreviation demoStart :: "((nat \<Rightarrow> nat jsval, nat) PipelineData, jstring RunnerFailure, nat jsval list) Pool"
  where "demoStart \<equiv> runPipeline demoCall None (\<lambda>i. Null)"

definition demoDone :: "((nat \<Rightarrow> nat jsval, nat) PipelineData, jstring RunnerFailure, nat jsval list) Pool"
  where "demoDone = loopTurn demoPipe (dropSettled (taskEvent demoPipe 0 (taskEvent demoPipe 0
    (loopTurn demoPipe demoStart))))"

lemma demoCall_sel:
  "pc_items demoCall = [3]" "pc_fn demoCall = (\<lambda>item i. Inr (Val (item + 4)))"
  "loadItem (pc_store demoCall) = (\<lambda>c runId phase i. Inr (c i))"
  "saveItem (pc_store demoCall) = (\<lambda>c runId phase i v. (c(i := v), None))"
  by (simp_all add: demoCall_def)

lemma demoCall_laws: "cacheLaws demoCall"
  by (simp add: cacheLaws_def demoCall_def)

lemma demo_pipeline:
  "reachable (\<lambda>q. q = demoStart) (pool_step demoPipe) demoDone"
  "po_phase demoDone = Ended (Inr [Val 7])" "pd_cache (po_data demoDone) = (\<lambda>i. Null)(0 := Val 7)"
proof -
  let ?d0 = "pipelineData demoCall (\<lambda>i. Null) [Null] 0"
  let ?d1 = "?d0\<lparr>pd_results := [Val 7], pd_stage := (\<lambda>i. Calling)(0 := Saving (Val 7))\<rparr>"
  let ?d2 = "?d1\<lparr>pd_cache := (\<lambda>i. Null)(0 := Val 7)\<rparr>"
  have s0: "demoStart = poolStart 0 ?d0"
    by (simp add: runPipeline_def budgetExhausted_def demoCall_sel replayPhase_def)
  define s1 where "s1 = loopTurn demoPipe demoStart"
  have s1: "s1 = \<lparr>po_phase = Awaiting, po_next = 1, po_inFlight = [0], po_settled = [], po_data = ?d0\<rparr>"
    by (simp add: s1_def s0 poolStart_def loopTurn_def pipelineTasks_def demoCall_sel fillPool.simps
        belowLimit_def pipelineLimit_def)
  define s2 where "s2 = taskEvent demoPipe 0 s1"
  have s2: "s2 = s1\<lparr>po_data := ?d1\<rparr>"
    by (simp add: s2_def s1 taskEvent_def pipelineTasks_def launchItem_def demoCall_sel pipelineData_def)
  define s3 where "s3 = taskEvent demoPipe 0 s2"
  have s3: "s3 = s2\<lparr>po_settled := [0], po_data := ?d2\<rparr>"
    by (simp add: s3_def s2 s1 taskEvent_def pipelineTasks_def launchItem_def demoCall_sel pipelineData_def)
  define s4 where "s4 = dropSettled s3"
  have "pool_step demoPipe demoStart s1"
    unfolding s1_def by (rule pool_turn) (simp add: s0 poolStart_def)
  moreover have "pool_step demoPipe s1 s2"
    unfolding s2_def by (rule pool_event) (simp_all add: s1)
  moreover have "pool_step demoPipe s2 s3"
    unfolding s3_def by (rule pool_event) (simp_all add: s2 s1)
  moreover have "pool_step demoPipe s3 s4"
    unfolding s4_def by (rule pool_resume [of _ 0]) (simp_all add: s3 s2 s1)
  moreover have last: "demoDone = loopTurn demoPipe s4"
    by (simp add: demoDone_def s1_def s2_def s3_def s4_def)
  moreover have "pool_step demoPipe s4 (loopTurn demoPipe s4)"
    by (rule pool_turn) (simp add: s4_def dropSettled_def)
  ultimately show "reachable (\<lambda>q. q = demoStart) (pool_step demoPipe) demoDone"
    by (metis (mono_tags, lifting) reachable_init reachable_step)
  show "po_phase demoDone = Ended (Inr [Val 7])" "pd_cache (po_data demoDone) = (\<lambda>i. Null)(0 := Val 7)"
    by (simp_all add: last s4_def s3 s2 s1 loopTurn_def dropSettled_def pipelineTasks_def
        demoCall_sel pipelineData_def)
qed

text \<open>C32: the outcome of \<open>runPipeline\<close>. A cache that rejects during the replay fails the
  pipeline. Otherwise it returns one result for each item: the replayed prefix as it was loaded, and
  for each later item the value of its call or \<open>null\<close> with a message in the log; under the laws of
  the cache the checkpoints of all items that did not fail can be loaded again.\<close>

theorem pipeline_outcome:
  assumes "reachable (\<lambda>q. q = runPipeline p budget c) (pool_step (pipelineTasks p (pipelineLimit l))) q"
    and "po_phase q = Ended r" and "pc_items p \<noteq> []" and "\<not> budgetExhausted budget"
  shows "case replayPhase p c of
      Inl e \<Rightarrow> r = Inl (TaskFailure e)
    | Inr (replayed, k) \<Rightarrow> \<exists>results. r = Inr results \<and> pipelineOutcome p (po_data q) k replayed results"
  by (rule pipeline_ended [OF assms])

theorem pipeline_outcome_witness: "loadItem (pc_store demoCall) (pd_cache (po_data demoDone))
    (pc_runId demoCall) (pc_phase demoCall) 0 = Inr (Val 7)"
proof -
  have "case replayPhase demoCall (\<lambda>i. Null) of
      Inl e \<Rightarrow> Inr [Val 7] = (Inl (TaskFailure e) :: jstring RunnerFailure + nat jsval list)
    | Inr (replayed, k) \<Rightarrow> \<exists>results. Inr [Val 7] = (Inr results :: jstring RunnerFailure + nat jsval list)
        \<and> pipelineOutcome demoCall (po_data demoDone) k replayed results"
    by (rule pipeline_outcome [OF demo_pipeline(1, 2)]) (simp_all add: demoCall_sel budgetExhausted_def)
  with demoCall_laws show ?thesis
    by (auto simp: pipelineOutcome_def demoCall_sel split: sum.splits prod.splits)
qed

lemma replayItems_all:
  "(\<And>j. i \<le> j \<Longrightarrow> j < n \<Longrightarrow> load j = Inr (results ! j) \<and> results ! j \<noteq> Null) \<Longrightarrow>
   take i acc = take i results \<Longrightarrow> length acc = n \<Longrightarrow> length results = n \<Longrightarrow> i \<le> n \<Longrightarrow>
   replayItems load [i..<n] i acc = Inr (results, n)"
proof (induction "n - i" arbitrary: i acc)
  case 0
  then show ?case by simp
next
  case (Suc m)
  then have "i < n" by simp
  with Suc.prems have "take (Suc i) (acc[i := results ! i]) = take (Suc i) results"
    by (simp add: take_Suc_conv_app_nth)
  with Suc \<open>i < n\<close> show ?case by (simp add: upt_conv_Cons)
qed

text \<open>C33: a pipeline that returned a value for every item is resumed at no cost: a second run
  over the cache that the first one left replays all results and starts no item, even when its
  budget allows a call.\<close>

theorem pipeline_resumes:
  assumes "reachable (\<lambda>q. q = runPipeline p budget c) (pool_step (pipelineTasks p (pipelineLimit l))) q"
    and "po_phase q = Ended (Inr results)" and "Null \<notin> set results"
    and "pc_items p \<noteq> []" and "\<not> budgetExhausted budget" and "cacheLaws p"
    and "\<not> budgetExhausted budget'"
  shows "runPipeline p budget' (pd_cache (po_data q)) =
    poolEnded (Inr results) (pipelineData p (pd_cache (po_data q)) results (length (pc_items p)))"
proof -
  from pipeline_ended [OF assms(1, 2, 4, 5)]
  obtain replayed k where "pipelineOutcome p (po_data q) k replayed results"
    by (auto split: sum.splits prod.splits)
  with assms(3, 6) have "length results = length (pc_items p)"
    and "\<And>i. i < length (pc_items p) \<Longrightarrow>
      loadItem (pc_store p) (pd_cache (po_data q)) (pc_runId p) (pc_phase p) i = Inr (results ! i)
      \<and> results ! i \<noteq> Null"
    unfolding pipelineOutcome_def by (auto simp: in_set_conv_nth)
  then have "replayPhase p (pd_cache (po_data q)) = Inr (results, length (pc_items p))"
    by (simp add: replayPhase_def replayItems_all)
  with assms(4, 7) show ?thesis by (simp add: runPipeline_pool)
qed

theorem pipeline_resumes_witness:
  "runPipeline demoCall None ((\<lambda>i. Null)(0 := Val 7)) =
     poolEnded (Inr [Val 7]) (pipelineData demoCall ((\<lambda>i. Null)(0 := Val 7)) [Val 7] 1)"
  using pipeline_resumes [OF demo_pipeline(1, 2) _ _ _ demoCall_laws, of None]
  by (simp add: demo_pipeline(3) budgetExhausted_def demoCall_sel)

section \<open>Pipelines of several stages\<close>

text \<open>C31: \<open>runMultiStagePipeline\<close> agrees with the reference that takes each item through its
  stages one after the other: whatever the interleaving of the items, it returns the reference
  results in the order of the items, \<open>null\<close> for an item one of whose stages failed, and never has
  more items in flight than the limit admits.\<close>

theorem stages_sequential:
  assumes "reachable (\<lambda>p. p = runMultiStagePipeline items stages)
      (pool_step (stageTasks items stages (pipelineLimit c))) p"
  shows "(po_inFlight p = [] \<or> belowLimit (length (po_inFlight p) - 1) (pipelineLimit c))
    \<and> (\<forall>r. po_phase p = Ended r \<longrightarrow>
         r = Inr (if stages = [] then map (\<lambda>item. Null) items
                  else map (itemResult items stages) [0..<length items]))"
proof (cases "items = [] \<or> stages = []")
  case True
  then obtain r where r: "runMultiStagePipeline items stages = poolEnded (Inr r) (stagesData items)"
    "r = (if stages = [] then map (\<lambda>item. Null) items else [])"
    by (auto simp: runMultiStagePipeline_def)
  with ended_reachable [OF assms] True show ?thesis by (auto simp: poolEnded_def poolStart_def)
next
  case False
  with assms have run: "reachable (\<lambda>p. p = poolStart 0 (stagesData items))
      (pool_step (stageTasks items stages (pipelineLimit c))) p"
    by (simp add: runMultiStagePipeline_def)
  have "r = Inr (map (itemResult items stages) [0..<length items])" if "po_phase p = Ended r" for r
    using stages.ended [where items = items and stages = stages and limit = "pipelineLimit c" and p = p and r = r] run that False
    by (auto simp: stageTasks_def stagesGood_def intro!: nth_equalityI)
  with stages.in_flight_bounded [where items = items and stages = stages and limit = "pipelineLimit c" and p = p] run False show ?thesis
    by (simp add: stageTasks_def)
qed

theorem stages_sequential_witness:
  "map (itemResult [5 :: nat] [\<lambda>prev item i. Inr prev :: nat + nat jsval]) [0..<1] = [Undefined]"
proof -
  let ?stages = "[\<lambda>prev item i. Inr prev] :: (nat, nat, nat) stage list"
  let ?t = "stageTasks [5] ?stages (pipelineLimit None)" and ?p = "runMultiStagePipeline [5] ?stages"
  have turn: "loopTurn ?t ?p = ?p\<lparr>po_phase := Awaiting, po_inFlight := [0], po_next := 1\<rparr>"
    by (simp add: runMultiStagePipeline_def poolStart_def loopTurn_def stageTasks_def fillPool.simps
        belowLimit_def pipelineLimit_def)
  have "(pool_step ?t ^^ 4) ?p (loopRound ?t 0 ?p)"
    by (rule loopRound_steps) (simp_all add: turn, simp_all add: runMultiStagePipeline_def poolStart_def
        stageTasks_def processItem_def stagesData_def)
  moreover have "po_phase (loopRound ?t 0 ?p) = Ended (Inr [Undefined])"
    by (simp add: loopRound_def turn) (simp add: runMultiStagePipeline_def poolStart_def
        loopTurn_def dropSettled_def taskEvent_def stageTasks_def processItem_def stagesData_def)
  ultimately show ?thesis
    using stages_sequential [OF schedule_reachable] by fastforce
qed

end
