(* ===== verification/PluginFindings.thy ===== *)
theory PluginFindings
  imports Prelude
begin

text \<open>
  The findings of the plugin host (\<open>packages/plugin-host/src/findings.ts\<close>): their phases and codes,
  the order in which they are reported, and \<open>PluginHostError\<close>, an error that carries them.
\<close>

datatype PluginHostPhase =
  PhaseBinding | PhaseIntegrity | PhaseValidation | PhaseCapability | PhaseRegistration
  | PhaseLifecycle | PhaseAuthorization | PhaseAudit

primrec phaseText :: "PluginHostPhase \<Rightarrow> jstring" where
  "phaseText PhaseBinding = js ''binding''"
| "phaseText PhaseIntegrity = js ''integrity''"
| "phaseText PhaseValidation = js ''validation''"
| "phaseText PhaseCapability = js ''capability''"
| "phaseText PhaseRegistration = js ''registration''"
| "phaseText PhaseLifecycle = js ''lifecycle''"
| "phaseText PhaseAuthorization = js ''authorization''"
| "phaseText PhaseAudit = js ''audit''"

datatype PluginHostFindingCode =
    PLUGIN_HOST_ALREADY_BOUND
  | PLUGIN_HOST_NOT_BOUND
  | PLUGIN_HOST_BINDING_INVALID
  | PLUGIN_HOST_SEALED
  | PLUGIN_HOST_NOT_SEALED
  | PLUGIN_HOST_LOCK_ENTRY_MISSING
  | PLUGIN_HOST_LOCK_IDENTITY_MISMATCH
  | PLUGIN_HOST_LOCK_SOURCE_MISMATCH
  | PLUGIN_HOST_LOCK_HASH_MISMATCH
  | PLUGIN_HOST_LOCK_GATE_MISMATCH
  | PLUGIN_HOST_VERSION_INCOMPATIBLE
  | PLUGIN_HOST_ACTIVATION_EVIDENCE_MISSING
  | PLUGIN_HOST_ACTIVATION_EVIDENCE_INVALID
  | PLUGIN_HOST_ACTIVATION_EVIDENCE_MISMATCH
  | PLUGIN_HOST_ACTIVATION_ASK
  | PLUGIN_HOST_ACTIVATION_DENIED
  | PLUGIN_HOST_POLICY_DECISION_INVALID
  | PLUGIN_HOST_ACTIVATION_HOOK_FAILED
  | PLUGIN_HOST_ACTION_INPUT_INVALID
  | PLUGIN_HOST_ACTION_ASK
  | PLUGIN_HOST_ACTION_DENIED
  | PLUGIN_HOST_PLAN_STEP_INVALID
  | PLUGIN_HOST_BUNDLED_DEFINITION_INVALID
  | PLUGIN_HOST_BUNDLED_REGISTRATION_REQUIRED
  | PLUGIN_HOST_PRMS_RESULT_INVALID
  | PLUGIN_HOST_PRMS_BLOCKER_INVALID
  | PLUGIN_HOST_PRMS_EVALUATOR_FAILED
  | PLUGIN_LIFECYCLE_INVALID_TRANSITION
  | PLUGIN_CAPABILITY_NOT_REQUESTED
  | PLUGIN_CAPABILITY_UNKNOWN
  | PLUGIN_CAPABILITY_DUPLICATE
  | PLUGIN_CAPABILITY_HOST_DENIED
  | PLUGIN_CAPABILITY_ACTOR_DENIED
  | PLUGIN_CAPABILITY_HARD_DENIED
  | PLUGIN_CONTRIBUTION_CAPABILITY_MISSING
  | PLUGIN_ALIAS_TARGET_NOT_FOUND
  | PLUGIN_ALIAS_TARGET_FORBIDDEN
  | PLUGIN_ALIAS_TARGET_UNSAFE
  | PLUGIN_ALIAS_MAPPING_FORBIDDEN
  | PLUGIN_ALIAS_MAPPING_UNKNOWN_TARGET
  | PLUGIN_ALIAS_MAPPING_UNKNOWN_INPUT
  | PLUGIN_ALIAS_MAPPING_TYPE_MISMATCH
  | PLUGIN_ALIAS_MAPPING_REQUIRED_TARGET_MISSING
  | PLUGIN_REGISTRY_PLUGIN_COLLISION
  | PLUGIN_REGISTRY_ACTION_COLLISION
  | PLUGIN_REGISTRY_WORKFLOW_COLLISION
  | PLUGIN_REGISTRY_PRMS_BLOCKER_COLLISION
  | PLUGIN_REGISTRY_INVALID_ID
  | PLUGIN_REGISTRY_PREFLIGHT_STALE
  | PLUGIN_REGISTRY_PREFLIGHT_FOREIGN
  | PLUGIN_REGISTRY_PREFLIGHT_REUSED
  | PLUGIN_AUDIT_FACT_INVALID
  | PLUGIN_AUDIT_WRITE_FAILED

primrec codeText :: "PluginHostFindingCode \<Rightarrow> jstring" where
  "codeText PLUGIN_HOST_ALREADY_BOUND = js ''PLUGIN_HOST_ALREADY_BOUND''"
| "codeText PLUGIN_HOST_NOT_BOUND = js ''PLUGIN_HOST_NOT_BOUND''"
| "codeText PLUGIN_HOST_BINDING_INVALID = js ''PLUGIN_HOST_BINDING_INVALID''"
| "codeText PLUGIN_HOST_SEALED = js ''PLUGIN_HOST_SEALED''"
| "codeText PLUGIN_HOST_NOT_SEALED = js ''PLUGIN_HOST_NOT_SEALED''"
| "codeText PLUGIN_HOST_LOCK_ENTRY_MISSING = js ''PLUGIN_HOST_LOCK_ENTRY_MISSING''"
| "codeText PLUGIN_HOST_LOCK_IDENTITY_MISMATCH = js ''PLUGIN_HOST_LOCK_IDENTITY_MISMATCH''"
| "codeText PLUGIN_HOST_LOCK_SOURCE_MISMATCH = js ''PLUGIN_HOST_LOCK_SOURCE_MISMATCH''"
| "codeText PLUGIN_HOST_LOCK_HASH_MISMATCH = js ''PLUGIN_HOST_LOCK_HASH_MISMATCH''"
| "codeText PLUGIN_HOST_LOCK_GATE_MISMATCH = js ''PLUGIN_HOST_LOCK_GATE_MISMATCH''"
| "codeText PLUGIN_HOST_VERSION_INCOMPATIBLE = js ''PLUGIN_HOST_VERSION_INCOMPATIBLE''"
| "codeText PLUGIN_HOST_ACTIVATION_EVIDENCE_MISSING = js ''PLUGIN_HOST_ACTIVATION_EVIDENCE_MISSING''"
| "codeText PLUGIN_HOST_ACTIVATION_EVIDENCE_INVALID = js ''PLUGIN_HOST_ACTIVATION_EVIDENCE_INVALID''"
| "codeText PLUGIN_HOST_ACTIVATION_EVIDENCE_MISMATCH = js ''PLUGIN_HOST_ACTIVATION_EVIDENCE_MISMATCH''"
| "codeText PLUGIN_HOST_ACTIVATION_ASK = js ''PLUGIN_HOST_ACTIVATION_ASK''"
| "codeText PLUGIN_HOST_ACTIVATION_DENIED = js ''PLUGIN_HOST_ACTIVATION_DENIED''"
| "codeText PLUGIN_HOST_POLICY_DECISION_INVALID = js ''PLUGIN_HOST_POLICY_DECISION_INVALID''"
| "codeText PLUGIN_HOST_ACTIVATION_HOOK_FAILED = js ''PLUGIN_HOST_ACTIVATION_HOOK_FAILED''"
| "codeText PLUGIN_HOST_ACTION_INPUT_INVALID = js ''PLUGIN_HOST_ACTION_INPUT_INVALID''"
| "codeText PLUGIN_HOST_ACTION_ASK = js ''PLUGIN_HOST_ACTION_ASK''"
| "codeText PLUGIN_HOST_ACTION_DENIED = js ''PLUGIN_HOST_ACTION_DENIED''"
| "codeText PLUGIN_HOST_PLAN_STEP_INVALID = js ''PLUGIN_HOST_PLAN_STEP_INVALID''"
| "codeText PLUGIN_HOST_BUNDLED_DEFINITION_INVALID = js ''PLUGIN_HOST_BUNDLED_DEFINITION_INVALID''"
| "codeText PLUGIN_HOST_BUNDLED_REGISTRATION_REQUIRED = js ''PLUGIN_HOST_BUNDLED_REGISTRATION_REQUIRED''"
| "codeText PLUGIN_HOST_PRMS_RESULT_INVALID = js ''PLUGIN_HOST_PRMS_RESULT_INVALID''"
| "codeText PLUGIN_HOST_PRMS_BLOCKER_INVALID = js ''PLUGIN_HOST_PRMS_BLOCKER_INVALID''"
| "codeText PLUGIN_HOST_PRMS_EVALUATOR_FAILED = js ''PLUGIN_HOST_PRMS_EVALUATOR_FAILED''"
| "codeText PLUGIN_LIFECYCLE_INVALID_TRANSITION = js ''PLUGIN_LIFECYCLE_INVALID_TRANSITION''"
| "codeText PLUGIN_CAPABILITY_NOT_REQUESTED = js ''PLUGIN_CAPABILITY_NOT_REQUESTED''"
| "codeText PLUGIN_CAPABILITY_UNKNOWN = js ''PLUGIN_CAPABILITY_UNKNOWN''"
| "codeText PLUGIN_CAPABILITY_DUPLICATE = js ''PLUGIN_CAPABILITY_DUPLICATE''"
| "codeText PLUGIN_CAPABILITY_HOST_DENIED = js ''PLUGIN_CAPABILITY_HOST_DENIED''"
| "codeText PLUGIN_CAPABILITY_ACTOR_DENIED = js ''PLUGIN_CAPABILITY_ACTOR_DENIED''"
| "codeText PLUGIN_CAPABILITY_HARD_DENIED = js ''PLUGIN_CAPABILITY_HARD_DENIED''"
| "codeText PLUGIN_CONTRIBUTION_CAPABILITY_MISSING = js ''PLUGIN_CONTRIBUTION_CAPABILITY_MISSING''"
| "codeText PLUGIN_ALIAS_TARGET_NOT_FOUND = js ''PLUGIN_ALIAS_TARGET_NOT_FOUND''"
| "codeText PLUGIN_ALIAS_TARGET_FORBIDDEN = js ''PLUGIN_ALIAS_TARGET_FORBIDDEN''"
| "codeText PLUGIN_ALIAS_TARGET_UNSAFE = js ''PLUGIN_ALIAS_TARGET_UNSAFE''"
| "codeText PLUGIN_ALIAS_MAPPING_FORBIDDEN = js ''PLUGIN_ALIAS_MAPPING_FORBIDDEN''"
| "codeText PLUGIN_ALIAS_MAPPING_UNKNOWN_TARGET = js ''PLUGIN_ALIAS_MAPPING_UNKNOWN_TARGET''"
| "codeText PLUGIN_ALIAS_MAPPING_UNKNOWN_INPUT = js ''PLUGIN_ALIAS_MAPPING_UNKNOWN_INPUT''"
| "codeText PLUGIN_ALIAS_MAPPING_TYPE_MISMATCH = js ''PLUGIN_ALIAS_MAPPING_TYPE_MISMATCH''"
| "codeText PLUGIN_ALIAS_MAPPING_REQUIRED_TARGET_MISSING = js ''PLUGIN_ALIAS_MAPPING_REQUIRED_TARGET_MISSING''"
| "codeText PLUGIN_REGISTRY_PLUGIN_COLLISION = js ''PLUGIN_REGISTRY_PLUGIN_COLLISION''"
| "codeText PLUGIN_REGISTRY_ACTION_COLLISION = js ''PLUGIN_REGISTRY_ACTION_COLLISION''"
| "codeText PLUGIN_REGISTRY_WORKFLOW_COLLISION = js ''PLUGIN_REGISTRY_WORKFLOW_COLLISION''"
| "codeText PLUGIN_REGISTRY_PRMS_BLOCKER_COLLISION = js ''PLUGIN_REGISTRY_PRMS_BLOCKER_COLLISION''"
| "codeText PLUGIN_REGISTRY_INVALID_ID = js ''PLUGIN_REGISTRY_INVALID_ID''"
| "codeText PLUGIN_REGISTRY_PREFLIGHT_STALE = js ''PLUGIN_REGISTRY_PREFLIGHT_STALE''"
| "codeText PLUGIN_REGISTRY_PREFLIGHT_FOREIGN = js ''PLUGIN_REGISTRY_PREFLIGHT_FOREIGN''"
| "codeText PLUGIN_REGISTRY_PREFLIGHT_REUSED = js ''PLUGIN_REGISTRY_PREFLIGHT_REUSED''"
| "codeText PLUGIN_AUDIT_FACT_INVALID = js ''PLUGIN_AUDIT_FACT_INVALID''"
| "codeText PLUGIN_AUDIT_WRITE_FAILED = js ''PLUGIN_AUDIT_WRITE_FAILED''"

record PluginHostFinding =
  pf_code :: PluginHostFindingCode
  pf_phase :: PluginHostPhase
  pf_summary :: jstring
  pf_pluginId :: "jstring option"
  pf_contributionId :: "jstring option"
  pf_detail :: "jstring option"

text \<open>\<open>asciiCompare\<close> orders by code units, as the order on lists does; so does a list of keys.\<close>

definition orEmpty :: "jstring option \<Rightarrow> jstring" where
  "orEmpty s = (case s of None \<Rightarrow> [] | Some v \<Rightarrow> v)"

definition findingKey :: "PluginHostFinding \<Rightarrow> jstring list" where
  "findingKey f =
     [phaseText (pf_phase f), orEmpty (pf_pluginId f), orEmpty (pf_contributionId f),
      codeText (pf_code f), pf_summary f, orEmpty (pf_detail f)]"

definition sortFindings :: "PluginHostFinding list \<Rightarrow> PluginHostFinding list" where
  "sortFindings findings = sort_key findingKey findings"

text \<open>An error of the host: its message and its findings.\<close>

record PluginHostError =
  pe_message :: jstring
  pe_findings :: "PluginHostFinding list"

definition pluginHostError :: "PluginHostFinding list \<Rightarrow> PluginHostError" where
  "pluginHostError findings =
     (let normalized = sortFindings findings
      in \<lparr>pe_message =
            (case normalized of
               first # _ \<Rightarrow> codeText (pf_code first) @ js '': '' @ pf_summary first
             | [] \<Rightarrow> js ''PLUGIN_HOST_ERROR: Host operation failed.''),
          pe_findings = normalized\<rparr>)"

definition hostFinding ::
  "PluginHostFindingCode \<Rightarrow> PluginHostPhase \<Rightarrow> jstring \<Rightarrow> jstring option \<Rightarrow> jstring option \<Rightarrow>
   PluginHostFinding" where
  "hostFinding code phase summary pluginId contributionId =
     \<lparr>pf_code = code, pf_phase = phase, pf_summary = summary, pf_pluginId = pluginId,
      pf_contributionId = contributionId, pf_detail = None\<rparr>"

definition hostFail ::
  "PluginHostFindingCode \<Rightarrow> PluginHostPhase \<Rightarrow> jstring \<Rightarrow> jstring option \<Rightarrow> jstring option \<Rightarrow>
   PluginHostError" where
  "hostFail code phase summary pluginId contributionId =
     pluginHostError [hostFinding code phase summary pluginId contributionId]"

lemma set_sortFindings [simp]: "set (sortFindings fs) = set fs"
  by (simp add: sortFindings_def)

lemma pe_findings_set [simp]: "set (pe_findings (pluginHostError fs)) = set fs"
  by (simp add: pluginHostError_def Let_def)

lemma pe_findings_hostFail [simp]:
  "pe_findings (hostFail code phase summary p c) = [hostFinding code phase summary p c]"
  by (simp add: hostFail_def pluginHostError_def sortFindings_def)

end
