(* ===== verification/PluginLifecycle.thy ===== *)
theory PluginLifecycle
  imports PluginFindings JsText
begin

text \<open>
  The lifecycle of a plugin (\<open>packages/plugin-host/src/lifecycle.ts\<close>): the table of the allowed
  transitions, the controller that holds the snapshot of one plugin, and the one-shot binding.
  The clock is an argument: its next reading.
\<close>

datatype PluginLifecycleState =
  Discovered | IntegrityVerified | Validated | Registering | Activated | Degraded | Disabled
  | Deprecated | Removed

primrec lifecycleText :: "PluginLifecycleState \<Rightarrow> jstring" where
  "lifecycleText Discovered = js ''discovered''"
| "lifecycleText IntegrityVerified = js ''integrity_verified''"
| "lifecycleText Validated = js ''validated''"
| "lifecycleText Registering = js ''registered''"
| "lifecycleText Activated = js ''activated''"
| "lifecycleText Degraded = js ''degraded''"
| "lifecycleText Disabled = js ''disabled''"
| "lifecycleText Deprecated = js ''deprecated''"
| "lifecycleText Removed = js ''removed''"

primrec hostLifecycleTransitions :: "PluginLifecycleState \<Rightarrow> PluginLifecycleState list" where
  "hostLifecycleTransitions Discovered = [IntegrityVerified, Disabled, Removed]"
| "hostLifecycleTransitions IntegrityVerified = [Validated, Disabled, Removed]"
| "hostLifecycleTransitions Validated = [Registering, Disabled, Removed]"
| "hostLifecycleTransitions Registering = [Activated, Disabled, Deprecated, Removed]"
| "hostLifecycleTransitions Activated = [Degraded, Disabled, Deprecated]"
| "hostLifecycleTransitions Degraded = [Activated, Disabled, Deprecated]"
| "hostLifecycleTransitions Disabled = [Registering, Deprecated, Removed]"
| "hostLifecycleTransitions Deprecated = [Disabled, Removed]"
| "hostLifecycleTransitions Removed = []"

text \<open>The text of a reason: control characters become spaces, at most 512 code units remain.\<close>

definition boundedReason :: "jstring option \<Rightarrow> jstring option" where
  "boundedReason reason =
     (case reason of
        None \<Rightarrow> None
      | Some r \<Rightarrow>
          let normalized = trim (map (\<lambda>c. if c \<le> 0x1F \<or> c = 0x7F then 32 else c) r)
          in Some (if length normalized \<le> 512 then normalized else take 512 normalized))"

record PluginLifecycleSnapshot =
  ls_pluginId :: jstring
  ls_state :: PluginLifecycleState
  ls_previousState :: "PluginLifecycleState option"
  ls_observedAt :: jstring
  ls_reason :: "jstring option"

definition lifecycleController :: "jstring \<Rightarrow> jstring \<Rightarrow> PluginLifecycleSnapshot" where
  "lifecycleController pluginId now =
     \<lparr>ls_pluginId = pluginId, ls_state = Discovered, ls_previousState = None, ls_observedAt = now,
      ls_reason = None\<rparr>"

definition lifecycleTransition ::
  "PluginLifecycleSnapshot \<Rightarrow> PluginLifecycleState \<Rightarrow> jstring option \<Rightarrow> jstring option \<Rightarrow> jstring \<Rightarrow>
   PluginHostError + PluginLifecycleSnapshot" where
  "lifecycleTransition snapshot nextState reason observedAt now =
     (if nextState \<notin> set (hostLifecycleTransitions (ls_state snapshot)) then
        Inl (hostFail PLUGIN_LIFECYCLE_INVALID_TRANSITION PhaseLifecycle
          (js ''Lifecycle transition '' @ lifecycleText (ls_state snapshot) @ js '' -> ''
           @ lifecycleText nextState @ js '' is not allowed.'')
          (Some (ls_pluginId snapshot)) None)
      else
        Inr \<lparr>ls_pluginId = ls_pluginId snapshot, ls_state = nextState,
             ls_previousState = Some (ls_state snapshot),
             ls_observedAt = (case observedAt of None \<Rightarrow> now | Some t \<Rightarrow> t),
             ls_reason = boundedReason reason\<rparr>)"

lemma lifecycleTransition_Inr:
  "lifecycleTransition s n reason t now = Inr s' \<longleftrightarrow>
     n \<in> set (hostLifecycleTransitions (ls_state s))
     \<and> s' = \<lparr>ls_pluginId = ls_pluginId s, ls_state = n, ls_previousState = Some (ls_state s),
            ls_observedAt = (case t of None \<Rightarrow> now | Some u \<Rightarrow> u), ls_reason = boundedReason reason\<rparr>"
  by (auto simp: lifecycleTransition_def)

section \<open>The one-shot binding\<close>

text \<open>An argument of type \<open>object\<close> as \<open>copyAndSealBinding\<close> sees it: its own properties by descriptor.\<close>

datatype 'v bindingArgument =
  NullOrArray
| BindingObject "((jstring option) \<times> bool \<times> 'v option) list"

definition copyAndSealBinding :: "'v bindingArgument \<Rightarrow> PluginHostError + (jstring \<times> 'v) list" where
  "copyAndSealBinding arg =
     (let invalid = (\<lambda>s. Inl (hostFail PLUGIN_HOST_BINDING_INVALID PhaseBinding (js s) None None))
      in case arg of
           NullOrArray \<Rightarrow> invalid ''A host binding must be a non-array object.''
         | BindingObject props \<Rightarrow>
             if \<exists>(k, e, v) \<in> set props. k = None then
               invalid ''A host binding cannot contain symbol-keyed fields.''
             else if \<exists>(k, e, v) \<in> set props. v = None \<or> \<not> e then
               invalid ''A host binding must contain enumerable data properties only.''
             else Inr (map (\<lambda>(k, e, v). (the k, the v)) props))"

definition bindingBind ::
  "(jstring \<times> 'v) list option \<Rightarrow> 'v bindingArgument \<Rightarrow>
   PluginHostError + (jstring \<times> 'v) list \<times> (jstring \<times> 'v) list option" where
  "bindingBind bound arg =
     (if bound \<noteq> None then
        Inl (hostFail PLUGIN_HOST_ALREADY_BOUND PhaseBinding
          (js ''This host instance is already sealed to a binding.'') None None)
      else (case copyAndSealBinding arg of Inl e \<Rightarrow> Inl e | Inr s \<Rightarrow> Inr (s, Some s)))"

definition bindingGet :: "(jstring \<times> 'v) list option \<Rightarrow> PluginHostError + (jstring \<times> 'v) list" where
  "bindingGet bound =
     (case bound of
        None \<Rightarrow>
          Inl (hostFail PLUGIN_HOST_NOT_BOUND PhaseBinding
            (js ''This host instance has not been bound.'') None None)
      | Some s \<Rightarrow> Inr s)"

end
