(* ===== verification/PluginValues.thy ===== *)
theory PluginValues
  imports JsText
begin

text \<open>
  Values of type \<open>unknown\<close> as the plugin host inspects them: it reads own properties through their
  descriptors, so an object is the list of its properties in the order of \<open>Reflect.ownKeys\<close>, each
  with its enumerability and its value (none for an accessor), and knows whether its prototype is
  \<open>Object.prototype\<close> or null. Arrays may have holes. A function is its identity. Proxies are left out.
\<close>

datatype js_num = Finite rat | NotFinite

datatype pkey = StringKey jstring | SymbolKey nat

datatype unknown =
  UUndefined
| UNull
| UBool bool
| UNumber js_num
| UText jstring
| UArray "unknown option list"
| UObject bool "(pkey \<times> bool \<times> unknown option) list"
| UFunction nat
| UOther

definition isText :: "unknown \<Rightarrow> bool" where
  "isText v = (case v of UText _ \<Rightarrow> True | _ \<Rightarrow> False)"

text \<open>\<open>value === 'literal'\<close>\<close>

definition isLiteral :: "unknown option \<Rightarrow> jstring \<Rightarrow> bool" where
  "isLiteral v s \<longleftrightarrow> v = Some (UText s)"

definition isBool :: "unknown option \<Rightarrow> bool option" where
  "isBool v = (case v of Some (UBool b) \<Rightarrow> Some b | _ \<Rightarrow> None)"

text \<open>\<open>Array.from(s).length\<close>: the code points of a text.\<close>

fun codePoints :: "jstring \<Rightarrow> nat" where
  "codePoints [] = 0"
| "codePoints [c] = 1"
| "codePoints (c # d # cs) =
     (if 0xD800 \<le> c \<and> c < 0xDC00 \<and> 0xDC00 \<le> d \<and> d < 0xE000 then 1 + codePoints cs
      else 1 + codePoints (d # cs))"

text \<open>\<open>SAFE_TEXT\<close>: no control character and no bidirectional override or isolate.\<close>

definition unsafeChar :: "jchar \<Rightarrow> bool" where
  "unsafeChar c \<longleftrightarrow>
     c \<le> 0x1F \<or> 0x7F \<le> c \<and> c \<le> 0x9F \<or> 0x202A \<le> c \<and> c \<le> 0x202E \<or> 0x2066 \<le> c \<and> c \<le> 0x2069"

definition safeText :: "jstring \<Rightarrow> bool" where
  "safeText s \<longleftrightarrow> s \<noteq> [] \<and> (\<forall>c \<in> set s. \<not> unsafeChar c)"

text \<open>
  The loop over the own properties of an object: \<open>ok key\<close> tells whether a key is allowed. The
  first error is the one reported: \<open>badKey\<close> for a key, \<open>badField k\<close> for a property that is hidden or
  an accessor.
\<close>

fun readProperties ::
  "(jstring \<Rightarrow> bool) \<Rightarrow> 'e \<Rightarrow> (jstring \<Rightarrow> 'e) \<Rightarrow> (pkey \<times> bool \<times> unknown option) list \<Rightarrow>
   'e + (jstring \<times> unknown) list" where
  "readProperties ok badKey badField [] = Inr []"
| "readProperties ok badKey badField ((key, enumerable, v) # props) =
     (case key of
        SymbolKey _ \<Rightarrow> Inl badKey
      | StringKey k \<Rightarrow>
          if \<not> ok k then Inl badKey
          else
            (case v of
               None \<Rightarrow> Inl (badField k)
             | Some x \<Rightarrow>
                 if \<not> enumerable then Inl (badField k)
                 else
                   (case readProperties ok badKey badField props of
                      Inl e \<Rightarrow> Inl e
                    | Inr own \<Rightarrow> Inr ((k, x) # own))))"

lemma readProperties_keys:
  "readProperties ok badKey badField props = Inr own \<Longrightarrow> (k, x) \<in> set own \<Longrightarrow>
   ok k \<and> (StringKey k, True, Some x) \<in> set props"
  by (induction props arbitrary: own) (auto split: pkey.splits option.splits sum.splits if_splits)

end
