(* ===== verification/PluginRegistry.thy ===== *)
theory PluginRegistry
  imports PluginFindings Regex StepSystem "HOL-Library.AList"
begin

text \<open>
  The registries of the plugin host (\<open>packages/plugin-host/src/registries.ts\<close>): batches of a plugin
  with its contributions are normalised and checked together by \<open>preflight\<close>, and entered together
  by \<open>commit\<close>. A registry is its four maps, in the order of insertion, its revision and the
  preflights it has handed out.
\<close>

section \<open>Identifiers\<close>

definition is_lower :: "jchar \<Rightarrow> bool" where
  "is_lower c \<longleftrightarrow> 97 \<le> c \<and> c \<le> 122"

definition is_lower_digit :: "jchar \<Rightarrow> bool" where
  "is_lower_digit c \<longleftrightarrow> is_lower c \<or> is_digit c"

text \<open>\<open>[a-z][a-z0-9]*(?:-[a-z0-9]+)*\<close>\<close>

definition localIdPattern :: rx where
  "localIdPattern =
     RSeq (RClass is_lower) (RSeq (RStar (RClass is_lower_digit))
       (RStar (RSeq (RChar 45) (RPlus (RClass is_lower_digit)))))"

definition reservedPluginIds :: "jstring list" where
  "reservedPluginIds =
     [js ''openslack'', js ''built-in'', js ''plugin'', js ''workspace'', js ''external'', js ''negentropy'']"

definition validLocalId :: "jstring \<Rightarrow> bool" where
  "validLocalId i \<longleftrightarrow> length i \<le> 64 \<and> rx_test localIdPattern i"

definition validPluginId :: "jstring \<Rightarrow> bool" where
  "validPluginId i \<longleftrightarrow>
     length i \<le> 64 \<and> rx_test localIdPattern i \<and> \<not> startsWith i (js ''openslack-'')
     \<and> i \<notin> set reservedPluginIds"

definition canonicalPluginContributionId :: "jstring \<Rightarrow> jstring \<Rightarrow> jstring" where
  "canonicalPluginContributionId pluginId localId = js ''plugin:'' @ pluginId @ [58] @ localId"

section \<open>Batches\<close>

datatype RegistryProviderKind = BundledProvider | WorkspaceProvider | PluginProvider

primrec providerText :: "RegistryProviderKind \<Rightarrow> jstring" where
  "providerText BundledProvider = js ''bundled''"
| "providerText WorkspaceProvider = js ''workspace''"
| "providerText PluginProvider = js ''plugin''"

record 'p RegistryPlugin =
  rp_id :: jstring
  rp_version :: jstring
  rp_providerKind :: RegistryProviderKind
  rp_sourceRef :: jstring
  rp_value :: 'p

record 'v RegistryContribution =
  rc_localId :: jstring
  rc_value :: 'v

record ('p, 'a, 'w, 'b) PluginRegistryBatch =
  pb_plugin :: "'p RegistryPlugin"
  pb_actionAliases :: "'a RegistryContribution list option"
  pb_workflowAliases :: "'w RegistryContribution list option"
  pb_bundledActions :: "'a RegistryContribution list option"
  pb_bundledWorkflows :: "'w RegistryContribution list option"
  pb_prmsBlockers :: "'b RegistryContribution list option"

datatype RegisteredKind =
  ActionAlias | BundledAction | WorkflowAlias | BundledWorkflow | PrmsBlocker

record 'v Registered =
  rg_id :: jstring
  rg_pluginId :: jstring
  rg_localId :: jstring
  rg_kind :: RegisteredKind
  rg_sourceRef :: jstring
  rg_value :: 'v

record ('p, 'a, 'w, 'b) NormalizedBatch =
  nb_plugin :: "'p RegistryPlugin"
  nb_actions :: "'a Registered list"
  nb_workflows :: "'w Registered list"
  nb_prmsBlockers :: "'b Registered list"

definition orNone :: "'a list option \<Rightarrow> 'a list" where
  "orNone xs = (case xs of None \<Rightarrow> [] | Some ys \<Rightarrow> ys)"

definition canonicalSource :: "('p, 'a, 'w, 'b) PluginRegistryBatch \<Rightarrow> jstring" where
  "canonicalSource batch =
     (let plugin = pb_plugin batch
      in providerText (rp_providerKind plugin) @ [0] @ rp_sourceRef plugin @ [0] @ rp_id plugin)"

definition normalizeContribution ::
  "'p RegistryPlugin \<Rightarrow> RegisteredKind \<Rightarrow> 'v RegistryContribution \<Rightarrow> 'v Registered" where
  "normalizeContribution plugin kind input =
     \<lparr>rg_id = canonicalPluginContributionId (rp_id plugin) (rc_localId input),
      rg_pluginId = rp_id plugin, rg_localId = rc_localId input, rg_kind = kind,
      rg_sourceRef = rp_sourceRef plugin, rg_value = rc_value input\<rparr>"

definition normalizeBatch ::
  "('p, 'a, 'w, 'b) PluginRegistryBatch \<Rightarrow> ('p, 'a, 'w, 'b) NormalizedBatch" where
  "normalizeBatch batch =
     (let plugin = pb_plugin batch
      in \<lparr>nb_plugin = plugin,
          nb_actions = sort_key rg_id
            (map (normalizeContribution plugin ActionAlias) (orNone (pb_actionAliases batch))
             @ map (normalizeContribution plugin BundledAction) (orNone (pb_bundledActions batch))),
          nb_workflows = sort_key rg_id
            (map (normalizeContribution plugin WorkflowAlias) (orNone (pb_workflowAliases batch))
             @ map (normalizeContribution plugin BundledWorkflow) (orNone (pb_bundledWorkflows batch))),
          nb_prmsBlockers = sort_key rg_id
            (map (normalizeContribution plugin PrmsBlocker) (orNone (pb_prmsBlockers batch)))\<rparr>)"

definition collisionFinding ::
  "PluginHostFindingCode \<Rightarrow> jstring \<Rightarrow> jstring option \<Rightarrow> jstring \<Rightarrow> PluginHostFinding" where
  "collisionFinding code pluginId contributionId noun =
     hostFinding code PhaseRegistration
       (noun @ js '' '' @ (case contributionId of None \<Rightarrow> pluginId | Some c \<Rightarrow> c)
        @ js '' collides with an existing or staged registration.'')
       (Some pluginId) contributionId"

section \<open>The registry\<close>

text \<open>
  The identity of a preflight object: the registry that made it, and its number there. The weak map
  of the prepared registrations is keyed by it.
\<close>

record RegistryPreflight =
  pr_identity :: "nat \<times> nat"
  pr_revision :: nat
  pr_pluginIds :: "jstring list"
  pr_contributionIds :: "jstring list"

record ('p, 'a, 'w, 'b) PreparedRegistration =
  pp_revision :: nat
  pp_batches :: "('p, 'a, 'w, 'b) NormalizedBatch list"
  pp_consumed :: bool

record ('p, 'a, 'w, 'b) PluginRegistrySet =
  rs_instance :: nat
  rs_plugins :: "(jstring \<times> 'p RegistryPlugin) list"
  rs_actions :: "(jstring \<times> 'a Registered) list"
  rs_workflows :: "(jstring \<times> 'w Registered) list"
  rs_prmsBlockers :: "(jstring \<times> 'b Registered) list"
  rs_prepared :: "((nat \<times> nat) \<times> ('p, 'a, 'w, 'b) PreparedRegistration) list"
  rs_revision :: nat

definition emptyRegistry :: "nat \<Rightarrow> ('p, 'a, 'w, 'b) PluginRegistrySet" where
  "emptyRegistry inst =
     \<lparr>rs_instance = inst, rs_plugins = [], rs_actions = [], rs_workflows = [],
      rs_prmsBlockers = [], rs_prepared = [], rs_revision = 0\<rparr>"

text \<open>The staged identifiers and the findings so far, of one map of the registry.\<close>

definition setAdd :: "'x list \<Rightarrow> 'x \<Rightarrow> 'x list" where
  "setAdd xs x = (if x \<in> set xs then xs else xs @ [x])"

definition checkContribution ::
  "jstring \<Rightarrow> PluginHostFindingCode \<Rightarrow> jstring list \<Rightarrow> jstring \<Rightarrow> 'v Registered \<Rightarrow>
   jstring list \<times> PluginHostFinding list \<Rightarrow> jstring list \<times> PluginHostFinding list" where
  "checkContribution noun code registered pluginId c acc =
     (let (staged, findings) = acc;
          invalid =
            (if \<not> validLocalId (rg_localId c) then
               [hostFinding PLUGIN_REGISTRY_INVALID_ID PhaseRegistration
                  (noun @ js '' local ID '' @ rg_localId c @ js '' is invalid.'')
                  (Some pluginId) (Some (rg_id c))]
             else []);
          collision =
            (if rg_id c \<in> set registered \<or> rg_id c \<in> set staged then
               [collisionFinding code pluginId (Some (rg_id c)) noun]
             else [])
      in (setAdd staged (rg_id c), findings @ invalid @ collision))"

record RegistryStaging =
  st_plugins :: "jstring list"
  st_actions :: "jstring list"
  st_workflows :: "jstring list"
  st_prmsBlockers :: "jstring list"
  st_findings :: "PluginHostFinding list"

definition checkPlugin ::
  "('p, 'a, 'w, 'b) PluginRegistrySet \<Rightarrow> 'p RegistryPlugin \<Rightarrow> RegistryStaging \<Rightarrow> RegistryStaging" where
  "checkPlugin reg plugin st =
     (let pluginId = rp_id plugin;
          invalid =
            (if \<not> validPluginId pluginId \<or> rp_sourceRef plugin = [] then
               [hostFinding PLUGIN_REGISTRY_INVALID_ID PhaseRegistration
                  (js ''Plugin identity or source for '' @ pluginId @ js '' is invalid.'')
                  (Some pluginId) None]
             else []);
          collision =
            (if pluginId \<in> set (map fst (rs_plugins reg)) \<or> pluginId \<in> set (st_plugins st) then
               [collisionFinding PLUGIN_REGISTRY_PLUGIN_COLLISION pluginId None (js ''Plugin'')]
             else [])
      in st\<lparr>st_plugins := setAdd (st_plugins st) pluginId,
            st_findings := st_findings st @ invalid @ collision\<rparr>)"

definition checkBatch ::
  "('p, 'a, 'w, 'b) PluginRegistrySet \<Rightarrow> ('p, 'a, 'w, 'b) NormalizedBatch \<Rightarrow>
   RegistryStaging \<Rightarrow> RegistryStaging" where
  "checkBatch reg batch st =
     (let pluginId = rp_id (nb_plugin batch);
          st = checkPlugin reg (nb_plugin batch) st;
          (actions, findings) =
            fold (checkContribution (js ''Action'') PLUGIN_REGISTRY_ACTION_COLLISION
                    (map fst (rs_actions reg)) pluginId)
              (nb_actions batch) (st_actions st, st_findings st);
          (workflows, findings) =
            fold (checkContribution (js ''Workflow'') PLUGIN_REGISTRY_WORKFLOW_COLLISION
                    (map fst (rs_workflows reg)) pluginId)
              (nb_workflows batch) (st_workflows st, findings);
          (blockers, findings) =
            fold (checkContribution (js ''PRMS blocker'') PLUGIN_REGISTRY_PRMS_BLOCKER_COLLISION
                    (map fst (rs_prmsBlockers reg)) pluginId)
              (nb_prmsBlockers batch) (st_prmsBlockers st, findings)
      in st\<lparr>st_actions := actions, st_workflows := workflows, st_prmsBlockers := blockers,
            st_findings := findings\<rparr>)"

definition emptyStaging :: RegistryStaging where
  "emptyStaging =
     \<lparr>st_plugins = [], st_actions = [], st_workflows = [], st_prmsBlockers = [], st_findings = []\<rparr>"

definition normalizeBatches ::
  "('p, 'a, 'w, 'b) PluginRegistryBatch list \<Rightarrow> ('p, 'a, 'w, 'b) NormalizedBatch list" where
  "normalizeBatches batches = map normalizeBatch (sort_key canonicalSource batches)"

definition preflight ::
  "('p, 'a, 'w, 'b) PluginRegistrySet \<Rightarrow> ('p, 'a, 'w, 'b) PluginRegistryBatch list \<Rightarrow>
   PluginHostError + RegistryPreflight \<times> ('p, 'a, 'w, 'b) PluginRegistrySet" where
  "preflight reg batches =
     (let normalized = normalizeBatches batches;
          st = fold (checkBatch reg) normalized emptyStaging
      in if st_findings st \<noteq> [] then Inl (pluginHostError (sortFindings (st_findings st)))
         else
           let identity = (rs_instance reg, length (rs_prepared reg))
           in Inr (\<lparr>pr_identity = identity, pr_revision = rs_revision reg,
                    pr_pluginIds = sort (st_plugins st),
                    pr_contributionIds = sort (st_actions st @ st_workflows st @ st_prmsBlockers st)\<rparr>,
                  reg\<lparr>rs_prepared := AList.update identity
                    \<lparr>pp_revision = rs_revision reg, pp_batches = normalized, pp_consumed = False\<rparr>
                    (rs_prepared reg)\<rparr>))"

definition enterAll :: "'v Registered list \<Rightarrow> (jstring \<times> 'v Registered) list \<Rightarrow> (jstring \<times> 'v Registered) list"
where
  "enterAll cs = fold (\<lambda>c. AList.update (rg_id c) c) cs"

definition enterBatch ::
  "('p, 'a, 'w, 'b) NormalizedBatch \<Rightarrow> ('p, 'a, 'w, 'b) PluginRegistrySet \<Rightarrow>
   ('p, 'a, 'w, 'b) PluginRegistrySet" where
  "enterBatch batch reg =
     reg\<lparr>rs_plugins := AList.update (rp_id (nb_plugin batch)) (nb_plugin batch) (rs_plugins reg),
         rs_actions := enterAll (nb_actions batch) (rs_actions reg),
         rs_workflows := enterAll (nb_workflows batch) (rs_workflows reg),
         rs_prmsBlockers := enterAll (nb_prmsBlockers batch) (rs_prmsBlockers reg)\<rparr>"

record RegistryCommitSummary =
  cs_revision :: nat
  cs_pluginIds :: "jstring list"
  cs_contributionIds :: "jstring list"

definition commit ::
  "('p, 'a, 'w, 'b) PluginRegistrySet \<Rightarrow> RegistryPreflight \<Rightarrow>
   PluginHostError + RegistryCommitSummary \<times> ('p, 'a, 'w, 'b) PluginRegistrySet" where
  "commit reg pre =
     (case map_of (rs_prepared reg) (pr_identity pre) of
        None \<Rightarrow>
          Inl (hostFail PLUGIN_REGISTRY_PREFLIGHT_FOREIGN PhaseRegistration
            (js ''Registry preflight was not created by this registry instance.'') None None)
      | Some prepared \<Rightarrow>
          if pp_consumed prepared then
            Inl (hostFail PLUGIN_REGISTRY_PREFLIGHT_REUSED PhaseRegistration
              (js ''Registry preflight has already been committed.'') None None)
          else if pp_revision prepared \<noteq> rs_revision reg then
            Inl (hostFail PLUGIN_REGISTRY_PREFLIGHT_STALE PhaseRegistration
              (js ''Registry state changed after preflight.'') None None)
          else
            let reg = fold enterBatch (pp_batches prepared) reg;
                reg = reg\<lparr>rs_prepared := AList.update (pr_identity pre) (prepared\<lparr>pp_consumed := True\<rparr>)
                             (rs_prepared reg),
                          rs_revision := rs_revision reg + 1\<rparr>
            in Inr (\<lparr>cs_revision = rs_revision reg, cs_pluginIds = pr_pluginIds pre,
                     cs_contributionIds = pr_contributionIds pre\<rparr>, reg))"

definition registerBatches ::
  "('p, 'a, 'w, 'b) PluginRegistrySet \<Rightarrow> ('p, 'a, 'w, 'b) PluginRegistryBatch list \<Rightarrow>
   PluginHostError + RegistryCommitSummary \<times> ('p, 'a, 'w, 'b) PluginRegistrySet" where
  "registerBatches reg batches =
     (case preflight reg batches of
        Inl e \<Rightarrow> Inl e
      | Inr (pre, reg') \<Rightarrow> commit reg' pre)"

definition getPlugin :: "('p, 'a, 'w, 'b) PluginRegistrySet \<Rightarrow> jstring \<Rightarrow> 'p RegistryPlugin option" where
  "getPlugin reg i = map_of (rs_plugins reg) i"

definition getAction :: "('p, 'a, 'w, 'b) PluginRegistrySet \<Rightarrow> jstring \<Rightarrow> 'a Registered option" where
  "getAction reg i = map_of (rs_actions reg) i"

definition getWorkflow :: "('p, 'a, 'w, 'b) PluginRegistrySet \<Rightarrow> jstring \<Rightarrow> 'w Registered option" where
  "getWorkflow reg i = map_of (rs_workflows reg) i"

definition getPrmsBlocker :: "('p, 'a, 'w, 'b) PluginRegistrySet \<Rightarrow> jstring \<Rightarrow> 'b Registered option" where
  "getPrmsBlocker reg i = map_of (rs_prmsBlockers reg) i"

definition listPlugins :: "('p, 'a, 'w, 'b) PluginRegistrySet \<Rightarrow> 'p RegistryPlugin list" where
  "listPlugins reg = sort_key rp_id (map snd (rs_plugins reg))"

definition listActions :: "('p, 'a, 'w, 'b) PluginRegistrySet \<Rightarrow> 'a Registered list" where
  "listActions reg = sort_key rg_id (map snd (rs_actions reg))"

definition listWorkflows :: "('p, 'a, 'w, 'b) PluginRegistrySet \<Rightarrow> 'w Registered list" where
  "listWorkflows reg = sort_key rg_id (map snd (rs_workflows reg))"

definition listPrmsBlockers :: "('p, 'a, 'w, 'b) PluginRegistrySet \<Rightarrow> 'b Registered list" where
  "listPrmsBlockers reg = sort_key rg_id (map snd (rs_prmsBlockers reg))"

section \<open>What can be registered\<close>

text \<open>Contributions whose identifiers are valid, and new in a map and among the staged ones.\<close>

definition contributionsFree :: "jstring set \<Rightarrow> 'v Registered list \<Rightarrow> bool" where
  "contributionsFree taken cs \<longleftrightarrow>
     (\<forall>c \<in> set cs. validLocalId (rg_localId c)) \<and> distinct (map rg_id cs)
     \<and> set (map rg_id cs) \<inter> taken = {}"

definition pluginsFree :: "jstring set \<Rightarrow> 'p RegistryPlugin list \<Rightarrow> bool" where
  "pluginsFree taken ps \<longleftrightarrow>
     (\<forall>p \<in> set ps. validPluginId (rp_id p) \<and> rp_sourceRef p \<noteq> []) \<and> distinct (map rp_id ps)
     \<and> set (map rp_id ps) \<inter> taken = {}"

definition registrable ::
  "('p, 'a, 'w, 'b) PluginRegistrySet \<Rightarrow> ('p, 'a, 'w, 'b) NormalizedBatch list \<Rightarrow> bool" where
  "registrable reg bs \<longleftrightarrow>
     pluginsFree (fst ` set (rs_plugins reg)) (map nb_plugin bs)
     \<and> contributionsFree (fst ` set (rs_actions reg)) (concat (map nb_actions bs))
     \<and> contributionsFree (fst ` set (rs_workflows reg)) (concat (map nb_workflows bs))
     \<and> contributionsFree (fst ` set (rs_prmsBlockers reg)) (concat (map nb_prmsBlockers bs))"

lemma contributionsFree_Nil [simp]: "contributionsFree taken []"
  by (simp add: contributionsFree_def)

lemma contributionsFree_append:
  "contributionsFree taken (xs @ ys)
   \<longleftrightarrow> contributionsFree taken xs \<and> contributionsFree (taken \<union> set (map rg_id xs)) ys"
  by (auto simp: contributionsFree_def)

lemma contributionsFree_Cons:
  "contributionsFree taken (c # cs)
   \<longleftrightarrow> validLocalId (rg_localId c) \<and> rg_id c \<notin> taken \<and> contributionsFree (insert (rg_id c) taken) cs"
  by (auto simp: contributionsFree_def)

lemma pluginsFree_Cons:
  "pluginsFree taken (p # ps)
   \<longleftrightarrow> validPluginId (rp_id p) \<and> rp_sourceRef p \<noteq> [] \<and> rp_id p \<notin> taken
       \<and> pluginsFree (insert (rp_id p) taken) ps"
  by (auto simp: pluginsFree_def)

lemma set_setAdd [simp]: "set (setAdd xs x) = insert x (set xs)"
  by (auto simp: setAdd_def)

lemma setAdd_new: "x \<notin> set xs \<Longrightarrow> setAdd xs x = xs @ [x]"
  by (simp add: setAdd_def)

lemma checkContribution_step:
  obtains extra where
    "checkContribution noun code registered pluginId c (staged, findings) = (setAdd staged (rg_id c), findings @ extra)"
    and "extra = [] \<longleftrightarrow> validLocalId (rg_localId c) \<and> rg_id c \<notin> set registered \<union> set staged"
proof
  let ?extra = "snd (checkContribution noun code registered pluginId c (staged, []))"
  show "checkContribution noun code registered pluginId c (staged, findings) = (setAdd staged (rg_id c), findings @ ?extra)"
    by (simp add: checkContribution_def)
  show "?extra = [] \<longleftrightarrow> validLocalId (rg_localId c) \<and> rg_id c \<notin> set registered \<union> set staged"
    by (simp add: checkContribution_def)
qed

lemma fold_checkContribution:
  "fold (checkContribution noun code registered pluginId) cs (staged, findings) = (staged', findings') \<Longrightarrow>
     set staged' = set staged \<union> set (map rg_id cs)
     \<and> (findings' = [] \<longleftrightarrow> findings = [] \<and> contributionsFree (set registered \<union> set staged) cs)
     \<and> (findings' = [] \<longrightarrow> staged' = staged @ map rg_id cs)"
proof (induction cs arbitrary: staged findings)
  case (Cons c cs)
  obtain extra where step:
      "checkContribution noun code registered pluginId c (staged, findings) = (setAdd staged (rg_id c), findings @ extra)"
    and extra: "extra = [] \<longleftrightarrow> validLocalId (rg_localId c) \<and> rg_id c \<notin> set registered \<union> set staged"
    by (rule checkContribution_step)
  from Cons.prems have "fold (checkContribution noun code registered pluginId) cs
      (setAdd staged (rg_id c), findings @ extra) = (staged', findings')"
    by (simp add: step)
  from Cons.IH [OF this] extra show ?case
    by (auto simp: contributionsFree_Cons setAdd_new)
qed simp

lemma checkPlugin_step:
  "st_findings (checkPlugin reg plugin st) = [] \<longleftrightarrow> st_findings st = []
     \<and> validPluginId (rp_id plugin) \<and> rp_sourceRef plugin \<noteq> []
     \<and> rp_id plugin \<notin> fst ` set (rs_plugins reg) \<union> set (st_plugins st)"
  "st_plugins (checkPlugin reg plugin st) = setAdd (st_plugins st) (rp_id plugin)"
  "st_actions (checkPlugin reg plugin st) = st_actions st"
  "st_workflows (checkPlugin reg plugin st) = st_workflows st"
  "st_prmsBlockers (checkPlugin reg plugin st) = st_prmsBlockers st"
  by (auto simp: checkPlugin_def Let_def)

lemma checkBatch_step:
  "let st' = checkBatch reg b st in
     (st_findings st' = [] \<longleftrightarrow> st_findings st = []
        \<and> pluginsFree (fst ` set (rs_plugins reg) \<union> set (st_plugins st)) [nb_plugin b]
        \<and> contributionsFree (fst ` set (rs_actions reg) \<union> set (st_actions st)) (nb_actions b)
        \<and> contributionsFree (fst ` set (rs_workflows reg) \<union> set (st_workflows st)) (nb_workflows b)
        \<and> contributionsFree (fst ` set (rs_prmsBlockers reg) \<union> set (st_prmsBlockers st)) (nb_prmsBlockers b))
     \<and> set (st_plugins st') = insert (rp_id (nb_plugin b)) (set (st_plugins st))
     \<and> set (st_actions st') = set (st_actions st) \<union> rg_id ` set (nb_actions b)
     \<and> set (st_workflows st') = set (st_workflows st) \<union> rg_id ` set (nb_workflows b)
     \<and> set (st_prmsBlockers st') = set (st_prmsBlockers st) \<union> rg_id ` set (nb_prmsBlockers b)
     \<and> (st_findings st' = [] \<longrightarrow>
          st_plugins st' = st_plugins st @ [rp_id (nb_plugin b)]
          \<and> st_actions st' = st_actions st @ map rg_id (nb_actions b)
          \<and> st_workflows st' = st_workflows st @ map rg_id (nb_workflows b)
          \<and> st_prmsBlockers st' = st_prmsBlockers st @ map rg_id (nb_prmsBlockers b))"
proof -
  let ?p = "rp_id (nb_plugin b)" and ?st = "checkPlugin reg (nb_plugin b) st"
  obtain actions fa where a: "fold (checkContribution (js ''Action'') PLUGIN_REGISTRY_ACTION_COLLISION
      (map fst (rs_actions reg)) ?p) (nb_actions b) (st_actions ?st, st_findings ?st) = (actions, fa)"
    by fastforce
  obtain workflows fw where w: "fold (checkContribution (js ''Workflow'') PLUGIN_REGISTRY_WORKFLOW_COLLISION
      (map fst (rs_workflows reg)) ?p) (nb_workflows b) (st_workflows ?st, fa) = (workflows, fw)"
    by fastforce
  obtain blockers fb where l: "fold (checkContribution (js ''PRMS blocker'') PLUGIN_REGISTRY_PRMS_BLOCKER_COLLISION
      (map fst (rs_prmsBlockers reg)) ?p) (nb_prmsBlockers b) (st_prmsBlockers ?st, fw) = (blockers, fb)"
    by fastforce
  have "checkBatch reg b st = ?st\<lparr>st_actions := actions, st_workflows := workflows,
      st_prmsBlockers := blockers, st_findings := fb\<rparr>"
    by (simp add: checkBatch_def Let_def a w l)
  with fold_checkContribution [OF a] fold_checkContribution [OF w] fold_checkContribution [OF l]
  show ?thesis
    by (auto simp: Let_def checkPlugin_step pluginsFree_def setAdd_new)
qed

lemma fold_checkBatch:
  "(st_findings (fold (checkBatch reg) bs st) = [] \<longleftrightarrow> st_findings st = []
      \<and> pluginsFree (fst ` set (rs_plugins reg) \<union> set (st_plugins st)) (map nb_plugin bs)
      \<and> contributionsFree (fst ` set (rs_actions reg) \<union> set (st_actions st)) (concat (map nb_actions bs))
      \<and> contributionsFree (fst ` set (rs_workflows reg) \<union> set (st_workflows st))
          (concat (map nb_workflows bs))
      \<and> contributionsFree (fst ` set (rs_prmsBlockers reg) \<union> set (st_prmsBlockers st))
          (concat (map nb_prmsBlockers bs)))
   \<and> (st_findings (fold (checkBatch reg) bs st) = [] \<longrightarrow>
        st_plugins (fold (checkBatch reg) bs st) = st_plugins st @ map (rp_id \<circ> nb_plugin) bs
        \<and> st_actions (fold (checkBatch reg) bs st) = st_actions st @ map rg_id (concat (map nb_actions bs))
        \<and> st_workflows (fold (checkBatch reg) bs st)
            = st_workflows st @ map rg_id (concat (map nb_workflows bs))
        \<and> st_prmsBlockers (fold (checkBatch reg) bs st)
            = st_prmsBlockers st @ map rg_id (concat (map nb_prmsBlockers bs)))"
proof (induction bs arbitrary: st)
  case Nil
  then show ?case by (simp add: pluginsFree_def)
next
  case (Cons b bs)
  note step = checkBatch_step [of reg b st, unfolded Let_def]
  note IH = Cons.IH [of "checkBatch reg b st"]
  have plugins: "pluginsFree taken (map nb_plugin (b # bs)) \<longleftrightarrow> pluginsFree taken [nb_plugin b]
      \<and> pluginsFree (insert (rp_id (nb_plugin b)) taken) (map nb_plugin bs)" for taken
    by (auto simp: pluginsFree_def)
  show ?case
    unfolding plugins using step IH
    by (simp only: fold.simps comp_def list.map concat.simps map_append append_assoc
        contributionsFree_append Un_assoc set_map Un_insert_right) (simp; blast)
qed

lemma preflight_cases:
  obtains (refused) e where "preflight reg batches = Inl e" "\<not> registrable reg (normalizeBatches batches)"
      "pe_findings e \<noteq> []"
  | (accepted) pre reg' where "preflight reg batches = Inr (pre, reg')"
      "registrable reg (normalizeBatches batches)"
      "pre = \<lparr>pr_identity = (rs_instance reg, length (rs_prepared reg)), pr_revision = rs_revision reg,
         pr_pluginIds = sort (map (rp_id \<circ> nb_plugin) (normalizeBatches batches)),
         pr_contributionIds = sort (map rg_id (concat (map nb_actions (normalizeBatches batches)))
           @ map rg_id (concat (map nb_workflows (normalizeBatches batches)))
           @ map rg_id (concat (map nb_prmsBlockers (normalizeBatches batches))))\<rparr>"
      "reg' = reg\<lparr>rs_prepared := AList.update (rs_instance reg, length (rs_prepared reg))
         \<lparr>pp_revision = rs_revision reg, pp_batches = normalizeBatches batches, pp_consumed = False\<rparr>
         (rs_prepared reg)\<rparr>"
proof -
  let ?st = "fold (checkBatch reg) (normalizeBatches batches) emptyStaging"
  note st = fold_checkBatch [of reg "normalizeBatches batches" emptyStaging]
  show thesis
  proof (cases "st_findings ?st = []")
    case True
    with st show ?thesis
      by (intro accepted) (auto simp: preflight_def Let_def registrable_def emptyStaging_def)
  next
    case False
    then have "pe_findings (pluginHostError (sortFindings (st_findings ?st))) \<noteq> []"
      by (metis pe_findings_set set_empty set_sortFindings)
    with False st show ?thesis
      by (intro refused) (auto simp: preflight_def Let_def registrable_def emptyStaging_def)
  qed
qed

text \<open>Entering new identifiers appends them.\<close>

lemma update_new: "k \<notin> fst ` set al \<Longrightarrow> AList.update k v al = al @ [(k, v)]"
  by (induction al) auto

lemma in_set_update: "(i, x) \<in> set (AList.update k v al) \<Longrightarrow> (i, x) \<in> set al \<or> i = k \<and> x = v"
  by (induction al) (auto split: if_splits)

lemma enterAll_new:
  "distinct (map rg_id cs) \<Longrightarrow> set (map rg_id cs) \<inter> fst ` set al = {} \<Longrightarrow>
   enterAll cs al = al @ map (\<lambda>c. (rg_id c, c)) cs"
  unfolding enterAll_def by (induction cs arbitrary: al) (auto simp: update_new)

lemma enterAll_free:
  "contributionsFree (fst ` set al) cs \<Longrightarrow> enterAll cs al = al @ map (\<lambda>c. (rg_id c, c)) cs"
  by (simp add: contributionsFree_def enterAll_new)

lemma registrable_Cons:
  "registrable reg (b # bs) \<longleftrightarrow>
     validPluginId (rp_id (nb_plugin b)) \<and> rp_sourceRef (nb_plugin b) \<noteq> []
     \<and> rp_id (nb_plugin b) \<notin> fst ` set (rs_plugins reg)
     \<and> contributionsFree (fst ` set (rs_actions reg)) (nb_actions b)
     \<and> contributionsFree (fst ` set (rs_workflows reg)) (nb_workflows b)
     \<and> contributionsFree (fst ` set (rs_prmsBlockers reg)) (nb_prmsBlockers b)
     \<and> pluginsFree (insert (rp_id (nb_plugin b)) (fst ` set (rs_plugins reg))) (map nb_plugin bs)
     \<and> contributionsFree (fst ` set (rs_actions reg) \<union> rg_id ` set (nb_actions b))
         (concat (map nb_actions bs))
     \<and> contributionsFree (fst ` set (rs_workflows reg) \<union> rg_id ` set (nb_workflows b))
         (concat (map nb_workflows bs))
     \<and> contributionsFree (fst ` set (rs_prmsBlockers reg) \<union> rg_id ` set (nb_prmsBlockers b))
         (concat (map nb_prmsBlockers bs))"
  by (auto simp: registrable_def pluginsFree_Cons contributionsFree_append)

lemma enterBatches_new:
  "registrable reg bs \<Longrightarrow>
   fold enterBatch bs reg = reg
     \<lparr>rs_plugins := rs_plugins reg @ map (\<lambda>b. (rp_id (nb_plugin b), nb_plugin b)) bs,
      rs_actions := rs_actions reg @ map (\<lambda>c. (rg_id c, c)) (concat (map nb_actions bs)),
      rs_workflows := rs_workflows reg @ map (\<lambda>c. (rg_id c, c)) (concat (map nb_workflows bs)),
      rs_prmsBlockers := rs_prmsBlockers reg @ map (\<lambda>c. (rg_id c, c)) (concat (map nb_prmsBlockers bs))\<rparr>"
proof (induction bs arbitrary: reg)
  case (Cons b bs)
  have enter: "enterBatch b reg = reg
     \<lparr>rs_plugins := rs_plugins reg @ [(rp_id (nb_plugin b), nb_plugin b)],
      rs_actions := rs_actions reg @ map (\<lambda>c. (rg_id c, c)) (nb_actions b),
      rs_workflows := rs_workflows reg @ map (\<lambda>c. (rg_id c, c)) (nb_workflows b),
      rs_prmsBlockers := rs_prmsBlockers reg @ map (\<lambda>c. (rg_id c, c)) (nb_prmsBlockers b)\<rparr>"
    using Cons.prems by (simp add: enterBatch_def registrable_Cons update_new enterAll_free)
  have "registrable (enterBatch b reg) bs"
    using Cons.prems unfolding enter registrable_Cons
    by (simp add: registrable_def image_Un image_image)
  from Cons.IH [OF this] show ?case by (simp add: enter)
qed simp

section \<open>The registry over time\<close>

text \<open>
  A step of a registry is a preflight or a commit that succeeds; a failing one changes nothing.
  A commit may be tried with any preflight object, of this registry or not.
\<close>

inductive registry_step ::
  "('p, 'a, 'w, 'b) PluginRegistrySet \<Rightarrow> ('p, 'a, 'w, 'b) PluginRegistrySet \<Rightarrow> bool" where
  step_preflight: "preflight reg batches = Inr (pre, reg') \<Longrightarrow> registry_step reg reg'"
| step_commit: "commit reg pre = Inr (summary, reg') \<Longrightarrow> registry_step reg reg'"

inductive_cases registry_stepE: "registry_step reg reg'"

definition contributionsOk ::
  "('p, 'a, 'w, 'b) PluginRegistrySet \<Rightarrow> RegisteredKind set \<Rightarrow> (jstring \<times> 'v Registered) list \<Rightarrow> bool" where
  "contributionsOk reg kinds al \<longleftrightarrow>
     distinct (map fst al)
     \<and> (\<forall>(k, c) \<in> set al. k = rg_id c
          \<and> k = canonicalPluginContributionId (rg_pluginId c) (rg_localId c)
          \<and> validLocalId (rg_localId c) \<and> rg_kind c \<in> kinds
          \<and> (\<exists>p. (rg_pluginId c, p) \<in> set (rs_plugins reg) \<and> rg_sourceRef c = rp_sourceRef p))"

definition pluginsOk :: "(jstring \<times> 'p RegistryPlugin) list \<Rightarrow> bool" where
  "pluginsOk al \<longleftrightarrow>
     distinct (map fst al) \<and> (\<forall>(k, p) \<in> set al. k = rp_id p \<and> validPluginId k \<and> rp_sourceRef p \<noteq> [])"

definition mapsOk :: "('p, 'a, 'w, 'b) PluginRegistrySet \<Rightarrow> bool" where
  "mapsOk reg \<longleftrightarrow>
     pluginsOk (rs_plugins reg)
     \<and> contributionsOk reg {ActionAlias, BundledAction} (rs_actions reg)
     \<and> contributionsOk reg {WorkflowAlias, BundledWorkflow} (rs_workflows reg)
     \<and> contributionsOk reg {PrmsBlocker} (rs_prmsBlockers reg)"

definition normalOk :: "'p RegistryPlugin \<Rightarrow> RegisteredKind set \<Rightarrow> 'v Registered list \<Rightarrow> bool" where
  "normalOk plugin kinds cs \<longleftrightarrow>
     (\<forall>c \<in> set cs. rg_id c = canonicalPluginContributionId (rg_pluginId c) (rg_localId c)
        \<and> rg_kind c \<in> kinds \<and> rg_pluginId c = rp_id plugin \<and> rg_sourceRef c = rp_sourceRef plugin)"

definition batchNormal :: "('p, 'a, 'w, 'b) NormalizedBatch \<Rightarrow> bool" where
  "batchNormal b \<longleftrightarrow>
     normalOk (nb_plugin b) {ActionAlias, BundledAction} (nb_actions b)
     \<and> normalOk (nb_plugin b) {WorkflowAlias, BundledWorkflow} (nb_workflows b)
     \<and> normalOk (nb_plugin b) {PrmsBlocker} (nb_prmsBlockers b)"

text \<open>A prepared registration that can still be committed is one the registry can take.\<close>

definition preparedOk :: "('p, 'a, 'w, 'b) PluginRegistrySet \<Rightarrow> bool" where
  "preparedOk reg \<longleftrightarrow>
     distinct (map fst (rs_prepared reg))
     \<and> (\<forall>(i, pp) \<in> set (rs_prepared reg).
          fst i = rs_instance reg \<and> snd i < length (rs_prepared reg) \<and> pp_revision pp \<le> rs_revision reg
          \<and> (\<forall>b \<in> set (pp_batches pp). batchNormal b)
          \<and> (pp_revision pp = rs_revision reg \<longrightarrow> \<not> pp_consumed pp \<longrightarrow> registrable reg (pp_batches pp)))"

lemma normalizeBatch_normal: "batchNormal (normalizeBatch b)"
  by (auto simp: batchNormal_def normalOk_def normalizeBatch_def normalizeContribution_def Let_def)

lemma normalizeBatches_normal: "\<forall>b \<in> set (normalizeBatches bs). batchNormal b"
  by (auto simp: normalizeBatches_def normalizeBatch_normal)

lemma registrable_maps:
  assumes "rs_plugins reg' = rs_plugins reg" and "rs_actions reg' = rs_actions reg"
    and "rs_workflows reg' = rs_workflows reg" and "rs_prmsBlockers reg' = rs_prmsBlockers reg"
  shows "registrable reg' bs = registrable reg bs" and "mapsOk reg' = mapsOk reg"
  using assms by (simp_all add: registrable_def mapsOk_def contributionsOk_def)

lemma pluginsOk_append:
  assumes "pluginsOk al" and "pluginsFree (fst ` set al) (map nb_plugin bs)"
  shows "pluginsOk (al @ map (\<lambda>b. (rp_id (nb_plugin b), nb_plugin b)) bs)"
  using assms by (auto simp: pluginsOk_def pluginsFree_def comp_def)

lemma contributionsOk_append:
  assumes "contributionsOk reg kinds al" and "contributionsFree (fst ` set al) (concat (map f bs))"
    and "\<forall>b \<in> set bs. normalOk (nb_plugin b) kinds (f b)"
    and "set (rs_plugins reg) \<union> (\<lambda>b. (rp_id (nb_plugin b), nb_plugin b)) ` set bs \<subseteq> set (rs_plugins reg')"
  shows "contributionsOk reg' kinds (al @ map (\<lambda>c. (rg_id c, c)) (concat (map f bs)))"
proof -
  have "\<exists>p. (rg_pluginId c, p) \<in> set (rs_plugins reg') \<and> rg_sourceRef c = rp_sourceRef p"
    if "b \<in> set bs" "c \<in> set (f b)" for b c
  proof (intro exI [of _ "nb_plugin b"] conjI)
    show "(rg_pluginId c, nb_plugin b) \<in> set (rs_plugins reg')" "rg_sourceRef c = rp_sourceRef (nb_plugin b)"
      using that assms(3, 4) by (auto simp: normalOk_def)
  qed
  then have new: "\<forall>c \<in> set (concat (map f bs)). rg_id c = canonicalPluginContributionId (rg_pluginId c) (rg_localId c)
      \<and> validLocalId (rg_localId c) \<and> rg_kind c \<in> kinds
      \<and> (\<exists>p. (rg_pluginId c, p) \<in> set (rs_plugins reg') \<and> rg_sourceRef c = rp_sourceRef p)"
    using assms(2, 3) by (auto simp: normalOk_def contributionsFree_def)
  have old: "\<forall>(k, c) \<in> set al. k = rg_id c
      \<and> k = canonicalPluginContributionId (rg_pluginId c) (rg_localId c)
      \<and> validLocalId (rg_localId c) \<and> rg_kind c \<in> kinds
      \<and> (\<exists>p. (rg_pluginId c, p) \<in> set (rs_plugins reg') \<and> rg_sourceRef c = rp_sourceRef p)"
    using assms(1, 4) unfolding contributionsOk_def by fast
  have keys: "map fst (al @ map (\<lambda>c. (rg_id c, c)) (concat (map f bs)))
      = map fst al @ map rg_id (concat (map f bs))"
    by (simp add: comp_def)
  have "distinct (map fst al @ map rg_id (concat (map f bs)))"
    using assms(1, 2) unfolding contributionsOk_def contributionsFree_def distinct_append set_map by blast
  then have "distinct (map fst (al @ map (\<lambda>c. (rg_id c, c)) (concat (map f bs))))" unfolding keys .
  with new old show ?thesis unfolding contributionsOk_def by auto
qed

lemma commit_cases:
  obtains (refused) e where "commit reg pre = Inl e"
  | (committed) prepared where "map_of (rs_prepared reg) (pr_identity pre) = Some prepared"
      "\<not> pp_consumed prepared" "pp_revision prepared = rs_revision reg"
      "commit reg pre =
         Inr (\<lparr>cs_revision = rs_revision (fold enterBatch (pp_batches prepared) reg) + 1,
               cs_pluginIds = pr_pluginIds pre, cs_contributionIds = pr_contributionIds pre\<rparr>,
           (fold enterBatch (pp_batches prepared) reg)
             \<lparr>rs_prepared := AList.update (pr_identity pre) (prepared\<lparr>pp_consumed := True\<rparr>)
                (rs_prepared (fold enterBatch (pp_batches prepared) reg)),
              rs_revision := rs_revision (fold enterBatch (pp_batches prepared) reg) + 1\<rparr>)"
proof (cases "map_of (rs_prepared reg) (pr_identity pre)")
  case None
  then show ?thesis by (intro refused) (simp add: commit_def)
next
  case (Some prepared)
  show ?thesis
  proof (cases "pp_consumed prepared \<or> pp_revision prepared \<noteq> rs_revision reg")
    case True
    with Some obtain e where "commit reg pre = Inl e"
      by (cases "pp_consumed prepared") (auto simp: commit_def)
    then show ?thesis by (rule refused)
  next
    case False
    with Some show ?thesis by (intro committed) (simp_all add: commit_def Let_def)
  qed
qed

lemma registry_preflight_ok:
  assumes "preparedOk reg" and "mapsOk reg" and "preflight reg batches = Inr (pre, reg')"
  shows "preparedOk reg' \<and> mapsOk reg'"
proof (cases rule: preflight_cases [of reg batches])
  case (accepted pre' reg'')
  let ?i = "(rs_instance reg, length (rs_prepared reg))"
  let ?pp = "\<lparr>pp_revision = rs_revision reg, pp_batches = normalizeBatches batches, pp_consumed = False\<rparr>"
  have new: "?i \<notin> fst ` set (rs_prepared reg)" using assms(1) by (auto simp: preparedOk_def)
  with accepted(4) have reg'': "reg'' = reg\<lparr>rs_prepared := rs_prepared reg @ [(?i, ?pp)]\<rparr>"
    by (simp add: update_new)
  have "registrable reg'' bs = registrable reg bs" for bs by (simp add: reg'' registrable_def)
  then have "preparedOk reg''"
    using assms(1) new accepted(2) normalizeBatches_normal [of batches]
    unfolding preparedOk_def by (auto simp: reg'' less_Suc_eq)
  moreover have "mapsOk reg''" using assms(2) by (simp add: reg'' mapsOk_def contributionsOk_def)
  ultimately show ?thesis using assms(3) accepted(1) by simp
qed (use assms(3) in simp)

lemma registry_commit_ok:
  assumes "preparedOk reg" and "mapsOk reg" and "commit reg pre = Inr (summary, reg')"
  shows "preparedOk reg' \<and> mapsOk reg'"
proof (cases rule: commit_cases [of reg pre])
  case (committed prepared)
  let ?bs = "pp_batches prepared"
  from committed(1) have mem: "(pr_identity pre, prepared) \<in> set (rs_prepared reg)" by (rule map_of_SomeD)
  with assms(1) committed(2, 3) have free: "registrable reg ?bs" and normal: "\<forall>b \<in> set ?bs. batchNormal b"
    unfolding preparedOk_def by fastforce+
  have reg': "reg' = (fold enterBatch ?bs reg)
      \<lparr>rs_prepared := AList.update (pr_identity pre) (prepared\<lparr>pp_consumed := True\<rparr>) (rs_prepared reg),
       rs_revision := rs_revision reg + 1\<rparr>"
    using committed(4) assms(3) by (simp add: enterBatches_new [OF free])
  have keys: "map fst (rs_prepared reg') = map fst (rs_prepared reg)"
    using mem by (simp add: reg' update_keys) force
  then have len: "length (rs_prepared reg') = length (rs_prepared reg)" by (metis length_map)
  have inst: "rs_instance reg' = rs_instance reg" "rs_revision reg' = rs_revision reg + 1"
    by (simp_all add: reg' enterBatches_new [OF free])
  have "preparedOk reg'"
    unfolding preparedOk_def keys len inst
  proof (intro conjI ballI)
    show "distinct (map fst (rs_prepared reg))" using assms(1) by (simp add: preparedOk_def)
  next
    fix x
    assume x: "x \<in> set (rs_prepared reg')"
    obtain i pp where i: "x = (i, pp)" by (cases x)
    have "(i, pp) \<in> set (rs_prepared reg) \<or> i = pr_identity pre \<and> pp = prepared\<lparr>pp_consumed := True\<rparr>"
      using x i by (auto simp: reg' dest: in_set_update)
    with assms(1) mem show "case x of (i, pp) \<Rightarrow> fst i = rs_instance reg \<and> snd i < length (rs_prepared reg)
        \<and> pp_revision pp \<le> rs_revision reg + 1 \<and> (\<forall>b \<in> set (pp_batches pp). batchNormal b)
        \<and> (pp_revision pp = rs_revision reg + 1 \<longrightarrow> \<not> pp_consumed pp \<longrightarrow> registrable reg' (pp_batches pp))"
      unfolding preparedOk_def i by fastforce
  qed
  moreover have "mapsOk reg'"
    using assms(2) free normal
    by (auto simp: mapsOk_def reg' enterBatches_new [OF free] registrable_def batchNormal_def
        intro!: pluginsOk_append contributionsOk_append)
  ultimately show ?thesis ..
qed (use assms(3) in simp)

text \<open>A registration refuses its batches with findings, or appends their contents.\<close>

lemma registerBatches_cases:
  assumes "preparedOk reg"
  obtains (refused) e where "registerBatches reg batches = Inl e" "\<not> registrable reg (normalizeBatches batches)"
      "pe_findings e \<noteq> []"
  | (registered) summary reg' where "registerBatches reg batches = Inr (summary, reg')"
      "registrable reg (normalizeBatches batches)"
      "rs_plugins reg' = rs_plugins reg @ map (\<lambda>b. (rp_id (nb_plugin b), nb_plugin b)) (normalizeBatches batches)"
      "rs_actions reg' = rs_actions reg
         @ map (\<lambda>c. (rg_id c, c)) (concat (map nb_actions (normalizeBatches batches)))"
      "rs_workflows reg' = rs_workflows reg
         @ map (\<lambda>c. (rg_id c, c)) (concat (map nb_workflows (normalizeBatches batches)))"
      "rs_prmsBlockers reg' = rs_prmsBlockers reg
         @ map (\<lambda>c. (rg_id c, c)) (concat (map nb_prmsBlockers (normalizeBatches batches)))"
      "rs_revision reg' = rs_revision reg + 1" "cs_revision summary = rs_revision reg'"
      "cs_pluginIds summary = sort (map (rp_id \<circ> nb_plugin) (normalizeBatches batches))"
proof (cases rule: preflight_cases [of reg batches])
  case (refused e)
  with that(1) show ?thesis by (simp add: registerBatches_def)
next
  case (accepted pre reg')
  let ?i = "(rs_instance reg, length (rs_prepared reg))" and ?bs = "normalizeBatches batches"
  have "?i \<notin> fst ` set (rs_prepared reg)" using assms by (auto simp: preparedOk_def)
  with accepted(3, 4) have "map_of (rs_prepared reg') (pr_identity pre)
      = Some \<lparr>pp_revision = rs_revision reg, pp_batches = ?bs, pp_consumed = False\<rparr>"
    by (simp add: update_conv')
  moreover have "registrable reg' ?bs" and "rs_revision reg' = rs_revision reg"
    using accepted(2, 4) by (simp_all add: registrable_def)
  moreover define reg2 where "reg2 = (fold enterBatch ?bs reg')
    \<lparr>rs_prepared := AList.update ?i \<lparr>pp_revision = rs_revision reg, pp_batches = ?bs, pp_consumed = True\<rparr>
       (rs_prepared (fold enterBatch ?bs reg')),
     rs_revision := rs_revision (fold enterBatch ?bs reg') + 1\<rparr>"
  ultimately have result: "registerBatches reg batches
      = Inr (\<lparr>cs_revision = rs_revision reg2, cs_pluginIds = pr_pluginIds pre, cs_contributionIds = pr_contributionIds pre\<rparr>, reg2)"
    using accepted(1, 3) by (simp add: registerBatches_def commit_def Let_def)
  from \<open>registrable reg' ?bs\<close> accepted(4) show ?thesis
    by (intro that(2) [OF result accepted(2)]) (simp_all add: reg2_def enterBatches_new accepted(3))
qed

lemma registerBatches_ok:
  assumes "preparedOk reg" and "mapsOk reg" and "registerBatches reg batches = Inr (summary, reg')"
  shows "preparedOk reg' \<and> mapsOk reg'"
proof -
  from assms(3) obtain pre reg1 where pre: "preflight reg batches = Inr (pre, reg1)"
    and commit: "commit reg1 pre = Inr (summary, reg')"
    by (auto simp: registerBatches_def split: sum.splits)
  from registry_preflight_ok [OF assms(1, 2) pre] have "preparedOk reg1" "mapsOk reg1" by simp_all
  then show ?thesis using commit by (rule registry_commit_ok)
qed

interpretation registry: inductive_invariant "\<lambda>reg. reg = emptyRegistry inst" registry_step
    "\<lambda>reg. preparedOk reg \<and> mapsOk reg" for inst
proof
  show "preparedOk reg \<and> mapsOk reg" if "reg = emptyRegistry inst" for reg
    using that by (simp add: emptyRegistry_def preparedOk_def mapsOk_def pluginsOk_def contributionsOk_def)
  show "preparedOk reg' \<and> mapsOk reg'" if "preparedOk reg \<and> mapsOk reg" and "registry_step reg reg'" for reg reg'
    using that registry_preflight_ok registry_commit_ok by (blast elim: registry_stepE)
qed

end
