(* ===== verification/HostValidation.thy ===== *)
theory HostValidation
  imports PluginValues PluginFindings PluginRegistry
begin

text \<open>
  The validation of what the plugin host is given (\<open>packages/plugin-host/src/host-validation.ts\<close>):
  activation evidence against the record of the plugin, and the decisions of the policy.
  \<open>Date.parse\<close> is an argument: whether it gives a finite time.
\<close>

section \<open>Errors and primitive checks\<close>

record HostInputValidationError =
  hv_code :: PluginHostFindingCode
  hv_path :: jstring
  hv_message :: jstring

definition failInput :: "PluginHostFindingCode \<Rightarrow> jstring \<Rightarrow> string \<Rightarrow> HostInputValidationError" where
  "failInput code path message = \<lparr>hv_code = code, hv_path = path, hv_message = js message\<rparr>"

abbreviation evidenceInvalid :: "jstring \<Rightarrow> string \<Rightarrow> HostInputValidationError" where
  "evidenceInvalid \<equiv> failInput PLUGIN_HOST_ACTIVATION_EVIDENCE_INVALID"

abbreviation evidenceMismatch :: "jstring \<Rightarrow> string \<Rightarrow> HostInputValidationError" where
  "evidenceMismatch \<equiv> failInput PLUGIN_HOST_ACTIVATION_EVIDENCE_MISMATCH"

abbreviation decisionInvalid :: "jstring \<Rightarrow> string \<Rightarrow> HostInputValidationError" where
  "decisionInvalid \<equiv> failInput PLUGIN_HOST_POLICY_DECISION_INVALID"

definition subPath :: "jstring \<Rightarrow> jstring \<Rightarrow> jstring" where
  "subPath path k = path @ [slash] @ k"

fun missingField :: "jstring \<Rightarrow> (jstring \<times> unknown) list \<Rightarrow> jstring list \<Rightarrow> HostInputValidationError option"
where
  "missingField path own [] = None"
| "missingField path own (k # ks) =
     (if map_of own k = None then Some (evidenceInvalid (subPath path k) ''Required evidence field is missing.'')
      else missingField path own ks)"

definition dataObject ::
  "unknown option \<Rightarrow> jstring \<Rightarrow> jstring list \<Rightarrow> jstring list \<Rightarrow>
   HostInputValidationError + (jstring \<times> unknown) list" where
  "dataObject v path required optional =
     (case v of
        Some (UObject plain props) \<Rightarrow>
          if \<not> plain then Inl (evidenceInvalid path ''Custom prototypes are forbidden.'')
          else
            (case readProperties (\<lambda>k. k \<in> set required \<or> k \<in> set optional)
                    (evidenceInvalid path ''Evidence contains an unknown or symbol field.'')
                    (\<lambda>k. evidenceInvalid (subPath path k) ''Evidence fields must be enumerable data properties.'')
                    props of
               Inl e \<Rightarrow> Inl e
             | Inr own \<Rightarrow>
                 (case missingField path own required of Some e \<Rightarrow> Inl e | None \<Rightarrow> Inr own))
      | _ \<Rightarrow> Inl (evidenceInvalid path ''Expected a plain data object.''))"

definition boundedString :: "unknown option \<Rightarrow> jstring \<Rightarrow> nat \<Rightarrow> HostInputValidationError + jstring" where
  "boundedString v path limit =
     (case v of
        Some (UText s) \<Rightarrow>
          if s = [] \<or> limit < codePoints s \<or> \<not> safeText s
          then Inl (evidenceInvalid path ''Expected bounded control-free text.'')
          else Inr s
      | _ \<Rightarrow> Inl (evidenceInvalid path ''Expected bounded control-free text.''))"

text \<open>\<open>map\<close> skips the holes of an array and keeps them in its result.\<close>

fun checkItems ::
  "(nat \<Rightarrow> jstring list \<Rightarrow> unknown \<Rightarrow> 'e + jstring) \<Rightarrow> nat \<Rightarrow> jstring list \<Rightarrow> unknown option list \<Rightarrow>
   'e + jstring option list" where
  "checkItems check i seen [] = Inr []"
| "checkItems check i seen (None # items) =
     (case checkItems check (i + 1) seen items of Inl e \<Rightarrow> Inl e | Inr ts \<Rightarrow> Inr (None # ts))"
| "checkItems check i seen (Some v # items) =
     (case check i seen v of
        Inl e \<Rightarrow> Inl e
      | Inr t \<Rightarrow>
          (case checkItems check (i + 1) (t # seen) items of Inl e \<Rightarrow> Inl e | Inr ts \<Rightarrow> Inr (Some t # ts)))"

definition checkReference ::
  "jstring \<Rightarrow> nat \<Rightarrow> jstring list \<Rightarrow> unknown \<Rightarrow> HostInputValidationError + jstring" where
  "checkReference path i seen v =
     (case boundedString (Some v) (subPath path (js_nat i)) 256 of
        Inl e \<Rightarrow> Inl e
      | Inr t \<Rightarrow>
          if t \<in> set seen then Inl (evidenceInvalid (subPath path (js_nat i)) ''Duplicate evidence reference.'')
          else Inr t)"

definition stringArray ::
  "unknown option \<Rightarrow> jstring \<Rightarrow> HostInputValidationError + jstring option list" where
  "stringArray v path =
     (case v of
        Some (UArray items) \<Rightarrow>
          if 32 < length items then Inl (evidenceInvalid path ''Expected a bounded evidence reference array.'')
          else checkItems (checkReference path) 0 [] items
      | _ \<Rightarrow> Inl (evidenceInvalid path ''Expected a bounded evidence reference array.''))"

section \<open>Activation evidence\<close>

datatype EvidenceSource =
  BundledSource jstring "jstring option list"
| LockedManifest RegistryProviderKind jstring jstring jstring

record ActivationEvidence =
  ae_pluginId :: jstring
  ae_version :: jstring
  ae_observedAt :: jstring
  ae_actorId :: jstring
  ae_actorKind :: jstring
  ae_actorProvider :: jstring
  ae_required :: bool
  ae_satisfied :: bool
  ae_evidenceRefs :: "jstring option list"
  ae_source :: EvidenceSource

datatype EvidenceExpectation =
  DeclarativeEvidence jstring jstring RegistryProviderKind jstring jstring jstring
| BundledEvidence jstring jstring jstring

primrec expectedProvider :: "EvidenceExpectation \<Rightarrow> jstring" where
  "expectedProvider (DeclarativeEvidence i v kind ref sha lock) = providerText kind"
| "expectedProvider (BundledEvidence i v composition) = js ''bundled''"

primrec expectedId :: "EvidenceExpectation \<Rightarrow> jstring" where
  "expectedId (DeclarativeEvidence i v kind ref sha lock) = i"
| "expectedId (BundledEvidence i v composition) = i"

primrec expectedVersion :: "EvidenceExpectation \<Rightarrow> jstring" where
  "expectedVersion (DeclarativeEvidence i v kind ref sha lock) = v"
| "expectedVersion (BundledEvidence i v composition) = v"

definition providerKinds :: "jstring list" where
  "providerKinds = [js ''built-in'', js ''bundled'', js ''workspace'', js ''plugin'']"

definition actorKinds :: "jstring list" where
  "actorKinds = [js ''human'', js ''agent'', js ''system'', js ''application'']"

definition isHash :: "jstring \<Rightarrow> bool" where
  "isHash s \<longleftrightarrow> length s = 64 \<and> (\<forall>c \<in> set s. is_digit c \<or> 97 \<le> c \<and> c \<le> 102)"

text \<open>Sequencing of checks that may fail.\<close>

definition check_bind :: "'e + 'a \<Rightarrow> ('a \<Rightarrow> 'e + 'b) \<Rightarrow> 'e + 'b" where
  "check_bind x f = (case x of Inl e \<Rightarrow> Inl e | Inr v \<Rightarrow> f v)"

definition require :: "bool \<Rightarrow> 'e \<Rightarrow> 'e + unit" where
  "require b e = (if b then Inr () else Inl e)"

lemma check_bind_Inr [simp]: "check_bind x f = Inr y \<longleftrightarrow> (\<exists>v. x = Inr v \<and> f v = Inr y)"
  by (cases x) (simp_all add: check_bind_def)

lemma check_bind_simps [simp]: "check_bind (Inr v) f = f v" "check_bind (Inl e) f = Inl e"
  by (simp_all add: check_bind_def)

lemma require_Inr [simp]: "require b e = Inr u \<longleftrightarrow> b"
  by (simp add: require_def)

definition evidenceSource ::
  "unknown option \<Rightarrow> EvidenceExpectation \<Rightarrow> HostInputValidationError + EvidenceSource" where
  "evidenceSource v expected =
     (case expected of
        BundledEvidence i version composition \<Rightarrow>
          check_bind (dataObject v (js ''/source'')
              [js ''kind'', js ''compositionId'', js ''reviewEvidenceRefs''] []) (\<lambda>source.
          check_bind (require (isLiteral (map_of source (js ''kind'')) (js ''bundled'')
                \<and> isLiteral (map_of source (js ''compositionId'')) composition)
              (evidenceMismatch (js ''/source'') ''Bundled source does not match the sealed host composition.'')) (\<lambda>_.
          check_bind (boundedString (map_of source (js ''compositionId'')) (js ''/source/compositionId'') 128) (\<lambda>c.
          check_bind (stringArray (map_of source (js ''reviewEvidenceRefs'')) (js ''/source/reviewEvidenceRefs'')) (\<lambda>refs.
          Inr (BundledSource c refs)))))
      | DeclarativeEvidence i version kind ref sha lock \<Rightarrow>
          check_bind (dataObject v (js ''/source'')
              [js ''kind'', js ''sourceRef'', js ''manifestSha256'', js ''lockManifestSha256'', js ''integrityMatched'']
              []) (\<lambda>source.
          check_bind (require (isLiteral (map_of source (js ''kind'')) (js ''locked_manifest'')
                \<and> isLiteral (map_of source (js ''sourceRef'')) ref
                \<and> isLiteral (map_of source (js ''manifestSha256'')) sha
                \<and> isLiteral (map_of source (js ''lockManifestSha256'')) lock
                \<and> map_of source (js ''integrityMatched'') = Some (UBool True))
              (evidenceMismatch (js ''/source'')
                 ''Activation evidence does not match the integrity-verified byte snapshot.'')) (\<lambda>_.
          check_bind (require (isHash sha \<and> isHash lock)
              (evidenceInvalid (js ''/source'') ''Manifest hashes must be lowercase SHA-256 values.'')) (\<lambda>_.
          check_bind (boundedString (map_of source (js ''sourceRef'')) (js ''/source/sourceRef'') 512) (\<lambda>r.
          Inr (LockedManifest kind r sha lock))))))"

definition actorKindOf :: "unknown option \<Rightarrow> HostInputValidationError + jstring" where
  "actorKindOf v =
     (let e = evidenceInvalid (js ''/actor/kind'') ''Unknown actor kind.''
      in case v of
           Some (UText k) \<Rightarrow> if k \<in> set actorKinds then Inr k else Inl e
         | _ \<Rightarrow> Inl e)"

definition approvalFlag :: "unknown option \<Rightarrow> HostInputValidationError + bool" where
  "approvalFlag v =
     (case isBool v of
        Some b \<Rightarrow> Inr b
      | None \<Rightarrow> Inl (evidenceInvalid (js ''/humanApproval'') ''Approval flags must be boolean.''))"

definition normalizeActivationEvidence ::
  "(jstring \<Rightarrow> bool) \<Rightarrow> unknown \<Rightarrow> EvidenceExpectation \<Rightarrow> HostInputValidationError + ActivationEvidence" where
  "normalizeActivationEvidence isDate v expected =
     check_bind (dataObject (Some v) []
         [js ''schema'', js ''plugin'', js ''observedAt'', js ''actor'', js ''humanApproval'',
          js ''providerKind'', js ''source''] []) (\<lambda>root.
     check_bind (require (isLiteral (map_of root (js ''schema'')) (js ''openslack.plugin_activation_evidence.v1''))
         (evidenceInvalid (js ''/schema'') ''Activation evidence schema is unsupported.'')) (\<lambda>_.
     check_bind (require (expectedProvider expected \<in> set providerKinds
           \<and> isLiteral (map_of root (js ''providerKind'')) (expectedProvider expected))
         (evidenceMismatch (js ''/providerKind'')
            ''Provider kind does not match the host-owned plugin record.'')) (\<lambda>_.
     check_bind (dataObject (map_of root (js ''plugin'')) (js ''/plugin'') [js ''id'', js ''version''] []) (\<lambda>plugin.
     check_bind (boundedString (map_of plugin (js ''id'')) (js ''/plugin/id'') 64) (\<lambda>pluginId.
     check_bind (boundedString (map_of plugin (js ''version'')) (js ''/plugin/version'') 128) (\<lambda>version.
     check_bind (require (pluginId = expectedId expected \<and> version = expectedVersion expected)
         (evidenceMismatch (js ''/plugin'')
            ''Plugin identity does not match the host-owned plugin record.'')) (\<lambda>_.
     check_bind (boundedString (map_of root (js ''observedAt'')) (js ''/observedAt'') 64) (\<lambda>observedAt.
     check_bind (require (isDate observedAt)
         (evidenceInvalid (js ''/observedAt'') ''Observed time must be an ISO-compatible timestamp.'')) (\<lambda>_.
     check_bind (dataObject (map_of root (js ''actor'')) (js ''/actor'')
         [js ''id'', js ''kind'', js ''provider''] []) (\<lambda>actor.
     check_bind (boundedString (map_of actor (js ''id'')) (js ''/actor/id'') 128) (\<lambda>actorId.
     check_bind (actorKindOf (map_of actor (js ''kind''))) (\<lambda>actorKind.
     check_bind (boundedString (map_of actor (js ''provider'')) (js ''/actor/provider'') 64) (\<lambda>provider.
     check_bind (dataObject (map_of root (js ''humanApproval'')) (js ''/humanApproval'')
         [js ''required'', js ''satisfied'', js ''evidenceRefs''] []) (\<lambda>approval.
     check_bind (approvalFlag (map_of approval (js ''required''))) (\<lambda>required.
     check_bind (approvalFlag (map_of approval (js ''satisfied''))) (\<lambda>satisfied.
     check_bind (stringArray (map_of approval (js ''evidenceRefs'')) (js ''/humanApproval/evidenceRefs'')) (\<lambda>refs.
     check_bind (require (\<not> (required \<and> satisfied \<and> refs = []))
         (evidenceInvalid (js ''/humanApproval/evidenceRefs'')
            ''A claimed human approval requires evidence references.'')) (\<lambda>_.
     check_bind (evidenceSource (map_of root (js ''source'')) expected) (\<lambda>source.
     Inr \<lparr>ae_pluginId = pluginId, ae_version = version, ae_observedAt = observedAt,
          ae_actorId = actorId, ae_actorKind = actorKind, ae_actorProvider = provider,
          ae_required = required, ae_satisfied = satisfied, ae_evidenceRefs = refs,
          ae_source = source\<rparr>)))))))))))))))))))"

section \<open>Policy decisions\<close>

datatype PolicyOutcome = PolicyAllow | PolicyAsk | PolicyDeny

definition outcomeOf :: "unknown option \<Rightarrow> PolicyOutcome option" where
  "outcomeOf v =
     (if isLiteral v (js ''allow'') then Some PolicyAllow
      else if isLiteral v (js ''ask'') then Some PolicyAsk
      else if isLiteral v (js ''deny'') then Some PolicyDeny else None)"

record HostPolicyDecision =
  pd_outcome :: PolicyOutcome
  pd_code :: jstring
  pd_reason :: jstring
  pd_evidenceRefs :: "jstring option list"

record ActivationDecision = HostPolicyDecision +
  pd_hostAllowed :: "jstring option list"
  pd_actorAllowed :: "jstring option list"

text \<open>The capabilities a policy may name (\<open>CAPABILITIES\<close>).\<close>

definition policyCapabilities :: "jstring list" where
  "policyCapabilities =
     [js ''host.actions.read'', js ''host.workflows.read'', js ''workspace.read'', js ''github.issues.read'',
      js ''github.pull_requests.read'', js ''github.checks.read'', js ''collaboration.read'',
      js ''host.actions.plan'', js ''host.workflows.contribute'', js ''prms.blockers.append'',
      js ''github.issues.write'', js ''github.pull_requests.comment'',
      js ''github.pull_requests.merge.request'', js ''collaboration.write'', js ''workflow.execute'']"

definition checkCapability ::
  "jstring \<Rightarrow> nat \<Rightarrow> jstring list \<Rightarrow> unknown \<Rightarrow> HostInputValidationError + jstring" where
  "checkCapability path i seen v =
     (let e = decisionInvalid (subPath path (js_nat i)) ''Policy returned an unknown or duplicate capability.''
      in case v of
           UText c \<Rightarrow> if c \<notin> set policyCapabilities \<or> c \<in> set seen then Inl e else Inr c
         | _ \<Rightarrow> Inl e)"

definition capabilityArray ::
  "unknown option \<Rightarrow> jstring \<Rightarrow> HostInputValidationError + jstring option list" where
  "capabilityArray v path =
     (case v of
        Some (UArray items) \<Rightarrow>
          if 32 < length items then Inl (decisionInvalid path ''Policy capabilities must be a bounded array.'')
          else checkItems (checkCapability path) 0 [] items
      | _ \<Rightarrow> Inl (decisionInvalid path ''Policy capabilities must be a bounded array.''))"

definition decisionFields :: "jstring list" where
  "decisionFields = [js ''outcome'', js ''code'', js ''reason'', js ''evidenceRefs'']"

definition normalizeActivationDecision ::
  "unknown \<Rightarrow> HostInputValidationError + ActivationDecision" where
  "normalizeActivationDecision v =
     check_bind (dataObject (Some v) (js ''/policyDecision'') decisionFields
         [js ''hostAllowedCapabilities'', js ''actorAllowedCapabilities'']) (\<lambda>common.
     check_bind (case outcomeOf (map_of common (js ''outcome'')) of
           Some x \<Rightarrow> Inr x
         | None \<Rightarrow> Inl (decisionInvalid (js ''/policyDecision/outcome'') ''Policy outcome is invalid.'')) (\<lambda>outcome.
     check_bind (boundedString (map_of common (js ''code'')) (js ''/policyDecision/code'') 128) (\<lambda>code.
     check_bind (boundedString (map_of common (js ''reason'')) (js ''/policyDecision/reason'') 512) (\<lambda>reason.
     check_bind (stringArray (map_of common (js ''evidenceRefs'')) (js ''/policyDecision/evidenceRefs'')) (\<lambda>refs.
     let host = map_of common (js ''hostAllowedCapabilities'');
         actor = map_of common (js ''actorAllowedCapabilities'')
     in if outcome = PolicyAllow then
          check_bind (require (code = js ''PLUGIN_ACTIVATION_ALLOWED'')
              (decisionInvalid (js ''/policyDecision/code'') ''Allow decision code is invalid.'')) (\<lambda>_.
          check_bind (require (host \<noteq> None \<and> actor \<noteq> None)
              (decisionInvalid (js ''/policyDecision'') ''Allow decision is missing capability bounds.'')) (\<lambda>_.
          check_bind (capabilityArray host (js ''/policyDecision/hostAllowedCapabilities'')) (\<lambda>hostAllowed.
          check_bind (capabilityArray actor (js ''/policyDecision/actorAllowedCapabilities'')) (\<lambda>actorAllowed.
          Inr \<lparr>pd_outcome = PolicyAllow, pd_code = code, pd_reason = reason, pd_evidenceRefs = refs,
               pd_hostAllowed = hostAllowed, pd_actorAllowed = actorAllowed\<rparr>))))
        else
          check_bind (require (host = None \<and> actor = None)
              (decisionInvalid (js ''/policyDecision'') ''Non-allow decisions cannot grant capabilities.'')) (\<lambda>_.
          Inr \<lparr>pd_outcome = outcome, pd_code = code, pd_reason = reason, pd_evidenceRefs = refs,
               pd_hostAllowed = [], pd_actorAllowed = []\<rparr>))))))"

definition normalizeHostPolicyDecision :: "unknown \<Rightarrow> HostInputValidationError + HostPolicyDecision" where
  "normalizeHostPolicyDecision v =
     check_bind (dataObject (Some v) (js ''/policyDecision'') decisionFields []) (\<lambda>decision.
     check_bind (case outcomeOf (map_of decision (js ''outcome'')) of
           Some x \<Rightarrow> Inr x
         | None \<Rightarrow> Inl (decisionInvalid (js ''/policyDecision/outcome'') ''Policy outcome is invalid.'')) (\<lambda>outcome.
     check_bind (boundedString (map_of decision (js ''code'')) (js ''/policyDecision/code'') 128) (\<lambda>code.
     check_bind (boundedString (map_of decision (js ''reason'')) (js ''/policyDecision/reason'') 512) (\<lambda>reason.
     check_bind (stringArray (map_of decision (js ''evidenceRefs'')) (js ''/policyDecision/evidenceRefs'')) (\<lambda>refs.
     Inr \<lparr>pd_outcome = outcome, pd_code = code, pd_reason = reason, pd_evidenceRefs = refs\<rparr>)))))"

section \<open>What the checks guarantee\<close>

lemma boundedString_Inr:
  "boundedString v path limit = Inr s \<Longrightarrow> v = Some (UText s) \<and> safeText s \<and> codePoints s \<le> limit"
  by (auto simp: boundedString_def split: option.splits unknown.splits if_splits)

lemma dataObject_Inr:
  assumes "dataObject v path required optional = Inr own"
  obtains props where "v = Some (UObject True props)"
    and "\<And>k x. map_of own k = Some x \<Longrightarrow> (StringKey k, True, Some x) \<in> set props"
  using assms readProperties_keys
  by (fastforce simp: dataObject_def split: option.splits unknown.splits if_splits sum.splits
      dest: map_of_SomeD)

text \<open>What evidence that was accepted says of the plugin it activates.\<close>

definition evidenceMatches :: "EvidenceExpectation \<Rightarrow> ActivationEvidence \<Rightarrow> bool" where
  "evidenceMatches expected ev \<longleftrightarrow>
     ae_pluginId ev = expectedId expected \<and> ae_version ev = expectedVersion expected
     \<and> ae_actorKind ev \<in> set actorKinds
     \<and> (ae_required ev \<longrightarrow> ae_satisfied ev \<longrightarrow> ae_evidenceRefs ev \<noteq> [])
     \<and> (case expected of
          BundledEvidence i version composition \<Rightarrow> (\<exists>refs. ae_source ev = BundledSource composition refs)
        | DeclarativeEvidence i version kind ref sha lock \<Rightarrow>
            ae_source ev = LockedManifest kind ref sha lock \<and> isHash sha \<and> isHash lock)"

lemma evidenceSource_Inr:
  assumes "evidenceSource v expected = Inr source"
  shows "case expected of
      BundledEvidence i version composition \<Rightarrow> (\<exists>refs. source = BundledSource composition refs)
    | DeclarativeEvidence i version kind ref sha lock \<Rightarrow>
        source = LockedManifest kind ref sha lock \<and> isHash sha \<and> isHash lock"
  using assms by (cases expected) (auto simp: evidenceSource_def isLiteral_def dest!: boundedString_Inr)

lemma actorKindOf_Inr: "actorKindOf v = Inr k \<Longrightarrow> k \<in> set actorKinds"
  by (auto simp: actorKindOf_def Let_def split: option.splits unknown.splits if_splits)

lemma normalizeActivationEvidence_Inr:
  assumes "normalizeActivationEvidence isDate v expected = Inr ev"
  shows "evidenceMatches expected ev"
  using assms unfolding normalizeActivationEvidence_def evidenceMatches_def
  by (cases expected) (auto dest!: evidenceSource_Inr actorKindOf_Inr)

end
