(* ===== verification/HostAudit.thy ===== *)
theory HostAudit
  imports HostValidation
begin

text \<open>
  The audit events of the plugin host (\<open>packages/plugin-host/src/audit.ts\<close>): what an event may
  contain, the bounds and the redaction of its texts. Writing an event to the sink is a step of the
  host.
\<close>

section \<open>Texts\<close>

definition is_word :: "jchar \<Rightarrow> bool" where
  "is_word c \<longleftrightarrow> is_digit c \<or> 65 \<le> c \<and> c \<le> 90 \<or> 97 \<le> c \<and> c \<le> 122 \<or> c = 95"

definition is_letter_space :: "jchar \<Rightarrow> bool" where
  "is_letter_space c \<longleftrightarrow> 65 \<le> c \<and> c \<le> 90 \<or> 97 \<le> c \<and> c \<le> 122 \<or> c = 32"

definition RSpaces :: rx where
  "RSpaces = RStar (RClass is_space)"

definition RNonSpaces :: rx where
  "RNonSpaces = RPlus (RClass (\<lambda>c. \<not> is_space c))"

definition privateKeyPattern :: rx where
  "privateKeyPattern =
     RSeq (RStringCI (js ''-----BEGIN '')) (RSeq (RStar (RClass is_letter_space))
       (RStringCI (js ''PRIVATE KEY-----'')))"

text \<open>The alternatives of \<open>SECRET_PATTERN\<close> that start at a word boundary.\<close>

definition secretWordPattern :: rx where
  "secretWordPattern =
     RAlt (RSeq (RStringCI (js ''Bearer'')) (RSeq (RPlus (RClass is_space)) RNonSpaces))
       (RAlt (RSeq (RStringCI (js ''gh'')) (RSeq (RClass (\<lambda>c. lower_char c \<in> set (js ''pousr'')))
                (RSeq (RChar 95) (foldr RSeq (replicate 12 (RClass is_word)) (RStar (RClass is_word))))))
         (RSeq (RAlt (RStringCI (js ''token'')) (RAlt (RStringCI (js ''password'')) (RAlt (RStringCI (js ''secret''))
                  (RSeq (RStringCI (js ''private'')) (RSeq (ROpt (RClass (\<lambda>c. c = 95 \<or> c = 45)))
                     (RStringCI (js ''key'')))))))
            (RSeq RSpaces (RSeq (RClass (\<lambda>c. c = 58 \<or> c = 61)) (RSeq RSpaces RNonSpaces)))))"

definition holdsSecret :: "jstring \<Rightarrow> bool" where
  "holdsSecret s \<longleftrightarrow>
     rx_search privateKeyPattern s \<or> rx_test (RSeq secretWordPattern RAny) s
     \<or> rx_search (RSeq (RClass (\<lambda>c. \<not> is_word c)) secretWordPattern) s"

definition auditInvalid :: "jstring \<Rightarrow> PluginHostError" where
  "auditInvalid summary = hostFail PLUGIN_AUDIT_FACT_INVALID PhaseAudit summary None None"

definition boundedText :: "jstring \<Rightarrow> nat \<Rightarrow> jstring \<Rightarrow> PluginHostError + jstring" where
  "boundedText v maxLength name =
     (if v = [] \<or> maxLength < length v \<or> (\<exists>c \<in> set v. c \<le> 0x1F \<or> c = 0x7F) then
        Inl (auditInvalid (name @ js '' is empty, oversized, or contains control characters.''))
      else if holdsSecret v then Inr (js ''[REDACTED]'')
      else Inr v)"

section \<open>Events\<close>

datatype AuditEventType =
  ActivationRequested | ActivationAllowed | ActivationDenied | ActionRequested | ActionAllowed
  | ActionDenied | LifecycleChanged

primrec auditSummary :: "AuditEventType \<Rightarrow> jstring" where
  "auditSummary ActivationRequested = js ''Plugin activation requested.''"
| "auditSummary ActivationAllowed = js ''Plugin activation allowed.''"
| "auditSummary ActivationDenied = js ''Plugin activation denied.''"
| "auditSummary ActionRequested = js ''Plugin action requested.''"
| "auditSummary ActionAllowed = js ''Plugin action allowed.''"
| "auditSummary ActionDenied = js ''Plugin action denied.''"
| "auditSummary LifecycleChanged = js ''Plugin lifecycle changed.''"

definition auditFactKeys :: "jstring list" where
  "auditFactKeys =
     [js ''decisionCode'', js ''lifecycleFrom'', js ''lifecycleTo'', js ''gateId'', js ''contributionId'',
      js ''targetId'', js ''sourceKind'', js ''capabilityCount'', js ''outcome'', js ''reasonCode'',
      js ''compositionId'', js ''integrityMatched'']"

text \<open>
  What an event is built from may fail with an error of the host, or with a \<open>TypeError\<close> of the
  language. An entry of the evidence is a reference, a hole, which \<open>map\<close> skips, or the value
  \<open>undefined\<close>, which a spread makes of a hole.
\<close>

datatype HostFailure = HostFault PluginHostError | JsTypeError

definition hosted :: "PluginHostError + 'a \<Rightarrow> HostFailure + 'a" where
  "hosted x = (case x of Inl e \<Rightarrow> Inl (HostFault e) | Inr y \<Rightarrow> Inr y)"

lemma hosted_Inr [simp]: "hosted x = Inr y \<longleftrightarrow> x = Inr y"
  by (simp add: hosted_def split: sum.splits)

lemma hosted_no_type [simp]: "hosted x \<noteq> Inl JsTypeError"
  by (simp add: hosted_def split: sum.splits)

datatype AuditReference = ReferenceHole | ReferenceUndefined | ReferenceText jstring

definition heldReferences :: "jstring option list \<Rightarrow> AuditReference list" where
  "heldReferences refs = map (\<lambda>r. case r of None \<Rightarrow> ReferenceHole | Some t \<Rightarrow> ReferenceText t) refs"

definition spreadReferences :: "jstring option list \<Rightarrow> AuditReference list" where
  "spreadReferences refs = map (\<lambda>r. case r of None \<Rightarrow> ReferenceUndefined | Some t \<Rightarrow> ReferenceText t) refs"

datatype auditValue = AuditText jstring | AuditNumber js_num | AuditBool bool | AuditNull

record PluginAuditEvent =
  ev_type :: AuditEventType
  ev_pluginId :: jstring
  ev_version :: jstring
  ev_providerKind :: RegistryProviderKind
  ev_occurredAt :: jstring
  ev_summary :: jstring
  ev_evidenceRefs :: "jstring option list"
  ev_metadata :: "(jstring \<times> auditValue) list"

definition normalizedFact :: "jstring \<Rightarrow> auditValue \<Rightarrow> PluginHostError + auditValue" where
  "normalizedFact k v =
     (case v of
        AuditText s \<Rightarrow>
          (case boundedText s 256 (js ''Audit fact '' @ k) of Inl e \<Rightarrow> Inl e | Inr t \<Rightarrow> Inr (AuditText t))
      | AuditNumber NotFinite \<Rightarrow> Inl (auditInvalid (js ''Audit metadata fact '' @ k @ js '' is not finite.''))
      | _ \<Rightarrow> Inr v)"

fun normalizedFactList ::
  "jstring list \<Rightarrow> (jstring \<times> auditValue) list \<Rightarrow> PluginHostError + (jstring \<times> auditValue) list" where
  "normalizedFactList seen [] = Inr []"
| "normalizedFactList seen ((k, v) # facts) =
     (if k \<notin> set auditFactKeys then
        Inl (auditInvalid (js ''Audit metadata contains a non-host fact key or non-data value.''))
      else if k \<in> set seen then
        Inl (auditInvalid (js ''Audit metadata fact '' @ k @ js '' is duplicated.''))
      else check_bind (normalizedFact k v) (\<lambda>t.
             check_bind (normalizedFactList (k # seen) facts) (\<lambda>ts. Inr ((k, t) # ts))))"

definition normalizedFacts :: "(jstring \<times> auditValue) list \<Rightarrow> PluginHostError + (jstring \<times> auditValue) list"
where
  "normalizedFacts facts =
     (if 16 < length facts then Inl (auditInvalid (js ''Audit metadata exceeds the 16-fact limit.''))
      else normalizedFactList [] facts)"

fun boundedReferences :: "AuditReference list \<Rightarrow> HostFailure + jstring option list" where
  "boundedReferences [] = Inr []"
| "boundedReferences (ReferenceHole # refs) = check_bind (boundedReferences refs) (\<lambda>rs. Inr (None # rs))"
| "boundedReferences (ReferenceUndefined # refs) = Inl JsTypeError"
| "boundedReferences (ReferenceText r # refs) =
     check_bind (hosted (boundedText r 256 (js ''Audit evidence reference''))) (\<lambda>t.
     check_bind (boundedReferences refs) (\<lambda>rs. Inr (Some t # rs)))"

definition normalizedEvidenceRefs :: "AuditReference list \<Rightarrow> HostFailure + jstring option list" where
  "normalizedEvidenceRefs refs =
     (if 16 < length refs then
        Inl (HostFault (auditInvalid (js ''Audit evidence exceeds the 16-reference limit.'')))
      else boundedReferences refs)"

record AuditInput =
  ai_type :: AuditEventType
  ai_pluginId :: jstring
  ai_version :: jstring
  ai_providerKind :: RegistryProviderKind
  ai_evidenceRefs :: "AuditReference list"
  ai_facts :: "(jstring \<times> auditValue) list"

definition buildPluginAuditEvent :: "AuditInput \<Rightarrow> jstring \<Rightarrow> HostFailure + PluginAuditEvent" where
  "buildPluginAuditEvent input now =
     check_bind (hosted (normalizedFacts (ai_facts input))) (\<lambda>metadata.
     check_bind (hosted (boundedText (ai_pluginId input) 64 (js ''Audit plugin ID''))) (\<lambda>pluginId.
     check_bind (hosted (boundedText (ai_version input) 128 (js ''Audit plugin version''))) (\<lambda>version.
     check_bind (hosted (boundedText now 64 (js ''Audit occurrence time''))) (\<lambda>occurredAt.
     check_bind (normalizedEvidenceRefs (ai_evidenceRefs input)) (\<lambda>refs.
     Inr \<lparr>ev_type = ai_type input, ev_pluginId = pluginId, ev_version = version,
          ev_providerKind = ai_providerKind input, ev_occurredAt = occurredAt,
          ev_summary = auditSummary (ai_type input), ev_evidenceRefs = refs, ev_metadata = metadata\<rparr>)))))"

definition auditWriteFailed :: "PluginAuditEvent \<Rightarrow> PluginHostError" where
  "auditWriteFailed event =
     hostFail PLUGIN_AUDIT_WRITE_FAILED PhaseAudit
       (js ''Required plugin audit persistence failed; the operation is denied.'')
       (Some (ev_pluginId event)) None"

section \<open>What an event shows\<close>

lemma redacted_clean: "\<not> holdsSecret (js ''[REDACTED]'')"
  by code_simp

lemma boundedText_Inr: "boundedText v n name = Inr t \<Longrightarrow> \<not> holdsSecret t \<and> (t = v \<or> t = js ''[REDACTED]'')"
  by (auto simp: boundedText_def redacted_clean split: if_splits)

lemma boundedReferences_Inr: "boundedReferences refs = Inr rs \<Longrightarrow> Some t \<in> set rs \<Longrightarrow> \<not> holdsSecret t"
  by (induction refs arbitrary: rs rule: boundedReferences.induct) (auto dest: boundedText_Inr)

lemma normalizedFactList_Inr:
  "normalizedFactList seen facts = Inr ts \<Longrightarrow> (k, AuditText t) \<in> set ts \<Longrightarrow> \<not> holdsSecret t"
  by (induction seen facts arbitrary: ts rule: normalizedFactList.induct)
    (auto simp: normalizedFact_def split: if_splits auditValue.splits js_num.splits sum.splits
      dest: boundedText_Inr)

lemma buildPluginAuditEvent_Inr:
  assumes "buildPluginAuditEvent input now = Inr event"
  shows "ev_type event = ai_type input"
    and "ev_pluginId event = ai_pluginId input \<or> ev_pluginId event = js ''[REDACTED]''"
    and "Some t \<in> set (ev_evidenceRefs event) \<Longrightarrow> \<not> holdsSecret t"
    and "(k, AuditText t) \<in> set (ev_metadata event) \<Longrightarrow> \<not> holdsSecret t"
  using assms boundedReferences_Inr normalizedFactList_Inr
  by (auto simp: buildPluginAuditEvent_def normalizedEvidenceRefs_def normalizedFacts_def
      split: if_splits dest: boundedText_Inr)

text \<open>Only an undefined reference makes it fail with a \<open>TypeError\<close>.\<close>

lemma check_bind_Inl: "check_bind m f = Inl e \<longleftrightarrow> m = Inl e \<or> (\<exists>x. m = Inr x \<and> f x = Inl e)"
  by (cases m) auto

lemma boundedReferences_type: "boundedReferences refs = Inl JsTypeError \<Longrightarrow> ReferenceUndefined \<in> set refs"
  by (induction refs rule: boundedReferences.induct) (auto simp: check_bind_Inl)

lemma buildPluginAuditEvent_type:
  "buildPluginAuditEvent input now = Inl JsTypeError \<Longrightarrow> ReferenceUndefined \<in> set (ai_evidenceRefs input)"
  by (auto simp: buildPluginAuditEvent_def normalizedEvidenceRefs_def check_bind_Inl split: if_splits
      intro: boundedReferences_type)

lemma undefined_references:
  "ReferenceUndefined \<notin> set (heldReferences refs)"
  "ReferenceUndefined \<in> set (spreadReferences refs) \<longleftrightarrow> None \<in> set refs"
  by (force simp: heldReferences_def spreadReferences_def split: option.splits)+

lemma references_Nil [simp]: "heldReferences [] = []" "spreadReferences [] = []"
  by (simp_all add: heldReferences_def spreadReferences_def)

end
