(* ===== verification/HostCapabilities.thy ===== *)
theory HostCapabilities
  imports HostValidation
begin

text \<open>
  The capabilities a plugin may use (\<open>packages/plugin-host/src/capability-policy.ts\<close>, first half):
  what it requests, cut down by the host's own ceiling, by the policy's bounds for the host and for
  the actor, and what its contributions need of the result.
\<close>

definition declarativeHardCapabilities :: "jstring list" where
  "declarativeHardCapabilities =
     [js ''host.actions.read'', js ''host.workflows.read'', js ''workspace.read'', js ''github.issues.read'',
      js ''github.pull_requests.read'', js ''github.checks.read'', js ''collaboration.read'']"

definition bundledHardCapabilities :: "jstring list" where
  "bundledHardCapabilities = declarativeHardCapabilities @
     [js ''host.actions.plan'', js ''host.workflows.contribute'', js ''prms.blockers.append'',
      js ''github.issues.write'', js ''github.pull_requests.comment'', js ''collaboration.write'',
      js ''workflow.execute'']"

definition knownPluginCapabilities :: "jstring list" where
  "knownPluginCapabilities = bundledHardCapabilities @ [js ''github.pull_requests.merge.request'']"

record CapabilityIntersectionRequest =
  cr_declarative :: bool
  cr_requested :: "jstring list"
  cr_hostAllowed :: "jstring option list"
  cr_actorAllowed :: "jstring option list"
  cr_pluginId :: "jstring option"

definition hardCapabilities :: "bool \<Rightarrow> jstring list" where
  "hardCapabilities declarative =
     (if declarative then declarativeHardCapabilities else bundledHardCapabilities)"

definition capabilityFinding ::
  "CapabilityIntersectionRequest \<Rightarrow> PluginHostFindingCode \<Rightarrow> jstring \<Rightarrow> string \<Rightarrow> PluginHostFinding" where
  "capabilityFinding req code c what =
     hostFinding code PhaseCapability (js ''Capability '' @ c @ js what) (cr_pluginId req) None"

text \<open>What is wrong with one capability, and the loop over the sorted request.\<close>

definition capabilityProblem ::
  "CapabilityIntersectionRequest \<Rightarrow> jstring list \<Rightarrow> jstring \<Rightarrow> PluginHostFinding option" where
  "capabilityProblem req seen c =
     (if c \<in> set seen then
        Some (capabilityFinding req PLUGIN_CAPABILITY_DUPLICATE c '' was requested more than once.'')
      else if c \<notin> set (hardCapabilities (cr_declarative req)) then
        Some (capabilityFinding req
          (if c \<in> set knownPluginCapabilities then PLUGIN_CAPABILITY_HARD_DENIED else PLUGIN_CAPABILITY_UNKNOWN)
          c '' is outside the Red host allowlist.'')
      else if Some c \<notin> set (cr_hostAllowed req) then
        Some (capabilityFinding req PLUGIN_CAPABILITY_HOST_DENIED c '' is not allowed by the host.'')
      else if Some c \<notin> set (cr_actorAllowed req) then
        Some (capabilityFinding req PLUGIN_CAPABILITY_ACTOR_DENIED c '' is not allowed for the actor.'')
      else None)"

fun capabilityLoop ::
  "CapabilityIntersectionRequest \<Rightarrow> jstring list \<Rightarrow> jstring list \<Rightarrow> PluginHostFinding list \<times> jstring list" where
  "capabilityLoop req seen [] = ([], [])"
| "capabilityLoop req seen (c # cs) =
     (let (findings, effective) = capabilityLoop req (c # seen) cs
      in case capabilityProblem req seen c of
           Some f \<Rightarrow> (f # findings, effective)
         | None \<Rightarrow> (findings, c # effective))"

definition computeEffectiveCapabilities ::
  "CapabilityIntersectionRequest \<Rightarrow> jstring list \<times> PluginHostFinding list" where
  "computeEffectiveCapabilities req =
     (let (findings, effective) = capabilityLoop req [] (sort (cr_requested req))
      in (effective, sortFindings findings))"

definition assertEffectiveCapabilities ::
  "CapabilityIntersectionRequest \<Rightarrow> PluginHostError + jstring list" where
  "assertEffectiveCapabilities req =
     (let (effective, denied) = computeEffectiveCapabilities req
      in if denied \<noteq> [] then Inl (pluginHostError denied) else Inr effective)"

text \<open>\<open>dataRecord\<close>: the own properties of a plain object, all of them data.\<close>

definition dataRecord :: "unknown \<Rightarrow> (jstring \<times> unknown) list option" where
  "dataRecord v =
     (case v of
        UObject True props \<Rightarrow>
          (case readProperties (\<lambda>k. True) () (\<lambda>k. ()) props of Inl _ \<Rightarrow> None | Inr own \<Rightarrow> Some own)
      | _ \<Rightarrow> None)"

definition textField :: "unknown \<Rightarrow> jstring \<Rightarrow> jstring option" where
  "textField v k =
     (case dataRecord v of
        None \<Rightarrow> None
      | Some own \<Rightarrow> (case map_of own k of Some (UText s) \<Rightarrow> Some s | _ \<Rightarrow> None))"

definition requiredCapability :: "jstring \<Rightarrow> jstring option" where
  "requiredCapability kind =
     (if kind = js ''action_alias'' then Some (js ''host.actions.read'')
      else if kind = js ''workflow_alias'' then Some (js ''host.workflows.read'')
      else None)"

definition contributionFinding ::
  "jstring list \<Rightarrow> jstring option \<Rightarrow> unknown \<Rightarrow> PluginHostFinding list" where
  "contributionFinding effective pluginId contribution =
     (let kind = (case textField contribution (js ''kind'') of None \<Rightarrow> js ''<unknown>'' | Some k \<Rightarrow> k);
          cid = textField contribution (js ''id'')
      in case requiredCapability kind of
           None \<Rightarrow>
             [hostFinding PLUGIN_ALIAS_TARGET_FORBIDDEN PhaseCapability
                (js ''Declarative contribution kind '' @ kind @ js '' is not allowed by the Red host.'')
                pluginId cid]
         | Some required \<Rightarrow>
             if required \<notin> set effective then
               [hostFinding PLUGIN_CONTRIBUTION_CAPABILITY_MISSING PhaseCapability
                  (js ''Contribution '' @ (case cid of None \<Rightarrow> js ''<unknown>'' | Some i \<Rightarrow> i)
                   @ js '' requires effective capability '' @ required @ js ''.'')
                  pluginId cid]
             else [])"

definition validateContributionCapabilities ::
  "unknown list \<Rightarrow> jstring list \<Rightarrow> jstring option \<Rightarrow> PluginHostFinding list" where
  "validateContributionCapabilities contributions effective pluginId =
     sortFindings (concat (map (contributionFinding effective pluginId) contributions))"

section \<open>The intersection\<close>

text \<open>A capability passes when all of the three bounds have it.\<close>

definition capabilityGranted :: "CapabilityIntersectionRequest \<Rightarrow> jstring \<Rightarrow> bool" where
  "capabilityGranted req c \<longleftrightarrow>
     c \<in> set (hardCapabilities (cr_declarative req)) \<and> Some c \<in> set (cr_hostAllowed req)
     \<and> Some c \<in> set (cr_actorAllowed req)"

lemma capabilityProblem_None:
  "capabilityProblem req seen c = None \<longleftrightarrow> c \<notin> set seen \<and> capabilityGranted req c"
  by (simp add: capabilityProblem_def capabilityGranted_def)

lemma capabilityLoop_spec:
  "sorted cs \<Longrightarrow>
     set (snd (capabilityLoop req seen cs)) = {c \<in> set cs. c \<notin> set seen \<and> capabilityGranted req c}
     \<and> sorted (snd (capabilityLoop req seen cs)) \<and> distinct (snd (capabilityLoop req seen cs))
     \<and> (fst (capabilityLoop req seen cs) = [] \<longleftrightarrow>
          distinct cs \<and> (\<forall>c \<in> set cs. c \<notin> set seen \<and> capabilityGranted req c))"
proof (induction cs arbitrary: seen)
  case (Cons c cs)
  obtain findings effective where loop: "capabilityLoop req (c # seen) cs = (findings, effective)"
    by fastforce
  from Cons.prems have "sorted cs" and least: "\<forall>x \<in> set cs. c \<le> x" by simp_all
  note IH = Cons.IH [OF \<open>sorted cs\<close>, of "c # seen", unfolded loop fst_conv snd_conv]
  show ?case
  proof (cases "c \<notin> set seen \<and> capabilityGranted req c")
    case True
    then have "capabilityProblem req seen c = None" by (simp add: capabilityProblem_None)
    then have "capabilityLoop req seen (c # cs) = (findings, c # effective)" by (simp add: loop)
    moreover have "\<forall>x \<in> set effective. c \<le> x \<and> x \<noteq> c" using IH least by auto
    ultimately show ?thesis using IH True by (auto simp: order.order_iff_strict)
  next
    case False
    then obtain f where "capabilityProblem req seen c = Some f"
      using capabilityProblem_None [of req seen c] by auto
    then have "capabilityLoop req seen (c # cs) = (f # findings, effective)" by (simp add: loop)
    with IH False show ?thesis by auto
  qed
qed simp

lemma computeEffective_spec:
  "set (fst (computeEffectiveCapabilities req)) = {c \<in> set (cr_requested req). capabilityGranted req c}
   \<and> sorted (fst (computeEffectiveCapabilities req)) \<and> distinct (fst (computeEffectiveCapabilities req))
   \<and> (snd (computeEffectiveCapabilities req) = [] \<longleftrightarrow>
        distinct (cr_requested req) \<and> (\<forall>c \<in> set (cr_requested req). capabilityGranted req c))"
proof -
  obtain findings effective where loop: "capabilityLoop req [] (sort (cr_requested req)) = (findings, effective)"
    by fastforce
  have "sortFindings findings = [] \<longleftrightarrow> findings = []" by (metis set_empty set_sortFindings)
  with capabilityLoop_spec [of "sort (cr_requested req)" req "[]"] show ?thesis
    by (simp add: computeEffectiveCapabilities_def loop)
qed

lemma assertEffective_Inr:
  "assertEffectiveCapabilities req = Inr effective \<longleftrightarrow>
     distinct (cr_requested req) \<and> (\<forall>c \<in> set (cr_requested req). capabilityGranted req c)
     \<and> effective = sort (cr_requested req)"
proof -
  obtain own denied where computed: "computeEffectiveCapabilities req = (own, denied)" by fastforce
  note spec = computeEffective_spec [of req, unfolded computed fst_conv snd_conv]
  have "own = sort (cr_requested req)"
    if "distinct (cr_requested req)" "\<forall>c \<in> set (cr_requested req). capabilityGranted req c"
    using that spec by (intro sorted_distinct_set_unique) auto
  with spec show ?thesis
    unfolding assertEffectiveCapabilities_def computed by auto
qed

end
