(* ===== verification/HostInput.thy ===== *)
theory HostInput
  imports HostCapabilities
begin

text \<open>
  The inputs and plan steps of plugin actions (\<open>packages/plugin-host/src/host.ts\<close>, its functions before
  the class): the closed grammar of names, the mapping of an alias, and the check of a step that a
  bundled builder returns against the catalog of host targets.
\<close>

section \<open>Targets and contributions\<close>

datatype PluginInputType = TextInput | NumberInput | BooleanInput

datatype CanonicalRiskLevel = RiskNone | RiskLow | RiskMedium | RiskHigh

record HostTargetInputField =
  hf_type :: PluginInputType
  hf_required :: bool

record HostAliasTargetFacts =
  ht_id :: jstring
  ht_exists :: bool
  ht_declarativeAliasAllowed :: bool
  ht_sideEffects :: bool
  ht_risk :: CanonicalRiskLevel
  ht_confirmationRequired :: bool
  ht_exposesSecrets :: bool
  ht_exposesCredentials :: bool
  ht_exposesPaths :: bool
  ht_inputSchema :: "(jstring \<times> HostTargetInputField) list"

record HostActionTargetFacts = HostAliasTargetFacts +
  ht_requiredCapability :: jstring

datatype InputBinding = ConstantInput unknown | NamedInput jstring

record PluginInputDefinition =
  id_type :: PluginInputType
  id_required :: "bool option"

record DeclarativeActionAlias =
  da_id :: jstring
  da_inputs :: "(jstring \<times> PluginInputDefinition) list option"
  da_inputMapping :: "(jstring \<times> InputBinding) list option"

record HostPlanStep =
  hp_id :: jstring
  hp_actionId :: jstring
  hp_input :: "(jstring \<times> unknown) list"

section \<open>Names\<close>

text \<open>\<open>HOST_ID\<close> and \<open>SAFE_FIELD\<close>.\<close>

definition hostIdPattern :: rx where
  "hostIdPattern =
     RSeq (RClass is_lower) (RSeq (RStar (RClass is_lower_digit))
       (RStar (RSeq (RClass (\<lambda>c. c = 46 \<or> c = 95 \<or> c = 45)) (RPlus (RClass is_lower_digit)))))"

definition is_letter :: "jchar \<Rightarrow> bool" where
  "is_letter c \<longleftrightarrow> 65 \<le> c \<and> c \<le> 90 \<or> 97 \<le> c \<and> c \<le> 122"

definition safeField :: "jstring \<Rightarrow> bool" where
  "safeField s \<longleftrightarrow>
     s \<noteq> [] \<and> is_letter (hd s) \<and> length s \<le> 64
     \<and> (\<forall>c \<in> set (tl s). is_letter c \<or> is_digit c \<or> c = 95 \<or> c = 46 \<or> c = 45)"

definition actionForbiddenFields :: "jstring list" where
  "actionForbiddenFields =
     [js ''__proto__'', js ''prototype'', js ''constructor'', js ''tostring'', js ''command'', js ''argv'',
      js ''args'', js ''shell'', js ''exec'', js ''spawn'', js ''path'', js ''file'', js ''url'', js ''risk'',
      js ''risklevel'', js ''riskzone'', js ''confirmationrequired'', js ''secret'', js ''token'',
      js ''password'', js ''credential'', js ''privatekey'']"

definition authorizationFail ::
  "PluginHostFindingCode \<Rightarrow> jstring \<Rightarrow> jstring option \<Rightarrow> PluginHostError" where
  "authorizationFail code summary contributionId = hostFail code PhaseAuthorization summary None contributionId"

definition exactInputRecord ::
  "unknown \<Rightarrow> PluginHostFindingCode \<Rightarrow> PluginHostError + (jstring \<times> unknown) list" where
  "exactInputRecord v code =
     (case v of
        UObject plain props \<Rightarrow>
          if \<not> plain then
            Inl (authorizationFail code (js ''Action input cannot have a custom prototype.'') None)
          else
            readProperties (\<lambda>k. safeField k \<and> toLowerCase k \<notin> set actionForbiddenFields)
              (authorizationFail code (js ''Action input contains a forbidden field name.'') None)
              (\<lambda>k. authorizationFail code
                 (js ''Action input fields must be enumerable data properties.'') None)
              props
      | _ \<Rightarrow> Inl (authorizationFail code (js ''Action input must be a plain data object.'') None))"

definition primitiveMatches :: "unknown \<Rightarrow> PluginInputType \<Rightarrow> bool" where
  "primitiveMatches v type =
     (case (type, v) of
        (NumberInput, UNumber (Finite _)) \<Rightarrow> True
      | (TextInput, UText _) \<Rightarrow> True
      | (BooleanInput, UBool _) \<Rightarrow> True
      | _ \<Rightarrow> False)"

definition typeText :: "PluginInputType \<Rightarrow> jstring" where
  "typeText type =
     (case type of TextInput \<Rightarrow> js ''string'' | NumberInput \<Rightarrow> js ''number'' | BooleanInput \<Rightarrow> js ''boolean'')"

section \<open>Aliases\<close>

fun firstProblem :: "('a \<Rightarrow> 'e option) \<Rightarrow> 'a list \<Rightarrow> 'e option" where
  "firstProblem p [] = None"
| "firstProblem p (x # xs) = (case p x of Some e \<Rightarrow> Some e | None \<Rightarrow> firstProblem p xs)"

definition noProblem :: "'e option \<Rightarrow> 'e + unit" where
  "noProblem p = (case p of Some e \<Rightarrow> Inl e | None \<Rightarrow> Inr ())"

definition inputDefinitionProblem ::
  "(jstring \<times> unknown) list \<Rightarrow> jstring \<times> PluginInputDefinition \<Rightarrow> PluginHostError option" where
  "inputDefinitionProblem input nd =
     (let (name, d) = nd
      in if id_required d = Some True \<and> map_of input name = None then
           Some (authorizationFail PLUGIN_HOST_ACTION_INPUT_INVALID
             (js ''Required action input '' @ name @ js '' is missing.'') None)
         else
           (case map_of input name of
              Some v \<Rightarrow>
                if \<not> primitiveMatches v (id_type d) then
                  Some (authorizationFail PLUGIN_HOST_ACTION_INPUT_INVALID
                    (js ''Action input '' @ name @ js '' does not match '' @ typeText (id_type d) @ js ''.'') None)
                else None
            | None \<Rightarrow> None))"

fun mapInputs :: "(jstring \<times> unknown) list \<Rightarrow> (jstring \<times> InputBinding) list \<Rightarrow> (jstring \<times> unknown) list"
where
  "mapInputs input [] = []"
| "mapInputs input ((target, ConstantInput v) # rest) = (target, v) # mapInputs input rest"
| "mapInputs input ((target, NamedInput name) # rest) =
     (case map_of input name of
        None \<Rightarrow> mapInputs input rest
      | Some UUndefined \<Rightarrow> mapInputs input rest
      | Some v \<Rightarrow> (target, v) # mapInputs input rest)"

definition mapDeclarativeInput ::
  "DeclarativeActionAlias \<Rightarrow> unknown \<Rightarrow> PluginHostError + (jstring \<times> unknown) list" where
  "mapDeclarativeInput alias inputValue =
     check_bind (exactInputRecord inputValue PLUGIN_HOST_ACTION_INPUT_INVALID) (\<lambda>input.
     check_bind (noProblem (firstProblem (\<lambda>(k, v).
         if map_of (orNone (da_inputs alias)) k = None then
           Some (authorizationFail PLUGIN_HOST_ACTION_INPUT_INVALID
             (js ''Action input '' @ k @ js '' is not declared.'') (Some (da_id alias)))
         else None) input)) (\<lambda>_.
     check_bind (noProblem (firstProblem (inputDefinitionProblem input) (orNone (da_inputs alias)))) (\<lambda>_.
     Inr (mapInputs input (orNone (da_inputMapping alias))))))"

section \<open>Bundled actions\<close>

definition bundledScalar :: "unknown \<Rightarrow> bool" where
  "bundledScalar v =
     (case v of UText _ \<Rightarrow> True | UBool _ \<Rightarrow> True | UNumber (Finite _) \<Rightarrow> True | _ \<Rightarrow> False)"

definition normalizeBundledInput :: "unknown \<Rightarrow> PluginHostError + (jstring \<times> unknown) list" where
  "normalizeBundledInput v =
     check_bind (exactInputRecord v PLUGIN_HOST_ACTION_INPUT_INVALID) (\<lambda>input.
     if 32 < length input then
       Inl (authorizationFail PLUGIN_HOST_ACTION_INPUT_INVALID
         (js ''Bundled action input exceeds the field limit.'') None)
     else if \<exists>(k, x) \<in> set input. \<not> bundledScalar x then
       Inl (authorizationFail PLUGIN_HOST_ACTION_INPUT_INVALID
         (js ''Bundled action input must be finite scalar JSON.'') None)
     else Inr input)"

definition planStepInvalid :: "jstring \<Rightarrow> PluginHostError" where
  "planStepInvalid summary = authorizationFail PLUGIN_HOST_PLAN_STEP_INVALID summary None"

definition stepFieldProblem ::
  "HostActionTargetFacts \<Rightarrow> jstring \<times> unknown \<Rightarrow> PluginHostError option" where
  "stepFieldProblem target kv =
     (let (k, v) = kv
      in case map_of (ht_inputSchema target) k of
           Some field \<Rightarrow>
             if primitiveMatches v (hf_type field) then None
             else Some (planStepInvalid (js ''Plan step input '' @ k @ js '' is unknown or mistyped.''))
         | None \<Rightarrow> Some (planStepInvalid (js ''Plan step input '' @ k @ js '' is unknown or mistyped.'')))"

definition stepMissingProblem ::
  "(jstring \<times> unknown) list \<Rightarrow> jstring \<times> HostTargetInputField \<Rightarrow> PluginHostError option" where
  "stepMissingProblem input kf =
     (let (k, field) = kf
      in if hf_required field \<and> map_of input k = None then
           Some (planStepInvalid (js ''Required plan step input '' @ k @ js '' is missing.''))
         else None)"

definition stepIdentity :: "(jstring \<times> unknown) list \<Rightarrow> PluginHostError + jstring \<times> jstring" where
  "stepIdentity own =
     (case (map_of own (js ''id''), map_of own (js ''actionId'')) of
        (Some (UText i), Some (UText a)) \<Rightarrow>
          if 128 < length i \<or> \<not> rx_test hostIdPattern i then
            Inl (planStepInvalid (js ''Plan step identity is invalid.''))
          else Inr (i, a)
      | _ \<Rightarrow> Inl (planStepInvalid (js ''Plan step identity is invalid.'')))"

definition stepInput :: "(jstring \<times> unknown) list \<Rightarrow> unknown" where
  "stepInput own = (case map_of own (js ''input'') of None \<Rightarrow> UUndefined | Some v \<Rightarrow> v)"

definition stepTarget ::
  "(jstring \<times> HostActionTargetFacts) list \<Rightarrow> jstring \<Rightarrow> PluginHostError + HostActionTargetFacts" where
  "stepTarget targets a =
     (let e = planStepInvalid (js ''Plan step target is not in the sealed host catalog.'')
      in case map_of targets a of
           None \<Rightarrow> Inl e
         | Some t \<Rightarrow> if ht_exists t then Inr t else Inl e)"

definition normalizePlanStep ::
  "unknown \<Rightarrow> (jstring \<times> HostActionTargetFacts) list \<Rightarrow>
   PluginHostError + HostPlanStep \<times> HostActionTargetFacts" where
  "normalizePlanStep v targets =
     check_bind (exactInputRecord v PLUGIN_HOST_PLAN_STEP_INVALID) (\<lambda>own.
     check_bind (require (sort (map fst own) = [js ''actionId'', js ''id'', js ''input''])
         (planStepInvalid (js ''Plan step must contain exactly id, actionId, and input.''))) (\<lambda>_.
     check_bind (stepIdentity own) (\<lambda>(i, a).
     check_bind (stepTarget targets a) (\<lambda>target.
     check_bind (exactInputRecord (stepInput own) PLUGIN_HOST_PLAN_STEP_INVALID) (\<lambda>input.
     check_bind (noProblem (firstProblem (stepFieldProblem target) input)) (\<lambda>_.
     check_bind (noProblem (firstProblem (stepMissingProblem input) (ht_inputSchema target))) (\<lambda>_.
     Inr (\<lparr>hp_id = i, hp_actionId = a, hp_input = input\<rparr>, target))))))))"

section \<open>What a checked step looks like\<close>

text \<open>The input of a step fits a target: known fields of the right type, and every required one.\<close>

definition inputFits :: "'a HostAliasTargetFacts_scheme \<Rightarrow> (jstring \<times> unknown) list \<Rightarrow> bool" where
  "inputFits target input \<longleftrightarrow>
     (\<forall>(k, v) \<in> set input. \<exists>field. map_of (ht_inputSchema target) k = Some field \<and> primitiveMatches v (hf_type field))
     \<and> (\<forall>(k, field) \<in> set (ht_inputSchema target). hf_required field \<longrightarrow> map_of input k \<noteq> None)"

lemma firstProblem_None: "firstProblem p xs = None \<longleftrightarrow> (\<forall>x \<in> set xs. p x = None)"
  by (induction xs) (auto split: option.splits)

lemma noProblem_Inr [simp]: "noProblem p = Inr u \<longleftrightarrow> p = None"
  by (auto simp: noProblem_def split: option.splits)

lemma stepFieldProblem_None:
  "stepFieldProblem target (k, v) = None \<longleftrightarrow>
     (\<exists>field. map_of (ht_inputSchema target) k = Some field \<and> primitiveMatches v (hf_type field))"
  by (auto simp: stepFieldProblem_def split: option.splits)

lemma stepMissingProblem_None:
  "stepMissingProblem input (k, field) = None \<longleftrightarrow> (hf_required field \<longrightarrow> map_of input k \<noteq> None)"
  by (auto simp: stepMissingProblem_def)

lemma stepTarget_Inr: "stepTarget targets a = Inr t \<longleftrightarrow> map_of targets a = Some t \<and> ht_exists t"
  by (auto simp: stepTarget_def Let_def split: option.splits)

lemma inputFits_checks:
  "inputFits target input \<longleftrightarrow>
     firstProblem (stepFieldProblem target) input = None
     \<and> firstProblem (stepMissingProblem input) (ht_inputSchema target) = None"
  by (simp add: inputFits_def firstProblem_None Ball_def split_paired_All stepFieldProblem_None
      stepMissingProblem_None)

lemma normalizePlanStep_Inr:
  assumes "normalizePlanStep v targets = Inr (step, target)"
  shows "map_of targets (hp_actionId step) = Some target \<and> ht_exists target \<and> inputFits target (hp_input step)"
  using assms
  by (auto simp: normalizePlanStep_def inputFits_checks stepTarget_Inr split: prod.splits)

end
