(* ===== verification/PluginHost.thy ===== *)
theory PluginHost
  imports PluginLifecycle HostAudit HostInput
begin

text \<open>
  The plugin host while it is sealed (class \<open>PluginHost\<close> in \<open>packages/plugin-host/src/host.ts\<close>):
  \<open>activate\<close>, \<open>deactivate\<close> and \<open>planAction\<close>; \<open>evaluatePrmsBlockers\<close> is in PrmsBlockers, and HostCalls puts
  the calls in flight. Each runs from one \<open>await\<close> to the next without
  interruption; between two of them any other call may proceed. A call that waits is a task: what it
  waits for and what it holds. The policy, the audit sink and the code of bundled plugins answer by
  a reply. The record of a plugin is an object that the registry refers to; it is kept under the
  identifier of the plugin. The two clock readings of a segment are arguments, for the snapshot and
  for the event.
\<close>

section \<open>Records and state\<close>

datatype PluginGateMode = Shadow | Enforce

datatype HostRecordKind =
  DeclarativeRecord jstring jstring "unknown list"
| BundledRecord ActivationEvidence "RegisteredKind list" bool bool

record HostPluginRecord =
  hr_id :: jstring
  hr_version :: jstring
  hr_providerKind :: RegistryProviderKind
  hr_sourceRef :: jstring
  hr_gateMode :: PluginGateMode
  hr_gateId :: jstring
  hr_requested :: "jstring list"
  hr_kind :: HostRecordKind
  hr_lifecycle :: PluginLifecycleSnapshot
  hr_effective :: "jstring list option"
  hr_evidence :: "ActivationEvidence option"

text \<open>The value of a registered action: an alias with its target, or a builder with its fixed target.\<close>

datatype HostRegisteredAction =
  ResolvedAlias bool DeclarativeActionAlias HostActionTargetFacts
| ResolvedBuilder HostActionTargetFacts

primrec actionTarget :: "HostRegisteredAction \<Rightarrow> HostActionTargetFacts" where
  "actionTarget (ResolvedAlias isAction alias target) = target"
| "actionTarget (ResolvedBuilder target) = target"

record ('w, 'b) PluginHost =
  ph_sealed :: bool
  ph_compositionId :: jstring
  ph_targets :: "(jstring \<times> HostActionTargetFacts) list"
  ph_registry :: "(unit, HostRegisteredAction, 'w, 'b) PluginRegistrySet"
  ph_records :: "jstring \<rightharpoonup> HostPluginRecord"
  ph_lifecycleOps :: "jstring set"
  ph_executionOps :: "jstring \<rightharpoonup> nat"
  ph_audit :: "PluginAuditEvent list"

definition hostRecord :: "('w, 'b) PluginHost \<Rightarrow> jstring \<Rightarrow> HostPluginRecord option" where
  "hostRecord h pluginId =
     (case getPlugin (ph_registry h) pluginId of None \<Rightarrow> None | Some _ \<Rightarrow> ph_records h pluginId)"

definition putRecord :: "jstring \<Rightarrow> HostPluginRecord \<Rightarrow> ('w, 'b) PluginHost \<Rightarrow> ('w, 'b) PluginHost" where
  "putRecord pluginId r h = h\<lparr>ph_records := (ph_records h)(pluginId \<mapsto> r)\<rparr>"

definition isBundled :: "HostPluginRecord \<Rightarrow> bool" where
  "isBundled r = (case hr_kind r of BundledRecord _ _ _ _ \<Rightarrow> True | DeclarativeRecord _ _ _ \<Rightarrow> False)"

definition evidenceExpectation :: "jstring \<Rightarrow> HostPluginRecord \<Rightarrow> EvidenceExpectation" where
  "evidenceExpectation composition r =
     (case hr_kind r of
        DeclarativeRecord sha lock _ \<Rightarrow>
          DeclarativeEvidence (hr_id r) (hr_version r) (hr_providerKind r) (hr_sourceRef r) sha lock
      | BundledRecord _ _ _ _ \<Rightarrow> BundledEvidence (hr_id r) (hr_version r) composition)"

record BlockingFinding =
  bf_code :: jstring
  bf_summary :: jstring
  bf_detail :: "jstring option"

text \<open>What a call returns; the blockers of an evaluation may have undefined entries.\<close>

datatype HostResult =
  PluginSnapshot HostPluginRecord
| PlanShadowed jstring jstring
| PlanPlanned jstring jstring HostPlanStep
| EvaluatedBlockers "BlockingFinding option list"

datatype 't progress = Running 't | Finished "HostFailure + HostResult"

text \<open>
  What a call that waits is answered. An evaluator returns a value or throws; its error, which may be
  one past the deadline, is one of a failed validation or not.
\<close>

datatype EvaluatorAnswer = EvaluatorReturns unknown | EvaluatorThrows bool

datatype HostReply =
  SinkOk
| SinkFails
| PolicyReturns unknown
| PolicyThrows "PluginHostError option"
| HookReturns unknown
| HookFails
| EvaluatorReplies EvaluatorAnswer

section \<open>Guards\<close>

definition hostError ::
  "PluginHostFindingCode \<Rightarrow> PluginHostPhase \<Rightarrow> jstring \<Rightarrow> jstring \<Rightarrow> jstring option \<Rightarrow> HostFailure + 'a" where
  "hostError code phase summary pluginId contributionId =
     Inl (HostFault (hostFail code phase summary (Some pluginId) contributionId))"

definition assertExecutionReady :: "('w, 'b) PluginHost \<Rightarrow> HostFailure + unit" where
  "assertExecutionReady h =
     (if ph_sealed h then Inr ()
      else Inl (HostFault (hostFail PLUGIN_HOST_NOT_SEALED PhaseBinding
        (js ''Host must be sealed before activation or execution.'') None None)))"

definition findRecord :: "('w, 'b) PluginHost \<Rightarrow> jstring \<Rightarrow> HostFailure + HostPluginRecord" where
  "findRecord h pluginId =
     (case hostRecord h pluginId of
        Some r \<Rightarrow> Inr r
      | None \<Rightarrow> hostError PLUGIN_HOST_BUNDLED_REGISTRATION_REQUIRED PhaseRegistration
          (js ''Plugin '' @ pluginId @ js '' is not registered.'') pluginId None)"

definition executionCount :: "('w, 'b) PluginHost \<Rightarrow> jstring \<Rightarrow> nat" where
  "executionCount h pluginId = (case ph_executionOps h pluginId of None \<Rightarrow> 0 | Some n \<Rightarrow> n)"

definition beginLifecycleOperation ::
  "('w, 'b) PluginHost \<Rightarrow> jstring \<Rightarrow> HostFailure + ('w, 'b) PluginHost" where
  "beginLifecycleOperation h pluginId =
     (if pluginId \<in> ph_lifecycleOps h \<or> 0 < executionCount h pluginId then
        hostError PLUGIN_LIFECYCLE_INVALID_TRANSITION PhaseLifecycle
          (js ''Plugin '' @ pluginId @ js '' already has a lifecycle operation in flight.'') pluginId None
      else Inr (h\<lparr>ph_lifecycleOps := insert pluginId (ph_lifecycleOps h)\<rparr>))"

definition endLifecycleOperation :: "jstring \<Rightarrow> ('w, 'b) PluginHost \<Rightarrow> ('w, 'b) PluginHost" where
  "endLifecycleOperation pluginId h = h\<lparr>ph_lifecycleOps := ph_lifecycleOps h - {pluginId}\<rparr>"

definition beginExecutionOperation ::
  "('w, 'b) PluginHost \<Rightarrow> jstring \<Rightarrow> jstring option \<Rightarrow> HostFailure + ('w, 'b) PluginHost" where
  "beginExecutionOperation h pluginId contributionId =
     (if pluginId \<in> ph_lifecycleOps h then
        hostError PLUGIN_LIFECYCLE_INVALID_TRANSITION PhaseLifecycle
          (js ''Plugin '' @ pluginId @ js '' cannot execute while a lifecycle operation is in flight.'')
          pluginId contributionId
      else Inr (h\<lparr>ph_executionOps := (ph_executionOps h)(pluginId \<mapsto> executionCount h pluginId + 1)\<rparr>))"

definition endExecutionOperation :: "jstring \<Rightarrow> ('w, 'b) PluginHost \<Rightarrow> ('w, 'b) PluginHost" where
  "endExecutionOperation pluginId h =
     (let remaining = (case ph_executionOps h pluginId of None \<Rightarrow> 1 | Some n \<Rightarrow> n) - 1
      in h\<lparr>ph_executionOps :=
             (if remaining = 0 then (ph_executionOps h)(pluginId := None)
              else (ph_executionOps h)(pluginId \<mapsto> remaining))\<rparr>)"

section \<open>Errors of the validators and of the policy\<close>

definition rethrowValidation :: "HostInputValidationError \<Rightarrow> jstring \<Rightarrow> HostFailure + 'a" where
  "rethrowValidation e pluginId =
     hostError (hv_code e) PhaseAuthorization (hv_message e) pluginId None"

definition rethrowDecision :: "HostInputValidationError \<Rightarrow> jstring \<Rightarrow> HostFailure + 'a" where
  "rethrowDecision e pluginId =
     hostError PLUGIN_HOST_POLICY_DECISION_INVALID PhaseAuthorization (hv_message e) pluginId None"

definition rethrowPolicy :: "PluginHostError option \<Rightarrow> jstring \<Rightarrow> HostFailure + 'a" where
  "rethrowPolicy e pluginId =
     (case e of
        Some err \<Rightarrow> Inl (HostFault err)
      | None \<Rightarrow> hostError PLUGIN_HOST_POLICY_DECISION_INVALID PhaseAuthorization
          (js ''Host policy failed or returned malformed data.'') pluginId None)"

section \<open>Audit inputs\<close>

definition auditInput ::
  "AuditEventType \<Rightarrow> HostPluginRecord \<Rightarrow> AuditReference list \<Rightarrow> (jstring \<times> auditValue) list \<Rightarrow> AuditInput" where
  "auditInput type r refs facts =
     \<lparr>ai_type = type, ai_pluginId = hr_id r, ai_version = hr_version r,
      ai_providerKind = hr_providerKind r, ai_evidenceRefs = refs, ai_facts = facts\<rparr>"

definition lifecycleFacts :: "PluginLifecycleState \<Rightarrow> string option \<Rightarrow> (jstring \<times> auditValue) list" where
  "lifecycleFacts from reasonCode =
     [(js ''lifecycleFrom'', AuditText (lifecycleText from)), (js ''lifecycleTo'', AuditText (js ''disabled''))]
     @ (case reasonCode of None \<Rightarrow> [] | Some c \<Rightarrow> [(js ''reasonCode'', AuditText (js c))])"

definition recordEvent :: "PluginAuditEvent \<Rightarrow> ('w, 'b) PluginHost \<Rightarrow> ('w, 'b) PluginHost" where
  "recordEvent event h = h\<lparr>ph_audit := ph_audit h @ [event]\<rparr>"

section \<open>Activation\<close>

datatype ActivationWait =
  RequestedSink PluginAuditEvent
| ActivationPolicy
| DeniedSink PluginAuditEvent PluginHostError
| AllowedSink PluginAuditEvent "jstring list"
| ActivateHook "jstring list"
| ActivateFailedSink PluginAuditEvent PluginHostError

record ActivationTask =
  at_plugin :: jstring
  at_evidence :: ActivationEvidence
  at_from :: PluginLifecycleState
  at_wait :: ActivationWait

type_synonym ('w, 'b) activation = "('w, 'b) PluginHost \<times> ActivationTask progress"

text \<open>Every end of a call releases the plugin (\<open>finally\<close>).\<close>

definition endActivation :: "jstring \<Rightarrow> HostFailure + HostResult \<Rightarrow> ('w, 'b) PluginHost \<Rightarrow> ('w, 'b) activation"
where
  "endActivation pluginId result h = (endLifecycleOperation pluginId h, Finished result)"

text \<open>\<open>recordRequired\<close>: an event that cannot be built is thrown at once, otherwise the sink is awaited.\<close>

definition activationAudit ::
  "ActivationTask \<Rightarrow> AuditInput \<Rightarrow> jstring \<Rightarrow> (PluginAuditEvent \<Rightarrow> ActivationWait) \<Rightarrow>
   ('w, 'b) PluginHost \<Rightarrow> ('w, 'b) activation" where
  "activationAudit task input now wait h =
     (case buildPluginAuditEvent input now of
        Inl e \<Rightarrow> endActivation (at_plugin task) (Inl e) h
      | Inr event \<Rightarrow> (h, Running (task\<lparr>at_wait := wait event\<rparr>)))"

definition joinReferences :: "jstring option list \<Rightarrow> jstring" where
  "joinReferences refs = js_join [0] (map orEmpty refs)"

definition reviewReferences :: "EvidenceSource \<Rightarrow> jstring option list" where
  "reviewReferences source =
     (case source of BundledSource c refs \<Rightarrow> refs | LockedManifest k r s l \<Rightarrow> [])"

definition reviewMatches :: "HostPluginRecord \<Rightarrow> ActivationEvidence \<Rightarrow> bool" where
  "reviewMatches r ev =
     (case hr_kind r of
        DeclarativeRecord _ _ _ \<Rightarrow> True
      | BundledRecord registration _ _ _ \<Rightarrow>
          reviewReferences (ae_source ev) \<noteq> []
          \<and> joinReferences (reviewReferences (ae_source ev))
              = joinReferences (reviewReferences (ae_source registration)))"

definition activate ::
  "(jstring \<Rightarrow> bool) \<Rightarrow> ('w, 'b) PluginHost \<Rightarrow> jstring \<Rightarrow> unknown \<Rightarrow> jstring \<Rightarrow> ('w, 'b) activation" where
  "activate isDate h pluginId evidenceValue now =
     (case assertExecutionReady h of
        Inl e \<Rightarrow> (h, Finished (Inl e))
      | Inr _ \<Rightarrow>
     (case findRecord h pluginId of
        Inl e \<Rightarrow> (h, Finished (Inl e))
      | Inr r \<Rightarrow>
     (case beginLifecycleOperation h pluginId of
        Inl e \<Rightarrow> (h, Finished (Inl e))
      | Inr h \<Rightarrow>
          let from = ls_state (hr_lifecycle r)
          in if from \<noteq> Registering \<and> from \<noteq> Degraded then
               endActivation pluginId (hostError PLUGIN_LIFECYCLE_INVALID_TRANSITION PhaseLifecycle
                 (js ''Plugin '' @ pluginId @ js '' cannot activate from '' @ lifecycleText from @ js ''.'')
                 pluginId None) h
             else if evidenceValue = UUndefined \<or> evidenceValue = UNull then
               endActivation pluginId (hostError PLUGIN_HOST_ACTIVATION_EVIDENCE_MISSING PhaseAuthorization
                 (js ''Activation evidence is required.'') pluginId None) h
             else
               (case normalizeActivationEvidence isDate evidenceValue
                       (evidenceExpectation (ph_compositionId h) r) of
                  Inl e \<Rightarrow> endActivation pluginId (rethrowValidation e pluginId) h
                | Inr evidence \<Rightarrow>
                    if \<not> reviewMatches r evidence then
                      endActivation pluginId (hostError PLUGIN_HOST_ACTIVATION_EVIDENCE_MISMATCH PhaseAuthorization
                        (js ''Bundled activation review evidence differs from registration.'') pluginId None) h
                    else
                      activationAudit
                        \<lparr>at_plugin = pluginId, at_evidence = evidence, at_from = from, at_wait = ActivationPolicy\<rparr>
                        (auditInput ActivationRequested r (heldReferences (ae_evidenceRefs evidence))
                           [(js ''gateId'', AuditText (hr_gateId r)),
                            (js ''sourceKind'', AuditText (providerText (hr_providerKind r)))])
                        now RequestedSink h))))"

text \<open>The decision of the policy, up to the audit of its outcome.\<close>

definition contributionCapabilitiesError ::
  "HostPluginRecord \<Rightarrow> jstring list \<Rightarrow> PluginHostError option" where
  "contributionCapabilitiesError r effective =
     (case hr_kind r of
        DeclarativeRecord _ _ contributes \<Rightarrow>
          (let findings = validateContributionCapabilities contributes effective (Some (hr_id r))
           in if findings \<noteq> [] then Some (pluginHostError findings) else None)
      | BundledRecord _ contributions _ _ \<Rightarrow>
          if \<forall>kind \<in> set contributions.
               (case kind of
                  BundledAction \<Rightarrow> js ''host.actions.plan'' \<in> set effective
                | BundledWorkflow \<Rightarrow> js ''host.workflows.contribute'' \<in> set effective
                | _ \<Rightarrow> js ''prms.blockers.append'' \<in> set effective)
          then None
          else Some (hostFail PLUGIN_CONTRIBUTION_CAPABILITY_MISSING PhaseCapability
            (js ''Bundled contribution lacks an effective capability.'') (Some (hr_id r)) None))"

definition effectiveRequest :: "HostPluginRecord \<Rightarrow> ActivationDecision \<Rightarrow> CapabilityIntersectionRequest" where
  "effectiveRequest r decision =
     \<lparr>cr_declarative = (\<not> isBundled r), cr_requested = hr_requested r,
      cr_hostAllowed = pd_hostAllowed decision, cr_actorAllowed = pd_actorAllowed decision,
      cr_pluginId = Some (hr_id r)\<rparr>"

definition activationDecided ::
  "ActivationTask \<Rightarrow> HostPluginRecord \<Rightarrow> unknown \<Rightarrow> jstring \<Rightarrow> ('w, 'b) PluginHost \<Rightarrow> ('w, 'b) activation" where
  "activationDecided task r answer now h =
     (case normalizeActivationDecision answer of
        Inl e \<Rightarrow> endActivation (at_plugin task) (rethrowDecision e (at_plugin task)) h
      | Inr decision \<Rightarrow>
          if pd_outcome decision \<noteq> PolicyAllow then
            activationAudit task
              (auditInput ActivationDenied r (heldReferences (pd_evidenceRefs decision))
                 [(js ''decisionCode'', AuditText (pd_code decision))])
              now
              (\<lambda>event. DeniedSink event
                 (hostFail
                    (if pd_outcome decision = PolicyAsk then PLUGIN_HOST_ACTIVATION_ASK
                     else PLUGIN_HOST_ACTIVATION_DENIED)
                    PhaseAuthorization
                    (js ''Activation policy returned ''
                     @ (if pd_outcome decision = PolicyAsk then js ''ask'' else js ''deny'') @ js ''.'')
                    (Some (at_plugin task)) None))
              h
          else
            (case assertEffectiveCapabilities (effectiveRequest r decision) of
               Inl e \<Rightarrow> endActivation (at_plugin task) (Inl (HostFault e)) h
             | Inr effective \<Rightarrow>
                 (case contributionCapabilitiesError r effective of
                    Some e \<Rightarrow> endActivation (at_plugin task) (Inl (HostFault e)) h
                  | None \<Rightarrow>
                      activationAudit task
                        (auditInput ActivationAllowed r (heldReferences (pd_evidenceRefs decision))
                           [(js ''decisionCode'', AuditText (pd_code decision)),
                            (js ''capabilityCount'', AuditNumber (Finite (of_nat (length effective))))])
                        now (\<lambda>event. AllowedSink event effective) h)))"

definition completeActivation ::
  "ActivationTask \<Rightarrow> HostPluginRecord \<Rightarrow> jstring list \<Rightarrow> jstring \<Rightarrow> ('w, 'b) PluginHost \<Rightarrow> ('w, 'b) activation"
where
  "completeActivation task r effective clock h =
     (let r = r\<lparr>hr_effective := Some effective, hr_evidence := Some (at_evidence task)\<rparr>
      in case lifecycleTransition (hr_lifecycle r) Activated
                (Some (js ''Policy and audit gates passed.'')) None clock of
           Inl e \<Rightarrow> endActivation (at_plugin task) (Inl (HostFault e)) (putRecord (at_plugin task) r h)
         | Inr snapshot \<Rightarrow>
             let r = r\<lparr>hr_lifecycle := snapshot\<rparr>
             in endActivation (at_plugin task) (Inr (PluginSnapshot r)) (putRecord (at_plugin task) r h))"

definition hasActivateHook :: "HostPluginRecord \<Rightarrow> bool" where
  "hasActivateHook r =
     (case hr_kind r of
        BundledRecord _ _ activateHook _ \<Rightarrow> hr_gateMode r = Enforce \<and> activateHook
      | DeclarativeRecord _ _ _ \<Rightarrow> False)"

definition hasDeactivateHook :: "HostPluginRecord \<Rightarrow> bool" where
  "hasDeactivateHook r =
     (case hr_kind r of
        BundledRecord _ _ _ deactivateHook \<Rightarrow> hr_gateMode r = Enforce \<and> deactivateHook
      | DeclarativeRecord _ _ _ \<Rightarrow> False)"

text \<open>A hook that failed disables the plugin.\<close>

definition disabledRecord ::
  "HostPluginRecord \<Rightarrow> string \<Rightarrow> jstring \<Rightarrow> PluginHostError + HostPluginRecord" where
  "disabledRecord r reason clock =
     (case lifecycleTransition (hr_lifecycle r) Disabled (Some (js reason)) None clock of
        Inl e \<Rightarrow> Inl e
      | Inr snapshot \<Rightarrow> Inr (r\<lparr>hr_lifecycle := snapshot, hr_effective := None, hr_evidence := None\<rparr>))"

definition activationHookFailed ::
  "ActivationTask \<Rightarrow> HostPluginRecord \<Rightarrow> jstring \<Rightarrow> jstring \<Rightarrow> ('w, 'b) PluginHost \<Rightarrow> ('w, 'b) activation" where
  "activationHookFailed task r clock now h =
     (case disabledRecord r ''Bundled activation hook failed after authorization.'' clock of
        Inl e \<Rightarrow> endActivation (at_plugin task) (Inl (HostFault e)) h
      | Inr r \<Rightarrow>
          activationAudit task
            (auditInput LifecycleChanged r (heldReferences (ae_evidenceRefs (at_evidence task)))
               (lifecycleFacts (at_from task) (Some ''activation_hook_failed'')))
            now
            (\<lambda>event. ActivateFailedSink event
               (hostFail PLUGIN_HOST_ACTIVATION_HOOK_FAILED PhaseLifecycle
                  (js ''Bundled activation hook failed closed.'') (Some (at_plugin task)) None))
            (putRecord (at_plugin task) r h))"

text \<open>
  What follows an answer. \<open>activationSunk\<close> and the next one are the two answers of the sink; an
  answer of another kind cannot arrive.
\<close>

definition activationSunk ::
  "ActivationTask \<Rightarrow> HostPluginRecord \<Rightarrow> jstring \<Rightarrow> ('w, 'b) PluginHost \<Rightarrow> ('w, 'b) activation option" where
  "activationSunk task r clock h =
     (case at_wait task of
        RequestedSink event \<Rightarrow> Some (recordEvent event h, Running (task\<lparr>at_wait := ActivationPolicy\<rparr>))
      | DeniedSink event e \<Rightarrow> Some (endActivation (at_plugin task) (Inl (HostFault e)) (recordEvent event h))
      | AllowedSink event effective \<Rightarrow>
          Some (if hasActivateHook r
                then (recordEvent event h, Running (task\<lparr>at_wait := ActivateHook effective\<rparr>))
                else completeActivation task r effective clock (recordEvent event h))
      | ActivateFailedSink event e \<Rightarrow>
          Some (endActivation (at_plugin task) (Inl (HostFault e)) (recordEvent event h))
      | _ \<Rightarrow> None)"

definition activationSinkFailed ::
  "ActivationTask \<Rightarrow> ('w, 'b) PluginHost \<Rightarrow> ('w, 'b) activation option" where
  "activationSinkFailed task h =
     (let fail = (\<lambda>event. Some (endActivation (at_plugin task) (Inl (HostFault (auditWriteFailed event))) h))
      in case at_wait task of
           RequestedSink event \<Rightarrow> fail event
         | DeniedSink event e \<Rightarrow> fail event
         | AllowedSink event effective \<Rightarrow> fail event
         | ActivateFailedSink event e \<Rightarrow> fail event
         | _ \<Rightarrow> None)"

definition resumeActivation ::
  "ActivationTask \<Rightarrow> HostReply \<Rightarrow> jstring \<Rightarrow> jstring \<Rightarrow> ('w, 'b) PluginHost \<Rightarrow> ('w, 'b) activation option" where
  "resumeActivation task reply clock now h =
     (case hostRecord h (at_plugin task) of
        None \<Rightarrow> None
      | Some r \<Rightarrow>
          (case reply of
             SinkOk \<Rightarrow> activationSunk task r clock h
           | SinkFails \<Rightarrow> activationSinkFailed task h
           | PolicyReturns answer \<Rightarrow>
               (if at_wait task = ActivationPolicy then Some (activationDecided task r answer now h) else None)
           | PolicyThrows e \<Rightarrow>
               (if at_wait task = ActivationPolicy
                then Some (endActivation (at_plugin task) (rethrowPolicy e (at_plugin task)) h) else None)
           | HookReturns _ \<Rightarrow>
               (case at_wait task of
                  ActivateHook effective \<Rightarrow> Some (completeActivation task r effective clock h)
                | _ \<Rightarrow> None)
           | HookFails \<Rightarrow>
               (case at_wait task of
                  ActivateHook effective \<Rightarrow> Some (activationHookFailed task r clock now h)
                | _ \<Rightarrow> None)
           | EvaluatorReplies _ \<Rightarrow> None))"

section \<open>Deactivation\<close>

datatype DeactivationWait =
  DeactivateHook
| DisabledSink PluginAuditEvent "PluginHostError option"

record DeactivationTask =
  dt_plugin :: jstring
  dt_from :: PluginLifecycleState
  dt_evidence :: "ActivationEvidence option"
  dt_wait :: DeactivationWait

type_synonym ('w, 'b) deactivation = "('w, 'b) PluginHost \<times> DeactivationTask progress"

definition endDeactivation ::
  "jstring \<Rightarrow> HostFailure + HostResult \<Rightarrow> ('w, 'b) PluginHost \<Rightarrow> ('w, 'b) deactivation" where
  "endDeactivation pluginId result h = (endLifecycleOperation pluginId h, Finished result)"

definition evidenceReferences :: "ActivationEvidence option \<Rightarrow> jstring option list" where
  "evidenceReferences ev = (case ev of None \<Rightarrow> [] | Some e \<Rightarrow> ae_evidenceRefs e)"

text \<open>The plugin is disabled, then the change is audited; \<open>failure\<close> is thrown after the audit.\<close>

definition disablePlugin ::
  "DeactivationTask \<Rightarrow> HostPluginRecord \<Rightarrow> string \<Rightarrow> string option \<Rightarrow> PluginHostError option \<Rightarrow>
   jstring \<Rightarrow> jstring \<Rightarrow> ('w, 'b) PluginHost \<Rightarrow> ('w, 'b) deactivation" where
  "disablePlugin task r reason reasonCode failure clock now h =
     (case disabledRecord r reason clock of
        Inl e \<Rightarrow> endDeactivation (dt_plugin task) (Inl (HostFault e)) h
      | Inr r \<Rightarrow>
          let h = putRecord (dt_plugin task) r h
          in case buildPluginAuditEvent
                 (auditInput LifecycleChanged r (heldReferences (evidenceReferences (dt_evidence task)))
                    (lifecycleFacts (dt_from task) reasonCode)) now of
               Inl e \<Rightarrow> endDeactivation (dt_plugin task) (Inl e) h
             | Inr event \<Rightarrow> (h, Running (task\<lparr>dt_wait := DisabledSink event failure\<rparr>)))"

definition deactivateQuietly ::
  "DeactivationTask \<Rightarrow> HostPluginRecord \<Rightarrow> jstring \<Rightarrow> jstring \<Rightarrow> ('w, 'b) PluginHost \<Rightarrow> ('w, 'b) deactivation"
where
  "deactivateQuietly task r clock now h =
     disablePlugin task r ''Host deactivated plugin.'' None None clock now h"

definition deactivateFailed ::
  "DeactivationTask \<Rightarrow> HostPluginRecord \<Rightarrow> jstring \<Rightarrow> jstring \<Rightarrow> ('w, 'b) PluginHost \<Rightarrow> ('w, 'b) deactivation"
where
  "deactivateFailed task r clock now h =
     disablePlugin task r ''Bundled deactivation hook failed after possible side effects.''
       (Some ''deactivation_hook_failed'')
       (Some (hostFail PLUGIN_HOST_ACTIVATION_HOOK_FAILED PhaseLifecycle
          (js ''Bundled deactivation hook failed closed.'') (Some (dt_plugin task)) None))
       clock now h"

definition deactivate ::
  "('w, 'b) PluginHost \<Rightarrow> jstring \<Rightarrow> jstring \<Rightarrow> jstring \<Rightarrow> ('w, 'b) deactivation" where
  "deactivate h pluginId clock now =
     (case assertExecutionReady h of
        Inl e \<Rightarrow> (h, Finished (Inl e))
      | Inr _ \<Rightarrow>
     (case findRecord h pluginId of
        Inl e \<Rightarrow> (h, Finished (Inl e))
      | Inr r \<Rightarrow>
     (case beginLifecycleOperation h pluginId of
        Inl e \<Rightarrow> (h, Finished (Inl e))
      | Inr h \<Rightarrow>
          let from = ls_state (hr_lifecycle r);
              task = \<lparr>dt_plugin = pluginId, dt_from = from, dt_evidence = hr_evidence r, dt_wait = DeactivateHook\<rparr>
          in if from \<noteq> Activated \<and> from \<noteq> Degraded then
               endDeactivation pluginId (hostError PLUGIN_LIFECYCLE_INVALID_TRANSITION PhaseLifecycle
                 (js ''Only active or degraded plugins can be disabled.'') pluginId None) h
             else if hasDeactivateHook r \<and> hr_evidence r \<noteq> None then (h, Running task)
             else deactivateQuietly task r clock now h)))"

definition resumeDeactivation ::
  "DeactivationTask \<Rightarrow> HostReply \<Rightarrow> jstring \<Rightarrow> jstring \<Rightarrow> ('w, 'b) PluginHost \<Rightarrow> ('w, 'b) deactivation option"
where
  "resumeDeactivation task reply clock now h =
     (case hostRecord h (dt_plugin task) of
        None \<Rightarrow> None
      | Some r \<Rightarrow>
          (case (dt_wait task, reply) of
             (DeactivateHook, HookReturns _) \<Rightarrow> Some (deactivateQuietly task r clock now h)
           | (DeactivateHook, HookFails) \<Rightarrow> Some (deactivateFailed task r clock now h)
           | (DisabledSink event failure, SinkOk) \<Rightarrow>
               Some (endDeactivation (dt_plugin task)
                 (case failure of Some e \<Rightarrow> Inl (HostFault e) | None \<Rightarrow> Inr (PluginSnapshot r))
                 (recordEvent event h))
           | (DisabledSink event failure, SinkFails) \<Rightarrow>
               Some (endDeactivation (dt_plugin task) (Inl (HostFault (auditWriteFailed event))) h)
           | _ \<Rightarrow> None))"

section \<open>Planning an action\<close>

datatype PlanWait =
  PlanRequestedSink PluginAuditEvent
| PlanPolicy
| PlanDeniedSink PluginAuditEvent PluginHostError
| PlanShadowSink PluginAuditEvent HostActionTargetFacts
| PlanBuilder "jstring option list"
| PlanStepPolicy "jstring option list" HostPlanStep HostActionTargetFacts
| PlanAllowedSink PluginAuditEvent HostPlanStep HostActionTargetFacts

record PlanTask =
  pk_plugin :: jstring
  pk_action :: jstring
  pk_registered :: "HostRegisteredAction Registered"
  pk_input :: unknown
  pk_wait :: PlanWait

type_synonym ('w, 'b) planning = "('w, 'b) PluginHost \<times> PlanTask progress"

definition endPlanning ::
  "jstring \<Rightarrow> HostFailure + HostResult \<Rightarrow> ('w, 'b) PluginHost \<Rightarrow> ('w, 'b) planning" where
  "endPlanning pluginId result h = (endExecutionOperation pluginId h, Finished result)"

definition planAudit ::
  "PlanTask \<Rightarrow> AuditInput \<Rightarrow> jstring \<Rightarrow> (PluginAuditEvent \<Rightarrow> PlanWait) \<Rightarrow> ('w, 'b) PluginHost \<Rightarrow>
   ('w, 'b) planning" where
  "planAudit task input now wait h =
     (case buildPluginAuditEvent input now of
        Inl e \<Rightarrow> endPlanning (pk_plugin task) (Inl e) h
      | Inr event \<Rightarrow> (h, Running (task\<lparr>pk_wait := wait event\<rparr>)))"

text \<open>A denial is audited before it is thrown (\<open>auditActionDenied\<close>).\<close>

definition denyPlan ::
  "PlanTask \<Rightarrow> HostPluginRecord \<Rightarrow> jstring \<Rightarrow> jstring option list \<Rightarrow> PluginHostError \<Rightarrow> jstring \<Rightarrow>
   ('w, 'b) PluginHost \<Rightarrow> ('w, 'b) planning" where
  "denyPlan task r code refs e now h =
     planAudit task
       (auditInput ActionDenied r
          (heldReferences (if refs \<noteq> [] then refs else evidenceReferences (hr_evidence r)))
          [(js ''contributionId'', AuditText (pk_action task)), (js ''decisionCode'', AuditText code)])
       now (\<lambda>event. PlanDeniedSink event e) h"

definition planError ::
  "PlanTask \<Rightarrow> PluginHostFindingCode \<Rightarrow> PluginHostPhase \<Rightarrow> jstring \<Rightarrow> PluginHostError" where
  "planError task code phase summary =
     hostFail code phase summary (Some (pk_plugin task)) (Some (pk_action task))"

definition policyError :: "PlanTask \<Rightarrow> PluginHostError option \<Rightarrow> PluginHostError" where
  "policyError task e =
     (case e of
        Some err \<Rightarrow> err
      | None \<Rightarrow> hostFail PLUGIN_HOST_POLICY_DECISION_INVALID PhaseAuthorization
          (js ''Host policy failed or returned malformed data.'') (Some (pk_plugin task)) None)"

definition decisionError :: "PlanTask \<Rightarrow> HostInputValidationError \<Rightarrow> PluginHostError" where
  "decisionError task e =
     hostFail PLUGIN_HOST_POLICY_DECISION_INVALID PhaseAuthorization (hv_message e) (Some (pk_plugin task)) None"

definition planAction ::
  "('w, 'b) PluginHost \<Rightarrow> jstring \<Rightarrow> unknown \<Rightarrow> jstring \<Rightarrow> ('w, 'b) planning" where
  "planAction h actionId inputValue now =
     (case assertExecutionReady h of
        Inl e \<Rightarrow> (h, Finished (Inl e))
      | Inr _ \<Rightarrow>
     (case getAction (ph_registry h) actionId of
        None \<Rightarrow>
          (h, Finished (Inl (HostFault (hostFail PLUGIN_ALIAS_TARGET_NOT_FOUND PhaseAuthorization
            (js ''Plugin action '' @ actionId @ js '' is not registered.'') None (Some actionId)))))
      | Some registered \<Rightarrow>
     (case findRecord h (rg_pluginId registered) of
        Inl e \<Rightarrow> (h, Finished (Inl e))
      | Inr r \<Rightarrow>
     (case beginExecutionOperation h (rg_pluginId registered) (Some actionId) of
        Inl e \<Rightarrow> (h, Finished (Inl e))
      | Inr h \<Rightarrow>
          let task = \<lparr>pk_plugin = rg_pluginId registered, pk_action = actionId, pk_registered = registered,
                      pk_input = inputValue, pk_wait = PlanPolicy\<rparr>
          in if ls_state (hr_lifecycle r) \<noteq> Activated \<or> hr_evidence r = None \<or> hr_effective r = None then
               endPlanning (pk_plugin task) (Inl (HostFault (planError task PLUGIN_LIFECYCLE_INVALID_TRANSITION
                 PhaseLifecycle (js ''Plugin action cannot run before activation.'')))) h
             else
               planAudit task
                 (auditInput ActionRequested r (heldReferences (evidenceReferences (hr_evidence r)))
                    [(js ''contributionId'', AuditText actionId)])
                 now PlanRequestedSink h))))"

text \<open>
  The target of a registered action: fixed by the alias or by the builder; \<open>Inl True\<close> is a value of
  another kind than its entry, \<open>Inl False\<close> one without a target.
\<close>

definition planTarget :: "HostRegisteredAction Registered \<Rightarrow> bool + HostActionTargetFacts" where
  "planTarget registered =
     (if rg_kind registered = ActionAlias then
        (case rg_value registered of
           ResolvedAlias isAction alias target \<Rightarrow> if isAction then Inr target else Inl True
         | ResolvedBuilder target \<Rightarrow> Inl True)
      else
        (case rg_value registered of
           ResolvedBuilder target \<Rightarrow> Inr target
         | ResolvedAlias isAction alias target \<Rightarrow> Inl False))"

definition planRequested ::
  "PlanTask \<Rightarrow> HostPluginRecord \<Rightarrow> jstring \<Rightarrow> ('w, 'b) PluginHost \<Rightarrow> ('w, 'b) planning" where
  "planRequested task r now h =
     (case planTarget (pk_registered task) of
        Inl True \<Rightarrow>
          denyPlan task r (js ''registry_kind_mismatch'') []
            (planError task PLUGIN_HOST_PLAN_STEP_INVALID PhaseAuthorization
               (js ''Action registry kind/value mismatch.'')) now h
      | Inl False \<Rightarrow> endPlanning (pk_plugin task) (Inl JsTypeError) h
      | Inr target \<Rightarrow>
          (case hr_effective r of
             None \<Rightarrow> endPlanning (pk_plugin task) (Inl JsTypeError) h
           | Some effective \<Rightarrow>
               if ht_requiredCapability target \<notin> set effective then
                 denyPlan task r (js ''required_capability_missing'') []
                   (planError task PLUGIN_CONTRIBUTION_CAPABILITY_MISSING PhaseCapability
                      (js ''Action target '' @ ht_id target @ js '' requires effective capability ''
                       @ ht_requiredCapability target @ js ''.'')) now h
               else (h, Running (task\<lparr>pk_wait := PlanPolicy\<rparr>))))"

definition outcomeError :: "PlanTask \<Rightarrow> string \<Rightarrow> PolicyOutcome \<Rightarrow> PluginHostError" where
  "outcomeError task who outcome =
     planError task (if outcome = PolicyAsk then PLUGIN_HOST_ACTION_ASK else PLUGIN_HOST_ACTION_DENIED)
       PhaseAuthorization
       (js who @ js '' returned '' @ (if outcome = PolicyAsk then js ''ask'' else js ''deny'') @ js ''.'')"

definition planAuthorized ::
  "PlanTask \<Rightarrow> HostPluginRecord \<Rightarrow> HostActionTargetFacts \<Rightarrow> unknown \<Rightarrow> jstring \<Rightarrow> ('w, 'b) PluginHost \<Rightarrow>
   ('w, 'b) planning" where
  "planAuthorized task r target answer now h =
     (case normalizeHostPolicyDecision answer of
        Inl e \<Rightarrow> denyPlan task r (js ''action_policy_failed'') [] (decisionError task e) now h
      | Inr decision \<Rightarrow>
          if pd_outcome decision \<noteq> PolicyAllow then
            denyPlan task r (pd_code decision) (pd_evidenceRefs decision)
              (outcomeError task ''Action policy'' (pd_outcome decision)) now h
          else if hr_gateMode r = Shadow then
            planAudit task
              (auditInput ActionAllowed r (heldReferences (pd_evidenceRefs decision))
                 [(js ''contributionId'', AuditText (pk_action task)), (js ''targetId'', AuditText (ht_id target)),
                  (js ''outcome'', AuditText (js ''shadowed''))])
              now (\<lambda>event. PlanShadowSink event target) h
          else
            (case rg_value (pk_registered task) of
               ResolvedAlias isAction alias _ \<Rightarrow>
                 (case mapDeclarativeInput alias (pk_input task) of
                    Inl e \<Rightarrow> denyPlan task r (js ''action_input_invalid'') [] e now h
                  | Inr input \<Rightarrow>
                      (h, Running (task\<lparr>pk_wait := PlanStepPolicy (pd_evidenceRefs decision)
                        \<lparr>hp_id = hr_id r @ [46] @ da_id alias, hp_actionId = ht_id target, hp_input = input\<rparr>
                        target\<rparr>)))
             | ResolvedBuilder _ \<Rightarrow>
                 (case normalizeBundledInput (pk_input task) of
                    Inl e \<Rightarrow> denyPlan task r (js ''action_input_invalid'') [] e now h
                  | Inr input \<Rightarrow> (h, Running (task\<lparr>pk_wait := PlanBuilder (pd_evidenceRefs decision)\<rparr>)))))"

definition planBuilt ::
  "PlanTask \<Rightarrow> HostPluginRecord \<Rightarrow> HostActionTargetFacts \<Rightarrow> jstring option list \<Rightarrow> unknown \<Rightarrow> jstring \<Rightarrow>
   ('w, 'b) PluginHost \<Rightarrow> ('w, 'b) planning" where
  "planBuilt task r target refs raw now h =
     (case normalizePlanStep raw (ph_targets h) of
        Inl e \<Rightarrow> denyPlan task r (js ''plan_step_invalid'') [] e now h
      | Inr (step, found) \<Rightarrow>
          if ht_id found \<noteq> ht_id target then
            denyPlan task r (js ''fixed_target_mismatch'') []
              (planError task PLUGIN_HOST_PLAN_STEP_INVALID PhaseAuthorization
                 (js ''Bundled plan builder changed its constructor-resolved fixed target.'')) now h
          else (h, Running (task\<lparr>pk_wait := PlanStepPolicy refs step found\<rparr>)))"

definition planValidated ::
  "PlanTask \<Rightarrow> HostPluginRecord \<Rightarrow> jstring option list \<Rightarrow> HostPlanStep \<Rightarrow> HostActionTargetFacts \<Rightarrow> unknown \<Rightarrow>
   jstring \<Rightarrow> ('w, 'b) PluginHost \<Rightarrow> ('w, 'b) planning" where
  "planValidated task r refs step target answer now h =
     (case normalizeHostPolicyDecision answer of
        Inl e \<Rightarrow> denyPlan task r (js ''plan_policy_failed'') [] (decisionError task e) now h
      | Inr decision \<Rightarrow>
          if pd_outcome decision \<noteq> PolicyAllow then
            denyPlan task r (pd_code decision) (pd_evidenceRefs decision)
              (outcomeError task ''Plan-step policy'' (pd_outcome decision)) now h
          else
            planAudit task
              (auditInput ActionAllowed r (spreadReferences (refs @ pd_evidenceRefs decision))
                 [(js ''contributionId'', AuditText (pk_action task)), (js ''targetId'', AuditText (ht_id target)),
                  (js ''outcome'', AuditText (js ''planned''))])
              now (\<lambda>event. PlanAllowedSink event step target) h)"

definition planSunk ::
  "PlanTask \<Rightarrow> HostPluginRecord \<Rightarrow> jstring \<Rightarrow> ('w, 'b) PluginHost \<Rightarrow> ('w, 'b) planning option" where
  "planSunk task r now h =
     (case pk_wait task of
        PlanRequestedSink event \<Rightarrow> Some (planRequested task r now (recordEvent event h))
      | PlanDeniedSink event e \<Rightarrow> Some (endPlanning (pk_plugin task) (Inl (HostFault e)) (recordEvent event h))
      | PlanShadowSink event target \<Rightarrow>
          Some (endPlanning (pk_plugin task) (Inr (PlanShadowed (pk_action task) (ht_id target))) (recordEvent event h))
      | PlanAllowedSink event step target \<Rightarrow>
          Some (endPlanning (pk_plugin task) (Inr (PlanPlanned (pk_action task) (ht_id target) step))
            (recordEvent event h))
      | _ \<Rightarrow> None)"

definition planSinkFailed :: "PlanTask \<Rightarrow> ('w, 'b) PluginHost \<Rightarrow> ('w, 'b) planning option" where
  "planSinkFailed task h =
     (let fail = (\<lambda>event. Some (endPlanning (pk_plugin task) (Inl (HostFault (auditWriteFailed event))) h))
      in case pk_wait task of
           PlanRequestedSink event \<Rightarrow> fail event
         | PlanDeniedSink event e \<Rightarrow> fail event
         | PlanShadowSink event target \<Rightarrow> fail event
         | PlanAllowedSink event step target \<Rightarrow> fail event
         | _ \<Rightarrow> None)"

definition resumePlanning ::
  "PlanTask \<Rightarrow> HostReply \<Rightarrow> jstring \<Rightarrow> ('w, 'b) PluginHost \<Rightarrow> ('w, 'b) planning option" where
  "resumePlanning task reply now h =
     (case (hostRecord h (pk_plugin task), planTarget (pk_registered task)) of
        (None, _) \<Rightarrow> None
      | (Some r, target) \<Rightarrow>
          (case reply of
             SinkOk \<Rightarrow> planSunk task r now h
           | SinkFails \<Rightarrow> planSinkFailed task h
           | PolicyReturns answer \<Rightarrow>
               (case (pk_wait task, target) of
                  (PlanPolicy, Inr t) \<Rightarrow> Some (planAuthorized task r t answer now h)
                | (PlanStepPolicy refs step t, _) \<Rightarrow> Some (planValidated task r refs step t answer now h)
                | _ \<Rightarrow> None)
           | PolicyThrows e \<Rightarrow>
               (case pk_wait task of
                  PlanPolicy \<Rightarrow> Some (denyPlan task r (js ''action_policy_failed'') [] (policyError task e) now h)
                | PlanStepPolicy refs step t \<Rightarrow>
                    Some (denyPlan task r (js ''plan_policy_failed'') [] (policyError task e) now h)
                | _ \<Rightarrow> None)
           | HookReturns raw \<Rightarrow>
               (case (pk_wait task, target) of
                  (PlanBuilder refs, Inr t) \<Rightarrow> Some (planBuilt task r t refs raw now h)
                | _ \<Rightarrow> None)
           | HookFails \<Rightarrow>
               (case pk_wait task of
                  PlanBuilder refs \<Rightarrow>
                    Some (denyPlan task r (js ''plan_builder_failed'') []
                      (planError task PLUGIN_HOST_PLAN_STEP_INVALID PhaseAuthorization
                         (js ''Bundled plan builder failed closed.'')) now h)
                | _ \<Rightarrow> None)
           | EvaluatorReplies _ \<Rightarrow> None))"

end
