(* ===== verification/HostTargets.thy ===== *)
theory HostTargets
  imports HostInput "HOL-Library.AList"
begin

text \<open>
  The catalog of host targets and the check of a declarative alias against it
  (\<open>packages/plugin-host/src/capability-policy.ts\<close>, second half). A target of the catalog is
  the clone of a plain value; the kind of a target is the part of the catalog that holds it. An alias
  stays the value that was checked; \<open>readAlias\<close> is how the host reads it afterwards. Arrays have no
  named fields here.
\<close>

section \<open>Targets\<close>

definition forbiddenMappingNames :: "jstring list" where
  "forbiddenMappingNames =
     [js ''__proto__'', js ''prototype'', js ''constructor'', js ''tostring'', js ''command'', js ''argv'',
      js ''args'', js ''shell'', js ''exec'', js ''spawn'', js ''template'', js ''path'', js ''file'', js ''module'',
      js ''url'', js ''risk'', js ''risklevel'', js ''riskzone'', js ''confirmationrequired'', js ''secret'',
      js ''secrets'', js ''token'', js ''password'', js ''credential'', js ''credentials'', js ''privatekey'',
      js ''apikey'']"

definition forbiddenName :: "jstring \<Rightarrow> bool" where
  "forbiddenName name \<longleftrightarrow> toLowerCase name \<in> set forbiddenMappingNames"

definition inputTypeOf :: "unknown option \<Rightarrow> PluginInputType option" where
  "inputTypeOf v =
     (if isLiteral v (js ''string'') then Some TextInput
      else if isLiteral v (js ''number'') then Some NumberInput
      else if isLiteral v (js ''boolean'') then Some BooleanInput else None)"

definition riskOf :: "unknown option \<Rightarrow> CanonicalRiskLevel option" where
  "riskOf v =
     (if isLiteral v (js ''none'') then Some RiskNone
      else if isLiteral v (js ''low'') then Some RiskLow
      else if isLiteral v (js ''medium'') then Some RiskMedium
      else if isLiteral v (js ''high'') then Some RiskHigh else None)"

definition bindingInvalid :: "jstring \<Rightarrow> jstring option \<Rightarrow> PluginHostError" where
  "bindingInvalid summary cid = hostFail PLUGIN_HOST_BINDING_INVALID PhaseBinding summary None cid"

definition exactKeys :: "(jstring \<times> unknown) list \<Rightarrow> jstring list \<Rightarrow> bool" where
  "exactKeys own expected \<longleftrightarrow> length own = length expected \<and> (\<forall>k \<in> set expected. k \<in> fst ` set own)"

text \<open>A property that is absent reads as \<open>undefined\<close>; \<open>value ?? fallback\<close>.\<close>

definition propertyOf :: "(jstring \<times> unknown) list \<Rightarrow> jstring \<Rightarrow> unknown" where
  "propertyOf own k = (case map_of own k of None \<Rightarrow> UUndefined | Some v \<Rightarrow> v)"

definition orDefault :: "unknown \<Rightarrow> unknown \<Rightarrow> unknown" where
  "orDefault v fallback = (if v = UUndefined \<or> v = UNull then fallback else v)"

definition cloneInputField :: "jstring \<times> unknown \<Rightarrow> PluginHostError + jstring \<times> HostTargetInputField" where
  "cloneInputField kv =
     (let (key, v) = kv;
          e = bindingInvalid (js ''Target input schema field '' @ key @ js '' is invalid.'') None
      in case dataRecord v of
           None \<Rightarrow> Inl e
         | Some field \<Rightarrow>
             (case (inputTypeOf (map_of field (js ''type'')), isBool (map_of field (js ''required''))) of
                (Some type, Some required) \<Rightarrow>
                  if \<not> safeField key \<or> forbiddenName key \<or> \<not> exactKeys field [js ''type'', js ''required''] then Inl e
                  else Inr (key, \<lparr>hf_type = type, hf_required = required\<rparr>)
              | _ \<Rightarrow> Inl e))"

text \<open>The first failure of a list of checks, or all their results.\<close>

fun check_all :: "('a \<Rightarrow> 'e + 'b) \<Rightarrow> 'a list \<Rightarrow> 'e + 'b list" where
  "check_all f [] = Inr []"
| "check_all f (x # xs) = check_bind (f x) (\<lambda>y. check_bind (check_all f xs) (\<lambda>ys. Inr (y # ys)))"

definition cloneInputSchema :: "unknown \<Rightarrow> PluginHostError + (jstring \<times> HostTargetInputField) list" where
  "cloneInputSchema v =
     (case dataRecord v of
        None \<Rightarrow> Inl (bindingInvalid (js ''Target input schema is invalid.'') None)
      | Some schema \<Rightarrow>
          if 64 < length schema then Inl (bindingInvalid (js ''Target input schema is invalid.'') None)
          else
            check_bind (check_all cloneInputField (sort_key fst schema)) (\<lambda>kfs.
            Inr (fold (\<lambda>(k, field). AList.update k field) kfs [])))"

text \<open>The parts of a text between the separators of a host identifier.\<close>

fun segments :: "(jchar \<Rightarrow> bool) \<Rightarrow> jstring \<Rightarrow> jstring list" where
  "segments p [] = [[]]"
| "segments p (c # cs) =
     (if p c then [] # segments p cs
      else (case segments p cs of [] \<Rightarrow> [[c]] | s # ss \<Rightarrow> (c # s) # ss))"

definition forbiddenAuthorityTarget :: "jstring \<Rightarrow> bool" where
  "forbiddenAuthorityTarget i \<longleftrightarrow>
     (\<exists>s \<in> set (segments (\<lambda>c. c = 46 \<or> c = 95 \<or> c = 45) i).
        toLowerCase s \<in> set [js ''approve'', js ''approved'', js ''approval'', js ''merge'', js ''mergeable''])"

definition targetFlags :: "jstring list" where
  "targetFlags =
     [js ''exists'', js ''declarativeAliasAllowed'', js ''sideEffects'', js ''confirmationRequired'',
      js ''exposesSecrets'', js ''exposesCredentials'', js ''exposesPaths'']"

definition targetBaseFields :: "jstring list" where
  "targetBaseFields =
     [js ''kind'', js ''id'', js ''exists'', js ''declarativeAliasAllowed'', js ''sideEffects'', js ''risk'',
      js ''confirmationRequired'', js ''exposesSecrets'', js ''exposesCredentials'', js ''exposesPaths'',
      js ''inputSchema'']"

definition flagProblem :: "(jstring \<times> unknown) list \<Rightarrow> jstring \<Rightarrow> jstring \<Rightarrow> PluginHostError option" where
  "flagProblem target i field =
     (if isBool (map_of target field) = None then
        Some (bindingInvalid (js ''Host target '' @ i @ js '' field '' @ field @ js '' must be boolean.'') (Some i))
      else None)"

definition targetIdentity ::
  "bool \<Rightarrow> (jstring \<times> unknown) list \<Rightarrow> PluginHostError + jstring" where
  "targetIdentity isAction target =
     (let e = bindingInvalid (js ''Host target identity is invalid or authority-bearing.'') None
      in case map_of target (js ''id'') of
           Some (UText i) \<Rightarrow>
             if \<not> isLiteral (map_of target (js ''kind'')) (if isAction then js ''host_action'' else js ''host_workflow'')
                \<or> 128 < length i \<or> \<not> rx_test hostIdPattern i \<or> forbiddenAuthorityTarget i then Inl e
             else Inr i
         | _ \<Rightarrow> Inl e)"

text \<open>The facts of a target, and the capability that an action requires.\<close>

definition cloneTarget :: "bool \<Rightarrow> unknown \<Rightarrow> PluginHostError + HostAliasTargetFacts \<times> jstring" where
  "cloneTarget isAction v =
     check_bind (case dataRecord v of
           Some target \<Rightarrow>
             if exactKeys target (if isAction then targetBaseFields @ [js ''requiredCapability''] else targetBaseFields)
             then Inr target
             else Inl (bindingInvalid (js ''Host target facts must use the exact Red host schema.'') None)
         | None \<Rightarrow> Inl (bindingInvalid (js ''Host target facts must use the exact Red host schema.'') None)) (\<lambda>target.
     check_bind (targetIdentity isAction target) (\<lambda>i.
     check_bind (noProblem (firstProblem (flagProblem target i) targetFlags)) (\<lambda>_.
     check_bind (case riskOf (map_of target (js ''risk'')) of
           Some risk \<Rightarrow> Inr risk
         | None \<Rightarrow> Inl (bindingInvalid (js ''Host target '' @ i @ js '' risk is invalid.'') (Some i))) (\<lambda>risk.
     check_bind (if \<not> isAction then Inr []
         else (case map_of target (js ''requiredCapability'') of
             Some (UText c) \<Rightarrow>
               if c \<in> set knownPluginCapabilities then Inr c
               else Inl (bindingInvalid (js ''Host target '' @ i @ js '' required capability is invalid.'') (Some i))
           | _ \<Rightarrow> Inl (bindingInvalid (js ''Host target '' @ i @ js '' required capability is invalid.'') (Some i)))) (\<lambda>c.
     check_bind (cloneInputSchema (propertyOf target (js ''inputSchema''))) (\<lambda>schema.
     let flag = (\<lambda>field. isBool (map_of target field) = Some True)
     in Inr (\<lparr>ht_id = i, ht_exists = flag (js ''exists''),
              ht_declarativeAliasAllowed = flag (js ''declarativeAliasAllowed''),
              ht_sideEffects = flag (js ''sideEffects''), ht_risk = risk,
              ht_confirmationRequired = flag (js ''confirmationRequired''),
              ht_exposesSecrets = flag (js ''exposesSecrets''),
              ht_exposesCredentials = flag (js ''exposesCredentials''),
              ht_exposesPaths = flag (js ''exposesPaths''), ht_inputSchema = schema\<rparr>, c)))))))"

definition actionFacts :: "HostAliasTargetFacts \<times> jstring \<Rightarrow> HostActionTargetFacts" where
  "actionFacts t = HostAliasTargetFacts.extend (fst t) (HostActionTargetFacts.fields (snd t))"

section \<open>The catalog\<close>

record HostTargetCatalog =
  hc_actions :: "(jstring \<times> HostActionTargetFacts) list"
  hc_workflows :: "(jstring \<times> HostAliasTargetFacts) list"

definition denseBoundedArray :: "unknown \<Rightarrow> string \<Rightarrow> PluginHostError + unknown list" where
  "denseBoundedArray v label =
     (let e = bindingInvalid (js label @ js '' must be a bounded dense data array.'') None
      in case v of
           UArray items \<Rightarrow>
             if 256 < length items \<or> None \<in> set items then Inl e else Inr (map the items)
         | _ \<Rightarrow> Inl e)"

fun enterTargets ::
  "string \<Rightarrow> (jstring \<times> 'a HostAliasTargetFacts_scheme) list \<Rightarrow> 'a HostAliasTargetFacts_scheme list \<Rightarrow>
   PluginHostError + (jstring \<times> 'a HostAliasTargetFacts_scheme) list" where
  "enterTargets noun entered [] = Inr entered"
| "enterTargets noun entered (t # ts) =
     (if map_of entered (ht_id t) \<noteq> None then
        Inl (bindingInvalid (js ''Host '' @ js noun @ js '' target '' @ ht_id t @ js '' is duplicated.'') (Some (ht_id t)))
      else enterTargets noun (entered @ [(ht_id t, t)]) ts)"

definition createHostTargetCatalog :: "unknown \<Rightarrow> PluginHostError + HostTargetCatalog" where
  "createHostTargetCatalog seedValue =
     check_bind (case dataRecord seedValue of
           Some seed \<Rightarrow>
             if \<forall>(k, v) \<in> set seed. k = js ''actions'' \<or> k = js ''workflows'' then Inr seed
             else Inl (bindingInvalid (js ''Host target catalog seed is not exact plain data.'') None)
         | None \<Rightarrow> Inl (bindingInvalid (js ''Host target catalog seed is not exact plain data.'') None)) (\<lambda>seed.
     check_bind (denseBoundedArray (orDefault (propertyOf seed (js ''actions'')) (UArray [])) ''Host action targets'')
       (\<lambda>actionValues.
     check_bind (denseBoundedArray (orDefault (propertyOf seed (js ''workflows'')) (UArray [])) ''Host workflow targets'')
       (\<lambda>workflowValues.
     check_bind (check_all (cloneTarget True) actionValues) (\<lambda>actions.
     check_bind (check_all (cloneTarget False) workflowValues) (\<lambda>workflows.
     check_bind (enterTargets ''action'' [] (sort_key ht_id (map actionFacts actions))) (\<lambda>actionMap.
     check_bind (enterTargets ''workflow'' [] (sort_key ht_id (map fst workflows))) (\<lambda>workflowMap.
     Inr \<lparr>hc_actions = actionMap, hc_workflows = workflowMap\<rparr>)))))))"

section \<open>Aliases\<close>

definition aliasFinding ::
  "jstring option \<Rightarrow> jstring option \<Rightarrow> PluginHostFindingCode \<Rightarrow> jstring \<Rightarrow> PluginHostFinding" where
  "aliasFinding pluginId cid code summary = hostFinding code PhaseValidation summary pluginId cid"

definition targetSafetyFindings ::
  "'a HostAliasTargetFacts_scheme option \<Rightarrow> jstring option \<Rightarrow> jstring option \<Rightarrow> PluginHostFinding list" where
  "targetSafetyFindings target pluginId cid =
     (let missing = [aliasFinding pluginId cid PLUGIN_ALIAS_TARGET_NOT_FOUND
            (js ''The referenced host target does not exist.'')]
      in case target of
           None \<Rightarrow> missing
         | Some t \<Rightarrow>
             if \<not> ht_exists t then missing
             else if \<not> ht_declarativeAliasAllowed t \<or> ht_sideEffects t \<or> ht_risk t \<noteq> RiskNone
                  \<or> ht_confirmationRequired t \<or> ht_exposesSecrets t \<or> ht_exposesCredentials t \<or> ht_exposesPaths t
             then [aliasFinding pluginId cid PLUGIN_ALIAS_TARGET_UNSAFE
                 (js ''Host target '' @ ht_id t @ js '' is outside the declarative read-only ceiling.'')]
             else [])"

definition inputDefinitionOf :: "unknown \<Rightarrow> PluginInputDefinition option" where
  "inputDefinitionOf v =
     (case dataRecord v of
        None \<Rightarrow> None
      | Some d \<Rightarrow>
          (case (inputTypeOf (map_of d (js ''type'')), propertyOf d (js ''required'')) of
             (Some type, UUndefined) \<Rightarrow> Some \<lparr>id_type = type, id_required = None\<rparr>
           | (Some type, UBool b) \<Rightarrow> Some \<lparr>id_type = type, id_required = Some b\<rparr>
           | _ \<Rightarrow> None))"

text \<open>The loop over the inputs: its findings, and the definitions that are kept.\<close>

fun checkInputs ::
  "(PluginHostFindingCode \<Rightarrow> jstring \<Rightarrow> PluginHostFinding) \<Rightarrow> (jstring \<times> unknown) list \<Rightarrow>
   PluginHostFinding list \<times> (jstring \<times> PluginInputDefinition) list" where
  "checkInputs finding [] = ([], [])"
| "checkInputs finding ((name, v) # inputs) =
     (let (findings, defs) = checkInputs finding inputs
      in if forbiddenName name then
           (finding PLUGIN_ALIAS_MAPPING_FORBIDDEN (js ''Input name '' @ name @ js '' is forbidden.'') # findings, defs)
         else
           (case inputDefinitionOf v of
              None \<Rightarrow>
                (finding PLUGIN_ALIAS_MAPPING_TYPE_MISMATCH
                   (js ''Input definition '' @ name @ js '' is invalid.'') # findings, defs)
            | Some d \<Rightarrow> (findings, (name, d) # defs)))"

datatype BindingShape = ConstantBinding unknown | NamedBinding unknown

definition bindingShape :: "unknown \<Rightarrow> BindingShape option" where
  "bindingShape v =
     (case dataRecord v of
        None \<Rightarrow> None
      | Some b \<Rightarrow>
          if isLiteral (map_of b (js ''kind'')) (js ''constant'') then Some (ConstantBinding (propertyOf b (js ''value'')))
          else if isLiteral (map_of b (js ''kind'')) (js ''input'') then Some (NamedBinding (propertyOf b (js ''name'')))
          else None)"

definition namedFindings ::
  "(PluginHostFindingCode \<Rightarrow> jstring \<Rightarrow> PluginHostFinding) \<Rightarrow> (jstring \<times> PluginInputDefinition) list \<Rightarrow>
   jstring \<Rightarrow> HostTargetInputField \<Rightarrow> unknown \<Rightarrow> PluginHostFinding list" where
  "namedFindings finding defs targetName field nameValue =
     (let forbidden = [finding PLUGIN_ALIAS_MAPPING_FORBIDDEN
            (js ''Input mapping for '' @ targetName @ js '' references a forbidden name.'')]
      in case nameValue of
           UText name \<Rightarrow>
             if forbiddenName name then forbidden
             else
               (case map_of defs name of
                  None \<Rightarrow>
                    [finding PLUGIN_ALIAS_MAPPING_UNKNOWN_INPUT
                       (js ''Input mapping for '' @ targetName @ js '' references unknown input '' @ name @ js ''.'')]
                | Some d \<Rightarrow>
                    if id_type d \<noteq> hf_type field \<or> hf_required field \<and> id_required d \<noteq> Some True then
                      [finding PLUGIN_ALIAS_MAPPING_TYPE_MISMATCH
                         (js ''Input '' @ name @ js '' is incompatible with target input '' @ targetName @ js ''.'')]
                    else [])
         | _ \<Rightarrow> forbidden)"

definition mappingFindings ::
  "(PluginHostFindingCode \<Rightarrow> jstring \<Rightarrow> PluginHostFinding) \<Rightarrow> (jstring \<times> PluginInputDefinition) list \<Rightarrow>
   (jstring \<times> HostTargetInputField) list \<Rightarrow> jstring \<times> unknown \<Rightarrow> PluginHostFinding list" where
  "mappingFindings finding defs schema mapping =
     (let (targetName, v) = mapping
      in if forbiddenName targetName then
           [finding PLUGIN_ALIAS_MAPPING_FORBIDDEN (js ''Target mapping name '' @ targetName @ js '' is forbidden.'')]
         else
           (case map_of schema targetName of
              None \<Rightarrow>
                [finding PLUGIN_ALIAS_MAPPING_UNKNOWN_TARGET
                   (js ''Target input '' @ targetName @ js '' is not in the host schema.'')]
            | Some field \<Rightarrow>
                (case bindingShape v of
                   None \<Rightarrow>
                     [finding PLUGIN_ALIAS_MAPPING_TYPE_MISMATCH
                        (js ''Mapping for '' @ targetName @ js '' is not a supported scalar binding.'')]
                 | Some (ConstantBinding x) \<Rightarrow>
                     if primitiveMatches x (hf_type field) then []
                     else [finding PLUGIN_ALIAS_MAPPING_TYPE_MISMATCH
                       (js ''Constant mapping for '' @ targetName @ js '' does not match ''
                        @ typeText (hf_type field) @ js ''.'')]
                 | Some (NamedBinding nameValue) \<Rightarrow> namedFindings finding defs targetName field nameValue)))"

definition schemaFindings ::
  "(PluginHostFindingCode \<Rightarrow> jstring \<Rightarrow> PluginHostFinding) \<Rightarrow> (jstring \<times> unknown) list \<Rightarrow>
   jstring \<times> HostTargetInputField \<Rightarrow> PluginHostFinding list" where
  "schemaFindings finding mappings kf =
     (let (targetName, field) = kf
      in if forbiddenName targetName then
           [finding PLUGIN_ALIAS_TARGET_UNSAFE
              (js ''Host target schema exposes forbidden input '' @ targetName @ js ''.'')]
         else if hf_required field \<and> map_of mappings targetName = None then
           [finding PLUGIN_ALIAS_MAPPING_REQUIRED_TARGET_MISSING
              (js ''Required target input '' @ targetName @ js '' is not mapped.'')]
         else [])"

definition validateMappings ::
  "(jstring \<times> unknown) list \<Rightarrow> 'a HostAliasTargetFacts_scheme \<Rightarrow> jstring option \<Rightarrow> jstring option \<Rightarrow>
   PluginHostFinding list" where
  "validateMappings record target pluginId cid =
     (let finding = aliasFinding pluginId cid
      in case (dataRecord (orDefault (propertyOf record (js ''inputs'')) (UObject True [])),
               dataRecord (orDefault (propertyOf record (js ''inputMapping'')) (UObject True []))) of
           (Some inputs, Some mappings) \<Rightarrow>
             (let (inputFindings, defs) = checkInputs finding (sort_key fst inputs)
              in inputFindings
                 @ concat (map (mappingFindings finding defs (ht_inputSchema target)) (sort_key fst mappings))
                 @ concat (map (schemaFindings finding mappings) (sort_key fst (ht_inputSchema target))))
         | _ \<Rightarrow>
             [finding PLUGIN_ALIAS_MAPPING_TYPE_MISMATCH
                (js ''Alias inputs and inputMapping must be plain data objects.'')])"

datatype ResolvedDeclarativeAlias =
  ActionAliasOf unknown HostActionTargetFacts
| WorkflowAliasOf unknown HostAliasTargetFacts

definition targetReference :: "(jstring \<times> unknown) list \<Rightarrow> jstring option" where
  "targetReference record =
     (case dataRecord (propertyOf record (js ''target'')) of
        None \<Rightarrow> None
      | Some t \<Rightarrow>
          (case map_of t (js ''id'') of
             Some (UText i) \<Rightarrow>
               if isLiteral (map_of t (js ''kind'')) (js ''host_action'')
                  \<or> isLiteral (map_of t (js ''kind'')) (js ''host_workflow'') then Some i
               else None
           | _ \<Rightarrow> None))"

text \<open>How the host reads a checked alias of an action; \<open>None\<close> is no alias that was checked.\<close>

definition readBinding :: "unknown \<Rightarrow> InputBinding option" where
  "readBinding v =
     (case bindingShape v of
        Some (ConstantBinding x) \<Rightarrow> Some (ConstantInput x)
      | Some (NamedBinding (UText name)) \<Rightarrow> Some (NamedInput name)
      | _ \<Rightarrow> None)"

fun readEntries :: "(unknown \<Rightarrow> 'a option) \<Rightarrow> (jstring \<times> unknown) list \<Rightarrow> (jstring \<times> 'a) list option" where
  "readEntries f [] = Some []"
| "readEntries f ((k, v) # kvs) =
     (case (f v, readEntries f kvs) of (Some x, Some xs) \<Rightarrow> Some ((k, x) # xs) | _ \<Rightarrow> None)"

definition readFields :: "(unknown \<Rightarrow> 'a option) \<Rightarrow> unknown \<Rightarrow> (jstring \<times> 'a) list option option" where
  "readFields f v =
     (if v = UUndefined \<or> v = UNull then Some None
      else
        (case dataRecord v of
           None \<Rightarrow> None
         | Some own \<Rightarrow> (case readEntries f own of None \<Rightarrow> None | Some kvs \<Rightarrow> Some (Some kvs))))"

definition readAlias :: "unknown \<Rightarrow> DeclarativeActionAlias option" where
  "readAlias contribution =
     (case dataRecord contribution of
        None \<Rightarrow> None
      | Some record \<Rightarrow>
          (case (readFields inputDefinitionOf (propertyOf record (js ''inputs'')),
                 readFields readBinding (propertyOf record (js ''inputMapping''))) of
             (Some inputs, Some mapping) \<Rightarrow>
               Some \<lparr>da_id = (case textField contribution (js ''id'') of None \<Rightarrow> js ''undefined'' | Some i \<Rightarrow> i),
                     da_inputs = inputs, da_inputMapping = mapping\<rparr>
           | _ \<Rightarrow> None))"

definition aliasTargetFindings ::
  "(jstring \<times> unknown) list \<Rightarrow> 'a HostAliasTargetFacts_scheme option \<Rightarrow> jstring option \<Rightarrow> jstring option \<Rightarrow>
   PluginHostFinding list" where
  "aliasTargetFindings record target pluginId cid =
     targetSafetyFindings target pluginId cid
     @ (case target of None \<Rightarrow> [] | Some t \<Rightarrow> validateMappings record t pluginId cid)"

definition validateDeclarativeAlias ::
  "unknown \<Rightarrow> HostTargetCatalog \<Rightarrow> jstring option \<Rightarrow> PluginHostFinding list + ResolvedDeclarativeAlias" where
  "validateDeclarativeAlias contribution catalog pluginId =
     (let cid = textField contribution (js ''id'');
          kind = textField contribution (js ''kind'')
      in case dataRecord contribution of
           None \<Rightarrow>
             Inl (sortFindings [aliasFinding pluginId cid PLUGIN_ALIAS_TARGET_FORBIDDEN
               (js ''Only declarative action_alias and workflow_alias contributions are allowed.'')])
         | Some record \<Rightarrow>
             if kind \<noteq> Some (js ''action_alias'') \<and> kind \<noteq> Some (js ''workflow_alias'') then
               Inl (sortFindings [aliasFinding pluginId cid PLUGIN_ALIAS_TARGET_FORBIDDEN
                 (js ''Only declarative action_alias and workflow_alias contributions are allowed.'')])
             else
               (case targetReference record of
                  None \<Rightarrow>
                    Inl (sortFindings [aliasFinding pluginId cid PLUGIN_ALIAS_TARGET_FORBIDDEN
                      (js ''Alias target must be a host-owned action or workflow reference.'')])
                | Some i \<Rightarrow>
                    if kind = Some (js ''action_alias'') then
                      (let target = map_of (hc_actions catalog) i;
                           findings = aliasTargetFindings record target pluginId cid
                       in if findings \<noteq> [] then Inl (sortFindings findings)
                          else Inr (ActionAliasOf contribution (the target)))
                    else
                      (let target = map_of (hc_workflows catalog) i;
                           findings = aliasTargetFindings record target pluginId cid
                       in if findings \<noteq> [] then Inl (sortFindings findings)
                          else Inr (WorkflowAliasOf contribution (the target)))))"

definition assertDeclarativeAlias ::
  "unknown \<Rightarrow> HostTargetCatalog \<Rightarrow> jstring option \<Rightarrow> PluginHostError + ResolvedDeclarativeAlias" where
  "assertDeclarativeAlias contribution catalog pluginId =
     (case validateDeclarativeAlias contribution catalog pluginId of
        Inl findings \<Rightarrow> Inl (pluginHostError findings)
      | Inr resolved \<Rightarrow> Inr resolved)"

section \<open>An alias that was checked\<close>

lemma checkInputs_kept:
  "fst (checkInputs finding inputs) = [] \<Longrightarrow> (k, v) \<in> set inputs \<Longrightarrow>
     \<exists>d. inputDefinitionOf v = Some d \<and> (k, d) \<in> set (snd (checkInputs finding inputs))"
  by (induction inputs) (fastforce simp: Let_def split: prod.splits if_splits option.splits)+

lemma checkInputs_from:
  "fst (checkInputs finding inputs) = [] \<Longrightarrow> (k, d) \<in> set (snd (checkInputs finding inputs)) \<Longrightarrow>
     \<exists>v. (k, v) \<in> set inputs \<and> inputDefinitionOf v = Some d"
  by (induction inputs) (fastforce simp: Let_def split: prod.splits if_splits option.splits)+

lemma readEntries_Some:
  assumes "\<forall>(k, v) \<in> set kvs. f v \<noteq> None"
  obtains xs where "readEntries f kvs = Some xs"
    and "\<And>k x. (k, x) \<in> set xs \<longleftrightarrow> (\<exists>v. (k, v) \<in> set kvs \<and> f v = Some x)"
proof -
  from assms have "\<exists>xs. readEntries f kvs = Some xs
      \<and> (\<forall>k x. (k, x) \<in> set xs \<longleftrightarrow> (\<exists>v. (k, v) \<in> set kvs \<and> f v = Some x))"
    by (induction kvs) (auto split: option.splits)
  with that show ?thesis by blast
qed

lemma readFields_Some:
  assumes "dataRecord (orDefault v (UObject True [])) = Some own" and "\<forall>(k, x) \<in> set own. f x \<noteq> None"
  obtains r where "readFields f v = Some r"
    and "\<And>k y. (k, y) \<in> set (orNone r) \<longleftrightarrow> (\<exists>x. (k, x) \<in> set own \<and> f x = Some y)"
proof (cases "v = UUndefined \<or> v = UNull")
  case True
  with assms(1) have "own = []" by (auto simp: orDefault_def dataRecord_def)
  with that [of None] True show ?thesis by (simp add: readFields_def orNone_def)
next
  case False
  with assms(1) have own: "dataRecord v = Some own" by (simp add: orDefault_def)
  from readEntries_Some [OF assms(2)] obtain xs where xs: "readEntries f own = Some xs"
    "\<And>k y. (k, y) \<in> set xs \<longleftrightarrow> (\<exists>x. (k, x) \<in> set own \<and> f x = Some y)" by blast
  with that [of "Some xs"] own False show ?thesis by (simp add: readFields_def orNone_def)
qed

text \<open>What a mapping without findings says.\<close>

definition bindingFits ::
  "(jstring \<times> PluginInputDefinition) list \<Rightarrow> HostTargetInputField \<Rightarrow> InputBinding \<Rightarrow> bool" where
  "bindingFits defs field b \<longleftrightarrow>
     (case b of
        ConstantInput x \<Rightarrow> primitiveMatches x (hf_type field)
      | NamedInput name \<Rightarrow>
          (\<exists>d. (name, d) \<in> set defs \<and> id_type d = hf_type field \<and> (hf_required field \<longrightarrow> id_required d = Some True)))"

lemma mappingFindings_ok:
  assumes "mappingFindings finding defs schema (k, v) = []"
  shows "\<exists>field b. map_of schema k = Some field \<and> readBinding v = Some b \<and> bindingFits defs field b"
  using assms
  by (auto simp: mappingFindings_def namedFindings_def readBinding_def bindingFits_def Let_def
      split: if_splits option.splits BindingShape.splits unknown.splits dest: map_of_SomeD)

lemma schemaFindings_ok:
  "schemaFindings finding mappings (k, field) = [] \<Longrightarrow> hf_required field \<Longrightarrow> k \<in> fst ` set mappings"
  by (auto simp: schemaFindings_def map_of_eq_None_iff split: if_splits)

lemma mapInputs_set:
  "(k, v) \<in> set (mapInputs own maps) \<longleftrightarrow>
     (k, ConstantInput v) \<in> set maps
     \<or> (\<exists>name. (k, NamedInput name) \<in> set maps \<and> map_of own name = Some v \<and> v \<noteq> UUndefined)"
  by (induction own maps rule: mapInputs.induct) (auto split: option.splits unknown.splits)

lemma mapDeclarativeInput_Inr:
  assumes "mapDeclarativeInput alias v = Inr vs"
  obtains own where "vs = mapInputs own (orNone (da_inputMapping alias))"
    and "\<And>name d. (name, d) \<in> set (orNone (da_inputs alias)) \<Longrightarrow>
      (id_required d = Some True \<longrightarrow> map_of own name \<noteq> None)
      \<and> (\<forall>x. map_of own name = Some x \<longrightarrow> primitiveMatches x (id_type d))"
proof -
  from assms obtain own where vs: "vs = mapInputs own (orNone (da_inputMapping alias))"
    and ok: "firstProblem (inputDefinitionProblem own) (orNone (da_inputs alias)) = None"
    by (auto simp: mapDeclarativeInput_def)
  show ?thesis
  proof (rule that [OF vs])
    fix name d
    assume "(name, d) \<in> set (orNone (da_inputs alias))"
    with ok have "inputDefinitionProblem own (name, d) = None" by (auto simp: firstProblem_None)
    then show "(id_required d = Some True \<longrightarrow> map_of own name \<noteq> None)
      \<and> (\<forall>x. map_of own name = Some x \<longrightarrow> primitiveMatches x (id_type d))"
      by (auto simp: inputDefinitionProblem_def split: if_splits option.splits)
  qed
qed

definition fitsAlways :: "'a HostAliasTargetFacts_scheme \<Rightarrow> DeclarativeActionAlias \<Rightarrow> bool" where
  "fitsAlways target alias \<longleftrightarrow>
     (\<forall>(k, b) \<in> set (orNone (da_inputMapping alias)).
        \<exists>field. map_of (ht_inputSchema target) k = Some field \<and> bindingFits (orNone (da_inputs alias)) field b)
     \<and> (\<forall>(k, field) \<in> set (ht_inputSchema target). hf_required field \<longrightarrow>
          k \<in> fst ` set (orNone (da_inputMapping alias)))"

lemma not_undefined: "primitiveMatches v type \<Longrightarrow> v \<noteq> UUndefined"
  by (cases type) (auto simp: primitiveMatches_def)

lemma fitsAlways_input:
  assumes "fitsAlways target alias" and "distinct (map fst (ht_inputSchema target))"
    and "mapDeclarativeInput alias v = Inr vs"
  shows "inputFits target vs"
proof -
  from assms(3) obtain own where vs: "vs = mapInputs own (orNone (da_inputMapping alias))"
    and ok: "\<And>name d. (name, d) \<in> set (orNone (da_inputs alias)) \<Longrightarrow>
      (id_required d = Some True \<longrightarrow> map_of own name \<noteq> None)
      \<and> (\<forall>x. map_of own name = Some x \<longrightarrow> primitiveMatches x (id_type d))"
    using mapDeclarativeInput_Inr by blast
  have "\<exists>field. map_of (ht_inputSchema target) k = Some field \<and> primitiveMatches x (hf_type field)"
    if "(k, x) \<in> set vs" for k x
  proof -
    from that vs obtain b where b: "(k, b) \<in> set (orNone (da_inputMapping alias))"
      and x: "b = ConstantInput x \<or> (\<exists>name. b = NamedInput name \<and> map_of own name = Some x)"
      by (auto simp: mapInputs_set)
    with assms(1) obtain field where "map_of (ht_inputSchema target) k = Some field"
      "bindingFits (orNone (da_inputs alias)) field b" by (fastforce simp: fitsAlways_def)
    with x ok show ?thesis by (fastforce simp: bindingFits_def)
  qed
  moreover have "map_of vs k \<noteq> None" if field: "(k, field) \<in> set (ht_inputSchema target)" "hf_required field" for k field
  proof -
    from assms(1) field obtain b where b: "(k, b) \<in> set (orNone (da_inputMapping alias))"
      by (fastforce simp: fitsAlways_def)
    with assms(1) obtain field' where "map_of (ht_inputSchema target) k = Some field'"
      "bindingFits (orNone (da_inputs alias)) field' b" by (fastforce simp: fitsAlways_def)
    moreover from assms(2) field(1) have "map_of (ht_inputSchema target) k = Some field" by simp
    ultimately have fits: "bindingFits (orNone (da_inputs alias)) field b" by simp
    have "\<exists>x. (k, x) \<in> set vs"
    proof (cases b)
      case (ConstantInput x)
      with b vs show ?thesis by (auto simp: mapInputs_set)
    next
      case (NamedInput name)
      with fits field(2) obtain d where "(name, d) \<in> set (orNone (da_inputs alias))" "id_required d = Some True"
        by (auto simp: bindingFits_def)
      with ok obtain x where "map_of own name = Some x" "primitiveMatches x (id_type d)" by blast
      with b NamedInput vs not_undefined show ?thesis by (auto simp: mapInputs_set)
    qed
    then show ?thesis by (auto dest: weak_map_of_SomeI)
  qed
  ultimately show ?thesis by (auto simp: inputFits_def)
qed

lemma bindingFits_mono:
  "bindingFits defs field b \<Longrightarrow> set defs \<subseteq> set defs' \<Longrightarrow> bindingFits defs' field b"
  by (fastforce simp: bindingFits_def split: InputBinding.splits)

text \<open>The mapping of an alias without findings is one that the host reads, and it always fits.\<close>

lemma validateMappings_reads:
  assumes "validateMappings record target pluginId cid = []"
  obtains inputs mapping
  where "readFields inputDefinitionOf (propertyOf record (js ''inputs'')) = Some inputs"
    and "readFields readBinding (propertyOf record (js ''inputMapping'')) = Some mapping"
    and "\<forall>i. fitsAlways target \<lparr>da_id = i, da_inputs = inputs, da_inputMapping = mapping\<rparr>"
proof -
  let ?finding = "aliasFinding pluginId cid"
  from assms obtain own maps
    where own: "dataRecord (orDefault (propertyOf record (js ''inputs'')) (UObject True [])) = Some own"
      and maps: "dataRecord (orDefault (propertyOf record (js ''inputMapping'')) (UObject True [])) = Some maps"
    by (auto simp: validateMappings_def Let_def split: option.splits)
  define defs where "defs = snd (checkInputs ?finding (sort_key fst own))"
  from assms own maps have inputsOk: "fst (checkInputs ?finding (sort_key fst own)) = []"
    and mapsOk: "\<And>k v. (k, v) \<in> set maps \<Longrightarrow> mappingFindings ?finding defs (ht_inputSchema target) (k, v) = []"
    and schemaOk: "\<And>k f. (k, f) \<in> set (ht_inputSchema target) \<Longrightarrow> schemaFindings ?finding maps (k, f) = []"
    by (auto simp: validateMappings_def defs_def Let_def split: prod.splits)
  from checkInputs_kept [OF inputsOk] have "\<forall>(k, v) \<in> set own. inputDefinitionOf v \<noteq> None" by fastforce
  with own obtain inputs where inputs: "readFields inputDefinitionOf (propertyOf record (js ''inputs'')) = Some inputs"
    "\<And>k y. (k, y) \<in> set (orNone inputs) \<longleftrightarrow> (\<exists>x. (k, x) \<in> set own \<and> inputDefinitionOf x = Some y)"
    by (rule readFields_Some) blast
  from mappingFindings_ok [OF mapsOk] have "\<forall>(k, v) \<in> set maps. readBinding v \<noteq> None" by fastforce
  with maps obtain mapping where mapping: "readFields readBinding (propertyOf record (js ''inputMapping'')) = Some mapping"
    "\<And>k y. (k, y) \<in> set (orNone mapping) \<longleftrightarrow> (\<exists>x. (k, x) \<in> set maps \<and> readBinding x = Some y)"
    by (rule readFields_Some) blast
  have "set defs \<subseteq> set (orNone inputs)"
    using checkInputs_from [OF inputsOk] inputs(2) by (fastforce simp: defs_def)
  note mono = bindingFits_mono [OF _ this]
  have "\<exists>field. map_of (ht_inputSchema target) k = Some field \<and> bindingFits (orNone inputs) field b"
    if "(k, b) \<in> set (orNone mapping)" for k b
  proof -
    from that mapping(2) obtain x where "(k, x) \<in> set maps" "readBinding x = Some b" by blast
    with mappingFindings_ok [OF mapsOk] mono show ?thesis by fastforce
  qed
  moreover have "k \<in> fst ` set (orNone mapping)"
    if "(k, field) \<in> set (ht_inputSchema target)" "hf_required field" for k field
  proof -
    from schemaFindings_ok [OF schemaOk] that obtain x where x: "(k, x) \<in> set maps" by fastforce
    with mappingFindings_ok [OF mapsOk] obtain b where "readBinding x = Some b" by blast
    with x mapping(2) show ?thesis by force
  qed
  ultimately have "\<forall>i. fitsAlways target \<lparr>da_id = i, da_inputs = inputs, da_inputMapping = mapping\<rparr>"
    by (auto simp: fitsAlways_def)
  with that inputs(1) mapping(1) show ?thesis by blast
qed

definition readOnlyTarget :: "'a HostAliasTargetFacts_scheme \<Rightarrow> bool" where
  "readOnlyTarget t \<longleftrightarrow>
     ht_exists t \<and> ht_declarativeAliasAllowed t \<and> \<not> ht_sideEffects t \<and> ht_risk t = RiskNone
     \<and> \<not> ht_confirmationRequired t \<and> \<not> ht_exposesSecrets t \<and> \<not> ht_exposesCredentials t \<and> \<not> ht_exposesPaths t"

lemma targetSafetyFindings_none:
  "targetSafetyFindings target pluginId cid = [] \<longleftrightarrow> (\<exists>t. target = Some t \<and> readOnlyTarget t)"
  by (auto simp: targetSafetyFindings_def readOnlyTarget_def Let_def split: option.splits)

lemma validateDeclarativeAlias_action:
  assumes "validateDeclarativeAlias c catalog pluginId = Inr (ActionAliasOf c' t)"
  obtains i a where "map_of (hc_actions catalog) i = Some t" and "c' = c" and "readOnlyTarget t"
    and "readAlias c = Some a" and "fitsAlways t a"
proof -
  from assms obtain own i where own: "dataRecord c = Some own"
    and i: "map_of (hc_actions catalog) i = Some t" and c: "c' = c" and safe: "readOnlyTarget t"
    and maps: "validateMappings own t pluginId (textField c (js ''id'')) = []"
    by (auto simp: validateDeclarativeAlias_def aliasTargetFindings_def targetSafetyFindings_none Let_def
        split: option.splits if_splits)
  from maps obtain inputs mapping
    where "readFields inputDefinitionOf (propertyOf own (js ''inputs'')) = Some inputs"
      "readFields readBinding (propertyOf own (js ''inputMapping'')) = Some mapping"
      and fits: "\<forall>i. fitsAlways t \<lparr>da_id = i, da_inputs = inputs, da_inputMapping = mapping\<rparr>"
    by (rule validateMappings_reads)
  with own have "readAlias c = Some \<lparr>da_id = (case textField c (js ''id'') of None \<Rightarrow> js ''undefined'' | Some i \<Rightarrow> i),
      da_inputs = inputs, da_inputMapping = mapping\<rparr>" by (simp add: readAlias_def)
  from that [OF i c safe this] fits show ?thesis by blast
qed

text \<open>The catalog holds the targets under their own names, with one field of a schema for a name.\<close>

definition catalogued :: "(jstring \<times> 'a HostAliasTargetFacts_scheme) list \<Rightarrow> bool" where
  "catalogued entries \<longleftrightarrow>
     (\<forall>(i, t) \<in> set entries. i = ht_id t \<and> distinct (map fst (ht_inputSchema t)))"

lemma check_all_set:
  "check_all f xs = Inr ys \<Longrightarrow> y \<in> set ys \<Longrightarrow> \<exists>x \<in> set xs. f x = Inr y"
  by (induction xs arbitrary: ys) auto

lemma fold_update_distinct:
  "distinct (map fst al) \<Longrightarrow> distinct (map fst (fold (\<lambda>(k, v). AList.update k v) kvs al))"
  by (induction kvs arbitrary: al) (auto simp: distinct_update)

lemma cloneInputSchema_distinct: "cloneInputSchema v = Inr schema \<Longrightarrow> distinct (map fst schema)"
  by (auto simp: cloneInputSchema_def fold_update_distinct split: option.splits if_splits)

lemma cloneTarget_distinct: "cloneTarget isAction v = Inr (t, c) \<Longrightarrow> distinct (map fst (ht_inputSchema t))"
  by (auto simp: cloneTarget_def Let_def cloneInputSchema_distinct split: option.splits if_splits)

lemma enterTargets_catalogued:
  assumes "enterTargets noun entered ts = Inr entries" and "catalogued entered"
    and "\<forall>t \<in> set ts. distinct (map fst (ht_inputSchema t))"
  shows "catalogued entries"
  using assms
  by (induction noun entered ts rule: enterTargets.induct) (auto simp: catalogued_def split: if_splits)

lemma enterTargets_distinct:
  assumes "enterTargets noun entered ts = Inr entries" and "distinct (map fst entered)"
  shows "distinct (map fst entries)"
  using assms
  by (induction noun entered ts rule: enterTargets.induct) (auto simp: map_of_eq_None_iff split: if_splits)

lemma createHostTargetCatalog_catalogued:
  assumes "createHostTargetCatalog seed = Inr catalog"
  shows "catalogued (hc_actions catalog) \<and> catalogued (hc_workflows catalog)
    \<and> distinct (map fst (hc_actions catalog)) \<and> distinct (map fst (hc_workflows catalog))"
proof -
  from assms obtain vs as ws bs
    where actions: "check_all (cloneTarget True) vs = Inr as"
        "enterTargets ''action'' [] (sort_key ht_id (map actionFacts as)) = Inr (hc_actions catalog)"
      and workflows: "check_all (cloneTarget False) ws = Inr bs"
        "enterTargets ''workflow'' [] (sort_key ht_id (map fst bs)) = Inr (hc_workflows catalog)"
    by (auto simp: createHostTargetCatalog_def)
  from check_all_set [OF actions(1)]
  have as: "\<forall>t \<in> set (sort_key ht_id (map actionFacts as)). distinct (map fst (ht_inputSchema t))"
    by (fastforce simp: actionFacts_def HostAliasTargetFacts.defs HostActionTargetFacts.defs dest: cloneTarget_distinct)
  from check_all_set [OF workflows(1)]
  have bs: "\<forall>t \<in> set (sort_key ht_id (map fst bs)). distinct (map fst (ht_inputSchema t))"
    by (fastforce dest: cloneTarget_distinct)
  have "catalogued ([] :: (jstring \<times> HostActionTargetFacts) list)" "catalogued ([] :: (jstring \<times> HostAliasTargetFacts) list)"
    by (simp_all add: catalogued_def)
  with enterTargets_catalogued [OF actions(2) _ as] enterTargets_catalogued [OF workflows(2) _ bs]
    enterTargets_distinct [OF actions(2)] enterTargets_distinct [OF workflows(2)]
  show ?thesis by simp
qed

end
