(* ===== verification/BundledPolicy.thy ===== *)
theory BundledPolicy
  imports PluginHost HostTargets
begin

text \<open>
  What a bundled plugin may be and what its blockers may return
  (\<open>packages/plugin-host/src/bundled-policy.ts\<close>). The hooks and builders of a plugin are functions: a
  definition keeps whether it has them. \<open>map\<close> skips the holes of an array and keeps them in its
  result.
\<close>

section \<open>Errors and primitive checks\<close>

record BundledPluginValidationError =
  be_code :: PluginHostFindingCode
  be_path :: jstring
  be_message :: jstring

datatype BundledError = BundledInvalid BundledPluginValidationError | BundledTypeError

definition failBundled :: "PluginHostFindingCode \<Rightarrow> jstring \<Rightarrow> string \<Rightarrow> BundledError" where
  "failBundled code path message = BundledInvalid \<lparr>be_code = code, be_path = path, be_message = js message\<rparr>"

text \<open>A value that must be there.\<close>

definition orFail :: "'e \<Rightarrow> 'a option \<Rightarrow> 'e + 'a" where
  "orFail e x = (case x of None \<Rightarrow> Inl e | Some y \<Rightarrow> Inr y)"

lemma orFail_Inr [simp]: "orFail e x = Inr y \<longleftrightarrow> x = Some y"
  by (simp add: orFail_def split: option.splits)

abbreviation definitionInvalid :: "jstring \<Rightarrow> string \<Rightarrow> BundledError" where
  "definitionInvalid \<equiv> failBundled PLUGIN_HOST_BUNDLED_DEFINITION_INVALID"

definition exactDataObject ::
  "unknown \<Rightarrow> jstring \<Rightarrow> jstring list \<Rightarrow> jstring list \<Rightarrow> PluginHostFindingCode \<Rightarrow>
   BundledError + (jstring \<times> unknown) list" where
  "exactDataObject v path required optional code =
     (case v of
        UObject plain props \<Rightarrow>
          if \<not> plain then Inl (failBundled code path ''Custom prototypes are forbidden.'')
          else
            check_bind (readProperties (\<lambda>k. k \<in> set required \<or> k \<in> set optional)
                (failBundled code path ''Unknown, symbol, or authority-bearing fields are forbidden.'')
                (\<lambda>k. failBundled code (subPath path k) ''Fields must be enumerable own data properties.'')
                props) (\<lambda>own.
            check_bind (noProblem (firstProblem (\<lambda>k.
                if map_of own k = None then Some (failBundled code (subPath path k) ''Required field is missing.'')
                else None) required)) (\<lambda>_.
            Inr own))
      | _ \<Rightarrow> Inl (failBundled code path ''Expected a plain data object.''))"

abbreviation definitionObject ::
  "unknown \<Rightarrow> jstring \<Rightarrow> jstring list \<Rightarrow> jstring list \<Rightarrow> BundledError + (jstring \<times> unknown) list" where
  "definitionObject v path required optional \<equiv>
     exactDataObject v path required optional PLUGIN_HOST_BUNDLED_DEFINITION_INVALID"

definition safeString ::
  "unknown \<Rightarrow> jstring \<Rightarrow> nat \<Rightarrow> rx option \<Rightarrow> PluginHostFindingCode \<Rightarrow> BundledError + jstring" where
  "safeString v path limit pattern code =
     (let e = failBundled code path ''Expected bounded control-free text in the closed host grammar.''
      in case v of
           UText s \<Rightarrow>
             if s = [] \<or> limit < codePoints s \<or> \<not> safeText s
                \<or> (case pattern of None \<Rightarrow> False | Some r \<Rightarrow> \<not> rx_test r s)
             then Inl e else Inr s
         | _ \<Rightarrow> Inl e)"

abbreviation definitionText :: "unknown \<Rightarrow> jstring \<Rightarrow> nat \<Rightarrow> rx option \<Rightarrow> BundledError + jstring" where
  "definitionText v path limit pattern \<equiv> safeString v path limit pattern PLUGIN_HOST_BUNDLED_DEFINITION_INVALID"

section \<open>Versions\<close>

text \<open>\<open>VERSION\<close> and \<open>RANGE\<close>; the pattern of identifiers is \<open>hostIdPattern\<close>, of plugins \<open>localIdPattern\<close>.\<close>

definition numberPattern :: rx where
  "numberPattern =
     RAlt (RChar 48) (RSeq (RClass (\<lambda>c. is_digit c \<and> c \<noteq> 48)) (RStar (RClass is_digit)))"

definition versionPattern :: rx where
  "versionPattern = RSeq numberPattern (RSeq (RChar 46) (RSeq numberPattern (RSeq (RChar 46) numberPattern)))"

definition comparatorPattern :: rx where
  "comparatorPattern =
     RSeq (ROpt (RAlt (RClass (\<lambda>c. c = 94 \<or> c = 126)) (RAlt (RSeq (RClass (\<lambda>c. c = 62 \<or> c = 60)) (ROpt (RChar 61)))
       (RChar 61)))) versionPattern"

definition rangePattern :: rx where
  "rangePattern = RSeq comparatorPattern (RStar (RSeq (RChar 32) comparatorPattern))"

section \<open>The catalog item of a workflow\<close>

definition catalogInvalid :: "string \<Rightarrow> BundledError" where
  "catalogInvalid = definitionInvalid (js ''/contributions/catalogItem'')"

text \<open>A list of parts, the state of the traversal going through them.\<close>

fun cloneEach :: "('a \<Rightarrow> 's \<Rightarrow> 'e + 'b \<times> 's) \<Rightarrow> 'a list \<Rightarrow> 's \<Rightarrow> 'e + 'b list \<times> 's" where
  "cloneEach f [] n = Inr ([], n)"
| "cloneEach f (x # xs) n =
     check_bind (f x n) (\<lambda>(y, n). check_bind (cloneEach f xs n) (\<lambda>(ys, n). Inr (y # ys, n)))"

definition enumerableKeys :: "(pkey \<times> bool \<times> unknown option) list \<Rightarrow> jstring list" where
  "enumerableKeys props = concat (map (\<lambda>(k, e, v). case k of StringKey s \<Rightarrow> if e then [s] else [] | SymbolKey n \<Rightarrow> []) props)"

text \<open>
  The first argument is the number of levels left below the limit of the depth, the last one the
  number of nodes so far. \<open>Object.keys\<close> of \<open>undefined\<close> throws a \<open>TypeError\<close>; other values that are no
  object have no keys.
\<close>

primrec safeJsonClone :: "nat \<Rightarrow> unknown \<Rightarrow> nat \<Rightarrow> BundledError + unknown \<times> nat" where
  "safeJsonClone 0 v nodes = Inl (catalogInvalid ''Catalog data exceeds host limits.'')"
| "safeJsonClone (Suc levels) v nodes =
     (if 10000 < nodes + 1 then Inl (catalogInvalid ''Catalog data exceeds host limits.'')
      else
        (case v of
           UNull \<Rightarrow> Inr (v, nodes + 1)
         | UBool b \<Rightarrow> Inr (v, nodes + 1)
         | UText s \<Rightarrow>
             if 4096 < codePoints s then Inl (catalogInvalid ''Catalog text exceeds host limits.'')
             else Inr (v, nodes + 1)
         | UNumber x \<Rightarrow>
             if x = NotFinite then Inl (catalogInvalid ''Catalog numbers must be finite.'')
             else Inr (v, nodes + 1)
         | UArray items \<Rightarrow>
             if 1000 < length items then Inl (catalogInvalid ''Catalog arrays are invalid.'')
             else
               check_bind (cloneEach (\<lambda>item n.
                   case item of
                     None \<Rightarrow> Inl (catalogInvalid ''Catalog arrays must be dense data arrays.'')
                   | Some x \<Rightarrow> safeJsonClone levels x n) items (nodes + 1)) (\<lambda>(ys, n).
               Inr (UArray (map Some ys), n))
         | UUndefined \<Rightarrow> Inl BundledTypeError
         | UObject plain props \<Rightarrow>
             check_bind (definitionObject v (js ''/contributions/catalogItem'') (enumerableKeys props) []) (\<lambda>own.
             check_bind (cloneEach (\<lambda>(k, x) n.
                 if k = js ''__proto__'' \<or> k = js ''prototype'' \<or> k = js ''constructor'' then
                   Inl (catalogInvalid ''Prototype-sensitive catalog keys are forbidden.'')
                 else check_bind (safeJsonClone levels x n) (\<lambda>(y, n). Inr ((k, y), n)))
                 (sort_key fst own) (nodes + 1)) (\<lambda>(kys, n).
             Inr (UObject True (map (\<lambda>(k, y). (StringKey k, True, Some y)) kys), n)))
         | _ \<Rightarrow> Inl (catalogInvalid ''Expected a plain data object.'')))"

section \<open>The definition of a plugin\<close>

datatype NormalizedBundledContribution =
  NormalizedAction jstring jstring
| NormalizedWorkflow jstring unknown
| NormalizedBlocker jstring nat

primrec contributionKind :: "NormalizedBundledContribution \<Rightarrow> RegisteredKind" where
  "contributionKind (NormalizedAction i targetId) = BundledAction"
| "contributionKind (NormalizedWorkflow i catalogItem) = BundledWorkflow"
| "contributionKind (NormalizedBlocker i evaluate) = PrmsBlocker"

definition bundledKind :: "unknown \<Rightarrow> RegisteredKind option" where
  "bundledKind v =
     (if v = UText (js ''bundled_action'') then Some BundledAction
      else if v = UText (js ''bundled_workflow'') then Some BundledWorkflow
      else if v = UText (js ''prms_blocker'') then Some PrmsBlocker else None)"

record NormalizedBundledPlugin =
  bp_id :: jstring
  bp_version :: jstring
  bp_name :: jstring
  bp_description :: "jstring option"
  bp_openslack :: jstring
  bp_gateMode :: PluginGateMode
  bp_gateId :: jstring
  bp_requestedCapabilities :: "jstring option list"
  bp_contributions :: "NormalizedBundledContribution list"
  bp_activate :: bool
  bp_deactivate :: bool

definition bundledCapability :: "nat \<Rightarrow> jstring list \<Rightarrow> unknown \<Rightarrow> BundledError + jstring" where
  "bundledCapability i seen v =
     (let e = definitionInvalid (subPath (js ''/requestedCapabilities'') (js_nat i))
            ''Capability is unknown or duplicated.''
      in case v of
           UText c \<Rightarrow> if c \<notin> set policyCapabilities \<or> c \<in> set seen then Inl e else Inr c
         | _ \<Rightarrow> Inl e)"

definition actionTargetId :: "unknown \<Rightarrow> jstring \<Rightarrow> BundledError + jstring" where
  "actionTargetId v path =
     check_bind (definitionObject v path [js ''kind'', js ''id''] []) (\<lambda>target.
     check_bind (require (propertyOf target (js ''kind'') = UText (js ''host_action''))
         (definitionInvalid (subPath path (js ''kind'')) ''Bundled actions require a fixed host_action target.'')) (\<lambda>_.
     definitionText (propertyOf target (js ''id'')) (subPath path (js ''id'')) 128 (Some hostIdPattern)))"

definition functionOf :: "unknown \<Rightarrow> nat option" where
  "functionOf v = (case v of UFunction f \<Rightarrow> Some f | _ \<Rightarrow> None)"

definition bundledContribution ::
  "unknown \<Rightarrow> jstring \<Rightarrow> jstring \<Rightarrow> RegisteredKind \<Rightarrow> BundledError + NormalizedBundledContribution" where
  "bundledContribution v path i kind =
     (if kind = BundledAction then
        check_bind (definitionObject v path [js ''kind'', js ''id'', js ''target'', js ''buildPlanStep''] []) (\<lambda>exact.
        check_bind (actionTargetId (propertyOf exact (js ''target'')) (subPath path (js ''target''))) (\<lambda>targetId.
        check_bind (orFail (definitionInvalid (subPath path (js ''buildPlanStep'')) ''Bundled action requires a function.'')
            (functionOf (propertyOf exact (js ''buildPlanStep'')))) (\<lambda>_.
        Inr (NormalizedAction i targetId))))
      else if kind = BundledWorkflow then
        check_bind (definitionObject v path [js ''kind'', js ''id'', js ''catalogItem''] []) (\<lambda>exact.
        check_bind (safeJsonClone 33 (propertyOf exact (js ''catalogItem'')) 0) (\<lambda>(catalogItem, nodes).
        Inr (NormalizedWorkflow i catalogItem)))
      else
        check_bind (definitionObject v path [js ''kind'', js ''id'', js ''evaluate''] []) (\<lambda>exact.
        check_bind (orFail (definitionInvalid (subPath path (js ''evaluate''))
            ''PRMS blocker requires an evaluator function.'') (functionOf (propertyOf exact (js ''evaluate'')))) (\<lambda>f.
        Inr (NormalizedBlocker i f))))"

text \<open>The loop over the contributions; \<open>seen\<close> holds the keys of the ones before.\<close>

fun bundledContributions ::
  "nat \<Rightarrow> (RegisteredKind \<times> jstring) list \<Rightarrow> unknown option list \<Rightarrow>
   BundledError + NormalizedBundledContribution list" where
  "bundledContributions n seen [] = Inr []"
| "bundledContributions n seen (None # items) = bundledContributions (n + 1) seen items"
| "bundledContributions n seen (Some item # items) =
     (let path = subPath (js ''/contributions'') (js_nat n)
      in check_bind (definitionObject item path [js ''kind'', js ''id'']
             [js ''target'', js ''buildPlanStep'', js ''catalogItem'', js ''evaluate'']) (\<lambda>probe.
         check_bind (definitionText (propertyOf probe (js ''id'')) (subPath path (js ''id'')) 64 (Some localIdPattern)) (\<lambda>i.
         check_bind (orFail (definitionInvalid (subPath path (js ''kind'')) ''Bundled contribution kind is invalid.'')
             (bundledKind (propertyOf probe (js ''kind'')))) (\<lambda>kind.
         check_bind (require ((kind, i) \<notin> set seen)
             (definitionInvalid (subPath path (js ''id'')) ''Contribution ID is duplicated for its kind.'')) (\<lambda>_.
         check_bind (bundledContribution item path i kind) (\<lambda>c.
         check_bind (bundledContributions (n + 1) ((kind, i) # seen) items) (\<lambda>cs.
         Inr (c # cs))))))))"

definition gateModeOf :: "unknown \<Rightarrow> PluginGateMode option" where
  "gateModeOf v =
     (if v = UText (js ''SHADOW'') then Some Shadow
      else if v = UText (js ''ENFORCE'') then Some Enforce else None)"

definition boundedList :: "unknown \<Rightarrow> nat \<Rightarrow> nat \<Rightarrow> BundledError \<Rightarrow> BundledError + unknown option list" where
  "boundedList v least limit e =
     (case v of
        UArray items \<Rightarrow> if length items < least \<or> limit < length items then Inl e else Inr items
      | _ \<Rightarrow> Inl e)"

text \<open>A kind of contribution, and the capability without which it is refused.\<close>

definition kindCapabilityProblem ::
  "NormalizedBundledContribution list \<Rightarrow> jstring option list \<Rightarrow> RegisteredKind \<times> string \<times> string \<Rightarrow>
   BundledError option" where
  "kindCapabilityProblem contributions requested need =
     (let (kind, capability, message) = need
      in if kind \<in> contributionKind ` set contributions \<and> Some (js capability) \<notin> set requested then
           Some (definitionInvalid (js ''/requestedCapabilities'') message)
         else None)"

definition neededCapabilities :: "(RegisteredKind \<times> string \<times> string) list" where
  "neededCapabilities =
     [(BundledAction, ''host.actions.plan'', ''Bundled actions require host.actions.plan.''),
      (BundledWorkflow, ''host.workflows.contribute'', ''Bundled workflows require host.workflows.contribute.''),
      (PrmsBlocker, ''prms.blockers.append'', ''PRMS blockers require prms.blockers.append.'')]"

definition hookProblem :: "(jstring \<times> unknown) list \<Rightarrow> string \<Rightarrow> BundledError option" where
  "hookProblem own hook =
     (let v = propertyOf own (js hook)
      in if v \<noteq> UUndefined \<and> functionOf v = None then
           Some (definitionInvalid ([slash] @ js hook) (hook @ '' must be a function.''))
         else None)"

definition bundledIdentity ::
  "(jstring \<times> unknown) list \<Rightarrow> BundledError + jstring \<times> jstring \<times> jstring \<times> jstring option" where
  "bundledIdentity own =
     check_bind (require (propertyOf own (js ''providerKind'') = UText (js ''bundled''))
         (definitionInvalid (js ''/providerKind'') ''Explicit bundled registration requires providerKind bundled.'')) (\<lambda>_.
     check_bind (definitionText (propertyOf own (js ''id'')) (js ''/id'') 64 (Some localIdPattern)) (\<lambda>i.
     check_bind (require (i \<notin> set reservedPluginIds \<and> \<not> startsWith i (js ''openslack-''))
         (definitionInvalid (js ''/id'') ''Bundled plugin ID is reserved.'')) (\<lambda>_.
     check_bind (definitionText (propertyOf own (js ''version'')) (js ''/version'') 32 (Some versionPattern)) (\<lambda>version.
     check_bind (definitionText (propertyOf own (js ''name'')) (js ''/name'') 120 None) (\<lambda>name.
     check_bind (if propertyOf own (js ''description'') = UUndefined then Inr None
         else check_bind (definitionText (propertyOf own (js ''description'')) (js ''/description'') 512 None)
           (\<lambda>d. Inr (Some d))) (\<lambda>description.
     Inr (i, version, name, description)))))))"

definition normalizeBundledPluginDefinition :: "unknown \<Rightarrow> BundledError + NormalizedBundledPlugin" where
  "normalizeBundledPluginDefinition v =
     check_bind (definitionObject v []
         [js ''providerKind'', js ''id'', js ''version'', js ''name'', js ''requires'', js ''gate'',
          js ''requestedCapabilities'', js ''contributions'']
         [js ''description'', js ''activate'', js ''deactivate'']) (\<lambda>own.
     check_bind (bundledIdentity own) (\<lambda>(i, version, name, description).
     check_bind (definitionObject (propertyOf own (js ''requires'')) (js ''/requires'') [js ''openslack''] []) (\<lambda>requires.
     check_bind (definitionText (propertyOf requires (js ''openslack'')) (js ''/requires/openslack'') 128
         (Some rangePattern)) (\<lambda>openslack.
     check_bind (definitionObject (propertyOf own (js ''gate'')) (js ''/gate'') [js ''mode'', js ''gateId''] []) (\<lambda>gate.
     check_bind (orFail (definitionInvalid (js ''/gate/mode'') ''Gate mode is invalid.'')
         (gateModeOf (propertyOf gate (js ''mode'')))) (\<lambda>mode.
     check_bind (definitionText (propertyOf gate (js ''gateId'')) (js ''/gate/gateId'') 128 (Some hostIdPattern)) (\<lambda>gateId.
     check_bind (boundedList (propertyOf own (js ''requestedCapabilities'')) 0 32
         (definitionInvalid (js ''/requestedCapabilities'') ''Capabilities must be a bounded array.'')) (\<lambda>capabilities.
     check_bind (checkItems bundledCapability 0 [] capabilities) (\<lambda>requested.
     check_bind (boundedList (propertyOf own (js ''contributions'')) 1 64
         (definitionInvalid (js ''/contributions'') ''Contributions must contain 1 to 64 entries.'')) (\<lambda>items.
     check_bind (bundledContributions 0 [] items) (\<lambda>contributions.
     check_bind (noProblem (firstProblem (kindCapabilityProblem contributions requested) neededCapabilities)) (\<lambda>_.
     check_bind (noProblem (firstProblem (hookProblem own) [''activate'', ''deactivate''])) (\<lambda>_.
     Inr \<lparr>bp_id = i, bp_version = version, bp_name = name, bp_description = description,
          bp_openslack = openslack, bp_gateMode = mode, bp_gateId = gateId,
          bp_requestedCapabilities = requested, bp_contributions = contributions,
          bp_activate = (propertyOf own (js ''activate'') \<noteq> UUndefined),
          bp_deactivate = (propertyOf own (js ''deactivate'') \<noteq> UUndefined)\<rparr>)))))))))))))"

section \<open>The result of a blocker\<close>

abbreviation blockerText :: "unknown \<Rightarrow> jstring \<Rightarrow> nat \<Rightarrow> rx option \<Rightarrow> BundledError + jstring" where
  "blockerText v path limit pattern \<equiv> safeString v path limit pattern PLUGIN_HOST_PRMS_BLOCKER_INVALID"

text \<open>\<open>[A-Z][A-Z0-9_]*\<close>, and the words a code must not have between underscores.\<close>

definition is_upper :: "jchar \<Rightarrow> bool" where
  "is_upper c \<longleftrightarrow> 65 \<le> c \<and> c \<le> 90"

definition blockerCodePattern :: rx where
  "blockerCodePattern = RSeq (RClass is_upper) (RStar (RClass (\<lambda>c. is_upper c \<or> is_digit c \<or> c = 95)))"

definition authorityWords :: "jstring list" where
  "authorityWords =
     [js ''PASS'', js ''PASSED'', js ''APPROVE'', js ''APPROVED'', js ''APPROVAL'', js ''READY_TO_MERGE'',
      js ''MERGEABLE'', js ''CAN_MERGE'', js ''AUTHORIZED'', js ''ALLOWED'']"

text \<open>\<open>w\<close> stands in the code after its start or an underscore, and before its end or an underscore.\<close>

definition wordIn :: "jstring \<Rightarrow> jstring \<Rightarrow> bool" where
  "wordIn code w = js_includes ([95] @ code @ [95]) ([95] @ w @ [95])"

definition authorityCode :: "jstring \<Rightarrow> bool" where
  "authorityCode code \<longleftrightarrow> (\<exists>w \<in> set authorityWords. wordIn code w)"

definition normalizeBlocker :: "nat \<Rightarrow> unknown \<Rightarrow> BundledError + BlockingFinding" where
  "normalizeBlocker n item =
     (let path = subPath (js ''/blockers'') (js_nat n);
          invalid = failBundled PLUGIN_HOST_PRMS_BLOCKER_INVALID
      in check_bind (exactDataObject item path [js ''kind'', js ''code'', js ''summary''] [js ''detail'']
             PLUGIN_HOST_PRMS_BLOCKER_INVALID) (\<lambda>blocker.
         check_bind (require (propertyOf blocker (js ''kind'') = UText (js ''blocker''))
             (invalid (subPath path (js ''kind'')) ''PRMS output can only append blockers.'')) (\<lambda>_.
         check_bind (blockerText (propertyOf blocker (js ''code'')) (subPath path (js ''code'')) 128
             (Some blockerCodePattern)) (\<lambda>code.
         check_bind (require (\<not> authorityCode code)
             (invalid (subPath path (js ''code''))
                ''PRMS blocker codes cannot represent approval, authorization, PASS, or mergeability.'')) (\<lambda>_.
         check_bind (blockerText (propertyOf blocker (js ''summary'')) (subPath path (js ''summary'')) 512 None) (\<lambda>summary.
         check_bind (if propertyOf blocker (js ''detail'') = UUndefined then Inr None
             else check_bind (blockerText (propertyOf blocker (js ''detail'')) (subPath path (js ''detail'')) 2048 None)
               (\<lambda>d. Inr (Some d))) (\<lambda>detail.
         Inr \<lparr>bf_code = code, bf_summary = summary, bf_detail = detail\<rparr>)))))))"

fun normalizeBlockers :: "nat \<Rightarrow> unknown option list \<Rightarrow> BundledError + BlockingFinding option list" where
  "normalizeBlockers n [] = Inr []"
| "normalizeBlockers n (None # items) =
     check_bind (normalizeBlockers (n + 1) items) (\<lambda>bs. Inr (None # bs))"
| "normalizeBlockers n (Some item # items) =
     check_bind (normalizeBlocker n item) (\<lambda>b.
     check_bind (normalizeBlockers (n + 1) items) (\<lambda>bs. Inr (Some b # bs)))"

definition normalizePrmsBlockerResult :: "unknown \<Rightarrow> BundledError + BlockingFinding option list" where
  "normalizePrmsBlockerResult v =
     check_bind (exactDataObject v [] [js ''blockers''] [] PLUGIN_HOST_PRMS_RESULT_INVALID) (\<lambda>own.
     check_bind (boundedList (propertyOf own (js ''blockers'')) 0 100
         (failBundled PLUGIN_HOST_PRMS_RESULT_INVALID (js ''/blockers'') ''Blockers must be a bounded array.'')) (\<lambda>items.
     normalizeBlockers 0 items))"

definition prmsEvaluatorFailureBlocker :: "jstring \<Rightarrow> jstring \<Rightarrow> bool \<Rightarrow> BlockingFinding" where
  "prmsEvaluatorFailureBlocker pluginId contributionId invalidResult =
     \<lparr>bf_code = (if invalidResult then js ''PLUGIN_HOST_PRMS_RESULT_INVALID''
        else js ''PLUGIN_HOST_PRMS_EVALUATOR_FAILED''),
      bf_summary = js ''Plugin PRMS blocker '' @ pluginId @ [slash] @ contributionId @ js '' failed closed.'',
      bf_detail = None\<rparr>"

section \<open>What is accepted\<close>

lemma safeString_Inr:
  "safeString v path limit pattern code = Inr s \<Longrightarrow>
     codePoints s \<le> limit \<and> safeText s \<and> (\<forall>r. pattern = Some r \<longrightarrow> rx_matches r s)"
  by (auto simp: safeString_def Let_def split: unknown.splits if_splits option.splits)

lemma wordIn_between:
  assumes "code = s @ w @ t" and "s = [] \<or> last s = 95" and "t = [] \<or> hd t = 95"
  shows "wordIn code w"
proof -
  from assms(2) obtain s' where "[95] @ s = s' @ [95]"
    by (cases s rule: rev_cases) auto
  moreover from assms(3) obtain t' where "t @ [95] = [95] @ t'" by (cases t) auto
  ultimately have "[95] @ code @ [95] = s' @ ([95] @ w @ [95]) @ t'" by (simp add: assms(1))
  then show ?thesis unfolding wordIn_def includes_iff by blast
qed

definition blockerSafe :: "BlockingFinding \<Rightarrow> bool" where
  "blockerSafe b \<longleftrightarrow>
     rx_matches blockerCodePattern (bf_code b) \<and> codePoints (bf_code b) \<le> 128
     \<and> (\<forall>w \<in> set authorityWords. \<nexists>s t. bf_code b = s @ w @ t
          \<and> (s = [] \<or> last s = 95) \<and> (t = [] \<or> hd t = 95))
     \<and> safeText (bf_summary b) \<and> codePoints (bf_summary b) \<le> 512
     \<and> (\<forall>d. bf_detail b = Some d \<longrightarrow> safeText d \<and> codePoints d \<le> 2048)"

lemma normalizeBlocker_safe:
  assumes "normalizeBlocker n item = Inr b"
  shows "blockerSafe b"
proof -
  have "\<nexists>s t. bf_code b = s @ w @ t \<and> (s = [] \<or> last s = 95) \<and> (t = [] \<or> hd t = 95)"
    if "w \<in> set authorityWords" for w
  proof -
    from assms have "\<not> authorityCode (bf_code b)" by (auto simp: normalizeBlocker_def Let_def)
    with that have "\<not> wordIn (bf_code b) w" by (simp add: authorityCode_def)
    with wordIn_between show ?thesis by blast
  qed
  then show ?thesis
    using assms by (auto simp: normalizeBlocker_def blockerSafe_def Let_def split: if_splits dest!: safeString_Inr)
qed

lemma normalizeBlockers_all:
  "normalizeBlockers n items = Inr bs \<Longrightarrow> Some b \<in> set bs \<Longrightarrow> \<exists>n item. normalizeBlocker n item = Inr b"
  by (induction n items arbitrary: bs rule: normalizeBlockers.induct) fastforce+

lemma normalizeBlockers_length: "normalizeBlockers n items = Inr bs \<Longrightarrow> length bs = length items"
  by (induction n items arbitrary: bs rule: normalizeBlockers.induct) auto

text \<open>The classes of an expression, and texts of characters below the surrogates.\<close>

primrec rx_classes :: "rx \<Rightarrow> (jchar \<Rightarrow> bool) list" where
  "rx_classes RNone = []"
| "rx_classes REmpty = []"
| "rx_classes (RClass p) = [p]"
| "rx_classes (RSeq r q) = rx_classes r @ rx_classes q"
| "rx_classes (RAlt r q) = rx_classes r @ rx_classes q"
| "rx_classes (RStar r) = rx_classes r"

lemma rx_matches_classes: "rx_matches r s \<Longrightarrow> c \<in> set s \<Longrightarrow> \<exists>p \<in> set (rx_classes r). p c"
  by (induction r s rule: rx_matches.induct) auto

lemma codePoints_plain: "\<forall>c \<in> set s. c < 0xD800 \<Longrightarrow> codePoints s = length s"
  by (induction s rule: codePoints.induct) (auto simp: not_le)

lemma localIdPattern_plain:
  assumes "rx_matches localIdPattern s"
  shows "codePoints s = length s"
proof (rule codePoints_plain, rule ballI)
  fix c
  assume "c \<in> set s"
  with assms have "\<exists>p \<in> set (rx_classes localIdPattern). p c" by (rule rx_matches_classes)
  then show "c < 0xD800"
    by (auto simp: localIdPattern_def RChar_def RPlus_def is_lower_digit_def is_lower_def is_digit_def
        elim: le_less_trans)
qed

text \<open>The capabilities and contributions of a definition that was accepted.\<close>

primrec contributionLocalId :: "NormalizedBundledContribution \<Rightarrow> jstring" where
  "contributionLocalId (NormalizedAction i targetId) = i"
| "contributionLocalId (NormalizedWorkflow i catalogItem) = i"
| "contributionLocalId (NormalizedBlocker i evaluate) = i"

abbreviation contributionKey :: "NormalizedBundledContribution \<Rightarrow> RegisteredKind \<times> jstring" where
  "contributionKey c \<equiv> (contributionKind c, contributionLocalId c)"

lemma bundledContribution_key:
  "bundledContribution item path i kind = Inr c \<Longrightarrow> kind \<in> {BundledAction, BundledWorkflow, PrmsBlocker} \<Longrightarrow>
   contributionKey c = (kind, i)"
  by (auto simp: bundledContribution_def split: if_splits)

lemma bundledKind_cases: "bundledKind v = Some kind \<Longrightarrow> kind \<in> {BundledAction, BundledWorkflow, PrmsBlocker}"
  by (auto simp: bundledKind_def split: if_splits)

lemma bundledContributions_Inr:
  assumes "bundledContributions n seen items = Inr cs"
  shows "(\<forall>c \<in> set cs. validLocalId (contributionLocalId c)
      \<and> contributionKind c \<in> {BundledAction, BundledWorkflow, PrmsBlocker} \<and> contributionKey c \<notin> set seen)
    \<and> distinct (map contributionKey cs) \<and> length cs \<le> length items"
  using assms
proof (induction n seen items arbitrary: cs rule: bundledContributions.induct)
  case (2 n seen items)
  from 2(1) [of cs] 2(2) show ?case by auto
next
  case (3 n seen item items)
  from 3(2) obtain i kind c cs' where i: "rx_matches localIdPattern i" "codePoints i \<le> 64"
    and known: "\<exists>v. bundledKind v = Some kind" and fresh: "(kind, i) \<notin> set seen"
    and c: "bundledContribution item (subPath (js ''/contributions'') (js_nat n)) i kind = Inr c"
    and cs: "cs = c # cs'" "bundledContributions (n + 1) ((kind, i) # seen) items = Inr cs'"
    by (auto simp: Let_def dest!: safeString_Inr) blast
  from known have kind: "kind \<in> {BundledAction, BundledWorkflow, PrmsBlocker}" by (blast dest: bundledKind_cases)
  have "validLocalId i" using i localIdPattern_plain [OF i(1)] by (simp add: validLocalId_def)
  moreover note key = bundledContribution_key [OF c kind]
  moreover have "(\<forall>c \<in> set cs'. validLocalId (contributionLocalId c)
      \<and> contributionKind c \<in> {BundledAction, BundledWorkflow, PrmsBlocker} \<and> contributionKey c \<notin> set ((kind, i) # seen))
    \<and> distinct (map contributionKey cs') \<and> length cs' \<le> length items"
    using 3(1) cs(2) by blast
  ultimately show ?case using kind fresh by (auto simp: cs(1))
qed simp

lemma bundledCapability_Inr:
  "bundledCapability i seen v = Inr c \<Longrightarrow> c \<in> set policyCapabilities \<and> c \<notin> set seen"
  by (auto simp: bundledCapability_def Let_def split: unknown.splits if_splits)

lemma checkItems_capabilities:
  "checkItems bundledCapability i seen items = Inr ts \<Longrightarrow>
     (\<forall>c. Some c \<in> set ts \<longrightarrow> c \<in> set policyCapabilities \<and> c \<notin> set seen)
     \<and> distinct (concat (map (\<lambda>t. case t of None \<Rightarrow> [] | Some c \<Rightarrow> [c]) ts))"
proof (induction items arbitrary: i seen ts)
  case (Cons item items)
  show ?case
  proof (cases item)
    case None
    with Cons.prems obtain ts' where "ts = None # ts'" "checkItems bundledCapability (i + 1) seen items = Inr ts'"
      by (auto split: sum.splits)
    with Cons.IH show ?thesis by simp
  next
    case (Some v)
    with Cons.prems obtain c ts' where ts: "ts = Some c # ts'"
      and rest: "checkItems bundledCapability (i + 1) (c # seen) items = Inr ts'"
      and c: "c \<in> set policyCapabilities" "c \<notin> set seen"
      by (auto split: sum.splits dest!: bundledCapability_Inr)
    from Cons.IH [OF rest] c show ?thesis by (auto simp: ts split: option.splits)
  qed
qed simp

lemma kindCapabilityProblem_None:
  "kindCapabilityProblem cs requested (kind, capability, message) = None \<longleftrightarrow>
     (kind \<in> contributionKind ` set cs \<longrightarrow> Some (js capability) \<in> set requested)"
  by (simp add: kindCapabilityProblem_def)

lemma boundedList_Inr: "boundedList v least limit e = Inr items \<Longrightarrow> length items \<le> limit"
  by (auto simp: boundedList_def split: unknown.splits if_splits)

lemma bundledIdentity_Inr:
  "bundledIdentity own = Inr (i, version, name, description) \<Longrightarrow>
     rx_matches localIdPattern i \<and> codePoints i \<le> 64 \<and> i \<notin> set reservedPluginIds
     \<and> \<not> startsWith i (js ''openslack-'')"
  by (auto simp: bundledIdentity_def dest!: safeString_Inr)

lemma normalizeBundled_Inr:
  assumes "normalizeBundledPluginDefinition v = Inr d"
  obtains items capabilities where "rx_matches localIdPattern (bp_id d)" "codePoints (bp_id d) \<le> 64"
    "bp_id d \<notin> set reservedPluginIds" "\<not> startsWith (bp_id d) (js ''openslack-'')"
    "checkItems bundledCapability 0 [] capabilities = Inr (bp_requestedCapabilities d)"
    "length items \<le> 64" "bundledContributions 0 [] items = Inr (bp_contributions d)"
    "firstProblem (kindCapabilityProblem (bp_contributions d) (bp_requestedCapabilities d)) neededCapabilities = None"
proof -
  from assms obtain own version name description items capabilities list e
    where "bundledIdentity own = Inr (bp_id d, version, name, description)"
      "checkItems bundledCapability 0 [] capabilities = Inr (bp_requestedCapabilities d)"
      "boundedList list 1 64 e = Inr items" "bundledContributions 0 [] items = Inr (bp_contributions d)"
      "firstProblem (kindCapabilityProblem (bp_contributions d) (bp_requestedCapabilities d)) neededCapabilities = None"
    unfolding normalizeBundledPluginDefinition_def by (auto simp del: One_nat_def)
  with that bundledIdentity_Inr boundedList_Inr show ?thesis by meson
qed

end
