(* ===== verification/PrmsProjection.thy ===== *)
theory PrmsProjection
  imports BundledPolicy
begin

text \<open>
  The copy of a report that an evaluator of a plugin gets
  (\<open>packages/plugin-host/src/prms-projection.ts\<close>): plain data within the limits of the host. A value
  is a tree here, so the check for cycles never fires; arrays have no named fields.
\<close>

section \<open>Limits\<close>

record PrmsProjectionLimits =
  pl_maxDepth :: nat
  pl_maxNodes :: nat
  pl_maxArrayLength :: nat
  pl_maxObjectProperties :: nat
  pl_maxKeyLength :: nat
  pl_maxStringLength :: nat
  pl_maxTotalStringLength :: nat

definition defaultPrmsProjectionLimits :: PrmsProjectionLimits where
  "defaultPrmsProjectionLimits =
     \<lparr>pl_maxDepth = 32, pl_maxNodes = 10000, pl_maxArrayLength = 1000, pl_maxObjectProperties = 1000,
      pl_maxKeyLength = 128, pl_maxStringLength = 65536, pl_maxTotalStringLength = 1048576\<rparr>"

datatype PrmsProjectionErrorCode = ProjectionInvalid | ProjectionLimitExceeded

record PrmsProjectionError =
  ppe_code :: PrmsProjectionErrorCode
  ppe_path :: jstring
  ppe_message :: jstring

definition failProjection :: "PrmsProjectionErrorCode \<Rightarrow> jstring \<Rightarrow> string \<Rightarrow> PrmsProjectionError" where
  "failProjection code path message = \<lparr>ppe_code = code, ppe_path = path, ppe_message = js message\<rparr>"

definition boundedPositiveInteger :: "js_num option \<Rightarrow> nat \<Rightarrow> string \<Rightarrow> PrmsProjectionError + nat" where
  "boundedPositiveInteger v most name =
     (let e = failProjection ProjectionInvalid (js ''/limits/'' @ js name)
            ''PRMS projection limits may only lower the host-owned positive ceiling.''
      in case v of
           None \<Rightarrow> Inr most
         | Some NotFinite \<Rightarrow> Inl e
         | Some (Finite x) \<Rightarrow>
             if \<not> isSafeInteger x \<or> x < 1 \<or> of_nat most < x then Inl e else Inr (nat \<lfloor>x\<rfloor>))"

definition resolvePrmsProjectionLimits ::
  "(string \<Rightarrow> js_num option) \<Rightarrow> PrmsProjectionError + PrmsProjectionLimits" where
  "resolvePrmsProjectionLimits limits =
     (let bounded = (\<lambda>name field. boundedPositiveInteger (limits name) (field defaultPrmsProjectionLimits) name)
      in check_bind (bounded ''maxDepth'' pl_maxDepth) (\<lambda>maxDepth.
         check_bind (bounded ''maxNodes'' pl_maxNodes) (\<lambda>maxNodes.
         check_bind (bounded ''maxArrayLength'' pl_maxArrayLength) (\<lambda>maxArrayLength.
         check_bind (bounded ''maxObjectProperties'' pl_maxObjectProperties) (\<lambda>maxObjectProperties.
         check_bind (bounded ''maxKeyLength'' pl_maxKeyLength) (\<lambda>maxKeyLength.
         check_bind (bounded ''maxStringLength'' pl_maxStringLength) (\<lambda>maxStringLength.
         check_bind (bounded ''maxTotalStringLength'' pl_maxTotalStringLength) (\<lambda>maxTotalStringLength.
         Inr \<lparr>pl_maxDepth = maxDepth, pl_maxNodes = maxNodes, pl_maxArrayLength = maxArrayLength,
              pl_maxObjectProperties = maxObjectProperties, pl_maxKeyLength = maxKeyLength,
              pl_maxStringLength = maxStringLength, pl_maxTotalStringLength = maxTotalStringLength\<rparr>))))))))"

section \<open>The projection\<close>

text \<open>A segment of a pointer, with \<open>~\<close> and \<open>/\<close> escaped.\<close>

definition pointer :: "jstring \<Rightarrow> jstring \<Rightarrow> jstring" where
  "pointer parent segment =
     parent @ [slash]
       @ concat (map (\<lambda>c. if c = 126 then [126, 48] else if c = slash then [126, 49] else [c]) segment)"

text \<open>The state counts the nodes and the code units of the texts so far.\<close>

record ProjectionState =
  ps_nodes :: nat
  ps_totalStringLength :: nat

definition countNode ::
  "PrmsProjectionLimits \<Rightarrow> ProjectionState \<Rightarrow> jstring \<Rightarrow> PrmsProjectionError + ProjectionState" where
  "countNode limits st path =
     (if pl_maxNodes limits < ps_nodes st + 1 then
        Inl (failProjection ProjectionLimitExceeded path ''PRMS report exceeds the host-owned node limit.'')
      else Inr (st\<lparr>ps_nodes := ps_nodes st + 1\<rparr>))"

definition projectString ::
  "PrmsProjectionLimits \<Rightarrow> jstring \<Rightarrow> ProjectionState \<Rightarrow> jstring \<Rightarrow> PrmsProjectionError + unknown \<times> ProjectionState"
where
  "projectString limits s st path =
     (let total = ps_totalStringLength st + length s
      in if pl_maxStringLength limits < length s then
           Inl (failProjection ProjectionLimitExceeded path
             ''PRMS report string exceeds the host-owned per-string limit.'')
         else if pl_maxTotalStringLength limits < total then
           Inl (failProjection ProjectionLimitExceeded path
             ''PRMS report strings exceed the host-owned aggregate limit.'')
         else Inr (UText s, st\<lparr>ps_totalStringLength := total\<rparr>))"

definition dangerousKeys :: "jstring list" where
  "dangerousKeys = [js ''__proto__'', js ''prototype'', js ''constructor'']"

definition keyProblem :: "PrmsProjectionLimits \<Rightarrow> jstring \<Rightarrow> pkey \<Rightarrow> PrmsProjectionError option" where
  "keyProblem limits path key =
     (let message = ''PRMS report contains a forbidden, symbol, or empty key.''
      in case key of
           SymbolKey n \<Rightarrow> Some (failProjection ProjectionInvalid path message)
         | StringKey k \<Rightarrow>
             if pl_maxKeyLength limits < length k then
               Some (failProjection ProjectionLimitExceeded (pointer path k)
                 ''PRMS report key exceeds the host-owned length limit.'')
             else if k = [] \<or> toLowerCase k \<in> set dangerousKeys then
               Some (failProjection ProjectionInvalid (pointer path k) message)
             else None)"

definition fieldInvalid :: "jstring \<Rightarrow> PrmsProjectionError" where
  "fieldInvalid path = failProjection ProjectionInvalid path
     ''PRMS report fields must be own data properties with the expected enumerability.''"

text \<open>The parts of an array and of an object, projected by \<open>project\<close>, and the order of the properties.\<close>

type_synonym projector = "unknown \<Rightarrow> jstring \<Rightarrow> ProjectionState \<Rightarrow> PrmsProjectionError + unknown \<times> ProjectionState"

definition projectItem ::
  "projector \<Rightarrow> jstring \<Rightarrow> nat \<times> unknown option \<Rightarrow> ProjectionState \<Rightarrow>
   PrmsProjectionError + unknown \<times> ProjectionState" where
  "projectItem project path = (\<lambda>(n, item) st.
     case item of
       None \<Rightarrow> Inl (fieldInvalid (pointer path (js_nat n)))
     | Some x \<Rightarrow> project x (pointer path (js_nat n)) st)"

definition projectField ::
  "projector \<Rightarrow> jstring \<Rightarrow> pkey \<times> bool \<times> unknown option \<Rightarrow> ProjectionState \<Rightarrow>
   PrmsProjectionError + (jstring \<times> unknown) \<times> ProjectionState" where
  "projectField project path = (\<lambda>(key, e, x) st.
     case (key, e, x) of
       (StringKey k, True, Some y) \<Rightarrow>
         check_bind (project y (pointer path k) st) (\<lambda>(z, st). Inr ((k, z), st))
     | (StringKey k, _, _) \<Rightarrow> Inl (fieldInvalid (pointer path k))
     | (SymbolKey n, _, _) \<Rightarrow> Inl (fieldInvalid path))"

definition fieldKey :: "pkey \<times> bool \<times> unknown option \<Rightarrow> jstring" where
  "fieldKey = (\<lambda>(key, e, x). case key of StringKey k \<Rightarrow> k | SymbolKey n \<Rightarrow> [])"

text \<open>The first argument after the limits is the number of levels left; the depth limit is exceeded at 0.\<close>

primrec projectValue ::
  "PrmsProjectionLimits \<Rightarrow> nat \<Rightarrow> unknown \<Rightarrow> jstring \<Rightarrow> ProjectionState \<Rightarrow>
   PrmsProjectionError + unknown \<times> ProjectionState" where
  "projectValue limits 0 v path st =
     Inl (failProjection ProjectionLimitExceeded path ''PRMS report nesting exceeds the host-owned depth limit.'')"
| "projectValue limits (Suc levels) v path st =
     check_bind (countNode limits st path) (\<lambda>st.
     case v of
       UNull \<Rightarrow> Inr (v, st)
     | UBool b \<Rightarrow> Inr (v, st)
     | UText s \<Rightarrow> projectString limits s st path
     | UNumber x \<Rightarrow>
         if x = NotFinite then Inl (failProjection ProjectionInvalid path ''PRMS report numbers must be finite.'')
         else Inr (v, st)
     | UArray items \<Rightarrow>
         if pl_maxArrayLength limits < length items then
           Inl (failProjection ProjectionLimitExceeded path ''PRMS report array exceeds the host-owned length limit.'')
         else
           check_bind (cloneEach (projectItem (projectValue limits levels) path) (List.enumerate 0 items) st) (\<lambda>(ys, st).
           Inr (UArray (map Some ys), st))
     | UObject plain props \<Rightarrow>
         if \<not> plain then
           Inl (failProjection ProjectionInvalid path ''PRMS report values must be plain data objects.'')
         else if pl_maxObjectProperties limits < length props then
           Inl (failProjection ProjectionLimitExceeded path
             ''PRMS report object exceeds the host-owned property limit.'')
         else
           check_bind (noProblem (firstProblem (keyProblem limits path) (map fst props))) (\<lambda>_.
           check_bind (cloneEach (projectField (projectValue limits levels) path) (sort_key fieldKey props) st)
             (\<lambda>(kzs, st).
           Inr (UObject True (map (\<lambda>(k, z). (StringKey k, True, Some z)) kzs), st)))
     | _ \<Rightarrow> Inl (failProjection ProjectionInvalid path ''PRMS report contains a non-JSON runtime value.''))"

definition projectPrmsReport ::
  "unknown \<Rightarrow> (string \<Rightarrow> js_num option) \<Rightarrow> PrmsProjectionError + unknown" where
  "projectPrmsReport report limits =
     check_bind (resolvePrmsProjectionLimits limits) (\<lambda>resolved.
     check_bind (projectValue resolved (pl_maxDepth resolved) report [] \<lparr>ps_nodes = 0, ps_totalStringLength = 0\<rparr>)
       (\<lambda>(projection, st). Inr projection))"

section \<open>A projection is projected to itself\<close>

text \<open>Cloning the results of a traversal again gives them back, if that is so for each part.\<close>

lemma cloneEach_again:
  assumes "cloneEach f xs st = Inr (ys, st')"
    and "\<And>x y st st'. x \<in> set xs \<Longrightarrow> f x st = Inr (y, st') \<Longrightarrow> g (h y) st = Inr (y, st')"
  shows "cloneEach g (map h ys) st = Inr (ys, st')"
  using assms
proof (induction xs arbitrary: st ys)
  case (Cons x xs)
  from Cons.prems(1) obtain y st1 ys' where ys: "ys = y # ys'" and y: "f x st = Inr (y, st1)"
    and rest: "cloneEach f xs st1 = Inr (ys', st')" by auto
  have "cloneEach g (map h ys') st1 = Inr (ys', st')"
    by (rule Cons.IH [OF rest]) (rule Cons.prems(2), simp_all)
  with Cons.prems(2) [OF _ y] show ?case by (simp add: ys)
qed simp

lemma cloneEach_keys:
  assumes "cloneEach f xs st = Inr (ys, st')" and "\<And>x y st st'. x \<in> set xs \<Longrightarrow> f x st = Inr (y, st') \<Longrightarrow> g y = k x"
  shows "map g ys = map k xs"
  using assms
proof (induction xs arbitrary: st ys)
  case (Cons x xs)
  from Cons.prems(1) obtain y st1 ys' where ys: "ys = y # ys'" and y: "f x st = Inr (y, st1)"
    and rest: "cloneEach f xs st1 = Inr (ys', st')" by auto
  have "map g ys' = map k xs" by (rule Cons.IH [OF rest]) (rule Cons.prems(2), simp_all)
  with Cons.prems(2) [OF _ y] show ?case by (simp add: ys)
qed simp

lemma sort_key_sorted: "sorted (map f xs) \<Longrightarrow> sort_key f xs = xs"
  by (induction xs) (auto simp: insort_is_Cons)

lemma projectValue_Suc:
  "projectValue limits (Suc levels) v path st = Inr r \<longleftrightarrow>
     (\<exists>st1. countNode limits st path = Inr st1 \<and>
        (case v of
           UNull \<Rightarrow> r = (v, st1)
         | UBool b \<Rightarrow> r = (v, st1)
         | UText s \<Rightarrow> projectString limits s st1 path = Inr r
         | UNumber x \<Rightarrow> x \<noteq> NotFinite \<and> r = (v, st1)
         | UArray items \<Rightarrow> length items \<le> pl_maxArrayLength limits
             \<and> (\<exists>ys st2. cloneEach (projectItem (projectValue limits levels) path) (List.enumerate 0 items) st1 = Inr (ys, st2)
                  \<and> r = (UArray (map Some ys), st2))
         | UObject plain props \<Rightarrow> plain \<and> length props \<le> pl_maxObjectProperties limits
             \<and> firstProblem (keyProblem limits path) (map fst props) = None
             \<and> (\<exists>kzs st2. cloneEach (projectField (projectValue limits levels) path) (sort_key fieldKey props) st1 = Inr (kzs, st2)
                  \<and> r = (UObject True (map (\<lambda>(k, z). (StringKey k, True, Some z)) kzs), st2))
         | _ \<Rightarrow> False))"
  by (cases v) auto

declare projectValue.simps(2) [simp del]

lemma projectString_path: "projectString limits s st path = Inr r \<Longrightarrow> projectString limits s st path' = Inr r"
  by (auto simp: projectString_def Let_def split: if_splits)

lemma projectString_text: "projectString limits s st path = Inr (p, st') \<Longrightarrow> p = UText s"
  by (auto simp: projectString_def Let_def split: if_splits)

lemma projectItems_again:
  assumes "cloneEach (projectItem project path) (List.enumerate n items) st = Inr (ys, st')"
    and "\<And>v path st p st' path'. project v path st = Inr (p, st') \<Longrightarrow> project p path' st = Inr (p, st')"
  shows "cloneEach (projectItem project path') (List.enumerate n (map Some ys)) st = Inr (ys, st')
    \<and> length ys = length items"
  using assms(1)
proof (induction items arbitrary: n st ys)
  case (Cons item items)
  from Cons.prems obtain x y st1 ys' where ys: "ys = y # ys'" and y: "project x (pointer path (js_nat n)) st = Inr (y, st1)"
    and rest: "cloneEach (projectItem project path) (List.enumerate (Suc n) items) st1 = Inr (ys', st')"
    by (auto simp: projectItem_def split: option.splits)
  from Cons.IH [OF rest] assms(2) [OF y] show ?case by (simp add: ys) (simp add: projectItem_def)
qed simp

text \<open>The properties of a projection, and what their keys are.\<close>

abbreviation projected :: "jstring \<times> unknown \<Rightarrow> pkey \<times> bool \<times> unknown option" where
  "projected \<equiv> \<lambda>(k, z). (StringKey k, True, Some z)"

lemma projectField_Inr:
  "projectField project path entry st = Inr (kz, st') \<longleftrightarrow>
     (\<exists>k y z. entry = (StringKey k, True, Some y) \<and> kz = (k, z) \<and> project y (pointer path k) st = Inr (z, st'))"
  by (cases entry) (auto simp: projectField_def split: pkey.splits bool.splits option.splits)

lemma projectFields_again:
  assumes "cloneEach (projectField project path) props st = Inr (kzs, st')"
    and "\<And>v path st p st' path'. project v path st = Inr (p, st') \<Longrightarrow> project p path' st = Inr (p, st')"
  shows "cloneEach (projectField project path') (map projected kzs) st = Inr (kzs, st')"
  by (rule cloneEach_again [OF assms(1)]) (auto simp: projectField_Inr intro: assms(2))

lemma projectFields_keys:
  assumes "cloneEach (projectField project path) props st = Inr (kzs, st')"
  shows "map (StringKey \<circ> fst) kzs = map fst props" and "map fst kzs = map fieldKey props"
  by (rule cloneEach_keys [OF assms]; auto simp: projectField_Inr fieldKey_def)+

lemma keyProblem_path: "keyProblem limits path key = None \<Longrightarrow> keyProblem limits path' key = None"
  by (auto simp: keyProblem_def Let_def split: pkey.splits if_splits)

lemma projected_keys:
  "map fst (map projected kzs) = map (StringKey \<circ> fst) kzs" "map fieldKey (map projected kzs) = map fst kzs"
  by (simp_all add: fieldKey_def case_prod_beta comp_def)

lemma projectObject_facts:
  assumes "map (StringKey \<circ> fst) kzs = map fst (sort_key fieldKey props)"
    and "map fst kzs = map fieldKey (sort_key fieldKey props)"
  shows "fst ` set (map projected kzs) = fst ` set props"
    and "sort_key fieldKey (map projected kzs) = map projected kzs"
    and "length (map projected kzs) = length props"
proof -
  have "set (map fst (map projected kzs)) = set (map fst (sort_key fieldKey props))"
    by (simp only: projected_keys(1) assms(1))
  then show "fst ` set (map projected kzs) = fst ` set props" by (simp only: set_map set_sort)
  show "sort_key fieldKey (map projected kzs) = map projected kzs"
    by (rule sort_key_sorted) (simp only: projected_keys assms(2) sorted_sort_key)
  show "length (map projected kzs) = length props"
    using arg_cong [where f = length, OF assms(2)] by (simp only: length_map length_sort)
qed

lemma projectObject_again:
  assumes "countNode limits st path = Inr st1" and "length props \<le> pl_maxObjectProperties limits"
    and "\<forall>key \<in> fst ` set props. keyProblem limits path key = None" and "sort_key fieldKey props = props"
    and "cloneEach (projectField (projectValue limits levels) path) props st1 = Inr (kzs, st')"
  shows "projectValue limits (Suc levels) (UObject True props) path st = Inr (UObject True (map projected kzs), st')"
proof -
  have "firstProblem (keyProblem limits path) (map fst props) = None"
    unfolding firstProblem_None using assms(3) by simp
  with assms(1,2,5) show ?thesis unfolding projectValue_Suc unknown.case assms(4) by blast
qed

lemma projectValue_object:
  assumes "projectValue limits (Suc levels) (UObject plain props) path st = Inr (p, st')"
    and "countNode limits st path = Inr st1"
  shows "\<exists>kzs. p = UObject True (map projected kzs) \<and> length props \<le> pl_maxObjectProperties limits
    \<and> (\<forall>key \<in> fst ` set props. keyProblem limits path key = None)
    \<and> cloneEach (projectField (projectValue limits levels) path) (sort_key fieldKey props) st1 = Inr (kzs, st')"
proof -
  from assms(1) obtain st2 kzs where st2: "countNode limits st path = Inr st2"
    and facts: "length props \<le> pl_maxObjectProperties limits"
      "firstProblem (keyProblem limits path) (map fst props) = None"
      "cloneEach (projectField (projectValue limits levels) path) (sort_key fieldKey props) st2 = Inr (kzs, st')"
      "p = UObject True (map projected kzs)"
    unfolding projectValue_Suc unknown.case prod.inject by blast
  from st2 assms(2) have "st2 = st1" by simp
  with facts show ?thesis unfolding firstProblem_None set_map by blast
qed

lemma projectValue_again:
  "projectValue limits levels v path st = Inr (p, st') \<Longrightarrow> projectValue limits levels p path' st = Inr (p, st')"
proof (induction levels arbitrary: v path st p st' path')
  case (Suc levels)
  note again = Suc.IH
  from Suc.prems obtain st1 where st1: "countNode limits st path' = Inr st1" "countNode limits st path = Inr st1"
    by (auto simp: projectValue_Suc countNode_def split: if_splits)
  show ?case
  proof (cases v)
    case (UText s)
    with Suc.prems st1 have str: "projectString limits s st1 path = Inr (p, st')" by (simp add: projectValue_Suc)
    from projectString_text [OF str] projectString_path [OF str, of path'] st1 show ?thesis
      by (simp add: projectValue_Suc)
  next
    case (UArray items)
    with Suc.prems st1 obtain ys where p: "p = UArray (map Some ys)" and len: "length items \<le> pl_maxArrayLength limits"
      and ys: "cloneEach (projectItem (projectValue limits levels) path) (List.enumerate 0 items) st1 = Inr (ys, st')"
      by (auto simp: projectValue_Suc)
    from projectItems_again [OF ys again] len st1 show ?thesis by (auto simp: projectValue_Suc p)
  next
    case (UObject plain props)
    from projectValue_object [OF Suc.prems [unfolded UObject] st1(2)] obtain kzs
      where p: "p = UObject True (map projected kzs)"
        and fits: "length props \<le> pl_maxObjectProperties limits"
          "\<forall>key \<in> fst ` set props. keyProblem limits path key = None"
        and kzs: "cloneEach (projectField (projectValue limits levels) path) (sort_key fieldKey props) st1 = Inr (kzs, st')"
      by blast
    note facts = projectObject_facts [OF projectFields_keys [OF kzs]]
    have fields: "cloneEach (projectField (projectValue limits levels) path') (map projected kzs) st1 = Inr (kzs, st')"
      by (rule projectFields_again [OF kzs]) (rule again)
    have "\<forall>key \<in> fst ` set (map projected kzs). keyProblem limits path' key = None"
      unfolding facts(1) by (rule ballI, rule keyProblem_path, rule bspec [OF fits(2)])
    moreover have "length (map projected kzs) \<le> pl_maxObjectProperties limits"
      unfolding facts(3) by (rule fits(1))
    ultimately show ?thesis unfolding p by (intro projectObject_again [OF st1(1) _ _ facts(2) fields])
  qed (use Suc.prems st1 in \<open>simp_all add: projectValue_Suc\<close>)
qed simp

lemma projectPrmsReport_again:
  "projectPrmsReport report limits = Inr p \<Longrightarrow> projectPrmsReport p limits = Inr p"
  by (auto simp: projectPrmsReport_def intro: projectValue_again)

section \<open>A projection is plain data\<close>

text \<open>What a projection is to be, for a number of levels; it says nothing of how it is computed.\<close>

primrec plainReport :: "PrmsProjectionLimits \<Rightarrow> nat \<Rightarrow> unknown \<Rightarrow> bool" where
  "plainReport limits 0 v \<longleftrightarrow> False"
| "plainReport limits (Suc levels) v \<longleftrightarrow>
     (case v of
        UNull \<Rightarrow> True
      | UBool b \<Rightarrow> True
      | UNumber x \<Rightarrow> x \<noteq> NotFinite
      | UText s \<Rightarrow> length s \<le> pl_maxStringLength limits
      | UArray items \<Rightarrow> length items \<le> pl_maxArrayLength limits
          \<and> (\<forall>item \<in> set items. \<exists>x. item = Some x \<and> plainReport limits levels x)
      | UObject plain props \<Rightarrow> plain \<and> length props \<le> pl_maxObjectProperties limits
          \<and> (\<forall>entry \<in> set props. \<exists>k x. entry = (StringKey k, True, Some x) \<and> plainReport limits levels x
               \<and> k \<noteq> [] \<and> length k \<le> pl_maxKeyLength limits
               \<and> toLowerCase k \<notin> {js ''__proto__'', js ''prototype'', js ''constructor''})
      | _ \<Rightarrow> False)"

lemma cloneEach_all:
  assumes "cloneEach f xs st = Inr (ys, st')" and "\<And>x y st st'. x \<in> set xs \<Longrightarrow> f x st = Inr (y, st') \<Longrightarrow> P y"
    and "y \<in> set ys"
  shows "P y"
  using assms
proof (induction xs arbitrary: st ys)
  case (Cons x xs)
  from Cons.prems(1) obtain z st1 ys' where ys: "ys = z # ys'" and z: "f x st = Inr (z, st1)"
    and rest: "cloneEach f xs st1 = Inr (ys', st')" by auto
  have "P y" if "y \<in> set ys'" by (rule Cons.IH [OF rest _ that]) (rule Cons.prems(2), simp_all)
  moreover have "P z" by (rule Cons.prems(2) [OF _ z]) simp
  ultimately show ?case using Cons.prems(3) ys by auto
qed simp

lemma cloneEach_length: "cloneEach f xs st = Inr (ys, st') \<Longrightarrow> length ys = length xs"
  by (induction xs arbitrary: st ys) auto

lemma keyProblem_None:
  "keyProblem limits path key = None \<Longrightarrow> \<exists>k. key = StringKey k \<and> k \<noteq> [] \<and> length k \<le> pl_maxKeyLength limits
     \<and> toLowerCase k \<notin> {js ''__proto__'', js ''prototype'', js ''constructor''}"
  by (auto simp: keyProblem_def dangerousKeys_def Let_def split: pkey.splits if_splits)

lemma projectValue_plain:
  "projectValue limits levels v path st = Inr (p, st') \<Longrightarrow> plainReport limits levels p"
proof (induction levels arbitrary: v path st p st')
  case (Suc levels)
  from Suc.prems obtain st1 where st1: "countNode limits st path = Inr st1"
    by (auto simp: projectValue_Suc)
  show ?case
  proof (cases v)
    case (UText s)
    with Suc.prems st1 have str: "projectString limits s st1 path = Inr (p, st')" by (simp add: projectValue_Suc)
    from projectString_text [OF this] str show ?thesis by (auto simp: projectString_def Let_def split: if_splits)
  next
    case (UArray items)
    with Suc.prems st1 obtain ys where p: "p = UArray (map Some ys)" and len: "length items \<le> pl_maxArrayLength limits"
      and ys: "cloneEach (projectItem (projectValue limits levels) path) (List.enumerate 0 items) st1 = Inr (ys, st')"
      by (auto simp: projectValue_Suc)
    have "plainReport limits levels y" if "y \<in> set ys" for y
      by (rule cloneEach_all [OF ys _ that]) (auto simp: projectItem_def split: option.splits intro: Suc.IH)
    with cloneEach_length [OF ys] len show ?thesis by (simp add: p)
  next
    case (UObject plain props)
    from projectValue_object [OF Suc.prems [unfolded UObject] st1] obtain kzs
      where p: "p = UObject True (map projected kzs)"
        and fits: "length props \<le> pl_maxObjectProperties limits"
          "\<forall>key \<in> fst ` set props. keyProblem limits path key = None"
        and kzs: "cloneEach (projectField (projectValue limits levels) path) (sort_key fieldKey props) st1 = Inr (kzs, st')"
      by blast
    have each: "plainReport limits levels (snd kz) \<and> keyProblem limits path (StringKey (fst kz)) = None" if "kz \<in> set kzs" for kz
    proof (rule cloneEach_all [OF kzs _ that])
      fix x y st st'
      assume "x \<in> set (sort_key fieldKey props)" "projectField (projectValue limits levels) path x st = Inr (y, st')"
      with fits(2) show "plainReport limits levels (snd y) \<and> keyProblem limits path (StringKey (fst y)) = None"
        by (force simp: projectField_Inr intro: Suc.IH)
    qed
    have entries: "plainReport limits levels x \<and> k \<noteq> [] \<and> length k \<le> pl_maxKeyLength limits
        \<and> toLowerCase k \<notin> {js ''__proto__'', js ''prototype'', js ''constructor''}" if "(k, x) \<in> set kzs" for k x
    proof -
      from each [OF that] have "plainReport limits levels x" "keyProblem limits path (StringKey k) = None" by simp_all
      with keyProblem_None [OF this(2)] show ?thesis unfolding pkey.inject by blast
    qed
    have "length (map projected kzs) \<le> pl_maxObjectProperties limits"
      using fits(1) projectObject_facts(3) [OF projectFields_keys [OF kzs]] by simp
    moreover have "\<exists>k x. entry = (StringKey k, True, Some x) \<and> plainReport limits levels x
               \<and> k \<noteq> [] \<and> length k \<le> pl_maxKeyLength limits
               \<and> toLowerCase k \<notin> {js ''__proto__'', js ''prototype'', js ''constructor''}"
      if "entry \<in> set (map projected kzs)" for entry
    proof -
      from that obtain k x where "entry = (StringKey k, True, Some x)" "(k, x) \<in> set kzs" by auto
      with entries show ?thesis by blast
    qed
    ultimately show ?thesis unfolding p plainReport.simps unknown.case by blast
  qed (use Suc.prems st1 in \<open>simp_all add: projectValue_Suc\<close>)
qed simp

lemma boundedPositiveInteger_Inr: "boundedPositiveInteger v most name = Inr n \<Longrightarrow> n \<le> most"
  by (auto simp: boundedPositiveInteger_def Let_def floor_le_iff nat_le_iff split: option.splits js_num.splits if_splits)

lemma resolved_limits:
  assumes "resolvePrmsProjectionLimits limits = Inr L"
  shows "pl_maxDepth L \<le> 32 \<and> pl_maxArrayLength L \<le> 1000 \<and> pl_maxObjectProperties L \<le> 1000
    \<and> pl_maxKeyLength L \<le> 128 \<and> pl_maxStringLength L \<le> 65536"
proof -
  from assms have "pl_maxDepth L \<le> pl_maxDepth defaultPrmsProjectionLimits
    \<and> pl_maxArrayLength L \<le> pl_maxArrayLength defaultPrmsProjectionLimits
    \<and> pl_maxObjectProperties L \<le> pl_maxObjectProperties defaultPrmsProjectionLimits
    \<and> pl_maxKeyLength L \<le> pl_maxKeyLength defaultPrmsProjectionLimits
    \<and> pl_maxStringLength L \<le> pl_maxStringLength defaultPrmsProjectionLimits"
    by (auto simp: resolvePrmsProjectionLimits_def dest!: boundedPositiveInteger_Inr)
  then show ?thesis by (simp add: defaultPrmsProjectionLimits_def)
qed

end
