(* ===== verification/PrmsBlockers.thy ===== *)
theory PrmsBlockers
  imports PrmsProjection
begin

text \<open>
  The evaluation of the blockers of bundled plugins (\<open>evaluatePrmsBlockers\<close> in
  \<open>packages/plugin-host/src/host.ts\<close>). The evaluators run one after the other, and other calls may run
  while one is awaited. \<open>evaluatePrmsBlockers\<close> is the call as a task of the host: it runs up to the next
  evaluator that is awaited and holds the execution lock of its plugin. \<open>blockerTurn\<close> says what one turn
  contributes, from the host at its beginning and from what an evaluator answers to its arguments;
  \<open>evaluation_refines\<close> is that a task that ends has collected this of every turn.
\<close>

section \<open>One turn\<close>

type_synonym evaluator = "unknown \<Rightarrow> jstring list \<Rightarrow> ActivationEvidence \<Rightarrow> EvaluatorAnswer"

definition failureBlocker :: "HostPluginRecord \<Rightarrow> 'b Registered \<Rightarrow> bool \<Rightarrow> BlockingFinding" where
  "failureBlocker r registered invalid = prmsEvaluatorFailureBlocker (hr_id r) (rg_localId registered) invalid"

text \<open>The blockers of one evaluator; whatever fails becomes a blocker itself.\<close>

definition answeredBlockers ::
  "HostPluginRecord \<Rightarrow> 'b Registered \<Rightarrow> EvaluatorAnswer \<Rightarrow> BlockingFinding option list" where
  "answeredBlockers r registered answer =
     (case answer of
        EvaluatorThrows invalid \<Rightarrow> [Some (failureBlocker r registered invalid)]
      | EvaluatorReturns raw \<Rightarrow>
          (case normalizePrmsBlockerResult raw of
             Inl e \<Rightarrow> [Some (failureBlocker r registered (e \<noteq> BundledTypeError))]
           | Inr bs \<Rightarrow> bs))"

definition enforcesBlockers :: "HostPluginRecord \<Rightarrow> bool" where
  "enforcesBlockers r \<longleftrightarrow> isBundled r \<and> hr_gateMode r = Enforce"

text \<open>What an evaluator gets beside the report, when its plugin may be asked.\<close>

definition evaluationContext :: "HostPluginRecord \<Rightarrow> (jstring list \<times> ActivationEvidence) option" where
  "evaluationContext r =
     (if \<not> isBundled r \<or> ls_state (hr_lifecycle r) \<noteq> Activated \<or> hr_gateMode r \<noteq> Enforce then None
      else
        (case (hr_evidence r, hr_effective r) of
           (Some evidence, Some effective) \<Rightarrow>
             if js ''prms.blockers.append'' \<in> set effective then Some (effective, evidence) else None
         | _ \<Rightarrow> None))"

text \<open>A turn adds blockers at once, or its evaluator is to be asked.\<close>

datatype turn = Passed "BlockingFinding option list" | Asks HostPluginRecord "jstring list" ActivationEvidence

definition beginTurn :: "('w, 'b) PluginHost \<Rightarrow> 'b Registered \<Rightarrow> HostFailure + turn" where
  "beginTurn h registered =
     check_bind (findRecord h (rg_pluginId registered)) (\<lambda>r.
     if hr_id r \<in> ph_lifecycleOps h then
       Inr (Passed (if enforcesBlockers r then [Some (failureBlocker r registered False)] else []))
     else
       (case evaluationContext r of
          None \<Rightarrow> Inr (Passed [])
        | Some (effective, evidence) \<Rightarrow> Inr (Asks r effective evidence)))"

text \<open>The comparison of the blockers; \<open>sort\<close> puts what is undefined at the end.\<close>

definition blockerKey :: "BlockingFinding \<Rightarrow> jstring list" where
  "blockerKey b = [bf_code b, bf_summary b, orEmpty (bf_detail b)]"

definition sortBlockers :: "BlockingFinding option list \<Rightarrow> BlockingFinding option list" where
  "sortBlockers bs =
     map Some (sort_key blockerKey (concat (map (\<lambda>b. case b of None \<Rightarrow> [] | Some x \<Rightarrow> [x]) bs)))
     @ filter (\<lambda>b. b = None) bs"

section \<open>The call\<close>

record 'b EvaluationTask =
  et_record :: HostPluginRecord
  et_registered :: "'b Registered"
  et_projection :: unknown
  et_effective :: "jstring list"
  et_evidence :: ActivationEvidence
  et_report :: unknown
  et_rest :: "'b Registered list"
  et_blockers :: "BlockingFinding option list"

type_synonym ('w, 'b) evaluation = "('w, 'b) PluginHost \<times> 'b EvaluationTask progress"

text \<open>The loop, up to the next evaluator that is awaited.\<close>

fun evaluateNext ::
  "unknown \<Rightarrow> 'b Registered list \<Rightarrow> BlockingFinding option list \<Rightarrow> ('w, 'b) PluginHost \<Rightarrow> ('w, 'b) evaluation"
where
  "evaluateNext report [] blockers h = (h, Finished (Inr (EvaluatedBlockers (sortBlockers blockers))))"
| "evaluateNext report (registered # rest) blockers h =
     (case beginTurn h registered of
        Inl e \<Rightarrow> (h, Finished (Inl e))
      | Inr (Passed bs) \<Rightarrow> evaluateNext report rest (blockers @ bs) h
      | Inr (Asks r effective evidence) \<Rightarrow>
          (case beginExecutionOperation h (hr_id r) (Some (rg_id registered)) of
             Inl e \<Rightarrow> (h, Finished (Inl e))
           | Inr h' \<Rightarrow>
               (case projectPrmsReport report (\<lambda>name. None) of
                  Inl e \<Rightarrow>
                    evaluateNext report rest (blockers @ [Some (failureBlocker r registered False)])
                      (endExecutionOperation (hr_id r) h')
                | Inr projection \<Rightarrow>
                    (h', Running
                      \<lparr>et_record = r, et_registered = registered, et_projection = projection,
                       et_effective = effective, et_evidence = evidence, et_report = report,
                       et_rest = rest, et_blockers = blockers\<rparr>))))"

definition evaluatePrmsBlockers :: "('w, 'b) PluginHost \<Rightarrow> unknown \<Rightarrow> ('w, 'b) evaluation" where
  "evaluatePrmsBlockers h report =
     (case assertExecutionReady h of
        Inl e \<Rightarrow> (h, Finished (Inl e))
      | Inr _ \<Rightarrow> evaluateNext report (listPrmsBlockers (ph_registry h)) [] h)"

definition answerEvaluation ::
  "'b EvaluationTask \<Rightarrow> EvaluatorAnswer \<Rightarrow> ('w, 'b) PluginHost \<Rightarrow> ('w, 'b) evaluation" where
  "answerEvaluation task answer h =
     evaluateNext (et_report task) (et_rest task)
       (et_blockers task @ answeredBlockers (et_record task) (et_registered task) answer)
       (endExecutionOperation (hr_id (et_record task)) h)"

definition resumeEvaluation ::
  "'b EvaluationTask \<Rightarrow> HostReply \<Rightarrow> ('w, 'b) PluginHost \<Rightarrow> ('w, 'b) evaluation option" where
  "resumeEvaluation task reply h =
     (case reply of
        EvaluatorReplies answer \<Rightarrow> Some (answerEvaluation task answer h)
      | _ \<Rightarrow> None)"

section \<open>What it computes\<close>

definition evaluatedBlockers ::
  "HostPluginRecord \<Rightarrow> 'b Registered \<Rightarrow> unknown \<Rightarrow> (unknown \<Rightarrow> EvaluatorAnswer) \<Rightarrow> BlockingFinding option list" where
  "evaluatedBlockers r registered report answer =
     (case projectPrmsReport report (\<lambda>name. None) of
        Inl e \<Rightarrow> [Some (failureBlocker r registered False)]
      | Inr projection \<Rightarrow> answeredBlockers r registered (answer projection))"

definition blockerTurn ::
  "unknown \<Rightarrow> ('b \<Rightarrow> evaluator) \<Rightarrow> ('w, 'b) PluginHost \<times> 'b Registered \<Rightarrow>
   HostFailure + BlockingFinding option list" where
  "blockerTurn report evaluate turn =
     (let (h, registered) = turn
      in check_bind (beginTurn h registered) (\<lambda>turn.
         case turn of
           Passed bs \<Rightarrow> Inr bs
         | Asks r effective evidence \<Rightarrow>
             Inr (evaluatedBlockers r registered report
               (\<lambda>projection. evaluate (rg_value registered) projection effective evidence))))"

text \<open>
  A whole evaluation: \<open>later\<close> are the hosts in which the awaited answers arrive, one after the other,
  whatever other calls did to them. Its turns, each with the host at its beginning.
\<close>

fun evaluationRun ::
  "('b \<Rightarrow> evaluator) \<Rightarrow> ('w, 'b) PluginHost list \<Rightarrow> 'b EvaluationTask progress \<Rightarrow>
   (HostFailure + HostResult) option" where
  "evaluationRun evaluate later (Finished result) = Some result"
| "evaluationRun evaluate [] (Running t) = None"
| "evaluationRun evaluate (h # later) (Running t) =
     evaluationRun evaluate later
       (snd (answerEvaluation t
          (evaluate (rg_value (et_registered t)) (et_projection t) (et_effective t) (et_evidence t)) h))"

fun evaluationTurns ::
  "unknown \<Rightarrow> 'b Registered list \<Rightarrow> ('w, 'b) PluginHost \<Rightarrow> ('w, 'b) PluginHost list \<Rightarrow>
   (('w, 'b) PluginHost \<times> 'b Registered) list" where
  "evaluationTurns report [] h later = []"
| "evaluationTurns report (registered # rest) h later =
     (h, registered) #
     (case beginTurn h registered of
        Inl e \<Rightarrow> []
      | Inr (Passed bs) \<Rightarrow> evaluationTurns report rest h later
      | Inr (Asks r effective evidence) \<Rightarrow>
          (case beginExecutionOperation h (hr_id r) (Some (rg_id registered)) of
             Inl e \<Rightarrow> []
           | Inr h' \<Rightarrow>
               (case projectPrmsReport report (\<lambda>name. None) of
                  Inl e \<Rightarrow> evaluationTurns report rest (endExecutionOperation (hr_id r) h') later
                | Inr projection \<Rightarrow>
                    (case later of
                       [] \<Rightarrow> []
                     | h' # later \<Rightarrow> evaluationTurns report rest (endExecutionOperation (hr_id r) h') later))))"

lemma beginTurn_Asks:
  assumes "beginTurn h registered = Inr (Asks r effective evidence)"
  shows "hostRecord h (rg_pluginId registered) = Some r" and "hr_id r \<notin> ph_lifecycleOps h"
    and "evaluationContext r = Some (effective, evidence)"
    and "\<exists>h'. beginExecutionOperation h (hr_id r) c = Inr h'"
  using assms
  by (auto simp: beginTurn_def findRecord_def hostError_def beginExecutionOperation_def split: option.splits if_splits)

lemma evaluation_refines:
  assumes "evaluationRun evaluate later (snd (evaluateNext report rs blockers h)) = Some result"
  shows "result =
      (case check_all (blockerTurn report evaluate) (evaluationTurns report rs h later) of
         Inl e \<Rightarrow> Inl e
       | Inr outs \<Rightarrow> Inr (EvaluatedBlockers (sortBlockers (blockers @ concat outs))))
    \<and> (\<forall>x. result = Inr x \<longrightarrow> map snd (evaluationTurns report rs h later) = rs)"
  using assms
proof (induction rs arbitrary: blockers h later)
  case (Cons registered rest)
  show ?case
  proof (cases "beginTurn h registered")
    case (Inl e)
    with Cons.prems show ?thesis by (auto simp: blockerTurn_def)
  next
    case (Inr turn)
    show ?thesis
    proof (cases turn)
      case (Passed bs)
      with Inr Cons.prems Cons.IH [of later "blockers @ bs" h] show ?thesis
        by (auto simp: blockerTurn_def split: sum.splits)
    next
      case (Asks r effective evidence)
      with beginTurn_Asks(4) Inr obtain h' where begin': "beginExecutionOperation h (hr_id r) (Some (rg_id registered)) = Inr h'"
        by blast
      note here = Inr [unfolded Asks] begin'
      show ?thesis
      proof (cases "projectPrmsReport report (\<lambda>name. None)")
        case (Inl e)
        let ?b = "[Some (failureBlocker r registered False)]"
        from here Inl have "blockerTurn report evaluate (h, registered) = Inr ?b"
          by (simp add: blockerTurn_def evaluatedBlockers_def)
        with Inl Cons.prems here Cons.IH [of later "blockers @ ?b" "endExecutionOperation (hr_id r) h'"] show ?thesis
          by (simp split: sum.splits)
      next
        case projected: (Inr p)
        show ?thesis
        proof (cases later)
          case Nil
          with Cons.prems here projected show ?thesis by simp
        next
          case (Cons h'' later')
          let ?b = "answeredBlockers r registered (evaluate (rg_value registered) p effective evidence)"
          from here projected have "blockerTurn report evaluate (h, registered) = Inr ?b"
            by (simp add: blockerTurn_def evaluatedBlockers_def)
          with Cons Cons.prems here projected
            Cons.IH [of later' "blockers @ ?b" "endExecutionOperation (hr_id r) h''"] show ?thesis
            by (simp add: answerEvaluation_def split: sum.splits)
        qed
      qed
    qed
  qed
qed simp

section \<open>Blockers fail closed\<close>

lemma somes_set: "set (concat (map (\<lambda>b. case b of None \<Rightarrow> [] | Some x \<Rightarrow> [x]) bs)) = {x. Some x \<in> set bs}"
  by (induction bs) (auto split: option.splits)

lemma set_sortBlockers [simp]: "set (sortBlockers bs) = set bs"
proof (rule set_eqI)
  fix b show "b \<in> set (sortBlockers bs) \<longleftrightarrow> b \<in> set bs"
    unfolding sortBlockers_def set_append set_map set_sort somes_set set_filter by (cases b) auto
qed

lemma check_all_zip:
  "check_all f xs = Inr ys \<Longrightarrow> x \<in> set xs \<Longrightarrow> \<exists>y \<in> set ys. f x = Inr y"
  by (induction xs arbitrary: ys) auto

lemma check_all_from:
  "check_all f xs = Inr ys \<Longrightarrow> y \<in> set ys \<Longrightarrow> \<exists>x \<in> set xs. f x = Inr y"
  by (induction xs arbitrary: ys) auto

text \<open>Every entry of a turn is a failure blocker, or comes from a result that was accepted.\<close>

lemma normalized_safe:
  assumes "normalizePrmsBlockerResult raw = Inr bs" and "Some b \<in> set bs"
  shows "blockerSafe b"
proof -
  from assms(1) obtain items where "normalizeBlockers 0 items = Inr bs"
    unfolding normalizePrmsBlockerResult_def check_bind_Inr by blast
  from normalizeBlockers_all [OF this assms(2)] show ?thesis by (blast intro: normalizeBlocker_safe)
qed

lemma evaluatedBlockers_entries:
  assumes "Some b \<in> set (evaluatedBlockers r registered report answer)"
  shows "(\<exists>invalid. b = failureBlocker r registered invalid) \<or> blockerSafe b"
  using assms unfolding evaluatedBlockers_def answeredBlockers_def
  by (auto split: sum.splits EvaluatorAnswer.splits intro: normalized_safe)

lemma blockerTurn_cases:
  assumes "blockerTurn report evaluate (h, registered) = Inr bs"
  obtains r where "hostRecord h (rg_pluginId registered) = Some r"
    "bs = [] \<or> bs = [Some (failureBlocker r registered False)]
      \<or> (\<exists>effective evidence. bs = evaluatedBlockers r registered report
           (\<lambda>p. evaluate (rg_value registered) p effective evidence))"
proof (cases "hostRecord h (rg_pluginId registered)")
  case found: (Some r)
  show ?thesis
  proof (cases "evaluationContext r")
    case None
    with assms found show ?thesis
      by (intro that [of r]) (auto simp: blockerTurn_def beginTurn_def findRecord_def split: if_splits)
  next
    case (Some asked)
    then obtain effective evidence where "evaluationContext r = Some (effective, evidence)" by (cases asked) simp
    with assms found have "bs = [] \<or> bs = [Some (failureBlocker r registered False)]
        \<or> bs = evaluatedBlockers r registered report (\<lambda>p. evaluate (rg_value registered) p effective evidence)"
      by (simp add: blockerTurn_def beginTurn_def findRecord_def split: if_splits)
    with found show ?thesis by (intro that [of r]) blast+
  qed
qed (use assms in \<open>simp add: blockerTurn_def beginTurn_def findRecord_def hostError_def\<close>)

lemma blockerTurn_entries:
  assumes "blockerTurn report evaluate (h, registered) = Inr bs" and "Some b \<in> set bs"
  shows "(\<exists>r invalid. hostRecord h (rg_pluginId registered) = Some r \<and> b = failureBlocker r registered invalid)
    \<or> blockerSafe b"
proof -
  from assms(1) obtain r where r: "hostRecord h (rg_pluginId registered) = Some r"
    and bs: "bs = [] \<or> bs = [Some (failureBlocker r registered False)]
      \<or> (\<exists>effective evidence. bs = evaluatedBlockers r registered report
           (\<lambda>p. evaluate (rg_value registered) p effective evidence))"
    by (rule blockerTurn_cases)
  from bs show ?thesis
  proof (elim disjE exE)
    fix effective evidence
    assume "bs = evaluatedBlockers r registered report (\<lambda>p. evaluate (rg_value registered) p effective evidence)"
    with assms(2) have "Some b \<in> set (evaluatedBlockers r registered report
      (\<lambda>p. evaluate (rg_value registered) p effective evidence))" by simp
    from evaluatedBlockers_entries [OF this] r show ?thesis by blast
  qed (use assms(2) r in auto)
qed

text \<open>An undefined entry comes from a hole in a result that was accepted.\<close>

lemma blockerTurn_undefined:
  assumes "blockerTurn report evaluate (h, registered) = Inr bs" and "None \<in> set bs"
  shows "\<exists>p effective evidence raw. projectPrmsReport report (\<lambda>name. None) = Inr p
    \<and> evaluate (rg_value registered) p effective evidence = EvaluatorReturns raw
    \<and> normalizePrmsBlockerResult raw = Inr bs"
proof -
  from assms(1) obtain r where "bs = [] \<or> bs = [Some (failureBlocker r registered False)]
      \<or> (\<exists>effective evidence. bs = evaluatedBlockers r registered report
           (\<lambda>p. evaluate (rg_value registered) p effective evidence))"
    by (rule blockerTurn_cases)
  with assms(2) obtain effective evidence where bs: "bs = evaluatedBlockers r registered report
      (\<lambda>p. evaluate (rg_value registered) p effective evidence)" by auto
  show ?thesis
    using assms(2) unfolding bs evaluatedBlockers_def answeredBlockers_def
    by (auto split: sum.splits EvaluatorAnswer.splits)
qed

text \<open>An evaluation that the host awaits, and what becomes of a turn that cannot be trusted.\<close>

definition evaluatesWith ::
  "('w, 'b) PluginHost \<Rightarrow> HostPluginRecord \<Rightarrow> jstring list \<Rightarrow> ActivationEvidence \<Rightarrow> bool" where
  "evaluatesWith h r effective evidence \<longleftrightarrow>
     enforcesBlockers r \<and> hr_id r \<notin> ph_lifecycleOps h \<and> ls_state (hr_lifecycle r) = Activated
     \<and> hr_effective r = Some effective \<and> js ''prms.blockers.append'' \<in> set effective \<and> hr_evidence r = Some evidence"

lemma blockerTurn_busy:
  assumes "hostRecord h (rg_pluginId registered) = Some r" and "enforcesBlockers r" and "hr_id r \<in> ph_lifecycleOps h"
  shows "blockerTurn report evaluate (h, registered) = Inr [Some (failureBlocker r registered False)]"
  using assms by (simp add: blockerTurn_def beginTurn_def findRecord_def)

lemma blockerTurn_evaluates:
  assumes "hostRecord h (rg_pluginId registered) = Some r" and "evaluatesWith h r effective evidence"
  shows "blockerTurn report evaluate (h, registered)
    = Inr (evaluatedBlockers r registered report (\<lambda>p. evaluate (rg_value registered) p effective evidence))"
  using assms
  by (simp add: blockerTurn_def beginTurn_def findRecord_def evaluatesWith_def evaluationContext_def enforcesBlockers_def)

lemma evaluatedBlockers_closed:
  "(\<exists>invalid. Some (failureBlocker r registered invalid) \<in> set (evaluatedBlockers r registered report answer))
   \<or> (\<exists>p raw accepted. projectPrmsReport report (\<lambda>name. None) = Inr p \<and> answer p = EvaluatorReturns raw
        \<and> normalizePrmsBlockerResult raw = Inr accepted \<and> evaluatedBlockers r registered report answer = accepted)"
  unfolding evaluatedBlockers_def answeredBlockers_def by (auto split: sum.split EvaluatorAnswer.split)

end
