(* ===== verification/HostCalls.thy ===== *)
theory HostCalls
  imports PrmsBlockers
begin

text \<open>
  A sealed plugin host (class \<open>PluginHost\<close> in \<open>packages/plugin-host/src/host.ts\<close>) with any number of
  calls in flight: \<open>activate\<close>, \<open>deactivate\<close>, \<open>planAction\<close> and \<open>evaluatePrmsBlockers\<close> may be called at
  any time, and each call that waits goes on when its answer arrives.
\<close>

section \<open>Calls in flight\<close>

datatype 'b HostTask =
  Activation ActivationTask | Deactivation DeactivationTask | Planning PlanTask
| Evaluation "'b EvaluationTask"

record ('w, 'b) HostSystem =
  hs_host :: "('w, 'b) PluginHost"
  hs_tasks :: "'b HostTask list"
  hs_results :: "(HostFailure + HostResult) list"

definition mapProgress :: "('s \<Rightarrow> 't) \<Rightarrow> 's progress \<Rightarrow> 't progress" where
  "mapProgress f p = (case p of Running s \<Rightarrow> Running (f s) | Finished r \<Rightarrow> Finished r)"

primrec resumeTask ::
  "'b HostTask \<Rightarrow> HostReply \<Rightarrow> jstring \<Rightarrow> jstring \<Rightarrow> ('w, 'b) PluginHost \<Rightarrow>
   (('w, 'b) PluginHost \<times> 'b HostTask progress) option" where
  "resumeTask (Activation t) reply clock now h =
     map_option (map_prod id (mapProgress Activation)) (resumeActivation t reply clock now h)"
| "resumeTask (Deactivation t) reply clock now h =
     map_option (map_prod id (mapProgress Deactivation)) (resumeDeactivation t reply clock now h)"
| "resumeTask (Planning t) reply clock now h =
     map_option (map_prod id (mapProgress Planning)) (resumePlanning t reply now h)"
| "resumeTask (Evaluation t) reply clock now h =
     map_option (map_prod id (mapProgress Evaluation)) (resumeEvaluation t reply h)"

text \<open>The system after a segment: the task stays, with what it waits for now, or its result is noted.\<close>

definition settle ::
  "('w, 'b) HostSystem \<Rightarrow> 'b HostTask list \<Rightarrow> 'b HostTask list \<Rightarrow> ('w, 'b) PluginHost \<times> 'b HostTask progress \<Rightarrow>
   ('w, 'b) HostSystem" where
  "settle s left right hp =
     (case snd hp of
        Running t \<Rightarrow> s\<lparr>hs_host := fst hp, hs_tasks := left @ t # right\<rparr>
      | Finished r \<Rightarrow> s\<lparr>hs_host := fst hp, hs_tasks := left @ right, hs_results := r # hs_results s\<rparr>)"

inductive host_step ::
  "(jstring \<Rightarrow> bool) \<Rightarrow> ('w, 'b) HostSystem \<Rightarrow> ('w, 'b) HostSystem \<Rightarrow> bool" for isDate where
  call_activate: "host_step isDate s
     (settle s (hs_tasks s) [] (map_prod id (mapProgress Activation) (activate isDate (hs_host s) pluginId ev now)))"
| call_deactivate: "host_step isDate s
     (settle s (hs_tasks s) [] (map_prod id (mapProgress Deactivation) (deactivate (hs_host s) pluginId clock now)))"
| call_plan: "host_step isDate s
     (settle s (hs_tasks s) [] (map_prod id (mapProgress Planning) (planAction (hs_host s) actionId input now)))"
| call_evaluate: "host_step isDate s
     (settle s (hs_tasks s) [] (map_prod id (mapProgress Evaluation) (evaluatePrmsBlockers (hs_host s) report)))"
| resume: "hs_tasks s = left @ t # right \<Longrightarrow> resumeTask t reply clock now (hs_host s) = Some hp \<Longrightarrow>
    host_step isDate s (settle s left right hp)"

text \<open>
  A sealed host before its first call: every registered plugin has a record under its identifier,
  which registration left in the state \<open>registered\<close>.
\<close>

definition hostStart :: "('w, 'b) HostSystem \<Rightarrow> bool" where
  "hostStart s \<longleftrightarrow>
     hs_tasks s = [] \<and> hs_results s = [] \<and> ph_sealed (hs_host s) \<and> mapsOk (ph_registry (hs_host s))
     \<and> ph_lifecycleOps (hs_host s) = {} \<and> ph_executionOps (hs_host s) = Map.empty \<and> ph_audit (hs_host s) = []
     \<and> (\<forall>i r. hostRecord (hs_host s) i = Some r \<longrightarrow>
          hr_id r = i \<and> ls_state (hr_lifecycle r) = Registering \<and> hr_effective r = None \<and> hr_evidence r = None)"

end
