(* ===== verification/PluginHostCorrectness.thy ===== *)
theory PluginHostCorrectness
  imports HostCalls HostTargets
begin

text \<open>
  The invariant of the host with its calls in flight: what the state of a plugin says of its
  capabilities, evidence and audit, what each waiting call may rely on, and how the locks match the
  calls. Every segment of a call touches the record of its own plugin only.
\<close>

section \<open>The state of a plugin\<close>

definition capabilitiesGranted :: "HostPluginRecord \<Rightarrow> jstring list \<Rightarrow> bool" where
  "capabilitiesGranted r effective \<longleftrightarrow>
     distinct (hr_requested r) \<and> effective = sort (hr_requested r)
     \<and> set effective \<subseteq> set (hardCapabilities (\<not> isBundled r))"

definition namesPlugin :: "PluginAuditEvent \<Rightarrow> HostPluginRecord \<Rightarrow> bool" where
  "namesPlugin event r \<longleftrightarrow> ev_pluginId event = hr_id r \<or> ev_pluginId event = js ''[REDACTED]''"

definition allowedAudited :: "PluginAuditEvent list \<Rightarrow> HostPluginRecord \<Rightarrow> bool" where
  "allowedAudited trail r \<longleftrightarrow> (\<exists>event \<in> set trail. ev_type event = ActivationAllowed \<and> namesPlugin event r)"

definition recordOk :: "jstring \<Rightarrow> PluginAuditEvent list \<Rightarrow> HostPluginRecord \<Rightarrow> bool" where
  "recordOk composition trail r \<longleftrightarrow>
     (ls_state (hr_lifecycle r) = Activated \<longrightarrow>
        (\<exists>effective ev. hr_effective r = Some effective \<and> hr_evidence r = Some ev
           \<and> capabilitiesGranted r effective \<and> evidenceMatches (evidenceExpectation composition r) ev
           \<and> allowedAudited trail r))"

definition recordsOk :: "('w, 'b) PluginHost \<Rightarrow> bool" where
  "recordsOk h \<longleftrightarrow>
     (\<forall>i r. hostRecord h i = Some r \<longrightarrow> hr_id r = i \<and> recordOk (ph_compositionId h) (ph_audit h) r)"

text \<open>What stays fixed while a host is sealed.\<close>

definition preparedAction :: "(jstring \<times> HostActionTargetFacts) list \<Rightarrow> HostRegisteredAction \<Rightarrow> bool" where
  "preparedAction targets v \<longleftrightarrow>
     map_of targets (ht_id (actionTarget v)) = Some (actionTarget v)
     \<and> (case v of
          ResolvedAlias isAction alias t \<Rightarrow>
            readOnlyTarget t \<and> fitsAlways t alias \<and> distinct (map fst (ht_inputSchema t))
        | ResolvedBuilder t \<Rightarrow> True)"

definition catalogOk :: "('w, 'b) PluginHost \<Rightarrow> bool" where
  "catalogOk h \<longleftrightarrow>
     (\<forall>(k, t) \<in> set (ph_targets h). ht_id t = k)
     \<and> (\<forall>i c. getAction (ph_registry h) i = Some c \<longrightarrow> rg_kind c \<noteq> ActionAlias \<longrightarrow>
          (\<exists>t. rg_value c = ResolvedBuilder t))
     \<and> (\<forall>i c. getAction (ph_registry h) i = Some c \<longrightarrow> preparedAction (ph_targets h) (rg_value c))"

section \<open>What a waiting call relies on\<close>

definition activationOk :: "('w, 'b) PluginHost \<Rightarrow> ActivationTask \<Rightarrow> bool" where
  "activationOk h t \<longleftrightarrow>
     (\<exists>r. hostRecord h (at_plugin t) = Some r \<and> (at_from t = Registering \<or> at_from t = Degraded)
        \<and> evidenceMatches (evidenceExpectation (ph_compositionId h) r) (at_evidence t)
        \<and> (case at_wait t of
             ActivateFailedSink event e \<Rightarrow> ls_state (hr_lifecycle r) = Disabled
           | AllowedSink event effective \<Rightarrow>
               ls_state (hr_lifecycle r) = at_from t \<and> capabilitiesGranted r effective
               \<and> ev_type event = ActivationAllowed \<and> namesPlugin event r
           | ActivateHook effective \<Rightarrow>
               ls_state (hr_lifecycle r) = at_from t \<and> capabilitiesGranted r effective
               \<and> allowedAudited (ph_audit h) r
           | _ \<Rightarrow> ls_state (hr_lifecycle r) = at_from t))"

definition deactivationOk :: "('w, 'b) PluginHost \<Rightarrow> DeactivationTask \<Rightarrow> bool" where
  "deactivationOk h t \<longleftrightarrow>
     (\<exists>r. hostRecord h (dt_plugin t) = Some r
        \<and> (case dt_wait t of
             DeactivateHook \<Rightarrow> ls_state (hr_lifecycle r) = Activated \<or> ls_state (hr_lifecycle r) = Degraded
           | DisabledSink event failure \<Rightarrow> ls_state (hr_lifecycle r) = Disabled))"

text \<open>
  A step fits the registered action when it has the fixed target, which the plugin may use, and its
  input fits the schema of this target.
\<close>

definition stepFits :: "PlanTask \<Rightarrow> jstring list \<Rightarrow> HostPlanStep \<Rightarrow> HostActionTargetFacts \<Rightarrow> bool" where
  "stepFits t effective step target \<longleftrightarrow>
     (\<exists>fixed. planTarget (pk_registered t) = Inr fixed \<and> ht_requiredCapability fixed \<in> set effective
        \<and> ht_id target = ht_id fixed \<and> hp_actionId step = ht_id fixed \<and> inputFits fixed (hp_input step))"

definition planningOk :: "('w, 'b) PluginHost \<Rightarrow> PlanTask \<Rightarrow> bool" where
  "planningOk h t \<longleftrightarrow>
     getAction (ph_registry h) (pk_action t) = Some (pk_registered t)
     \<and> rg_pluginId (pk_registered t) = pk_plugin t
     \<and> (\<exists>r effective. hostRecord h (pk_plugin t) = Some r \<and> ls_state (hr_lifecycle r) = Activated
          \<and> hr_effective r = Some effective
          \<and> (case pk_wait t of
               PlanRequestedSink event \<Rightarrow> True
             | PlanDeniedSink event e \<Rightarrow> True
             | PlanShadowSink event target \<Rightarrow> True
             | PlanStepPolicy refs step target \<Rightarrow> hr_gateMode r = Enforce \<and> stepFits t effective step target
             | PlanAllowedSink event step target \<Rightarrow>
                 hr_gateMode r = Enforce \<and> stepFits t effective step target
                 \<and> ev_type event = ActionAllowed \<and> namesPlugin event r
             | PlanPolicy \<Rightarrow>
                 (\<exists>fixed. planTarget (pk_registered t) = Inr fixed \<and> ht_requiredCapability fixed \<in> set effective)
             | PlanBuilder refs \<Rightarrow>
                 hr_gateMode r = Enforce \<and>
                 (\<exists>fixed. planTarget (pk_registered t) = Inr fixed \<and> ht_requiredCapability fixed \<in> set effective)))"

primrec taskOk :: "('w, 'b) PluginHost \<Rightarrow> 'b HostTask \<Rightarrow> bool" where
  "taskOk h (Activation t) = activationOk h t"
| "taskOk h (Deactivation t) = deactivationOk h t"
| "taskOk h (Planning t) = planningOk h t"
| "taskOk h (Evaluation t) = True"

primrec taskPlugin :: "'b HostTask \<Rightarrow> jstring" where
  "taskPlugin (Activation t) = at_plugin t"
| "taskPlugin (Deactivation t) = dt_plugin t"
| "taskPlugin (Planning t) = pk_plugin t"
| "taskPlugin (Evaluation t) = hr_id (et_record t)"

primrec isLifecycle :: "'b HostTask \<Rightarrow> bool" where
  "isLifecycle (Activation t) = True"
| "isLifecycle (Deactivation t) = True"
| "isLifecycle (Planning t) = False"
| "isLifecycle (Evaluation t) = False"

section \<open>What a segment changes\<close>

text \<open>The records of the plugins of \<open>P\<close>, and the end of the audit log.\<close>

definition hostFrame :: "jstring set \<Rightarrow> ('w, 'b) PluginHost \<Rightarrow> ('w, 'b) PluginHost \<Rightarrow> bool" where
  "hostFrame P h h' \<longleftrightarrow>
     ph_sealed h' = ph_sealed h \<and> ph_compositionId h' = ph_compositionId h \<and> ph_targets h' = ph_targets h
     \<and> ph_registry h' = ph_registry h \<and> (\<forall>q. q \<notin> P \<longrightarrow> ph_records h' q = ph_records h q)
     \<and> (\<exists>later. ph_audit h' = ph_audit h @ later)"

definition sameLocks :: "('w, 'b) PluginHost \<Rightarrow> ('w, 'b) PluginHost \<Rightarrow> bool" where
  "sameLocks h h' \<longleftrightarrow> ph_lifecycleOps h' = ph_lifecycleOps h \<and> executionCount h' = executionCount h"

definition release :: "bool \<Rightarrow> jstring \<Rightarrow> ('w, 'b) PluginHost \<Rightarrow> ('w, 'b) PluginHost" where
  "release life p h = (if life then endLifecycleOperation p h else endExecutionOperation p h)"

text \<open>
  A segment ends with a \<open>TypeError\<close> only where \<open>sparse\<close> says so: when a plan is allowed with evidence
  that has holes.
\<close>

definition segmentOkIf ::
  "bool \<Rightarrow> bool \<Rightarrow> jstring \<Rightarrow> ('w, 'b) PluginHost \<Rightarrow> ('w, 'b) PluginHost \<times> 'b HostTask progress \<Rightarrow> bool" where
  "segmentOkIf sparse life p h hp \<longleftrightarrow>
     hostFrame (if life then {p} else {}) h (fst hp) \<and> recordsOk (fst hp)
     \<and> (case snd hp of
          Running t \<Rightarrow>
            sameLocks h (fst hp) \<and> taskPlugin t = p \<and> isLifecycle t = life \<and> taskOk (fst hp) t
        | Finished r \<Rightarrow> sameLocks (release life p h) (fst hp) \<and> (r = Inl JsTypeError \<longrightarrow> sparse))"

abbreviation segmentOk ::
  "bool \<Rightarrow> jstring \<Rightarrow> ('w, 'b) PluginHost \<Rightarrow> ('w, 'b) PluginHost \<times> 'b HostTask progress \<Rightarrow> bool" where
  "segmentOk \<equiv> segmentOkIf False"

lemma segmentOk_weaken: "segmentOkIf False life p h hp \<Longrightarrow> segmentOkIf sparse life p h hp"
  by (auto simp: segmentOkIf_def split: progress.splits)

lemma hostFrame_refl [simp]: "hostFrame P h h"
  by (simp add: hostFrame_def)

lemma hostRecord_frame: "hostFrame P h h' \<Longrightarrow> q \<notin> P \<Longrightarrow> hostRecord h' q = hostRecord h q"
  by (simp add: hostFrame_def hostRecord_def split: option.splits)

lemma hostRecord_put:
  "hostRecord (putRecord p r h) q = (if q = p \<and> getPlugin (ph_registry h) p \<noteq> None then Some r else hostRecord h q)"
  by (auto simp: hostRecord_def putRecord_def split: option.splits)

lemma host_updates [simp]:
  "ph_registry (recordEvent event h) = ph_registry h" "ph_targets (recordEvent event h) = ph_targets h"
  "ph_sealed (recordEvent event h) = ph_sealed h" "ph_compositionId (recordEvent event h) = ph_compositionId h"
  "ph_records (recordEvent event h) = ph_records h" "ph_lifecycleOps (recordEvent event h) = ph_lifecycleOps h"
  "ph_executionOps (recordEvent event h) = ph_executionOps h" "ph_audit (recordEvent event h) = ph_audit h @ [event]"
  "ph_registry (putRecord p r h) = ph_registry h" "ph_targets (putRecord p r h) = ph_targets h"
  "ph_sealed (putRecord p r h) = ph_sealed h" "ph_compositionId (putRecord p r h) = ph_compositionId h"
  "ph_records (putRecord p r h) = (ph_records h)(p \<mapsto> r)" "ph_lifecycleOps (putRecord p r h) = ph_lifecycleOps h"
  "ph_executionOps (putRecord p r h) = ph_executionOps h" "ph_audit (putRecord p r h) = ph_audit h"
  "ph_registry (endLifecycleOperation p h) = ph_registry h" "ph_targets (endLifecycleOperation p h) = ph_targets h"
  "ph_sealed (endLifecycleOperation p h) = ph_sealed h"
  "ph_compositionId (endLifecycleOperation p h) = ph_compositionId h"
  "ph_records (endLifecycleOperation p h) = ph_records h" "ph_audit (endLifecycleOperation p h) = ph_audit h"
  "ph_executionOps (endLifecycleOperation p h) = ph_executionOps h"
  "ph_lifecycleOps (endLifecycleOperation p h) = ph_lifecycleOps h - {p}"
  "ph_registry (endExecutionOperation p h) = ph_registry h" "ph_targets (endExecutionOperation p h) = ph_targets h"
  "ph_sealed (endExecutionOperation p h) = ph_sealed h"
  "ph_compositionId (endExecutionOperation p h) = ph_compositionId h"
  "ph_records (endExecutionOperation p h) = ph_records h" "ph_audit (endExecutionOperation p h) = ph_audit h"
  "ph_lifecycleOps (endExecutionOperation p h) = ph_lifecycleOps h"
  by (simp_all add: recordEvent_def putRecord_def endLifecycleOperation_def endExecutionOperation_def Let_def)

lemma hostRecord_eq:
  "ph_registry h' = ph_registry h \<Longrightarrow> ph_records h' = ph_records h \<Longrightarrow> hostRecord h' = hostRecord h"
  by (auto simp: fun_eq_iff hostRecord_def split: option.splits)

lemma hostRecord_simps [simp]:
  "hostRecord (recordEvent event h) = hostRecord h"
  "hostRecord (endLifecycleOperation p h) = hostRecord h"
  "hostRecord (endExecutionOperation p h) = hostRecord h"
  by (rule hostRecord_eq; simp)+

lemma allowedAudited_append: "allowedAudited trail r \<Longrightarrow> allowedAudited (trail @ later) r"
  by (auto simp: allowedAudited_def)

lemma recordOk_append: "recordOk composition trail r \<Longrightarrow> recordOk composition (trail @ later) r"
  by (auto simp: recordOk_def intro: allowedAudited_append)

lemma recordsOk_event [simp]: "recordsOk h \<Longrightarrow> recordsOk (recordEvent event h)"
  by (auto simp: recordsOk_def intro: recordOk_append)

lemma recordsOk_release [simp]:
  "recordsOk (endLifecycleOperation p h) = recordsOk h" "recordsOk (endExecutionOperation p h) = recordsOk h"
  by (simp_all add: recordsOk_def)

lemma recordsOk_put:
  "recordsOk h \<Longrightarrow> hr_id r = p \<Longrightarrow> recordOk (ph_compositionId h) (ph_audit h) r \<Longrightarrow> recordsOk (putRecord p r h)"
  by (auto simp: recordsOk_def hostRecord_put split: if_splits)

text \<open>A call of another plugin does not notice a segment, nor does any call the segment of a plan.\<close>

lemma taskOk_frame:
  assumes "taskOk h t" and "hostFrame P h h'" and "taskPlugin t \<notin> P"
  shows "taskOk h' t"
proof -
  from assms(2) obtain later where h': "ph_compositionId h' = ph_compositionId h" "ph_registry h' = ph_registry h"
    "ph_audit h' = ph_audit h @ later" by (auto simp: hostFrame_def)
  note r = hostRecord_frame [OF assms(2, 3)]
  show ?thesis
  proof (cases t)
    case (Activation a)
    with assms(1) r h' show ?thesis
      by (cases "at_wait a") (auto simp: activationOk_def intro: allowedAudited_append)
  next
    case (Deactivation d)
    with assms(1) r show ?thesis by (simp add: deactivationOk_def)
  next
    case (Planning p)
    with assms(1) r h' show ?thesis by (simp add: planningOk_def)
  qed simp
qed

section \<open>Activation\<close>

lemma segmentOk_running:
  assumes "hostFrame (if life then {p} else {}) h h'" and "recordsOk h'" and "sameLocks h h'"
    and "taskPlugin t = p" and "isLifecycle t = life" and "taskOk h' t"
  shows "segmentOkIf sparse life p h (h', Running t)"
  using assms by (simp add: segmentOkIf_def)

lemma executionCount_end:
  "executionCount (endExecutionOperation p h) q = executionCount h q - (if q = p then 1 else 0)"
  by (auto simp: executionCount_def endExecutionOperation_def Let_def split: option.splits)

lemma endExecution_locks:
  "executionCount h' = executionCount h \<Longrightarrow>
   executionCount (endExecutionOperation p h') = executionCount (endExecutionOperation p h)"
  by (simp add: executionCount_end fun_eq_iff)

lemma executionCount_updates [simp]:
  "executionCount (recordEvent event h) = executionCount h" "executionCount (putRecord p r h) = executionCount h"
  "executionCount (endLifecycleOperation p h) = executionCount h"
  by (simp_all add: executionCount_def fun_eq_iff)

lemma segmentOk_finished:
  assumes "hostFrame (if life then {p} else {}) h h'" and "recordsOk h'" and "sameLocks h h'"
    and "r = Inl JsTypeError \<longrightarrow> sparse"
  shows "segmentOkIf sparse life p h (release life p h', Finished r)"
  using assms endExecution_locks [of h' h p]
  by (cases life) (simp_all add: segmentOkIf_def release_def hostFrame_def sameLocks_def)

lemma sameLocks_simps [simp]:
  "sameLocks h h" "sameLocks h (recordEvent event h') = sameLocks h h'" "sameLocks h (putRecord p r h') = sameLocks h h'"
  by (simp_all add: sameLocks_def)

lemma hostFrame_simps [simp]:
  "hostFrame P h h' \<Longrightarrow> hostFrame P h (recordEvent event h')"
  "hostFrame P h h' \<Longrightarrow> p \<in> P \<Longrightarrow> hostFrame P h (putRecord p r h')"
  by (auto simp: hostFrame_def)

abbreviation (input) activationSegment :: "('w, 'b) activation \<Rightarrow> ('w, 'b) PluginHost \<times> 'b HostTask progress"
  where "activationSegment \<equiv> map_prod id (mapProgress Activation)"

lemma endActivation_ok:
  assumes "hostFrame {p} h h'" and "recordsOk h'" and "sameLocks h h'" and "r \<noteq> Inl JsTypeError"
  shows "segmentOk True p h (activationSegment (endActivation p r h'))"
  using segmentOk_finished [of True p h h' r False] assms
  by (simp add: endActivation_def mapProgress_def release_def)

text \<open>An event of the evidence as it is held, holes included, never fails with a \<open>TypeError\<close>.\<close>

lemma heldEvent_type [simp]: "buildPluginAuditEvent (auditInput type r (heldReferences refs) facts) now \<noteq> Inl JsTypeError"
  using buildPluginAuditEvent_type [of "auditInput type r (heldReferences refs) facts" now]
  by (auto simp: auditInput_def undefined_references)

lemma activationAudit_ok:
  assumes "hostFrame {p} h h'" and "recordsOk h'" and "sameLocks h h'" and "at_plugin t = p"
    and "buildPluginAuditEvent input now \<noteq> Inl JsTypeError"
    and "\<And>event. buildPluginAuditEvent input now = Inr event \<Longrightarrow> activationOk h' (t\<lparr>at_wait := wait event\<rparr>)"
  shows "segmentOk True p h (activationSegment (activationAudit t input now wait h'))"
proof (cases "buildPluginAuditEvent input now")
  case (Inl e)
  with assms(4, 5) endActivation_ok [OF assms(1-3), of "Inl e"] show ?thesis
    by (simp add: activationAudit_def)
next
  case (Inr event)
  with assms(1-4, 6) show ?thesis
    by (auto simp: activationAudit_def mapProgress_def intro!: segmentOk_running)
qed

lemma hostError_no_type [simp]: "hostError code phase summary p c \<noteq> Inl JsTypeError"
  by (simp add: hostError_def)

lemma rethrow_no_type [simp]:
  "rethrowValidation e p \<noteq> Inl JsTypeError" "rethrowDecision v p \<noteq> Inl JsTypeError"
  "rethrowPolicy x p \<noteq> Inl JsTypeError"
  by (auto simp: rethrowValidation_def rethrowDecision_def rethrowPolicy_def split: option.splits)

text \<open>The fields of a record that never change.\<close>

definition sameIdentity :: "HostPluginRecord \<Rightarrow> HostPluginRecord \<Rightarrow> bool" where
  "sameIdentity r r' \<longleftrightarrow>
     hr_id r' = hr_id r \<and> hr_version r' = hr_version r \<and> hr_providerKind r' = hr_providerKind r
     \<and> hr_sourceRef r' = hr_sourceRef r \<and> hr_requested r' = hr_requested r \<and> hr_kind r' = hr_kind r"

lemma sameIdentity_facts:
  assumes "sameIdentity r r'"
  shows "evidenceExpectation c r' = evidenceExpectation c r"
    and "capabilitiesGranted r' e = capabilitiesGranted r e"
    and "allowedAudited trail r' = allowedAudited trail r" and "namesPlugin event r' = namesPlugin event r"
  using assms
  by (simp_all add: sameIdentity_def evidenceExpectation_def capabilitiesGranted_def isBundled_def
      allowedAudited_def namesPlugin_def split: HostRecordKind.splits)

lemma recordsOk_record: "recordsOk h \<Longrightarrow> hostRecord h p = Some r \<Longrightarrow> hr_id r = p"
  by (simp add: recordsOk_def)

lemma hostRecord_registered: "hostRecord h p = Some r \<Longrightarrow> getPlugin (ph_registry h) p \<noteq> None"
  by (auto simp: hostRecord_def split: option.splits)

lemma activationDecided_ok:
  assumes "activationOk h t" and "recordsOk h" and "at_wait t = ActivationPolicy"
    and "hostRecord h (at_plugin t) = Some r"
  shows "segmentOk True (at_plugin t) h (activationSegment (activationDecided t r answer now h))"
proof (cases "normalizeActivationDecision answer")
  case (Inl e)
  with assms show ?thesis by (simp add: activationDecided_def endActivation_ok)
next
  case (Inr decision)
  note id = recordsOk_record [OF assms(2, 4)]
  show ?thesis
  proof (cases "pd_outcome decision = PolicyAllow")
    case False
    with Inr assms show ?thesis
      by (auto simp: activationDecided_def activationOk_def intro!: activationAudit_ok)
  next
    case True
    show ?thesis
    proof (cases "assertEffectiveCapabilities (effectiveRequest r decision)")
      case (Inl e)
      with Inr True assms show ?thesis by (simp add: activationDecided_def endActivation_ok)
    next
      case effective: (Inr effective)
      then have granted: "capabilitiesGranted r effective"
        by (auto simp: assertEffective_Inr capabilitiesGranted_def capabilityGranted_def effectiveRequest_def)
      have named: "ev_type event = ActivationAllowed \<and> namesPlugin event r"
        if "buildPluginAuditEvent (auditInput ActivationAllowed r refs facts) now = Inr event" for refs facts event
        using buildPluginAuditEvent_Inr(1, 2) [OF that] by (simp add: auditInput_def namesPlugin_def)
      show ?thesis
      proof (cases "contributionCapabilitiesError r effective")
        case None
        with Inr True effective assms granted named show ?thesis
          by (auto simp: activationDecided_def activationOk_def intro!: activationAudit_ok)
      next
        case (Some e)
        with Inr True effective assms show ?thesis by (simp add: activationDecided_def endActivation_ok)
      qed
    qed
  qed
qed

lemma completeActivation_ok:
  assumes "recordsOk h'" and "hostFrame {at_plugin t} h h'" and "sameLocks h h'"
    and "hostRecord h' (at_plugin t) = Some r"
    and "ls_state (hr_lifecycle r) = at_from t" and "at_from t = Registering \<or> at_from t = Degraded"
    and "evidenceMatches (evidenceExpectation (ph_compositionId h') r) (at_evidence t)"
    and "capabilitiesGranted r effective" and "allowedAudited (ph_audit h') r"
  shows "segmentOk True (at_plugin t) h (activationSegment (completeActivation t r effective clock h'))"
proof -
  let ?p = "at_plugin t" and ?r = "r\<lparr>hr_effective := Some effective, hr_evidence := Some (at_evidence t)\<rparr>"
  obtain snapshot where tr: "lifecycleTransition (hr_lifecycle ?r) Activated
      (Some (js ''Policy and audit gates passed.'')) None clock = Inr snapshot"
    using assms(5, 6) by (auto simp: lifecycleTransition_def)
  let ?s = "?r\<lparr>hr_lifecycle := snapshot\<rparr>"
  have same: "sameIdentity r ?s" by (simp add: sameIdentity_def)
  have "hr_id ?s = ?p" using recordsOk_record [OF assms(1, 4)] by simp
  moreover have "recordOk (ph_compositionId h') (ph_audit h') ?s"
    using assms(7-9) sameIdentity_facts [OF same] by (simp add: recordOk_def)
  ultimately have "recordsOk (putRecord ?p ?s h')" using assms(1) by (intro recordsOk_put)
  with assms(2, 3) tr show ?thesis by (simp add: completeActivation_def Let_def endActivation_ok)
qed

lemma disabledRecord_facts:
  assumes "disabledRecord r reason clock = Inr r'"
  shows "sameIdentity r r'" and "ls_state (hr_lifecycle r') = Disabled" and "hr_id r' = hr_id r"
    and "recordOk c trail r'"
  using assms
  by (auto simp: disabledRecord_def sameIdentity_def recordOk_def lifecycleTransition_Inr split: sum.splits)

lemma putDisabled_ok:
  assumes "disabledRecord r reason clock = Inr r'" and "recordsOk h" and "hostRecord h p = Some r"
  shows "recordsOk (putRecord p r' h)" and "hostRecord (putRecord p r' h) p = Some r'"
  using assms disabledRecord_facts [OF assms(1)] recordsOk_record [OF assms(2, 3)]
    hostRecord_registered [OF assms(3)]
  by (auto simp: hostRecord_put intro!: recordsOk_put)

lemma activationHookFailed_ok:
  assumes "recordsOk h" and "hostRecord h (at_plugin t) = Some r"
    and "at_from t = Registering \<or> at_from t = Degraded"
    and "evidenceMatches (evidenceExpectation (ph_compositionId h) r) (at_evidence t)"
  shows "segmentOk True (at_plugin t) h (activationSegment (activationHookFailed t r clock now h))"
proof (cases "disabledRecord r ''Bundled activation hook failed after authorization.'' clock")
  case (Inl e)
  with assms(1) show ?thesis by (simp add: activationHookFailed_def endActivation_ok)
next
  case (Inr r')
  note put = putDisabled_ok [OF Inr assms(1, 2)]
  have "activationOk (putRecord (at_plugin t) r' h) (t\<lparr>at_wait := ActivateFailedSink event e\<rparr>)" for event e
    using put(2) assms(3, 4) disabledRecord_facts [OF Inr] sameIdentity_facts(1)
    by (simp add: activationOk_def)
  with Inr put(1) show ?thesis
    by (auto simp: activationHookFailed_def intro!: activationAudit_ok)
qed

lemma resumeActivation_ok:
  assumes "activationOk h t" and "recordsOk h" and "resumeActivation t reply clock now h = Some hp"
  shows "segmentOk True (at_plugin t) h (activationSegment hp)"
proof -
  from assms(1) obtain r where r: "hostRecord h (at_plugin t) = Some r"
    and origin: "at_from t = Registering \<or> at_from t = Degraded"
    and ev: "evidenceMatches (evidenceExpectation (ph_compositionId h) r) (at_evidence t)"
    by (auto simp: activationOk_def)
  have complete: "segmentOk True (at_plugin t) h (activationSegment (completeActivation t r effective clock h'))"
    if "h' = h \<or> h' = recordEvent event h" "ls_state (hr_lifecycle r) = at_from t"
      "capabilitiesGranted r effective" "allowedAudited (ph_audit h') r" for h' event effective
    using that assms(2) r origin ev by (intro completeActivation_ok) auto
  show ?thesis
  proof (cases reply)
    case SinkOk
    show ?thesis
    proof (cases "at_wait t")
      case (RequestedSink event)
      with SinkOk assms r origin ev show ?thesis
        by (auto simp: resumeActivation_def activationSunk_def mapProgress_def activationOk_def
            intro!: segmentOk_running)
    next
      case (AllowedSink event effective)
      with assms(1) r have a: "ls_state (hr_lifecycle r) = at_from t" "capabilitiesGranted r effective"
        "allowedAudited (ph_audit (recordEvent event h)) r"
        by (auto simp: activationOk_def allowedAudited_def)
      with SinkOk AllowedSink assms r origin ev complete [of "recordEvent event h" event effective] show ?thesis
        by (auto simp: resumeActivation_def activationSunk_def mapProgress_def activationOk_def
            split: if_splits intro!: segmentOk_running)
    qed (use SinkOk assms r in \<open>auto simp: resumeActivation_def activationSunk_def intro!: endActivation_ok\<close>)
  next
    case SinkFails
    with assms r show ?thesis
      by (cases "at_wait t") (auto simp: resumeActivation_def activationSinkFailed_def intro!: endActivation_ok)
  next
    case (PolicyReturns answer)
    with assms r show ?thesis
      by (auto simp: resumeActivation_def split: if_splits intro!: activationDecided_ok)
  next
    case (PolicyThrows e)
    with assms r show ?thesis
      by (auto simp: resumeActivation_def split: if_splits intro!: endActivation_ok)
  next
    case (HookReturns raw)
    with assms(3) r obtain effective where hook: "at_wait t = ActivateHook effective"
      and hp: "hp = completeActivation t r effective clock h"
      by (auto simp: resumeActivation_def split: ActivationWait.splits)
    with assms(1) r complete [of h _ effective] show ?thesis by (auto simp: activationOk_def)
  next
    case HookFails
    with assms(3) r have "hp = activationHookFailed t r clock now h"
      by (auto simp: resumeActivation_def split: ActivationWait.splits)
    with assms(2) r origin ev show ?thesis by (simp add: activationHookFailed_ok)
  next
    case (EvaluatorReplies answer)
    with assms(3) r show ?thesis by (simp add: resumeActivation_def)
  qed
qed

text \<open>A new call is refused at once and changes nothing, or it runs its first segment under its lock.\<close>

definition locked :: "bool \<Rightarrow> jstring \<Rightarrow> ('w, 'b) PluginHost \<Rightarrow> ('w, 'b) PluginHost \<Rightarrow> bool" where
  "locked life p h h' \<longleftrightarrow>
     (if life then beginLifecycleOperation h p = Inr h' else (\<exists>c. beginExecutionOperation h p c = Inr h'))"

definition callOk ::
  "bool \<Rightarrow> ('w, 'b) PluginHost \<Rightarrow> ('w, 'b) PluginHost \<times> 'b HostTask progress \<Rightarrow> bool" where
  "callOk life h hp \<longleftrightarrow>
     (\<exists>h0. hostFrame {} h h0 \<and> sameLocks h h0
        \<and> ((\<exists>r. hp = (h0, Finished r) \<and> r \<noteq> Inl JsTypeError)
           \<or> (\<exists>p h'. locked life p h0 h' \<and> segmentOk life p h' hp)))"

lemma callOk_refused: "r \<noteq> Inl JsTypeError \<Longrightarrow> callOk life h (h, Finished r)"
  unfolding callOk_def by (intro exI [of _ h]) simp

lemma callOk_locked: "locked life p h h' \<Longrightarrow> segmentOk life p h' hp \<Longrightarrow> callOk life h hp"
  unfolding callOk_def by (intro exI [of _ h]) auto

lemma locked_facts:
  assumes "locked life p h h'"
  shows "hostRecord h' = hostRecord h" "ph_compositionId h' = ph_compositionId h" "ph_audit h' = ph_audit h"
    "ph_registry h' = ph_registry h" "ph_targets h' = ph_targets h" "ph_sealed h' = ph_sealed h"
  using assms
  by (auto simp: locked_def beginLifecycleOperation_def beginExecutionOperation_def hostError_def
      split: if_splits intro!: hostRecord_eq)

lemma recordsOk_locked: "locked life p h h' \<Longrightarrow> recordsOk h \<Longrightarrow> recordsOk h'"
  by (simp add: recordsOk_def locked_facts)

lemma guards_no_type:
  "assertExecutionReady h \<noteq> Inl JsTypeError" "findRecord h p \<noteq> Inl JsTypeError"
  "beginLifecycleOperation h p \<noteq> Inl JsTypeError" "beginExecutionOperation h p c \<noteq> Inl JsTypeError"
  by (auto simp: assertExecutionReady_def findRecord_def beginLifecycleOperation_def
      beginExecutionOperation_def hostError_def split: option.splits)

lemma findRecord_Inr: "findRecord h p = Inr r \<longleftrightarrow> hostRecord h p = Some r"
  by (auto simp: findRecord_def hostError_def split: option.splits)

lemma refused_ok:
  "e \<noteq> JsTypeError \<Longrightarrow> callOk life h (h, mapProgress f (Finished (Inl e)))"
  by (simp add: callOk_refused mapProgress_def)

lemma guards_cases:
  obtains (unready) e where "assertExecutionReady h = Inl e" "e \<noteq> JsTypeError"
  | (unknown) e where "assertExecutionReady h = Inr ()" "findRecord h p = Inl e" "e \<noteq> JsTypeError"
  | (busy) r e where "assertExecutionReady h = Inr ()" "findRecord h p = Inr r"
      "beginLifecycleOperation h p = Inl e" "e \<noteq> JsTypeError"
  | (held) r h' where "assertExecutionReady h = Inr ()" "findRecord h p = Inr r" "hostRecord h p = Some r"
      "beginLifecycleOperation h p = Inr h'" "locked True p h h'"
  using guards_no_type [of h] guards_no_type(2, 3) [of h p]
  by (cases "assertExecutionReady h"; cases "findRecord h p"; cases "beginLifecycleOperation h p")
    (auto simp: findRecord_Inr locked_def)

lemma activate_ok:
  assumes "recordsOk h"
  shows "callOk True h (activationSegment (activate isDate h pluginId ev now))"
proof (cases rule: guards_cases [where h = h and p = pluginId])
  case (held r h')
  let ?from = "ls_state (hr_lifecycle r)"
  note rec = recordsOk_locked [OF held(5) assms] locked_facts [OF held(5)]
  have ended: "segmentOk True pluginId h' (activationSegment (endActivation pluginId x h'))"
    if "x \<noteq> Inl JsTypeError" for x
    using rec(1) that by (simp add: endActivation_ok)
  have "segmentOk True pluginId h' (activationSegment (activate isDate h pluginId ev now))"
  proof (cases "(?from \<noteq> Registering \<and> ?from \<noteq> Degraded) \<or> ev = UUndefined \<or> ev = UNull")
    case True
    with held(1, 2, 4) ended show ?thesis by (auto simp: activate_def Let_def)
  next
    case False
    show ?thesis
    proof (cases "normalizeActivationEvidence isDate ev (evidenceExpectation (ph_compositionId h') r)")
      case (Inl e)
      with False held(1, 2, 4) ended show ?thesis by (simp add: activate_def Let_def)
    next
      case (Inr evidence)
      from normalizeActivationEvidence_Inr [OF Inr]
      have "evidenceMatches (evidenceExpectation (ph_compositionId h') r) evidence" .
      with False held(3) rec(2) have "activationOk h' \<lparr>at_plugin = pluginId, at_evidence = evidence,
          at_from = ?from, at_wait = RequestedSink event\<rparr>" for event
        by (simp add: activationOk_def)
      with Inr False held(1, 2, 4) ended rec(1) show ?thesis
        by (auto simp: activate_def Let_def intro!: activationAudit_ok)
    qed
  qed
  with held(5) show ?thesis by (rule callOk_locked)
qed (auto simp: activate_def intro: refused_ok)

section \<open>Deactivation\<close>

abbreviation (input) deactivationSegment ::
  "('w, 'b) deactivation \<Rightarrow> ('w, 'b) PluginHost \<times> 'b HostTask progress"
  where "deactivationSegment \<equiv> map_prod id (mapProgress Deactivation)"

lemma endDeactivation_ok:
  assumes "hostFrame {p} h h'" and "recordsOk h'" and "sameLocks h h'" and "r \<noteq> Inl JsTypeError"
  shows "segmentOk True p h (deactivationSegment (endDeactivation p r h'))"
  using segmentOk_finished [of True p h h' r False] assms
  by (simp add: endDeactivation_def mapProgress_def release_def)

lemma disablePlugin_ok:
  assumes "recordsOk h" and "hostRecord h (dt_plugin t) = Some r"
  shows "segmentOk True (dt_plugin t) h
    (deactivationSegment (disablePlugin t r reason reasonCode failure clock now h))"
proof (cases "disabledRecord r reason clock")
  case (Inl e)
  with assms(1) show ?thesis by (simp add: disablePlugin_def endDeactivation_ok)
next
  case (Inr r')
  note put = putDisabled_ok [OF Inr assms]
  have "deactivationOk (putRecord (dt_plugin t) r' h) (t\<lparr>dt_wait := DisabledSink event failure\<rparr>)" for event
    using put(2) disabledRecord_facts(2) [OF Inr] by (simp add: deactivationOk_def)
  with Inr put(1) show ?thesis
    by (auto simp: disablePlugin_def Let_def mapProgress_def split: sum.splits
        intro!: endDeactivation_ok segmentOk_running)
qed

lemma resumeDeactivation_ok:
  assumes "deactivationOk h t" and "recordsOk h" and "resumeDeactivation t reply clock now h = Some hp"
  shows "segmentOk True (dt_plugin t) h (deactivationSegment hp)"
proof -
  from assms(1) obtain r where r: "hostRecord h (dt_plugin t) = Some r" by (auto simp: deactivationOk_def)
  note disable = disablePlugin_ok [OF assms(2) r]
  show ?thesis
  proof (cases "dt_wait t")
    case DeactivateHook
    with assms(3) r disable show ?thesis
      by (auto simp: resumeDeactivation_def deactivateQuietly_def deactivateFailed_def split: HostReply.splits)
  next
    case (DisabledSink event failure)
    with assms(2, 3) r show ?thesis
      by (auto simp: resumeDeactivation_def split: HostReply.splits option.splits intro!: endDeactivation_ok)
  qed
qed

lemma deactivate_ok:
  assumes "recordsOk h"
  shows "callOk True h (deactivationSegment (deactivate h pluginId clock now))"
proof (cases rule: guards_cases [where h = h and p = pluginId])
  case (held r h')
  let ?from = "ls_state (hr_lifecycle r)"
  let ?t = "\<lparr>dt_plugin = pluginId, dt_from = ?from, dt_evidence = hr_evidence r, dt_wait = DeactivateHook\<rparr>"
  note rec = recordsOk_locked [OF held(5) assms] locked_facts [OF held(5)]
  have "segmentOk True pluginId h' (deactivationSegment (deactivate h pluginId clock now))"
  proof (cases "?from \<noteq> Activated \<and> ?from \<noteq> Degraded")
    case True
    with held(1, 2, 4) rec(1) show ?thesis by (simp add: deactivate_def Let_def endDeactivation_ok)
  next
    case False
    with held(3) rec(2) have "deactivationOk h' ?t" by (auto simp: deactivationOk_def)
    then have "segmentOk True pluginId h' (h', Running (Deactivation ?t))"
      using rec(1) by (intro segmentOk_running) simp_all
    moreover have "segmentOk True pluginId h' (deactivationSegment (deactivateQuietly ?t r clock now h'))"
      using disablePlugin_ok [OF rec(1), of ?t r] held(3) rec(2) by (simp add: deactivateQuietly_def)
    ultimately show ?thesis
      using held(1, 2, 4) False by (auto simp: deactivate_def Let_def mapProgress_def)
  qed
  with held(5) show ?thesis by (rule callOk_locked)
qed (auto simp: deactivate_def intro: refused_ok)

section \<open>Planning\<close>

abbreviation (input) planSegment :: "('w, 'b) planning \<Rightarrow> ('w, 'b) PluginHost \<times> 'b HostTask progress"
  where "planSegment \<equiv> map_prod id (mapProgress Planning)"

lemma endPlanning_ok:
  assumes "hostFrame {} h h'" and "recordsOk h'" and "sameLocks h h'" and "r = Inl JsTypeError \<longrightarrow> sparse"
  shows "segmentOkIf sparse False p h (planSegment (endPlanning p r h'))"
  using segmentOk_finished [of False p h h' r sparse] assms
  by (simp add: endPlanning_def mapProgress_def release_def)

lemma planAudit_ok:
  assumes "hostFrame {} h h'" and "recordsOk h'" and "sameLocks h h'" and "pk_plugin t = p"
    and "buildPluginAuditEvent input now = Inl JsTypeError \<longrightarrow> sparse"
    and "\<And>event. buildPluginAuditEvent input now = Inr event \<Longrightarrow> planningOk h' (t\<lparr>pk_wait := wait event\<rparr>)"
  shows "segmentOkIf sparse False p h (planSegment (planAudit t input now wait h'))"
proof (cases "buildPluginAuditEvent input now")
  case (Inl e)
  with assms(4, 5) endPlanning_ok [OF assms(1-3), of "Inl e" sparse] show ?thesis
    by (simp add: planAudit_def)
next
  case (Inr event)
  with assms(1-4, 6) show ?thesis
    by (auto simp: planAudit_def mapProgress_def intro!: segmentOk_running)
qed

text \<open>What every plan in flight has: an active plugin, whose record no other call changes.\<close>

lemma planningOk_record:
  assumes "planningOk h t"
  obtains r effective where "hostRecord h (pk_plugin t) = Some r" "ls_state (hr_lifecycle r) = Activated"
    "hr_effective r = Some effective"
  using assms by (auto simp: planningOk_def)

lemma planningOk_wait:
  assumes "planningOk h t" and "hostRecord h (pk_plugin t) = Some r" and "hr_effective r = Some effective"
  shows "planningOk h (t\<lparr>pk_wait := PlanDeniedSink event e\<rparr>)"
    and "planningOk h (t\<lparr>pk_wait := PlanShadowSink event target\<rparr>)"
    and "planTarget (pk_registered t) = Inr fixed \<Longrightarrow> ht_requiredCapability fixed \<in> set effective \<Longrightarrow>
      planningOk h (t\<lparr>pk_wait := PlanPolicy\<rparr>)"
    and "planTarget (pk_registered t) = Inr fixed \<Longrightarrow> ht_requiredCapability fixed \<in> set effective \<Longrightarrow>
      hr_gateMode r = Enforce \<Longrightarrow> planningOk h (t\<lparr>pk_wait := PlanBuilder refs\<rparr>)"
    and "stepFits t effective step target \<Longrightarrow> hr_gateMode r = Enforce \<Longrightarrow>
      planningOk h (t\<lparr>pk_wait := PlanStepPolicy refs step target\<rparr>)"
    and "stepFits t effective step target \<Longrightarrow> hr_gateMode r = Enforce \<Longrightarrow>
      ev_type event = ActionAllowed \<Longrightarrow> namesPlugin event r \<Longrightarrow>
      planningOk h (t\<lparr>pk_wait := PlanAllowedSink event step target\<rparr>)"
  using assms by (auto simp: planningOk_def stepFits_def)

lemma planningOk_event: "planningOk h t \<Longrightarrow> planningOk (recordEvent event h) t"
  by (simp add: planningOk_def)

lemma denyPlan_ok:
  assumes "planningOk h' t" and "hostFrame {} h h'" and "recordsOk h'" and "sameLocks h h'"
  shows "segmentOk False (pk_plugin t) h (planSegment (denyPlan t r code refs e now h'))"
proof -
  obtain r' effective where "hostRecord h' (pk_plugin t) = Some r'" "hr_effective r' = Some effective"
    using planningOk_record [OF assms(1)] by metis
  from planningOk_wait(1) [OF assms(1) this] assms(2-4) show ?thesis
    unfolding denyPlan_def by (intro planAudit_ok) auto
qed

lemma catalog_typed:
  assumes "catalogOk h" and "planningOk h t"
  shows "planTarget (pk_registered t) \<noteq> Inl False"
proof (cases "rg_kind (pk_registered t) = ActionAlias")
  case True
  then show ?thesis by (cases "rg_value (pk_registered t)") (simp_all add: planTarget_def)
next
  case False
  from assms(2) have "getAction (ph_registry h) (pk_action t) = Some (pk_registered t)"
    by (simp add: planningOk_def)
  with assms(1) False obtain target where "rg_value (pk_registered t) = ResolvedBuilder target"
    unfolding catalogOk_def by blast
  with False show ?thesis by (simp add: planTarget_def)
qed

text \<open>The target of a registered action is the one of the catalog, and an alias of it always fits.\<close>

lemma planTarget_prepared:
  assumes "catalogOk h" and "planningOk h t" and "planTarget (pk_registered t) = Inr fixed"
  shows "map_of (ph_targets h) (ht_id fixed) = Some fixed"
    and "rg_kind (pk_registered t) = ActionAlias \<longrightarrow> readOnlyTarget fixed"
    and "rg_value (pk_registered t) = ResolvedAlias isAction a target \<Longrightarrow> mapDeclarativeInput a v = Inr vs \<Longrightarrow>
      inputFits fixed vs"
proof -
  from assms(2) have "getAction (ph_registry h) (pk_action t) = Some (pk_registered t)"
    by (simp add: planningOk_def)
  with assms(1) have prepared: "preparedAction (ph_targets h) (rg_value (pk_registered t))"
    unfolding catalogOk_def by blast
  with assms(3) show "rg_kind (pk_registered t) = ActionAlias \<longrightarrow> readOnlyTarget fixed"
    by (auto simp: planTarget_def preparedAction_def split: HostRegisteredAction.splits if_splits)
  from assms(3) have "actionTarget (rg_value (pk_registered t)) = fixed"
    by (cases "rg_value (pk_registered t)") (auto simp: planTarget_def split: if_splits)
  with prepared show "map_of (ph_targets h) (ht_id fixed) = Some fixed"
    and "rg_value (pk_registered t) = ResolvedAlias isAction a target \<Longrightarrow> mapDeclarativeInput a v = Inr vs \<Longrightarrow>
      inputFits fixed vs"
    by (auto simp: preparedAction_def intro: fitsAlways_input)
qed

lemma catalogOk_event [simp]: "catalogOk (recordEvent event h) = catalogOk h"
  by (simp add: catalogOk_def)

lemma planRequested_ok:
  assumes "planningOk h' t" and "hostFrame {} h h'" and "recordsOk h'" and "sameLocks h h'" and "catalogOk h'"
    and "hostRecord h' (pk_plugin t) = Some r"
  shows "segmentOk False (pk_plugin t) h (planSegment (planRequested t r now h'))"
proof -
  from assms(1, 6) obtain effective where eff: "hr_effective r = Some effective"
    by (auto simp: planningOk_def)
  note deny = denyPlan_ok [OF assms(1-4)]
  show ?thesis
  proof (cases "planTarget (pk_registered t)")
    case (Inl mismatch)
    with catalog_typed [OF assms(5, 1)] deny show ?thesis by (simp add: planRequested_def)
  next
    case (Inr fixed)
    show ?thesis
    proof (cases "ht_requiredCapability fixed \<in> set effective")
      case True
      with planningOk_wait(3) [OF assms(1, 6) eff Inr True] assms(2-4) eff Inr show ?thesis
        by (auto simp: planRequested_def mapProgress_def intro!: segmentOk_running)
    qed (use Inr eff deny in \<open>simp add: planRequested_def\<close>)
  qed
qed

lemma planAuthorized_ok:
  assumes "planningOk h t" and "recordsOk h" and "hostRecord h (pk_plugin t) = Some r"
    and "hr_effective r = Some effective"
    and "planTarget (pk_registered t) = Inr fixed" and "ht_requiredCapability fixed \<in> set effective"
    and "catalogOk h"
  shows "segmentOk False (pk_plugin t) h (planSegment (planAuthorized t r fixed answer now h))"
proof (cases "normalizeHostPolicyDecision answer")
  case (Inl e)
  with denyPlan_ok [OF assms(1) _ assms(2)] show ?thesis by (simp add: planAuthorized_def)
next
  case (Inr decision)
  note deny = denyPlan_ok [OF assms(1) hostFrame_refl assms(2) sameLocks_simps(1)]
  note wait = planningOk_wait [OF assms(1, 3, 4)]
  show ?thesis
  proof (cases "pd_outcome decision = PolicyAllow")
    case False
    with Inr deny show ?thesis by (simp add: planAuthorized_def)
  next
    case allow: True
    show ?thesis
    proof (cases "hr_gateMode r")
      case Shadow
      with Inr allow wait(2) assms(2) show ?thesis
        by (auto simp: planAuthorized_def intro!: planAudit_ok)
    next
      case Enforce
      show ?thesis
      proof (cases "rg_value (pk_registered t)")
        case (ResolvedAlias isAction da target)
        show ?thesis
        proof (cases "mapDeclarativeInput da (pk_input t)")
          case (Inl e)
          with Inr allow Enforce ResolvedAlias deny show ?thesis by (simp add: planAuthorized_def)
        next
          case mapped: (Inr vs)
          let ?step = "\<lparr>hp_id = hr_id r @ [46] @ da_id da, hp_actionId = ht_id fixed, hp_input = vs\<rparr>"
          from planTarget_prepared(3) [OF assms(7, 1, 5) ResolvedAlias mapped]
          have "stepFits t effective ?step fixed" using assms(5, 6) by (simp add: stepFits_def)
          from wait(5) [OF this Enforce] Inr allow Enforce ResolvedAlias mapped assms(2) show ?thesis
            by (auto simp: planAuthorized_def mapProgress_def intro!: segmentOk_running)
        qed
      next
        case (ResolvedBuilder target)
        from wait(4) [OF assms(5, 6) Enforce] Inr allow Enforce ResolvedBuilder deny assms(2) show ?thesis
          by (auto simp: planAuthorized_def mapProgress_def split: sum.splits intro!: segmentOk_running)
      qed
    qed
  qed
qed

lemma planBuilt_ok:
  assumes "planningOk h t" and "recordsOk h" and "catalogOk h" and "hostRecord h (pk_plugin t) = Some r"
    and "hr_effective r = Some effective" and "hr_gateMode r = Enforce"
    and "planTarget (pk_registered t) = Inr fixed" and "ht_requiredCapability fixed \<in> set effective"
  shows "segmentOk False (pk_plugin t) h (planSegment (planBuilt t r fixed refs raw now h))"
proof (cases "normalizePlanStep raw (ph_targets h)")
  case (Inl e)
  with denyPlan_ok [OF assms(1) _ assms(2)] show ?thesis by (simp add: planBuilt_def)
next
  case (Inr built)
  obtain step target where built: "built = (step, target)" by (cases built)
  note deny = denyPlan_ok [OF assms(1) hostFrame_refl assms(2) sameLocks_simps(1)]
  show ?thesis
  proof (cases "ht_id target = ht_id fixed")
    case True
    from normalizePlanStep_Inr [OF Inr [unfolded built]]
    have found: "map_of (ph_targets h) (hp_actionId step) = Some target" and fits: "inputFits target (hp_input step)" by simp_all
    then have "(hp_actionId step, target) \<in> set (ph_targets h)" by (blast dest: map_of_SomeD)
    with assms(3) have step: "hp_actionId step = ht_id target" by (auto simp: catalogOk_def)
    with found True planTarget_prepared(1) [OF assms(3, 1, 7)] have "target = fixed" by simp
    with step fits assms(7, 8) have "stepFits t effective step target" by (simp add: stepFits_def)
    from planningOk_wait(5) [OF assms(1, 4, 5) this assms(6)] Inr built True assms(2) show ?thesis
      by (auto simp: planBuilt_def mapProgress_def intro!: segmentOk_running)
  qed (use Inr built deny in \<open>simp add: planBuilt_def\<close>)
qed

text \<open>A plan whose step is allowed with evidence that has holes.\<close>

definition sparsePlan :: "'b HostTask \<Rightarrow> HostReply \<Rightarrow> bool" where
  "sparsePlan t reply \<longleftrightarrow>
     (\<exists>k refs step target answer decision. t = Planning k \<and> pk_wait k = PlanStepPolicy refs step target
        \<and> reply = PolicyReturns answer \<and> normalizeHostPolicyDecision answer = Inr decision
        \<and> pd_outcome decision = PolicyAllow \<and> None \<in> set (refs @ pd_evidenceRefs decision))"

lemma planValidated_ok:
  assumes "planningOk h t" and "recordsOk h" and "hostRecord h (pk_plugin t) = Some r"
    and "hr_effective r = Some effective" and "hr_gateMode r = Enforce" and "stepFits t effective step target"
    and "pk_wait t = PlanStepPolicy refs step target"
  shows "segmentOkIf (sparsePlan (Planning t) (PolicyReturns answer)) False (pk_plugin t) h
    (planSegment (planValidated t r refs step target answer now h))"
proof (cases "normalizeHostPolicyDecision answer")
  case (Inl e)
  with segmentOk_weaken [OF denyPlan_ok [OF assms(1) _ assms(2)]] show ?thesis by (simp add: planValidated_def)
next
  case (Inr decision)
  note deny = segmentOk_weaken [OF denyPlan_ok [OF assms(1) hostFrame_refl assms(2) sameLocks_simps(1)]]
  show ?thesis
  proof (cases "pd_outcome decision = PolicyAllow")
    case False
    with Inr deny show ?thesis by (simp add: planValidated_def)
  next
    case True
    have "ev_type event = ActionAllowed \<and> namesPlugin event r"
      if "buildPluginAuditEvent (auditInput ActionAllowed r rs facts) now = Inr event" for rs facts event
      using buildPluginAuditEvent_Inr(1, 2) [OF that] by (simp add: auditInput_def namesPlugin_def)
    moreover have "sparsePlan (Planning t) (PolicyReturns answer)"
      if "buildPluginAuditEvent (auditInput ActionAllowed r (spreadReferences (refs @ pd_evidenceRefs decision)) facts) now
        = Inl JsTypeError" for facts
      using buildPluginAuditEvent_type [OF that] Inr True assms(7)
      by (simp add: auditInput_def undefined_references sparsePlan_def)
    ultimately show ?thesis using Inr True planningOk_wait(6) [OF assms(1, 3, 4, 6, 5)] assms(2)
      by (auto simp: planValidated_def intro!: planAudit_ok)
  qed
qed

lemma resumePlanning_ok:
  assumes "planningOk h t" and "recordsOk h" and "catalogOk h" and "resumePlanning t reply now h = Some hp"
  shows "segmentOkIf (sparsePlan (Planning t) reply) False (pk_plugin t) h (planSegment hp)"
proof -
  from assms(1) obtain r effective where r: "hostRecord h (pk_plugin t) = Some r" and eff: "hr_effective r = Some effective"
    by (auto simp: planningOk_def)
  note deny = segmentOk_weaken [OF denyPlan_ok [OF assms(1) hostFrame_refl assms(2) sameLocks_simps(1)]]
  show ?thesis
  proof (cases reply)
    case SinkOk
    with assms(2, 4) r segmentOk_weaken [OF planRequested_ok [OF planningOk_event [OF assms(1)]]] assms(3) show ?thesis
      by (cases "pk_wait t") (auto simp: resumePlanning_def planSunk_def intro!: endPlanning_ok)
  next
    case SinkFails
    with assms(2, 4) r show ?thesis
      by (cases "pk_wait t") (auto simp: resumePlanning_def planSinkFailed_def intro!: endPlanning_ok)
  next
    case (PolicyReturns answer)
    show ?thesis
    proof (cases "pk_wait t")
      case PlanPolicy
      with assms(1) r eff obtain fixed where "planTarget (pk_registered t) = Inr fixed"
        "ht_requiredCapability fixed \<in> set effective" by (auto simp: planningOk_def)
      with segmentOk_weaken [OF planAuthorized_ok [OF assms(1, 2) r eff]] PolicyReturns PlanPolicy assms(3, 4) r show ?thesis
        by (auto simp: resumePlanning_def)
    next
      case (PlanStepPolicy refs step target)
      with assms(1) r eff have "hr_gateMode r = Enforce" "stepFits t effective step target"
        by (auto simp: planningOk_def)
      with planValidated_ok [OF assms(1, 2) r eff _ _ PlanStepPolicy] PolicyReturns PlanStepPolicy assms(4) r show ?thesis
        by (auto simp: resumePlanning_def)
    qed (use PolicyReturns assms(4) r in \<open>auto simp: resumePlanning_def\<close>)
  next
    case (PolicyThrows e)
    with assms(4) r deny show ?thesis
      by (cases "pk_wait t") (auto simp: resumePlanning_def)
  next
    case (HookReturns raw)
    show ?thesis
    proof (cases "pk_wait t")
      case (PlanBuilder refs)
      with assms(1) r eff obtain fixed where "hr_gateMode r = Enforce" "planTarget (pk_registered t) = Inr fixed"
        "ht_requiredCapability fixed \<in> set effective" by (auto simp: planningOk_def)
      with segmentOk_weaken [OF planBuilt_ok [OF assms(1-3) r eff]] HookReturns PlanBuilder assms(4) r show ?thesis
        by (auto simp: resumePlanning_def)
    qed (use HookReturns assms(4) r in \<open>auto simp: resumePlanning_def\<close>)
  next
    case HookFails
    with assms(4) r deny show ?thesis
      by (cases "pk_wait t") (auto simp: resumePlanning_def)
  next
    case (EvaluatorReplies answer)
    with assms(4) r show ?thesis by (simp add: resumePlanning_def)
  qed
qed

lemma planAction_ok:
  assumes "recordsOk h"
  shows "callOk False h (planSegment (planAction h actionId inputValue now))"
proof (cases "assertExecutionReady h")
  case (Inl e)
  with guards_no_type(1) [of h] show ?thesis by (auto simp: planAction_def intro: refused_ok)
next
  case ready: (Inr u)
  show ?thesis
  proof (cases "getAction (ph_registry h) actionId")
    case None
    with ready show ?thesis by (auto simp: planAction_def intro: refused_ok)
  next
    case (Some registered)
    let ?p = "rg_pluginId registered"
    show ?thesis
    proof (cases "findRecord h ?p")
      case (Inl e)
      with ready Some guards_no_type(2) [of h ?p] show ?thesis by (auto simp: planAction_def intro: refused_ok)
    next
      case found: (Inr r)
      show ?thesis
      proof (cases "beginExecutionOperation h ?p (Some actionId)")
        case (Inl e)
        with ready Some found guards_no_type(4) [of h ?p "Some actionId"] show ?thesis
          by (auto simp: planAction_def intro: refused_ok)
      next
        case held: (Inr h')
        then have lock: "locked False ?p h h'" by (auto simp: locked_def)
        note rec = recordsOk_locked [OF lock assms] locked_facts [OF lock]
        from found rec(2) have r: "hostRecord h' ?p = Some r" by (simp add: findRecord_Inr)
        let ?t = "\<lparr>pk_plugin = ?p, pk_action = actionId, pk_registered = registered, pk_input = inputValue,
          pk_wait = PlanPolicy\<rparr>"
        have "segmentOk False ?p h' (planSegment (planAction h actionId inputValue now))"
        proof (cases "ls_state (hr_lifecycle r) \<noteq> Activated \<or> hr_evidence r = None \<or> hr_effective r = None")
          case True
          with ready Some found held rec(1) show ?thesis
            by (simp add: planAction_def Let_def endPlanning_ok)
        next
          case False
          with r Some rec(5) have "planningOk h' (?t\<lparr>pk_wait := PlanRequestedSink event\<rparr>)" for event
            by (auto simp: planningOk_def)
          with ready Some found held False rec(1) show ?thesis
            by (auto simp: planAction_def Let_def intro!: planAudit_ok)
        qed
        with lock show ?thesis by (rule callOk_locked)
      qed
    qed
  qed
qed

section \<open>Evaluating blockers\<close>

abbreviation (input) evaluationSegment ::
  "('w, 'b) evaluation \<Rightarrow> ('w, 'b) PluginHost \<times> 'b HostTask progress"
  where "evaluationSegment \<equiv> map_prod id (mapProgress Evaluation)"

lemma hostFrame_trans: "hostFrame P h h' \<Longrightarrow> hostFrame P h' h'' \<Longrightarrow> hostFrame P h h''"
  by (auto simp: hostFrame_def)

lemma sameLocks_trans: "sameLocks h h' \<Longrightarrow> sameLocks h' h'' \<Longrightarrow> sameLocks h h''"
  by (simp add: sameLocks_def)

lemma recordsOk_frame: "hostFrame {} h h' \<Longrightarrow> recordsOk h \<Longrightarrow> recordsOk h'"
  using hostRecord_frame [of "{}" h h'] unfolding recordsOk_def hostFrame_def
  by (metis empty_iff recordOk_append)

lemma callOk_after:
  "hostFrame {} h h' \<Longrightarrow> sameLocks h h' \<Longrightarrow> callOk life h' hp \<Longrightarrow> callOk life h hp"
  unfolding callOk_def by (elim exE conjE, rule exI, intro conjI)
    (erule (1) hostFrame_trans, erule (1) sameLocks_trans, assumption)

text \<open>A turn whose evaluator is not awaited leaves the locks as they were.\<close>

lemma passed_execution:
  assumes "beginExecutionOperation h p c = Inr h'"
  shows "hostFrame {} h (endExecutionOperation p h')" and "sameLocks h (endExecutionOperation p h')"
proof -
  from assms have h': "h' = h\<lparr>ph_executionOps := (ph_executionOps h)(p \<mapsto> executionCount h p + 1)\<rparr>"
    by (auto simp: beginExecutionOperation_def hostError_def split: if_splits)
  show "hostFrame {} h (endExecutionOperation p h')" by (simp add: hostFrame_def h')
  have "executionCount h' q = executionCount h q + (if q = p then 1 else 0)" for q
    by (simp add: h' executionCount_def)
  then have "executionCount (endExecutionOperation p h') = executionCount h"
    by (simp add: fun_eq_iff executionCount_end)
  then show "sameLocks h (endExecutionOperation p h')" by (simp add: sameLocks_def h')
qed

lemma evaluateNext_ok:
  assumes "recordsOk h"
  shows "callOk False h (evaluationSegment (evaluateNext report rs blockers h))"
  using assms
proof (induction rs arbitrary: blockers h)
  case Nil
  show ?case by (simp add: mapProgress_def callOk_refused)
next
  case (Cons registered rest)
  show ?case
  proof (cases "beginTurn h registered")
    case (Inl e)
    with guards_no_type(2) [of h "rg_pluginId registered"] have "e \<noteq> JsTypeError"
      by (auto simp: beginTurn_def check_bind_Inl split: if_splits option.splits)
    with Inl show ?thesis by (simp add: mapProgress_def callOk_refused)
  next
    case (Inr turn)
    show ?thesis
    proof (cases turn)
      case (Passed bs)
      with Inr Cons show ?thesis by simp
    next
      case (Asks r effective evidence)
      with beginTurn_Asks(4) Inr
      obtain h' where held: "beginExecutionOperation h (hr_id r) (Some (rg_id registered)) = Inr h'" by blast
      then have lock: "locked False (hr_id r) h h'" by (auto simp: locked_def)
      note passed = passed_execution [OF held]
      show ?thesis
      proof (cases "projectPrmsReport report (\<lambda>name. None)")
        case (Inl e)
        have rest: "callOk False (endExecutionOperation (hr_id r) h')
          (evaluationSegment (evaluateNext report rest (blockers @ [Some (failureBlocker r registered False)])
             (endExecutionOperation (hr_id r) h')))"
          by (rule Cons.IH [OF recordsOk_frame [OF passed(1) Cons.prems]])
        from Inl Inr Asks held have eq: "evaluateNext report (registered # rest) blockers h =
          evaluateNext report rest (blockers @ [Some (failureBlocker r registered False)]) (endExecutionOperation (hr_id r) h')"
          by simp
        show ?thesis unfolding eq by (rule callOk_after [OF passed rest])
      next
        case projected: (Inr p)
        have "segmentOk False (hr_id r) h' (evaluationSegment (evaluateNext report (registered # rest) blockers h))"
          using projected Inr Asks held recordsOk_locked [OF lock Cons.prems]
          by (auto simp: mapProgress_def intro!: segmentOk_running)
        with lock show ?thesis by (rule callOk_locked)
      qed
    qed
  qed
qed

lemma evaluatePrmsBlockers_ok:
  assumes "recordsOk h"
  shows "callOk False h (evaluationSegment (evaluatePrmsBlockers h report))"
proof (cases "assertExecutionReady h")
  case (Inl e)
  with guards_no_type(1) [of h] show ?thesis by (auto simp: evaluatePrmsBlockers_def mapProgress_def intro: callOk_refused)
next
  case (Inr u)
  with evaluateNext_ok [OF assms] show ?thesis by (simp add: evaluatePrmsBlockers_def)
qed

text \<open>An evaluation that goes on lets go of its plugin, and then behaves like a new call.\<close>

lemma resumeEvaluation_ok:
  assumes "recordsOk h" and "resumeEvaluation t reply h = Some hp"
  shows "callOk False (endExecutionOperation (hr_id (et_record t)) h) (evaluationSegment hp)"
  using assms evaluateNext_ok [of "endExecutionOperation (hr_id (et_record t)) h"]
  by (auto simp: resumeEvaluation_def answerEvaluation_def split: HostReply.splits)

end
