(* ===== verification/PluginHostInvariant.thy ===== *)
theory PluginHostInvariant
  imports PluginHostCorrectness StepSystem
begin

text \<open>
  The sealed plugin host with any number of calls in flight: the locks match the calls, and every
  record and every waiting call is sound in each reachable state.
\<close>

section \<open>The locks and the calls that hold them\<close>

definition holder :: "'b HostTask \<Rightarrow> bool \<times> jstring" where
  "holder t = (isLifecycle t, taskPlugin t)"

definition locksOk :: "('w, 'b) PluginHost \<Rightarrow> (bool \<times> jstring) list \<Rightarrow> bool" where
  "locksOk h hs \<longleftrightarrow>
     (\<forall>p. count_list hs (True, p) = (if p \<in> ph_lifecycleOps h then 1 else 0)
        \<and> executionCount h p = count_list hs (False, p)
        \<and> (p \<in> ph_lifecycleOps h \<longrightarrow> executionCount h p = 0))"

definition hostOk :: "('w, 'b) HostSystem \<Rightarrow> bool" where
  "hostOk s \<longleftrightarrow>
     ph_sealed (hs_host s) \<and> recordsOk (hs_host s) \<and> catalogOk (hs_host s)
     \<and> locksOk (hs_host s) (map holder (hs_tasks s))
     \<and> (\<forall>t \<in> set (hs_tasks s). taskOk (hs_host s) t)"

lemma executionCount_same: "sameLocks h h' \<Longrightarrow> executionCount h' = executionCount h"
  by (simp add: sameLocks_def)

lemma locksOk_same: "sameLocks h h' \<Longrightarrow> locksOk h hs \<Longrightarrow> locksOk h' hs"
  by (auto simp: locksOk_def sameLocks_def)

lemma locksOk_order: "locksOk h (left @ x # right) \<longleftrightarrow> locksOk h ((left @ right) @ [x])"
  by (simp add: locksOk_def)

lemma locksOk_locked:
  assumes "locksOk h hs" and "locked life p h h'"
  shows "locksOk h' (hs @ [(life, p)])"
proof (cases life)
  case True
  with assms(2) have "p \<notin> ph_lifecycleOps h" "executionCount h p = 0"
    and h': "h' = h\<lparr>ph_lifecycleOps := insert p (ph_lifecycleOps h)\<rparr>"
    by (auto simp: locked_def beginLifecycleOperation_def hostError_def split: if_splits)
  with assms(1) True show ?thesis by (auto simp: locksOk_def executionCount_def)
next
  case False
  with assms(2) have "p \<notin> ph_lifecycleOps h"
    and "h' = h\<lparr>ph_executionOps := (ph_executionOps h)(p \<mapsto> executionCount h p + 1)\<rparr>"
    by (auto simp: locked_def beginExecutionOperation_def hostError_def split: if_splits)
  with assms(1) False show ?thesis by (auto simp: locksOk_def executionCount_def)
qed

lemma locksOk_released:
  assumes "locksOk h (left @ (life, p) # right)" and "sameLocks (release life p h) h'"
  shows "locksOk h' (left @ right)"
proof (rule locksOk_same [OF assms(2)])
  have p: "p \<in> ph_lifecycleOps h" if life
    using assms(1) that unfolding locksOk_def by (auto dest: spec [of _ p] split: if_splits)
  have "count_list (left @ right) (True, p) = 0" if life
    using assms(1) that unfolding locksOk_def by (auto dest: spec [of _ p] split: if_splits)
  with assms(1) p show "locksOk (release life p h) (left @ right)"
    unfolding locksOk_def release_def
    by (cases life) (auto simp: executionCount_end executionCount_def [of "endLifecycleOperation p h"]
        executionCount_def [of h] split: if_splits)
qed

text \<open>A lifecycle call is alone on its plugin.\<close>

lemma locksOk_alone:
  assumes "locksOk h (map holder left @ (True, p) # map holder right)" and "t \<in> set (left @ right)"
  shows "taskPlugin t \<noteq> p"
proof
  assume "taskPlugin t = p"
  with assms(2) have "(isLifecycle t, p) \<in> set (map holder left @ map holder right)"
    by (force simp: holder_def)
  then have "0 < count_list (map holder left @ map holder right) (isLifecycle t, p)"
    by (metis count_list_0_iff neq0_conv)
  with assms(1) show False
    unfolding locksOk_def by (cases "isLifecycle t") (auto dest!: spec [of _ p] split: if_splits)
qed

section \<open>Every reachable state is sound\<close>

lemma catalogOk_frame: "hostFrame P h h' \<Longrightarrow> catalogOk h' = catalogOk h"
  by (simp add: hostFrame_def catalogOk_def)

lemma settle_ok:
  assumes "segmentOkIf sparse life p h hp" and "locksOk h (map holder left @ (life, p) # map holder right)"
    and "ph_sealed h" "catalogOk h" "\<forall>t \<in> set (left @ right). taskOk h t"
  shows "hostOk (settle s left right hp)"
proof -
  obtain h' progress where hp: "hp = (h', progress)" by (cases hp)
  let ?P = "if life then {p} else {}"
  from assms(1) hp have frame: "hostFrame ?P h h'" and rec: "recordsOk h'" by (auto simp: segmentOkIf_def)
  have others: "taskOk h' t" if t: "t \<in> set (left @ right)" for t
  proof (rule taskOk_frame [OF _ frame])
    show "taskPlugin t \<notin> ?P"
      using locksOk_alone [of h left p right] assms(2) t by (cases life) auto
  qed (use assms(5) t in blast)
  have sealed: "ph_sealed h'" and cat: "catalogOk h'"
    using frame assms(3, 4) catalogOk_frame [OF frame] by (simp_all add: hostFrame_def)
  show ?thesis
  proof (cases progress)
    case (Running t)
    with assms(1) hp have "sameLocks h h'" "taskPlugin t = p" "isLifecycle t = life" "taskOk h' t"
      by (auto simp: segmentOkIf_def)
    with locksOk_same [OF _ assms(2)] Running hp rec sealed cat others show ?thesis
      by (auto simp: settle_def hostOk_def holder_def)
  next
    case (Finished r)
    with assms(1) hp have "sameLocks (release life p h) h'" by (auto simp: segmentOkIf_def)
    with locksOk_released [OF assms(2)] Finished hp rec sealed cat others show ?thesis
      by (auto simp: settle_def hostOk_def)
  qed
qed

text \<open>A new call, wherever it takes its place among the others.\<close>

lemma settle_call_ok:
  assumes "locksOk h (map holder (left @ right))" and "recordsOk h" "ph_sealed h" "catalogOk h"
    and "\<forall>t \<in> set (left @ right). taskOk h t" and "callOk life h hp"
  shows "hostOk (settle s left right hp)"
proof -
  from assms(6) obtain h0 where same: "hostFrame {} h h0" "sameLocks h h0"
    and hp: "(\<exists>r. hp = (h0, Finished r) \<and> r \<noteq> Inl JsTypeError)
      \<or> (\<exists>p h'. locked life p h0 h' \<and> segmentOk life p h' hp)"
    unfolding callOk_def by blast
  have start: "locksOk h0 (map holder (left @ right))" "recordsOk h0" "ph_sealed h0" "catalogOk h0"
    using locksOk_same [OF same(2) assms(1)] recordsOk_frame [OF same(1) assms(2)] assms(3, 4) same(1)
      catalogOk_frame [OF same(1)] by (simp_all add: hostFrame_def)
  have tasks: "\<forall>t \<in> set (left @ right). taskOk h0 t"
    using assms(5) taskOk_frame [OF _ same(1)] by blast
  from hp show ?thesis
  proof (elim disjE exE conjE)
    fix r assume "hp = (h0, Finished r)"
    with start tasks show ?thesis by (auto simp: settle_def hostOk_def)
  next
    fix p h' assume lock: "locked life p h0 h'" and seg: "segmentOk life p h' hp"
    note facts = locked_facts [OF lock]
    have "taskOk h' t" if "taskOk h0 t" for t
      using taskOk_frame [OF that, of "{}" h'] facts lock
      by (simp add: hostFrame_def locked_def beginLifecycleOperation_def beginExecutionOperation_def hostError_def
          split: if_splits) auto
    moreover have "locksOk h' (map holder left @ (life, p) # map holder right)"
      using locksOk_locked [OF start(1) lock] locksOk_order by (metis map_append)
    ultimately show ?thesis using facts start tasks
      by (intro settle_ok [OF seg]) (auto simp: catalogOk_def)
  qed
qed

lemma resume_ok:
  assumes "recordsOk h" and "catalogOk h" and "taskOk h t" and "resumeTask t reply clock now h = Some hp"
    and "\<nexists>e. t = Evaluation e"
  shows "segmentOkIf (sparsePlan t reply) (isLifecycle t) (taskPlugin t) h hp"
proof (cases t)
  case (Activation a)
  with assms show ?thesis by (auto dest!: resumeActivation_ok intro: segmentOk_weaken)
next
  case (Deactivation d)
  with assms show ?thesis by (auto dest!: resumeDeactivation_ok intro: segmentOk_weaken)
next
  case (Planning k)
  with assms show ?thesis by (auto dest: resumePlanning_ok)
qed (use assms(5) in simp)

lemma hostOk_records: "hostOk s \<Longrightarrow> recordsOk (hs_host s)"
  by (simp add: hostOk_def)

lemma hostOk_call:
  assumes "hostOk s" and "\<And>h. recordsOk h \<Longrightarrow> callOk life h (call h)"
  shows "hostOk (settle s (hs_tasks s) [] (call (hs_host s)))"
  using assms by (intro settle_call_ok [of "hs_host s" _ _ life]) (simp_all add: hostOk_def)

lemma host_step_ok:
  assumes "host_step isDate s s'" and "hostOk s"
  shows "hostOk s'"
  using assms
proof cases
  case (call_activate pluginId ev now)
  then show ?thesis using hostOk_call [OF assms(2) activate_ok] by simp
next
  case (call_deactivate pluginId clock now)
  then show ?thesis using hostOk_call [OF assms(2) deactivate_ok] by simp
next
  case (call_plan actionId inputValue now)
  then show ?thesis using hostOk_call [OF assms(2) planAction_ok] by simp
next
  case (call_evaluate report)
  then show ?thesis using hostOk_call [OF assms(2) evaluatePrmsBlockers_ok] by simp
next
  case (resume left t right reply clock now hp)
  with assms(2) have ok: "recordsOk (hs_host s)" "catalogOk (hs_host s)" "taskOk (hs_host s) t" "ph_sealed (hs_host s)"
    "locksOk (hs_host s) (map holder left @ holder t # map holder right)" "\<forall>t \<in> set (left @ right). taskOk (hs_host s) t"
    by (auto simp: hostOk_def)
  show ?thesis
  proof (cases "\<exists>e. t = Evaluation e")
    case False
    from settle_ok [OF resume_ok [OF ok(1-3) resume(3) False], of left right s] resume(1) ok show ?thesis
      by (simp add: holder_def)
  next
    case True
    then obtain e where t: "t = Evaluation e" by blast
    let ?p = "hr_id (et_record e)" and ?h = "endExecutionOperation (hr_id (et_record e)) (hs_host s)"
    from resume(3) t obtain ep where ep: "resumeEvaluation e reply (hs_host s) = Some ep"
      and hp: "hp = evaluationSegment ep" by auto
    have "locksOk ?h (map holder (left @ right))"
      using locksOk_released [of "hs_host s" "map holder left" False ?p "map holder right" ?h] ok(5) t
      by (simp add: holder_def release_def)
    moreover have "\<forall>t \<in> set (left @ right). taskOk ?h t"
      using ok(6) taskOk_frame [of "hs_host s" _ "{}" ?h] by (simp add: hostFrame_def)
    ultimately show ?thesis
      using settle_call_ok [OF _ _ _ _ _ resumeEvaluation_ok [OF ok(1) ep], of left right s] ok resume(1)
      by (simp add: hp catalogOk_def)
  qed
qed

definition sealedStart :: "('w, 'b) HostSystem \<Rightarrow> bool" where
  "sealedStart s \<longleftrightarrow> hostStart s \<and> catalogOk (hs_host s)"

lemma sealedStart_ok: "sealedStart s \<Longrightarrow> hostOk s"
  by (auto simp: sealedStart_def hostStart_def hostOk_def recordsOk_def recordOk_def locksOk_def executionCount_def)

interpretation host: inductive_invariant sealedStart "host_step isDate" hostOk
  by unfold_locales (auto intro: sealedStart_ok host_step_ok)

lemma endPlanning_planned:
  "endPlanning p result h = (h', Finished (Inr x)) \<longleftrightarrow> result = Inr x \<and> h' = endExecutionOperation p h"
  by (auto simp: endPlanning_def)

text \<open>A plan ends with a step only when the sink took the event that allows it.\<close>

lemma audit_never_plans:
  "planAudit t ai now w h \<noteq> (h', Finished (Inr x))" "denyPlan t r code refs e now h \<noteq> (h', Finished (Inr x))"
  by (simp_all add: planAudit_def denyPlan_def endPlanning_planned split: sum.splits)

lemma mapProgress_Finished: "mapProgress f p = Finished r \<longleftrightarrow> p = Finished r"
  by (cases p) (simp_all add: mapProgress_def)

lemmas planning_paths = resumePlanning_def planSunk_def planSinkFailed_def planRequested_def planAuthorized_def
  planBuilt_def planValidated_def

lemma planned_only_by_sink:
  assumes "resumeTask (Planning t) reply clock now h = Some (h', Finished (Inr (PlanPlanned a target step)))"
    and "hostRecord h (pk_plugin t) = Some r"
  obtains event tg where "pk_wait t = PlanAllowedSink event step tg" "target = ht_id tg" "a = pk_action t"
    "h' = endExecutionOperation (pk_plugin t) (recordEvent event h)"
proof -
  from assms(1) have "resumePlanning t reply now h = Some (h', Finished (Inr (PlanPlanned a target step)))"
    by (auto simp: mapProgress_Finished)
  with assms(2) that show ?thesis
    by (cases reply; cases "pk_wait t")
      (auto simp: planning_paths audit_never_plans endPlanning_planned Let_def
        split: sum.splits bool.splits option.splits if_splits HostRegisteredAction.splits prod.splits)
qed

end
