(* ===== verification/PluginProperties.thy ===== *)
theory PluginProperties
  imports PluginRegistry
begin

text \<open>
  What the plugin host guarantees: the registries are well formed in every reachable state, and a
  registration enters a whole batch or nothing.
\<close>

section \<open>Registries\<close>

text \<open>What a lookup returns: a contribution of a registered plugin under its canonical identifier.\<close>

definition lookupTyped ::
  "('p, 'a, 'w, 'b) PluginRegistrySet \<Rightarrow> RegisteredKind set \<Rightarrow> (jstring \<Rightarrow> 'v Registered option) \<Rightarrow> bool" where
  "lookupTyped reg kinds look \<longleftrightarrow>
     (\<forall>i c. look i = Some c \<longrightarrow>
        rg_id c = i \<and> i = canonicalPluginContributionId (rg_pluginId c) (rg_localId c)
        \<and> validLocalId (rg_localId c) \<and> rg_kind c \<in> kinds
        \<and> (\<exists>p. getPlugin reg (rg_pluginId c) = Some p \<and> rg_sourceRef c = rp_sourceRef p))"

lemma contributionsOk_lookup:
  assumes "contributionsOk reg kinds al" and "pluginsOk (rs_plugins reg)"
  shows "lookupTyped reg kinds (map_of al)"
  using assms unfolding lookupTyped_def contributionsOk_def pluginsOk_def getPlugin_def
  by (fastforce dest: map_of_SomeD intro: map_of_is_SomeI)

text \<open>A registry with one plugin of one action, for the witnesses.\<close>

definition demoBatch :: "(nat, nat, nat, nat) PluginRegistryBatch" where
  "demoBatch =
     \<lparr>pb_plugin = \<lparr>rp_id = js ''crm'', rp_version = js ''1.0.0'', rp_providerKind = WorkspaceProvider,
        rp_sourceRef = js ''workspace:crm'', rp_value = 0\<rparr>,
      pb_actionAliases = Some [\<lparr>rc_localId = js ''sync-all'', rc_value = 1\<rparr>],
      pb_workflowAliases = None, pb_bundledActions = None, pb_bundledWorkflows = None,
      pb_prmsBlockers = None\<rparr>"

lemma registerBatches_reachable:
  assumes "reachable init registry_step reg" and "registerBatches reg batches = Inr (summary, reg')"
  shows "reachable init registry_step reg'"
proof -
  from assms(2) obtain pre reg1 where "preflight reg batches = Inr (pre, reg1)" "commit reg1 pre = Inr (summary, reg')"
    by (auto simp: registerBatches_def split: sum.splits)
  with assms(1) show ?thesis by (blast intro: reachable_step step_preflight step_commit)
qed

lemma demo_registered:
  "case registerBatches (emptyRegistry 0) [demoBatch] of
     Inl e \<Rightarrow> False
   | Inr (summary, reg) \<Rightarrow> map_option (\<lambda>c. (rg_pluginId c, rg_sourceRef c)) (getAction reg (js ''plugin:crm:sync-all''))
         = Some (js ''crm'', js ''workspace:crm'')"
  by code_simp

text \<open>C34: the registries are well formed in every state that registrations reach. A plugin is
  found under its own, valid identifier and has a source; an action, workflow or blocker is found
  under the canonical identifier of a registered plugin and a valid local identifier, with a kind
  of its registry and the source of its plugin.\<close>

theorem registry_well_formed:
  assumes "reachable (\<lambda>reg. reg = emptyRegistry inst) registry_step reg"
  shows "(\<forall>i p. getPlugin reg i = Some p \<longrightarrow> rp_id p = i \<and> validPluginId i \<and> rp_sourceRef p \<noteq> [])
    \<and> lookupTyped reg {ActionAlias, BundledAction} (getAction reg)
    \<and> lookupTyped reg {WorkflowAlias, BundledWorkflow} (getWorkflow reg)
    \<and> lookupTyped reg {PrmsBlocker} (getPrmsBlocker reg)"
proof -
  from registry.reachable_inv [OF assms] have ok: "mapsOk reg" by simp
  then have "rp_id p = i \<and> validPluginId i \<and> rp_sourceRef p \<noteq> []" if "getPlugin reg i = Some p" for i p
    using that by (fastforce simp: mapsOk_def pluginsOk_def getPlugin_def dest: map_of_SomeD)
  with ok show ?thesis
    by (simp add: mapsOk_def contributionsOk_lookup getAction_def [abs_def] getWorkflow_def [abs_def]
        getPrmsBlocker_def [abs_def])
qed

theorem registry_well_formed_witness:
  "\<exists>summary reg p. registerBatches (emptyRegistry 0) [demoBatch] = Inr (summary, reg)
     \<and> getPlugin reg (js ''crm'') = Some p \<and> rp_sourceRef p = js ''workspace:crm''"
proof -
  from demo_registered obtain summary reg c where reg: "registerBatches (emptyRegistry 0) [demoBatch] = Inr (summary, reg)"
    and c: "getAction reg (js ''plugin:crm:sync-all'') = Some c" "rg_pluginId c = js ''crm''"
      "rg_sourceRef c = js ''workspace:crm''"
    by (cases "registerBatches (emptyRegistry 0) [demoBatch]") auto
  have start: "reachable (\<lambda>reg. reg = emptyRegistry 0) registry_step reg"
    by (rule registerBatches_reachable [OF reachable_init reg]) simp
  from registry_well_formed [OF start] have "lookupTyped reg {ActionAlias, BundledAction} (getAction reg)"
    by blast
  with c(1) obtain p where "getPlugin reg (rg_pluginId c) = Some p" "rg_sourceRef c = rp_sourceRef p"
    unfolding lookupTyped_def by blast
  with reg c(2, 3) show ?thesis by (intro exI conjI) simp_all
qed

text \<open>C22: a registration enters whole batches or nothing. It succeeds exactly when every
  identifier is valid and none collides with an entry or with another one of the batches; then it
  appends all their plugins and contributions and raises the revision by one. Otherwise it throws,
  with findings.\<close>

theorem registration_atomic:
  assumes "reachable (\<lambda>reg. reg = emptyRegistry inst) registry_step reg"
  shows "case registerBatches reg batches of
      Inl e \<Rightarrow> \<not> registrable reg (normalizeBatches batches) \<and> pe_findings e \<noteq> []
    | Inr (summary, reg') \<Rightarrow>
        registrable reg (normalizeBatches batches)
        \<and> rs_plugins reg' = rs_plugins reg @ map (\<lambda>b. (rp_id (nb_plugin b), nb_plugin b)) (normalizeBatches batches)
        \<and> rs_actions reg' = rs_actions reg
            @ map (\<lambda>c. (rg_id c, c)) (concat (map nb_actions (normalizeBatches batches)))
        \<and> rs_workflows reg' = rs_workflows reg
            @ map (\<lambda>c. (rg_id c, c)) (concat (map nb_workflows (normalizeBatches batches)))
        \<and> rs_prmsBlockers reg' = rs_prmsBlockers reg
            @ map (\<lambda>c. (rg_id c, c)) (concat (map nb_prmsBlockers (normalizeBatches batches)))
        \<and> rs_revision reg' = rs_revision reg + 1 \<and> cs_revision summary = rs_revision reg'
        \<and> cs_pluginIds summary = sort (map (rp_id \<circ> nb_plugin) (normalizeBatches batches))"
proof -
  from registry.reachable_inv [OF assms] have "preparedOk reg" by blast
  then show ?thesis by (cases rule: registerBatches_cases [where batches = batches]) simp_all
qed

theorem registration_atomic_witness:
  "\<exists>e. registerBatches (emptyRegistry 0) [demoBatch, demoBatch] = Inl e \<and> pe_findings e \<noteq> []"
proof -
  have "case registerBatches (emptyRegistry 0) [demoBatch, demoBatch] of Inl e \<Rightarrow> True | Inr r \<Rightarrow> False"
    by code_simp
  with registration_atomic [OF reachable_init, of "emptyRegistry 0" 0 "[demoBatch, demoBatch]"]
  show ?thesis by (auto split: sum.splits)
qed

end
