(* ===== verification/HostDemo.thy ===== *)
theory HostDemo
  imports PluginHostInvariant PluginProperties
begin

text \<open>
  A host with one workspace plugin, its activation and the planning of its action: the runs that show
  that the hypotheses of the properties of the host can hold.
\<close>

section \<open>The plugin and its host\<close>

definition demoTarget :: HostActionTargetFacts where
  "demoTarget =
     \<lparr>ht_id = js ''workspace.list'', ht_exists = True, ht_declarativeAliasAllowed = True, ht_sideEffects = False,
      ht_risk = RiskNone, ht_confirmationRequired = False, ht_exposesSecrets = False,
      ht_exposesCredentials = False, ht_exposesPaths = False, ht_inputSchema = [],
      ht_requiredCapability = js ''workspace.read''\<rparr>"

definition demoAlias :: DeclarativeActionAlias where
  "demoAlias = \<lparr>da_id = js ''list-all'', da_inputs = None, da_inputMapping = None\<rparr>"

definition demoAction :: "HostRegisteredAction Registered" where
  "demoAction =
     \<lparr>rg_id = js ''plugin:crm:list-all'', rg_pluginId = js ''crm'', rg_localId = js ''list-all'', rg_kind = ActionAlias,
      rg_sourceRef = js ''workspace:crm'', rg_value = ResolvedAlias True demoAlias demoTarget\<rparr>"

definition demoRegistry :: "(unit, HostRegisteredAction, nat, nat) PluginRegistrySet" where
  "demoRegistry = (emptyRegistry 0)
     \<lparr>rs_plugins := [(js ''crm'', \<lparr>rp_id = js ''crm'', rp_version = js ''1.0.0'', rp_providerKind = WorkspaceProvider,
        rp_sourceRef = js ''workspace:crm'', rp_value = ()\<rparr>)],
      rs_actions := [(rg_id demoAction, demoAction)], rs_revision := 1\<rparr>"

definition demoHash :: jstring where
  "demoHash = replicate 64 97"

definition demoPlugin :: HostPluginRecord where
  "demoPlugin =
     \<lparr>hr_id = js ''crm'', hr_version = js ''1.0.0'', hr_providerKind = WorkspaceProvider,
      hr_sourceRef = js ''workspace:crm'', hr_gateMode = Enforce, hr_gateId = js ''plugins.crm'',
      hr_requested = [js ''workspace.read''], hr_kind = DeclarativeRecord demoHash demoHash [],
      hr_lifecycle = (lifecycleController (js ''crm'') (js ''t0''))\<lparr>ls_state := Registering\<rparr>,
      hr_effective = None, hr_evidence = None\<rparr>"

definition demoSystem :: "(nat, nat) HostSystem" where
  "demoSystem =
     \<lparr>hs_host = \<lparr>ph_sealed = True, ph_compositionId = js ''host'',
        ph_targets = [(js ''workspace.list'', demoTarget)], ph_registry = demoRegistry,
        ph_records = [js ''crm'' \<mapsto> demoPlugin], ph_lifecycleOps = {}, ph_executionOps = Map.empty, ph_audit = []\<rparr>,
      hs_tasks = [], hs_results = []\<rparr>"

definition dataFields :: "(jstring \<times> unknown) list \<Rightarrow> unknown" where
  "dataFields kvs = UObject True (map (\<lambda>(k, v). (StringKey k, True, Some v)) kvs)"

definition demoEvidence :: unknown where
  "demoEvidence = dataFields
     [(js ''schema'', UText (js ''openslack.plugin_activation_evidence.v1'')),
      (js ''plugin'', dataFields [(js ''id'', UText (js ''crm'')), (js ''version'', UText (js ''1.0.0''))]),
      (js ''observedAt'', UText (js ''2026-01-01'')),
      (js ''actor'', dataFields [(js ''id'', UText (js ''ana'')), (js ''kind'', UText (js ''human'')),
         (js ''provider'', UText (js ''github''))]),
      (js ''humanApproval'', dataFields [(js ''required'', UBool False), (js ''satisfied'', UBool False),
         (js ''evidenceRefs'', UArray [])]),
      (js ''providerKind'', UText (js ''workspace'')),
      (js ''source'', dataFields [(js ''kind'', UText (js ''locked_manifest'')),
         (js ''sourceRef'', UText (js ''workspace:crm'')), (js ''manifestSha256'', UText demoHash),
         (js ''lockManifestSha256'', UText demoHash), (js ''integrityMatched'', UBool True)])]"

definition demoAllowed :: "string \<Rightarrow> (jstring \<times> unknown) list \<Rightarrow> unknown" where
  "demoAllowed code bounds = dataFields
     ([(js ''outcome'', UText (js ''allow'')), (js ''code'', UText (js code)), (js ''reason'', UText (js ''reviewed'')),
       (js ''evidenceRefs'', UArray [])] @ bounds)"

definition demoHoles :: unknown where
  "demoHoles = dataFields
     [(js ''outcome'', UText (js ''allow'')), (js ''code'', UText (js ''OK'')), (js ''reason'', UText (js ''reviewed'')),
      (js ''evidenceRefs'', UArray [None])]"

definition demoBounds :: "(jstring \<times> unknown) list" where
  "demoBounds =
     [(js ''hostAllowedCapabilities'', UArray [Some (UText (js ''workspace.read''))]),
      (js ''actorAllowedCapabilities'', UArray [Some (UText (js ''workspace.read''))])]"

definition demoAccepted :: ActivationEvidence where
  "demoAccepted =
     \<lparr>ae_pluginId = js ''crm'', ae_version = js ''1.0.0'', ae_observedAt = js ''2026-01-01'', ae_actorId = js ''ana'',
      ae_actorKind = js ''human'', ae_actorProvider = js ''github'', ae_required = False, ae_satisfied = False,
      ae_evidenceRefs = [],
      ae_source = LockedManifest WorkspaceProvider (js ''workspace:crm'') demoHash demoHash\<rparr>"

definition demoDecision :: ActivationDecision where
  "demoDecision =
     \<lparr>pd_outcome = PolicyAllow, pd_code = js ''PLUGIN_ACTIVATION_ALLOWED'', pd_reason = js ''reviewed'',
      pd_evidenceRefs = [], pd_hostAllowed = [Some (js ''workspace.read'')],
      pd_actorAllowed = [Some (js ''workspace.read'')]\<rparr>"

text \<open>Answers to the oldest call, one after the other.\<close>

fun answered :: "('w, 'b) HostSystem \<Rightarrow> HostReply list \<Rightarrow> ('w, 'b) HostSystem option" where
  "answered s [] = Some s"
| "answered s (reply # replies) =
     (case hs_tasks s of
        [] \<Rightarrow> None
      | t # ts \<Rightarrow>
          (case resumeTask t reply (js ''t1'') (js ''t1'') (hs_host s) of
             None \<Rightarrow> None
           | Some hp \<Rightarrow> answered (settle s [] ts hp) replies))"

lemma answered_reachable:
  "answered s replies = Some s' \<Longrightarrow> reachable sealedStart (host_step isDate) s \<Longrightarrow>
   reachable sealedStart (host_step isDate) s'"
proof (induction s replies rule: answered.induct)
  case (2 s reply replies)
  from 2(2) obtain t ts hp where t: "hs_tasks s = [] @ t # ts"
    "resumeTask t reply (js ''t1'') (js ''t1'') (hs_host s) = Some hp"
    and go: "answered (settle s [] ts hp) replies = Some s'"
    by (auto split: list.splits option.splits)
  from go reachable_step [OF 2(3) resume [OF t]] t 2(1) show ?case by auto
qed simp

definition demoActive :: "(nat, nat) HostSystem option" where
  "demoActive =
     answered
       (settle demoSystem [] [] (map_prod id (mapProgress Activation)
          (activate (\<lambda>t. True) (hs_host demoSystem) (js ''crm'') demoEvidence (js ''t1''))))
       [SinkOk, PolicyReturns (demoAllowed ''PLUGIN_ACTIVATION_ALLOWED'' demoBounds), SinkOk]"

definition demoPlanning :: "(nat, nat) HostSystem \<Rightarrow> (nat, nat) HostSystem option" where
  "demoPlanning s =
     answered
       (settle s [] [] (map_prod id (mapProgress Planning)
          (planAction (hs_host s) (js ''plugin:crm:list-all'') (UObject True []) (js ''t1''))))
       [SinkOk, PolicyReturns (demoAllowed ''OK'' []), PolicyReturns (demoAllowed ''OK'' [])]"

definition demoSparse :: "(nat, nat) HostSystem \<Rightarrow> (nat, nat) HostSystem option" where
  "demoSparse s =
     answered
       (settle s [] [] (map_prod id (mapProgress Planning)
          (planAction (hs_host s) (js ''plugin:crm:list-all'') (UObject True []) (js ''t1''))))
       [SinkOk, PolicyReturns (demoAllowed ''OK'' []), PolicyReturns demoHoles]"

text \<open>The runs of the witnesses, evaluated.\<close>

lemma demo_ids: "validPluginId (js ''crm'')" "validLocalId (js ''list-all'')"
  by code_simp+

lemma demo_canonical: "canonicalPluginContributionId (js ''crm'') (js ''list-all'') = js ''plugin:crm:list-all''"
  by (simp add: canonicalPluginContributionId_def js_def)

lemma demoRegistry_ok: "mapsOk demoRegistry"
  by (simp add: mapsOk_def pluginsOk_def contributionsOk_def demoRegistry_def emptyRegistry_def demoAction_def demo_ids
      demo_canonical)

lemma demoRegistry_lookups:
  "getPlugin demoRegistry (js ''crm'') = Some \<lparr>rp_id = js ''crm'', rp_version = js ''1.0.0'',
     rp_providerKind = WorkspaceProvider, rp_sourceRef = js ''workspace:crm'', rp_value = ()\<rparr>"
  "getAction demoRegistry i = (if i = js ''plugin:crm:list-all'' then Some demoAction else None)"
  by (simp_all add: getPlugin_def getAction_def demoRegistry_def demoAction_def)

lemma demoSystem_start: "reachable sealedStart (host_step isDate) demoSystem"
proof (rule reachable_init)
  show "sealedStart demoSystem"
    using demoRegistry_ok
    by (auto simp: sealedStart_def hostStart_def demoSystem_def hostRecord_def catalogOk_def demoPlugin_def
        lifecycleController_def demoTarget_def demoAlias_def demoRegistry_lookups demoAction_def preparedAction_def
        fitsAlways_def readOnlyTarget_def orNone_def split: option.splits if_splits)
qed

lemma demoActive_reachable:
  assumes "demoActive = Some s"
  shows "reachable sealedStart (host_step (\<lambda>t. True)) s"
proof -
  let ?call = "settle demoSystem [] [] (map_prod id (mapProgress Activation)
    (activate (\<lambda>t. True) (hs_host demoSystem) (js ''crm'') demoEvidence (js ''t1'')))"
  have "hs_tasks demoSystem = []" by (simp add: demoSystem_def)
  with reachable_step [OF demoSystem_start call_activate, of "\<lambda>t. True" "js ''crm''" demoEvidence "js ''t1''"]
  have "reachable sealedStart (host_step (\<lambda>t. True)) ?call" by simp
  with assms [unfolded demoActive_def] show ?thesis by (rule answered_reachable)
qed

lemma demoPlanning_reachable:
  assumes "demoActive = Some s0" and "hs_tasks s0 = []" and "demoPlanning s0 = Some s"
  shows "reachable sealedStart (host_step (\<lambda>t. True)) s"
proof -
  let ?call = "settle s0 [] [] (map_prod id (mapProgress Planning)
    (planAction (hs_host s0) (js ''plugin:crm:list-all'') (UObject True []) (js ''t1'')))"
  from reachable_step [OF demoActive_reachable [OF assms(1)] call_plan,
      of "js ''plugin:crm:list-all''" "UObject True []" "js ''t1''"] assms(2)
  have "reachable sealedStart (host_step (\<lambda>t. True)) ?call" by simp
  with assms(3) [unfolded demoPlanning_def] show ?thesis by (rule answered_reachable)
qed

text \<open>The runs, evaluated: the evidence, the decisions, the events, then the segments.\<close>

lemmas demo_data = demoEvidence_def demoAllowed_def demoBounds_def dataFields_def demoHash_def

lemma demo_evidence:
  "normalizeActivationEvidence (\<lambda>t. True) demoEvidence (evidenceExpectation (js ''host'') demoPlugin) = Inr demoAccepted"
  by (simp add: normalizeActivationEvidence_def demo_data demoPlugin_def demoAccepted_def dataObject_def
      boundedString_def safeText_def unsafeChar_def isLiteral_def require_def providerKinds_def
      evidenceExpectation_def actorKindOf_def approvalFlag_def isBool_def stringArray_def evidenceSource_def
      isHash_def is_digit_def actorKinds_def js_def subPath_def Let_def)

lemma demo_policy:
  "normalizeActivationDecision (demoAllowed ''PLUGIN_ACTIVATION_ALLOWED'' demoBounds) = Inr demoDecision"
  "normalizeHostPolicyDecision (demoAllowed ''OK'' [])
     = Inr \<lparr>pd_outcome = PolicyAllow, pd_code = js ''OK'', pd_reason = js ''reviewed'', pd_evidenceRefs = []\<rparr>"
  by (simp_all add: normalizeActivationDecision_def normalizeHostPolicyDecision_def demo_data demoDecision_def
      dataObject_def boundedString_def safeText_def unsafeChar_def isLiteral_def require_def outcomeOf_def
      decisionFields_def stringArray_def capabilityArray_def checkCapability_def policyCapabilities_def js_def Let_def)

lemma demo_sparse_policy:
  "normalizeHostPolicyDecision demoHoles
     = Inr \<lparr>pd_outcome = PolicyAllow, pd_code = js ''OK'', pd_reason = js ''reviewed'', pd_evidenceRefs = [None]\<rparr>"
  by (simp add: normalizeHostPolicyDecision_def demoHoles_def demo_data dataObject_def boundedString_def safeText_def
      unsafeChar_def isLiteral_def require_def outcomeOf_def decisionFields_def stringArray_def js_def Let_def)

text \<open>An event whose texts are bounded and free of control characters is built, redacted or not.\<close>

definition plainText :: "nat \<Rightarrow> jstring \<Rightarrow> bool" where
  "plainText limit s \<longleftrightarrow> s \<noteq> [] \<and> length s \<le> limit \<and> (\<forall>c \<in> set s. \<not> (c \<le> 0x1F \<or> c = 0x7F))"

lemma boundedText_plain: "plainText limit s \<Longrightarrow> \<exists>t. boundedText s limit what = Inr t"
  by (auto simp: plainText_def boundedText_def)

lemma normalizedFactList_plain:
  assumes "\<forall>(k, v) \<in> set facts. k \<in> set auditFactKeys
      \<and> (case v of AuditText s \<Rightarrow> plainText 256 s | AuditNumber n \<Rightarrow> n \<noteq> NotFinite | _ \<Rightarrow> True)"
    and "distinct (map fst facts)" and "fst ` set facts \<inter> set seen = {}"
  shows "\<exists>ts. normalizedFactList seen facts = Inr ts"
  using assms
proof (induction seen facts rule: normalizedFactList.induct)
  case (2 seen k v facts)
  then have here: "k \<in> set auditFactKeys" "k \<notin> set seen"
    and v: "case v of AuditText s \<Rightarrow> plainText 256 s | AuditNumber n \<Rightarrow> n \<noteq> NotFinite | _ \<Rightarrow> True" by auto
  obtain t where "normalizedFact k v = Inr t"
  proof (cases v)
    case (AuditText s)
    with v boundedText_plain [of 256 s "js ''Audit fact '' @ k"] that show ?thesis
      by (auto simp: normalizedFact_def)
  next
    case (AuditNumber n)
    with v that show ?thesis by (cases n) (auto simp: normalizedFact_def)
  qed (use that in \<open>auto simp: normalizedFact_def\<close>)
  moreover have "\<exists>ts. normalizedFactList (k # seen) facts = Inr ts"
    using here 2(2-4) by (intro 2(1)) auto
  ultimately show ?case using here by auto
qed simp

lemma event_plain:
  assumes "plainText 64 (hr_id r)" and "plainText 128 (hr_version r)" and "plainText 64 now"
    and "\<exists>ts. normalizedFactList [] facts = Inr ts" and "length facts \<le> 16"
  shows "\<exists>event. buildPluginAuditEvent (auditInput type r [] facts) now = Inr event"
proof -
  obtain i v t ts where "boundedText (hr_id r) 64 (js ''Audit plugin ID'') = Inr i"
    "boundedText (hr_version r) 128 (js ''Audit plugin version'') = Inr v"
    "boundedText now 64 (js ''Audit occurrence time'') = Inr t" "normalizedFactList [] facts = Inr ts"
    using assms(4) boundedText_plain [OF assms(1)] boundedText_plain [OF assms(2)] boundedText_plain [OF assms(3)]
    by metis
  with assms(5) show ?thesis
    by (simp add: buildPluginAuditEvent_def auditInput_def normalizedEvidenceRefs_def normalizedFacts_def hosted_def)
qed

lemma event_sparse:
  assumes "plainText 64 (hr_id r)" and "plainText 128 (hr_version r)" and "plainText 64 now"
    and "\<exists>ts. normalizedFactList [] facts = Inr ts" and "length facts \<le> 16"
  shows "buildPluginAuditEvent (auditInput type r [ReferenceUndefined] facts) now = Inl JsTypeError"
proof -
  obtain i v t ts where "boundedText (hr_id r) 64 (js ''Audit plugin ID'') = Inr i"
    "boundedText (hr_version r) 128 (js ''Audit plugin version'') = Inr v"
    "boundedText now 64 (js ''Audit occurrence time'') = Inr t" "normalizedFactList [] facts = Inr ts"
    using assms(4) boundedText_plain [OF assms(1)] boundedText_plain [OF assms(2)] boundedText_plain [OF assms(3)]
    by metis
  with assms(5) show ?thesis
    by (simp add: buildPluginAuditEvent_def auditInput_def normalizedEvidenceRefs_def normalizedFacts_def hosted_def)
qed

definition demoNamed :: "HostPluginRecord \<Rightarrow> bool" where
  "demoNamed r \<longleftrightarrow> hr_id r = js ''crm'' \<and> hr_version r = js ''1.0.0''"

lemma demo_event:
  assumes "demoNamed r"
  shows "\<exists>event. buildPluginAuditEvent (auditInput type r []
      [(js ''gateId'', AuditText (js ''plugins.crm'')), (js ''sourceKind'', AuditText (js ''workspace''))]) (js ''t1'') = Inr event"
    and "\<exists>event. buildPluginAuditEvent (auditInput type r []
      [(js ''decisionCode'', AuditText (js ''PLUGIN_ACTIVATION_ALLOWED'')),
       (js ''capabilityCount'', AuditNumber (Finite 1))]) (js ''t1'') = Inr event"
    and "\<exists>event. buildPluginAuditEvent (auditInput type r []
      [(js ''contributionId'', AuditText (js ''plugin:crm:list-all''))]) (js ''t1'') = Inr event"
    and "\<exists>event. buildPluginAuditEvent (auditInput type r []
      [(js ''contributionId'', AuditText (js ''plugin:crm:list-all'')), (js ''targetId'', AuditText (js ''workspace.list'')),
       (js ''outcome'', AuditText (js ''planned''))]) (js ''t1'') = Inr event"
    and "buildPluginAuditEvent (auditInput type r [ReferenceUndefined]
      [(js ''contributionId'', AuditText (js ''plugin:crm:list-all'')), (js ''targetId'', AuditText (js ''workspace.list'')),
       (js ''outcome'', AuditText (js ''planned''))]) (js ''t1'') = Inl JsTypeError"
  by ((rule event_plain | rule event_sparse); (rule normalizedFactList_plain)?;
      use assms in \<open>simp add: demoNamed_def plainText_def auditFactKeys_def js_def\<close>)+

lemma demo_activation:
  "\<exists>s r. demoActive = Some s \<and> hs_tasks s = [] \<and> ph_registry (hs_host s) = demoRegistry
     \<and> ph_sealed (hs_host s) \<and> ph_targets (hs_host s) = [(js ''workspace.list'', demoTarget)]
     \<and> ph_lifecycleOps (hs_host s) = {} \<and> ph_executionOps (hs_host s) = Map.empty
     \<and> ph_records (hs_host s) (js ''crm'') = Some r \<and> ls_state (hr_lifecycle r) = Activated
     \<and> hr_evidence r = Some demoAccepted \<and> hr_effective r = Some [js ''workspace.read'']
     \<and> demoNamed r \<and> hr_gateMode r = Enforce"
proof -
  have named: "hr_id demoPlugin = js ''crm''" "hr_version demoPlugin = js ''1.0.0''"
    by (simp_all add: demoPlugin_def)
  then have "demoNamed demoPlugin" by (simp add: demoNamed_def)
  note event = demo_event [OF this]
  obtain e1 where e1: "buildPluginAuditEvent (auditInput ActivationRequested demoPlugin []
      [(js ''gateId'', AuditText (js ''plugins.crm'')), (js ''sourceKind'', AuditText (js ''workspace''))]) (js ''t1'') = Inr e1"
    using event(1) by blast
  obtain e2 where e2: "buildPluginAuditEvent (auditInput ActivationAllowed demoPlugin []
      [(js ''decisionCode'', AuditText (js ''PLUGIN_ACTIVATION_ALLOWED'')),
       (js ''capabilityCount'', AuditNumber (Finite 1))]) (js ''t1'') = Inr e2"
    using event(2) by blast
  have plugin: "hr_lifecycle demoPlugin = (lifecycleController (js ''crm'') (js ''t0''))\<lparr>ls_state := Registering\<rparr>"
    "hr_gateId demoPlugin = js ''plugins.crm''" "providerText (hr_providerKind demoPlugin) = js ''workspace''"
    "hr_kind demoPlugin = DeclarativeRecord demoHash demoHash []" "hr_gateMode demoPlugin = Enforce"
    by (simp_all add: demoPlugin_def)
  have evidence: "demoEvidence \<noteq> UUndefined" "demoEvidence \<noteq> UNull" by (simp_all add: demoEvidence_def dataFields_def)
  have caps: "assertEffectiveCapabilities (effectiveRequest demoPlugin demoDecision) = Inr [js ''workspace.read'']"
    by code_simp
  have decision: "pd_outcome demoDecision = PolicyAllow" "pd_evidenceRefs demoDecision = []"
    "pd_code demoDecision = js ''PLUGIN_ACTIVATION_ALLOWED''" by (simp_all add: demoDecision_def)
  have contributions: "contributionCapabilitiesError demoPlugin [js ''workspace.read''] = None"
    by (simp add: contributionCapabilitiesError_def plugin validateContributionCapabilities_def sortFindings_def)
  show ?thesis
    by (simp add: demoActive_def activate_def demoSystem_def assertExecutionReady_def findRecord_def hostRecord_def
     demoRegistry_lookups beginLifecycleOperation_def executionCount_def Let_def plugin evidence demo_evidence reviewMatches_def
     activationAudit_def e1 e2 demo_policy demoAccepted_def lifecycleController_def mapProgress_def settle_def
     resumeActivation_def activationSunk_def activationDecided_def caps contributions decision recordEvent_def demoNamed_def named
     hasActivateHook_def completeActivation_def lifecycleTransition_def putRecord_def endActivation_def endLifecycleOperation_def)
qed

lemma demo_planning:
  assumes "demoActive = Some s0"
  shows "\<exists>s t h' a target step. demoPlanning s0 = Some s \<and> hs_tasks s = [Planning t]
    \<and> resumeTask (Planning t) SinkOk (js ''t1'') (js ''t1'') (hs_host s)
        = Some (h', Finished (Inr (PlanPlanned a target step)))"
proof -
  from demo_activation [unfolded assms] obtain r where host: "hs_tasks s0 = []" "ph_registry (hs_host s0) = demoRegistry"
    "ph_sealed (hs_host s0)" "ph_targets (hs_host s0) = [(js ''workspace.list'', demoTarget)]"
    "ph_lifecycleOps (hs_host s0) = {}" "ph_executionOps (hs_host s0) = Map.empty"
    and r: "ph_records (hs_host s0) (js ''crm'') = Some r" "ls_state (hr_lifecycle r) = Activated"
    "hr_evidence r = Some demoAccepted" "hr_effective r = Some [js ''workspace.read'']" "demoNamed r"
    "hr_gateMode r = Enforce" by auto
  note event = demo_event [OF r(5)]
  obtain e1 where e1: "buildPluginAuditEvent (auditInput ActionRequested r []
      [(js ''contributionId'', AuditText (js ''plugin:crm:list-all''))]) (js ''t1'') = Inr e1"
    using event(3) by blast
  obtain e2 where e2: "buildPluginAuditEvent (auditInput ActionAllowed r []
      [(js ''contributionId'', AuditText (js ''plugin:crm:list-all'')), (js ''targetId'', AuditText (js ''workspace.list'')),
       (js ''outcome'', AuditText (js ''planned''))]) (js ''t1'') = Inr e2"
    using event(4) by blast
  have refs: "evidenceReferences (Some demoAccepted) = []" by (simp add: evidenceReferences_def demoAccepted_def)
  have mapped: "mapDeclarativeInput demoAlias (UObject True []) = Inr []" by code_simp
  have target: "ht_id demoTarget = js ''workspace.list''" "ht_requiredCapability demoTarget = js ''workspace.read''"
    by (simp_all add: demoTarget_def)
  show ?thesis
    by (simp add: demoPlanning_def planAction_def assertExecutionReady_def findRecord_def hostRecord_def host r refs
      mapped demoRegistry_lookups beginExecutionOperation_def executionCount_def Let_def planAudit_def e1 e2
      mapProgress_def settle_def resumePlanning_def planSunk_def planRequested_def planTarget_def demoAction_def
      planAuthorized_def planValidated_def demo_policy recordEvent_def target endPlanning_def)
qed

text \<open>The same plan, its step allowed with evidence that has a hole.\<close>

lemma demo_sparse_plan:
  assumes "demoActive = Some s0"
  shows "\<exists>s. demoSparse s0 = Some s \<and> hs_tasks s = [] \<and> hd (hs_results s) = Inl JsTypeError"
proof -
  from demo_activation [unfolded assms] obtain r where host: "hs_tasks s0 = []" "ph_registry (hs_host s0) = demoRegistry"
    "ph_sealed (hs_host s0)" "ph_targets (hs_host s0) = [(js ''workspace.list'', demoTarget)]"
    "ph_lifecycleOps (hs_host s0) = {}" "ph_executionOps (hs_host s0) = Map.empty"
    and r: "ph_records (hs_host s0) (js ''crm'') = Some r" "ls_state (hr_lifecycle r) = Activated"
    "hr_evidence r = Some demoAccepted" "hr_effective r = Some [js ''workspace.read'']" "demoNamed r"
    "hr_gateMode r = Enforce" by auto
  note event = demo_event [OF r(5)]
  obtain e1 where e1: "buildPluginAuditEvent (auditInput ActionRequested r []
      [(js ''contributionId'', AuditText (js ''plugin:crm:list-all''))]) (js ''t1'') = Inr e1"
    using event(3) by blast
  have refs: "evidenceReferences (Some demoAccepted) = []" by (simp add: evidenceReferences_def demoAccepted_def)
  have mapped: "mapDeclarativeInput demoAlias (UObject True []) = Inr []" by code_simp
  have target: "ht_id demoTarget = js ''workspace.list''" "ht_requiredCapability demoTarget = js ''workspace.read''"
    by (simp_all add: demoTarget_def)
  show ?thesis
    by (simp add: demoSparse_def planAction_def assertExecutionReady_def findRecord_def hostRecord_def host r refs
      mapped demoRegistry_lookups beginExecutionOperation_def executionCount_def Let_def planAudit_def e1 event(5)
      mapProgress_def settle_def resumePlanning_def planSunk_def planRequested_def planTarget_def demoAction_def
      planAuthorized_def planValidated_def demo_policy demo_sparse_policy spreadReferences_def recordEvent_def target endPlanning_def)
qed

end
