(* ===== verification/HostProperties.thy ===== *)
theory HostProperties
  imports HostDemo
begin

text \<open>
  What the sealed plugin host guarantees in every state that its calls can reach, however they
  interleave and whatever the policy, the audit sink and the bundled code answer.
\<close>

section \<open>What the host guarantees\<close>

text \<open>C16: an activated plugin was authorized. In every state that calls of a sealed host reach,
  however they interleave, an activated plugin holds evidence that matches its record, its effective
  capabilities are those it requested, all within the ceiling of the host for its kind, and the
  audit log has the event that allowed its activation.\<close>

theorem host_activation_sound:
  assumes "reachable sealedStart (host_step isDate) s"
    and "hostRecord (hs_host s) i = Some r" and "ls_state (hr_lifecycle r) = Activated"
  shows "\<exists>effective ev event. hr_effective r = Some effective \<and> hr_evidence r = Some ev
    \<and> effective = sort (hr_requested r) \<and> set effective \<subseteq> set (hardCapabilities (\<not> isBundled r))
    \<and> evidenceMatches (evidenceExpectation (ph_compositionId (hs_host s)) r) ev
    \<and> event \<in> set (ph_audit (hs_host s)) \<and> ev_type event = ActivationAllowed
    \<and> (ev_pluginId event = i \<or> ev_pluginId event = js ''[REDACTED]'')"
proof -
  from hostOk_records [OF host.reachable_inv [OF assms(1)]] assms(2)
  have "recordOk (ph_compositionId (hs_host s)) (ph_audit (hs_host s)) r" "hr_id r = i"
    by (simp_all add: recordsOk_def)
  with assms(3) show ?thesis
    unfolding recordOk_def capabilitiesGranted_def allowedAudited_def namesPlugin_def by blast
qed

theorem host_activation_sound_witness:
  "\<exists>s r ev. demoActive = Some s \<and> hostRecord (hs_host s) (js ''crm'') = Some r \<and> hr_evidence r = Some ev"
proof -
  from demo_activation obtain s r where s: "demoActive = Some s" "hostRecord (hs_host s) (js ''crm'') = Some r"
    "ls_state (hr_lifecycle r) = Activated" by (auto simp: hostRecord_def demoRegistry_lookups)
  from host_activation_sound [OF demoActive_reachable [OF s(1)] s(2, 3)] s(1, 2) show ?thesis by blast
qed

lemma callOk_no_type: "callOk life h (map_prod id (mapProgress f) x) \<Longrightarrow> snd x \<noteq> Finished (Inl JsTypeError)"
  by (cases x) (auto simp: callOk_def segmentOkIf_def mapProgress_def)

lemma resumed_type:
  assumes "hostOk s" and "t \<in> set (hs_tasks s)"
    and "resumeTask t reply clock now (hs_host s) = Some (h', Finished (Inl JsTypeError))"
  shows "sparsePlan t reply"
proof (cases "\<exists>e. t = Evaluation e")
  case True
  then obtain e where t: "t = Evaluation e" by blast
  with assms(3) obtain ep where ep: "resumeEvaluation e reply (hs_host s) = Some ep"
    and "map_prod id (mapProgress Evaluation) ep = (h', Finished (Inl JsTypeError))" by auto
  with callOk_no_type [OF resumeEvaluation_ok [OF hostOk_records [OF assms(1)] ep]] show ?thesis
    by (cases ep) (auto simp: mapProgress_Finished)
next
  case False
  from assms(1, 2) have "catalogOk (hs_host s)" "taskOk (hs_host s) t" by (auto simp: hostOk_def)
  from resume_ok [OF hostOk_records [OF assms(1)] this assms(3) False] show ?thesis
    by (auto simp: segmentOkIf_def)
qed

text \<open>C21: calls exclude each other. While a plugin is being activated or deactivated no other
  call on it is in flight, be it an activation, a deactivation, a plan or the evaluation of its
  blockers; when no call is in flight no lock is left behind, whatever failed. A call ends with a
  \<open>TypeError\<close> of the language in one case only, that of a plan whose step the policy allows, with a hole
  in the evidence of its two decisions: no call begins with this error, and no other call goes on to
  it.\<close>

theorem host_calls_excluded:
  assumes "reachable sealedStart (host_step isDate) s"
  shows "(\<forall>left t right. hs_tasks s = left @ t # right \<longrightarrow> isLifecycle t \<longrightarrow>
        (\<forall>u \<in> set (left @ right). taskPlugin u \<noteq> taskPlugin t))
    \<and> (hs_tasks s = [] \<longrightarrow>
        ph_lifecycleOps (hs_host s) = {} \<and> (\<forall>p. executionCount (hs_host s) p = 0))
    \<and> (\<forall>t \<in> set (hs_tasks s). \<forall>reply clock now h'.
        resumeTask t reply clock now (hs_host s) = Some (h', Finished (Inl JsTypeError)) \<longrightarrow>
        (\<exists>k refs step target answer decision. t = Planning k \<and> pk_wait k = PlanStepPolicy refs step target
           \<and> reply = PolicyReturns answer \<and> normalizeHostPolicyDecision answer = Inr decision
           \<and> pd_outcome decision = PolicyAllow \<and> None \<in> set (refs @ pd_evidenceRefs decision)))
    \<and> (\<forall>i v clock now.
        snd (activate isDate (hs_host s) i v now) \<noteq> Finished (Inl JsTypeError)
        \<and> snd (deactivate (hs_host s) i clock now) \<noteq> Finished (Inl JsTypeError)
        \<and> snd (planAction (hs_host s) i v now) \<noteq> Finished (Inl JsTypeError)
        \<and> snd (evaluatePrmsBlockers (hs_host s) v) \<noteq> Finished (Inl JsTypeError))"
proof -
  note ok = host.reachable_inv [OF assms]
  then have locks: "locksOk (hs_host s) (map holder (hs_tasks s))" by (simp add: hostOk_def)
  have "taskPlugin u \<noteq> taskPlugin t"
    if "hs_tasks s = left @ t # right" "isLifecycle t" "u \<in> set (left @ right)" for left t right u
    using locks that locksOk_alone [of "hs_host s" left "taskPlugin t" right u] by (simp add: holder_def)
  moreover have "ph_lifecycleOps (hs_host s) = {}" "executionCount (hs_host s) p = 0" if "hs_tasks s = []" for p
    using locks that by (auto simp: locksOk_def split: if_splits)
  moreover note resumed_type [OF ok, unfolded sparsePlan_def]
  moreover note records = hostOk_records [OF ok]
  note callOk_no_type [OF activate_ok [OF records]] callOk_no_type [OF deactivate_ok [OF records]]
    callOk_no_type [OF planAction_ok [OF records]] callOk_no_type [OF evaluatePrmsBlockers_ok [OF records]]
  ultimately show ?thesis by (intro conjI) (blast | metis)+
qed

theorem host_calls_excluded_witness:
  "\<exists>s. demoActive = Some s \<and> ph_lifecycleOps (hs_host s) = {}"
proof -
  from demo_activation obtain s where s: "demoActive = Some s" "hs_tasks s = []" by auto
  from host_calls_excluded [OF demoActive_reachable [OF s(1)]] s show ?thesis by blast
qed

text \<open>C20: a planned step was authorized. When a call of \<open>planAction\<close> returns a step, its plugin
  is activated in enforcing mode and holds the capability that the fixed target of the registered
  action requires, the step names exactly this target, its input fits the schema of this target, which is
  read-only for an alias, and the event that allowed it was the last
  one written to the audit log.\<close>

theorem planned_step_sound:
  assumes "reachable sealedStart (host_step isDate) s" and "Planning t \<in> set (hs_tasks s)"
    and "resumeTask (Planning t) reply clock now (hs_host s) = Some (h', Finished (Inr (PlanPlanned a target step)))"
  shows "\<exists>r effective fixed event.
    hostRecord (hs_host s) (pk_plugin t) = Some r \<and> ls_state (hr_lifecycle r) = Activated
    \<and> hr_gateMode r = Enforce \<and> hr_effective r = Some effective
    \<and> getAction (ph_registry (hs_host s)) a = Some (pk_registered t)
    \<and> planTarget (pk_registered t) = Inr fixed \<and> ht_requiredCapability fixed \<in> set effective
    \<and> target = ht_id fixed \<and> hp_actionId step = ht_id fixed \<and> inputFits fixed (hp_input step)
    \<and> (rg_kind (pk_registered t) = ActionAlias \<longrightarrow> readOnlyTarget fixed)
    \<and> ph_audit h' = ph_audit (hs_host s) @ [event] \<and> ev_type event = ActionAllowed"
proof -
  from host.reachable_inv [OF assms(1)] assms(2) have ok: "planningOk (hs_host s) t" and catalog: "catalogOk (hs_host s)"
    by (fastforce simp: hostOk_def)+
  obtain r effective where r: "hostRecord (hs_host s) (pk_plugin t) = Some r" "ls_state (hr_lifecycle r) = Activated"
    "hr_effective r = Some effective" using ok by (rule planningOk_record)
  from assms(3) r(1) obtain event tg where "pk_wait t = PlanAllowedSink event step tg" "target = ht_id tg"
    "a = pk_action t" "h' = endExecutionOperation (pk_plugin t) (recordEvent event (hs_host s))"
    by (rule planned_only_by_sink)
  with ok r planTarget_prepared(2) [OF catalog ok] show ?thesis by (auto simp: planningOk_def stepFits_def)
qed

theorem planned_step_sound_witness:
  "\<exists>(s :: (nat, nat) HostSystem) t h' a target step. Planning t \<in> set (hs_tasks s)
     \<and> resumeTask (Planning t) SinkOk (js ''t1'') (js ''t1'') (hs_host s) = Some (h', Finished (Inr (PlanPlanned a target step)))
     \<and> hp_actionId step = target"
proof -
  from demo_activation obtain s0 where s0: "demoActive = Some s0" "hs_tasks s0 = []" by auto
  from demo_planning [OF s0(1)] obtain s t h' a target step where s: "demoPlanning s0 = Some s" "hs_tasks s = [Planning t]"
    and last: "resumeTask (Planning t) SinkOk (js ''t1'') (js ''t1'') (hs_host s)
      = Some (h', Finished (Inr (PlanPlanned a target step)))" by blast
  from planned_step_sound [OF demoPlanning_reachable [OF s0 s(1)] _ last] s(2) have "hp_actionId step = target" by auto
  moreover have "Planning t \<in> set (hs_tasks s)" by (simp add: s(2))
  ultimately show ?thesis using last by blast
qed

end
