(* ===== verification/HostVersions.thy ===== *)
theory HostVersions
  imports HostValidation "HOL-Library.Log_Nat"
begin

text \<open>
  The version ranges of plugins (\<open>packages/plugin-host/src/host-validation.ts\<close>, its last part): the
  version of the host against a list of comparators. The numbers of a version are doubles, so a
  number of more than 53 bits is rounded. The difference of two of them is taken for its sign only.
\<close>

section \<open>Numbers\<close>

text \<open>The double nearest to a natural number, ties to even.\<close>

definition nearestDouble :: "nat \<Rightarrow> nat" where
  "nearestDouble n =
     (let e = floorlog 2 n - 53;
          q = n div 2 ^ e;
          r = 2 * (n mod 2 ^ e)
      in if r > 2 ^ e \<or> r = 2 ^ e \<and> odd q then (q + 1) * 2 ^ e else q * 2 ^ e)"

record Version =
  major :: nat
  minor :: nat
  patch :: nat

definition isDigits :: "jstring \<Rightarrow> bool" where
  "isDigits s \<longleftrightarrow> s \<noteq> [] \<and> (\<forall>c \<in> set s. is_digit c)"

text \<open>\<open>Number\<close> of a text of digits, and three of them between dots.\<close>

definition numberOf :: "jstring \<Rightarrow> nat" where
  "numberOf s = nearestDouble (digits_value s)"

definition versionNumbers :: "(jstring \<Rightarrow> bool) \<Rightarrow> jstring \<Rightarrow> Version option" where
  "versionNumbers ok s =
     (case js_split 46 s of
        [a, b, c] \<Rightarrow>
          if ok a \<and> ok b \<and> ok c then
            Some \<lparr>major = numberOf a, minor = numberOf b, patch = numberOf c\<rparr>
          else None
      | _ \<Rightarrow> None)"

definition plainDigits :: "jstring \<Rightarrow> bool" where
  "plainDigits s \<longleftrightarrow> isDigits s \<and> (s = [48] \<or> hd s \<noteq> 48)"

definition parseVersion :: "jstring \<Rightarrow> Version option" where
  "parseVersion s = versionNumbers plainDigits s"

definition compareVersion :: "Version \<Rightarrow> Version \<Rightarrow> int" where
  "compareVersion l r =
     (let a = int (major l) - int (major r); b = int (minor l) - int (minor r)
      in if a \<noteq> 0 then a else if b \<noteq> 0 then b else int (patch l) - int (patch r))"

section \<open>Comparators\<close>

datatype VersionOperator = Caret | Tilde | AtLeast | AtMost | Greater | Less | Exactly

definition versionOperators :: "(jstring \<times> VersionOperator) list" where
  "versionOperators =
     [(js ''^'', Caret), (js ''~'', Tilde), (js ''>='', AtLeast), (js ''<='', AtMost), (js ''>'', Greater),
      (js ''<'', Less), (js ''='', Exactly)]"

fun splitOperator :: "(jstring \<times> VersionOperator) list \<Rightarrow> jstring \<Rightarrow> VersionOperator \<times> jstring" where
  "splitOperator [] s = (Exactly, s)"
| "splitOperator ((t, op) # ops) s =
     (if startsWith s t then (op, drop (length t) s) else splitOperator ops s)"

definition upperBound :: "VersionOperator \<Rightarrow> Version \<Rightarrow> Version" where
  "upperBound op target =
     (if op = Tilde then \<lparr>major = major target, minor = nearestDouble (minor target + 1), patch = 0\<rparr>
      else if 0 < major target then \<lparr>major = nearestDouble (major target + 1), minor = 0, patch = 0\<rparr>
      else if 0 < minor target then \<lparr>major = 0, minor = nearestDouble (minor target + 1), patch = 0\<rparr>
      else \<lparr>major = 0, minor = 0, patch = nearestDouble (patch target + 1)\<rparr>)"

definition satisfiesComparator :: "Version \<Rightarrow> jstring \<Rightarrow> bool" where
  "satisfiesComparator version comparator =
     (let (op, rest) = splitOperator versionOperators comparator
      in case versionNumbers isDigits rest of
           None \<Rightarrow> False
         | Some target \<Rightarrow>
             let c = compareVersion version target
             in (case op of
                   Exactly \<Rightarrow> c = 0
                 | Greater \<Rightarrow> 0 < c
                 | AtLeast \<Rightarrow> 0 \<le> c
                 | Less \<Rightarrow> c < 0
                 | AtMost \<Rightarrow> c \<le> 0
                 | _ \<Rightarrow> 0 \<le> c \<and> compareVersion version (upperBound op target) < 0))"

definition assertCompatibleOpenSlackVersion ::
  "jstring \<Rightarrow> jstring \<Rightarrow> HostInputValidationError + unit" where
  "assertCompatibleOpenSlackVersion hostVersion comparators =
     require
       (case parseVersion hostVersion of
          None \<Rightarrow> False
        | Some version \<Rightarrow>
            \<forall>part \<in> set (js_split 32 comparators). part \<noteq> [] \<and> satisfiesComparator version part)
       \<lparr>hv_code = PLUGIN_HOST_VERSION_INCOMPATIBLE, hv_path = js ''/requires/openslack'',
        hv_message = js ''OpenSlack '' @ hostVersion @ js '' does not satisfy '' @ comparators @ js ''.''\<rparr>"

section \<open>What a range means\<close>

text \<open>Versions and comparators as they are written.\<close>

definition versionText :: "Version \<Rightarrow> jstring" where
  "versionText v = js_join [46] [js_nat (major v), js_nat (minor v), js_nat (patch v)]"

primrec operatorText :: "VersionOperator \<Rightarrow> jstring" where
  "operatorText Caret = js ''^''"
| "operatorText Tilde = js ''~''"
| "operatorText AtLeast = js ''>=''"
| "operatorText AtMost = js ''<=''"
| "operatorText Greater = js ''>''"
| "operatorText Less = js ''<''"
| "operatorText Exactly = js ''=''"

definition comparatorText :: "VersionOperator \<times> Version \<Rightarrow> jstring" where
  "comparatorText c = operatorText (fst c) @ versionText (snd c)"

definition rangeText :: "(VersionOperator \<times> Version) list \<Rightarrow> jstring" where
  "rangeText cs = js_join [32] (map comparatorText cs)"

definition precedes :: "Version \<Rightarrow> Version \<Rightarrow> bool" where
  "precedes v w \<longleftrightarrow>
     major v < major w
     \<or> major v = major w \<and> (minor v < minor w \<or> minor v = minor w \<and> patch v < patch w)"

text \<open>What each operator admits: a caret keeps the first number that is not zero, a tilde the minor one.\<close>

definition inRange :: "Version \<Rightarrow> VersionOperator \<times> Version \<Rightarrow> bool" where
  "inRange v c \<longleftrightarrow>
     (let (op, t) = c
      in case op of
           Exactly \<Rightarrow> v = t
         | Greater \<Rightarrow> precedes t v
         | AtLeast \<Rightarrow> \<not> precedes v t
         | Less \<Rightarrow> precedes v t
         | AtMost \<Rightarrow> \<not> precedes t v
         | Tilde \<Rightarrow> major v = major t \<and> minor v = minor t \<and> patch t \<le> patch v
         | Caret \<Rightarrow>
             \<not> precedes v t
             \<and> (if 0 < major t then major v = major t
                else if 0 < minor t then major v = 0 \<and> minor v = minor t else v = t))"

text \<open>Numbers that a double holds, and so does their successor.\<close>

definition smallVersion :: "Version \<Rightarrow> bool" where
  "smallVersion v \<longleftrightarrow> major v < 2 ^ 53 - 1 \<and> minor v < 2 ^ 53 - 1 \<and> patch v < 2 ^ 53 - 1"

lemma nearestDouble_exact:
  assumes "n < 2 ^ 53"
  shows "nearestDouble n = n"
proof -
  from assms have "floorlog 2 n \<le> 53" by (simp add: floorlog_le_iff)
  then have "floorlog 2 n - 53 = 0" by simp
  then show ?thesis by (simp add: nearestDouble_def)
qed

lemma compareVersion_sign:
  "compareVersion v w = 0 \<longleftrightarrow> v = w" "compareVersion v w < 0 \<longleftrightarrow> precedes v w"
  "0 < compareVersion v w \<longleftrightarrow> precedes w v"
  "0 \<le> compareVersion v w \<longleftrightarrow> \<not> precedes v w" "compareVersion v w \<le> 0 \<longleftrightarrow> \<not> precedes w v"
  by (auto simp: compareVersion_def precedes_def Let_def)

lemma js_nat_nonempty [simp]: "js_nat n \<noteq> []"
  by (subst js_nat.simps) simp

lemma js_nat_isDigits: "isDigits (js_nat n)"
proof -
  have "48 \<le> c \<and> c \<le> 57" if "c \<in> set (js_nat n)" for c
    using js_nat_digits [OF that] by (simp add: word_le_nat_alt)
  then show ?thesis by (simp add: isDigits_def is_digit_def)
qed

lemma js_nat_plain: "plainDigits (js_nat n)"
proof (cases "n = 0")
  case False
  have digit: "of_nat k \<noteq> (0 :: jchar)" if "0 < k" "k < 10" for k
  proof -
    have "unat (of_nat k :: jchar) = k" using that by (simp add: unat_of_nat)
    with that show ?thesis by auto
  qed
  from False have "hd (js_nat n) \<noteq> 48"
  proof (induction n rule: js_nat.induct)
    case (1 n)
    then show ?case by (subst js_nat.simps) (auto simp: digit)
  qed
  with js_nat_isDigits show ?thesis by (simp add: plainDigits_def)
qed (simp add: plainDigits_def isDigits_def js_nat.simps is_digit_def)

lemma js_nat_numberOf: "n < 2 ^ 53 \<Longrightarrow> numberOf (js_nat n) = n"
  by (simp add: numberOf_def js_nat_value nearestDouble_exact)

lemma js_nat_chars: "c \<in> set (js_nat n) \<Longrightarrow> c \<noteq> 46 \<and> c \<noteq> 32"
  using js_nat_digits by fastforce

lemma versionNumbers_text:
  assumes "smallVersion v" and "\<And>n. ok (js_nat n)"
  shows "versionNumbers ok (versionText v) = Some v"
proof -
  have "js_split 46 (versionText v) = [js_nat (major v), js_nat (minor v), js_nat (patch v)]"
    unfolding versionText_def using js_nat_chars by (intro js_split_join) auto
  with assms show ?thesis by (simp add: versionNumbers_def smallVersion_def js_nat_numberOf)
qed

lemma versionText_start: "\<exists>c cs. versionText v = c # cs \<and> is_digit c"
  using js_nat_isDigits [of "major v"]
  by (cases "js_nat (major v)") (auto simp: versionText_def isDigits_def)

lemma splitOperator_text: "splitOperator versionOperators (operatorText op @ versionText v) = (op, versionText v)"
proof -
  obtain c cs where "versionText v = c # cs" "is_digit c" using versionText_start by blast
  then show ?thesis
    by (cases op) (auto simp: versionOperators_def startsWith_def js_def is_digit_def)
qed

lemma satisfiesComparator_text:
  assumes "smallVersion t"
  shows "satisfiesComparator v (comparatorText (op, t)) \<longleftrightarrow> inRange v (op, t)"
proof -
  have "nearestDouble (Suc n) = Suc n" if "n < 2 ^ 53 - 1" for n using that by (intro nearestDouble_exact) simp
  with assms have "compareVersion v (upperBound Tilde t) < 0 \<and> 0 \<le> compareVersion v t \<longleftrightarrow> inRange v (Tilde, t)"
    "compareVersion v (upperBound Caret t) < 0 \<and> 0 \<le> compareVersion v t \<longleftrightarrow> inRange v (Caret, t)"
    by (auto simp: compareVersion_sign inRange_def upperBound_def smallVersion_def precedes_def)
  moreover have "satisfiesComparator v (comparatorText (op, t)) \<longleftrightarrow>
      (let c = compareVersion v t
       in (case op of
             Exactly \<Rightarrow> c = 0 | Greater \<Rightarrow> 0 < c | AtLeast \<Rightarrow> 0 \<le> c | Less \<Rightarrow> c < 0 | AtMost \<Rightarrow> c \<le> 0
           | _ \<Rightarrow> 0 \<le> c \<and> compareVersion v (upperBound op t) < 0))"
    by (simp add: satisfiesComparator_def comparatorText_def splitOperator_text
        versionNumbers_text [OF assms, of isDigits] js_nat_isDigits)
  ultimately show ?thesis by (cases op) (auto simp: compareVersion_sign inRange_def)
qed

lemma versionText_chars: "c \<in> set (versionText v) \<Longrightarrow> c \<noteq> 32"
  using js_nat_chars by (fastforce simp: versionText_def)

lemma rangeText_split:
  assumes "cs \<noteq> []"
  shows "js_split 32 (rangeText cs) = map comparatorText cs"
proof -
  have "32 \<notin> set (comparatorText c)" for c
    using versionText_chars by (cases "fst c") (auto simp: comparatorText_def js_def)
  with assms show ?thesis unfolding rangeText_def by (intro js_split_join) auto
qed

end
