(* ===== verification/HostSetup.thy ===== *)
theory HostSetup
  imports BundledPolicy HostVersions PluginHostInvariant
begin

text \<open>
  How a plugin host comes to be (\<open>packages/plugin-host/src/host.ts\<close>): its binding, the bundled plugins
  its constructor registers, the manifests it loads, and the seal. Reading the lock and a manifest
  from disk is a service, an argument here; the clock of a registration numbers its readings. What a
  registration refuses with is an error of the host, of the evidence, of the definition, or of the
  language.
\<close>

section \<open>The binding\<close>

definition hostTextInvalid :: "string \<Rightarrow> PluginHostError" where
  "hostTextInvalid field = bindingInvalid (js field @ js '' is outside the closed host grammar.'') None"

definition safeHostString :: "unknown \<Rightarrow> string \<Rightarrow> nat \<Rightarrow> rx \<Rightarrow> PluginHostError + jstring" where
  "safeHostString v field limit pattern =
     (case v of
        UText s \<Rightarrow>
          if s = [] \<or> limit < codePoints s \<or> \<not> safeText s \<or> \<not> rx_test pattern s then Inl (hostTextInvalid field)
          else Inr s
      | _ \<Rightarrow> Inl (hostTextInvalid field))"

definition exactHostDataRecord ::
  "unknown \<Rightarrow> jstring list \<Rightarrow> string \<Rightarrow> PluginHostError + (jstring \<times> unknown) list" where
  "exactHostDataRecord v expected summary =
     (let e = bindingInvalid (js summary) None
      in case v of
           UObject plain props \<Rightarrow>
             if \<not> plain then Inl e
             else
               check_bind (readProperties (\<lambda>k. k \<in> set expected) e (\<lambda>_. e) props) (\<lambda>own.
               check_bind (require (length own = length expected \<and> (\<forall>k \<in> set expected. map_of own k \<noteq> None)) e) (\<lambda>_.
               Inr own))
         | _ \<Rightarrow> Inl e)"

definition exactHostDataArray :: "unknown \<Rightarrow> nat \<Rightarrow> PluginHostError \<Rightarrow> PluginHostError + unknown list" where
  "exactHostDataArray v limit e =
     (case v of
        UArray items \<Rightarrow> if limit < length items \<or> None \<in> set items then Inl e else Inr (map the items)
      | _ \<Rightarrow> Inl e)"

record NormalizedPluginHostBinding =
  hb_compositionId :: jstring
  hb_openslackVersion :: jstring
  hb_gateIds :: "jstring list"
  hb_targets :: HostTargetCatalog

fun enterGateIds :: "jstring list \<Rightarrow> unknown list \<Rightarrow> PluginHostError + jstring list" where
  "enterGateIds entered [] = Inr entered"
| "enterGateIds entered (v # vs) =
     check_bind (safeHostString v ''gateId'' 128 hostIdPattern) (\<lambda>gateId.
     if gateId \<in> set entered then
       Inl (bindingInvalid (js ''Host gate '' @ gateId @ js '' is duplicated.'') None)
     else enterGateIds (entered @ [gateId]) vs)"

definition normalizeBinding :: "unknown \<Rightarrow> PluginHostError + NormalizedPluginHostBinding" where
  "normalizeBinding v =
     check_bind (exactHostDataRecord v
         [js ''compositionId'', js ''openslackVersion'', js ''gateIds'', js ''targets'']
         ''Host binding must use the exact plain-data schema.'') (\<lambda>binding.
     check_bind (safeHostString (propertyOf binding (js ''compositionId'')) ''compositionId'' 128 hostIdPattern)
       (\<lambda>compositionId.
     check_bind (safeHostString (propertyOf binding (js ''openslackVersion'')) ''openslackVersion'' 32 versionPattern)
       (\<lambda>openslackVersion.
     check_bind (exactHostDataArray (propertyOf binding (js ''gateIds'')) 128
         (bindingInvalid (js ''Host gate IDs must be a bounded dense data array.'') None)) (\<lambda>gateIdValues.
     check_bind (enterGateIds [] gateIdValues) (\<lambda>gateIds.
     check_bind (createHostTargetCatalog (propertyOf binding (js ''targets''))) (\<lambda>targets.
     Inr \<lparr>hb_compositionId = compositionId, hb_openslackVersion = openslackVersion, hb_gateIds = gateIds,
          hb_targets = targets\<rparr>))))))"

section \<open>Prepared registrations\<close>

datatype HostSetupError =
  SetupRefused PluginHostError
| SetupEvidence HostInputValidationError
| SetupDefinition BundledError

definition raising :: "('e \<Rightarrow> 'f) \<Rightarrow> 'e + 'a \<Rightarrow> 'f + 'a" where
  "raising f r = (case r of Inl e \<Rightarrow> Inl (f e) | Inr x \<Rightarrow> Inr x)"

datatype HostRegisteredWorkflow =
  AliasWorkflow unknown HostAliasTargetFacts
| CatalogWorkflow unknown

type_synonym HostBatch = "(unit, HostRegisteredAction, HostRegisteredWorkflow, nat) PluginRegistryBatch"

definition registeredLifecycle ::
  "jstring \<Rightarrow> string \<Rightarrow> string \<Rightarrow> string \<Rightarrow> (nat \<Rightarrow> jstring) \<Rightarrow> PluginHostError + PluginLifecycleSnapshot" where
  "registeredLifecycle pluginId verified checked entered clock =
     check_bind (lifecycleTransition (lifecycleController pluginId (clock 0)) IntegrityVerified (Some (js verified))
         None (clock 1)) (\<lambda>s.
     check_bind (lifecycleTransition s Validated (Some (js checked)) None (clock 2)) (\<lambda>s.
     lifecycleTransition s Registering (Some (js entered)) None (clock 3)))"

definition gateMissing :: "jstring \<Rightarrow> string \<Rightarrow> jstring \<Rightarrow> PluginHostError" where
  "gateMissing gateId what pluginId =
     hostFail PLUGIN_HOST_BINDING_INVALID PhaseBinding (js ''Gate '' @ gateId @ js what) (Some pluginId) None"

text \<open>A hole reads as \<open>undefined\<close>, which names no capability.\<close>

definition heldTexts :: "jstring option list \<Rightarrow> jstring list" where
  "heldTexts ts = map (\<lambda>t. case t of None \<Rightarrow> js ''undefined'' | Some c \<Rightarrow> c) ts"

definition resolveBundledAction ::
  "NormalizedPluginHostBinding \<Rightarrow> NormalizedBundledPlugin \<Rightarrow> jstring \<times> jstring \<Rightarrow>
   PluginHostError + HostRegisteredAction RegistryContribution" where
  "resolveBundledAction binding d action =
     (let (i, targetId) = action;
          missing = hostFail PLUGIN_ALIAS_TARGET_NOT_FOUND PhaseValidation
            (js ''Bundled action target '' @ targetId @ js '' is not in the constructor catalog.'')
            (Some (bp_id d)) (Some i)
      in case map_of (hc_actions (hb_targets binding)) targetId of
           None \<Rightarrow> Inl missing
         | Some target \<Rightarrow>
             if \<not> ht_exists target then Inl missing
             else if Some (ht_requiredCapability target) \<notin> set (bp_requestedCapabilities d) then
               Inl (hostFail PLUGIN_CONTRIBUTION_CAPABILITY_MISSING PhaseCapability
                 (js ''Bundled action '' @ i @ js '' must request '' @ ht_requiredCapability target @ js ''.'')
                 (Some (bp_id d)) (Some i))
             else Inr \<lparr>rc_localId = i, rc_value = ResolvedBuilder target\<rparr>)"

definition bundledActions :: "NormalizedBundledContribution list \<Rightarrow> (jstring \<times> jstring) list" where
  "bundledActions cs = concat (map (\<lambda>c. case c of NormalizedAction i t \<Rightarrow> [(i, t)] | _ \<Rightarrow> []) cs)"

definition bundledWorkflows ::
  "NormalizedBundledContribution list \<Rightarrow> HostRegisteredWorkflow RegistryContribution list" where
  "bundledWorkflows cs = concat (map (\<lambda>c. case c of
     NormalizedWorkflow i item \<Rightarrow> [\<lparr>rc_localId = i, rc_value = CatalogWorkflow item\<rparr>] | _ \<Rightarrow> []) cs)"

definition bundledBlockers :: "NormalizedBundledContribution list \<Rightarrow> nat RegistryContribution list" where
  "bundledBlockers cs = concat (map (\<lambda>c. case c of
     NormalizedBlocker i f \<Rightarrow> [\<lparr>rc_localId = i, rc_value = f\<rparr>] | _ \<Rightarrow> []) cs)"

definition reviewEvidence ::
  "unknown \<Rightarrow> (jstring \<Rightarrow> bool) \<Rightarrow> NormalizedPluginHostBinding \<Rightarrow> NormalizedBundledPlugin \<Rightarrow>
   HostSetupError + ActivationEvidence" where
  "reviewEvidence v isDate binding d =
     (if v = UUndefined \<or> v = UNull then
        Inl (SetupRefused (hostFail PLUGIN_HOST_ACTIVATION_EVIDENCE_MISSING PhaseAuthorization
          (js ''Bundled constructor registration requires activation evidence.'') (Some (bp_id d)) None))
      else
        check_bind (raising SetupEvidence (normalizeActivationEvidence isDate v
            (BundledEvidence (bp_id d) (bp_version d) (hb_compositionId binding)))) (\<lambda>ev.
        check_bind (require (\<forall>c. ae_source ev \<noteq> BundledSource c [])
            (SetupRefused (hostFail PLUGIN_HOST_ACTIVATION_EVIDENCE_INVALID PhaseAuthorization
              (js ''Bundled constructor registration requires review evidence.'') (Some (bp_id d)) None))) (\<lambda>_.
        Inr ev)))"

definition bundledRecord ::
  "NormalizedPluginHostBinding \<Rightarrow> NormalizedBundledPlugin \<Rightarrow> ActivationEvidence \<Rightarrow> PluginLifecycleSnapshot \<Rightarrow>
   HostPluginRecord" where
  "bundledRecord binding d ev lifecycle =
     \<lparr>hr_id = bp_id d, hr_version = bp_version d, hr_providerKind = BundledProvider,
      hr_sourceRef = js ''bundled:'' @ hb_compositionId binding @ [slash] @ bp_id d,
      hr_gateMode = bp_gateMode d, hr_gateId = bp_gateId d,
      hr_requested = heldTexts (bp_requestedCapabilities d),
      hr_kind = BundledRecord ev (map contributionKind (bp_contributions d)) (bp_activate d) (bp_deactivate d),
      hr_lifecycle = lifecycle, hr_effective = None, hr_evidence = None\<rparr>"

definition registryPlugin :: "HostPluginRecord \<Rightarrow> unit RegistryPlugin" where
  "registryPlugin r =
     \<lparr>rp_id = hr_id r, rp_version = hr_version r, rp_providerKind = hr_providerKind r,
      rp_sourceRef = hr_sourceRef r, rp_value = ()\<rparr>"

definition prepareBundledRegistration ::
  "(jstring \<Rightarrow> bool) \<Rightarrow> NormalizedPluginHostBinding \<Rightarrow> unknown \<Rightarrow> (nat \<Rightarrow> jstring) \<Rightarrow>
   HostSetupError + HostPluginRecord \<times> HostBatch" where
  "prepareBundledRegistration isDate binding v clock =
     check_bind (raising SetupRefused (exactHostDataRecord v [js ''definition'', js ''evidence'']
         ''Reviewed bundled registration must contain only definition and evidence.'')) (\<lambda>registration.
     check_bind (raising SetupDefinition
         (normalizeBundledPluginDefinition (propertyOf registration (js ''definition'')))) (\<lambda>d.
     check_bind (raising SetupEvidence
         (assertCompatibleOpenSlackVersion (hb_openslackVersion binding) (bp_openslack d))) (\<lambda>_.
     check_bind (require (bp_gateId d \<in> set (hb_gateIds binding))
         (SetupRefused (gateMissing (bp_gateId d) '' is not in the constructor binding.'' (bp_id d)))) (\<lambda>_.
     check_bind (reviewEvidence (propertyOf registration (js ''evidence'')) isDate binding d) (\<lambda>ev.
     check_bind (raising SetupRefused
         (check_all (resolveBundledAction binding d) (bundledActions (bp_contributions d)))) (\<lambda>actions.
     check_bind (raising SetupRefused (registeredLifecycle (bp_id d)
         ''Reviewed constructor composition evidence matched.'' ''Bundled definition passed Red host validation.''
         ''Bundled contributions passed registry preflight.'' clock)) (\<lambda>lifecycle.
     let r = bundledRecord binding d ev lifecycle
     in Inr (r, \<lparr>pb_plugin = registryPlugin r, pb_actionAliases = None, pb_workflowAliases = None,
          pb_bundledActions = Some actions,
          pb_bundledWorkflows = Some (bundledWorkflows (bp_contributions d)),
          pb_prmsBlockers = Some (bundledBlockers (bp_contributions d))\<rparr>))))))))"

section \<open>Loaded manifests\<close>

record PluginLockEntry =
  le_id :: jstring
  le_version :: jstring
  le_providerKind :: RegistryProviderKind
  le_sourceRef :: jstring
  le_manifestSha256 :: jstring
  le_requestedGateMode :: PluginGateMode

record PluginManifest =
  mf_version :: jstring
  mf_openslack :: jstring
  mf_gateMode :: PluginGateMode
  mf_gateId :: jstring
  mf_capabilities :: "jstring list"
  mf_contributes :: "unknown list"

record LoadedPluginManifest =
  lm_providerKind :: RegistryProviderKind
  lm_pluginId :: jstring
  lm_sourceRef :: jstring
  lm_gateMode :: PluginGateMode
  lm_manifest :: PluginManifest
  lm_manifestSha256 :: jstring

definition lockEntryFor ::
  "PluginLockEntry list \<Rightarrow> jstring \<Rightarrow> RegistryProviderKind \<Rightarrow> PluginHostError + PluginLockEntry" where
  "lockEntryFor lock pluginId kind =
     (case find (\<lambda>e. le_id e = pluginId \<and> le_providerKind e = kind) lock of
        Some e \<Rightarrow> Inr e
      | None \<Rightarrow>
          Inl (hostFail PLUGIN_HOST_LOCK_ENTRY_MISSING PhaseIntegrity
            (js ''No '' @ providerText kind @ js '' lock entry exists for plugin '' @ pluginId @ js ''.'')
            (Some pluginId) None))"

definition lockMismatch :: "PluginHostFindingCode \<Rightarrow> string \<Rightarrow> jstring \<Rightarrow> PluginHostError" where
  "lockMismatch code summary pluginId = hostFail code PhaseIntegrity (js summary) (Some pluginId) None"

definition assertLockMatches :: "PluginLockEntry \<Rightarrow> LoadedPluginManifest \<Rightarrow> PluginHostError + unit" where
  "assertLockMatches entry loaded =
     (let i = lm_pluginId loaded
      in if le_id entry \<noteq> i \<or> le_version entry \<noteq> mf_version (lm_manifest loaded) then
           Inl (lockMismatch PLUGIN_HOST_LOCK_IDENTITY_MISMATCH
             ''Lock identity does not match the loaded manifest.'' i)
         else if le_providerKind entry \<noteq> lm_providerKind loaded \<or> le_sourceRef entry \<noteq> lm_sourceRef loaded then
           Inl (lockMismatch PLUGIN_HOST_LOCK_SOURCE_MISMATCH
             ''Lock provider/source does not match the host-owned source entrypoint.'' i)
         else if le_manifestSha256 entry \<noteq> lm_manifestSha256 loaded then
           Inl (lockMismatch PLUGIN_HOST_LOCK_HASH_MISMATCH
             ''Lock hash does not match the exact validated manifest bytes.'' i)
         else if le_requestedGateMode entry \<noteq> lm_gateMode loaded then
           Inl (lockMismatch PLUGIN_HOST_LOCK_GATE_MISMATCH
             ''Lock gate mode does not match the loaded manifest.'' i)
         else Inr ())"

definition declarativeRecord ::
  "LoadedPluginManifest \<Rightarrow> PluginLockEntry \<Rightarrow> PluginLifecycleSnapshot \<Rightarrow> HostPluginRecord" where
  "declarativeRecord loaded entry lifecycle =
     (let m = lm_manifest loaded
      in \<lparr>hr_id = lm_pluginId loaded, hr_version = mf_version m, hr_providerKind = lm_providerKind loaded,
          hr_sourceRef = lm_sourceRef loaded, hr_gateMode = mf_gateMode m, hr_gateId = mf_gateId m,
          hr_requested = mf_capabilities m,
          hr_kind = DeclarativeRecord (lm_manifestSha256 loaded) (le_manifestSha256 entry) (mf_contributes m),
          hr_lifecycle = lifecycle, hr_effective = None, hr_evidence = None\<rparr>)"

text \<open>The contributions to the registries; a checked alias of an action is one that can be read.\<close>

definition actionAlias :: "ResolvedDeclarativeAlias \<Rightarrow> HostRegisteredAction RegistryContribution list" where
  "actionAlias alias =
     (case alias of
        ActionAliasOf c target \<Rightarrow>
          (case readAlias c of
             None \<Rightarrow> []
           | Some a \<Rightarrow> [\<lparr>rc_localId = da_id a, rc_value = ResolvedAlias True a target\<rparr>])
      | WorkflowAliasOf c target \<Rightarrow> [])"

definition workflowAlias :: "ResolvedDeclarativeAlias \<Rightarrow> HostRegisteredWorkflow RegistryContribution list" where
  "workflowAlias alias =
     (case alias of
        ActionAliasOf c target \<Rightarrow> []
      | WorkflowAliasOf c target \<Rightarrow>
          [\<lparr>rc_localId = (case textField c (js ''id'') of None \<Rightarrow> js ''undefined'' | Some i \<Rightarrow> i),
            rc_value = AliasWorkflow c target\<rparr>])"

definition prepareDeclarative ::
  "NormalizedPluginHostBinding \<Rightarrow> LoadedPluginManifest \<Rightarrow> PluginLockEntry \<Rightarrow> (nat \<Rightarrow> jstring) \<Rightarrow>
   HostSetupError + HostPluginRecord \<times> HostBatch" where
  "prepareDeclarative binding loaded entry clock =
     (let m = lm_manifest loaded; i = lm_pluginId loaded
      in check_bind (raising SetupEvidence
             (assertCompatibleOpenSlackVersion (hb_openslackVersion binding) (mf_openslack m))) (\<lambda>_.
         check_bind (require (mf_gateId m \<in> set (hb_gateIds binding))
             (SetupRefused (gateMissing (mf_gateId m) '' is not in the sealed host binding.'' i))) (\<lambda>_.
         check_bind (raising SetupRefused (check_all (\<lambda>c. assertDeclarativeAlias c (hb_targets binding) (Some i))
             (mf_contributes m))) (\<lambda>aliases.
         check_bind (raising SetupRefused (registeredLifecycle i ''Exact bytes matched the plugin lock.''
             ''Manifest and host target policies passed.'' ''Contribution batch passed registry preflight.''
             clock)) (\<lambda>lifecycle.
         let r = declarativeRecord loaded entry lifecycle
         in Inr (r, \<lparr>pb_plugin = registryPlugin r, pb_actionAliases = Some (concat (map actionAlias aliases)),
              pb_workflowAliases = Some (concat (map workflowAlias aliases)), pb_bundledActions = None,
              pb_bundledWorkflows = None, pb_prmsBlockers = None\<rparr>))))))"

section \<open>The host\<close>

record BuiltHost =
  bh_binding :: NormalizedPluginHostBinding
  bh_host :: "(HostRegisteredWorkflow, nat) PluginHost"

text \<open>Every registration enters its batches in the registry and its records under their names.\<close>

definition registerPrepared ::
  "(HostPluginRecord \<times> HostBatch) list \<Rightarrow> BuiltHost \<Rightarrow> HostSetupError + BuiltHost" where
  "registerPrepared prepared b =
     check_bind (raising SetupRefused (registerBatches (ph_registry (bh_host b)) (map snd prepared)))
       (\<lambda>(summary, registry).
     Inr (b\<lparr>bh_host := (bh_host b)\<lparr>ph_registry := registry,
            ph_records := ph_records (bh_host b) ++ map_of (map (\<lambda>(r, batch). (hr_id r, r)) prepared)\<rparr>\<rparr>))"

definition newHost :: "nat \<Rightarrow> NormalizedPluginHostBinding \<Rightarrow> (HostRegisteredWorkflow, nat) PluginHost" where
  "newHost inst binding =
     \<lparr>ph_sealed = False, ph_compositionId = hb_compositionId binding,
      ph_targets = hc_actions (hb_targets binding), ph_registry = emptyRegistry inst, ph_records = Map.empty,
      ph_lifecycleOps = {}, ph_executionOps = Map.empty, ph_audit = []\<rparr>"

text \<open>The constructor; the reading of the clock is named by the registration and its number there.\<close>

definition constructHost ::
  "(jstring \<Rightarrow> bool) \<Rightarrow> nat \<Rightarrow> unknown \<Rightarrow> unknown \<Rightarrow> (nat \<Rightarrow> nat \<Rightarrow> jstring) \<Rightarrow> HostSetupError + BuiltHost" where
  "constructHost isDate inst bindingValue bundledPlugins clock =
     check_bind (raising SetupRefused (normalizeBinding bindingValue)) (\<lambda>binding.
     check_bind (raising SetupRefused (exactHostDataArray (orDefault bundledPlugins (UArray [])) 64
         (hostFail PLUGIN_HOST_BUNDLED_DEFINITION_INVALID PhaseValidation
           (js ''Constructor bundled registrations must be a bounded dense data array.'') None None))) (\<lambda>registrations.
     check_bind (check_all (\<lambda>(n, v). prepareBundledRegistration isDate binding v (clock n))
         (List.enumerate 0 registrations)) (\<lambda>prepared.
     let b = \<lparr>bh_binding = binding, bh_host = newHost inst binding\<rparr>
     in if prepared = [] then Inr b else registerPrepared prepared b)))"

definition assertRegistrationOpen :: "BuiltHost \<Rightarrow> PluginHostError + unit" where
  "assertRegistrationOpen b =
     (if ph_sealed (bh_host b) then
        Inl (hostFail PLUGIN_HOST_SEALED PhaseRegistration (js ''A sealed host cannot register plugins.'') None None)
      else Inr ())"

definition seal :: "BuiltHost \<Rightarrow> BuiltHost" where
  "seal b = b\<lparr>bh_host := (bh_host b)\<lparr>ph_sealed := True\<rparr>\<rparr>"

text \<open>
  A load begins with the host as it is when it is called, and registers in the host as it is when
  the last manifest has been read.
\<close>

definition loadEntry ::
  "NormalizedPluginHostBinding \<Rightarrow> (PluginLockEntry \<Rightarrow> HostSetupError + LoadedPluginManifest) \<Rightarrow>
   PluginLockEntry \<Rightarrow> (nat \<Rightarrow> jstring) \<Rightarrow> HostSetupError + HostPluginRecord \<times> HostBatch" where
  "loadEntry binding load entry clock =
     check_bind (load entry) (\<lambda>loaded.
     check_bind (raising SetupRefused (assertLockMatches entry loaded)) (\<lambda>_.
     prepareDeclarative binding loaded entry clock))"

definition loadWorkspacePlugins ::
  "PluginLockEntry list \<Rightarrow> (PluginLockEntry \<Rightarrow> HostSetupError + LoadedPluginManifest) \<Rightarrow>
   (nat \<Rightarrow> nat \<Rightarrow> jstring) \<Rightarrow> BuiltHost \<Rightarrow> BuiltHost \<Rightarrow> HostSetupError + BuiltHost" where
  "loadWorkspacePlugins lock load clock start b =
     check_bind (raising SetupRefused (assertRegistrationOpen start)) (\<lambda>_.
     check_bind (check_all (\<lambda>(n, entry). loadEntry (bh_binding start) load entry (clock n))
         (List.enumerate 0 (sort_key le_id (filter (\<lambda>e. le_providerKind e = WorkspaceProvider) lock)))) (\<lambda>prepared.
     if prepared = [] then Inr b
     else
       check_bind (raising SetupRefused (assertRegistrationOpen b)) (\<lambda>_.
       registerPrepared prepared b)))"

definition loadInstalledPlugin ::
  "PluginLockEntry list \<Rightarrow> jstring \<Rightarrow> (PluginLockEntry \<Rightarrow> HostSetupError + LoadedPluginManifest) \<Rightarrow>
   (nat \<Rightarrow> jstring) \<Rightarrow> BuiltHost \<Rightarrow> BuiltHost \<Rightarrow> HostSetupError + BuiltHost" where
  "loadInstalledPlugin lock pluginId load clock start b =
     check_bind (raising SetupRefused (assertRegistrationOpen start)) (\<lambda>_.
     check_bind (raising SetupRefused (lockEntryFor lock pluginId PluginProvider)) (\<lambda>entry.
     check_bind (loadEntry (bh_binding start) load entry clock) (\<lambda>prepared.
     check_bind (raising SetupRefused (assertRegistrationOpen b)) (\<lambda>_.
     registerPrepared [prepared] b))))"

text \<open>A host from its constructor on. A load may have begun in any earlier state, with the same binding.\<close>

inductive setup_step :: "BuiltHost \<Rightarrow> BuiltHost \<Rightarrow> bool" where
  setup_workspace:
    "bh_binding start = bh_binding b \<Longrightarrow> loadWorkspacePlugins lock load clock start b = Inr b' \<Longrightarrow> setup_step b b'"
| setup_installed:
    "bh_binding start = bh_binding b \<Longrightarrow> loadInstalledPlugin lock pluginId load clock1 start b = Inr b' \<Longrightarrow>
     setup_step b b'"
| setup_seal: "setup_step b (seal b)"

inductive_cases setup_stepE: "setup_step b b'"

definition constructed :: "(jstring \<Rightarrow> bool) \<Rightarrow> BuiltHost \<Rightarrow> bool" where
  "constructed isDate b \<longleftrightarrow> (\<exists>inst bindingValue bundledPlugins clock.
     constructHost isDate inst bindingValue bundledPlugins clock = Inr b)"

section \<open>What a built host holds\<close>

definition freshRecord :: "HostPluginRecord \<Rightarrow> bool" where
  "freshRecord r \<longleftrightarrow>
     ls_state (hr_lifecycle r) = Registering \<and> hr_effective r = None \<and> hr_evidence r = None"

definition preparedOf :: "(jstring \<times> HostActionTargetFacts) list \<Rightarrow> HostPluginRecord \<times> HostBatch \<Rightarrow> bool" where
  "preparedOf targets rb \<longleftrightarrow>
     pb_plugin (snd rb) = registryPlugin (fst rb) \<and> freshRecord (fst rb)
     \<and> (\<forall>c \<in> set (orNone (pb_actionAliases (snd rb))). preparedAction targets (rc_value c))
     \<and> (\<forall>c \<in> set (orNone (pb_bundledActions (snd rb))).
          preparedAction targets (rc_value c) \<and> (\<exists>t. rc_value c = ResolvedBuilder t))"

definition actionsOk :: "(jstring \<times> HostActionTargetFacts) list \<Rightarrow> HostRegisteredAction Registered \<Rightarrow> bool" where
  "actionsOk targets c \<longleftrightarrow>
     preparedAction targets (rg_value c)
     \<and> (rg_kind c \<noteq> ActionAlias \<longrightarrow> (\<exists>t. rg_value c = ResolvedBuilder t))"

definition builtOk :: "BuiltHost \<Rightarrow> bool" where
  "builtOk b \<longleftrightarrow>
     (let h = bh_host b; targets = hc_actions (hb_targets (bh_binding b))
      in catalogued targets \<and> ph_targets h = targets
         \<and> preparedOk (ph_registry h) \<and> mapsOk (ph_registry h)
         \<and> ph_lifecycleOps h = {} \<and> ph_executionOps h = Map.empty \<and> ph_audit h = []
         \<and> (\<forall>i r. hostRecord h i = Some r \<longrightarrow> hr_id r = i \<and> freshRecord r)
         \<and> (\<forall>(i, c) \<in> set (rs_actions (ph_registry h)). actionsOk targets c))"

lemma raising_Inr [simp]: "raising f r = Inr x \<longleftrightarrow> r = Inr x"
  by (simp add: raising_def split: sum.splits)

lemma catalogued_lookup:
  "catalogued entries \<Longrightarrow> map_of entries i = Some t \<Longrightarrow> ht_id t = i \<and> distinct (map fst (ht_inputSchema t))"
  by (fastforce simp: catalogued_def dest: map_of_SomeD)

lemma registeredLifecycle_state:
  "registeredLifecycle i v c e clock = Inr s \<Longrightarrow> ls_state s = Registering"
  by (auto simp: registeredLifecycle_def lifecycleTransition_Inr)

lemma assertDeclarativeAlias_prepared:
  assumes "assertDeclarativeAlias c catalog p = Inr a" and "catalogued (hc_actions catalog)"
    and "rc \<in> set (actionAlias a)"
  shows "preparedAction (hc_actions catalog) (rc_value rc)"
proof -
  from assms(1) have valid: "validateDeclarativeAlias c catalog p = Inr a"
    by (simp add: assertDeclarativeAlias_def split: sum.splits)
  from assms(3) obtain c' t where a: "a = ActionAliasOf c' t" by (cases a) (simp_all add: actionAlias_def)
  with assms(3) obtain da where da: "readAlias c' = Some da" and rc: "rc_value rc = ResolvedAlias True da t"
    by (cases "readAlias c'") (simp_all add: actionAlias_def)
  from valid [unfolded a] obtain i da' where t: "map_of (hc_actions catalog) i = Some t" "c' = c"
    "readOnlyTarget t" "readAlias c = Some da'" "fitsAlways t da'"
    by (rule validateDeclarativeAlias_action)
  with catalogued_lookup [OF assms(2) t(1)] da show ?thesis by (simp add: preparedAction_def rc)
qed

lemma prepareDeclarative_prepared:
  assumes "prepareDeclarative binding loaded entry clock = Inr rb"
    and "catalogued (hc_actions (hb_targets binding))"
  shows "preparedOf (hc_actions (hb_targets binding)) rb"
proof -
  from assms(1) obtain aliases lifecycle
    where aliases: "check_all (\<lambda>c. assertDeclarativeAlias c (hb_targets binding) (Some (lm_pluginId loaded)))
        (mf_contributes (lm_manifest loaded)) = Inr aliases"
      and lifecycle: "ls_state lifecycle = Registering"
      and rb: "fst rb = declarativeRecord loaded entry lifecycle" "pb_plugin (snd rb) = registryPlugin (fst rb)"
        "pb_actionAliases (snd rb) = Some (concat (map actionAlias aliases))" "pb_bundledActions (snd rb) = None"
    by (auto simp: prepareDeclarative_def Let_def dest!: registeredLifecycle_state)
  have "preparedAction (hc_actions (hb_targets binding)) (rc_value rc)"
    if "rc \<in> set (concat (map actionAlias aliases))" for rc
    using that check_all_set [OF aliases] assertDeclarativeAlias_prepared [OF _ assms(2)] by fastforce
  with lifecycle show ?thesis
    by (simp add: preparedOf_def rb freshRecord_def declarativeRecord_def orNone_def Let_def)
qed

lemma resolveBundledAction_prepared:
  assumes "resolveBundledAction binding d a = Inr rc" and "catalogued (hc_actions (hb_targets binding))"
  shows "preparedAction (hc_actions (hb_targets binding)) (rc_value rc)" and "\<exists>t. rc_value rc = ResolvedBuilder t"
proof -
  from assms(1) obtain t where "map_of (hc_actions (hb_targets binding)) (snd a) = Some t" "rc_value rc = ResolvedBuilder t"
    by (auto simp: resolveBundledAction_def Let_def split: prod.splits option.splits if_splits)
  with catalogued_lookup [OF assms(2)]
  show "preparedAction (hc_actions (hb_targets binding)) (rc_value rc)" "\<exists>t. rc_value rc = ResolvedBuilder t"
    by (auto simp: preparedAction_def)
qed

lemma prepareBundled_prepared:
  assumes "prepareBundledRegistration isDate binding v clock = Inr rb"
    and "catalogued (hc_actions (hb_targets binding))"
  shows "preparedOf (hc_actions (hb_targets binding)) rb"
proof -
  from assms(1) obtain d ev actions lifecycle
    where actions: "check_all (resolveBundledAction binding d) (bundledActions (bp_contributions d)) = Inr actions"
      and lifecycle: "ls_state lifecycle = Registering"
      and rb: "fst rb = bundledRecord binding d ev lifecycle" "pb_plugin (snd rb) = registryPlugin (fst rb)"
        "pb_actionAliases (snd rb) = None" "pb_bundledActions (snd rb) = Some actions"
    by (auto simp: prepareBundledRegistration_def Let_def dest!: registeredLifecycle_state)
  have "\<forall>rc \<in> set actions. preparedAction (hc_actions (hb_targets binding)) (rc_value rc)
      \<and> (\<exists>t. rc_value rc = ResolvedBuilder t)"
    using check_all_set [OF actions] resolveBundledAction_prepared [OF _ assms(2)] by blast
  with lifecycle show ?thesis
    by (simp add: preparedOf_def rb freshRecord_def bundledRecord_def orNone_def)
qed

text \<open>The actions of a batch, and what registering prepared batches keeps.\<close>

lemma normalizeBatches_actions:
  assumes "\<forall>rb \<in> set prepared. preparedOf targets rb"
    and "c \<in> set (concat (map nb_actions (normalizeBatches (map snd prepared))))"
  shows "actionsOk targets c"
proof -
  from assms(2) obtain rb where rb: "rb \<in> set prepared" "c \<in> set (nb_actions (normalizeBatch (snd rb)))"
    by (auto simp: normalizeBatches_def)
  with assms(1) show ?thesis
    by (auto simp: normalizeBatch_def normalizeContribution_def Let_def preparedOf_def actionsOk_def)
qed

lemma registerPrepared_ok:
  assumes "builtOk b" and "registerPrepared prepared b = Inr b'"
    and "\<forall>rb \<in> set prepared. preparedOf (hc_actions (hb_targets (bh_binding b))) rb"
  shows "builtOk b'"
proof -
  let ?h = "bh_host b" and ?new = "map_of (map (\<lambda>(r, batch). (hr_id r, r)) prepared)"
    and ?bs = "normalizeBatches (map snd prepared)"
  from assms(2) obtain summary reg where reg: "registerBatches (ph_registry ?h) (map snd prepared) = Inr (summary, reg)"
    and b': "b' = b\<lparr>bh_host := ?h\<lparr>ph_registry := reg, ph_records := ph_records ?h ++ ?new\<rparr>\<rparr>"
    by (auto simp: registerPrepared_def)
  from assms(1) have ok: "preparedOk (ph_registry ?h)" "mapsOk (ph_registry ?h)" by (simp_all add: builtOk_def Let_def)
  note entered = registerBatches_ok [OF ok reg]
  have plugins: "rs_plugins reg = rs_plugins (ph_registry ?h) @ map (\<lambda>b. (rp_id (nb_plugin b), nb_plugin b)) ?bs"
    and actions: "rs_actions reg = rs_actions (ph_registry ?h)
      @ map (\<lambda>c. (rg_id c, c)) (concat (map nb_actions ?bs))"
    using reg by (cases rule: registerBatches_cases [OF ok(1), where batches = "map snd prepared"], simp_all)+
  have "hr_id r = i \<and> freshRecord r" if r: "hostRecord (bh_host b') i = Some r" for i r
  proof (cases "?new i")
    case (Some r')
    with r have "r' = r" by (simp add: hostRecord_def b' split: option.splits)
    moreover from Some obtain batch where "(r', batch) \<in> set prepared" "hr_id r' = i"
      by (auto dest!: map_of_SomeD)
    ultimately show ?thesis using assms(3) by (auto simp: preparedOf_def)
  next
    case None
    with r have old: "ph_records ?h i = Some r" and p: "getPlugin reg i \<noteq> None"
      by (auto simp: hostRecord_def b' map_add_def split: option.splits)
    from None have "i \<notin> (rp_id \<circ> pb_plugin) ` set (map snd prepared)"
      using assms(3) by (force simp: map_of_eq_None_iff preparedOf_def registryPlugin_def)
    moreover from p obtain plugin where "(i, plugin) \<in> set (rs_plugins reg)"
      by (auto simp: getPlugin_def dest: map_of_SomeD)
    with plugins have "i \<in> fst ` set (rs_plugins (ph_registry ?h)) \<or> i \<in> (rp_id \<circ> nb_plugin) ` set ?bs"
      by force
    ultimately have "getPlugin (ph_registry ?h) i \<noteq> None"
      by (force simp: getPlugin_def map_of_eq_None_iff normalizeBatches_def normalizeBatch_def Let_def)
    with old have "hostRecord ?h i = Some r" by (auto simp: hostRecord_def split: option.splits)
    with assms(1) show ?thesis by (simp add: builtOk_def Let_def)
  qed
  moreover have "\<forall>(i, c) \<in> set (rs_actions reg). actionsOk (hc_actions (hb_targets (bh_binding b))) c"
    using assms(1) normalizeBatches_actions [OF assms(3)]
    by (auto simp: actions builtOk_def Let_def)
  ultimately show ?thesis using assms(1) entered by (simp add: builtOk_def Let_def b')
qed

lemma normalizeBinding_catalogued:
  "normalizeBinding v = Inr binding \<Longrightarrow> catalogued (hc_actions (hb_targets binding))"
  by (auto simp: normalizeBinding_def createHostTargetCatalog_catalogued)

lemma newHost_ok:
  "catalogued (hc_actions (hb_targets binding)) \<Longrightarrow> builtOk \<lparr>bh_binding = binding, bh_host = newHost inst binding\<rparr>"
  by (simp add: builtOk_def newHost_def emptyRegistry_def preparedOk_def mapsOk_def pluginsOk_def contributionsOk_def
      hostRecord_def getPlugin_def)

lemma check_all_prepared:
  assumes "check_all f xs = Inr ys" and "\<And>x y. f x = Inr y \<Longrightarrow> P y"
  shows "\<forall>y \<in> set ys. P y"
  using check_all_set [OF assms(1)] assms(2) by blast

lemma constructHost_ok:
  assumes "constructHost isDate inst bindingValue bundledPlugins clock = Inr b"
  shows "builtOk b"
proof -
  from assms obtain binding registrations prepared
    where binding: "normalizeBinding bindingValue = Inr binding"
      and prepared: "check_all (\<lambda>(n, v). prepareBundledRegistration isDate binding v (clock n))
        (List.enumerate 0 registrations) = Inr prepared"
      and b: "(if prepared = [] then Inr \<lparr>bh_binding = binding, bh_host = newHost inst binding\<rparr>
        else registerPrepared prepared \<lparr>bh_binding = binding, bh_host = newHost inst binding\<rparr>) = Inr b"
    by (auto simp: constructHost_def Let_def)
  note targets = normalizeBinding_catalogued [OF binding]
  from prepared have "\<forall>rb \<in> set prepared. preparedOf (hc_actions (hb_targets binding)) rb"
    by (rule check_all_prepared) (auto intro: prepareBundled_prepared [OF _ targets])
  with b newHost_ok [OF targets] registerPrepared_ok show ?thesis by (fastforce split: if_splits)
qed

lemma loadEntry_prepared:
  "loadEntry binding load entry clock = Inr rb \<Longrightarrow> catalogued (hc_actions (hb_targets binding)) \<Longrightarrow>
   preparedOf (hc_actions (hb_targets binding)) rb"
  by (auto simp: loadEntry_def intro: prepareDeclarative_prepared)

lemma setup_step_ok:
  assumes "setup_step b b'" and "builtOk b"
  shows "builtOk b'"
  using assms(1)
proof cases
  case (setup_workspace start lock load clock)
  from assms(2) have targets: "catalogued (hc_actions (hb_targets (bh_binding b)))" by (simp add: builtOk_def Let_def)
  from setup_workspace obtain prepared entries where prepared:
      "check_all (\<lambda>(n, entry). loadEntry (bh_binding b) load entry (clock n)) entries = Inr prepared"
    and b': "b' = b \<or> registerPrepared prepared b = Inr b'"
    by (auto simp: loadWorkspacePlugins_def split: if_splits)
  from prepared have "\<forall>rb \<in> set prepared. preparedOf (hc_actions (hb_targets (bh_binding b))) rb"
    by (rule check_all_prepared) (auto intro: loadEntry_prepared [OF _ targets])
  with b' assms(2) registerPrepared_ok show ?thesis by blast
next
  case (setup_installed start lock pluginId load clock)
  from assms(2) have targets: "catalogued (hc_actions (hb_targets (bh_binding b)))" by (simp add: builtOk_def Let_def)
  from setup_installed obtain entry rb where "loadEntry (bh_binding b) load entry clock = Inr rb"
    and b': "registerPrepared [rb] b = Inr b'"
    by (auto simp: loadInstalledPlugin_def)
  with loadEntry_prepared [OF _ targets] registerPrepared_ok [OF assms(2) b'] show ?thesis by simp
next
  case setup_seal
  then have "hostRecord (bh_host b') i = hostRecord (bh_host b) i" for i
    by (simp add: hostRecord_def seal_def split: option.split)
  with assms(2) setup_seal show ?thesis by (simp add: builtOk_def seal_def Let_def)
qed

interpretation building: inductive_invariant "constructed isDate" setup_step builtOk for isDate
  by unfold_locales (auto simp: constructed_def intro: constructHost_ok setup_step_ok)

text \<open>The system a host starts as: no call is in flight.\<close>

definition hostSystem :: "BuiltHost \<Rightarrow> (HostRegisteredWorkflow, nat) HostSystem" where
  "hostSystem b = \<lparr>hs_host = bh_host b, hs_tasks = [], hs_results = []\<rparr>"

lemma builtOk_start:
  assumes "builtOk b" and "ph_sealed (bh_host b)"
  shows "sealedStart (hostSystem b)"
proof -
  from assms(1) have targets: "\<forall>(k, t) \<in> set (ph_targets (bh_host b)). ht_id t = k"
    and actions: "\<forall>(i, c) \<in> set (rs_actions (ph_registry (bh_host b))). actionsOk (ph_targets (bh_host b)) c"
    by (auto simp: builtOk_def catalogued_def Let_def)
  have "actionsOk (ph_targets (bh_host b)) c" if "getAction (ph_registry (bh_host b)) i = Some c" for i c
    using that actions by (auto simp: getAction_def dest: map_of_SomeD)
  with targets have "catalogOk (bh_host b)" by (auto simp: catalogOk_def actionsOk_def)
  with assms show ?thesis
    by (auto simp: sealedStart_def hostStart_def hostSystem_def builtOk_def freshRecord_def Let_def)
qed

end
