(* ===== verification/HostSetupProperties.thy ===== *)
theory HostSetupProperties
  imports HostSetup HostProperties
begin

text \<open>
  What a host is when it has been built: the constructor, the loads and the seal lead to a start of
  the calls of HostProperties; the definitions of bundled plugins and the ranges
  of versions.
\<close>

section \<open>A host with one loaded plugin\<close>

definition demoField :: "unknown" where
  "demoField = dataFields [(js ''type'', UText (js ''string'')), (js ''required'', UBool True)]"

definition demoSeed :: "unknown" where
  "demoSeed = dataFields
     [(js ''kind'', UText (js ''host_action'')), (js ''id'', UText (js ''list'')), (js ''exists'', UBool True),
      (js ''declarativeAliasAllowed'', UBool True), (js ''sideEffects'', UBool False), (js ''risk'', UText (js ''none'')),
      (js ''confirmationRequired'', UBool False), (js ''exposesSecrets'', UBool False),
      (js ''exposesCredentials'', UBool False), (js ''exposesPaths'', UBool False),
      (js ''inputSchema'', dataFields [(js ''q'', demoField)]), (js ''requiredCapability'', UText (js ''workspace.read''))]"

definition demoBinding :: "unknown" where
  "demoBinding = dataFields
     [(js ''compositionId'', UText (js ''host'')), (js ''openslackVersion'', UText (js ''1.2.0'')),
      (js ''gateIds'', UArray [Some (UText (js ''g''))]),
      (js ''targets'', dataFields [(js ''actions'', UArray [Some demoSeed])])]"

definition demoContribution :: "unknown" where
  "demoContribution = dataFields
     [(js ''kind'', UText (js ''action_alias'')), (js ''id'', UText (js ''find'')),
      (js ''target'', dataFields [(js ''kind'', UText (js ''host_action'')), (js ''id'', UText (js ''list''))]),
      (js ''inputs'', dataFields [(js ''text'', demoField)]),
      (js ''inputMapping'', dataFields
         [(js ''q'', dataFields [(js ''kind'', UText (js ''input'')), (js ''name'', UText (js ''text''))])])]"

definition demoEntry :: PluginLockEntry where
  "demoEntry = \<lparr>le_id = js ''crm'', le_version = js ''1.0.0'', le_providerKind = PluginProvider,
     le_sourceRef = js ''s'', le_manifestSha256 = js ''h'', le_requestedGateMode = Enforce\<rparr>"

definition demoLoaded :: LoadedPluginManifest where
  "demoLoaded = \<lparr>lm_providerKind = PluginProvider, lm_pluginId = js ''crm'', lm_sourceRef = js ''s'',
     lm_gateMode = Enforce,
     lm_manifest = \<lparr>mf_version = js ''1.0.0'', mf_openslack = js ''^1.0.0'', mf_gateMode = Enforce,
       mf_gateId = js ''g'', mf_capabilities = [js ''workspace.read''], mf_contributes = [demoContribution]\<rparr>,
     lm_manifestSha256 = js ''h''\<rparr>"

definition demoBuilt :: "HostSetupError + BuiltHost" where
  "demoBuilt =
     check_bind (constructHost (\<lambda>t. True) 0 demoBinding UUndefined (\<lambda>i n. js ''t0'')) (\<lambda>b.
     loadInstalledPlugin [demoEntry] (js ''crm'') (\<lambda>e. Inr demoLoaded) (\<lambda>n. js ''t0'') b b)"

lemma demo_patterns:
  "rx_matches hostIdPattern (js ''host'')" "rx_matches hostIdPattern (js ''g'')" "rx_matches hostIdPattern (js ''list'')"
  "rx_matches versionPattern (js ''1.2.0'')"
  unfolding rx_test_matches [symmetric] by code_simp+

definition demoTarget1 :: HostActionTargetFacts where
  "demoTarget1 =
     \<lparr>ht_id = js ''list'', ht_exists = True, ht_declarativeAliasAllowed = True, ht_sideEffects = False,
      ht_risk = RiskNone, ht_confirmationRequired = False, ht_exposesSecrets = False,
      ht_exposesCredentials = False, ht_exposesPaths = False,
      ht_inputSchema = [(js ''q'', \<lparr>hf_type = TextInput, hf_required = True\<rparr>)],
      ht_requiredCapability = js ''workspace.read''\<rparr>"

lemma readProperties_data:
  "\<forall>(k, v) \<in> set kvs. ok k \<Longrightarrow>
   readProperties ok e f (map (\<lambda>(k, v). (StringKey k, True, Some v)) kvs) = Inr kvs"
  by (induction kvs) auto

lemma dataRecord_data: "dataRecord (dataFields kvs) = Some kvs"
  by (simp add: dataRecord_def dataFields_def readProperties_data)

lemmas demo_eval = dataRecord_data isLiteral_def isBool_def propertyOf_def orDefault_def Let_def

lemma demo_schema: "cloneInputSchema (dataFields [(js ''q'', demoField)]) = Inr (ht_inputSchema demoTarget1)"
  by (simp add: cloneInputSchema_def cloneInputField_def demoField_def demo_eval inputTypeOf_def exactKeys_def
      demoTarget1_def safeField_def is_letter_def forbiddenName_def forbiddenMappingNames_def toLowerCase_def
      lower_char_def js_def)

lemma demo_seed:
  "cloneTarget True demoSeed = Inr (HostAliasTargetFacts.truncate demoTarget1, js ''workspace.read'')"
proof -
  have "\<not> forbiddenAuthorityTarget (js ''list'')" "js ''workspace.read'' \<in> set knownPluginCapabilities" by code_simp+
  with demo_schema demo_patterns show ?thesis
    by (simp add: cloneTarget_def demoSeed_def demo_eval exactKeys_def targetBaseFields_def targetIdentity_def
        riskOf_def flagProblem_def targetFlags_def noProblem_def HostAliasTargetFacts.truncate_def demoTarget1_def)
qed

definition demoNormal :: NormalizedPluginHostBinding where
  "demoNormal =
     \<lparr>hb_compositionId = js ''host'', hb_openslackVersion = js ''1.2.0'', hb_gateIds = [js ''g''],
      hb_targets = \<lparr>hc_actions = [(js ''list'', demoTarget1)], hc_workflows = []\<rparr>\<rparr>"

lemma demo_catalog:
  "createHostTargetCatalog (dataFields [(js ''actions'', UArray [Some demoSeed])]) = Inr (hb_targets demoNormal)"
proof -
  have "actionFacts (HostAliasTargetFacts.truncate demoTarget1, js ''workspace.read'') = demoTarget1"
    by (simp add: actionFacts_def HostAliasTargetFacts.defs HostActionTargetFacts.defs demoTarget1_def)
  moreover have "ht_id demoTarget1 = js ''list''" by (simp add: demoTarget1_def)
  ultimately show ?thesis
    by (simp add: createHostTargetCatalog_def demo_eval denseBoundedArray_def demo_seed demoNormal_def)
qed

lemma exactHostDataRecord_data: "exactHostDataRecord (dataFields kvs) (map fst kvs) summary = Inr kvs"
proof -
  have "\<forall>(k, v) \<in> set kvs. k \<in> fst ` set kvs" by force
  then show ?thesis
    by (auto simp: exactHostDataRecord_def dataFields_def Let_def readProperties_data map_of_eq_None_iff)
qed

lemma demo_texts:
  "safeHostString (UText (js ''host'')) f 128 hostIdPattern = Inr (js ''host'')"
  "safeHostString (UText (js ''g'')) f 128 hostIdPattern = Inr (js ''g'')"
  "safeHostString (UText (js ''1.2.0'')) f 32 versionPattern = Inr (js ''1.2.0'')"
proof -
  have "safeText (js ''host'') \<and> safeText (js ''g'') \<and> safeText (js ''1.2.0'')"
    "codePoints (js ''host'') = 4" "codePoints (js ''g'') = 1" "codePoints (js ''1.2.0'') = 5" by code_simp+
  with demo_patterns show "safeHostString (UText (js ''host'')) f 128 hostIdPattern = Inr (js ''host'')"
    "safeHostString (UText (js ''g'')) f 128 hostIdPattern = Inr (js ''g'')"
    "safeHostString (UText (js ''1.2.0'')) f 32 versionPattern = Inr (js ''1.2.0'')"
    by (simp_all add: safeHostString_def safeText_def)
qed

lemma demo_binding: "normalizeBinding demoBinding = Inr demoNormal"
  unfolding normalizeBinding_def demoBinding_def
  using exactHostDataRecord_data [of "[(js ''compositionId'', UText (js ''host'')),
      (js ''openslackVersion'', UText (js ''1.2.0'')), (js ''gateIds'', UArray [Some (UText (js ''g''))]),
      (js ''targets'', dataFields [(js ''actions'', UArray [Some demoSeed])])]"]
  by (simp add: demo_catalog demo_texts propertyOf_def exactHostDataArray_def) (simp add: demoNormal_def)

text \<open>The alias, and what is registered of it.\<close>

definition demoFind :: DeclarativeActionAlias where
  "demoFind =
     \<lparr>da_id = js ''find'', da_inputs = Some [(js ''text'', \<lparr>id_type = TextInput, id_required = Some True\<rparr>)],
      da_inputMapping = Some [(js ''q'', NamedInput (js ''text''))]\<rparr>"

lemma demo_input: "inputDefinitionOf demoField = Some \<lparr>id_type = TextInput, id_required = Some True\<rparr>"
  by (simp add: inputDefinitionOf_def demoField_def demo_eval inputTypeOf_def)

lemma dataFields_shape [simp]: "dataFields kvs \<noteq> UUndefined" "dataFields kvs \<noteq> UNull"
  by (simp_all add: dataFields_def)

lemma demo_alias:
  "assertDeclarativeAlias demoContribution (hb_targets demoNormal) p = Inr (ActionAliasOf demoContribution demoTarget1)"
  "readAlias demoContribution = Some demoFind"
proof -
  have names: "\<not> forbiddenName (js ''text'')" "\<not> forbiddenName (js ''q'')" by code_simp+
  show "readAlias demoContribution = Some demoFind"
    by (simp add: readAlias_def demoContribution_def demo_eval readFields_def demo_input readBinding_def
        bindingShape_def textField_def demoFind_def)
  show "assertDeclarativeAlias demoContribution (hb_targets demoNormal) p
      = Inr (ActionAliasOf demoContribution demoTarget1)"
    by (simp add: assertDeclarativeAlias_def validateDeclarativeAlias_def demoContribution_def demo_eval
        textField_def targetReference_def aliasTargetFindings_def demoNormal_def targetSafetyFindings_def
        demoTarget1_def validateMappings_def demo_input names mappingFindings_def namedFindings_def bindingShape_def
        schemaFindings_def)
qed

definition demoBatchOf :: HostBatch where
  "demoBatchOf =
     \<lparr>pb_plugin = \<lparr>rp_id = js ''crm'', rp_version = js ''1.0.0'', rp_providerKind = PluginProvider,
        rp_sourceRef = js ''s'', rp_value = ()\<rparr>,
      pb_actionAliases = Some [\<lparr>rc_localId = js ''find'', rc_value = ResolvedAlias True demoFind demoTarget1\<rparr>],
      pb_workflowAliases = Some [], pb_bundledActions = None, pb_bundledWorkflows = None, pb_prmsBlockers = None\<rparr>"

lemma demo_entry:
  "\<exists>r. loadEntry demoNormal (\<lambda>e. Inr demoLoaded) demoEntry (\<lambda>n. js ''t0'') = Inr (r, demoBatchOf)"
proof -
  have "assertCompatibleOpenSlackVersion (js ''1.2.0'') (js ''^1.0.0'') = Inr ()" by code_simp
  moreover have "assertLockMatches demoEntry demoLoaded = Inr ()"
    by (simp add: assertLockMatches_def demoEntry_def demoLoaded_def)
  moreover have "hb_openslackVersion demoNormal = js ''1.2.0''" "hb_gateIds demoNormal = [js ''g'']"
    by (simp_all add: demoNormal_def)
  moreover have "da_id demoFind = js ''find''" by (simp add: demoFind_def)
  ultimately show ?thesis
    by (simp add: loadEntry_def prepareDeclarative_def demo_alias actionAlias_def workflowAlias_def raising_def Let_def
        registeredLifecycle_def lifecycleTransition_def lifecycleController_def demoLoaded_def demoBatchOf_def
        registryPlugin_def declarativeRecord_def)
qed

lemma demo_registry:
  "\<exists>summary reg c. registerBatches (emptyRegistry 0) [demoBatchOf] = Inr (summary, reg)
     \<and> getAction reg (js ''plugin:crm:find'') = Some c"
proof -
  have ids: "validLocalId (js ''find'')" "canonicalPluginContributionId (js ''crm'') (js ''find'') = js ''plugin:crm:find''"
    by code_simp (simp add: canonicalPluginContributionId_def js_def)
  let ?c = "\<lparr>rg_id = js ''plugin:crm:find'', rg_pluginId = js ''crm'', rg_localId = js ''find'', rg_kind = ActionAlias,
    rg_sourceRef = js ''s'', rg_value = ResolvedAlias True demoFind demoTarget1\<rparr>"
  have batches: "normalizeBatches [demoBatchOf] = [\<lparr>nb_plugin = pb_plugin demoBatchOf, nb_actions = [?c],
      nb_workflows = [], nb_prmsBlockers = []\<rparr>]"
    by (simp add: normalizeBatches_def normalizeBatch_def normalizeContribution_def demoBatchOf_def orNone_def ids)
  have "preparedOk (emptyRegistry 0)" by (simp add: preparedOk_def emptyRegistry_def)
  then show ?thesis
  proof (cases rule: registerBatches_cases [where batches = "[demoBatchOf]"])
    case refused
    from refused(2) show ?thesis
      unfolding batches by (simp add: registrable_def pluginsFree_def contributionsFree_def emptyRegistry_def ids
          demo_ids demoBatchOf_def)
  next
    case (registered summary reg')
    then show ?thesis by (simp add: batches getAction_def emptyRegistry_def)
  qed
qed

lemma demo_built:
  "\<exists>b c. reachable (constructed (\<lambda>t. True)) setup_step b \<and> ph_sealed (bh_host b)
     \<and> getAction (ph_registry (bh_host b)) (js ''plugin:crm:find'') = Some c"
proof -
  let ?new = "\<lparr>bh_binding = demoNormal, bh_host = newHost 0 demoNormal\<rparr>"
  have "constructHost (\<lambda>t. True) 0 demoBinding UUndefined (\<lambda>i n. js ''t0'') = Inr ?new"
    by (simp add: constructHost_def demo_binding raising_def orDefault_def exactHostDataArray_def)
  then have start: "reachable (constructed (\<lambda>t. True)) setup_step ?new"
    by (intro reachable_init) (auto simp: constructed_def)
  obtain r where entry: "loadEntry demoNormal (\<lambda>e. Inr demoLoaded) demoEntry (\<lambda>n. js ''t0'') = Inr (r, demoBatchOf)"
    using demo_entry by blast
  obtain summary reg c where reg: "registerBatches (emptyRegistry 0) [demoBatchOf] = Inr (summary, reg)"
    and c: "getAction reg (js ''plugin:crm:find'') = Some c"
    using demo_registry by blast
  let ?loaded = "?new\<lparr>bh_host := (newHost 0 demoNormal)\<lparr>ph_registry := reg, ph_records := [hr_id r \<mapsto> r]\<rparr>\<rparr>"
  have "loadInstalledPlugin [demoEntry] (js ''crm'') (\<lambda>e. Inr demoLoaded) (\<lambda>n. js ''t0'') ?new ?new = Inr ?loaded"
    by (simp add: loadInstalledPlugin_def assertRegistrationOpen_def newHost_def raising_def lockEntryFor_def
        demoEntry_def entry [unfolded demoEntry_def] registerPrepared_def reg)
  from reachable_step [OF start setup_installed [OF refl this]]
  have "reachable (constructed (\<lambda>t. True)) setup_step (seal ?loaded)" by (rule reachable_step) (rule setup_seal)
  moreover have "ph_sealed (bh_host (seal ?loaded))" "ph_registry (bh_host (seal ?loaded)) = reg"
    by (simp_all add: seal_def)
  ultimately show ?thesis using c by metis
qed

text \<open>C17: a host that was built and sealed is a start of its calls. Whatever bundled definitions its
  constructor was given and whatever manifests were loaded, at whatever time, every registered action
  has its target in the catalog of the host; an alias has a target without side effects, risk or
  exposure, and maps every input it accepts to one that fits the target; and every state that calls
  reach from the sealed host is one the properties of the host calls speak of.\<close>

theorem built_host_ready:
  assumes "reachable (constructed isDate) setup_step b" and "ph_sealed (bh_host b)"
  shows "(\<forall>i c. getAction (ph_registry (bh_host b)) i = Some c \<longrightarrow>
      (let t = actionTarget (rg_value c)
       in map_of (ph_targets (bh_host b)) (ht_id t) = Some t
          \<and> (\<forall>isAction a t. rg_value c = ResolvedAlias isAction a t \<longrightarrow>
               readOnlyTarget t \<and> (\<forall>v vs. mapDeclarativeInput a v = Inr vs \<longrightarrow> inputFits t vs))))
    \<and> (\<forall>s. reachable (\<lambda>s. s = hostSystem b) (host_step isDate) s \<longrightarrow> reachable sealedStart (host_step isDate) s)"
proof -
  from building.reachable_inv [OF assms(1)] have ok: "builtOk b" .
  have "let t = actionTarget (rg_value c)
      in map_of (ph_targets (bh_host b)) (ht_id t) = Some t
         \<and> (\<forall>isAction a t. rg_value c = ResolvedAlias isAction a t \<longrightarrow>
              readOnlyTarget t \<and> (\<forall>v vs. mapDeclarativeInput a v = Inr vs \<longrightarrow> inputFits t vs))"
    if "getAction (ph_registry (bh_host b)) i = Some c" for i c
  proof -
    from that ok have "actionsOk (ph_targets (bh_host b)) c"
      by (auto simp: builtOk_def getAction_def Let_def dest: map_of_SomeD)
    then show ?thesis by (auto simp: actionsOk_def preparedAction_def Let_def intro: fitsAlways_input)
  qed
  moreover have "reachable sealedStart (host_step isDate) s"
    if "reachable (\<lambda>s. s = hostSystem b) (host_step isDate) s" for s
    using that by induction (auto intro: reachable_init reachable_step builtOk_start [OF ok assms(2)])
  ultimately show ?thesis by blast
qed

theorem built_host_ready_witness:
  "\<exists>b c. reachable (constructed (\<lambda>t. True)) setup_step b \<and> getAction (ph_registry (bh_host b)) (js ''plugin:crm:find'') = Some c
     \<and> map_of (ph_targets (bh_host b)) (ht_id (actionTarget (rg_value c))) = Some (actionTarget (rg_value c))
     \<and> reachable sealedStart (host_step (\<lambda>t. True)) (hostSystem b)"
proof -
  obtain b c where b: "reachable (constructed (\<lambda>t. True)) setup_step b" "ph_sealed (bh_host b)"
    "getAction (ph_registry (bh_host b)) (js ''plugin:crm:find'') = Some c"
    using demo_built by blast
  from built_host_ready [OF b(1, 2)] b(3)
  have "map_of (ph_targets (bh_host b)) (ht_id (actionTarget (rg_value c))) = Some (actionTarget (rg_value c))"
    "reachable sealedStart (host_step (\<lambda>t. True)) (hostSystem b)"
    by (auto simp: Let_def intro: reachable_init)
  with b show ?thesis by blast
qed

section \<open>Version ranges\<close>

text \<open>C23: what a range of versions means. Written out, a version of the host satisfies a list of
  comparators exactly when it is in the range of each: equal to the version of the comparator, before
  or after it in the order of the three numbers, for a tilde with the same first two numbers and no
  earlier, for a caret no earlier and with the same numbers up to the first that is not zero.\<close>

theorem version_range_meaning:
  assumes "smallVersion v" and "cs \<noteq> []" and "\<forall>c \<in> set cs. smallVersion (snd c)"
  shows "assertCompatibleOpenSlackVersion (versionText v) (rangeText cs) = Inr () \<longleftrightarrow> (\<forall>c \<in> set cs. inRange v c)"
proof -
  have "parseVersion (versionText v) = Some v"
    unfolding parseVersion_def using assms(1) js_nat_plain by (rule versionNumbers_text)
  moreover have "comparatorText c \<noteq> []" for c by (cases "fst c") (simp_all add: comparatorText_def js_def)
  moreover have "satisfiesComparator v (comparatorText c) \<longleftrightarrow> inRange v c" if "c \<in> set cs" for c
    using satisfiesComparator_text [of "snd c" v "fst c"] assms(3) that by simp
  ultimately show ?thesis by (simp add: assertCompatibleOpenSlackVersion_def rangeText_split [OF assms(2)])
qed

theorem version_range_meaning_witness:
  "let v = \<lparr>major = 0, minor = 2, patch = 7\<rparr>; next = \<lparr>major = 0, minor = 3, patch = 0\<rparr>;
       cs = [(Caret, \<lparr>major = 0, minor = 2, patch = 3\<rparr>), (Less, \<lparr>major = 1, minor = 0, patch = 0\<rparr>)]
   in assertCompatibleOpenSlackVersion (versionText v) (rangeText cs) = Inr ()
      \<and> assertCompatibleOpenSlackVersion (versionText next) (rangeText cs) \<noteq> Inr ()"
  using version_range_meaning [of "\<lparr>major = 0, minor = 2, patch = 7\<rparr>"
      "[(Caret, \<lparr>major = 0, minor = 2, patch = 3\<rparr>), (Less, \<lparr>major = 1, minor = 0, patch = 0\<rparr>)]"]
    version_range_meaning [of "\<lparr>major = 0, minor = 3, patch = 0\<rparr>"
      "[(Caret, \<lparr>major = 0, minor = 2, patch = 3\<rparr>), (Less, \<lparr>major = 1, minor = 0, patch = 0\<rparr>)]"]
  by (simp add: smallVersion_def inRange_def precedes_def)

section \<open>Bundled plugins\<close>

text \<open>C19: what a definition of a bundled plugin can be. One that is accepted has an identifier that the
  registry takes; its capabilities, but for the holes of their array, are known ones, none twice; it has
  at most 64 contributions, all with valid identifiers, none twice for the same kind (an action and a
  workflow may share one), and for each of them the capability that its kind needs.\<close>

theorem bundled_definition_sound:
  assumes "normalizeBundledPluginDefinition v = Inr d"
  shows "validPluginId (bp_id d)
    \<and> (\<forall>c. Some c \<in> set (bp_requestedCapabilities d) \<longrightarrow> c \<in> set policyCapabilities)
    \<and> distinct (concat (map (\<lambda>t. case t of None \<Rightarrow> [] | Some c \<Rightarrow> [c]) (bp_requestedCapabilities d)))
    \<and> length (bp_contributions d) \<le> 64
    \<and> distinct (map (\<lambda>c. (contributionKind c, contributionLocalId c)) (bp_contributions d))
    \<and> (\<forall>c \<in> set (bp_contributions d). validLocalId (contributionLocalId c)
         \<and> Some (case contributionKind c of
               BundledAction \<Rightarrow> js ''host.actions.plan''
             | BundledWorkflow \<Rightarrow> js ''host.workflows.contribute''
             | _ \<Rightarrow> js ''prms.blockers.append'') \<in> set (bp_requestedCapabilities d))"
proof -
  from assms obtain items capabilities
    where identity: "rx_matches localIdPattern (bp_id d)" "codePoints (bp_id d) \<le> 64"
        "bp_id d \<notin> set reservedPluginIds" "\<not> startsWith (bp_id d) (js ''openslack-'')"
      and capabilities: "checkItems bundledCapability 0 [] capabilities = Inr (bp_requestedCapabilities d)"
      and items: "length items \<le> 64" "bundledContributions 0 [] items = Inr (bp_contributions d)"
      and needs: "firstProblem (kindCapabilityProblem (bp_contributions d) (bp_requestedCapabilities d)) neededCapabilities
        = None"
    by (rule normalizeBundled_Inr)
  from identity have "validPluginId (bp_id d)" by (simp add: validPluginId_def localIdPattern_plain)
  moreover note checkItems_capabilities [OF capabilities]
  moreover note contributions = bundledContributions_Inr [OF items(2)]
  moreover have "Some (case contributionKind c of
        BundledAction \<Rightarrow> js ''host.actions.plan'' | BundledWorkflow \<Rightarrow> js ''host.workflows.contribute''
      | _ \<Rightarrow> js ''prms.blockers.append'') \<in> set (bp_requestedCapabilities d)"
    if "c \<in> set (bp_contributions d)" for c
  proof -
    from that have "contributionKind c \<in> contributionKind ` set (bp_contributions d)" by simp
    moreover from that contributions have "contributionKind c \<in> {BundledAction, BundledWorkflow, PrmsBlocker}" by blast
    ultimately show ?thesis
      using needs [unfolded firstProblem_None neededCapabilities_def]
      by (cases "contributionKind c") (simp_all add: kindCapabilityProblem_None)
  qed
  ultimately show ?thesis using items(1) by auto
qed

section \<open>Witnesses\<close>

definition demoDefinition :: unknown where
  "demoDefinition = dataFields
     [(js ''providerKind'', UText (js ''bundled'')), (js ''id'', UText (js ''crm'')),
      (js ''version'', UText (js ''1.0.0'')), (js ''name'', UText (js ''CRM'')),
      (js ''requires'', dataFields [(js ''openslack'', UText (js ''1.0.0''))]),
      (js ''gate'', dataFields [(js ''mode'', UText (js ''ENFORCE'')), (js ''gateId'', UText (js ''g''))]),
      (js ''requestedCapabilities'', UArray [Some (UText (js ''prms.blockers.append''))]),
      (js ''contributions'', UArray [Some (dataFields [(js ''kind'', UText (js ''prms_blocker'')),
         (js ''id'', UText (js ''b'')), (js ''evaluate'', UFunction 1)])])]"

theorem bundled_definition_sound_witness:
  "\<exists>d. normalizeBundledPluginDefinition demoDefinition = Inr d \<and> validPluginId (bp_id d)"
proof -
  have "case normalizeBundledPluginDefinition demoDefinition of Inl e \<Rightarrow> False | Inr d \<Rightarrow> True" by code_simp
  then obtain d where d: "normalizeBundledPluginDefinition demoDefinition = Inr d" by (auto split: sum.splits)
  with bundled_definition_sound [OF d] show ?thesis by blast
qed

end
