(* ===== verification/PrmsBlockerProperties.thy ===== *)
theory PrmsBlockerProperties
  imports PrmsBlockers HostSetupProperties
begin

text \<open>
  What reaches the gate of a pull request from plugins: the blockers of an evaluation, and the copy of
  the report that an evaluator gets.
\<close>

section \<open>Blockers\<close>

lemma normalized_length:
  assumes "normalizePrmsBlockerResult raw = Inr bs"
  shows "length bs \<le> 100"
proof -
  from assms obtain own items
    where items: "boundedList (propertyOf own (js ''blockers'')) 0 100
        (failBundled PLUGIN_HOST_PRMS_RESULT_INVALID (js ''/blockers'') ''Blockers must be a bounded array.'') = Inr items"
      and bs: "normalizeBlockers 0 items = Inr bs"
    unfolding normalizePrmsBlockerResult_def check_bind_Inr by blast
  from boundedList_Inr [OF items] normalizeBlockers_length [OF bs] show ?thesis by simp
qed

text \<open>The turns of an evaluation that ended, and what they added.\<close>

lemma evaluation_turns:
  assumes "evaluationRun evaluate later (snd (evaluatePrmsBlockers start report)) = Some (Inr (EvaluatedBlockers bs))"
    and "turns = evaluationTurns report (listPrmsBlockers (ph_registry start)) start later"
  shows "map snd turns = listPrmsBlockers (ph_registry start)"
    and "(h, registered) \<in> set turns \<Longrightarrow>
      \<exists>out. blockerTurn report evaluate (h, registered) = Inr out \<and> set out \<subseteq> set bs"
    and "b \<in> set bs \<Longrightarrow> \<exists>(h, registered) \<in> set turns.
      \<exists>out. blockerTurn report evaluate (h, registered) = Inr out \<and> b \<in> set out"
proof -
  from assms(1) have "evaluationRun evaluate later (snd (evaluateNext report (listPrmsBlockers (ph_registry start)) [] start))
      = Some (Inr (EvaluatedBlockers bs))"
    by (simp add: evaluatePrmsBlockers_def split: sum.splits)
  from evaluation_refines [OF this] show "map snd turns = listPrmsBlockers (ph_registry start)"
    and "(h, registered) \<in> set turns \<Longrightarrow>
      \<exists>out. blockerTurn report evaluate (h, registered) = Inr out \<and> set out \<subseteq> set bs"
    and "b \<in> set bs \<Longrightarrow> \<exists>(h, registered) \<in> set turns.
      \<exists>out. blockerTurn report evaluate (h, registered) = Inr out \<and> b \<in> set out"
    unfolding assms(2) by (fastforce split: sum.splits dest: check_all_zip check_all_from)+
qed

lemma turn_closed:
  assumes "blockerTurn report evaluate (h, registered) = Inr out" and "set out \<subseteq> set bs"
    and "hostRecord h (rg_pluginId registered) = Some r" and "evaluatesWith h r effective evidence"
  shows "(\<exists>invalid. Some (failureBlocker r registered invalid) \<in> set bs)
    \<or> (\<exists>p raw accepted. projectPrmsReport report (\<lambda>name. None) = Inr p
         \<and> evaluate (rg_value registered) p effective evidence = EvaluatorReturns raw
         \<and> normalizePrmsBlockerResult raw = Inr accepted \<and> length accepted \<le> 100 \<and> set accepted \<subseteq> set bs)"
proof -
  let ?answer = "\<lambda>p. evaluate (rg_value registered) p effective evidence"
  from assms(1, 2) blockerTurn_evaluates [OF assms(3,4)]
  have "set (evaluatedBlockers r registered report ?answer) \<subseteq> set bs" by simp
  with evaluatedBlockers_closed [of r registered report ?answer] normalized_length show ?thesis by blast
qed

text \<open>C18: blockers fail closed and carry no authority. Whatever other calls do to the host while the
  evaluators of an evaluation are awaited, when it ends every registered blocker has had its turn. An
  entry of the result that is not undefined is the failure blocker of a registered blocker, or has a
  bounded code in upper case without a word of approval, passing or mergeability, and bounded texts free
  of control and bidirectional characters; an undefined entry comes from a hole in a result that the
  validation accepted. A plugin in \<open>ENFORCE\<close> mode that is being activated or deactivated at its turn
  yields its failure blocker. One that is active, with the capability, yields its failure blocker too,
  unless the report could be projected and its evaluator answered with a result of at most a hundred
  entries that passed the validation; then all of them are in the result.\<close>

theorem blockers_fail_closed:
  assumes "evaluationRun evaluate later (snd (evaluatePrmsBlockers start report)) = Some (Inr (EvaluatedBlockers bs))"
    and "turns = evaluationTurns report (listPrmsBlockers (ph_registry start)) start later"
  shows "map snd turns = listPrmsBlockers (ph_registry start)
    \<and> (\<forall>b. Some b \<in> set bs \<longrightarrow>
         (\<exists>(h, registered) \<in> set turns. \<exists>r invalid.
            hostRecord h (rg_pluginId registered) = Some r \<and> b = failureBlocker r registered invalid)
         \<or> rx_matches blockerCodePattern (bf_code b) \<and> codePoints (bf_code b) \<le> 128
           \<and> (\<forall>w \<in> set authorityWords. \<nexists>s t. bf_code b = s @ w @ t
                \<and> (s = [] \<or> last s = 95) \<and> (t = [] \<or> hd t = 95))
           \<and> safeText (bf_summary b) \<and> codePoints (bf_summary b) \<le> 512
           \<and> (\<forall>d. bf_detail b = Some d \<longrightarrow> safeText d \<and> codePoints d \<le> 2048))
    \<and> (None \<in> set bs \<longrightarrow>
         (\<exists>(h, registered) \<in> set turns. \<exists>p effective evidence raw accepted.
            projectPrmsReport report (\<lambda>name. None) = Inr p
            \<and> evaluate (rg_value registered) p effective evidence = EvaluatorReturns raw
            \<and> normalizePrmsBlockerResult raw = Inr accepted \<and> None \<in> set accepted))
    \<and> (\<forall>(h, registered) \<in> set turns. \<forall>r.
         hostRecord h (rg_pluginId registered) = Some r \<longrightarrow>
         (enforcesBlockers r \<and> hr_id r \<in> ph_lifecycleOps h \<longrightarrow>
            Some (failureBlocker r registered False) \<in> set bs)
         \<and> (\<forall>effective evidence. evaluatesWith h r effective evidence \<longrightarrow>
              (\<exists>invalid. Some (failureBlocker r registered invalid) \<in> set bs)
              \<or> (\<exists>p raw accepted. projectPrmsReport report (\<lambda>name. None) = Inr p
                   \<and> evaluate (rg_value registered) p effective evidence = EvaluatorReturns raw
                   \<and> normalizePrmsBlockerResult raw = Inr accepted \<and> length accepted \<le> 100
                   \<and> set accepted \<subseteq> set bs)))"
proof (intro conjI)
  note turns = evaluation_turns [OF assms]
  show "map snd turns = listPrmsBlockers (ph_registry start)" by (rule turns(1))
  show "\<forall>b. Some b \<in> set bs \<longrightarrow>
         (\<exists>(h, registered) \<in> set turns. \<exists>r invalid.
            hostRecord h (rg_pluginId registered) = Some r \<and> b = failureBlocker r registered invalid)
         \<or> rx_matches blockerCodePattern (bf_code b) \<and> codePoints (bf_code b) \<le> 128
           \<and> (\<forall>w \<in> set authorityWords. \<nexists>s t. bf_code b = s @ w @ t
                \<and> (s = [] \<or> last s = 95) \<and> (t = [] \<or> hd t = 95))
           \<and> safeText (bf_summary b) \<and> codePoints (bf_summary b) \<le> 512
           \<and> (\<forall>d. bf_detail b = Some d \<longrightarrow> safeText d \<and> codePoints d \<le> 2048)"
    using turns(3) blockerTurn_entries unfolding blockerSafe_def by fast
  show "None \<in> set bs \<longrightarrow>
         (\<exists>(h, registered) \<in> set turns. \<exists>p effective evidence raw accepted.
            projectPrmsReport report (\<lambda>name. None) = Inr p
            \<and> evaluate (rg_value registered) p effective evidence = EvaluatorReturns raw
            \<and> normalizePrmsBlockerResult raw = Inr accepted \<and> None \<in> set accepted)"
    using turns(3) blockerTurn_undefined by fast
  have "Some (failureBlocker r registered False) \<in> set bs"
    if "(h, registered) \<in> set turns" "hostRecord h (rg_pluginId registered) = Some r" "enforcesBlockers r"
      "hr_id r \<in> ph_lifecycleOps h" for h registered r
    using turns(2) [OF that(1)] blockerTurn_busy [OF that(2-4)] by simp
  then show "\<forall>(h, registered) \<in> set turns. \<forall>r.
         hostRecord h (rg_pluginId registered) = Some r \<longrightarrow>
         (enforcesBlockers r \<and> hr_id r \<in> ph_lifecycleOps h \<longrightarrow>
            Some (failureBlocker r registered False) \<in> set bs)
         \<and> (\<forall>effective evidence. evaluatesWith h r effective evidence \<longrightarrow>
              (\<exists>invalid. Some (failureBlocker r registered invalid) \<in> set bs)
              \<or> (\<exists>p raw accepted. projectPrmsReport report (\<lambda>name. None) = Inr p
                   \<and> evaluate (rg_value registered) p effective evidence = EvaluatorReturns raw
                   \<and> normalizePrmsBlockerResult raw = Inr accepted \<and> length accepted \<le> 100
                   \<and> set accepted \<subseteq> set bs))"
    using turns(2) turn_closed by blast
qed

text \<open>Two plugins with a blocker each: one is active, the other is being deactivated.\<close>

definition blockerPlugin :: "string \<Rightarrow> HostPluginRecord" where
  "blockerPlugin i =
     \<lparr>hr_id = js i, hr_version = js ''1.0.0'', hr_providerKind = BundledProvider, hr_sourceRef = js ''host'',
      hr_gateMode = Enforce, hr_gateId = js ''g'', hr_requested = [js ''prms.blockers.append''],
      hr_kind = BundledRecord demoAccepted [PrmsBlocker] False False,
      hr_lifecycle = (lifecycleController (js i) (js ''t0''))\<lparr>ls_state := Activated\<rparr>,
      hr_effective = Some [js ''prms.blockers.append''], hr_evidence = Some demoAccepted\<rparr>"

definition blockerOf :: "string \<Rightarrow> nat \<Rightarrow> nat Registered" where
  "blockerOf i f =
     \<lparr>rg_id = js ''plugin:'' @ js i, rg_pluginId = js i, rg_localId = js ''b'', rg_kind = PrmsBlocker,
      rg_sourceRef = js ''host'', rg_value = f\<rparr>"

definition blockerHost :: "(HostRegisteredWorkflow, nat) PluginHost" where
  "blockerHost = (newHost 0 demoNormal)
     \<lparr>ph_sealed := True,
      ph_registry := (emptyRegistry 0)
        \<lparr>rs_plugins := map (\<lambda>i. (js i, \<lparr>rp_id = js i, rp_version = js ''1.0.0'', rp_providerKind = BundledProvider,
            rp_sourceRef = js ''host'', rp_value = ()\<rparr>)) [''a'', ''b''],
         rs_prmsBlockers := map (\<lambda>(i, f). (rg_id (blockerOf i f), blockerOf i f)) [(''a'', 3), (''b'', 2)]\<rparr>,
      ph_records := [js ''a'' \<mapsto> blockerPlugin ''a'', js ''b'' \<mapsto> blockerPlugin ''b''],
      ph_lifecycleOps := {js ''b''}\<rparr>"

definition demoResult :: unknown where
  "demoResult = dataFields
     [(js ''blockers'', UArray [Some (dataFields [(js ''kind'', UText (js ''blocker'')),
         (js ''code'', UText (js ''BAD_PASSWORD'')), (js ''summary'', UText (js ''weak''))])])]"

definition demoBlocker :: BlockingFinding where
  "demoBlocker = \<lparr>bf_code = js ''BAD_PASSWORD'', bf_summary = js ''weak'', bf_detail = None\<rparr>"

lemma default_limits: "resolvePrmsProjectionLimits (\<lambda>name. None) = Inr defaultPrmsProjectionLimits"
  by (simp add: resolvePrmsProjectionLimits_def boundedPositiveInteger_def defaultPrmsProjectionLimits_def)

lemma default_depth [simp]: "pl_maxDepth defaultPrmsProjectionLimits = 32"
  by (simp add: defaultPrmsProjectionLimits_def)

lemma demo_null:
  "projectValue defaultPrmsProjectionLimits (Suc levels) UNull path \<lparr>ps_nodes = 0, ps_totalStringLength = 0\<rparr>
    = Inr (UNull, \<lparr>ps_nodes = 1, ps_totalStringLength = 0\<rparr>)"
  by (simp add: projectValue_Suc countNode_def defaultPrmsProjectionLimits_def)

lemma demo_result: "normalizePrmsBlockerResult demoResult = Inr [Some demoBlocker]"
  by code_simp

lemma blockerHost_blockers:
  "listPrmsBlockers (ph_registry blockerHost) = [blockerOf ''a'' 3, blockerOf ''b'' 2]"
  "hostRecord blockerHost (js ''a'') = Some (blockerPlugin ''a'')"
  "hostRecord blockerHost (js ''b'') = Some (blockerPlugin ''b'')"
  by (simp_all add: listPrmsBlockers_def blockerHost_def newHost_def emptyRegistry_def blockerOf_def hostRecord_def
      getPlugin_def js_def)

text \<open>The evaluator of the first plugin is awaited; the second plugin is busy at its turn.\<close>

definition blockerRelease :: "(HostRegisteredWorkflow, nat) PluginHost" where
  "blockerRelease = endExecutionOperation (js ''a'') blockerHost"

lemma blockerHost_contexts:
  "evaluationContext (blockerPlugin i) = Some ([js ''prms.blockers.append''], demoAccepted)"
  "enforcesBlockers (blockerPlugin i)" "hr_id (blockerPlugin i) = js i" "rg_pluginId (blockerOf i f) = js i"
  by (simp_all add: evaluationContext_def enforcesBlockers_def isBundled_def blockerPlugin_def blockerOf_def
      lifecycleController_def)

lemma blockerHost_steps:
  "beginTurn blockerHost (blockerOf ''a'' 3)
     = Inr (Asks (blockerPlugin ''a'') [js ''prms.blockers.append''] demoAccepted)"
  "beginTurn blockerRelease (blockerOf ''b'' 2)
     = Inr (Passed [Some (failureBlocker (blockerPlugin ''b'') (blockerOf ''b'' 2) False)])"
  "\<exists>h. beginExecutionOperation blockerHost (js ''a'') (Some (rg_id (blockerOf ''a'' 3))) = Inr h"
proof -
  have busy: "ph_lifecycleOps blockerHost = {js ''b''}" "ph_lifecycleOps blockerRelease = {js ''b''}"
    by (simp_all add: blockerHost_def blockerRelease_def)
  have "js ''a'' \<noteq> js ''b''" by (simp add: js_def)
  moreover have "hostRecord blockerRelease = hostRecord blockerHost" by (simp add: blockerRelease_def)
  ultimately show "beginTurn blockerHost (blockerOf ''a'' 3)
     = Inr (Asks (blockerPlugin ''a'') [js ''prms.blockers.append''] demoAccepted)"
    and "beginTurn blockerRelease (blockerOf ''b'' 2)
     = Inr (Passed [Some (failureBlocker (blockerPlugin ''b'') (blockerOf ''b'' 2) False)])"
    and "\<exists>h. beginExecutionOperation blockerHost (js ''a'') (Some (rg_id (blockerOf ''a'' 3))) = Inr h"
    by (simp_all add: beginTurn_def findRecord_def blockerHost_blockers blockerHost_contexts busy
        beginExecutionOperation_def)
qed

lemma empty_report: "projectPrmsReport UNull (\<lambda>name. None) = Inr UNull"
  using demo_null [of 31] by (simp add: projectPrmsReport_def default_limits)

theorem blockers_fail_closed_witness:
  "\<exists>bs. evaluationRun (\<lambda>f p effective evidence. EvaluatorReturns demoResult) [blockerHost]
        (snd (evaluatePrmsBlockers blockerHost UNull)) = Some (Inr (EvaluatedBlockers bs))
     \<and> Some demoBlocker \<in> set bs
     \<and> Some (failureBlocker (blockerPlugin ''b'') (blockerOf ''b'' 2) False) \<in> set bs"
proof -
  let ?f = "failureBlocker (blockerPlugin ''b'') (blockerOf ''b'' 2) False"
  let ?turns = "evaluationTurns UNull (listPrmsBlockers (ph_registry blockerHost)) blockerHost [blockerHost]"
  have sealed: "ph_sealed blockerHost" by (simp add: blockerHost_def)
  obtain h where h: "beginExecutionOperation blockerHost (js ''a'') (Some (rg_id (blockerOf ''a'' 3))) = Inr h"
    using blockerHost_steps(3) by blast
  note steps = blockerHost_steps(1, 2) [unfolded blockerRelease_def] h empty_report blockerHost_contexts(3)
  have run: "evaluationRun (\<lambda>f p effective evidence. EvaluatorReturns demoResult) [blockerHost]
      (snd (evaluatePrmsBlockers blockerHost UNull))
    = Some (Inr (EvaluatedBlockers (sortBlockers [Some demoBlocker, Some ?f])))"
    by (simp add: evaluatePrmsBlockers_def assertExecutionReady_def sealed blockerHost_blockers(1) steps
        answerEvaluation_def answeredBlockers_def demo_result)
  have "(endExecutionOperation (js ''a'') blockerHost, blockerOf ''b'' 2) \<in> set ?turns"
    by (simp add: blockerHost_blockers(1) steps)
  moreover have "hostRecord (endExecutionOperation (js ''a'') blockerHost) (rg_pluginId (blockerOf ''b'' 2))
      = Some (blockerPlugin ''b'')"
    by (simp add: blockerHost_blockers blockerHost_contexts)
  moreover have "enforcesBlockers (blockerPlugin ''b'')"
    "hr_id (blockerPlugin ''b'') \<in> ph_lifecycleOps (endExecutionOperation (js ''a'') blockerHost)"
    by (simp_all add: blockerHost_contexts) (simp add: blockerHost_def)
  ultimately have "Some ?f \<in> set (sortBlockers [Some demoBlocker, Some ?f])"
    using blockers_fail_closed [OF run refl] by fastforce
  with run show ?thesis by (intro exI [of _ "sortBlockers [Some demoBlocker, Some ?f]"]) simp
qed

section \<open>The copy of the report\<close>

text \<open>C35: what a projection is. The copy of a report that an evaluator gets is plain data within the
  limits, which are at most those of the host: bounded in depth and in the lengths of its arrays, objects
  and texts, without a symbol, hidden, empty or dangerous key, without a function and without a number
  that is not finite. Projected again within the same limits it is itself.\<close>

theorem projection_fixed_point:
  assumes "projectPrmsReport report limits = Inr p"
  shows "projectPrmsReport p limits = Inr p
    \<and> (\<exists>L. resolvePrmsProjectionLimits limits = Inr L \<and> plainReport L (pl_maxDepth L) p
         \<and> pl_maxDepth L \<le> 32 \<and> pl_maxArrayLength L \<le> 1000 \<and> pl_maxObjectProperties L \<le> 1000
         \<and> pl_maxKeyLength L \<le> 128 \<and> pl_maxStringLength L \<le> 65536)"
proof
  show "projectPrmsReport p limits = Inr p" by (rule projectPrmsReport_again [OF assms])
  from assms obtain L st' where L: "resolvePrmsProjectionLimits limits = Inr L"
    and p: "projectValue L (pl_maxDepth L) report [] \<lparr>ps_nodes = 0, ps_totalStringLength = 0\<rparr> = Inr (p, st')"
    by (auto simp: projectPrmsReport_def)
  from L projectValue_plain [OF p] resolved_limits [OF L]
  show "\<exists>L. resolvePrmsProjectionLimits limits = Inr L \<and> plainReport L (pl_maxDepth L) p
      \<and> pl_maxDepth L \<le> 32 \<and> pl_maxArrayLength L \<le> 1000 \<and> pl_maxObjectProperties L \<le> 1000
      \<and> pl_maxKeyLength L \<le> 128 \<and> pl_maxStringLength L \<le> 65536"
    by blast
qed

lemma demo_report:
  "projectValue defaultPrmsProjectionLimits (Suc (Suc (Suc levels)))
     (UObject True [(StringKey (js ''b''), True, Some (UArray [Some UNull])),
        (StringKey (js ''a''), True, Some (UText (js ''x'')))]) [] \<lparr>ps_nodes = 0, ps_totalStringLength = 0\<rparr>
   = Inr (UObject True [(StringKey (js ''a''), True, Some (UText (js ''x''))),
        (StringKey (js ''b''), True, Some (UArray [Some UNull]))], \<lparr>ps_nodes = 4, ps_totalStringLength = 1\<rparr>)"
proof -
  have keys: "js ''a'' < js ''b''" "toLowerCase (js ''a'') = js ''a''" "toLowerCase (js ''b'') = js ''b''"
    "js ''a'' \<notin> set dangerousKeys" "js ''b'' \<notin> set dangerousKeys" by code_simp+
  have "length (js ''a'') = 1" "length (js ''b'') = 1" "length (js ''x'') = 1" "js ''a'' \<noteq> []" "js ''b'' \<noteq> []"
    by (simp_all add: js_def)
  with keys show ?thesis
    by (simp add: projectValue.simps(2) countNode_def defaultPrmsProjectionLimits_def keyProblem_def fieldKey_def
        projectField_def projectItem_def projectString_def)
qed

theorem projection_fixed_point_witness:
  "let report = UObject True [(StringKey (js ''b''), True, Some (UArray [Some UNull])),
         (StringKey (js ''a''), True, Some (UText (js ''x'')))];
       p = UObject True [(StringKey (js ''a''), True, Some (UText (js ''x''))),
         (StringKey (js ''b''), True, Some (UArray [Some UNull]))]
   in projectPrmsReport report (\<lambda>name. None) = Inr p \<and> projectPrmsReport p (\<lambda>name. None) = Inr p"
proof -
  have "projectPrmsReport (UObject True [(StringKey (js ''b''), True, Some (UArray [Some UNull])),
         (StringKey (js ''a''), True, Some (UText (js ''x'')))]) (\<lambda>name. None)
      = Inr (UObject True [(StringKey (js ''a''), True, Some (UText (js ''x''))),
         (StringKey (js ''b''), True, Some (UArray [Some UNull]))])"
    using demo_report [of 29] by (simp add: projectPrmsReport_def default_limits)
  with projection_fixed_point [OF this] show ?thesis unfolding Let_def by blast
qed

end
