(* ===== verification/Spec2Isabelle.thy ===== *)
theory Spec2Isabelle
  imports KernelProperties AuthorizationProperties LeaseProperties PrProperties GateProperties
    DeliveryProperties DeliveryCredentials ProbeProperties TransportProperties BranchCleanupProperties
    TaskRunnerProperties HostProperties HostSetupProperties PrmsBlockerProperties
begin

text \<open>
  OpenSlack: the policy kernel, the task leases, the pull request gates, the delivery service, the
  task runners and the plugin host.

  OpenSlack lets software agents work on a repository under rules. An agent takes a task by claiming
  a lease on it (\<open>packages/core\<close>); what it may touch is decided by the policy kernel from the paths
  of the change and the snapshot of the agent's permissions (\<open>packages/kernel\<close>); its branch is pushed
  and becomes a pull request through the delivery service (\<open>packages/delivery\<close>); and the pull
  request is merged only when the gates of the merge steward are open (\<open>packages/pr\<close>). Workflows run
  their tasks under a concurrency limit (\<open>packages/workflows\<close>), and plugins contribute actions that a
  host activates and plans under a policy (\<open>packages/plugin-host\<close>). These parts are modelled, each
  from its TypeScript sources.

  Representation. A JavaScript string is the list of its code units (\<open>jstring\<close> in Prelude); a union
  of literals is a datatype, an interface a record; an optional field is an option; a number that
  the code only compares is an integer. A thrown error is the left value of a sum. Code that calls
  services is a computation on the state of the outside world (\<open>io\<close> in Effects) with the laws of its
  weakest preconditions; the services (GitHub, Git, the file system, the clock, SHA-256 and YAML)
  are arguments of the definitions, and each law a property needs of them is a named premise.
  A regular expression of the sources is a value of \<open>rx\<close> with a matcher by derivatives (Regex).

  Theories and code, in the order of the calls:

  \<^item> Prelude, JsText, Regex, Worklist, StepSystem, Effects: strings and text functions, regular
    expressions, worklist loops with their termination, step systems with reachability, effects.
  \<^item> PathGlob, GlobAnalysis: \<open>kernel/src/path-glob.ts\<close>, the glob matcher and the overlap and cover
    analyses over the product of two automata. KernelProperties shows the loops to end, the matcher
    to decide the declarative language \<open>glob_lang\<close>, and the analyses to be exact within the length
    and state limits of the code and safe beyond them.
  \<^item> RiskZones, KernelPolicy, AgentAuthorizer: \<open>zones.ts\<close>, \<open>zone-policy.ts\<close>, \<open>risk.ts\<close>,
    \<open>policy-engine.ts\<close>, \<open>self/classify-pr.ts\<close>, \<open>self/merge-decider.ts\<close> and \<open>agent-authorizer.ts\<close>.
    AuthorizationProperties gives the exact condition of an allowed action and confines what is
    not denied to the allowed paths and risk zones.
  \<^item> ClaimBroker, FileClaimBroker: \<open>core/src/claim-broker.ts\<close>, the broker in memory as explicit state
    passing and the brokers of any number of processes over one state file. A run is a list of
    operations, each the unguarded call of the code, which the lock of the file serialises.
    LeaseProperties: at most one lease is active on a task after every run in which no process
    expires a lease that has already ended (\<open>without_stale_expiry\<close>). The code does not check this, and
    after such an expiry a task can get a second lease while the first is active.
  \<^item> PrTypes, PrGates, Codeowners, ProfileSyncGate, WorkflowGate, PrDoctor, MergeSteward: the types,
    the gates, the diagnosis and the merge of \<open>packages/pr/src\<close>. PrProperties: the diagnosis is
    ready exactly when fourteen gates are open and refines the readiness pre-check, and nothing
    reaches the merge service otherwise. GateProperties: what a passing workflow or profile-sync
    gate guarantees, CODEOWNERS matching and parsing, and the lines that pass the profile-sync gate
    unseen.
  \<^item> DeliveryTypes, DeliveryService, DeliveryCredentials, DeliveryProbe: \<open>types.ts\<close>, \<open>errors.ts\<close>,
    \<open>state-machine.ts\<close>, \<open>permission-diagnostics.ts\<close>, \<open>service.ts\<close> and \<open>probe.ts\<close> of
    \<open>packages/delivery/src\<close>. DeliveryCorrectness holds the preconditions of every step;
    DeliveryProperties states what a successful delivery guarantees, which errors a failing one
    throws, how often it authenticates and that it pushes first. ProbeProperties: the write probe
    leaves no branch behind unreported.
  \<^item> CleanupRefs, GitTransport, ConditionalDelete, BranchCleanup: the branch names of
    \<open>core/src/task-link.ts\<close>, and \<open>git-transport.ts\<close> and \<open>branch-cleanup.ts\<close> of
    \<open>packages/delivery/src\<close>. TransportCorrectness, TransportPushes and TransportTruth follow the
    token, the pushes and the remote branch through the calls; TransportProperties and
    BranchCleanupProperties: the token never gets into a text, a conditional deletion sends one
    leased push at most, after its own checks of the names, the URL, the commit and the deadline, and
    reports truly; the cleanup of a branch reaches it only behind the checks of the same run.

  \<^item> TaskPool, TaskRunners: the scheduler loop of \<open>parallel-runner.ts\<close> and \<open>pipeline-runner.ts\<close> of
    \<open>packages/workflows/src\<close> as a step relation in which the tasks in flight proceed in any order,
    a locale with the laws of its callers, and the three callers as instances. TaskRunnerProperties:
    every schedule ends, what is returned, and that a complete pipeline is resumed from its cache.
  \<^item> PluginFindings, PluginRegistry, PluginValues, HostValidation, HostCapabilities, PluginLifecycle,
    HostAudit, HostInput, HostTargets, PluginHost, HostCalls: \<open>packages/plugin-host/src\<close>: \<open>findings.ts\<close>, \<open>registries.ts\<close>,
    \<open>host-validation.ts\<close>, \<open>capability-policy.ts\<close>, \<open>lifecycle.ts\<close>, \<open>audit.ts\<close> and \<open>host.ts\<close>. A call
    of the host (\<open>activate\<close>, \<open>deactivate\<close>, \<open>planAction\<close>, \<open>evaluatePrmsBlockers\<close>) that waits for the policy,
    the audit sink or the code of a plugin is a task; any other call may run in between. PluginProperties: the registries; HostTargets also shows that a
    checked alias always maps to an input of its target. PluginHostCorrectness: what each
    segment of a call keeps; PluginHostInvariant: the locks, and every reachable state;
    HostProperties: what an activation, a planned step and the locks guarantee, with the runs of
    HostDemo as witnesses.
  \<^item> HostVersions, BundledPolicy, HostSetup: the version ranges at the end of \<open>host-validation.ts\<close>,
    \<open>bundled-policy.ts\<close>, and the constructor, the loads and the seal of \<open>host.ts\<close> as a step relation.
    HostSetupProperties: every sealed host that was built is a start of the calls above, and its
    actions are prepared; what an accepted bundled definition and a version range mean.
  \<^item> PrmsProjection, PrmsBlockers: \<open>prms-projection.ts\<close> and \<open>evaluatePrmsBlockers\<close> of \<open>host.ts\<close>, which runs
    from one awaited evaluator to the next as a task of HostCalls. \<open>evaluation_refines\<close> relates it to
    what each of its turns contributes; the hosts in which the answers arrive are arbitrary.
    PrmsBlockerProperties: blockers fail closed and carry no authority, and a projection is projected
    to itself.

  A value that a plugin or a caller hands to the host (\<open>unknown\<close> in PluginValues) is a tree; its
  properties are listed in the order of their definition, and an array has no named fields.

  Bounds. The glob analyses stop after the limits the code has (pattern length and visited states);
  their loops, and the matcher's, are functions with a termination proof on the set of states not
  yet visited. The wait for the head of a pull request is a recursion on the attempts that are
  left. The budget of a leased push is the product of a double, rounded as the machine does it.
  Nothing is cut off by fuel.

  Not modelled: case mapping is that of ASCII; a time is the number the code parses from it, and a
  text that does not parse is its own case; the log and report texts of the pull request package;
  the GitHub client of the delivery service, which is a service here; the task link marker;
  proxies, whose properties answer with code; the reading of the plugin lock and of manifests
  from files, with their schema, which leaves the entries and manifests that a host is given; the
  deadline of plugin code, which is one of its errors; and the packages listed in the manifest as
  not modelled: the workflow engine and its authorities, collaboration, operator,
  organization graph and scenario runtime have not been reached, the others are input and output,
  rendering, generated or vendored code.
\<close>

end
